(* ===== verification/Prelude.thy ===== *)
theory Prelude
  imports Main
begin

section \<open>Prelude: results, checks, text helpers\<close>

text \<open>
  What every component shares.  A Python call that may raise is a value of
  \<open>'e + 'a\<close>, \<open>Inl\<close> for the exception.  A validator that is a chain of
  \<^verbatim>\<open>if ...: raise\<close> statements is the ordered list of its conditions with the
  error each raises; \<open>first_error\<close> returns the first that applies, so the
  order of the source is the order of the list.  The text helpers are the
  methods of Python's \<^verbatim>\<open>str\<close> the code uses, on text whose code points are
  below 128 (the identifiers, digests and paths that the code persists).
\<close>

named_theorems contract_simps \<open>definitions that contract proofs unfold\<close>
named_theorems frame_simps \<open>what an operation leaves unchanged\<close>

subsection \<open>Results\<close>

definition bind_result :: "'e + 'a \<Rightarrow> ('a \<Rightarrow> 'e + 'b) \<Rightarrow> 'e + 'b" where
  "bind_result r f = (case r of Inl e \<Rightarrow> Inl e | Inr x \<Rightarrow> f x)"

definition is_ok :: "'e + 'a \<Rightarrow> bool" where
  "is_ok r = (case r of Inl _ \<Rightarrow> False | Inr _ \<Rightarrow> True)"

lemma bind_result_simps [simp]:
  "bind_result (Inl e) f = Inl e"
  "bind_result (Inr x) f = f x"
  by (simp_all add: bind_result_def)

lemma bind_result_Inr:
  "bind_result r f = Inr y \<longleftrightarrow> (\<exists>x. r = Inr x \<and> f x = Inr y)"
  by (cases r) auto

lemma bind_result_InrE:
  "bind_result r f = Inr x \<Longrightarrow> (\<And>y. f y = Inr x \<Longrightarrow> P) \<Longrightarrow> P"
  by (cases r) simp_all

lemma bind_result_Inl:
  "bind_result r f = Inl e \<longleftrightarrow> r = Inl e \<or> (\<exists>x. r = Inr x \<and> f x = Inl e)"
  by (cases r) auto

lemma is_ok_simps [simp]: "\<not> is_ok (Inl e)" "is_ok (Inr x)"
  by (simp_all add: is_ok_def)

lemma is_ok_iff: "is_ok r \<longleftrightarrow> (\<exists>x. r = Inr x)"
  by (cases r) auto

subsection \<open>Ordered checks\<close>

fun first_error :: "(bool \<times> 'e) list \<Rightarrow> 'e option" where
  "first_error [] = None"
| "first_error ((bad, e) # rest) = (if bad then Some e else first_error rest)"

lemma first_error_None: "first_error cs = None \<longleftrightarrow> (\<forall>(bad, e) \<in> set cs. \<not> bad)"
  by (induction cs rule: first_error.induct) auto

lemma first_error_Some:
  "first_error cs = Some e \<Longrightarrow> \<exists>i < length cs. cs ! i = (True, e) \<and> (\<forall>j < i. \<not> fst (cs ! j))"
proof (induction cs rule: first_error.induct)
  case 1
  then show ?case by simp
next
  case (2 bad e' rest)
  show ?case
  proof (cases bad)
    case True
    with 2(2) show ?thesis by auto
  next
    case False
    with 2 obtain i where i: "i < length rest" "rest ! i = (True, e)" "\<forall>j < i. \<not> fst (rest ! j)"
      by auto
    with False have "Suc i < length ((bad, e') # rest)
        \<and> ((bad, e') # rest) ! Suc i = (True, e)
        \<and> (\<forall>j < Suc i. \<not> fst (((bad, e') # rest) ! j))"
      by (auto simp: less_Suc_eq_0_disj)
    then show ?thesis by blast
  qed
qed

lemma first_error_append:
  "first_error (cs @ ds) = (case first_error cs of None \<Rightarrow> first_error ds | Some e \<Rightarrow> Some e)"
  by (induction cs rule: first_error.induct) auto

definition checked :: "(bool \<times> 'e) list \<Rightarrow> 'a \<Rightarrow> 'e + 'a" where
  "checked cs x = (case first_error cs of None \<Rightarrow> Inr x | Some e \<Rightarrow> Inl e)"

lemma checked_Inr: "checked cs x = Inr y \<longleftrightarrow> y = x \<and> (\<forall>(bad, e) \<in> set cs. \<not> bad)"
  by (auto simp: checked_def first_error_None [symmetric] split: option.splits)

lemma checked_Cons [simp]:
  "checked ((bad, e) # cs) x = (if bad then Inl e else checked cs x)"
  by (simp add: checked_def)

lemma checked_Nil [simp]: "checked [] x = Inr x"
  by (simp add: checked_def)

subsection \<open>Lists and options\<close>

definition no_dups :: "'a list \<Rightarrow> bool" where
  \<comment> \<open>\<^verbatim>\<open>len({...}) == len(...)\<close>\<close>
  "no_dups xs \<longleftrightarrow> card (set xs) = length xs"

lemma no_dups_distinct [simp]: "no_dups xs = distinct xs"
  by (metis card_distinct distinct_card no_dups_def)

definition is_prefix :: "'a list \<Rightarrow> 'a list \<Rightarrow> bool" where
  \<comment> \<open>\<^verbatim>\<open>not (len(new) < len(old) or new[:len(old)] != old)\<close>\<close>
  "is_prefix old new \<longleftrightarrow> \<not> (length new < length old \<or> take (length old) new \<noteq> old)"

lemma is_prefix_iff: "is_prefix old new \<longleftrightarrow> (\<exists>ext. new = old @ ext)"
  by (auto simp: is_prefix_def) (metis append_take_drop_id)

lemma is_prefix_refl [simp]: "is_prefix xs xs"
  by (simp add: is_prefix_def)

lemma is_prefix_append [simp]: "is_prefix xs (xs @ ys)"
  by (simp add: is_prefix_def)

lemma is_prefix_trans: "is_prefix xs ys \<Longrightarrow> is_prefix ys zs \<Longrightarrow> is_prefix xs zs"
  by (auto simp: is_prefix_iff)

lemma is_prefix_antisym: "is_prefix xs ys \<Longrightarrow> is_prefix ys xs \<Longrightarrow> xs = ys"
  by (auto simp: is_prefix_iff)

lemma drop_is_prefix: "is_prefix old new \<Longrightarrow> new = old @ drop (length old) new"
  by (auto simp: is_prefix_iff)

definition opt_all :: "('a \<Rightarrow> bool) \<Rightarrow> 'a option \<Rightarrow> bool" where
  "opt_all P x = (case x of None \<Rightarrow> True | Some y \<Rightarrow> P y)"

lemma opt_all_simps [simp]: "opt_all P None" "opt_all P (Some x) = P x"
  by (simp_all add: opt_all_def)

subsection \<open>Text\<close>

definition is_upper :: "char \<Rightarrow> bool" where
  "is_upper c \<longleftrightarrow> 65 \<le> (of_char c :: nat) \<and> (of_char c :: nat) \<le> 90"

definition is_lower :: "char \<Rightarrow> bool" where
  "is_lower c \<longleftrightarrow> 97 \<le> (of_char c :: nat) \<and> (of_char c :: nat) \<le> 122"

definition is_digit :: "char \<Rightarrow> bool" where
  "is_digit c \<longleftrightarrow> 48 \<le> (of_char c :: nat) \<and> (of_char c :: nat) \<le> 57"

definition is_alnum :: "char \<Rightarrow> bool" where
  "is_alnum c \<longleftrightarrow> is_upper c \<or> is_lower c \<or> is_digit c"

definition is_word :: "char \<Rightarrow> bool" where
  "is_word c \<longleftrightarrow> is_alnum c \<or> c = CHR ''_''"

definition is_space :: "char \<Rightarrow> bool" where
  "is_space c \<longleftrightarrow> (of_char c :: nat) \<in> {9, 10, 11, 12, 13, 28, 29, 30, 31, 32}"

definition to_lower_char :: "char \<Rightarrow> char" where
  "to_lower_char c = (if is_upper c then char_of ((of_char c :: nat) + 32) else c)"

definition to_upper_char :: "char \<Rightarrow> char" where
  "to_upper_char c = (if is_lower c then char_of ((of_char c :: nat) - 32) else c)"

definition lower :: "string \<Rightarrow> string" where
  "lower s = map to_lower_char s"

definition upper :: "string \<Rightarrow> string" where
  "upper s = map to_upper_char s"

lemma to_lower_char_idem [simp]: "to_lower_char (to_lower_char c) = to_lower_char c"
  by (auto simp: to_lower_char_def is_upper_def)

lemma lower_lower [simp]: "lower (lower s) = lower s"
  by (simp add: lower_def)

lemma length_lower [simp]: "length (lower s) = length s"
  by (simp add: lower_def)

definition starts_with :: "string \<Rightarrow> string \<Rightarrow> bool" where
  "starts_with p s \<longleftrightarrow> take (length p) s = p"

lemma starts_with_iff: "starts_with p s \<longleftrightarrow> (\<exists>r. s = p @ r)"
  by (auto simp: starts_with_def) (metis append_take_drop_id)

fun split_on :: "char \<Rightarrow> string \<Rightarrow> string list" where
  "split_on d [] = [[]]"
| "split_on d (c # cs) =
     (if c = d then [] # split_on d cs
      else (case split_on d cs of [] \<Rightarrow> [[c]] | w # ws \<Rightarrow> (c # w) # ws))"

lemma split_on_nonempty [simp]: "split_on d s \<noteq> []"
  by (induction s) (auto split: list.splits)

fun join_on :: "char \<Rightarrow> string list \<Rightarrow> string" where
  "join_on d [] = []"
| "join_on d [w] = w"
| "join_on d (w # v # ws) = w @ d # join_on d (v # ws)"

lemma join_on_Cons_Cons: "join_on d ((c # w) # ws) = c # join_on d (w # ws)"
  by (cases ws) auto

lemma join_split [simp]: "join_on d (split_on d s) = s"
proof (induction s)
  case Nil
  then show ?case by simp
next
  case (Cons c cs)
  obtain w ws where w: "split_on d cs = w # ws"
    using split_on_nonempty by (meson neq_Nil_conv)
  with Cons show ?case
    by (auto simp: join_on_Cons_Cons)
qed

lemma split_on_no_sep: "w \<in> set (split_on d s) \<Longrightarrow> d \<notin> set w"
  by (induction s arbitrary: w) (auto split: list.splits if_splits)

definition strip :: "string \<Rightarrow> string" where
  "strip s = rev (dropWhile is_space (rev (dropWhile is_space s)))"

definition is_lower_hex :: "char \<Rightarrow> bool" where
  "is_lower_hex c \<longleftrightarrow> is_digit c \<or> (97 \<le> (of_char c :: nat) \<and> (of_char c :: nat) \<le> 102)"

definition is_hex :: "char \<Rightarrow> bool" where
  "is_hex c \<longleftrightarrow> is_lower_hex c \<or> (65 \<le> (of_char c :: nat) \<and> (of_char c :: nat) \<le> 70)"

lemma lower_hex_fixed: "list_all is_lower_hex s \<Longrightarrow> lower s = s"
  by (induction s) (auto simp: lower_def to_lower_char_def is_lower_hex_def is_upper_def is_digit_def)

lemma hex_to_lower: "is_hex c \<Longrightarrow> is_lower_hex (to_lower_char c)"
  by (auto simp: is_hex_def is_lower_hex_def to_lower_char_def is_upper_def is_digit_def)

subsection \<open>Lists of options\<close>

lemma those_map_all: "(\<And>x. x \<in> set xs \<Longrightarrow> f x = Some (g x)) \<Longrightarrow> those (map f xs) = Some (map g xs)"
  by (induction xs) auto

lemma those_map_set: "those (map f xs) = Some ys \<Longrightarrow> y \<in> set ys \<Longrightarrow> \<exists>x \<in> set xs. f x = Some y"
  by (induction xs arbitrary: ys) (auto split: option.splits)

lemma those_map_length: "those (map f xs) = Some ys \<Longrightarrow> length ys = length xs"
  by (induction xs arbitrary: ys) (auto split: option.splits)

lemma those_list_all: "those (map f vs) = Some xs \<Longrightarrow> (\<And>v x. f v = Some x \<Longrightarrow> P x) \<Longrightarrow> list_all P xs"
  using those_map_set [of f vs xs] by (fastforce simp: list_all_iff)

end
