(* ===== verification/Regex.thy ===== *)
theory Regex
  imports Prelude
begin

section \<open>Regular expressions\<close>

text \<open>
  The code's validators are patterns of Python's \<^verbatim>\<open>re\<close> (and, for field patterns, of
  pydantic's engine).  A position of a text is the character before it and the text
  after it, which look-around assertions and word boundaries need.  \<open>ends\<close> lists
  the end positions of a match in the order a backtracking matcher tries them
  (greedy repetition, left alternative first), so the first element is the match.
  \<open>matches\<close> is the textbook relation; \<open>ends_iff_matches\<close> shows that the matcher
  computes exactly it, so no pattern misses a match because of the way it is run.
\<close>

datatype regex =
    Eps
  | Cls "char \<Rightarrow> bool"
  | Cat regex regex
  | Alt regex regex
  | Star regex
  | Opt regex
  | Rep regex nat nat        \<comment> \<open>\<^verbatim>\<open>r{m,m+n}\<close>: \<open>m\<close> mandatory copies and up to \<open>n\<close> more\<close>
  | Look regex               \<comment> \<open>\<^verbatim>\<open>(?=r)\<close>\<close>
  | At_End                   \<comment> \<open>\<^verbatim>\<open>$\<close> of Python: also before a final newline\<close>
  | Behind "char option \<Rightarrow> bool"   \<comment> \<open>the character before: \<^verbatim>\<open>^\<close>, \<^verbatim>\<open>(?<=[...])\<close>, \<^verbatim>\<open>(?<![...])\<close>\<close>
  | Word_Boundary            \<comment> \<open>\<^verbatim>\<open>\b\<close>\<close>

type_synonym position = "char option \<times> string"

subsection \<open>The matcher\<close>

primrec star_ends :: "(position \<Rightarrow> position list) \<Rightarrow> nat \<Rightarrow> position \<Rightarrow> position list" where
  "star_ends f 0 p = [p]"
| "star_ends f (Suc k) p =
     concat (map (star_ends f k) (filter (\<lambda>q. length (snd q) < length (snd p)) (f p))) @ [p]"

primrec upto_ends :: "(position \<Rightarrow> position list) \<Rightarrow> nat \<Rightarrow> position \<Rightarrow> position list" where
  "upto_ends f 0 p = [p]"
| "upto_ends f (Suc k) p = concat (map (upto_ends f k) (f p)) @ [p]"

primrec times_ends :: "(position \<Rightarrow> position list) \<Rightarrow> nat \<Rightarrow> position \<Rightarrow> position list" where
  "times_ends f 0 p = [p]"
| "times_ends f (Suc k) p = concat (map (times_ends f k) (f p))"

definition at_word :: "char option \<Rightarrow> bool" where
  "at_word c = (case c of None \<Rightarrow> False | Some c \<Rightarrow> is_word c)"

definition next_char :: "string \<Rightarrow> char option" where
  "next_char s = (case s of [] \<Rightarrow> None | c # _ \<Rightarrow> Some c)"

primrec ends :: "regex \<Rightarrow> position \<Rightarrow> position list" where
  "ends Eps p = [p]"
| "ends (Cls f) p = (case snd p of [] \<Rightarrow> [] | c # cs \<Rightarrow> if f c then [(Some c, cs)] else [])"
| "ends (Cat r s) p = concat (map (ends s) (ends r p))"
| "ends (Alt r s) p = ends r p @ ends s p"
| "ends (Star r) p = star_ends (ends r) (length (snd p)) p"
| "ends (Opt r) p = ends r p @ [p]"
| "ends (Rep r m n) p = concat (map (upto_ends (ends r) n) (times_ends (ends r) m p))"
| "ends (Look r) p = (if ends r p = [] then [] else [p])"
| "ends At_End p = (if snd p = [] \<or> snd p = [CHR 0x0A] then [p] else [])"
| "ends (Behind f) p = (if f (fst p) then [p] else [])"
| "ends Word_Boundary p = (if at_word (fst p) \<noteq> at_word (next_char (snd p)) then [p] else [])"

definition fullmatch :: "regex \<Rightarrow> string \<Rightarrow> bool" where
  "fullmatch r s \<longleftrightarrow> list_ex (\<lambda>q. snd q = []) (ends r (None, s))"

primrec search_from :: "regex \<Rightarrow> char option \<Rightarrow> string \<Rightarrow> bool" where
  "search_from r b [] = (ends r (b, []) \<noteq> [])"
| "search_from r b (c # cs) = (ends r (b, c # cs) \<noteq> [] \<or> search_from r (Some c) cs)"

definition search :: "regex \<Rightarrow> string \<Rightarrow> bool" where
  "search r s = search_from r None s"

subsection \<open>The textbook relation\<close>

inductive matches :: "regex \<Rightarrow> position \<Rightarrow> position \<Rightarrow> bool" where
  Eps: "matches Eps p p"
| Cls: "f c \<Longrightarrow> matches (Cls f) (b, c # cs) (Some c, cs)"
| Cat: "matches r p q \<Longrightarrow> matches s q t \<Longrightarrow> matches (Cat r s) p t"
| Alt_left: "matches r p q \<Longrightarrow> matches (Alt r s) p q"
| Alt_right: "matches s p q \<Longrightarrow> matches (Alt r s) p q"
| Star_done: "matches (Star r) p p"
| Star_more: "matches r p q \<Longrightarrow> matches (Star r) q t \<Longrightarrow> matches (Star r) p t"
| Opt_none: "matches (Opt r) p p"
| Opt_some: "matches r p q \<Longrightarrow> matches (Opt r) p q"
| Rep_done: "matches (Rep r 0 n) p p"
| Rep_must: "matches r p q \<Longrightarrow> matches (Rep r m n) q t \<Longrightarrow> matches (Rep r (Suc m) n) p t"
| Rep_may: "matches r p q \<Longrightarrow> matches (Rep r 0 n) q t \<Longrightarrow> matches (Rep r 0 (Suc n)) p t"
| Look: "matches r p q \<Longrightarrow> matches (Look r) p p"
| At_End: "snd p = [] \<or> snd p = [CHR 0x0A] \<Longrightarrow> matches At_End p p"
| Behind: "f (fst p) \<Longrightarrow> matches (Behind f) p p"
| Word_Boundary: "at_word (fst p) \<noteq> at_word (next_char (snd p)) \<Longrightarrow> matches Word_Boundary p p"

inductive_simps matches_simps:
  "matches Eps p q"
  "matches (Cls f) p q"
  "matches (Cat r s) p q"
  "matches (Alt r s) p q"
  "matches (Opt r) p q"
  "matches (Look r) p q"
  "matches At_End p q"
  "matches (Behind f) p q"
  "matches Word_Boundary p q"
inductive_cases Star_cases: "matches (Star r) p q"
inductive_cases Rep_0_0_cases: "matches (Rep r 0 0) p q"
inductive_cases Rep_0_Suc_cases: "matches (Rep r 0 (Suc n)) p q"
inductive_cases Rep_Suc_cases: "matches (Rep r (Suc m) n) p q"

lemma star_ends_sound:
  assumes "\<And>p q. q \<in> set (f p) \<Longrightarrow> matches r p q"
  shows "q \<in> set (star_ends f k p) \<Longrightarrow> matches (Star r) p q"
proof (induction k arbitrary: p)
  case 0
  then show ?case by (simp add: Star_done)
next
  case (Suc k)
  then show ?case
    by (auto intro: Star_done Star_more assms)
qed

lemma upto_ends_sound:
  assumes "\<And>p q. q \<in> set (f p) \<Longrightarrow> matches r p q"
  shows "q \<in> set (upto_ends f n p) \<Longrightarrow> matches (Rep r 0 n) p q"
  by (induction n arbitrary: p) (auto intro: Rep_done Rep_may assms)

lemma times_upto_sound:
  assumes "\<And>p q. q \<in> set (f p) \<Longrightarrow> matches r p q"
  shows "t \<in> set (times_ends f m p) \<Longrightarrow> q \<in> set (upto_ends f n t) \<Longrightarrow> matches (Rep r m n) p q"
  by (induction m arbitrary: p) (auto intro: Rep_must assms upto_ends_sound [OF assms])

lemma ends_sound: "q \<in> set (ends r p) \<Longrightarrow> matches r p q"
proof (induction r arbitrary: p q)
  case (Cls f)
  then show ?case
    by (cases p) (auto split: list.splits if_splits intro: matches.Cls)
next
  case (Star r)
  from Star.prems have "q \<in> set (star_ends (ends r) (length (snd p)) p)" by simp
  with Star.IH show ?case by (rule star_ends_sound)
next
  case (Rep r m n)
  from Rep.prems obtain t where "t \<in> set (times_ends (ends r) m p)"
    and "q \<in> set (upto_ends (ends r) n t)" by auto
  with Rep.IH show ?case by (rule times_upto_sound)
next
  case (Cat r1 r2)
  then obtain t where "t \<in> set (ends r1 p)" "q \<in> set (ends r2 t)" by auto
  with Cat.IH(1) [of t p] Cat.IH(2) [of q t] show ?case by (blast intro: matches.Cat)
next
  case (Alt r1 r2)
  from Alt.prems have "q \<in> set (ends r1 p) \<or> q \<in> set (ends r2 p)" by simp
  with Alt.IH show ?case by (blast intro: matches.Alt_left matches.Alt_right)
next
  case (Opt r)
  from Opt.prems have "q \<in> set (ends r p) \<or> q = p" by (simp add: disj_commute)
  with Opt.IH show ?case by (blast intro: matches.Opt_none matches.Opt_some)
next
  case (Look r)
  then show ?case
    by (auto split: if_splits intro: matches.Look) (metis Look.IH list.set_intros(1) matches.Look neq_Nil_conv)
qed (auto split: if_splits intro: matches.intros)

lemma matches_shorter: "matches r p q \<Longrightarrow> length (snd q) \<le> length (snd p)"
  by (induction rule: matches.induct) auto

lemma star_ends_self [simp]: "p \<in> set (star_ends f k p)"
  by (cases k) auto

lemma upto_ends_self [simp]: "p \<in> set (upto_ends f k p)"
  by (cases k) auto

text \<open>
  A repetition that makes no progress is skipped by the matcher; the relation may
  repeat it, but reaches no other position that way when a match without progress
  ends where it began.
\<close>

lemma matches_same_length: "matches r p q \<Longrightarrow> length (snd q) = length (snd p) \<Longrightarrow> q = p"
proof (induction rule: matches.induct)
  case (Cat r p q s t)
  then show ?case using matches_shorter by (metis le_antisym)
next
  case (Star_more r p q t)
  then show ?case using matches_shorter by (metis le_antisym)
next
  case (Rep_must r p q m n t)
  then show ?case using matches_shorter by (metis le_antisym)
next
  case (Rep_may r p q n t)
  then show ?case using matches_shorter by (metis le_antisym)
qed auto

lemma star_ends_complete:
  assumes f: "\<And>p q. matches r p q \<Longrightarrow> q \<in> set (f p)"
    and m: "matches (Star r) p q" and k: "length (snd p) \<le> k"
  shows "q \<in> set (star_ends f k p)"
  using m k
proof (induction "Star r" p q arbitrary: k rule: matches.induct)
  case (Star_done p)
  then show ?case by simp
next
  case (Star_more p q t)
  show ?case
  proof (cases "length (snd q) = length (snd p)")
    case True
    with Star_more.hyps(1) have "q = p" by (rule matches_same_length)
    with Star_more show ?thesis by simp
  next
    case False
    with matches_shorter [OF Star_more.hyps(1)] have less: "length (snd q) < length (snd p)"
      by simp
    with Star_more.prems obtain k' where k': "k = Suc k'" by (cases k) auto
    with less Star_more.prems have "length (snd q) \<le> k'" by simp
    then have "t \<in> set (star_ends f k' q)" using Star_more.hyps by blast
    moreover have "q \<in> set (filter (\<lambda>q. length (snd q) < length (snd p)) (f p))"
      using less f [OF Star_more.hyps(1)] by simp
    ultimately have "t \<in> set (concat (map (star_ends f k') (filter (\<lambda>q. length (snd q) < length (snd p)) (f p))))"
      unfolding set_concat set_map by blast
    then show ?thesis unfolding k' star_ends.simps set_append by (rule UnI1)
  qed
qed

lemma rep_ends_complete:
  assumes f: "\<And>p q. matches r p q \<Longrightarrow> q \<in> set (f p)"
    and m: "matches (Rep r m n) p q"
  shows "\<exists>t \<in> set (times_ends f m p). q \<in> set (upto_ends f n t)"
  using m
proof (induction "Rep r m n" p q arbitrary: m n rule: matches.induct)
  case (Rep_must p q m n t)
  then obtain u where "u \<in> set (times_ends f m q)" "t \<in> set (upto_ends f n u)" by blast
  with f [OF Rep_must.hyps(1)] show ?case by (auto intro!: bexI)
next
  case (Rep_may p q n t)
  then have "t \<in> set (upto_ends f n q)" by simp
  with f [OF Rep_may.hyps(1)] show ?case by (auto intro!: bexI)
qed auto

lemma ends_complete: "matches r p q \<Longrightarrow> q \<in> set (ends r p)"
proof (induction r arbitrary: p q)
  case (Cls f)
  then show ?case by (auto simp: matches_simps)
next
  case (Star r)
  from star_ends_complete [OF Star.IH Star.prems order.refl] show ?case by simp
next
  case (Rep r m n)
  from rep_ends_complete [OF Rep.IH Rep.prems] show ?case by auto
next
  case (Look r)
  then obtain t where "q = p" and "matches r p t" by (auto simp: matches_simps)
  with Look.IH [of p t] show ?case by (auto dest: hd_in_set)
next
  case (Cat r1 r2)
  then obtain t where "matches r1 p t" and "matches r2 t q" by (auto simp: matches_simps)
  with Cat.IH(1) [of p t] Cat.IH(2) [of t q] show ?case by (force simp del: split_paired_Ex)
next
  case (Alt r1 r2)
  from Alt.prems have "matches r1 p q \<or> matches r2 p q" by (simp only: matches_simps)
  with Alt.IH show ?case by (metis Un_iff ends.simps(4) set_append)
next
  case (Opt r)
  from Opt.prems have "matches r p q \<or> q = p" by (auto simp only: matches_simps)
  with Opt.IH [of p q] show ?case by auto
qed (auto simp: matches_simps)

theorem ends_iff_matches: "q \<in> set (ends r p) \<longleftrightarrow> matches r p q"
  by (blast intro: ends_sound ends_complete)

lemma fullmatch_iff: "fullmatch r s \<longleftrightarrow> (\<exists>b. matches r (None, s) (b, []))"
  by (auto simp: fullmatch_def list_ex_iff ends_iff_matches [symmetric])
    (metis snd_conv)

definition before :: "char option \<Rightarrow> string \<Rightarrow> char option" where
  "before b u = (if u = [] then b else Some (last u))"

lemma search_from_iff:
  "search_from r b s \<longleftrightarrow> (\<exists>u v q. s = u @ v \<and> matches r (before b u, v) q)"
proof (induction s arbitrary: b)
  case Nil
  have "search_from r b [] \<longleftrightarrow> (\<exists>q. q \<in> set (ends r (b, [])))"
    by (metis ex_in_conv search_from.simps(1) set_empty2)
  then show ?case by (auto simp: ends_iff_matches before_def)
next
  case (Cons c s)
  have *: "ends r (b, c # s) \<noteq> [] \<longleftrightarrow> (\<exists>q. matches r (b, c # s) q)"
    by (metis ends_iff_matches list.set_intros(1) neq_Nil_conv set_empty2 empty_iff)
  show ?case (is "?L = ?R")
  proof
    assume ?L
    then show ?R
    proof (unfold search_from.simps *, elim disjE exE)
      fix q
      assume "matches r (b, c # s) q"
      then show ?R
        by (intro exI [of _ "[]"] exI [of _ "c # s"] exI [of _ q]) (simp add: before_def)
    next
      assume "search_from r (Some c) s"
      then obtain u v q where "s = u @ v" "matches r (before (Some c) u, v) q"
        using Cons.IH by blast
      then show ?R
        by (intro exI [of _ "c # u"] exI [of _ v] exI [of _ q]) (simp add: before_def split: if_splits)
    qed
  next
    assume ?R
    then obtain u v q where u: "c # s = u @ v" "matches r (before b u, v) q" by blast
    show ?L
    proof (cases u)
      case Nil
      with u have "\<exists>q. matches r (b, c # s) q" by (metis append_Nil before_def)
      then show ?thesis by (simp only: search_from.simps * simp_thms)
    next
      case (Cons d u')
      with u have "s = u' @ v" "matches r (before (Some c) u', v) q"
        by (auto simp: before_def split: if_splits)
      then have "search_from r (Some c) s" using Cons.IH by blast
      then show ?thesis by simp
    qed
  qed
qed

subsection \<open>Substitution\<close>

definition progressing :: "position \<Rightarrow> position list \<Rightarrow> position list" where
  "progressing p qs = filter (\<lambda>q. length (snd q) < length (snd p)) qs"

function sub_at :: "regex \<Rightarrow> (string \<Rightarrow> string) \<Rightarrow> bool \<Rightarrow> char option \<Rightarrow> string \<Rightarrow> string" where
  \<comment> \<open>\<^verbatim>\<open>re.sub\<close> from a position on; after an empty match the next one has to advance\<close>
  "sub_at r f must b s =
     (case (if must then progressing (b, s) (ends r (b, s)) else ends r (b, s)) of
        [] \<Rightarrow> (case s of [] \<Rightarrow> [] | c # cs \<Rightarrow> c # sub_at r f False (Some c) cs)
      | (b', s') # _ \<Rightarrow>
          if length s' < length s
          then f (take (length s - length s') s) @ sub_at r f False b' s'
          else if must then [] else f [] @ sub_at r f True b s)"
  by pat_completeness auto
termination
  by (relation "measure (\<lambda>(r, f, must, b, s). 2 * length s + (if must then 0 else 1))") auto

declare sub_at.simps [simp del]

definition sub_all :: "regex \<Rightarrow> (string \<Rightarrow> string) \<Rightarrow> string \<Rightarrow> string" where
  "sub_all r f s = sub_at r f False None s"

subsection \<open>Building patterns\<close>

definition at_start :: regex where
  \<comment> \<open>\<^verbatim>\<open>^\<close>\<close>
  "at_start = Behind (\<lambda>b. b = None)"

definition chars :: "string \<Rightarrow> regex" where
  \<comment> \<open>a class given by its members\<close>
  "chars cs = Cls (\<lambda>c. c \<in> set cs)"

primrec lit :: "string \<Rightarrow> regex" where
  "lit [] = Eps"
| "lit (c # cs) = Cat (Cls (\<lambda>d. d = c)) (lit cs)"

primrec ilit :: "string \<Rightarrow> regex" where
  \<comment> \<open>a literal under \<^verbatim>\<open>re.IGNORECASE\<close>; write it in lower case\<close>
  "ilit [] = Eps"
| "ilit (c # cs) = Cat (Cls (\<lambda>d. to_lower_char d = c)) (ilit cs)"

fun alts :: "regex list \<Rightarrow> regex" where
  "alts [] = Eps"
| "alts [r] = r"
| "alts (r # s # rs) = Alt r (alts (s # rs))"

fun cats :: "regex list \<Rightarrow> regex" where
  "cats [] = Eps"
| "cats [r] = r"
| "cats (r # s # rs) = Cat r (cats (s # rs))"

definition plus :: "regex \<Rightarrow> regex" where
  "plus r = Cat r (Star r)"

lemmas pattern_simps = chars_def plus_def fullmatch_def search_def at_word_def next_char_def
  is_word_def is_alnum_def is_upper_def is_lower_def is_digit_def is_space_def

end
