(* ===== verification/Contract_Text.thy ===== *)
theory Contract_Text
  imports Regex
begin

section \<open>Field patterns and the persisted-text filters\<close>

text \<open>
  The patterns at the top of \<^verbatim>\<open>src/auto_code/contracts.py\<close> and
  \<^verbatim>\<open>src/auto_code/state.py\<close>, and the functions that reject or recognise secrets and
  instructions in text that would be persisted.
\<close>

datatype text_error = Unsafe_Value | Invalid_Identifier

subsection \<open>Character classes\<close>

definition ident_char :: "char \<Rightarrow> bool" where
  \<comment> \<open>\<^verbatim>\<open>[A-Za-z0-9._-]\<close>\<close>
  "ident_char c \<longleftrightarrow> is_alnum c \<or> c \<in> set ''._-''"

definition dash_char :: "char \<Rightarrow> bool" where
  \<comment> \<open>\<^verbatim>\<open>[A-Za-z0-9_-]\<close>\<close>
  "dash_char c \<longleftrightarrow> is_alnum c \<or> c \<in> set ''_-''"

definition slug_char :: "char \<Rightarrow> bool" where
  \<comment> \<open>\<^verbatim>\<open>[a-z0-9_-]\<close>\<close>
  "slug_char c \<longleftrightarrow> is_lower c \<or> is_digit c \<or> c \<in> set ''_-''"

definition media_char :: "char \<Rightarrow> bool" where
  "media_char c \<longleftrightarrow> is_lower c \<or> is_digit c \<or> c \<in> set ''!#$&^_.+-''"

subsection \<open>Anchored field patterns\<close>

definition sha256_pattern :: "string \<Rightarrow> bool" where
  "sha256_pattern s = fullmatch (Rep (Cls is_hex) 64 0) s"

definition checkpoint_id_pattern :: "string \<Rightarrow> bool" where
  "checkpoint_id_pattern s = fullmatch (Rep (Cls is_lower_hex) 32 0) s"

definition media_half :: regex where
  "media_half = Cat (Cls (\<lambda>c. is_lower c \<or> is_digit c)) (Rep (Cls media_char) 0 63)"

definition evidence_media_type :: "string \<Rightarrow> bool" where
  "evidence_media_type s = fullmatch (cats [media_half, lit ''/'', media_half]) s"

definition safe_identifier :: "string \<Rightarrow> bool" where
  \<comment> \<open>\<^verbatim>\<open>_SAFE_IDENTIFIER\<close>; \<^verbatim>\<open>EvidenceCreator\<close> has the same pattern\<close>
  "safe_identifier s = fullmatch (Cat (Cls is_lower) (Rep (Cls slug_char) 0 63)) s"

definition safe_reference_segment :: regex where
  "safe_reference_segment = Cat (Cls is_alnum) (Rep (Cls ident_char) 0 254)"

definition safe_reference_path :: "string \<Rightarrow> bool" where
  "safe_reference_path s =
     fullmatch (Cat safe_reference_segment (Star (Cat (lit ''/'') safe_reference_segment))) s"

definition evidence_path :: "string \<Rightarrow> bool" where
  "evidence_path s \<longleftrightarrow> length s \<le> 512 \<and> safe_reference_path s"

definition reference_id :: "string \<Rightarrow> bool" where
  \<comment> \<open>\<^verbatim>\<open>_REFERENCE_ID\<close> and \<^verbatim>\<open>EffectReference\<close>\<close>
  "reference_id s \<longleftrightarrow> length s \<le> 256 \<and> safe_reference_path s"

definition effect_operation :: "string \<Rightarrow> bool" where
  "effect_operation s =
     fullmatch (Cat (Cls is_lower) (Rep (Cls (\<lambda>c. is_lower c \<or> is_digit c \<or> c = CHR ''_'')) 0 63)) s"

definition identifier_pattern :: "string \<Rightarrow> bool" where
  \<comment> \<open>\<^verbatim>\<open>_IDENTIFIER\<close> of \<^verbatim>\<open>state.py\<close>\<close>
  "identifier_pattern s = fullmatch (Cat (Cls is_alnum) (Rep (Cls ident_char) 0 254)) s"

definition require_identifier :: "string \<Rightarrow> bool" where
  "require_identifier s \<longleftrightarrow> \<not> (\<not> identifier_pattern s \<or> s \<in> {''.'', ''..''})"

definition is_sha256 :: "string \<Rightarrow> bool" where
  "is_sha256 s = sha256_pattern s"

definition git_sha :: "string \<Rightarrow> bool" where
  "git_sha s = fullmatch (Cat (Rep (Cls is_hex) 40 0) (Opt (Rep (Cls is_hex) 24 0))) s"

definition lower_git_sha :: "string \<Rightarrow> bool" where
  "lower_git_sha s = fullmatch (Cat (Rep (Cls is_lower_hex) 40 0) (Opt (Rep (Cls is_lower_hex) 24 0))) s"

definition git_mode :: "string \<Rightarrow> bool" where
  "git_mode s \<longleftrightarrow> s \<in> {''000000'', ''100644'', ''100755'', ''120000'', ''160000''}"

definition git_change_status :: "string \<Rightarrow> bool" where
  "git_change_status s =
     fullmatch
       (Alt (chars ''ADMTUXB'')
          (Cat (chars ''CR'')
             (alts [lit ''0'',
                    Cat (Cls (\<lambda>c. is_digit c \<and> c \<noteq> CHR ''0'')) (Opt (Cls is_digit)),
                    lit ''100'']))) s"

definition change_id_pattern :: "string \<Rightarrow> bool" where
  "change_id_pattern s \<longleftrightarrow> length s \<le> 63 \<and>
     fullmatch (Cat (Cls is_lower) (Rep (Cls (\<lambda>c. is_lower c \<or> is_digit c \<or> c = CHR ''-'')) 0 62)) s"

definition task_number :: regex where
  "task_number = Cat (Cls (\<lambda>c. is_digit c \<and> c \<noteq> CHR ''0'')) (Star (Cls is_digit))"

definition task_id_pattern :: "string \<Rightarrow> bool" where
  "task_id_pattern s \<longleftrightarrow> length s \<le> 256 \<and> fullmatch (Cat task_number (Star (Cat (lit ''.'') task_number))) s"

definition uuid_pattern :: "string \<Rightarrow> bool" where
  "uuid_pattern s =
     fullmatch
       (cats [Rep (Cls is_lower_hex) 8 0, lit ''-'', Rep (Cls is_lower_hex) 4 0, lit ''-'',
              chars ''12345'', Rep (Cls is_lower_hex) 3 0, lit ''-'',
              chars ''89ab'', Rep (Cls is_lower_hex) 3 0, lit ''-'', Rep (Cls is_lower_hex) 12 0]) s"

subsection \<open>Searched patterns\<close>

definition stop_ahead :: regex where
  "stop_ahead = Look (Alt At_End (lit ''.''))"

definition jwt_like_segment :: regex where
  "jwt_like_segment =
     cats [lit ''eyJ'', Star (Cls dash_char), lit ''.'', plus (Cls dash_char), lit ''.'',
           plus (Cls dash_char), stop_ahead]"

definition credential_like_segment :: regex where
  "credential_like_segment =
     cats [ilit ''sk-'', Rep (Cls dash_char) 8 0, Star (Cls dash_char), stop_ahead]"

definition api_key :: regex where
  "api_key = cats [ilit ''api'', Opt (chars ''_-''), ilit ''key'']"

definition secret_assignment :: regex where
  "secret_assignment =
     cats [Word_Boundary, Star (Cls dash_char),
           alts [api_key, ilit ''token'', ilit ''password'', ilit ''secret'', ilit ''credential''],
           Star (Cls dash_char), Star (Cls is_space), chars '':='', Star (Cls is_space),
           plus (Cls (\<lambda>c. \<not> is_space c))]"

definition persisted_secret_assignment :: regex where
  \<comment> \<open>\<^verbatim>\<open>_SECRET_ASSIGNMENT\<close> of \<^verbatim>\<open>state.py\<close>\<close>
  "persisted_secret_assignment =
     cats [Word_Boundary,
           alts [api_key, ilit ''password'',
                 cats [ilit ''private'', Opt (chars ''_-''), ilit ''key''],
                 cats [ilit ''access'', Opt (chars ''_-''), ilit ''token''], ilit ''bearer''],
           Star (Cls is_space), chars '':='']"

definition bearer_secret :: regex where
  "bearer_secret =
     cats [Word_Boundary, ilit ''bearer'', plus (Cls is_space),
           Rep (Cls (\<lambda>c. is_alnum c \<or> c \<in> set ''._~+/-'')) 8 0]"

definition gap :: regex where
  "gap = plus (Cls (\<lambda>c. c \<in> set ''-_:'' \<or> is_space c))"

definition instruction_like_value :: regex where
  "instruction_like_value =
     alts [cats [ilit ''ignore'', gap, Opt (Cat (ilit ''all'') gap),
                 Alt (ilit ''previous'') (ilit ''prior''), gap, ilit ''instructions''],
           cats [ilit ''follow'', gap, Alt (ilit ''these'') (ilit ''the''), gap, ilit ''instructions''],
           cats [ilit ''system'', gap, ilit ''prompt''],
           cats [ilit ''developer'', gap, ilit ''message''],
           cats [ilit ''assistant'', gap, ilit ''instructions'']]"

definition reject_unsafe_persisted_value :: "string \<Rightarrow> text_error + string" where
  "reject_unsafe_persisted_value value =
     (if list_ex (\<lambda>segment.
           search jwt_like_segment segment
           \<or> search credential_like_segment segment
           \<or> search instruction_like_value segment)
         (split_on CHR ''/'' value)
      then Inl Unsafe_Value else Inr value)"

definition safe_text :: "string \<Rightarrow> bool" where
  "safe_text v = is_ok (reject_unsafe_persisted_value v)"

definition looks_sensitive :: "string \<Rightarrow> bool" where
  "looks_sensitive v \<longleftrightarrow>
     search jwt_like_segment v
     \<or> search credential_like_segment v
     \<or> search secret_assignment v
     \<or> search bearer_secret v
     \<or> search instruction_like_value v"

definition validate_persisted_text :: "string \<Rightarrow> bool" where
  \<comment> \<open>the string branch of \<^verbatim>\<open>_validate_persisted_value\<close>\<close>
  "validate_persisted_text v \<longleftrightarrow> safe_text v \<and> \<not> search persisted_secret_assignment v"

definition safe_snapshot_identifier :: "string \<Rightarrow> bool" where
  "safe_snapshot_identifier v \<longleftrightarrow>
     v \<noteq> [] \<and> length v \<le> 256 \<and> CHR 0x00 \<notin> set v \<and> safe_text v"

definition external_revision_ok :: "string \<Rightarrow> bool" where
  "external_revision_ok v \<longleftrightarrow> v \<noteq> [] \<and> length v \<le> 256 \<and> \<not> looks_sensitive v"

definition canonical_uuid :: "string \<Rightarrow> bool" where
  \<comment> \<open>\<^verbatim>\<open>str(uuid.UUID(value))\<close> of a text of the pattern is the text itself\<close>
  "canonical_uuid v = uuid_pattern v"

definition sensitive_path_parts :: "string set" where
  "sensitive_path_parts = {''.auto-code'', ''.env'', ''.git'', ''secrets''}"

definition validate_product_path :: "string \<Rightarrow> text_error + string" where
  "validate_product_path value =
     bind_result (reject_unsafe_persisted_value value) (\<lambda>_.
       if list_ex (\<lambda>part. part \<in> sensitive_path_parts \<or> starts_with ''.env'' part) (split_on CHR ''/'' value)
       then Inl Unsafe_Value else Inr value)"

subsection \<open>What the patterns accept\<close>

lemma times_cls_exact:
  "matches (Rep (Cls f) m 0) (b, s) (c, []) \<Longrightarrow> length s = m \<and> list_all f s"
proof (induction m arbitrary: b s)
  case 0
  then show ?case by (auto elim: Rep_0_0_cases)
next
  case (Suc m)
  then obtain d s' where "s = d # s'" "f d" "matches (Rep (Cls f) m 0) (Some d, s') (c, [])"
    by (auto elim!: Rep_Suc_cases simp: matches_simps)
  with Suc.IH show ?case by auto
qed

lemma times_cls_intro:
  "list_all f s \<Longrightarrow> \<exists>c. matches (Rep (Cls f) (length s) 0) (b, s) (c, [])"
proof (induction s arbitrary: b)
  case Nil
  then show ?case by (auto intro: matches.Rep_done)
next
  case (Cons d s)
  then obtain c where "matches (Rep (Cls f) (length s) 0) (Some d, s) (c, [])" by auto
  with Cons.prems have "matches (Rep (Cls f) (Suc (length s)) 0) (b, d # s) (c, [])"
    by (auto intro: matches.Rep_must matches.Cls)
  then show ?case by auto
qed

lemma exact_class_iff: "fullmatch (Rep (Cls f) m 0) s \<longleftrightarrow> length s = m \<and> list_all f s"
  by (auto simp: fullmatch_iff dest: times_cls_exact times_cls_intro [where b = None])

lemma sha256_pattern_iff: "sha256_pattern s \<longleftrightarrow> length s = 64 \<and> list_all is_hex s"
  by (simp add: sha256_pattern_def exact_class_iff)

lemma checkpoint_id_pattern_iff: "checkpoint_id_pattern s \<longleftrightarrow> length s = 32 \<and> list_all is_lower_hex s"
  by (simp add: checkpoint_id_pattern_def exact_class_iff)

lemma sha256_pattern_lower: "sha256_pattern s \<Longrightarrow> sha256_pattern (lower s)"
  by (auto simp: sha256_pattern_iff lower_def list_all_iff is_hex_def intro: hex_to_lower)

end
