(* ===== verification/Hashing.thy ===== *)
theory Hashing
  imports Prelude "HOL-Library.Word" "HOL-Library.Char_ord" "HOL-Library.List_Lexorder"
begin

unbundle bit_operations_syntax

section \<open>Canonical JSON and SHA-256\<close>

text \<open>
  \<^verbatim>\<open>src/auto_code/hashing.py\<close>: every persisted hash is the SHA-256 of one JSON text,
  with sorted keys, no spaces and ASCII escapes.  A JSON value is what Python's
  \<^verbatim>\<open>json\<close> makes of it, an object an association list in insertion order (floats do not
  occur in the payloads modelled here and are left out).  \<open>canonical_json_bytes\<close>
  writes it, \<open>sha256\<close> is FIPS 180-4 on bytes, \<open>hmac_sha256\<close> is RFC 2104; all are
  executable.  The results are digests of 64 lower case hexadecimal digits.
\<close>

datatype json =
    JNull
  | JBool bool
  | JInt int
  | JStr string
  | JList "json list"
  | JObj "(string \<times> json) list"

subsection \<open>Writing JSON\<close>

definition hex_digit :: "nat \<Rightarrow> char" where
  "hex_digit n = (if n < 10 then char_of (48 + n) else char_of (87 + n))"

definition escape_char :: "char \<Rightarrow> string" where
  "escape_char c =
     (let n = (of_char c :: nat) in
      if n = 34 then [CHR 0x5C, CHR 0x22]
      else if n = 92 then [CHR 0x5C, CHR 0x5C]
      else if n = 10 then [CHR 0x5C, CHR ''n'']
      else if n = 13 then [CHR 0x5C, CHR ''r'']
      else if n = 9 then [CHR 0x5C, CHR ''t'']
      else if n = 12 then [CHR 0x5C, CHR ''f'']
      else if n = 8 then [CHR 0x5C, CHR ''b'']
      else if 32 \<le> n \<and> n \<le> 126 then [c]
      else [CHR 0x5C, CHR ''u'', CHR ''0'', CHR ''0'', hex_digit (n div 16), hex_digit (n mod 16)])"

definition dump_string :: "string \<Rightarrow> string" where
  "dump_string s = [CHR 0x22] @ concat (map escape_char s) @ [CHR 0x22]"

fun show_nat :: "nat \<Rightarrow> string" where
  "show_nat n = (if n < 10 then [hex_digit n] else show_nat (n div 10) @ [hex_digit (n mod 10)])"

declare show_nat.simps [simp del]

definition show_int :: "int \<Rightarrow> string" where
  "show_int i = (if i < 0 then CHR ''-'' # show_nat (nat (- i)) else show_nat (nat i))"

definition dump_member :: "string \<times> string \<Rightarrow> string" where
  "dump_member kv = dump_string (fst kv) @ CHR '':'' # snd kv"

primrec canonical_json_bytes :: "json \<Rightarrow> string" where
  "canonical_json_bytes JNull = ''null''"
| "canonical_json_bytes (JBool b) = (if b then ''true'' else ''false'')"
| "canonical_json_bytes (JInt i) = show_int i"
| "canonical_json_bytes (JStr s) = dump_string s"
| "canonical_json_bytes (JList vs) =
     CHR ''['' # join_on CHR '','' (map canonical_json_bytes vs) @ [CHR '']'']"
| "canonical_json_bytes (JObj kvs) =
     CHR ''{'' # join_on CHR '',''
       (map dump_member (sort_key fst (map (map_prod id canonical_json_bytes) kvs))) @ [CHR ''}'']"

subsection \<open>SHA-256\<close>

type_synonym bytes = "nat list"

primrec root_floor :: "nat \<Rightarrow> nat \<Rightarrow> nat \<Rightarrow> nat \<Rightarrow> nat" where
  \<comment> \<open>the bits of the \<open>k\<close>-th root of \<open>n\<close>, from bit \<open>b - 1\<close> down\<close>
  "root_floor k n 0 acc = acc"
| "root_floor k n (Suc b) acc = root_floor k n b (if (acc + 2 ^ b) ^ k \<le> n then acc + 2 ^ b else acc)"

definition sha256_primes :: "nat list" where
  "sha256_primes =
   [2, 3, 5, 7, 11, 13, 17, 19, 23, 29, 31, 37, 41, 43, 47, 53,
    59, 61, 67, 71, 73, 79, 83, 89, 97, 101, 103, 107, 109, 113, 127, 131,
    137, 139, 149, 151, 157, 163, 167, 173, 179, 181, 191, 193, 197, 199, 211, 223,
    227, 229, 233, 239, 241, 251, 257, 263, 269, 271, 277, 281, 283, 293, 307, 311]"

definition sha256_k :: "32 word list" where
  \<comment> \<open>the first 32 bits of the fractional parts of the cube roots of the primes\<close>
  "sha256_k = map (\<lambda>p. of_nat (root_floor 3 (p * 2 ^ 96) 36 0)) sha256_primes"

definition sha256_init :: "32 word list" where
  \<comment> \<open>the same of the square roots of the first eight primes\<close>
  "sha256_init = map (\<lambda>p. of_nat (root_floor 2 (p * 2 ^ 64) 37 0)) (take 8 sha256_primes)"

definition rotr :: "nat \<Rightarrow> 32 word \<Rightarrow> 32 word" where
  "rotr n w = (drop_bit n w) OR (push_bit (32 - n) w)"

definition small_sigma0 :: "32 word \<Rightarrow> 32 word" where
  "small_sigma0 w = (rotr 7 w XOR rotr 18 w) XOR drop_bit 3 w"

definition small_sigma1 :: "32 word \<Rightarrow> 32 word" where
  "small_sigma1 w = (rotr 17 w XOR rotr 19 w) XOR drop_bit 10 w"

definition big_sigma0 :: "32 word \<Rightarrow> 32 word" where
  "big_sigma0 w = (rotr 2 w XOR rotr 13 w) XOR rotr 22 w"

definition big_sigma1 :: "32 word \<Rightarrow> 32 word" where
  "big_sigma1 w = (rotr 6 w XOR rotr 11 w) XOR rotr 25 w"

definition be_bytes :: "nat \<Rightarrow> nat \<Rightarrow> bytes" where
  \<comment> \<open>\<open>n\<close> in \<open>k\<close> bytes, most significant first\<close>
  "be_bytes k n = map (\<lambda>i. (n div 256 ^ i) mod 256) (rev [0..<k])"

definition sha256_pad :: "bytes \<Rightarrow> bytes" where
  "sha256_pad m = m @ [128] @ replicate ((119 - length m mod 64) mod 64) 0 @ be_bytes 8 (8 * length m)"

fun words_of :: "bytes \<Rightarrow> 32 word list" where
  "words_of (a # b # c # d # rest) =
     word_of_nat (a * 2 ^ 24 + b * 2 ^ 16 + c * 2 ^ 8 + d) # words_of rest"
| "words_of _ = []"

primrec schedule :: "nat \<Rightarrow> 32 word list \<Rightarrow> 32 word list" where
  "schedule 0 ws = ws"
| "schedule (Suc k) ws =
     (let n = length ws in
      schedule k (ws @ [small_sigma1 (ws ! (n - 2)) + ws ! (n - 7)
                        + small_sigma0 (ws ! (n - 15)) + ws ! (n - 16)]))"

type_synonym sha_vars = "32 word \<times> 32 word \<times> 32 word \<times> 32 word \<times> 32 word \<times> 32 word \<times> 32 word \<times> 32 word"

fun sha_round :: "32 word \<times> 32 word \<Rightarrow> sha_vars \<Rightarrow> sha_vars" where
  "sha_round (k, w) (a, b, c, d, e, f, g, h) =
     (let t1 = h + big_sigma1 e + ((e AND f) XOR (NOT e AND g)) + k + w;
          t2 = big_sigma0 a + (((a AND b) XOR (a AND c)) XOR (b AND c))
      in (t1 + t2, a, b, c, d + t1, e, f, g))"

fun vars_of :: "32 word list \<Rightarrow> sha_vars" where
  "vars_of [a, b, c, d, e, f, g, h] = (a, b, c, d, e, f, g, h)"
| "vars_of _ = (0, 0, 0, 0, 0, 0, 0, 0)"

fun list_of_vars :: "sha_vars \<Rightarrow> 32 word list" where
  "list_of_vars (a, b, c, d, e, f, g, h) = [a, b, c, d, e, f, g, h]"

definition compress :: "32 word list \<Rightarrow> 32 word list \<Rightarrow> 32 word list" where
  "compress hs block =
     map2 (+) hs (list_of_vars (fold sha_round (zip sha256_k (schedule 48 block)) (vars_of hs)))"

fun compress_all :: "nat \<Rightarrow> 32 word list \<Rightarrow> 32 word list \<Rightarrow> 32 word list" where
  "compress_all 0 hs ws = hs"
| "compress_all (Suc k) hs ws = compress_all k (compress hs (take 16 ws)) (drop 16 ws)"

definition sha256 :: "bytes \<Rightarrow> bytes" where
  "sha256 m =
     (let p = sha256_pad m in
      concat (map (\<lambda>w. be_bytes 4 (unat w)) (compress_all (length p div 64) sha256_init (words_of p))))"

definition hexlify :: "bytes \<Rightarrow> string" where
  "hexlify bs = concat (map (\<lambda>b. [hex_digit (b div 16), hex_digit (b mod 16)]) bs)"

definition hexdigest :: "bytes \<Rightarrow> string" where
  "hexdigest m = hexlify (sha256 m)"

definition encode_ascii :: "string \<Rightarrow> bytes" where
  "encode_ascii s = map of_char s"

definition hash_json :: "json \<Rightarrow> string" where
  "hash_json v = hexdigest (encode_ascii (canonical_json_bytes v))"

definition hmac_sha256 :: "bytes \<Rightarrow> bytes \<Rightarrow> string" where
  \<comment> \<open>\<^verbatim>\<open>hmac.new(key, msg, hashlib.sha256).hexdigest()\<close>\<close>
  "hmac_sha256 key msg =
     (let k0 = (if 64 < length key then sha256 key else key);
          k = k0 @ replicate (64 - length k0) 0
      in hexdigest (map (\<lambda>b. b XOR 92) k @ sha256 (map (\<lambda>b. b XOR 54) k @ msg)))"

definition hex_value :: "char \<Rightarrow> nat" where
  "hex_value c =
     (let n = (of_char c :: nat) in
      if n \<le> 57 then n - 48 else if n \<le> 70 then n - 55 else n - 87)"

fun fromhex :: "string \<Rightarrow> bytes option" where
  \<comment> \<open>\<^verbatim>\<open>bytes.fromhex\<close> on text without spaces; \<open>None\<close> is \<^verbatim>\<open>ValueError\<close>\<close>
  "fromhex [] = Some []"
| "fromhex [c] = None"
| "fromhex (a # b # rest) =
     (if is_hex a \<and> is_hex b
      then map_option (\<lambda>bs. (16 * hex_value a + hex_value b) # bs) (fromhex rest)
      else None)"

subsection \<open>Digests are 64 lower case hexadecimal digits\<close>

definition is_digest :: "string \<Rightarrow> bool" where
  "is_digest s \<longleftrightarrow> length s = 64 \<and> list_all is_lower_hex s"

lemma length_list_of_vars: "length (list_of_vars v) = 8"
  by (cases v rule: list_of_vars.cases) simp

lemma length_compress: "length hs = 8 \<Longrightarrow> length (compress hs b) = 8"
  by (simp add: compress_def length_list_of_vars)

lemma length_compress_all: "length hs = 8 \<Longrightarrow> length (compress_all k hs ws) = 8"
  by (induction k arbitrary: hs ws) (simp_all add: length_compress)

lemma length_be_bytes [simp]: "length (be_bytes k n) = k"
  by (simp add: be_bytes_def)

lemma be_bytes_bound: "b \<in> set (be_bytes k n) \<Longrightarrow> b < 256"
  by (auto simp: be_bytes_def)

lemma length_concat_const: "(\<And>x. x \<in> set xs \<Longrightarrow> length (f x) = k) \<Longrightarrow> length (concat (map f xs)) = k * length xs"
  by (induction xs) auto

lemma length_sha256 [simp]: "length (sha256 m) = 32"
proof -
  have "length (compress_all k sha256_init ws) = 8" for k ws
    by (rule length_compress_all) (simp add: sha256_init_def sha256_primes_def)
  then show ?thesis
    by (simp add: sha256_def Let_def length_concat_const [where k = 4])
qed

lemma sha256_bound: "b \<in> set (sha256 m) \<Longrightarrow> b < 256"
  by (auto simp: sha256_def Let_def dest: be_bytes_bound)

lemma hex_digit_lower: "n < 16 \<Longrightarrow> is_lower_hex (hex_digit n)"
  by (auto simp: hex_digit_def is_lower_hex_def is_digit_def of_char_of)

lemma hexdigest_digest: "is_digest (hexdigest m)"
proof -
  have "length (hexdigest m) = 64"
    by (simp add: hexdigest_def hexlify_def length_concat_const [where k = 2])
  moreover have "list_all is_lower_hex (hexdigest m)"
    by (auto simp: hexdigest_def hexlify_def list_all_iff intro!: hex_digit_lower dest: sha256_bound)
  ultimately show ?thesis by (simp add: is_digest_def)
qed

lemma hash_json_digest [simp]: "is_digest (hash_json v)"
  by (simp add: hash_json_def hexdigest_digest)

lemma is_digest_lower: "is_digest s \<Longrightarrow> lower s = s"
  by (simp add: is_digest_def lower_hex_fixed)

lemma lower_hash_json [simp]: "lower (hash_json v) = hash_json v"
  by (simp add: is_digest_lower)

lemma hash_json_not_Nil [simp]: "hash_json v \<noteq> []"
  using hash_json_digest [of v] by (auto simp: is_digest_def)

end
