(* ===== verification/Contracts.thy ===== *)
theory Contracts
  imports Complex_Main Contract_Text Hashing
begin

section \<open>Contracts: the values every component exchanges\<close>

text \<open>
  The frozen pydantic models of \<^verbatim>\<open>src/auto_code/contracts.py\<close> that a run state is
  made of, as records and datatypes, in the order of the file.  \<open>x_valid\<close> says
  whether the constructor of a model accepts its field values (field patterns,
  then field validators, then the model validator); \<open>x_normal\<close> is the change the
  field validators make (lower case digests).  A datetime is its instant in
  microseconds, a mapping of text to digests is its association list sorted by
  key (Python's dict equality ignores order, and the sorted list is the one
  representative), a float wait is a rational number.
\<close>

type_synonym datetime = int
type_synonym seconds = rat
type_synonym digest_map = "(string \<times> string) list"

subsection \<open>Enumerations\<close>

datatype stage =
    ANALYST | ARCHITECT_OUTLINE | ARCHITECT_PROPOSAL | ARCHITECT_SPECS | ARCHITECT_DESIGN
  | ARCHITECT_TASKS | PROGRAMMER | VERIFICATION | TESTER | REVIEWER

datatype failure_class = PRODUCT | INVALID_OUTPUT | ORCHESTRATION | AMBIGUITY | BUDGET_EXHAUSTED

datatype failure_source =
    FS_PREFLIGHT | FS_TRANSPORT | FS_ARTIFACT | FS_VERIFICATION | FS_BROWSER | FS_REVIEW
  | FS_FINALIZATION | FS_SUPERVISOR

datatype finding_kind =
    IMPLEMENTATION_MISMATCH | SCENARIO_MISMATCH | ARTIFACT_MISMATCH | REQUIREMENTS_MISMATCH
  | INVALID_UNIT_OUTPUT | INVALID_ROUTING

datatype run_disposition = ACTIVE | WAITING_MCP | REPAIR_REQUIRED | HUMAN_REVIEW | DONE | ABANDONED

datatype step_kind =
    STEP_CONTINUE | STEP_MCP_ACTION | STEP_ITERATION_FAILED | STEP_REPAIR_REQUIRED
  | STEP_READY_TO_FINALIZE | STEP_HUMAN_REVIEW | STEP_DONE

datatype preparation_phase =
    SELECTED | IN_PROGRESS_REQUESTED | IN_PROGRESS_CONFIRMED | BRANCH_CREATED | READY
  | COMPENSATION_REQUIRED

datatype unit_status = UNCHECKED | CHECKED

datatype effect_outcome = SUCCESS | FAILURE | NOT_FOUND | CONFLICT | UNKNOWN

datatype authorization_action = RESUME | ABANDON

definition all_stages :: "stage list" where
  "all_stages =
     [ANALYST, ARCHITECT_OUTLINE, ARCHITECT_PROPOSAL, ARCHITECT_SPECS, ARCHITECT_DESIGN,
      ARCHITECT_TASKS, PROGRAMMER, VERIFICATION, TESTER, REVIEWER]"

lemma set_all_stages [simp]: "set all_stages = UNIV"
proof -
  have "s \<in> set all_stages" for s by (cases s) (simp_all add: all_stages_def)
  then show ?thesis by blast
qed

lemma distinct_all_stages [simp]: "distinct all_stages"
  by (simp add: all_stages_def)

instantiation stage :: enum
begin
definition enum_stage :: "stage list" where
  "enum_stage = all_stages"
definition enum_all_stage :: "(stage \<Rightarrow> bool) \<Rightarrow> bool" where
  "enum_all_stage P = list_all P all_stages"
definition enum_ex_stage :: "(stage \<Rightarrow> bool) \<Rightarrow> bool" where
  "enum_ex_stage P = list_ex P all_stages"
instance
  by standard (auto simp: enum_stage_def enum_all_stage_def enum_ex_stage_def list_all_iff list_ex_iff)
end

primrec stage_value :: "stage \<Rightarrow> string" where
  "stage_value ANALYST = ''analyst''"
| "stage_value ARCHITECT_OUTLINE = ''architect_outline''"
| "stage_value ARCHITECT_PROPOSAL = ''architect_proposal''"
| "stage_value ARCHITECT_SPECS = ''architect_specs''"
| "stage_value ARCHITECT_DESIGN = ''architect_design''"
| "stage_value ARCHITECT_TASKS = ''architect_tasks''"
| "stage_value PROGRAMMER = ''programmer''"
| "stage_value VERIFICATION = ''verification''"
| "stage_value TESTER = ''tester''"
| "stage_value REVIEWER = ''reviewer''"

definition architect_stages :: "stage set" where
  "architect_stages =
     {ARCHITECT_OUTLINE, ARCHITECT_PROPOSAL, ARCHITECT_SPECS, ARCHITECT_DESIGN, ARCHITECT_TASKS}"

subsection \<open>Evidence\<close>

record evidence_ref =
  ev_relative_path :: string
  ev_sha256 :: string
  ev_media_type :: string
  ev_creator :: string

definition evidence_ref_valid :: "evidence_ref \<Rightarrow> bool" where
  "evidence_ref_valid e \<longleftrightarrow>
     evidence_path (ev_relative_path e)
     \<and> sha256_pattern (ev_sha256 e)
     \<and> evidence_media_type (ev_media_type e)
     \<and> safe_identifier (ev_creator e)
     \<and> safe_text (ev_relative_path e)
     \<and> safe_text (ev_creator e)"

definition digest_map_valid :: "(string \<Rightarrow> bool) \<Rightarrow> digest_map \<Rightarrow> bool" where
  "digest_map_valid key m \<longleftrightarrow>
     sorted (map fst m) \<and> distinct (map fst m) \<and> list_all (\<lambda>(k, h). key k \<and> sha256_pattern h) m"

subsection \<open>Checkpoints, stage outputs and failures\<close>

record checkpoint =
  ck_id :: "string option"
  ck_stage :: stage
  ck_contract_hash :: string
  ck_input_hashes :: digest_map
  ck_output_manifest_hash :: string
  ck_validator :: string
  ck_validator_version :: string
  ck_validation_receipt_hash :: string
  ck_evidence :: "evidence_ref list"

definition checkpoint_valid :: "checkpoint \<Rightarrow> bool" where
  "checkpoint_valid c \<longleftrightarrow>
     opt_all checkpoint_id_pattern (ck_id c)
     \<and> sha256_pattern (ck_contract_hash c)
     \<and> digest_map_valid reference_id (ck_input_hashes c)
     \<and> sha256_pattern (ck_output_manifest_hash c)
     \<and> safe_identifier (ck_validator c)
     \<and> reference_id (ck_validator_version c)
     \<and> sha256_pattern (ck_validation_receipt_hash c)
     \<and> list_all evidence_ref_valid (ck_evidence c)
     \<and> list_all (\<lambda>(k, h). safe_text k) (ck_input_hashes c)
     \<and> safe_text (ck_validator c)
     \<and> safe_text (ck_validator_version c)"

record stage_output =
  so_stage :: stage
  so_content_hash :: string

record failure_record =
  fr_class :: failure_class
  fr_source :: failure_source
  fr_finding :: finding_kind
  fr_owner_stage :: "stage option"
  fr_cited_ids :: "string list"
  fr_evidence_refs :: "evidence_ref list"
  fr_observed_revision :: "int option"

definition failure_record_valid :: "failure_record \<Rightarrow> bool" where
  "failure_record_valid f \<longleftrightarrow>
     list_all evidence_ref_valid (fr_evidence_refs f)
     \<and> opt_all (\<lambda>n. 0 \<le> n) (fr_observed_revision f)"

subsection \<open>The effect ledger's events\<close>

record intention_payload =
  ip_operation :: string
  ip_target :: string
  ip_request_hash :: string

record invocation_payload =
  iv_wait_seconds :: seconds

record observation_payload =
  op_outcome :: effect_outcome
  op_external_revision :: "string option"
  op_evidence_refs :: "evidence_ref list"

record reconciliation_payload =
  rp_outcome :: effect_outcome
  rp_evidence_refs :: "evidence_ref list"
  rp_receipt_hash :: "string option"

datatype effect_event =
    Effect_Intention (event_effect_id: string) (event_sequence: int) (event_timestamp: datetime)
      (intention_payload: intention_payload)
  | Effect_Invocation (event_effect_id: string) (event_sequence: int) (event_timestamp: datetime)
      (invocation_payload: invocation_payload)
  | Effect_Observation (event_effect_id: string) (event_sequence: int) (event_timestamp: datetime)
      (observation_payload: observation_payload)
  | Effect_Reconciliation (event_effect_id: string) (event_sequence: int) (event_timestamp: datetime)
      (reconciliation_payload: reconciliation_payload)

definition intention_payload_valid :: "intention_payload \<Rightarrow> bool" where
  "intention_payload_valid p \<longleftrightarrow>
     effect_operation (ip_operation p) \<and> reference_id (ip_target p) \<and> sha256_pattern (ip_request_hash p)
     \<and> safe_text (ip_operation p) \<and> safe_text (ip_target p) \<and> safe_text (ip_request_hash p)"

definition observation_payload_valid :: "observation_payload \<Rightarrow> bool" where
  "observation_payload_valid p \<longleftrightarrow>
     opt_all (\<lambda>v. external_revision_ok v \<and> safe_text v) (op_external_revision p)
     \<and> list_all evidence_ref_valid (op_evidence_refs p)"

definition reconciliation_payload_valid :: "reconciliation_payload \<Rightarrow> bool" where
  "reconciliation_payload_valid p \<longleftrightarrow>
     list_all evidence_ref_valid (rp_evidence_refs p)
     \<and> opt_all (\<lambda>h. sha256_pattern h \<and> lower h = h) (rp_receipt_hash p)"

definition effect_event_valid :: "effect_event \<Rightarrow> bool" where
  "effect_event_valid e \<longleftrightarrow>
     reference_id (event_effect_id e) \<and> 0 < event_sequence e \<and> safe_text (event_effect_id e)
     \<and> (case e of
          Effect_Intention _ _ _ p \<Rightarrow> intention_payload_valid p
        | Effect_Invocation _ _ _ p \<Rightarrow> 0 \<le> iv_wait_seconds p
        | Effect_Observation _ _ _ p \<Rightarrow> observation_payload_valid p
        | Effect_Reconciliation _ _ _ p \<Rightarrow> reconciliation_payload_valid p)"

subsection \<open>Tasks\<close>

record task_definition =
  td_task_id :: string
  td_text :: string

record task_definition_manifest =
  tdm_definition_hash :: string
  tdm_tasks :: "task_definition list"

record task_status =
  ts_task_id :: string
  ts_status :: unit_status

record task_status_manifest =
  tsm_definition_hash :: string
  tsm_statuses :: "task_status list"

definition task_definition_json :: "task_definition \<Rightarrow> json" where
  "task_definition_json t = JObj [(''task_id'', JStr (td_task_id t)), (''text'', JStr (td_text t))]"

definition canonical_task_definition_hash :: "task_definition list \<Rightarrow> string" where
  "canonical_task_definition_hash tasks = hash_json (JList (map task_definition_json tasks))"

definition task_definition_manifest_valid :: "task_definition_manifest \<Rightarrow> bool" where
  "task_definition_manifest_valid m \<longleftrightarrow>
     sha256_pattern (tdm_definition_hash m)
     \<and> no_dups (map td_task_id (tdm_tasks m))
     \<and> tdm_definition_hash m = canonical_task_definition_hash (tdm_tasks m)"

definition task_status_manifest_valid :: "task_status_manifest \<Rightarrow> bool" where
  "task_status_manifest_valid m \<longleftrightarrow>
     sha256_pattern (tsm_definition_hash m) \<and> no_dups (map ts_task_id (tsm_statuses m))"

subsection \<open>Human authorizations\<close>

record human_authorization =
  ha_id :: string
  ha_action :: authorization_action
  ha_run_id :: string
  ha_challenge :: string
  ha_actor :: string
  ha_reason :: string
  ha_issued_at :: datetime
  ha_expires_at :: datetime
  ha_key_id :: string
  ha_signature :: string
  ha_additional_iterations :: int
  ha_consumed_at :: "datetime option"

definition human_authorization_valid :: "human_authorization \<Rightarrow> bool" where
  "human_authorization_valid a \<longleftrightarrow>
     0 \<le> ha_additional_iterations a
     \<and> \<not> (ha_action a = RESUME \<and> ha_additional_iterations a = 0)
     \<and> \<not> (ha_action a = ABANDON \<and> ha_additional_iterations a \<noteq> 0)"

definition consumed_resume_grant :: "human_authorization \<Rightarrow> int" where
  "consumed_resume_grant a =
     (case ha_consumed_at a of
        None \<Rightarrow> 0
      | Some t \<Rightarrow>
          (if ha_action a = RESUME \<and> ha_issued_at a \<le> t \<and> t \<le> ha_expires_at a
           then ha_additional_iterations a else 0))"

lemma consumed_resume_grant_nonneg: "human_authorization_valid a \<Longrightarrow> 0 \<le> consumed_resume_grant a"
  by (auto simp: human_authorization_valid_def consumed_resume_grant_def split: option.splits)

subsection \<open>Runner identity and the preparation input reference\<close>

record runner_identity =
  ri_content_hash :: string
  ri_source_sha :: string
  ri_dependency_lock_hash :: string
  ri_contract_bundle_hash :: string
  ri_runner_archive_hash :: string
  ri_built_at :: datetime

definition lower_sha256 :: "string \<Rightarrow> bool" where
  \<comment> \<open>a digest field after its normalizing validator\<close>
  "lower_sha256 h \<longleftrightarrow> sha256_pattern h \<and> lower h = h"

definition runner_identity_valid :: "runner_identity \<Rightarrow> bool" where
  "runner_identity_valid r \<longleftrightarrow>
     lower_sha256 (ri_content_hash r) \<and> lower_sha256 (ri_source_sha r)
     \<and> lower_sha256 (ri_dependency_lock_hash r) \<and> lower_sha256 (ri_contract_bundle_hash r)
     \<and> lower_sha256 (ri_runner_archive_hash r)"

record preparation_input_ref =
  pi_input_id :: string
  pi_relative_path :: string
  pi_repository_id :: string
  pi_reservation_id :: string
  pi_challenge_hash :: string
  pi_input_hash :: string
  pi_query_hash :: string
  pi_payload_hash :: string
  pi_result_hash :: string
  pi_source_page_hashes :: digest_map
  pi_pagination_complete :: bool
  pi_max_crew_iterations :: int
  pi_bridge_identity :: string
  pi_mcp_server_identity :: string
  pi_tool_call_id :: string
  pi_captured_at :: datetime
  pi_observations :: "string list"
  pi_bridge_signature :: "string option"

definition preparation_input_ref_valid :: "preparation_input_ref \<Rightarrow> bool" where
  "preparation_input_ref_valid p \<longleftrightarrow>
     canonical_uuid (pi_input_id p)
     \<and> evidence_path (pi_relative_path p)
     \<and> starts_with ''trusted-mcp/preparation/'' (pi_relative_path p)
     \<and> list_all (\<lambda>v. reference_id v \<and> safe_text v)
         [pi_repository_id p, pi_reservation_id p, pi_bridge_identity p,
          pi_mcp_server_identity p, pi_tool_call_id p]
     \<and> list_all lower_sha256
         [pi_challenge_hash p, pi_input_hash p, pi_query_hash p, pi_payload_hash p, pi_result_hash p]
     \<and> length (pi_source_page_hashes p) \<le> 512
     \<and> digest_map_valid safe_snapshot_identifier (pi_source_page_hashes p)
     \<and> 0 < pi_max_crew_iterations p
     \<and> length (pi_observations p) \<le> 32
     \<and> list_all (\<lambda>v. length v \<le> 1024) (pi_observations p)
     \<and> opt_all (fullmatch (Rep (Cls is_lower_hex) 64 0)) (pi_bridge_signature p)"

subsection \<open>Branch binding and finalization evidence\<close>

record branch_binding =
  bb_ticket_id :: string
  bb_branch :: string
  bb_base_sha :: string
  bb_repository_identity :: string
  bb_remote_fingerprint :: string
  bb_default_branch :: string
  bb_checkpoint_lineage :: string

definition branch_text :: "string \<Rightarrow> bool" where
  "branch_text s =
     fullmatch (Cat (Cls is_alnum) (Rep (Cls (\<lambda>c. is_alnum c \<or> c \<in> set ''._/-'')) 0 255)) s"

definition branch_binding_valid :: "branch_binding \<Rightarrow> bool" where
  "branch_binding_valid b \<longleftrightarrow>
     sha256_pattern (bb_repository_identity b)
     \<and> sha256_pattern (bb_remote_fingerprint b)
     \<and> fullmatch (Cat (Cls is_alnum) (Rep (Cls ident_char) 0 127)) (bb_ticket_id b)
     \<and> branch_text (bb_branch b)
     \<and> starts_with (bb_ticket_id b @ ''-'') (bb_branch b)
     \<and> lower_git_sha (bb_base_sha b)
     \<and> branch_text (bb_default_branch b)
     \<and> bb_checkpoint_lineage b \<noteq> []"

record finalization_evidence =
  fe_prefinalization_ticket_projection :: string
  fe_commit_sha :: string
  fe_pushed_sha :: string
  fe_linear_done_receipt :: string

definition finalization_evidence_valid :: "finalization_evidence \<Rightarrow> bool" where
  "finalization_evidence_valid e \<longleftrightarrow>
     list_all (\<lambda>v. reference_id v \<and> safe_text v)
       [fe_prefinalization_ticket_projection e, fe_commit_sha e, fe_pushed_sha e,
        fe_linear_done_receipt e]"

subsection \<open>Index release\<close>

record index_release_binding =
  ib_repository_id :: string
  ib_run_id :: string
  ib_prior_revision :: int
  ib_prior_hash :: string

record index_release_receipt =
  ir_repository_id :: string
  ir_run_id :: string
  ir_prior_revision :: int
  ir_prior_hash :: string
  ir_terminal_generation_hash :: string
  ir_receipt_hash :: string
  ir_signature :: "string option"

definition index_release_binding_valid :: "index_release_binding \<Rightarrow> bool" where
  "index_release_binding_valid b \<longleftrightarrow>
     safe_snapshot_identifier (ib_repository_id b) \<and> safe_snapshot_identifier (ib_run_id b)
     \<and> 1 \<le> ib_prior_revision b \<and> lower_sha256 (ib_prior_hash b)"

definition receipt_payload :: "index_release_receipt \<Rightarrow> json" where
  "receipt_payload r =
     JObj [(''repository_id'', JStr (ir_repository_id r)),
           (''run_id'', JStr (ir_run_id r)),
           (''prior_revision'', JInt (ir_prior_revision r)),
           (''prior_hash'', JStr (ir_prior_hash r)),
           (''terminal_generation_hash'', JStr (ir_terminal_generation_hash r))]"

definition index_release_receipt_valid :: "index_release_receipt \<Rightarrow> bool" where
  "index_release_receipt_valid r \<longleftrightarrow>
     safe_snapshot_identifier (ir_repository_id r) \<and> safe_snapshot_identifier (ir_run_id r)
     \<and> 1 \<le> ir_prior_revision r \<and> lower_sha256 (ir_prior_hash r)
     \<and> lower_sha256 (ir_terminal_generation_hash r) \<and> lower_sha256 (ir_receipt_hash r)
     \<and> opt_all (fullmatch (Rep (Cls is_lower_hex) 128 0)) (ir_signature r)
     \<and> ir_receipt_hash r = hash_json (receipt_payload r)"

definition index_release_receipt_create ::
  "string \<Rightarrow> string \<Rightarrow> int \<Rightarrow> string \<Rightarrow> string \<Rightarrow> index_release_receipt" where
  "index_release_receipt_create repository_id run_id prior_revision prior_hash terminal_generation_hash =
     (let r = \<lparr>ir_repository_id = repository_id, ir_run_id = run_id,
               ir_prior_revision = prior_revision, ir_prior_hash = prior_hash,
               ir_terminal_generation_hash = terminal_generation_hash,
               ir_receipt_hash = [], ir_signature = None\<rparr>
      in r\<lparr>ir_receipt_hash := hash_json (receipt_payload r)\<rparr>)"

definition receipt_for :: "index_release_binding \<Rightarrow> string \<Rightarrow> index_release_receipt" where
  "receipt_for b terminal_generation_hash =
     index_release_receipt_create (ib_repository_id b) (ib_run_id b) (ib_prior_revision b)
       (ib_prior_hash b) terminal_generation_hash"

definition receipt_matches :: "index_release_receipt \<Rightarrow> index_release_receipt \<Rightarrow> bool" where
  "receipt_matches r expected \<longleftrightarrow>
     receipt_payload r = receipt_payload expected \<and> ir_receipt_hash r = ir_receipt_hash expected"

definition receipt_binding :: "index_release_receipt \<Rightarrow> index_release_binding" where
  "receipt_binding r =
     \<lparr>ib_repository_id = ir_repository_id r, ib_run_id = ir_run_id r,
      ib_prior_revision = ir_prior_revision r, ib_prior_hash = ir_prior_hash r\<rparr>"

definition with_signature :: "index_release_receipt \<Rightarrow> string \<Rightarrow> index_release_receipt" where
  "with_signature r signature = r\<lparr>ir_signature := Some signature\<rparr>"

definition signing_payload :: "index_release_receipt \<Rightarrow> json" where
  "signing_payload r =
     JObj [(''domain'', JStr ''auto-code-index-release/v1''),
           (''repository_id'', JStr (ir_repository_id r)),
           (''run_id'', JStr (ir_run_id r)),
           (''prior_revision'', JInt (ir_prior_revision r)),
           (''prior_hash'', JStr (ir_prior_hash r)),
           (''terminal_generation_hash'', JStr (ir_terminal_generation_hash r)),
           (''receipt_hash'', JStr (ir_receipt_hash r))]"

text \<open>
  Ed25519 verification is the cryptography package's: the parameter \<open>ed25519\<close> takes
  the public key, the signature and the message.
\<close>

type_synonym signature_check = "bytes \<Rightarrow> bytes \<Rightarrow> string \<Rightarrow> bool"

definition receipt_signature_ok :: "signature_check \<Rightarrow> index_release_receipt \<Rightarrow> string \<Rightarrow> string \<Rightarrow> bool" where
  "receipt_signature_ok ed25519 r public_key public_key_hash =
     (case fromhex public_key of
        None \<Rightarrow> False
      | Some key \<Rightarrow>
          (case ir_signature r of
             None \<Rightarrow> False
           | Some sig \<Rightarrow>
               hexdigest key = public_key_hash
               \<and> (case fromhex sig of
                    None \<Rightarrow> False
                  | Some s \<Rightarrow> ed25519 key s (canonical_json_bytes (signing_payload r)))))"

lemma receipt_for_binding: "receipt_binding (receipt_for b h) = b"
  by (simp add: receipt_for_def index_release_receipt_create_def receipt_binding_def Let_def)

lemma receipt_for_valid:
  assumes "index_release_binding_valid b" and "lower_sha256 h"
  shows "index_release_receipt_valid (receipt_for b h)"
proof -
  have "lower_sha256 (hash_json v)" for v
    using hash_json_digest [of v]
    by (auto simp: lower_sha256_def sha256_pattern_iff is_digest_def is_hex_def list_all_iff)
  with assms show ?thesis
    by (simp add: receipt_for_def index_release_receipt_create_def index_release_receipt_valid_def
        index_release_binding_valid_def Let_def receipt_payload_def)
qed

lemma receipt_matches_binding:
  "receipt_matches r (receipt_for b h) \<Longrightarrow> receipt_binding r = b \<and> ir_terminal_generation_hash r = h"
  by (simp add: receipt_matches_def receipt_payload_def receipt_for_def
      index_release_receipt_create_def receipt_binding_def Let_def)

end
