(* ===== verification/Run_State.thy ===== *)
theory Run_State
  imports Contracts
begin

section \<open>Requests and the run state\<close>

text \<open>
  \<^verbatim>\<open>McpActionRequest\<close>, \<^verbatim>\<open>PendingExternalRequest\<close>, \<^verbatim>\<open>RunState\<close> and \<^verbatim>\<open>StepResult\<close> of
  \<^verbatim>\<open>src/auto_code/contracts.py\<close>.  \<open>run_state\<close> has the fields of the source under
  their names.  \<open>validate_state\<close> is the model validator with its checks in order,
  \<open>model_validate\<close> the whole construction (nested models, field validators, model
  validator), and \<open>model_copy\<close> is the override in \<^verbatim>\<open>ContractModel\<close>: an update is
  applied and the result validated again, so an update may fail.
\<close>

datatype contract_error =
    Invalid_Field
  | Ticket_Target_Mismatch | Effect_Hash_Mismatch | Request_Hash_Mismatch
  | Pending_Not_Reconstructable | Pending_Payload_Mismatch
  | Preparation_Binding_Incomplete | Preparation_Repository_Mismatch | Preparation_Budget_Mismatch
  | Preparation_Input_Hash_Mismatch | Compatibility_Hash_Mismatch | Preparation_State_Unbound
  | Repair_Trust_Incomplete | Repair_Key_Hash_Mismatch
  | Finalization_Trust_Incomplete | Finalization_Key_Hash_Mismatch | Finalization_Key_Not_Dedicated
  | Release_Receipt_Mismatch | Release_Receipt_Missing
  | Product_Manifest_Unbound | Restart_Receipt_Unbound
  | Iteration_Limit_Exceeded | Open_Iteration_Uncounted | Eligible_While_Open | Eligible_Without_Review
  | Authorization_Foreign_Run | Authorization_Duplicate
  | Status_Without_Definition | Status_Hash_Mismatch | Status_Coverage_Mismatch
  | Checkpoint_Key_Mismatch | Output_Duplicate | Output_Checkpoint_Mismatch | Output_Hash_Mismatch
  | Ledger_Sequence_Not_Increasing | Ledger_Second_Intention | Ledger_Invocation_Not_Ready
  | Ledger_Observation_Without_Invocation | Ledger_Reconciliation_Incomplete
  | Ledger_Second_Reconciliation
  | Pending_Unknown_Effect | Pending_Reconciled | Pending_Intention_Mismatch
  | Iteration_Cannot_Start
  | Step_Shape_Invalid

subsection \<open>MCP requests\<close>

record mcp_request =
  mr_request_id :: string
  mr_effect_id :: string
  mr_effect_hash :: string
  mr_operation :: string
  mr_entity :: string
  mr_target :: string
  mr_expected_external_revision :: "string option"
  mr_run_id :: string
  mr_expected_revision :: int
  mr_expected_state_hash :: string
  mr_arguments :: "(string \<times> json) list"
  mr_request_hash :: string

definition ticket_mcp_operations :: "string set" where
  "ticket_mcp_operations =
     {''query_ticket_projection'', ''query_ticket_state'', ''compare_and_start_ticket'',
      ''compare_and_complete_ticket'', ''restore_ticket_state''}"

definition json_opt :: "string option \<Rightarrow> json" where
  "json_opt v = (case v of None \<Rightarrow> JNull | Some s \<Rightarrow> JStr s)"

definition effect_payload :: "mcp_request \<Rightarrow> json" where
  "effect_payload r =
     JObj [(''effect_id'', JStr (mr_effect_id r)),
           (''operation'', JStr (mr_operation r)),
           (''entity'', JStr (mr_entity r)),
           (''target'', JStr (mr_target r)),
           (''expected_external_revision'', json_opt (mr_expected_external_revision r)),
           (''arguments'', JObj (mr_arguments r))]"

definition request_payload :: "mcp_request \<Rightarrow> json" where
  "request_payload r =
     JObj [(''schema_version'', JStr ''v1''),
           (''request_id'', JStr (mr_request_id r)),
           (''effect_id'', JStr (mr_effect_id r)),
           (''effect_hash'', JStr (mr_effect_hash r)),
           (''operation'', JStr (mr_operation r)),
           (''entity'', JStr (mr_entity r)),
           (''target'', JStr (mr_target r)),
           (''expected_external_revision'', json_opt (mr_expected_external_revision r)),
           (''run_id'', JStr (mr_run_id r)),
           (''expected_revision'', JInt (mr_expected_revision r)),
           (''expected_state_hash'', JStr (mr_expected_state_hash r)),
           (''arguments'', JObj (mr_arguments r))]"

definition mr_payload_hash :: "mcp_request \<Rightarrow> string" where
  "mr_payload_hash r = hash_json (JObj (mr_arguments r))"

definition validated_ticket_target :: "mcp_request \<Rightarrow> contract_error + string option" where
  "validated_ticket_target r =
     (if mr_operation r \<notin> ticket_mcp_operations then Inr None
      else case map_of (mr_arguments r) ''ticket_id'' of
          Some (JStr ticket_id) \<Rightarrow>
            (if mr_entity r \<noteq> ''ticket'' \<or> ticket_id \<noteq> mr_target r
             then Inl Ticket_Target_Mismatch else Inr (Some ticket_id))
        | _ \<Rightarrow> Inl Ticket_Target_Mismatch)"

text \<open>
  The arguments of a request: text values that the sanitizer would change, or that look
  like secrets, are refused (\<^verbatim>\<open>_action_arguments\<close>).  The sanitizer of the contracts
  rewrites URLs through \<^verbatim>\<open>urllib\<close>; whether it leaves a text unchanged is the
  parameter \<open>clean\<close>.
\<close>

fun json_texts :: "json \<Rightarrow> string list" where
  \<comment> \<open>the text values of \<^verbatim>\<open>_walk_json_values\<close>\<close>
  "json_texts (JStr s) = [s]"
| "json_texts (JList vs) = concat (map json_texts vs)"
| "json_texts (JObj kvs) = concat (map (\<lambda>(k, v). k # json_texts v) kvs)"
| "json_texts _ = []"

fun json_depth_within :: "nat \<Rightarrow> json \<Rightarrow> bool" where
  \<comment> \<open>nesting of at most \<open>n\<close> below this value\<close>
  "json_depth_within n (JList vs) =
     (case n of 0 \<Rightarrow> vs = [] | Suc m \<Rightarrow> (\<forall>v \<in> set vs. json_depth_within m v))"
| "json_depth_within n (JObj kvs) =
     (case n of 0 \<Rightarrow> kvs = [] | Suc m \<Rightarrow> (\<forall>kv \<in> set kvs. json_depth_within m (snd kv)))"
| "json_depth_within n v = True"

fun json_sizes_ok :: "json \<Rightarrow> bool" where
  "json_sizes_ok (JList vs) = (length vs \<le> 512 \<and> (\<forall>v \<in> set vs. json_sizes_ok v))"
| "json_sizes_ok (JObj kvs) =
     (length kvs \<le> 512 \<and> distinct (map fst kvs) \<and> (\<forall>kv \<in> set kvs. json_sizes_ok (snd kv)))"
| "json_sizes_ok v = True"

definition action_arguments_ok :: "(string \<Rightarrow> bool) \<Rightarrow> (string \<times> json) list \<Rightarrow> bool" where
  "action_arguments_ok clean args \<longleftrightarrow>
     json_depth_within 32 (JObj args)
     \<and> list_all clean (json_texts (JObj args))
     \<and> json_sizes_ok (JObj args)
     \<and> list_all (\<lambda>s. \<not> looks_sensitive s) (json_texts (JObj args))"

definition mcp_request_fields_ok :: "(string \<Rightarrow> bool) \<Rightarrow> mcp_request \<Rightarrow> bool" where
  "mcp_request_fields_ok clean r \<longleftrightarrow>
     canonical_uuid (mr_request_id r)
     \<and> list_all (\<lambda>v. reference_id v \<and> safe_text v)
         [mr_effect_id r, mr_entity r, mr_target r, mr_run_id r]
     \<and> sha256_pattern (mr_effect_hash r)
     \<and> effect_operation (mr_operation r)
     \<and> opt_all external_revision_ok (mr_expected_external_revision r)
     \<and> 1 \<le> mr_expected_revision r
     \<and> sha256_pattern (mr_expected_state_hash r)
     \<and> action_arguments_ok clean (mr_arguments r)
     \<and> sha256_pattern (mr_request_hash r)"

definition mcp_request_normal :: "mcp_request \<Rightarrow> mcp_request" where
  "mcp_request_normal r =
     r\<lparr>mr_effect_hash := lower (mr_effect_hash r),
       mr_expected_state_hash := lower (mr_expected_state_hash r),
       mr_request_hash := lower (mr_request_hash r)\<rparr>"

definition validate_request_hashes :: "mcp_request \<Rightarrow> contract_error + mcp_request" where
  "validate_request_hashes r =
     bind_result (validated_ticket_target r) (\<lambda>_.
       checked
         [(mr_effect_hash r \<noteq> hash_json (effect_payload r), Effect_Hash_Mismatch),
          (mr_request_hash r \<noteq> hash_json (request_payload r), Request_Hash_Mismatch)] r)"

definition mcp_request_validate :: "(string \<Rightarrow> bool) \<Rightarrow> mcp_request \<Rightarrow> contract_error + mcp_request" where
  "mcp_request_validate clean r =
     (if \<not> mcp_request_fields_ok clean r then Inl Invalid_Field
      else validate_request_hashes (mcp_request_normal r))"

text \<open>\<open>request_id\<close> and \<open>fresh_effect_id\<close> are the two draws of \<^verbatim>\<open>uuid.uuid4()\<close>.\<close>

definition mcp_request_create ::
  "(string \<Rightarrow> bool) \<Rightarrow> string \<Rightarrow> string \<Rightarrow> string \<Rightarrow> string \<Rightarrow> string \<Rightarrow> string option \<Rightarrow> string
   \<Rightarrow> int \<Rightarrow> string \<Rightarrow> (string \<times> json) list \<Rightarrow> string option \<Rightarrow> contract_error + mcp_request" where
  "mcp_request_create clean request_id fresh_effect_id operation entity target
     expected_external_revision run_id expected_revision expected_state_hash arguments effect_id =
     (if \<not> action_arguments_ok clean arguments then Inl Invalid_Field
      else
        let action_effect_id =
              (case effect_id of
                 Some e \<Rightarrow> if e = [] then ''linear-'' @ operation @ ''-'' @ fresh_effect_id else e
               | None \<Rightarrow> ''linear-'' @ operation @ ''-'' @ fresh_effect_id);
            r0 = \<lparr>mr_request_id = request_id, mr_effect_id = action_effect_id,
                  mr_effect_hash = [], mr_operation = operation, mr_entity = entity,
                  mr_target = target, mr_expected_external_revision = expected_external_revision,
                  mr_run_id = run_id, mr_expected_revision = expected_revision,
                  mr_expected_state_hash = lower expected_state_hash, mr_arguments = arguments,
                  mr_request_hash = []\<rparr>;
            r1 = r0\<lparr>mr_effect_hash := hash_json (effect_payload r0)\<rparr>
        in mcp_request_validate clean (r1\<lparr>mr_request_hash := hash_json (request_payload r1)\<rparr>))"

subsection \<open>Pending requests\<close>

record pending_request =
  pr_request_id :: string
  pr_effect_id :: string
  pr_request_hash :: string
  pr_operation :: string
  pr_entity :: "string option"
  pr_target :: "string option"
  pr_arguments :: "(string \<times> json) list option"
  pr_effect_hash :: "string option"
  pr_expected_revision :: "int option"
  pr_expected_state_hash :: "string option"
  pr_expected_external_revision :: "string option"
  pr_payload_hash :: "string option"

definition pending_request_valid :: "(string \<Rightarrow> bool) \<Rightarrow> pending_request \<Rightarrow> bool" where
  "pending_request_valid clean p \<longleftrightarrow>
     list_all (\<lambda>v. reference_id v \<and> safe_text v) [pr_request_id p, pr_effect_id p]
     \<and> sha256_pattern (pr_request_hash p) \<and> safe_text (pr_request_hash p)
     \<and> effect_operation (pr_operation p) \<and> safe_text (pr_operation p)
     \<and> opt_all (\<lambda>v. reference_id v \<and> safe_text v) (pr_entity p)
     \<and> opt_all (\<lambda>v. reference_id v \<and> safe_text v) (pr_target p)
     \<and> opt_all (action_arguments_ok clean) (pr_arguments p)
     \<and> opt_all lower_sha256 (pr_effect_hash p)
     \<and> opt_all (\<lambda>n. 1 \<le> n) (pr_expected_revision p)
     \<and> opt_all lower_sha256 (pr_expected_state_hash p)
     \<and> opt_all external_revision_ok (pr_expected_external_revision p)
     \<and> opt_all lower_sha256 (pr_payload_hash p)"

definition reconstruct_request ::
  "(string \<Rightarrow> bool) \<Rightarrow> pending_request \<Rightarrow> string \<Rightarrow> contract_error + mcp_request" where
  "reconstruct_request clean p run_id =
     (case (pr_entity p, pr_target p, pr_arguments p, pr_effect_hash p) of
        (Some entity, Some target, Some arguments, Some effect_hash) \<Rightarrow>
          (case (pr_expected_revision p, pr_expected_state_hash p) of
             (Some revision, Some state_hash) \<Rightarrow>
               (case mcp_request_validate clean
                       \<lparr>mr_request_id = pr_request_id p, mr_effect_id = pr_effect_id p,
                        mr_effect_hash = effect_hash, mr_operation = pr_operation p,
                        mr_entity = entity, mr_target = target,
                        mr_expected_external_revision = pr_expected_external_revision p,
                        mr_run_id = run_id, mr_expected_revision = revision,
                        mr_expected_state_hash = state_hash, mr_arguments = arguments,
                        mr_request_hash = pr_request_hash p\<rparr> of
                  Inl _ \<Rightarrow> Inl Pending_Not_Reconstructable
                | Inr request \<Rightarrow>
                    (if Some (mr_payload_hash request) \<noteq> pr_payload_hash p
                     then Inl Pending_Payload_Mismatch else Inr request))
           | _ \<Rightarrow> Inl Pending_Not_Reconstructable)
      | _ \<Rightarrow> Inl Pending_Not_Reconstructable)"

subsection \<open>The run state\<close>

record run_state =
  run_id :: string
  ticket_id :: string
  repository_id :: string
  max_crew_iterations :: int
  branch :: "string option"
  branch_binding :: "branch_binding option"
  preparation_phase :: preparation_phase
  project_policy_hash :: "string option"
  preparation_input_ref :: "preparation_input_ref option"
  preparation_input_hash :: "string option"
  ticket_snapshot_hash :: "string option"
  compatibility_receipt_hash :: "string option"
  compatibility_receipt_ref :: "evidence_ref option"
  disposition :: run_disposition
  compensated :: bool
  crew_iteration_count :: int
  iteration_open :: bool
  current_stage :: stage
  requirements_package :: "string option"
  change_outline :: "string option"
  stage_outputs :: "stage_output list"
  task_definition_manifest :: "task_definition_manifest option"
  task_status_manifest :: "task_status_manifest option"
  product_change_manifest :: "string option"
  product_change_manifest_hash :: "string option"
  build_identity :: "string option"
  verification_result :: "string option"
  browser_result :: "string option"
  review_manifest :: "string option"
  review_result :: "string option"
  checkpoints :: "stage \<Rightarrow> checkpoint option"
  failure_history :: "failure_record list"
  effect_ledger :: "effect_event list"
  human_authorizations :: "human_authorization list"
  runner_identity :: "runner_identity option"
  repair_runner_identity :: "runner_identity option"
  repair_activation_public_key :: "string option"
  repair_activation_public_key_hash :: "string option"
  finalization_public_key :: "string option"
  finalization_public_key_hash :: "string option"
  restart_receipt_hash :: "string option"
  restart_receipt_request_hash :: "string option"
  repair_activation_receipt :: "string option"
  repair_activation_selection_proof :: "string option"
  pending_external_request :: "pending_request option"
  prefinalization_ticket_projection :: "string option"
  commit_sha :: "string option"
  pushed_sha :: "string option"
  linear_done_receipt :: "string option"
  finalization_eligible :: bool
  finalization :: "string option"
  finalization_evidence :: "finalization_evidence option"
  finalization_index_released :: bool
  finalization_index_release_binding :: "index_release_binding option"
  finalization_index_release_receipt :: "index_release_receipt option"
  finalization_retry_wait_seconds :: seconds
  finalization_next_eligible_at :: "datetime option"

definition new_run_state :: "string \<Rightarrow> string \<Rightarrow> string \<Rightarrow> int \<Rightarrow> run_state" where
  \<comment> \<open>the defaults of the field declarations\<close>
  "new_run_state rid tid repo budget =
     \<lparr>run_id = rid, ticket_id = tid, repository_id = repo, max_crew_iterations = budget,
      branch = None, branch_binding = None, preparation_phase = SELECTED,
      project_policy_hash = None, preparation_input_ref = None, preparation_input_hash = None,
      ticket_snapshot_hash = None, compatibility_receipt_hash = None,
      compatibility_receipt_ref = None, disposition = ACTIVE, compensated = False,
      crew_iteration_count = 0, iteration_open = False, current_stage = ANALYST,
      requirements_package = None, change_outline = None, stage_outputs = [],
      task_definition_manifest = None, task_status_manifest = None,
      product_change_manifest = None, product_change_manifest_hash = None,
      build_identity = None, verification_result = None, browser_result = None,
      review_manifest = None, review_result = None, checkpoints = (\<lambda>_. None),
      failure_history = [], effect_ledger = [], human_authorizations = [],
      runner_identity = None, repair_runner_identity = None,
      repair_activation_public_key = None, repair_activation_public_key_hash = None,
      finalization_public_key = None, finalization_public_key_hash = None,
      restart_receipt_hash = None, restart_receipt_request_hash = None,
      repair_activation_receipt = None, repair_activation_selection_proof = None,
      pending_external_request = None, prefinalization_ticket_projection = None,
      commit_sha = None, pushed_sha = None, linear_done_receipt = None,
      finalization_eligible = False, finalization = None, finalization_evidence = None,
      finalization_index_released = False, finalization_index_release_binding = None,
      finalization_index_release_receipt = None, finalization_retry_wait_seconds = 0,
      finalization_next_eligible_at = None\<rparr>"

definition has_preparation_binding :: "run_state \<Rightarrow> bool" where
  "has_preparation_binding s \<longleftrightarrow>
     project_policy_hash s \<noteq> None \<and> preparation_input_ref s \<noteq> None
     \<and> preparation_input_hash s \<noteq> None \<and> ticket_snapshot_hash s \<noteq> None
     \<and> compatibility_receipt_hash s \<noteq> None \<and> compatibility_receipt_ref s \<noteq> None
     \<and> runner_identity s \<noteq> None"

definition authorized_iteration_limit :: "run_state \<Rightarrow> int" where
  "authorized_iteration_limit s =
     max_crew_iterations s + sum_list (map consumed_resume_grant (human_authorizations s))"

definition can_start_iteration :: "run_state \<Rightarrow> bool" where
  "can_start_iteration s \<longleftrightarrow>
     disposition s = ACTIVE \<and> \<not> iteration_open s \<and> \<not> finalization_eligible s
     \<and> crew_iteration_count s < authorized_iteration_limit s"

end
