(* ===== verification/Effect_Ledger.thy ===== *)
theory Effect_Ledger
  imports Run_State
begin

section \<open>The effect ledger\<close>

text \<open>
  \<^verbatim>\<open>RunState.validate_effect_ledger\<close>: one pass over the append-only history of
  intention, invocation, observation and reconciliation events.  \<open>ledger_step\<close> is
  the loop body over the two dictionaries and the last sequence number, and
  \<open>ledger_run\<close> the loop.  The specification is per effect: the events of each effect,
  in order, are a word of one small language (\<open>effect_trace\<close>), and the sequence
  numbers of the whole ledger increase.
\<close>

datatype effect_phase = Phase_Ready | Phase_Awaiting | Phase_Reconciled

record ledger =
  led_sequence :: int
  led_intentions :: "(string \<times> effect_event) list"   \<comment> \<open>insertion order\<close>
  led_phases :: "string \<Rightarrow> effect_phase option"

definition empty_ledger :: ledger where
  "empty_ledger = \<lparr>led_sequence = 0, led_intentions = [], led_phases = (\<lambda>_. None)\<rparr>"

definition set_phase :: "ledger \<Rightarrow> effect_event \<Rightarrow> effect_phase \<Rightarrow> ledger" where
  "set_phase l e ph =
     l\<lparr>led_sequence := event_sequence e, led_phases := (led_phases l)(event_effect_id e := Some ph)\<rparr>"

definition ledger_step :: "ledger \<Rightarrow> effect_event \<Rightarrow> contract_error + ledger" where
  "ledger_step l e =
     (if event_sequence e \<le> led_sequence l then Inl Ledger_Sequence_Not_Increasing
      else
        let phase = led_phases l (event_effect_id e) in
        case e of
          Effect_Intention _ _ _ _ \<Rightarrow>
            (if phase \<noteq> None then Inl Ledger_Second_Intention
             else Inr ((set_phase l e Phase_Ready)
                    \<lparr>led_intentions := led_intentions l @ [(event_effect_id e, e)]\<rparr>))
        | Effect_Invocation _ _ _ _ \<Rightarrow>
            (if phase \<noteq> Some Phase_Ready then Inl Ledger_Invocation_Not_Ready
             else Inr (set_phase l e Phase_Awaiting))
        | Effect_Observation _ _ _ _ \<Rightarrow>
            (if phase \<noteq> Some Phase_Awaiting then Inl Ledger_Observation_Without_Invocation
             else Inr (set_phase l e Phase_Ready))
        | Effect_Reconciliation _ _ _ _ \<Rightarrow>
            (if phase = Some Phase_Awaiting \<or> phase = None then Inl Ledger_Reconciliation_Incomplete
             else if phase = Some Phase_Reconciled then Inl Ledger_Second_Reconciliation
             else Inr (set_phase l e Phase_Reconciled)))"

fun ledger_run :: "ledger \<Rightarrow> effect_event list \<Rightarrow> contract_error + ledger" where
  "ledger_run l [] = Inr l"
| "ledger_run l (e # es) = bind_result (ledger_step l e) (\<lambda>l'. ledger_run l' es)"

definition validate_effect_ledger ::
  "run_state \<Rightarrow> contract_error + ((string \<times> effect_event) list \<times> (string \<Rightarrow> effect_phase option))" where
  "validate_effect_ledger s =
     bind_result (ledger_run empty_ledger (effect_ledger s))
       (\<lambda>l. Inr (led_intentions l, led_phases l))"

definition next_sequence :: "effect_event list \<Rightarrow> int" where
  \<comment> \<open>\<^verbatim>\<open>ledger[-1].sequence + 1 if ledger else 1\<close>\<close>
  "next_sequence es = (if es = [] then 1 else event_sequence (last es) + 1)"

subsection \<open>Specification: the language of one effect\<close>

datatype event_kind = K_Intention | K_Invocation | K_Observation | K_Reconciliation

fun kind_of :: "effect_event \<Rightarrow> event_kind" where
  "kind_of (Effect_Intention _ _ _ _) = K_Intention"
| "kind_of (Effect_Invocation _ _ _ _) = K_Invocation"
| "kind_of (Effect_Observation _ _ _ _) = K_Observation"
| "kind_of (Effect_Reconciliation _ _ _ _) = K_Reconciliation"

fun effect_rounds :: "event_kind list \<Rightarrow> bool" where
  "effect_rounds [] = True"
| "effect_rounds [K_Invocation] = True"
| "effect_rounds [K_Reconciliation] = True"
| "effect_rounds (K_Invocation # K_Observation # ks) = effect_rounds ks"
| "effect_rounds _ = False"

fun effect_trace :: "event_kind list \<Rightarrow> bool" where
  "effect_trace [] = True"
| "effect_trace (K_Intention # ks) = effect_rounds ks"
| "effect_trace _ = False"

definition trace_of :: "string \<Rightarrow> effect_event list \<Rightarrow> event_kind list" where
  "trace_of x es = map kind_of (filter (\<lambda>e. event_effect_id e = x) es)"

definition phase_of_trace :: "event_kind list \<Rightarrow> effect_phase option" where
  "phase_of_trace ks =
     (if ks = [] then None
      else case last ks of
          K_Intention \<Rightarrow> Some Phase_Ready
        | K_Invocation \<Rightarrow> Some Phase_Awaiting
        | K_Observation \<Rightarrow> Some Phase_Ready
        | K_Reconciliation \<Rightarrow> Some Phase_Reconciled)"

definition sequences_increase :: "effect_event list \<Rightarrow> bool" where
  "sequences_increase es \<longleftrightarrow> sorted_wrt (<) (map event_sequence es) \<and> (\<forall>e \<in> set es. 0 < event_sequence e)"

definition ledger_spec :: "effect_event list \<Rightarrow> bool" where
  "ledger_spec es \<longleftrightarrow> sequences_increase es \<and> (\<forall>x. effect_trace (trace_of x es))"

lemma trace_of_snoc:
  "trace_of x (es @ [e]) = trace_of x es @ (if event_effect_id e = x then [kind_of e] else [])"
  by (simp add: trace_of_def)

text \<open>One more event extends a trace exactly when its phase allows it.\<close>

definition phase_allows :: "effect_phase option \<Rightarrow> event_kind \<Rightarrow> bool" where
  "phase_allows ph k =
     (case k of
        K_Intention \<Rightarrow> ph = None
      | K_Invocation \<Rightarrow> ph = Some Phase_Ready
      | K_Observation \<Rightarrow> ph = Some Phase_Awaiting
      | K_Reconciliation \<Rightarrow> ph = Some Phase_Ready)"

lemma effect_rounds_snoc:
  "effect_rounds (ks @ [k]) \<longleftrightarrow>
     effect_rounds ks \<and> phase_allows (phase_of_trace (K_Intention # ks)) k"
proof (induction ks rule: effect_rounds.induct)
  case (4 ks)
  then show ?case by (cases ks) (auto simp: phase_of_trace_def)
qed (cases k; simp add: phase_allows_def phase_of_trace_def)+

lemma effect_trace_snoc:
  "effect_trace (ks @ [k]) \<longleftrightarrow> effect_trace ks \<and> phase_allows (phase_of_trace ks) k"
proof (cases ks)
  case Nil
  then show ?thesis by (cases k) (simp_all add: phase_allows_def phase_of_trace_def)
next
  case (Cons j js)
  then show ?thesis by (cases j) (simp_all add: effect_rounds_snoc)
qed

lemma ledger_step_ok:
  "is_ok (ledger_step l e) \<longleftrightarrow>
     led_sequence l < event_sequence e \<and> phase_allows (led_phases l (event_effect_id e)) (kind_of e)"
proof (cases "led_phases l (event_effect_id e)")
  case None
  then show ?thesis by (cases e) (auto simp: ledger_step_def phase_allows_def)
next
  case (Some ph)
  then show ?thesis by (cases e; cases ph) (auto simp: ledger_step_def phase_allows_def)
qed

lemma ledger_step_result:
  assumes "ledger_step l e = Inr l'"
  shows "led_sequence l' = event_sequence e"
    and "led_phases l' = (led_phases l)(event_effect_id e := phase_of_trace [kind_of e])"
    and "led_intentions l' =
           led_intentions l @ (if kind_of e = K_Intention then [(event_effect_id e, e)] else [])"
  using assms
  by (cases e; auto simp: ledger_step_def set_phase_def phase_of_trace_def Let_def split: if_splits)+

lemma ledger_run_append:
  "ledger_run l (es @ ds) = bind_result (ledger_run l es) (\<lambda>l'. ledger_run l' ds)"
  by (induction es arbitrary: l) (simp_all add: bind_result_def split: sum.splits)

lemma ledger_run_snoc:
  "ledger_run l (es @ [e]) = bind_result (ledger_run l es) (\<lambda>l'. ledger_step l' e)"
  by (auto simp: ledger_run_append bind_result_def split: sum.splits)

definition represents :: "ledger \<Rightarrow> effect_event list \<Rightarrow> bool" where
  "represents l es \<longleftrightarrow>
     led_sequence l = (if es = [] then 0 else event_sequence (last es))
     \<and> (\<forall>x. led_phases l x = phase_of_trace (trace_of x es))
     \<and> led_intentions l = map (\<lambda>e. (event_effect_id e, e)) (filter (\<lambda>e. kind_of e = K_Intention) es)"

lemma represents_step:
  assumes "represents l es" and "ledger_step l e = Inr l'"
  shows "represents l' (es @ [e])"
proof -
  have "phase_of_trace (ks @ [k]) = phase_of_trace [k]" for ks k
    by (simp add: phase_of_trace_def)
  then show ?thesis
    using assms ledger_step_result [OF assms(2)]
    by (auto simp: represents_def trace_of_snoc)
qed

lemma ledger_run_represents: "ledger_run empty_ledger es = Inr l \<Longrightarrow> represents l es"
proof (induction es arbitrary: l rule: rev_induct)
  case Nil
  then show ?case by (auto simp: represents_def empty_ledger_def trace_of_def phase_of_trace_def)
next
  case (snoc e es)
  then show ?case by (auto simp: ledger_run_snoc bind_result_Inr intro: represents_step)
qed

lemma sequences_increase_snoc:
  "sequences_increase (es @ [e]) \<longleftrightarrow>
     sequences_increase es \<and> (if es = [] then 0 else event_sequence (last es)) < event_sequence e"
proof (cases es rule: rev_cases)
  case Nil
  then show ?thesis by (simp add: sequences_increase_def)
next
  case (snoc ds d)
  then show ?thesis
    by (auto simp: sequences_increase_def sorted_wrt_append)
qed

lemma ledger_spec_snoc:
  "ledger_spec (es @ [e]) \<longleftrightarrow>
     ledger_spec es
     \<and> (if es = [] then 0 else event_sequence (last es)) < event_sequence e
     \<and> phase_allows (phase_of_trace (trace_of (event_effect_id e) es)) (kind_of e)"
  by (auto simp: ledger_spec_def sequences_increase_snoc trace_of_snoc effect_trace_snoc)

theorem ledger_run_iff_spec: "is_ok (ledger_run empty_ledger es) \<longleftrightarrow> ledger_spec es"
proof (induction es rule: rev_induct)
  case Nil
  then show ?case by (simp add: ledger_spec_def sequences_increase_def trace_of_def)
next
  case (snoc e es)
  show ?case
  proof (cases "ledger_run empty_ledger es")
    case (Inl err)
    with snoc show ?thesis by (simp add: ledger_run_snoc ledger_spec_snoc)
  next
    case (Inr l)
    with ledger_run_represents [OF Inr] snoc show ?thesis
      by (simp add: ledger_run_snoc ledger_spec_snoc ledger_step_ok represents_def)
  qed
qed

lemma ledger_spec_prefix: "ledger_spec (es @ ds) \<Longrightarrow> ledger_spec es"
  by (induction ds rule: rev_induct) (simp_all add: ledger_spec_snoc flip: append_assoc)

lemma ledger_spec_next:
  assumes "ledger_spec es"
    and "phase_allows (phase_of_trace (trace_of (event_effect_id e) es)) (kind_of e)"
    and "event_sequence e = next_sequence es"
  shows "ledger_spec (es @ [e])"
  using assms by (auto simp: ledger_spec_snoc next_sequence_def)

lemma validate_effect_ledger_iff: "is_ok (validate_effect_ledger s) \<longleftrightarrow> ledger_spec (effect_ledger s)"
  by (auto simp: validate_effect_ledger_def bind_result_def ledger_run_iff_spec [symmetric]
      split: sum.splits)

lemma validate_effect_ledger_Inr:
  assumes "validate_effect_ledger s = Inr (intentions, phases)"
  shows "ledger_spec (effect_ledger s)"
    and "phases = (\<lambda>x. phase_of_trace (trace_of x (effect_ledger s)))"
    and "intentions = map (\<lambda>e. (event_effect_id e, e))
           (filter (\<lambda>e. kind_of e = K_Intention) (effect_ledger s))"
proof -
  from assms obtain l where l: "ledger_run empty_ledger (effect_ledger s) = Inr l"
    and eq: "intentions = led_intentions l" "phases = led_phases l"
    by (auto simp: validate_effect_ledger_def bind_result_Inr)
  from ledger_run_represents [OF l] eq show
    "phases = (\<lambda>x. phase_of_trace (trace_of x (effect_ledger s)))"
    "intentions = map (\<lambda>e. (event_effect_id e, e))
       (filter (\<lambda>e. kind_of e = K_Intention) (effect_ledger s))"
    by (auto simp: represents_def)
  from l show "ledger_spec (effect_ledger s)"
    by (simp add: ledger_run_iff_spec [symmetric])
qed

lemma validate_effect_ledger_cong:
  "effect_ledger s = effect_ledger t \<Longrightarrow> validate_effect_ledger s = validate_effect_ledger t"
  by (simp add: validate_effect_ledger_def)

text \<open>At most one intention and one reconciliation per effect.\<close>

lemma effect_rounds_counts:
  "effect_rounds ks \<Longrightarrow> count_list ks K_Intention = 0 \<and> count_list ks K_Reconciliation \<le> 1"
  by (induction ks rule: effect_rounds.induct) auto

lemma effect_trace_counts:
  "effect_trace ks \<Longrightarrow> count_list ks K_Intention \<le> 1 \<and> count_list ks K_Reconciliation \<le> 1"
  by (cases ks rule: effect_trace.cases) (auto dest: effect_rounds_counts)

end
