(* ===== verification/Run_Contract.thy ===== *)
theory Run_Contract
  imports Effect_Ledger
begin

section \<open>The contract of a run state\<close>

text \<open>
  \<^verbatim>\<open>RunState.validate_state\<close> with its checks in the order of the source
  (\<open>state_checks\<close>), the field validators (\<open>normalize\<close>, \<open>fields_ok\<close>), validation as a
  whole, and the two operations of the class that change a state:
  \<^verbatim>\<open>model_copy\<close> and \<^verbatim>\<open>begin_iteration\<close>.  \<open>run_inv\<close> is the well-formedness invariant
  the rest of the development uses: the state is what its own validation returns.
\<close>

definition outputs_of :: "stage_output list \<Rightarrow> stage \<Rightarrow> stage_output option" where
  \<comment> \<open>\<^verbatim>\<open>{output.stage: output for output in stage_outputs}\<close>: the last of a stage wins\<close>
  "outputs_of os st = find (\<lambda>out. so_stage out = st) (rev os)"

definition key_hash_mismatch :: "string option \<Rightarrow> string option \<Rightarrow> bool" where
  \<comment> \<open>\<^verbatim>\<open>sha256(bytes.fromhex(key)).hexdigest() != key_hash\<close>, for a key that is set\<close>
  "key_hash_mismatch key key_hash =
     (case key of
        None \<Rightarrow> False
      | Some k \<Rightarrow> (case fromhex k of None \<Rightarrow> True | Some bs \<Rightarrow> Some (hexdigest bs) \<noteq> key_hash))"

definition binding_checks :: "run_state \<Rightarrow> (bool \<times> contract_error) list" where
  "binding_checks s =
     (if project_policy_hash s \<noteq> None \<or> preparation_input_ref s \<noteq> None
         \<or> preparation_input_hash s \<noteq> None \<or> ticket_snapshot_hash s \<noteq> None
         \<or> compatibility_receipt_hash s \<noteq> None \<or> compatibility_receipt_ref s \<noteq> None
      then
        [(\<not> has_preparation_binding s, Preparation_Binding_Incomplete),
         (map_option pi_repository_id (preparation_input_ref s) \<noteq> Some (repository_id s),
          Preparation_Repository_Mismatch),
         (map_option pi_max_crew_iterations (preparation_input_ref s) \<noteq> Some (max_crew_iterations s),
          Preparation_Budget_Mismatch),
         (map_option pi_input_hash (preparation_input_ref s) \<noteq> preparation_input_hash s,
          Preparation_Input_Hash_Mismatch),
         (map_option ev_sha256 (compatibility_receipt_ref s) \<noteq> compatibility_receipt_hash s,
          Compatibility_Hash_Mismatch)]
      else
        [(preparation_phase s \<noteq> SELECTED \<or> compensated s, Preparation_State_Unbound)])"

definition trust_checks :: "run_state \<Rightarrow> (bool \<times> contract_error) list" where
  "trust_checks s =
     [((repair_activation_public_key s = None) \<noteq> (repair_activation_public_key_hash s = None),
       Repair_Trust_Incomplete),
      (key_hash_mismatch (repair_activation_public_key s) (repair_activation_public_key_hash s),
       Repair_Key_Hash_Mismatch),
      ((finalization_public_key s = None) \<noteq> (finalization_public_key_hash s = None),
       Finalization_Trust_Incomplete),
      (key_hash_mismatch (finalization_public_key s) (finalization_public_key_hash s),
       Finalization_Key_Hash_Mismatch),
      (finalization_public_key s = repair_activation_public_key s \<and> finalization_public_key s \<noteq> None,
       Finalization_Key_Not_Dedicated)]"

definition release_checks :: "run_state \<Rightarrow> (bool \<times> contract_error) list" where
  "release_checks s =
     [(finalization_index_release_receipt s \<noteq> None
       \<and> (finalization_index_release_binding s = None
          \<or> map_option receipt_binding (finalization_index_release_receipt s)
              \<noteq> finalization_index_release_binding s),
       Release_Receipt_Mismatch),
      (finalization_index_released s
       \<and> (finalization_index_release_binding s = None
          \<or> Option.bind (finalization_index_release_receipt s) ir_signature = None),
       Release_Receipt_Missing),
      ((product_change_manifest s = None) \<noteq> (product_change_manifest_hash s = None),
       Product_Manifest_Unbound),
      ((restart_receipt_hash s = None) \<noteq> (restart_receipt_request_hash s = None),
       Restart_Receipt_Unbound)]"

definition iteration_checks :: "run_state \<Rightarrow> (bool \<times> contract_error) list" where
  "iteration_checks s =
     [(crew_iteration_count s > authorized_iteration_limit s, Iteration_Limit_Exceeded),
      (iteration_open s \<and> crew_iteration_count s = 0, Open_Iteration_Uncounted),
      (finalization_eligible s \<and> iteration_open s, Eligible_While_Open),
      (finalization_eligible s \<and> (review_manifest s = None \<or> review_result s = None),
       Eligible_Without_Review),
      (list_ex (\<lambda>a. ha_run_id a \<noteq> run_id s) (human_authorizations s), Authorization_Foreign_Run),
      (\<not> no_dups (map ha_id (human_authorizations s)), Authorization_Duplicate)]"

definition task_checks :: "run_state \<Rightarrow> (bool \<times> contract_error) list" where
  "task_checks s =
     (case task_status_manifest s of
        None \<Rightarrow> []
      | Some status \<Rightarrow>
          (case task_definition_manifest s of
             None \<Rightarrow> [(True, Status_Without_Definition)]
           | Some definitions \<Rightarrow>
               [(tsm_definition_hash status \<noteq> tdm_definition_hash definitions, Status_Hash_Mismatch),
                (set (map ts_task_id (tsm_statuses status)) \<noteq> set (map td_task_id (tdm_tasks definitions)),
                 Status_Coverage_Mismatch)]))"

definition checkpoint_checks :: "run_state \<Rightarrow> (bool \<times> contract_error) list" where
  "checkpoint_checks s =
     [(list_ex (\<lambda>st. \<not> opt_all (\<lambda>c. ck_stage c = st) (checkpoints s st)) all_stages,
       Checkpoint_Key_Mismatch),
      (\<not> no_dups (map so_stage (stage_outputs s)), Output_Duplicate),
      (list_ex (\<lambda>st. (outputs_of (stage_outputs s) st = None) \<noteq> (checkpoints s st = None)) all_stages,
       Output_Checkpoint_Mismatch),
      (list_ex (\<lambda>st. checkpoints s st \<noteq> None
          \<and> map_option so_content_hash (outputs_of (stage_outputs s) st)
              \<noteq> map_option ck_output_manifest_hash (checkpoints s st)) all_stages,
       Output_Hash_Mismatch)]"

definition pending_checks ::
  "(string \<Rightarrow> bool) \<Rightarrow> run_state \<Rightarrow> (string \<times> effect_event) list \<Rightarrow> (string \<Rightarrow> effect_phase option)
   \<Rightarrow> pending_request \<Rightarrow> (bool \<times> contract_error) list" where
  "pending_checks clean s intentions phases pending =
     (case map_of intentions (pr_effect_id pending) of
        None \<Rightarrow> [(True, Pending_Unknown_Effect)]
      | Some intention \<Rightarrow>
          [(phases (pr_effect_id pending) = Some Phase_Reconciled, Pending_Reconciled),
           (ip_request_hash (intention_payload intention) \<noteq> pr_request_hash pending
            \<or> ip_operation (intention_payload intention) \<noteq> pr_operation pending,
            Pending_Intention_Mismatch)]
          @ (if pr_entity pending \<noteq> None \<or> pr_target pending \<noteq> None \<or> pr_arguments pending \<noteq> None
             then (case reconstruct_request clean pending (run_id s) of
                     Inl _ \<Rightarrow> [(True, Pending_Not_Reconstructable)]
                   | Inr request \<Rightarrow>
                       [(ip_target (intention_payload intention) \<noteq> mr_target request,
                         Pending_Intention_Mismatch)])
             else []))"

definition state_checks :: "run_state \<Rightarrow> (bool \<times> contract_error) list" where
  "state_checks s =
     binding_checks s @ trust_checks s @ release_checks s @ iteration_checks s @ task_checks s
     @ checkpoint_checks s"

definition validate_state :: "(string \<Rightarrow> bool) \<Rightarrow> run_state \<Rightarrow> contract_error + run_state" where
  "validate_state clean s =
     bind_result (checked (state_checks s) s) (\<lambda>_.
     bind_result (validate_effect_ledger s) (\<lambda>(intentions, phases).
       case pending_external_request s of
         None \<Rightarrow> Inr s
       | Some pending \<Rightarrow> checked (pending_checks clean s intentions phases pending) s))"

subsection \<open>Field validators and construction\<close>

definition normalize :: "run_state \<Rightarrow> run_state" where
  "normalize s =
     s\<lparr>project_policy_hash := map_option lower (project_policy_hash s),
       preparation_input_hash := map_option lower (preparation_input_hash s),
       ticket_snapshot_hash := map_option lower (ticket_snapshot_hash s),
       compatibility_receipt_hash := map_option lower (compatibility_receipt_hash s),
       product_change_manifest_hash := map_option lower (product_change_manifest_hash s),
       repair_activation_public_key := map_option lower (repair_activation_public_key s),
       repair_activation_public_key_hash := map_option lower (repair_activation_public_key_hash s),
       finalization_public_key := map_option lower (finalization_public_key s),
       finalization_public_key_hash := map_option lower (finalization_public_key_hash s),
       restart_receipt_request_hash := map_option lower (restart_receipt_request_hash s)\<rparr>"

definition digest_fields :: "run_state \<Rightarrow> string option list" where
  "digest_fields s =
     [project_policy_hash s, preparation_input_hash s, ticket_snapshot_hash s,
      compatibility_receipt_hash s, product_change_manifest_hash s,
      repair_activation_public_key s, repair_activation_public_key_hash s,
      finalization_public_key s, finalization_public_key_hash s,
      restart_receipt_hash s, restart_receipt_request_hash s]"

definition nested_ok :: "(string \<Rightarrow> bool) \<Rightarrow> run_state \<Rightarrow> bool" where
  "nested_ok clean s \<longleftrightarrow>
     opt_all branch_binding_valid (branch_binding s)
     \<and> opt_all preparation_input_ref_valid (preparation_input_ref s)
     \<and> opt_all evidence_ref_valid (compatibility_receipt_ref s)
     \<and> list_all (\<lambda>out. sha256_pattern (so_content_hash out)) (stage_outputs s)
     \<and> opt_all task_definition_manifest_valid (task_definition_manifest s)
     \<and> opt_all task_status_manifest_valid (task_status_manifest s)
     \<and> list_all (\<lambda>st. opt_all checkpoint_valid (checkpoints s st)) all_stages
     \<and> list_all failure_record_valid (failure_history s)
     \<and> list_all effect_event_valid (effect_ledger s)
     \<and> list_all human_authorization_valid (human_authorizations s)
     \<and> opt_all runner_identity_valid (runner_identity s)
     \<and> opt_all runner_identity_valid (repair_runner_identity s)
     \<and> opt_all (pending_request_valid clean) (pending_external_request s)
     \<and> opt_all finalization_evidence_valid (finalization_evidence s)
     \<and> opt_all index_release_binding_valid (finalization_index_release_binding s)
     \<and> opt_all index_release_receipt_valid (finalization_index_release_receipt s)"

definition fields_ok :: "(string \<Rightarrow> bool) \<Rightarrow> run_state \<Rightarrow> bool" where
  "fields_ok clean s \<longleftrightarrow>
     0 < max_crew_iterations s
     \<and> 0 \<le> crew_iteration_count s
     \<and> list_all (opt_all sha256_pattern) (digest_fields s)
     \<and> opt_all (\<lambda>t. length t \<le> 16777216) (repair_activation_receipt s)
     \<and> opt_all (\<lambda>t. length t \<le> 65536) (repair_activation_selection_proof s)
     \<and> 0 \<le> finalization_retry_wait_seconds s
     \<and> nested_ok clean s"

definition model_validate :: "(string \<Rightarrow> bool) \<Rightarrow> run_state \<Rightarrow> contract_error + run_state" where
  "model_validate clean s =
     (if \<not> fields_ok clean s then Inl Invalid_Field else validate_state clean (normalize s))"

definition model_copy ::
  "(string \<Rightarrow> bool) \<Rightarrow> (run_state \<Rightarrow> run_state) \<Rightarrow> run_state \<Rightarrow> contract_error + run_state" where
  "model_copy clean update s = model_validate clean (update s)"

definition begin_iteration :: "(string \<Rightarrow> bool) \<Rightarrow> run_state \<Rightarrow> contract_error + run_state" where
  "begin_iteration clean s =
     (if \<not> can_start_iteration s then Inl Iteration_Cannot_Start
      else model_copy clean
             (\<lambda>s. s\<lparr>crew_iteration_count := crew_iteration_count s + 1, iteration_open := True\<rparr>) s)"

definition run_inv :: "(string \<Rightarrow> bool) \<Rightarrow> run_state \<Rightarrow> bool" where
  "run_inv clean s \<longleftrightarrow> model_validate clean s = Inr s"

subsection \<open>Validation returns the normalized state and is idempotent\<close>

lemma checked_Inr_id: "checked cs s = Inr t \<Longrightarrow> t = s"
  by (simp add: checked_Inr)

lemma validate_state_Inr: "validate_state clean s = Inr t \<Longrightarrow> t = s"
  by (auto simp: validate_state_def bind_result_Inr split: option.splits dest: checked_Inr_id)

lemma opt_lower_idem [simp]: "map_option lower (map_option lower x) = map_option lower x"
  by (cases x) simp_all

lemma normalize_idem [simp]: "normalize (normalize s) = normalize s"
  by (simp add: normalize_def)

lemma opt_all_sha256_lower [simp]: "opt_all sha256_pattern x \<Longrightarrow> opt_all sha256_pattern (map_option lower x)"
  by (cases x) (simp_all add: sha256_pattern_lower)

lemma fields_ok_normalize: "fields_ok clean s \<Longrightarrow> fields_ok clean (normalize s)"
  by (simp add: fields_ok_def nested_ok_def digest_fields_def normalize_def)

lemma model_validate_Inr:
  "model_validate clean s = Inr t \<longleftrightarrow>
     fields_ok clean s \<and> t = normalize s \<and> validate_state clean (normalize s) = Inr (normalize s)"
  by (auto simp: model_validate_def dest: validate_state_Inr)

theorem model_validate_idem: "model_validate clean s = Inr t \<Longrightarrow> model_validate clean t = Inr t"
  by (auto simp: model_validate_Inr fields_ok_normalize)

lemma run_inv_iff:
  "run_inv clean s \<longleftrightarrow>
     fields_ok clean s \<and> normalize s = s \<and> validate_state clean s = Inr s"
  by (auto simp: run_inv_def model_validate_Inr)

lemma model_validate_inv: "model_validate clean s = Inr t \<Longrightarrow> run_inv clean t"
  unfolding run_inv_def by (rule model_validate_idem)

lemma model_copy_inv: "model_copy clean f s = Inr t \<Longrightarrow> run_inv clean t"
  unfolding model_copy_def by (rule model_validate_inv)

text \<open>
  The invariant taken apart: the simple checks, the ledger, the pending request.
\<close>

definition pending_ok :: "(string \<Rightarrow> bool) \<Rightarrow> run_state \<Rightarrow> bool" where
  "pending_ok clean s \<longleftrightarrow>
     (case pending_external_request s of
        None \<Rightarrow> True
      | Some pending \<Rightarrow>
          (case validate_effect_ledger s of
             Inl _ \<Rightarrow> False
           | Inr (intentions, phases) \<Rightarrow>
               first_error (pending_checks clean s intentions phases pending) = None))"

lemma validate_state_iff:
  "validate_state clean s = Inr s \<longleftrightarrow>
     first_error (state_checks s) = None \<and> ledger_spec (effect_ledger s) \<and> pending_ok clean s"
proof (cases "validate_effect_ledger s")
  case (Inl e)
  then have "\<not> ledger_spec (effect_ledger s)"
    using validate_effect_ledger_iff [of s] by simp
  with Inl show ?thesis by (simp add: validate_state_def bind_result_Inr)
next
  case (Inr r)
  then have "ledger_spec (effect_ledger s)"
    using validate_effect_ledger_iff [of s] by simp
  with Inr show ?thesis
    by (auto simp: validate_state_def bind_result_Inr checked_def pending_ok_def
        split: option.splits prod.splits)
qed

lemma run_inv_parts:
  "run_inv clean s \<longleftrightarrow>
     fields_ok clean s \<and> normalize s = s \<and> first_error (state_checks s) = None
     \<and> ledger_spec (effect_ledger s) \<and> pending_ok clean s"
  by (simp add: run_inv_iff validate_state_iff)

lemma run_inv_budget: "run_inv clean s \<Longrightarrow> crew_iteration_count s \<le> authorized_iteration_limit s"
  by (auto simp: run_inv_parts state_checks_def first_error_None iteration_checks_def)

lemma run_inv_open: "run_inv clean s \<Longrightarrow> iteration_open s \<Longrightarrow> 0 < crew_iteration_count s"
  by (auto simp: run_inv_parts state_checks_def first_error_None iteration_checks_def fields_ok_def)

lemma run_inv_eligible:
  "run_inv clean s \<Longrightarrow> finalization_eligible s \<Longrightarrow>
     \<not> iteration_open s \<and> review_manifest s \<noteq> None \<and> review_result s \<noteq> None"
  by (auto simp: run_inv_parts state_checks_def first_error_None iteration_checks_def)

lemma run_inv_ledger: "run_inv clean s \<Longrightarrow> ledger_spec (effect_ledger s)"
  by (simp add: run_inv_parts)

subsection \<open>Frames: what each group of checks depends on\<close>

lemma first_error_appendD:
  "first_error (cs @ ds) = None \<longleftrightarrow> first_error cs = None \<and> first_error ds = None"
  by (simp add: first_error_append split: option.splits)

lemma first_error_ConsD:
  "first_error ((bad, e) # cs) = None \<longleftrightarrow> \<not> bad \<and> first_error cs = None"
  by simp

lemmas check_simps = first_error_appendD first_error_ConsD first_error.simps(1)

lemma task_checks_cong:
  "task_status_manifest t = task_status_manifest s \<Longrightarrow>
   task_definition_manifest t = task_definition_manifest s \<Longrightarrow> task_checks t = task_checks s"
  by (simp only: task_checks_def)

lemma pending_checks_cong:
  "run_id t = run_id s \<Longrightarrow> pending_checks clean t i p x = pending_checks clean s i p x"
  unfolding pending_checks_def by (simp only:)

lemma pending_ok_cong:
  assumes "pending_external_request t = pending_external_request s"
    and "effect_ledger t = effect_ledger s" and "run_id t = run_id s"
  shows "pending_ok clean t = pending_ok clean s"
  unfolding pending_ok_def assms(1) validate_effect_ledger_cong [OF assms(2)]
    pending_checks_cong [OF assms(3)] ..

definition normal_fields :: "run_state \<Rightarrow> string option list" where
  "normal_fields s =
     [project_policy_hash s, preparation_input_hash s, ticket_snapshot_hash s,
      compatibility_receipt_hash s, product_change_manifest_hash s,
      repair_activation_public_key s, repair_activation_public_key_hash s,
      finalization_public_key s, finalization_public_key_hash s,
      restart_receipt_request_hash s]"

lemma normalize_fixed_iff:
  "normalize s = s \<longleftrightarrow> list_all (\<lambda>x. map_option lower x = x) (normal_fields s)"
proof
  assume fixed: "normalize s = s"
  have "map (map_option lower) (normal_fields s) = normal_fields (normalize s)"
    by (simp add: normal_fields_def normalize_def)
  with fixed have "map (map_option lower) (normal_fields s) = map id (normal_fields s)" by simp
  then show "list_all (\<lambda>x. map_option lower x = x) (normal_fields s)"
    by (simp only: map_eq_conv id_apply list_all_iff)
next
  assume "list_all (\<lambda>x. map_option lower x = x) (normal_fields s)"
  then show "normalize s = s"
    by (simp add: normalize_def normal_fields_def)
qed


end
