(* ===== verification/Router.thy ===== *)
theory Router
  imports Run_Contract
begin

section \<open>The router\<close>

text \<open>
  \<^verbatim>\<open>src/auto_code/router.py\<close>: the graph of cognitive stages, the next stage to run,
  the invalidation of a stage with everything derived from it, and the routing of
  failures.  The loop of \<^verbatim>\<open>_descendants\<close> is \<open>close_descendants\<close>, shown to compute the
  reflexive transitive closure of the dependency graph.
\<close>

subsection \<open>The stage graph\<close>

primrec dependencies :: "stage \<Rightarrow> stage set" where
  "dependencies ANALYST = {}"
| "dependencies ARCHITECT_OUTLINE = {ANALYST}"
| "dependencies ARCHITECT_PROPOSAL = {ARCHITECT_OUTLINE}"
| "dependencies ARCHITECT_SPECS = {ARCHITECT_PROPOSAL}"
| "dependencies ARCHITECT_DESIGN = {ARCHITECT_PROPOSAL}"
| "dependencies ARCHITECT_TASKS = {ARCHITECT_SPECS, ARCHITECT_DESIGN}"
| "dependencies PROGRAMMER = {ARCHITECT_TASKS}"
| "dependencies VERIFICATION = {PROGRAMMER}"
| "dependencies TESTER = {VERIFICATION}"
| "dependencies REVIEWER = {TESTER}"

definition product_execution_sources :: "failure_source set" where
  "product_execution_sources = {FS_VERIFICATION, FS_BROWSER, FS_REVIEW}"

definition repair_sources :: "failure_source set" where
  "repair_sources = {FS_TRANSPORT, FS_ARTIFACT, FS_VERIFICATION, FS_BROWSER, FS_REVIEW}"

definition human_review_orchestration_sources :: "failure_source set" where
  "human_review_orchestration_sources = {FS_PREFLIGHT, FS_FINALIZATION, FS_SUPERVISOR}"

definition added_stages :: "stage set \<Rightarrow> stage set" where
  "added_stages invalid =
     set (filter (\<lambda>st. dependencies st \<inter> invalid \<noteq> {} \<and> st \<notin> invalid) all_stages)"

lemma finite_stages [simp]: "finite (S :: stage set)"
  by (rule finite_subset [OF subset_UNIV]) (metis List.finite_set set_all_stages)

function close_descendants :: "stage set \<Rightarrow> stage set" where
  "close_descendants invalid =
     (let added = added_stages invalid in
      if added = {} then invalid else close_descendants (invalid \<union> added))"
  by pat_completeness auto
termination
proof (relation "measure (\<lambda>invalid. card (UNIV - invalid))")
  fix invalid :: "stage set" and added
  assume "added = added_stages invalid" and "added \<noteq> {}"
  then obtain st where "st \<in> added_stages invalid" by blast
  then have "st \<notin> invalid" "st \<in> invalid \<union> added_stages invalid"
    by (auto simp: added_stages_def)
  then have "UNIV - (invalid \<union> added_stages invalid) \<subset> UNIV - invalid" by blast
  then have "card (UNIV - (invalid \<union> added_stages invalid)) < card (UNIV - invalid)"
    by (intro psubset_card_mono) simp_all
  with \<open>added = added_stages invalid\<close>
  show "(invalid \<union> added, invalid) \<in> measure (\<lambda>invalid. card (UNIV - invalid))" by simp
qed simp

declare close_descendants.simps [simp del]

definition descendants :: "stage \<Rightarrow> stage set" where
  "descendants owner = close_descendants {owner}"

subsection \<open>Selecting the next stage\<close>

record checkpoint_expectation =
  ce_contract_hash :: string
  ce_input_hashes :: digest_map

text \<open>
  The checkpoint authority is an argument, as it is in the source: \<open>reusable\<close> is its
  \<^verbatim>\<open>is_reusable\<close>, which may raise.
\<close>

type_synonym 'e reuse_check = "checkpoint \<Rightarrow> stage \<Rightarrow> string \<Rightarrow> digest_map \<Rightarrow> 'e + bool"

definition stage_settled ::
  "'e reuse_check \<Rightarrow> (stage \<Rightarrow> checkpoint_expectation option) \<Rightarrow> run_state \<Rightarrow> stage \<Rightarrow> 'e + bool" where
  "stage_settled reusable expectations s st =
     (case (expectations st, checkpoints s st) of
        (Some expectation, Some checkpoint) \<Rightarrow>
          (case outputs_of (stage_outputs s) st of
             None \<Rightarrow> Inr False
           | Some out \<Rightarrow>
               (if so_content_hash out \<noteq> ck_output_manifest_hash checkpoint then Inr False
                else reusable checkpoint st (ce_contract_hash expectation) (ce_input_hashes expectation)))
      | _ \<Rightarrow> Inr False)"

fun first_unsettled :: "(stage \<Rightarrow> 'e + bool) \<Rightarrow> stage list \<Rightarrow> 'e + stage option" where
  "first_unsettled settled [] = Inr None"
| "first_unsettled settled (st # rest) =
     bind_result (settled st) (\<lambda>ok. if ok then first_unsettled settled rest else Inr (Some st))"

definition next_stage ::
  "'e reuse_check \<Rightarrow> (stage \<Rightarrow> checkpoint_expectation option) \<Rightarrow> run_state \<Rightarrow> 'e + stage option" where
  "next_stage reusable expectations s =
     (if disposition s \<noteq> ACTIVE then Inr None
      else first_unsettled (stage_settled reusable expectations s) all_stages)"

subsection \<open>Invalidation\<close>

definition cleared :: "bool \<Rightarrow> 'a option \<Rightarrow> 'a option" where
  \<comment> \<open>a field the update sets to \<^verbatim>\<open>None\<close> under a condition\<close>
  "cleared c x = (if c then None else x)"

lemma cleared_simps [simp]: "cleared True x = None" "cleared False x = x" "cleared c None = None"
  by (simp_all add: cleared_def)

definition invalidate_update :: "stage set \<Rightarrow> stage \<Rightarrow> run_state \<Rightarrow> run_state" where
  "invalidate_update invalid owner s =
     s\<lparr>checkpoints := (\<lambda>st. if st \<notin> invalid then checkpoints s st else None),
       stage_outputs := filter (\<lambda>out. so_stage out \<notin> invalid) (stage_outputs s),
       current_stage := owner,
       iteration_open := False,
       requirements_package := cleared (ANALYST \<in> invalid) (requirements_package s),
       change_outline := cleared (ARCHITECT_OUTLINE \<in> invalid) (change_outline s),
       task_definition_manifest := cleared (ARCHITECT_TASKS \<in> invalid) (task_definition_manifest s),
       task_status_manifest := cleared (ARCHITECT_TASKS \<in> invalid) (task_status_manifest s),
       product_change_manifest := cleared (PROGRAMMER \<in> invalid) (product_change_manifest s),
       product_change_manifest_hash := cleared (PROGRAMMER \<in> invalid) (product_change_manifest_hash s),
       build_identity := cleared (PROGRAMMER \<in> invalid) (build_identity s),
       verification_result := cleared (VERIFICATION \<in> invalid) (verification_result s),
       browser_result := cleared (TESTER \<in> invalid) (browser_result s),
       review_manifest := cleared (REVIEWER \<in> invalid) (review_manifest s),
       review_result := cleared (REVIEWER \<in> invalid) (review_result s),
       prefinalization_ticket_projection :=
         cleared (REVIEWER \<in> invalid) (prefinalization_ticket_projection s),
       commit_sha := cleared (REVIEWER \<in> invalid) (commit_sha s),
       pushed_sha := cleared (REVIEWER \<in> invalid) (pushed_sha s),
       linear_done_receipt := cleared (REVIEWER \<in> invalid) (linear_done_receipt s),
       finalization_eligible := (if REVIEWER \<in> invalid then False else finalization_eligible s),
       finalization := cleared (REVIEWER \<in> invalid) (finalization s),
       finalization_evidence := cleared (REVIEWER \<in> invalid) (finalization_evidence s)\<rparr>"

definition invalidate_from ::
  "(string \<Rightarrow> bool) \<Rightarrow> run_state \<Rightarrow> stage \<Rightarrow> contract_error + run_state" where
  "invalidate_from clean s owner =
     model_copy clean (invalidate_update (descendants owner) owner) s"

subsection \<open>Routing\<close>

record route_decision =
  rd_disposition :: run_disposition
  rd_invalidation_roots :: "stage list"
  rd_next_stage :: "stage option"
  rd_failure :: failure_record
  rd_original_failure :: "failure_record option"

definition active_retry :: "failure_record \<Rightarrow> stage \<Rightarrow> route_decision" where
  "active_retry failure st =
     \<lparr>rd_disposition = ACTIVE, rd_invalidation_roots = [st], rd_next_stage = Some st,
      rd_failure = failure, rd_original_failure = None\<rparr>"

definition human_review_route :: "failure_record \<Rightarrow> failure_record option \<Rightarrow> route_decision" where
  "human_review_route failure original =
     \<lparr>rd_disposition = HUMAN_REVIEW, rd_invalidation_roots = [], rd_next_stage = None,
      rd_failure = failure, rd_original_failure = original\<rparr>"

definition is_retryable_invalid_output :: "run_state \<Rightarrow> failure_record \<Rightarrow> bool" where
  "is_retryable_invalid_output s failure \<longleftrightarrow>
     iteration_open s
     \<and> fr_source failure = FS_ARTIFACT
     \<and> fr_finding failure = INVALID_UNIT_OUTPUT
     \<and> fr_owner_stage failure = Some (current_stage s)"

definition gated_state_route :: "run_state \<Rightarrow> failure_record \<Rightarrow> route_decision" where
  "gated_state_route s failure =
     (if disposition s = WAITING_MCP then human_review_route failure None
      else \<lparr>rd_disposition = disposition s, rd_invalidation_roots = [], rd_next_stage = None,
            rd_failure = failure, rd_original_failure = None\<rparr>)"

definition invalid_routing_failure :: "failure_record \<Rightarrow> failure_record" where
  "invalid_routing_failure failure =
     \<lparr>fr_class = ORCHESTRATION, fr_source = FS_SUPERVISOR, fr_finding = INVALID_ROUTING,
      fr_owner_stage = None, fr_cited_ids = fr_cited_ids failure,
      fr_evidence_refs = fr_evidence_refs failure,
      fr_observed_revision = fr_observed_revision failure\<rparr>"

definition is_terminal_invalid_routing :: "failure_record \<Rightarrow> bool" where
  "is_terminal_invalid_routing failure \<longleftrightarrow>
     fr_class failure = ORCHESTRATION \<and> fr_source failure = FS_SUPERVISOR
     \<and> fr_finding failure = INVALID_ROUTING"

definition product_route :: "failure_record \<Rightarrow> route_decision option" where
  \<comment> \<open>the block for \<^verbatim>\<open>FailureClass.PRODUCT\<close>; \<open>None\<close> falls through\<close>
  "product_route failure =
     (if fr_owner_stage failure = Some ANALYST then Some (human_review_route failure None)
      else if fr_owner_stage failure = Some PROGRAMMER
              \<and> fr_source failure \<in> product_execution_sources
              \<and> fr_finding failure \<in> {IMPLEMENTATION_MISMATCH, SCENARIO_MISMATCH}
      then Some (active_retry failure PROGRAMMER)
      else if fr_source failure = FS_REVIEW \<and> fr_finding failure = ARTIFACT_MISMATCH
              \<and> opt_all (\<lambda>st. st \<in> architect_stages) (fr_owner_stage failure)
              \<and> fr_owner_stage failure \<noteq> None
              \<and> fr_cited_ids failure \<noteq> [] \<and> fr_evidence_refs failure \<noteq> []
      then Some (active_retry failure (the (fr_owner_stage failure)))
      else None)"

definition route_failure :: "run_state \<Rightarrow> failure_record \<Rightarrow> route_decision" where
  "route_failure s failure =
     (if disposition s \<noteq> ACTIVE then gated_state_route s failure
      else if fr_class failure = AMBIGUITY then human_review_route failure None
      else if fr_class failure = BUDGET_EXHAUSTED \<and> fr_source failure = FS_SUPERVISOR
      then human_review_route failure None
      else if fr_class failure = INVALID_OUTPUT \<and> is_retryable_invalid_output s failure
      then active_retry failure (the (fr_owner_stage failure))
      else if fr_class failure = PRODUCT \<and> product_route failure \<noteq> None
      then the (product_route failure)
      else if fr_class failure = ORCHESTRATION \<and> fr_source failure \<in> repair_sources
      then \<lparr>rd_disposition = REPAIR_REQUIRED, rd_invalidation_roots = [], rd_next_stage = None,
            rd_failure = failure, rd_original_failure = None\<rparr>
      else if fr_class failure = ORCHESTRATION \<and> fr_source failure \<in> human_review_orchestration_sources
      then human_review_route failure None
      else if is_terminal_invalid_routing failure then human_review_route failure None
      else human_review_route (invalid_routing_failure failure) (Some failure))"

fun invalidate_all ::
  "(string \<Rightarrow> bool) \<Rightarrow> run_state \<Rightarrow> stage list \<Rightarrow> contract_error + run_state" where
  "invalidate_all clean s [] = Inr s"
| "invalidate_all clean s (owner # rest) =
     bind_result (invalidate_from clean s owner) (\<lambda>t. invalidate_all clean t rest)"

definition apply_route ::
  "(string \<Rightarrow> bool) \<Rightarrow> run_state \<Rightarrow> route_decision \<Rightarrow> contract_error + run_state" where
  "apply_route clean s decision =
     (if disposition s \<noteq> ACTIVE then
        (let gate = gated_state_route s (rd_failure decision) in
         model_copy clean
           (\<lambda>s. s\<lparr>disposition := rd_disposition gate, iteration_open := False,
                  failure_history := failure_history s @ [rd_failure gate]\<rparr>) s)
      else
        bind_result (invalidate_all clean s (rd_invalidation_roots decision)) (\<lambda>routed.
          let failures = (case rd_original_failure decision of
                            None \<Rightarrow> failure_history routed
                          | Some original \<Rightarrow> failure_history routed @ [original])
          in model_copy clean
               (\<lambda>t. let u = t\<lparr>disposition := rd_disposition decision, iteration_open := False,
                               failure_history := failures @ [rd_failure decision]\<rparr>
                    in case rd_next_stage decision of
                         None \<Rightarrow> u
                       | Some st \<Rightarrow> u\<lparr>current_stage := st\<rparr>) routed))"

end
