(* ===== verification/Router_Laws.thy ===== *)
theory Router_Laws
  imports Router
begin

section \<open>Laws of the router\<close>

text \<open>
  The descendant loop against the graph it closes, invalidation as a total operation
  on well-formed states, and what routing and applying a route do to a state.
\<close>

subsection \<open>Descendants are the reachable stages\<close>

definition dependency_edges :: "(stage \<times> stage) set" where
  "dependency_edges = {(a, b). a \<in> dependencies b}"

lemma close_descendants_extends: "invalid \<subseteq> close_descendants invalid"
proof (induction invalid rule: close_descendants.induct)
  case (1 invalid)
  then show ?case
    by (subst close_descendants.simps) (auto simp: Let_def)
qed

lemma close_descendants_closed:
  "a \<in> close_descendants invalid \<Longrightarrow> a \<in> dependencies b \<Longrightarrow> b \<in> close_descendants invalid"
proof (induction invalid arbitrary: a rule: close_descendants.induct)
  case (1 invalid)
  show ?case
  proof (cases "added_stages invalid = {}")
    case True
    then have eq: "close_descendants invalid = invalid"
      by (subst close_descendants.simps) simp
    from True have "st \<in> invalid" if "dependencies st \<inter> invalid \<noteq> {}" for st
      using that by (auto simp: added_stages_def filter_empty_conv)
    with "1.prems" eq show ?thesis by blast
  next
    case False
    then have eq: "close_descendants invalid = close_descendants (invalid \<union> added_stages invalid)"
      by (subst close_descendants.simps) simp
    with "1.prems" "1.IH" [OF refl False] show ?thesis by simp
  qed
qed

lemma close_descendants_least:
  assumes "\<And>a b. a \<in> S \<Longrightarrow> a \<in> dependencies b \<Longrightarrow> b \<in> S"
  shows "invalid \<subseteq> S \<Longrightarrow> close_descendants invalid \<subseteq> S"
proof (induction invalid rule: close_descendants.induct)
  case (1 invalid)
  have "added_stages invalid \<subseteq> S"
    using assms "1.prems" by (auto simp: added_stages_def)
  with 1 show ?case
    by (subst close_descendants.simps) (auto simp: Let_def)
qed

theorem descendants_reachable: "st \<in> descendants owner \<longleftrightarrow> (owner, st) \<in> dependency_edges\<^sup>*"
proof
  have "descendants owner \<subseteq> {st. (owner, st) \<in> dependency_edges\<^sup>*}"
    unfolding descendants_def
    by (rule close_descendants_least)
      (auto simp: dependency_edges_def intro: rtrancl_into_rtrancl)
  then show "st \<in> descendants owner \<Longrightarrow> (owner, st) \<in> dependency_edges\<^sup>*" by blast
next
  assume "(owner, st) \<in> dependency_edges\<^sup>*"
  then show "st \<in> descendants owner"
  proof (induction rule: rtrancl_induct)
    case base
    show ?case unfolding descendants_def using close_descendants_extends by blast
  next
    case (step a b)
    then show ?case
      unfolding descendants_def by (auto simp: dependency_edges_def intro: close_descendants_closed)
  qed
qed

lemma owner_in_descendants [simp]: "owner \<in> descendants owner"
  by (simp add: descendants_reachable)

lemma descendants_step: "a \<in> descendants owner \<Longrightarrow> a \<in> dependencies b \<Longrightarrow> b \<in> descendants owner"
  unfolding descendants_def by (rule close_descendants_closed)

lemma downstream:
  "PROGRAMMER \<in> descendants owner \<Longrightarrow> VERIFICATION \<in> descendants owner"
  "VERIFICATION \<in> descendants owner \<Longrightarrow> TESTER \<in> descendants owner"
  "TESTER \<in> descendants owner \<Longrightarrow> REVIEWER \<in> descendants owner"
  "ARCHITECT_TASKS \<in> descendants owner \<Longrightarrow> PROGRAMMER \<in> descendants owner"
  by (erule descendants_step; simp)+

lemma reviewer_descends [simp]: "REVIEWER \<in> descendants owner"
proof -
  have "a \<in> descendants owner \<Longrightarrow> REVIEWER \<in> descendants owner" for a
  proof (induction a)
    case ANALYST
    then have "ARCHITECT_OUTLINE \<in> descendants owner" by (rule descendants_step) simp
    then have "ARCHITECT_PROPOSAL \<in> descendants owner" by (rule descendants_step) simp
    then have "ARCHITECT_SPECS \<in> descendants owner" by (rule descendants_step) simp
    then have "ARCHITECT_TASKS \<in> descendants owner" by (rule descendants_step) simp
    then show ?case by (intro downstream)
  next
    case ARCHITECT_OUTLINE
    then have "ARCHITECT_PROPOSAL \<in> descendants owner" by (rule descendants_step) simp
    then have "ARCHITECT_SPECS \<in> descendants owner" by (rule descendants_step) simp
    then have "ARCHITECT_TASKS \<in> descendants owner" by (rule descendants_step) simp
    then show ?case by (intro downstream)
  next
    case ARCHITECT_PROPOSAL
    then have "ARCHITECT_SPECS \<in> descendants owner" by (rule descendants_step) simp
    then have "ARCHITECT_TASKS \<in> descendants owner" by (rule descendants_step) simp
    then show ?case by (intro downstream)
  next
    case ARCHITECT_SPECS
    then have "ARCHITECT_TASKS \<in> descendants owner" by (rule descendants_step) simp
    then show ?case by (intro downstream)
  next
    case ARCHITECT_DESIGN
    then have "ARCHITECT_TASKS \<in> descendants owner" by (rule descendants_step) simp
    then show ?case by (intro downstream)
  qed (auto intro: downstream)
  then show ?thesis using owner_in_descendants by blast
qed

subsection \<open>Invalidation is total on well-formed states\<close>

lemma find_filter: "(\<And>x. Q x \<Longrightarrow> P x) \<Longrightarrow> find Q (filter P xs) = find Q xs"
  by (induction xs) auto

lemma find_filter_none: "(\<And>x. Q x \<Longrightarrow> \<not> P x) \<Longrightarrow> find Q (filter P xs) = None"
  by (induction xs) auto

lemma outputs_of_filter:
  "outputs_of (filter (\<lambda>out. so_stage out \<notin> invalid) os) st =
     (if st \<in> invalid then None else outputs_of os st)"
  by (auto simp: outputs_of_def rev_filter intro!: find_filter find_filter_none)

lemma invalidate_release_checks:
  assumes "first_error (release_checks s) = None"
  shows "first_error (release_checks (invalidate_update invalid owner s)) = None"
proof -
  have "(product_change_manifest s = None) = (product_change_manifest_hash s = None)"
    using assms by (simp add: release_checks_def del: first_error.simps add: check_simps)
  then show ?thesis
    using assms
    by (simp add: release_checks_def cleared_def invalidate_update_def
        del: first_error.simps add: check_simps)
qed

lemma invalidate_iteration_checks:
  assumes "first_error (iteration_checks s) = None" and "REVIEWER \<in> invalid"
  shows "first_error (iteration_checks (invalidate_update invalid owner s)) = None"
  using assms
  by (simp add: iteration_checks_def authorized_iteration_limit_def invalidate_update_def
      del: first_error.simps add: check_simps)

lemma invalidate_task_checks:
  assumes "first_error (task_checks s) = None"
  shows "first_error (task_checks (invalidate_update invalid owner s)) = None"
proof (cases "ARCHITECT_TASKS \<in> invalid")
  case True
  then show ?thesis by (simp add: task_checks_def invalidate_update_def)
next
  case False
  then have "task_status_manifest (invalidate_update invalid owner s) = task_status_manifest s"
    "task_definition_manifest (invalidate_update invalid owner s) = task_definition_manifest s"
    by (simp_all add: invalidate_update_def)
  then have "task_checks (invalidate_update invalid owner s) = task_checks s"
    by (simp only: task_checks_def)
  with assms show ?thesis by simp
qed

lemma invalidate_checkpoint_checks:
  assumes "first_error (checkpoint_checks s) = None"
  shows "first_error (checkpoint_checks (invalidate_update invalid owner s)) = None"
proof -
  have parts:
    "\<And>st. opt_all (\<lambda>c. ck_stage c = st) (checkpoints s st)"
    "distinct (map so_stage (stage_outputs s))"
    "\<And>st. (outputs_of (stage_outputs s) st = None) = (checkpoints s st = None)"
    "\<And>st. checkpoints s st = None \<or> map_option so_content_hash (outputs_of (stage_outputs s) st)
        = map_option ck_output_manifest_hash (checkpoints s st)"
    using assms
    by (simp_all add: checkpoint_checks_def list_ex_iff del: first_error.simps add: check_simps)
  have "distinct (map so_stage (filter (\<lambda>out. so_stage out \<notin> invalid) (stage_outputs s)))"
    using parts(2) by (induction "stage_outputs s" arbitrary: s) (auto simp: distinct_map_filter)
  then show ?thesis
    using parts(1,3,4)
    by (simp add: checkpoint_checks_def list_ex_iff invalidate_update_def outputs_of_filter
        del: first_error.simps add: check_simps)
qed

lemma invalidate_update_checks:
  assumes "first_error (state_checks s) = None" and "REVIEWER \<in> invalid"
  shows "first_error (state_checks (invalidate_update invalid owner s)) = None"
proof -
  let ?t = "invalidate_update invalid owner s"
  have same: "binding_checks ?t = binding_checks s" "trust_checks ?t = trust_checks s"
    by (simp_all add: binding_checks_def trust_checks_def invalidate_update_def
        has_preparation_binding_def)
  with assms show ?thesis
    by (simp add: state_checks_def first_error_appendD invalidate_release_checks
        invalidate_iteration_checks invalidate_task_checks invalidate_checkpoint_checks)
qed

lemma opt_all_cleared: "opt_all P x \<Longrightarrow> opt_all P (cleared c x)"
  by (simp add: cleared_def)

lemma cleared_lower: "map_option lower x = x \<Longrightarrow> map_option lower (cleared c x) = cleared c x"
  by (simp add: cleared_def)

lemma list_all_filterI: "list_all P xs \<Longrightarrow> list_all P (filter Q xs)"
  by (induction xs) simp_all

lemma invalidate_nested_ok:
  "nested_ok clean s \<Longrightarrow> nested_ok clean (invalidate_update invalid owner s)"
  unfolding nested_ok_def
  by (simp add: invalidate_update_def opt_all_cleared list_all_filterI list_all_iff)

lemma invalidate_fields_ok:
  "fields_ok clean s \<Longrightarrow> fields_ok clean (invalidate_update invalid owner s)"
  unfolding fields_ok_def
  by (simp add: invalidate_nested_ok)
    (simp add: invalidate_update_def digest_fields_def opt_all_cleared)

lemma invalidate_from_total:
  assumes "run_inv clean s"
  shows "invalidate_from clean s owner = Inr (invalidate_update (descendants owner) owner s)"
proof -
  let ?t = "invalidate_update (descendants owner) owner s"
  note parts = assms [unfolded run_inv_parts]
  have "normalize ?t = ?t"
    using parts unfolding normalize_fixed_iff
    by (simp add: normal_fields_def invalidate_update_def cleared_lower)
  moreover have "first_error (state_checks ?t) = None"
    using parts by (simp add: invalidate_update_checks)
  moreover have "effect_ledger ?t = effect_ledger s"
      "pending_external_request ?t = pending_external_request s" "run_id ?t = run_id s"
    by (simp_all add: invalidate_update_def)
  ultimately have "run_inv clean ?t"
    using parts pending_ok_cong [of ?t s] by (simp add: run_inv_parts invalidate_fields_ok)
  then show ?thesis
    by (simp add: invalidate_from_def model_copy_def run_inv_def)
qed

lemma invalidate_from_inv:
  "run_inv clean s \<Longrightarrow> invalidate_from clean s owner = Inr t \<Longrightarrow> run_inv clean t"
  unfolding invalidate_from_def by (rule model_copy_inv)

subsection \<open>What invalidation clears and what it keeps\<close>

definition stage_evidence_empty :: "stage \<Rightarrow> run_state \<Rightarrow> bool" where
  \<comment> \<open>the state holds nothing the stage produced\<close>
  "stage_evidence_empty st s \<longleftrightarrow>
     checkpoints s st = None \<and> outputs_of (stage_outputs s) st = None
     \<and> (case st of
          ANALYST \<Rightarrow> requirements_package s = None
        | ARCHITECT_OUTLINE \<Rightarrow> change_outline s = None
        | ARCHITECT_TASKS \<Rightarrow> task_definition_manifest s = None \<and> task_status_manifest s = None
        | PROGRAMMER \<Rightarrow> product_change_manifest s = None \<and> product_change_manifest_hash s = None
                        \<and> build_identity s = None
        | VERIFICATION \<Rightarrow> verification_result s = None
        | TESTER \<Rightarrow> browser_result s = None
        | REVIEWER \<Rightarrow> review_manifest s = None \<and> review_result s = None
                      \<and> prefinalization_ticket_projection s = None \<and> commit_sha s = None
                      \<and> pushed_sha s = None \<and> linear_done_receipt s = None
                      \<and> finalization s = None \<and> finalization_evidence s = None
                      \<and> \<not> finalization_eligible s
        | _ \<Rightarrow> True)"

lemma invalidate_update_clears:
  "st \<in> invalid \<Longrightarrow> stage_evidence_empty st (invalidate_update invalid owner s)"
  by (cases st) (simp_all add: stage_evidence_empty_def invalidate_update_def outputs_of_filter)

lemma invalidate_update_keeps:
  "st \<notin> invalid \<Longrightarrow>
     checkpoints (invalidate_update invalid owner s) st = checkpoints s st
     \<and> outputs_of (stage_outputs (invalidate_update invalid owner s)) st
         = outputs_of (stage_outputs s) st"
  by (simp add: invalidate_update_def outputs_of_filter)

definition run_history :: "run_state \<Rightarrow>
    string \<times> string \<times> string \<times> int \<times> int \<times> failure_record list \<times> effect_event list
    \<times> human_authorization list \<times> run_disposition" where
  "run_history s =
     (run_id s, ticket_id s, repository_id s, max_crew_iterations s, crew_iteration_count s,
      failure_history s, effect_ledger s, human_authorizations s, disposition s)"

lemma invalidate_update_history [simp]:
  "run_history (invalidate_update invalid owner s) = run_history s"
  by (simp add: run_history_def invalidate_update_def)

lemma invalidate_update_position [simp]:
  "current_stage (invalidate_update invalid owner s) = owner"
  "iteration_open (invalidate_update invalid owner s) = False"
  by (simp_all add: invalidate_update_def)

lemma invalidate_all_total:
  "run_inv clean s \<Longrightarrow> \<exists>t. invalidate_all clean s owners = Inr t \<and> run_inv clean t
     \<and> run_history t = run_history s
     \<and> (\<forall>owner \<in> set owners. \<forall>st \<in> descendants owner. checkpoints t st = None)
     \<and> (\<forall>st. checkpoints s st = None \<longrightarrow> checkpoints t st = None)"
proof (induction owners arbitrary: s)
  case Nil
  then show ?case by simp
next
  case (Cons owner owners)
  let ?s = "invalidate_update (descendants owner) owner s"
  have step: "invalidate_from clean s owner = Inr ?s"
    using Cons.prems by (rule invalidate_from_total)
  then have "run_inv clean ?s"
    using Cons.prems invalidate_from_inv by blast
  then obtain t where t: "invalidate_all clean ?s owners = Inr t" "run_inv clean t"
      "run_history t = run_history ?s"
      "\<forall>owner \<in> set owners. \<forall>st \<in> descendants owner. checkpoints t st = None"
      "\<forall>st. checkpoints ?s st = None \<longrightarrow> checkpoints t st = None"
    using Cons.IH by blast
  moreover have "checkpoints ?s st = None" if "st \<in> descendants owner \<or> checkpoints s st = None" for st
    using that by (auto simp: invalidate_update_def)
  ultimately show ?case by (simp add: step)
qed


subsection \<open>Routing a failure\<close>

definition retry_stage :: "run_state \<Rightarrow> failure_record \<Rightarrow> stage option" where
  \<comment> \<open>the stage that is run again without leaving \<open>ACTIVE\<close>, if there is one\<close>
  "retry_stage s f =
     (if fr_class f = INVALID_OUTPUT then
        (if is_retryable_invalid_output s f then fr_owner_stage f else None)
      else if fr_class f = PRODUCT then
        (case fr_owner_stage f of
           None \<Rightarrow> None
         | Some st \<Rightarrow>
             if st = PROGRAMMER \<and> fr_source f \<in> product_execution_sources
                  \<and> fr_finding f \<in> {IMPLEMENTATION_MISMATCH, SCENARIO_MISMATCH}
                \<or> st \<in> architect_stages \<and> fr_source f = FS_REVIEW
                  \<and> fr_finding f = ARTIFACT_MISMATCH
                  \<and> fr_cited_ids f \<noteq> [] \<and> fr_evidence_refs f \<noteq> []
             then Some st else None)
      else None)"

lemma architect_not_analyst [simp]: "ANALYST \<notin> architect_stages" "PROGRAMMER \<notin> architect_stages"
  by (simp_all add: architect_stages_def)

lemma product_route_cases:
  assumes "fr_class f = PRODUCT"
  shows "product_route f =
     (if fr_owner_stage f = Some ANALYST then Some (human_review_route f None)
      else map_option (active_retry f) (retry_stage s f))"
  using assms
  by (cases "fr_owner_stage f") (auto simp: product_route_def retry_stage_def)

lemma retry_stage_owner: "retry_stage s f = Some st \<Longrightarrow> fr_owner_stage f = Some st \<and> st \<noteq> ANALYST
    \<or> fr_owner_stage f = Some st \<and> fr_class f = INVALID_OUTPUT"
  by (auto simp: retry_stage_def split: if_splits option.splits)

lemma route_failure_retry:
  assumes "disposition s = ACTIVE" and "retry_stage s f = Some st"
  shows "route_failure s f = active_retry f st"
proof (cases "fr_class f = INVALID_OUTPUT")
  case True
  with assms show ?thesis
    by (simp add: route_failure_def retry_stage_def split: if_splits)
next
  case False
  with assms(2) have cls: "fr_class f = PRODUCT"
    by (simp add: retry_stage_def split: if_splits)
  moreover have "fr_owner_stage f \<noteq> Some ANALYST"
    using retry_stage_owner [OF assms(2)] False by auto
  ultimately have "product_route f = Some (active_retry f st)"
    using product_route_cases [OF cls, of s] assms(2) by simp
  with cls assms(1) show ?thesis by (simp add: route_failure_def)
qed

lemma route_failure_other:
  assumes "disposition s = ACTIVE" and "retry_stage s f = None"
  shows "rd_invalidation_roots (route_failure s f) = []
    \<and> rd_next_stage (route_failure s f) = None
    \<and> rd_disposition (route_failure s f) =
        (if fr_class f = ORCHESTRATION \<and> fr_source f \<in> repair_sources
         then REPAIR_REQUIRED else HUMAN_REVIEW)"
proof (cases "fr_class f")
  case PRODUCT
  then have "product_route f =
      (if fr_owner_stage f = Some ANALYST then Some (human_review_route f None) else None)"
    using product_route_cases [OF PRODUCT, of s] assms(2) by simp
  with PRODUCT assms(1) show ?thesis
    by (simp add: route_failure_def human_review_route_def is_terminal_invalid_routing_def)
next
  case INVALID_OUTPUT
  have "\<not> is_retryable_invalid_output s f"
    using assms(2) INVALID_OUTPUT
    by (auto simp: retry_stage_def is_retryable_invalid_output_def split: if_splits)
  with INVALID_OUTPUT assms(1) show ?thesis
    by (simp add: route_failure_def human_review_route_def is_terminal_invalid_routing_def)
qed (use assms in \<open>simp_all add: route_failure_def human_review_route_def\<close>)

lemma route_failure_record:
  assumes "disposition s = ACTIVE"
  shows "(rd_failure (route_failure s f) = f \<and> rd_original_failure (route_failure s f) = None)
    \<or> (rd_failure (route_failure s f) = invalid_routing_failure f
        \<and> rd_original_failure (route_failure s f) = Some f)"
proof (cases "retry_stage s f")
  case (Some st)
  with assms show ?thesis by (simp add: route_failure_retry active_retry_def)
next
  case None
  then have "fr_class f = PRODUCT \<Longrightarrow> product_route f =
      (if fr_owner_stage f = Some ANALYST then Some (human_review_route f None) else None)"
    using product_route_cases [of f s] by simp
  moreover have "fr_class f = INVALID_OUTPUT \<Longrightarrow> \<not> is_retryable_invalid_output s f"
    using None by (auto simp: retry_stage_def is_retryable_invalid_output_def split: if_splits)
  ultimately show ?thesis
    using assms
    by (cases "fr_class f") (simp_all add: route_failure_def human_review_route_def)
qed

subsection \<open>Applying a route\<close>

definition settle :: "run_disposition \<Rightarrow> failure_record list \<Rightarrow> run_state \<Rightarrow> run_state" where
  "settle d fs s = s\<lparr>disposition := d, iteration_open := False, failure_history := fs\<rparr>"

lemma settle_frame:
  "binding_checks (settle d fs s) = binding_checks s"
  "trust_checks (settle d fs s) = trust_checks s"
  "release_checks (settle d fs s) = release_checks s"
  "checkpoint_checks (settle d fs s) = checkpoint_checks s"
  "normal_fields (settle d fs s) = normal_fields s"
  "effect_ledger (settle d fs s) = effect_ledger s"
  "pending_external_request (settle d fs s) = pending_external_request s"
  "run_id (settle d fs s) = run_id s"
  by (simp_all add: settle_def binding_checks_def trust_checks_def release_checks_def
      has_preparation_binding_def checkpoint_checks_def normal_fields_def)

lemma settle_task_checks: "task_checks (settle d fs s) = task_checks s"
  by (rule task_checks_cong) (simp_all add: settle_def)

lemma settle_iteration_checks:
  "first_error (iteration_checks s) = None \<Longrightarrow> first_error (iteration_checks (settle d fs s)) = None"
  by (simp add: iteration_checks_def settle_def authorized_iteration_limit_def
      del: first_error.simps add: check_simps)

lemma settle_fields_ok:
  "fields_ok clean s \<Longrightarrow> list_all failure_record_valid fs \<Longrightarrow> fields_ok clean (settle d fs s)"
  by (simp add: fields_ok_def nested_ok_def digest_fields_def settle_def)

lemma settle_inv:
  assumes "run_inv clean s" and "list_all failure_record_valid fs"
  shows "run_inv clean (settle d fs s)"
  using assms pending_ok_cong [of "settle d fs s" s]
  by (simp add: run_inv_parts normalize_fixed_iff state_checks_def first_error_appendD
      settle_frame settle_task_checks settle_iteration_checks settle_fields_ok)

lemma run_inv_failures: "run_inv clean s \<Longrightarrow> list_all failure_record_valid (failure_history s)"
  by (simp add: run_inv_parts fields_ok_def nested_ok_def)

lemma position_inv:
  assumes "run_inv clean s"
  shows "run_inv clean (s\<lparr>current_stage := st\<rparr>)"
proof -
  let ?t = "s\<lparr>current_stage := st\<rparr>"
  have "task_checks ?t = task_checks s" by (rule task_checks_cong) simp_all
  moreover have "binding_checks ?t = binding_checks s" "trust_checks ?t = trust_checks s"
      "release_checks ?t = release_checks s" "checkpoint_checks ?t = checkpoint_checks s"
      "iteration_checks ?t = iteration_checks s" "normal_fields ?t = normal_fields s"
    by (simp_all add: binding_checks_def trust_checks_def release_checks_def iteration_checks_def
        has_preparation_binding_def checkpoint_checks_def normal_fields_def
        authorized_iteration_limit_def)
  moreover have "fields_ok clean ?t = fields_ok clean s"
    by (simp add: fields_ok_def nested_ok_def digest_fields_def)
  moreover have "pending_ok clean ?t = pending_ok clean s" by (rule pending_ok_cong) simp_all
  ultimately show ?thesis
    using assms by (simp add: run_inv_parts normalize_fixed_iff state_checks_def)
qed

definition moved :: "stage option \<Rightarrow> run_state \<Rightarrow> run_state" where
  "moved target s = (case target of None \<Rightarrow> s | Some st \<Rightarrow> s\<lparr>current_stage := st\<rparr>)"

definition recorded :: "route_decision \<Rightarrow> failure_record list" where
  \<comment> \<open>the failures applying a decision appends, the routed one last\<close>
  "recorded d = (case rd_original_failure d of None \<Rightarrow> [] | Some f \<Rightarrow> [f]) @ [rd_failure d]"

lemma apply_route_active:
  assumes "run_inv clean s" and "disposition s = ACTIVE" and "list_all failure_record_valid (recorded d)"
  obtains t u where
    "invalidate_all clean s (rd_invalidation_roots d) = Inr t"
    "apply_route clean s d = Inr u" "run_inv clean u"
    "u = moved (rd_next_stage d) (settle (rd_disposition d) (failure_history s @ recorded d) t)"
    "run_history t = run_history s"
proof -
  obtain t where t: "invalidate_all clean s (rd_invalidation_roots d) = Inr t" "run_inv clean t"
      "run_history t = run_history s"
    using invalidate_all_total [OF assms(1)] by blast
  have history: "failure_history t = failure_history s"
    using t(3) by (simp add: run_history_def)
  let ?v = "settle (rd_disposition d) (failure_history s @ recorded d) t"
  have "list_all failure_record_valid (failure_history s @ recorded d)"
    using run_inv_failures [OF assms(1)] assms(3) by simp
  then have v: "run_inv clean ?v" using t(2) by (intro settle_inv)
  have u: "run_inv clean (moved (rd_next_stage d) ?v)"
    using v position_inv by (simp add: moved_def split: option.splits)
  have "apply_route clean s d = Inr (moved (rd_next_stage d) ?v)"
    using u [unfolded run_inv_def] assms(2) t(1) history
    by (simp add: apply_route_def model_copy_def moved_def settle_def recorded_def
        split: option.splits)
  with t u show ?thesis using that by blast
qed

lemma apply_route_gated:
  assumes "run_inv clean s" and "disposition s \<noteq> ACTIVE" and "failure_record_valid (rd_failure d)"
  shows "apply_route clean s d =
      Inr (settle (rd_disposition (gated_state_route s (rd_failure d)))
             (failure_history s @ [rd_failure d]) s)"
proof -
  have f: "rd_failure (gated_state_route s (rd_failure d)) = rd_failure d"
    by (simp add: gated_state_route_def human_review_route_def)
  have "run_inv clean (settle (rd_disposition (gated_state_route s (rd_failure d)))
             (failure_history s @ [rd_failure d]) s)"
    using assms run_inv_failures [OF assms(1)] by (intro settle_inv) simp_all
  with assms(2) f show ?thesis
    by (simp add: apply_route_def model_copy_def run_inv_def settle_def)
qed

lemma recorded_route:
  assumes "failure_record_valid f"
  shows "list_all failure_record_valid (recorded (route_failure s f))"
proof (cases "disposition s = ACTIVE")
  case True
  have "failure_record_valid (invalid_routing_failure f)"
    using assms by (simp add: failure_record_valid_def invalid_routing_failure_def)
  with route_failure_record [OF True, of f] assms show ?thesis
    by (auto simp: recorded_def)
next
  case False
  with assms show ?thesis
    by (simp add: recorded_def route_failure_def gated_state_route_def human_review_route_def)
qed

lemma route_gated: "disposition s \<noteq> ACTIVE \<Longrightarrow>
    rd_failure (route_failure s f) = f \<and> rd_next_stage (route_failure s f) = None
    \<and> gated_state_route s (rd_failure (route_failure s f)) = route_failure s f"
  by (simp add: route_failure_def gated_state_route_def human_review_route_def)

lemma route_failure_mem_recorded:
  "f \<in> set (recorded (route_failure s f))"
proof (cases "disposition s = ACTIVE")
  case True
  with route_failure_record [OF True, of f] show ?thesis by (auto simp: recorded_def)
qed (simp add: recorded_def route_gated)

lemma history_fields:
  "run_history t = run_history s \<Longrightarrow>
     run_id t = run_id s \<and> crew_iteration_count t = crew_iteration_count s
     \<and> failure_history t = failure_history s \<and> effect_ledger t = effect_ledger s
     \<and> human_authorizations t = human_authorizations s \<and> disposition t = disposition s
     \<and> max_crew_iterations t = max_crew_iterations s"
  by (simp add: run_history_def)

lemma moved_settle_fields:
  "iteration_open (moved m (settle d fs t)) = False"
  "disposition (moved m (settle d fs t)) = d"
  "failure_history (moved m (settle d fs t)) = fs"
  "crew_iteration_count (moved m (settle d fs t)) = crew_iteration_count t"
  "effect_ledger (moved m (settle d fs t)) = effect_ledger t"
  "checkpoints (moved m (settle d fs t)) = checkpoints t"
  by (simp_all add: moved_def settle_def split: option.splits)

text \<open>
  Routing a failure and applying the decision: never an error on a well-formed state; the
  iteration is closed, its count and the ledger are unchanged, the history grows.
\<close>

lemma apply_route_failure:
  assumes inv: "run_inv clean s" and f: "failure_record_valid f"
  obtains u where
    "apply_route clean s (route_failure s f) = Inr u" "run_inv clean u" "\<not> iteration_open u"
    "disposition u = rd_disposition (route_failure s f)"
    "crew_iteration_count u = crew_iteration_count s" "effect_ledger u = effect_ledger s"
    "\<exists>new. failure_history u = failure_history s @ new \<and> f \<in> set new"
proof (cases "disposition s = ACTIVE")
  case True
  let ?d = "route_failure s f"
  obtain t u where u: "apply_route clean s ?d = Inr u" "run_inv clean u"
      "u = moved (rd_next_stage ?d) (settle (rd_disposition ?d) (failure_history s @ recorded ?d) t)"
      "run_history t = run_history s"
    using apply_route_active [OF inv True recorded_route [OF f]] by blast
  have h: "crew_iteration_count t = crew_iteration_count s" "effect_ledger t = effect_ledger s"
    using history_fields [OF u(4)] by auto
  show ?thesis
    by (rule that [OF u(1,2)])
      (use route_failure_mem_recorded [of f s] h u(3) in \<open>simp_all add: moved_settle_fields\<close>)
next
  case False
  let ?d = "route_failure s f"
  let ?u = "settle (rd_disposition ?d) (failure_history s @ [f]) s"
  have eq: "apply_route clean s ?d = Inr ?u"
    using apply_route_gated [OF inv False, of ?d] f
    by (metis route_gated [OF False, of f])
  have "run_inv clean ?u"
    using settle_inv [OF inv] run_inv_failures [OF inv] f by simp
  then show ?thesis
    by (rule that [OF eq]) (simp_all add: settle_def)
qed

lemma apply_route_retry:
  assumes inv: "run_inv clean s" and f: "failure_record_valid f"
    and act: "disposition s = ACTIVE" and retry: "retry_stage s f = Some st"
  obtains u where
    "apply_route clean s (route_failure s f) = Inr u" "run_inv clean u"
    "disposition u = ACTIVE" "current_stage u = st"
    "\<forall>x \<in> descendants st. stage_evidence_empty x u"
proof -
  let ?t = "invalidate_update (descendants st) st s"
  let ?fs = "failure_history s @ [f]"
  have d: "route_failure s f = active_retry f st"
    by (rule route_failure_retry [OF act retry])
  let ?d = "active_retry f st"
  have "list_all failure_record_valid (recorded ?d)"
    using f by (simp add: active_retry_def recorded_def)
  from apply_route_active [OF inv act this]
  obtain t u where u: "invalidate_all clean s (rd_invalidation_roots ?d) = Inr t"
      "apply_route clean s ?d = Inr u" "run_inv clean u"
      "u = moved (rd_next_stage ?d) (settle (rd_disposition ?d) (failure_history s @ recorded ?d) t)"
    by blast
  from u(1) have "t = ?t" by (simp add: invalidate_from_total [OF inv] active_retry_def)
  then have shape: "u = ?t\<lparr>disposition := ACTIVE, iteration_open := False,
      failure_history := ?fs, current_stage := st\<rparr>"
    using u(4) by (simp add: moved_def settle_def active_retry_def recorded_def)
  have empty: "stage_evidence_empty x u" if "x \<in> descendants st" for x
    using invalidate_update_clears [OF that, of st s]
    by (cases x) (simp_all add: shape stage_evidence_empty_def)
  have "disposition u = ACTIVE" "current_stage u = st" by (simp_all add: shape)
  moreover have "apply_route clean s (route_failure s f) = Inr u" using u(2) d by simp
  ultimately show ?thesis using that u(3) empty by blast
qed

subsection \<open>The next stage\<close>

lemma first_unsettled_Some:
  "first_unsettled settled xs = Inr (Some st) \<longleftrightarrow>
     st \<in> set xs \<and> settled st = Inr False
     \<and> (\<forall>p \<in> set (takeWhile (\<lambda>x. x \<noteq> st) xs). settled p = Inr True)"
  by (induction xs) (auto simp: bind_result_Inr split: if_splits)

lemma first_unsettled_None:
  "first_unsettled settled xs = Inr None \<longleftrightarrow> (\<forall>x \<in> set xs. settled x = Inr True)"
  by (induction xs) (auto simp: bind_result_Inr split: if_splits)

lemma next_stage_Some:
  "next_stage reusable expectations s = Inr (Some st) \<longleftrightarrow>
     disposition s = ACTIVE \<and> stage_settled reusable expectations s st = Inr False
     \<and> (\<forall>p \<in> set (takeWhile (\<lambda>x. x \<noteq> st) all_stages). stage_settled reusable expectations s p = Inr True)"
  by (simp add: next_stage_def first_unsettled_Some)

lemma unsettled_without_checkpoint:
  "checkpoints s st = None \<Longrightarrow> stage_settled reusable expectations s st = Inr False"
  by (simp add: stage_settled_def split: option.splits)

end
