(* ===== verification/Json_Reader.thy ===== *)
theory Json_Reader
  imports Hashing
begin

section \<open>Reading canonical JSON\<close>

text \<open>
  \<^verbatim>\<open>json.loads\<close> on ASCII text and \<^verbatim>\<open>_read_canonical_json\<close> of
  \<^verbatim>\<open>src/auto_code/state.py\<close>, which accepts a text only when writing the value read
  gives the same text back.  Numbers with a fraction or an exponent and escapes above
  \<^verbatim>\<open>\u00ff\<close> are outside the value type of the development and are refused here.
  The theorems: reading what \<open>canonical_json_bytes\<close> wrote returns the value with its
  object keys sorted, and two values have the same canonical text only when they are
  equal as Python values.
\<close>

subsection \<open>The reader\<close>

definition json_space :: "char \<Rightarrow> bool" where
  "json_space c \<longleftrightarrow> c \<in> {CHR '' '', CHR 0x09, CHR 0x0A, CHR 0x0D}"

definition skip_ws :: "string \<Rightarrow> string" where
  "skip_ws s = dropWhile json_space s"

definition simple_escape :: "char \<Rightarrow> char option" where
  "simple_escape e =
     (if e = CHR 0x22 then Some (CHR 0x22)
      else if e = CHR 0x5C then Some (CHR 0x5C)
      else if e = CHR ''/'' then Some (CHR ''/'')
      else if e = CHR ''b'' then Some (CHR 0x08)
      else if e = CHR ''f'' then Some (CHR 0x0C)
      else if e = CHR ''n'' then Some (CHR 0x0A)
      else if e = CHR ''r'' then Some (CHR 0x0D)
      else if e = CHR ''t'' then Some (CHR 0x09)
      else None)"

definition cons_first :: "char \<Rightarrow> (string \<times> string) option \<Rightarrow> (string \<times> string) option" where
  "cons_first c r = map_option (\<lambda>(s, rest). (c # s, rest)) r"

fun scan_string :: "string \<Rightarrow> (string \<times> string) option" where
  "scan_string [] = None"
| "scan_string (c # cs) =
     (if c = CHR 0x22 then Some ([], cs)
      else if c = CHR 0x5C then
        (case cs of
           [] \<Rightarrow> None
         | e # rest \<Rightarrow>
             if e = CHR ''u'' then
               (case rest of
                  h1 # h2 # h3 # h4 # rest' \<Rightarrow>
                    if h1 = CHR ''0'' \<and> h2 = CHR ''0'' \<and> is_hex h3 \<and> is_hex h4
                    then cons_first (char_of (16 * hex_value h3 + hex_value h4)) (scan_string rest')
                    else None
                | _ \<Rightarrow> None)
             else (case simple_escape e of
                     None \<Rightarrow> None
                   | Some d \<Rightarrow> cons_first d (scan_string rest)))
      else if (of_char c :: nat) < 32 then None
      else cons_first c (scan_string cs))"

definition digits_value :: "string \<Rightarrow> nat" where
  "digits_value ds = foldl (\<lambda>n d. 10 * n + hex_value d) 0 ds"

definition float_tail :: "string \<Rightarrow> bool" where
  \<comment> \<open>a fraction or an exponent follows\<close>
  "float_tail s \<longleftrightarrow>
     (case s of
        c # d # rest \<Rightarrow>
          (c = CHR ''.'' \<and> is_digit d)
          \<or> (c \<in> {CHR ''e'', CHR ''E''}
              \<and> (is_digit d \<or> d \<in> {CHR ''+'', CHR ''-''} \<and> rest \<noteq> [] \<and> is_digit (hd rest)))
      | _ \<Rightarrow> False)"

definition scan_nat :: "string \<Rightarrow> (nat \<times> string) option" where
  "scan_nat s =
     (case s of
        [] \<Rightarrow> None
      | c # cs \<Rightarrow>
          if \<not> is_digit c then None
          else
            let ds = (if c = CHR ''0'' then [c] else takeWhile is_digit s);
                rest = drop (length ds) s
            in if float_tail rest then None else Some (digits_value ds, rest))"

definition scan_int :: "string \<Rightarrow> (int \<times> string) option" where
  "scan_int s =
     (case s of
        c # cs \<Rightarrow>
          if c = CHR ''-'' then map_option (\<lambda>(n, rest). (- int n, rest)) (scan_nat cs)
          else map_option (\<lambda>(n, rest). (int n, rest)) (scan_nat s)
      | [] \<Rightarrow> None)"

definition scan_literal :: "string \<Rightarrow> (json \<times> string) option" where
  "scan_literal s =
     (if starts_with ''null'' s then Some (JNull, drop 4 s)
      else if starts_with ''true'' s then Some (JBool True, drop 4 s)
      else if starts_with ''false'' s then Some (JBool False, drop 5 s)
      else map_option (\<lambda>(i, rest). (JInt i, rest)) (scan_int s))"

definition expect :: "char \<Rightarrow> string \<Rightarrow> string option" where
  "expect c s = (case s of [] \<Rightarrow> None | d # rest \<Rightarrow> if d = c then Some rest else None)"

definition scan_key :: "string \<Rightarrow> (string \<times> string) option" where
  \<comment> \<open>a key with its colon and the white space around it\<close>
  "scan_key s =
     (case expect CHR 0x22 s of
        None \<Rightarrow> None
      | Some r \<Rightarrow>
          (case scan_string r of
             None \<Rightarrow> None
           | Some (k, r') \<Rightarrow>
               map_option (\<lambda>t. (k, skip_ws t)) (expect CHR '':'' (skip_ws r'))))"

text \<open>Each call takes one unit of fuel; the length of the text is enough.\<close>

fun scan_value :: "nat \<Rightarrow> string \<Rightarrow> (json \<times> string) option"
and scan_elements :: "nat \<Rightarrow> string \<Rightarrow> (json list \<times> string) option"
and scan_members :: "nat \<Rightarrow> string \<Rightarrow> ((string \<times> json) list \<times> string) option"
where
  "scan_value 0 s = None"
| "scan_value (Suc n) s =
     (case s of
        [] \<Rightarrow> None
      | c # cs \<Rightarrow>
          if c = CHR 0x22 then map_option (\<lambda>(t, rest). (JStr t, rest)) (scan_string cs)
          else if c = CHR ''['' then
            (case expect CHR '']'' (skip_ws cs) of
               Some rest \<Rightarrow> Some (JList [], rest)
             | None \<Rightarrow> map_option (\<lambda>(vs, rest). (JList vs, rest)) (scan_elements n (skip_ws cs)))
          else if c = CHR ''{'' then
            (case expect CHR ''}'' (skip_ws cs) of
               Some rest \<Rightarrow> Some (JObj [], rest)
             | None \<Rightarrow> map_option (\<lambda>(kvs, rest). (JObj kvs, rest)) (scan_members n (skip_ws cs)))
          else scan_literal s)"
| "scan_elements 0 s = None"
| "scan_elements (Suc n) s =
     (case scan_value n s of
        None \<Rightarrow> None
      | Some (v, rest) \<Rightarrow>
          (case expect CHR '']'' (skip_ws rest) of
             Some rest' \<Rightarrow> Some ([v], rest')
           | None \<Rightarrow>
               (case expect CHR '','' (skip_ws rest) of
                  None \<Rightarrow> None
                | Some rest' \<Rightarrow>
                    map_option (\<lambda>(vs, r). (v # vs, r)) (scan_elements n (skip_ws rest')))))"
| "scan_members 0 s = None"
| "scan_members (Suc n) s =
     (case scan_key s of
        None \<Rightarrow> None
      | Some (k, r) \<Rightarrow>
          (case scan_value n r of
             None \<Rightarrow> None
           | Some (v, rest) \<Rightarrow>
               (case expect CHR ''}'' (skip_ws rest) of
                  Some rest' \<Rightarrow> Some ([(k, v)], rest')
                | None \<Rightarrow>
                    (case expect CHR '','' (skip_ws rest) of
                       None \<Rightarrow> None
                     | Some rest' \<Rightarrow>
                         map_option (\<lambda>(kvs, r). ((k, v) # kvs, r))
                           (scan_members n (skip_ws rest'))))))"

definition json_scan :: "string \<Rightarrow> json option" where
  \<comment> \<open>the whole text, its objects still lists of pairs\<close>
  "json_scan s =
     (case scan_value (Suc (length s)) (skip_ws s) of
        None \<Rightarrow> None
      | Some (v, rest) \<Rightarrow> if skip_ws rest = [] then Some v else None)"

fun json_wf :: "json \<Rightarrow> bool" where
  \<comment> \<open>no object has a key twice: \<^verbatim>\<open>_reject_duplicate_keys\<close> accepts, and a Python value always has it\<close>
  "json_wf (JList vs) = (\<forall>v \<in> set vs. json_wf v)"
| "json_wf (JObj kvs) = (distinct (map fst kvs) \<and> (\<forall>kv \<in> set kvs. json_wf (snd kv)))"
| "json_wf v = True"

definition read_canonical_json :: "string \<Rightarrow> json option" where
  "read_canonical_json raw =
     (case json_scan raw of
        None \<Rightarrow> None
      | Some v \<Rightarrow>
          if \<not> json_wf v then None
          else if canonical_json_bytes v \<noteq> raw then None else Some v)"

fun canonical_value :: "json \<Rightarrow> json" where
  \<comment> \<open>the same Python value with the keys of its objects in order\<close>
  "canonical_value (JList vs) = JList (map canonical_value vs)"
| "canonical_value (JObj kvs) =
     JObj (sort_key fst (map (\<lambda>kv. (fst kv, canonical_value (snd kv))) kvs))"
| "canonical_value v = v"

definition same_value :: "json \<Rightarrow> json \<Rightarrow> bool" where
  \<comment> \<open>Python's \<^verbatim>\<open>==\<close> of two loaded values: the order of keys does not count\<close>
  "same_value v w \<longleftrightarrow> canonical_value v = canonical_value w"


subsection \<open>Reading back a string\<close>

lemma of_char_less [simp]: "(of_char c :: nat) < 256"
  by simp

lemma hex_value_digit: "n < 16 \<Longrightarrow> hex_value (hex_digit n) = n \<and> is_hex (hex_digit n)"
  by (auto simp: hex_value_def hex_digit_def is_hex_def is_lower_hex_def is_digit_def of_char_of Let_def)

lemma scan_escaped: "scan_string (escape_char c @ cs) = cons_first c (scan_string cs)"
proof -
  let ?n = "of_char c :: nat"
  have c: "c = char_of ?n" by simp
  consider "?n \<in> {34, 92, 10, 13, 9, 12, 8}" | "?n \<notin> {34, 92, 10, 13, 9, 12, 8}" "32 \<le> ?n \<and> ?n \<le> 126"
    | "?n \<notin> {34, 92, 10, 13, 9, 12, 8}" "\<not> (32 \<le> ?n \<and> ?n \<le> 126)" by blast
  then show ?thesis
  proof cases
    case 1
    then have "?n = of_char (CHR 0x22) \<or> ?n = of_char (CHR 0x5C) \<or> ?n = of_char (CHR 0x0A)
        \<or> ?n = of_char (CHR 0x0D) \<or> ?n = of_char (CHR 0x09) \<or> ?n = of_char (CHR 0x0C)
        \<or> ?n = of_char (CHR 0x08)" by simp
    then have "c \<in> {CHR 0x22, CHR 0x5C, CHR 0x0A, CHR 0x0D, CHR 0x09, CHR 0x0C, CHR 0x08}"
      by (simp only: of_char_eq_iff insert_iff empty_iff simp_thms)
    then show ?thesis by (auto simp: escape_char_def simple_escape_def)
  next
    case 2
    then have "c \<noteq> CHR 0x22" "c \<noteq> CHR 0x5C" by auto
    with 2 show ?thesis by (simp add: escape_char_def)
  next
    case 3
    have "?n div 16 < 16" "?n mod 16 < 16" by (simp_all add: less_mult_imp_div_less)
    then have h: "hex_value (hex_digit (?n div 16)) = ?n div 16"
        "hex_value (hex_digit (?n mod 16)) = ?n mod 16"
        "is_hex (hex_digit (?n div 16))" "is_hex (hex_digit (?n mod 16))"
      using hex_value_digit by blast+
    have "escape_char c =
        [CHR 0x5C, CHR ''u'', CHR ''0'', CHR ''0'', hex_digit (?n div 16), hex_digit (?n mod 16)]"
      using 3 by (auto simp: escape_char_def Let_def)
    moreover have "char_of (16 * (?n div 16) + ?n mod 16) = c" by simp
    ultimately show ?thesis using h by simp
  qed
qed

lemma scan_string_dump:
  "scan_string (concat (map escape_char s) @ CHR 0x22 # rest) = Some (s, rest)"
  by (induction s) (simp_all add: scan_escaped cons_first_def)

lemma scan_key_dump:
  "scan_key (dump_string k @ CHR '':'' # t) = Some (k, skip_ws t)"
  by (simp add: scan_key_def dump_string_def scan_string_dump expect_def skip_ws_def json_space_def)

subsection \<open>Reading back a number\<close>

definition value_end :: "string \<Rightarrow> bool" where
  \<comment> \<open>what may follow a value: nothing, a comma or a closing bracket\<close>
  "value_end t \<longleftrightarrow> t = [] \<or> hd t \<in> {CHR '','', CHR '']'', CHR ''}''}"

lemma value_end_not_digit: "value_end t \<Longrightarrow> takeWhile is_digit t = [] \<and> \<not> float_tail t"
  by (cases t) (auto simp: value_end_def is_digit_def float_tail_def split: list.splits)

lemma digit_of_nat: "n < 10 \<Longrightarrow> is_digit (hex_digit n) \<and> hex_value (hex_digit n) = n"
  by (auto simp: hex_digit_def is_digit_def hex_value_def of_char_of Let_def)

lemma show_nat_digits: "list_all is_digit (show_nat n)"
proof (induction n rule: show_nat.induct)
  case (1 n)
  then show ?case
    by (subst show_nat.simps) (auto simp: digit_of_nat)
qed

lemma digits_value_snoc: "digits_value (ds @ [d]) = 10 * digits_value ds + hex_value d"
  by (simp add: digits_value_def)

lemma show_nat_value: "digits_value (show_nat n) = n"
proof (induction n rule: show_nat.induct)
  case (1 n)
  then show ?case
    by (subst show_nat.simps)
      (auto simp: digits_value_snoc digit_of_nat, simp add: digits_value_def digit_of_nat)
qed

lemma show_nat_nonempty [simp]: "show_nat n \<noteq> []"
  by (subst show_nat.simps) simp

lemma hex_digit_zero: "n < 16 \<Longrightarrow> hex_digit n = CHR ''0'' \<longleftrightarrow> n = 0"
proof
  assume "hex_digit n = CHR ''0''" and "n < 16"
  then show "n = 0" using hex_value_digit [of n] by (simp add: hex_value_def)
next
  assume "n = 0"
  then have "(of_char (hex_digit n) :: nat) = of_char (CHR ''0'')" by (simp add: hex_digit_def)
  then show "hex_digit n = CHR ''0''" by (simp only: of_char_eq_iff)
qed

lemma show_nat_head: "hd (show_nat n) = CHR ''0'' \<longleftrightarrow> n = 0"
proof (induction n rule: show_nat.induct)
  case (1 n)
  show ?case
  proof (cases "n < 10")
    case True
    then show ?thesis by (subst show_nat.simps) (simp add: hex_digit_zero)
  next
    case False
    with 1 show ?thesis by (subst show_nat.simps) (simp add: hd_append)
  qed
qed

lemma scan_nat_show: "value_end t \<Longrightarrow> scan_nat (show_nat n @ t) = Some (n, t)"
proof -
  assume t: "value_end t"
  obtain c cs where c: "show_nat n = c # cs" by (cases "show_nat n") auto
  have dig: "is_digit c" using show_nat_digits [of n] c by simp
  have whole: "takeWhile is_digit (show_nat n @ t) = show_nat n"
    using show_nat_digits [of n] value_end_not_digit [OF t]
    by (simp add: takeWhile_append2 list_all_iff)
  have zero: "show_nat n = [c]" if "c = CHR ''0''"
  proof -
    have "n = 0" using show_nat_head [of n] c that by simp
    then show ?thesis using c by (simp add: show_nat.simps [of 0])
  qed
  show ?thesis
  proof (cases "c = CHR ''0''")
    case True
    with zero c have "show_nat n = [c]" "cs = []" by auto
    then show ?thesis
      using dig t value_end_not_digit [OF t] True show_nat_value [of n]
      by (simp add: scan_nat_def)
  next
    case False
    have "takeWhile is_digit (c # cs @ t) = show_nat n" using whole c by simp
    with False dig t value_end_not_digit [OF t] show_nat_value [of n] c show ?thesis
      by (simp add: scan_nat_def del: takeWhile.simps)
  qed
qed

lemma scan_int_show: "value_end t \<Longrightarrow> scan_int (show_int i @ t) = Some (i, t)"
proof -
  assume t: "value_end t"
  obtain c cs where c: "show_nat (nat i) = c # cs" by (cases "show_nat (nat i)") auto
  then have "is_digit c" using show_nat_digits [of "nat i"] by simp
  then have "c \<noteq> CHR ''-''" by (auto simp: is_digit_def)
  then have "scan_int (show_nat (nat i) @ t) = Some (int (nat i), t)"
    using scan_nat_show [OF t, of "nat i"] by (simp add: scan_int_def c)
  with scan_nat_show [OF t] show ?thesis
    by (simp add: show_int_def) (simp add: scan_int_def)
qed


subsection \<open>Reading back a value\<close>

lemma insort_key_map: "insort_key f (g x) (map g xs) = map g (insort_key (\<lambda>y. f (g y)) x xs)"
  by (induction xs) simp_all

lemma sort_key_map: "sort_key f (map g xs) = map g (sort_key (\<lambda>y. f (g y)) xs)"
  by (induction xs) (simp_all add: insort_key_map)

definition member_text :: "string \<times> json \<Rightarrow> string" where
  "member_text kv = dump_member (fst kv, canonical_json_bytes (snd kv))"

lemma canonical_object:
  "canonical_json_bytes (JObj kvs) =
     CHR ''{'' # join_on CHR '','' (map member_text (sort_key fst kvs)) @ [CHR ''}'']"
  by (simp add: sort_key_map member_text_def [abs_def] comp_def map_prod_def split_def)

lemma canonical_value_object:
  "canonical_value (JObj kvs) =
     JObj (map (\<lambda>kv. (fst kv, canonical_value (snd kv))) (sort_key fst kvs))"
  by (simp add: sort_key_map)

declare canonical_json_bytes.simps(6) [simp del] canonical_value.simps(2) [simp del]

lemma show_nat_start: "\<exists>c cs. show_nat n = c # cs \<and> is_digit c"
  using show_nat_digits [of n] by (cases "show_nat n") auto

lemma is_digit_not: "is_digit c \<Longrightarrow> \<not> json_space c \<and> c \<notin> set ''nt f[]{},:''
    \<and> c \<noteq> CHR 0x22"
  by (auto simp: is_digit_def json_space_def)

lemma canonical_start:
  "\<exists>c cs. canonical_json_bytes v = c # cs \<and> \<not> json_space c \<and> c \<notin> set '']},:''"
proof (cases v)
  case (JInt i)
  obtain c cs where "show_nat (nat i) = c # cs" "is_digit c" using show_nat_start by blast
  with JInt is_digit_not [of c] show ?thesis
    by (cases "i < 0") (auto simp: show_int_def json_space_def)
qed (auto simp: json_space_def dump_string_def canonical_object)

lemma skip_ws_canonical [simp]: "skip_ws (canonical_json_bytes v @ t) = canonical_json_bytes v @ t"
  using canonical_start [of v] by (auto simp: skip_ws_def)

lemma skip_ws_end [simp]:
  "skip_ws (CHR '','' # t) = CHR '','' # t" "skip_ws (CHR '']'' # t) = CHR '']'' # t"
  "skip_ws (CHR ''}'' # t) = CHR ''}'' # t" "skip_ws (CHR 0x22 # t) = CHR 0x22 # t"
  by (simp_all add: skip_ws_def json_space_def)

lemma expect_simps [simp]: "expect c (c # t) = Some t" "d \<noteq> c \<Longrightarrow> expect c (d # t) = None"
  by (simp_all add: expect_def)

lemma expect_not_close: "expect CHR '']'' (canonical_json_bytes v @ t) = None"
  using canonical_start [of v] by auto

definition reads_back :: "json \<Rightarrow> bool" where
  "reads_back v \<longleftrightarrow> (\<forall>n t. length (canonical_json_bytes v) \<le> n \<longrightarrow> value_end t \<longrightarrow>
     scan_value n (canonical_json_bytes v @ t) = Some (canonical_value v, t))"

lemma reads_backD:
  "reads_back v \<Longrightarrow> length (canonical_json_bytes v) \<le> n \<Longrightarrow> value_end t \<Longrightarrow>
     scan_value n (canonical_json_bytes v @ t) = Some (canonical_value v, t)"
  by (simp add: reads_back_def)

lemma value_end_simps [simp]:
  "value_end []" "value_end (CHR '','' # t)" "value_end (CHR '']'' # t)" "value_end (CHR ''}'' # t)"
  by (simp_all add: value_end_def)

lemma scan_elements_back:
  "\<lbrakk>\<And>v. v \<in> set vs \<Longrightarrow> reads_back v; vs \<noteq> [];
    length (join_on CHR '','' (map canonical_json_bytes vs)) < n\<rbrakk> \<Longrightarrow>
   scan_elements n (join_on CHR '','' (map canonical_json_bytes vs) @ CHR '']'' # t)
     = Some (map canonical_value vs, t)"
proof (induction vs arbitrary: n)
  case Nil
  then show ?case by simp
next
  case (Cons v vs)
  then obtain m where n: "n = Suc m" by (cases n) auto
  have v: "reads_back v" using Cons.prems(1) by simp
  show ?case
  proof (cases vs)
    case Nil
    with Cons.prems n reads_backD [OF v, of m "CHR '']'' # t"] show ?thesis by simp
  next
    case (Cons w ws)
    let ?rest = "join_on CHR '','' (map canonical_json_bytes vs) @ CHR '']'' # t"
    have body: "join_on CHR '','' (map canonical_json_bytes (v # vs)) @ CHR '']'' # t
        = canonical_json_bytes v @ CHR '','' # ?rest"
      by (simp add: Cons)
    have len: "length (canonical_json_bytes v) \<le> m"
        "length (join_on CHR '','' (map canonical_json_bytes vs)) < m"
      using Cons.prems(3) n by (simp_all add: \<open>vs = w # ws\<close>)
    have "scan_elements m ?rest = Some (map canonical_value vs, t)"
      using Cons.IH [of m] Cons.prems(1) len(2) by (simp add: \<open>vs = w # ws\<close>)
    moreover have "skip_ws ?rest = ?rest"
      by (cases ws) (simp_all add: \<open>vs = w # ws\<close>)
    ultimately show ?thesis
      unfolding body n using reads_backD [OF v len(1), of "CHR '','' # ?rest"] by simp
  qed
qed

lemma member_text_start: "\<exists>cs. member_text kv = CHR 0x22 # cs"
  by (simp add: member_text_def dump_member_def dump_string_def)

lemma scan_key_member:
  "scan_key (member_text kv @ t) = Some (fst kv, canonical_json_bytes (snd kv) @ t)"
  using scan_key_dump [of "fst kv" "canonical_json_bytes (snd kv) @ t"]
  by (simp add: member_text_def dump_member_def)

lemma member_text_length: "length (canonical_json_bytes (snd kv)) < length (member_text kv)"
  by (simp add: member_text_def dump_member_def)

lemma scan_members_back:
  "\<lbrakk>\<And>kv. kv \<in> set kvs \<Longrightarrow> reads_back (snd kv); kvs \<noteq> [];
    length (join_on CHR '','' (map member_text kvs)) < n\<rbrakk> \<Longrightarrow>
   scan_members n (join_on CHR '','' (map member_text kvs) @ CHR ''}'' # t)
     = Some (map (\<lambda>kv. (fst kv, canonical_value (snd kv))) kvs, t)"
proof (induction kvs arbitrary: n)
  case Nil
  then show ?case by simp
next
  case (Cons kv kvs)
  then obtain m where n: "n = Suc m" by (cases n) auto
  have v: "reads_back (snd kv)" using Cons.prems(1) by simp
  note len0 = member_text_length [of kv]
  show ?case
  proof (cases kvs)
    case Nil
    with Cons.prems(3) len0 n reads_backD [OF v, of m "CHR ''}'' # t"] show ?thesis
      by (simp add: scan_key_member)
  next
    case (Cons w ws)
    let ?rest = "join_on CHR '','' (map member_text kvs) @ CHR ''}'' # t"
    have body: "join_on CHR '','' (map member_text (kv # kvs)) @ CHR ''}'' # t
        = member_text kv @ CHR '','' # ?rest"
      by (simp add: Cons)
    have len: "length (canonical_json_bytes (snd kv)) \<le> m"
        "length (join_on CHR '','' (map member_text kvs)) < m"
      using Cons.prems(3) len0 n by (simp_all add: \<open>kvs = w # ws\<close>)
    have "scan_members m ?rest
        = Some (map (\<lambda>kv. (fst kv, canonical_value (snd kv))) kvs, t)"
      using Cons.IH [of m] Cons.prems(1) len(2) by (simp add: \<open>kvs = w # ws\<close>)
    moreover have "skip_ws ?rest = ?rest"
      using member_text_start [of w] by (cases ws) (auto simp: \<open>kvs = w # ws\<close>)
    ultimately show ?thesis
      unfolding body n using reads_backD [OF v len(1), of "CHR '','' # ?rest"]
      by (simp add: scan_key_member)
  qed
qed

lemma canonical_reads_back: "reads_back v"
proof (induction v rule: canonical_value.induct [case_names Array Object Null Truth Int Text])
  case (Array vs)
  show ?case
    unfolding reads_back_def
  proof (intro allI impI)
    fix n t
    assume n: "length (canonical_json_bytes (JList vs)) \<le> n" and "value_end t"
    then obtain m where m: "n = Suc m" by (cases n) auto
    show "scan_value n (canonical_json_bytes (JList vs) @ t) = Some (canonical_value (JList vs), t)"
    proof (cases vs)
      case Nil
      with m show ?thesis by simp
    next
      case (Cons w ws)
      let ?body = "join_on CHR '','' (map canonical_json_bytes vs)"
      have "scan_elements m (?body @ CHR '']'' # t) = Some (map canonical_value vs, t)"
        by (rule scan_elements_back) (use Array n m Cons in auto)
      moreover have "skip_ws (?body @ CHR '']'' # t) = ?body @ CHR '']'' # t"
          "expect CHR '']'' (?body @ CHR '']'' # t) = None"
        using expect_not_close [of w] by (cases ws; simp add: Cons)+
      ultimately show ?thesis by (simp add: m)
    qed
  qed
next
  case (Object kvs)
  show ?case
    unfolding reads_back_def
  proof (intro allI impI)
    fix n t
    assume n: "length (canonical_json_bytes (JObj kvs)) \<le> n" and "value_end t"
    then obtain m where m: "n = Suc m" by (cases n) (auto simp: canonical_object)
    show "scan_value n (canonical_json_bytes (JObj kvs) @ t) = Some (canonical_value (JObj kvs), t)"
    proof (cases "sort_key fst kvs")
      case Nil
      with m show ?thesis by (simp add: canonical_object canonical_value_object)
    next
      case (Cons w ws)
      let ?body = "join_on CHR '','' (map member_text (sort_key fst kvs))"
      have members: "reads_back (snd kv)" if "kv \<in> set (sort_key fst kvs)" for kv
        using Object that by simp
      have "scan_members m (?body @ CHR ''}'' # t)
          = Some (map (\<lambda>kv. (fst kv, canonical_value (snd kv))) (sort_key fst kvs), t)"
        by (rule scan_members_back) (use members n m Cons in \<open>auto simp: canonical_object\<close>)
      moreover have "skip_ws (?body @ CHR ''}'' # t) = ?body @ CHR ''}'' # t"
          "expect CHR ''}'' (?body @ CHR ''}'' # t) = None"
        using member_text_start [of w] by (cases ws; auto simp: Cons)+
      ultimately show ?thesis by (simp add: m canonical_object canonical_value_object)
    qed
  qed
next
  case Null
  show ?case
    by (auto simp: reads_back_def scan_literal_def starts_with_def Suc_le_eq gr0_conv_Suc
        dest!: less_imp_Suc_add)
next
  case (Truth b)
  show ?case
    by (auto simp: reads_back_def scan_literal_def starts_with_def
        dest!: Suc_le_D)
next
  case (Int i)
  obtain c cs where c: "show_int i = c # cs" "is_digit c \<or> c = CHR ''-''"
    using show_nat_start [of "nat i"] by (cases "i < 0") (auto simp: show_int_def)
  then have "c \<notin> set ''ntf[{'' \<and> c \<noteq> CHR 0x22" by (auto simp: is_digit_def)
  then have "scan_literal (show_int i @ t) = Some (JInt i, t)" if "value_end t" for t
    using scan_int_show [OF that, of i] by (simp add: c(1) scan_literal_def starts_with_def)
  with \<open>c \<notin> _ \<and> _\<close> show ?case
    by (auto simp: reads_back_def c(1) dest!: Suc_le_D)
next
  case (Text s)
  show ?case
    by (auto simp: reads_back_def dump_string_def scan_string_dump dest!: Suc_le_D)
qed

lemma json_scan_canonical: "json_scan (canonical_json_bytes v) = Some (canonical_value v)"
  using reads_backD [OF canonical_reads_back, of v "Suc (length (canonical_json_bytes v))" "[]"]
    skip_ws_canonical [of v "[]"]
  by (simp add: json_scan_def del: scan_value.simps) (simp add: skip_ws_def)

lemma sort_key_idem [simp]: "sort_key f (sort_key f xs) = sort_key f xs"
  by (simp add: sort_key_id_if_sorted)

lemma canonical_value_idem [simp]: "canonical_value (canonical_value v) = canonical_value v"
proof (induction v rule: canonical_value.induct)
  case (2 kvs)
  have "sort_key fst (map (\<lambda>kv. (fst kv, canonical_value (snd kv))) (sort_key fst kvs))
      = map (\<lambda>kv. (fst kv, canonical_value (snd kv))) (sort_key fst kvs)"
    by (simp add: sort_key_map)
  with 2 show ?case
    by (simp add: canonical_value_object)
qed simp_all

lemma canonical_text_value [simp]:
  "canonical_json_bytes (canonical_value v) = canonical_json_bytes v"
proof (induction v rule: canonical_value.induct)
  case (2 kvs)
  then have "map (\<lambda>kv. member_text (fst kv, canonical_value (snd kv))) (sort_key fst kvs)
      = map member_text (sort_key fst kvs)"
    by (intro map_cong) (simp_all add: member_text_def)
  then show ?case
    by (simp add: canonical_object canonical_value_object sort_key_map comp_def del: map_eq_conv)
qed (simp_all cong: map_cong)

lemma json_wf_canonical: "json_wf v \<Longrightarrow> json_wf (canonical_value v)"
proof (induction v rule: canonical_value.induct)
  case (2 kvs)
  then show ?case
    by (auto simp: canonical_value_object distinct_map comp_def)
qed auto

lemma read_canonical_write:
  "json_wf v \<Longrightarrow> read_canonical_json (canonical_json_bytes v) = Some (canonical_value v)"
  by (simp add: read_canonical_json_def json_scan_canonical json_wf_canonical)

lemma read_canonical_Some:
  assumes "read_canonical_json raw = Some v"
  shows "canonical_json_bytes v = raw \<and> json_wf v \<and> canonical_value v = v"
proof -
  from assms have v: "canonical_json_bytes v = raw" "json_wf v"
    by (auto simp: read_canonical_json_def split: option.splits if_splits)
  with assms read_canonical_write [OF v(2)] show ?thesis by simp
qed

lemma canonical_injective:
  "canonical_json_bytes v = canonical_json_bytes w \<longleftrightarrow> same_value v w"
  unfolding same_value_def
  by (metis canonical_text_value json_scan_canonical option.inject)

lemma hash_json_value [simp]: "hash_json (canonical_value v) = hash_json v"
  by (simp add: hash_json_def)

end
