(* ===== verification/Durable_Files.thy ===== *)
theory Durable_Files
  imports Json_Reader Contract_Text
begin

section \<open>Durable files\<close>

text \<open>
  The file primitives of \<^verbatim>\<open>src/auto_code/state.py\<close>: the metadata check that refuses
  symbolic links, \<^verbatim>\<open>_write_new_json\<close> (an immutable file is published once),
  \<^verbatim>\<open>_atomic_replace_json\<close> (a pointer file is replaced as a whole) and
  \<^verbatim>\<open>_read_canonical_json\<close>.  A file tree is a map from paths to what is there; a
  regular file is its bytes.  Each operation is one step: the source writes to a
  temporary file and publishes it with one link or rename.  \<open>immutable_files\<close> is the
  contract the writers and readers of immutable files rely on.
\<close>

datatype entry = Regular string | Directory | Symlink

type_synonym file_tree = "string \<Rightarrow> entry option"

datatype store_error =
    Bad_Argument
  | State_Not_Found
  | State_Corrupt
  | Cas_Conflict
  | Invalid_Transition

definition path_lstat :: "file_tree \<Rightarrow> string \<Rightarrow> store_error + entry option" where
  "path_lstat fs path =
     (case fs path of Some Symlink \<Rightarrow> Inl State_Corrupt | found \<Rightarrow> Inr found)"

definition write_new_json :: "file_tree \<Rightarrow> string \<Rightarrow> json \<Rightarrow> store_error + bool \<times> file_tree" where
  \<comment> \<open>the flag tells whether the file was created\<close>
  "write_new_json fs path v =
     bind_result (path_lstat fs path) (\<lambda>found.
       case found of
         Some _ \<Rightarrow> Inr (False, fs)
       | None \<Rightarrow> Inr (True, fs(path \<mapsto> Regular (canonical_json_bytes v))))"

definition atomic_replace_json :: "file_tree \<Rightarrow> string \<Rightarrow> json \<Rightarrow> store_error + file_tree" where
  "atomic_replace_json fs path v =
     bind_result (path_lstat fs path) (\<lambda>found.
       case found of
         Some Directory \<Rightarrow> Inl State_Corrupt
       | _ \<Rightarrow> Inr (fs(path \<mapsto> Regular (canonical_json_bytes v))))"

definition read_json_file :: "file_tree \<Rightarrow> string \<Rightarrow> store_error + json" where
  \<comment> \<open>\<^verbatim>\<open>_read_canonical_json\<close>\<close>
  "read_json_file fs path =
     bind_result (path_lstat fs path) (\<lambda>found.
       case found of
         Some (Regular raw) \<Rightarrow>
           (case read_canonical_json raw of None \<Rightarrow> Inl State_Corrupt | Some v \<Rightarrow> Inr v)
       | _ \<Rightarrow> Inl State_Corrupt)"

fun persisted_ok :: "json \<Rightarrow> bool" where
  \<comment> \<open>\<^verbatim>\<open>_validate_persisted_value\<close>\<close>
  "persisted_ok (JStr s) = validate_persisted_text s"
| "persisted_ok (JObj kvs) = (\<forall>kv \<in> set kvs. validate_persisted_text (fst kv) \<and> persisted_ok (snd kv))"
| "persisted_ok (JList vs) = (\<forall>v \<in> set vs. persisted_ok v)"
| "persisted_ok v = True"

subsection \<open>The contract of immutable files\<close>

locale immutable_files =
  fixes publish :: "'t \<Rightarrow> 'k \<Rightarrow> 'v \<Rightarrow> 'e + bool \<times> 't"
    and fetch :: "'t \<Rightarrow> 'k \<Rightarrow> 'e + 'v"
    and writable :: "'v \<Rightarrow> bool"
    and norm :: "'v \<Rightarrow> 'v"
  assumes fetch_published:
      "publish t k v = Inr (True, t') \<Longrightarrow> writable v \<Longrightarrow> fetch t' k = Inr (norm v)"
    and publish_frame: "publish t k v = Inr (b, t') \<Longrightarrow> k' \<noteq> k \<Longrightarrow> fetch t' k' = fetch t k'"
    and publish_once: "fetch t k = Inr w \<Longrightarrow> publish t k v = Inr (False, t)"
begin

definition keeps :: "'t \<Rightarrow> 't \<Rightarrow> bool" where
  \<comment> \<open>everything that could be read still reads the same\<close>
  "keeps t t' \<longleftrightarrow> (\<forall>k v. fetch t k = Inr v \<longrightarrow> fetch t' k = Inr v)"

lemma keeps_refl [simp]: "keeps t t"
  by (simp add: keeps_def)

lemma keeps_trans: "keeps t u \<Longrightarrow> keeps u v \<Longrightarrow> keeps t v"
  by (simp add: keeps_def)

lemma publish_keeps: "publish t k v = Inr (b, t') \<Longrightarrow> keeps t t'"
  unfolding keeps_def by (metis publish_frame publish_once prod.inject sum.inject(2))

fun publish_all :: "'t \<Rightarrow> ('k \<times> 'v) list \<Rightarrow> 'e + 't" where
  "publish_all t [] = Inr t"
| "publish_all t (kv # kvs) =
     bind_result (publish t (fst kv) (snd kv)) (\<lambda>r. publish_all (snd r) kvs)"

lemma publish_all_keeps: "publish_all t kvs = Inr t' \<Longrightarrow> keeps t t'"
  by (induction kvs arbitrary: t)
    (auto simp: bind_result_Inr intro: keeps_trans publish_keeps)

lemma published_stays:
  "\<lbrakk>publish t k v = Inr (True, u); writable v; publish_all u kvs = Inr t'\<rbrakk> \<Longrightarrow>
   fetch t' k = Inr (norm v)"
  using fetch_published publish_all_keeps unfolding keeps_def by blast

end

lemma path_lstat_Inr: "path_lstat fs path = Inr x \<longleftrightarrow> fs path = x \<and> x \<noteq> Some Symlink"
  by (auto simp: path_lstat_def split: option.splits entry.splits)

lemma write_new_json_Inr:
  "write_new_json fs path v = Inr (b, fs') \<longleftrightarrow>
     (if b then fs path = None \<and> fs' = fs(path \<mapsto> Regular (canonical_json_bytes v))
      else fs' = fs \<and> fs path \<noteq> None \<and> fs path \<noteq> Some Symlink)"
  by (auto simp: write_new_json_def bind_result_Inr path_lstat_Inr split: option.splits)

lemma read_json_file_Inr:
  "read_json_file fs path = Inr v \<longleftrightarrow>
     (\<exists>raw. fs path = Some (Regular raw) \<and> read_canonical_json raw = Some v)"
  by (auto simp: read_json_file_def bind_result_Inr path_lstat_Inr
      split: option.splits entry.splits)

lemma read_json_file_cong: "fs' path = fs path \<Longrightarrow> read_json_file fs' path = read_json_file fs path"
  by (simp add: read_json_file_def path_lstat_def)

lemma atomic_replace_json_Inr:
  "atomic_replace_json fs path v = Inr fs' \<longleftrightarrow>
     fs' = fs(path \<mapsto> Regular (canonical_json_bytes v)) \<and> fs path \<notin> {Some Directory, Some Symlink}"
  by (auto simp: atomic_replace_json_def bind_result_Inr path_lstat_Inr
      split: option.splits entry.splits)

interpretation durable: immutable_files write_new_json read_json_file json_wf canonical_value
proof
  show "write_new_json t k v = Inr (True, t') \<Longrightarrow> json_wf v \<Longrightarrow>
      read_json_file t' k = Inr (canonical_value v)" for t k v t'
    by (simp add: write_new_json_Inr read_json_file_Inr read_canonical_write)
  show "write_new_json t k v = Inr (b, t') \<Longrightarrow> k' \<noteq> k \<Longrightarrow> read_json_file t' k' = read_json_file t k'"
    for t k v b t' k'
    by (rule read_json_file_cong) (simp add: write_new_json_Inr split: if_splits)
  show "read_json_file t k = Inr w \<Longrightarrow> write_new_json t k v = Inr (False, t)" for t k w v
    by (auto simp: write_new_json_Inr read_json_file_Inr)
qed

end
