(* ===== verification/Checkpoints.thy ===== *)
theory Checkpoints
  imports Router_Laws Durable_Files "HOL-Library.Monad_Syntax"
begin

section \<open>The checkpoint authority\<close>

text \<open>
  \<^verbatim>\<open>src/auto_code/checkpoint.py\<close>: checkpoints are recorded in a registry directory of
  immutable files before they are handed out, and one is reused only when its record is
  there, is intact and repeats it.  The registry is a file tree, a checkpoint is written
  and read as the JSON of its pydantic model.  The identifiers drawn by
  \<^verbatim>\<open>uuid.uuid4().hex\<close> are an argument of \<open>issue\<close>.
\<close>

datatype checkpoint_error = Registry_Corrupt | Checkpoint_Invalid | Checkpoint_Unsafe
  | Registry_Unwritable

subsection \<open>Checkpoints as JSON\<close>

definition text_field :: "(string \<times> json) list \<Rightarrow> string \<Rightarrow> string option" where
  "text_field kvs k = (case map_of kvs k of Some (JStr s) \<Rightarrow> Some s | _ \<Rightarrow> None)"

definition optional_text :: "(string \<times> json) list \<Rightarrow> string \<Rightarrow> string option option" where
  "optional_text kvs k =
     (case map_of kvs k of
        None \<Rightarrow> Some None | Some JNull \<Rightarrow> Some None | Some (JStr s) \<Rightarrow> Some (Some s) | _ \<Rightarrow> None)"

definition known_fields :: "(string \<times> json) list \<Rightarrow> string list \<Rightarrow> bool" where
  \<comment> \<open>\<^verbatim>\<open>extra="forbid"\<close>\<close>
  "known_fields kvs names \<longleftrightarrow> set (map fst kvs) \<subseteq> set names"

definition evidence_json :: "evidence_ref \<Rightarrow> json" where
  "evidence_json e =
     JObj [(''relative_path'', JStr (ev_relative_path e)), (''sha256'', JStr (ev_sha256 e)),
           (''media_type'', JStr (ev_media_type e)), (''creator'', JStr (ev_creator e))]"

definition evidence_of_json :: "json \<Rightarrow> evidence_ref option" where
  "evidence_of_json v =
     (case v of
        JObj kvs \<Rightarrow>
          (if \<not> known_fields kvs [''relative_path'', ''sha256'', ''media_type'', ''creator''] then None
           else do {
             path \<leftarrow> text_field kvs ''relative_path'';
             digest \<leftarrow> text_field kvs ''sha256'';
             media \<leftarrow> text_field kvs ''media_type'';
             creator \<leftarrow> text_field kvs ''creator'';
             let e = \<lparr>ev_relative_path = path, ev_sha256 = digest, ev_media_type = media,
                      ev_creator = creator\<rparr>;
             if evidence_ref_valid e then Some e else None
           })
      | _ \<Rightarrow> None)"

definition stage_of_value :: "string \<Rightarrow> stage option" where
  "stage_of_value s = find (\<lambda>st. stage_value st = s) all_stages"

definition digest_map_json :: "digest_map \<Rightarrow> json" where
  "digest_map_json m = JObj (map (\<lambda>(k, h). (k, JStr h)) m)"

definition digest_map_of_json :: "json \<Rightarrow> digest_map option" where
  "digest_map_of_json v =
     (case v of
        JObj kvs \<Rightarrow>
          map_option (sort_key fst)
            (those (map (\<lambda>kv. case snd kv of JStr h \<Rightarrow> Some (fst kv, h) | _ \<Rightarrow> None) kvs))
      | _ \<Rightarrow> None)"

definition checkpoint_json :: "checkpoint \<Rightarrow> json" where
  "checkpoint_json c =
     JObj [(''checkpoint_id'', json_opt (ck_id c)),
           (''stage'', JStr (stage_value (ck_stage c))),
           (''contract_hash'', JStr (ck_contract_hash c)),
           (''input_hashes'', digest_map_json (ck_input_hashes c)),
           (''output_manifest_hash'', JStr (ck_output_manifest_hash c)),
           (''validator'', JStr (ck_validator c)),
           (''validator_version'', JStr (ck_validator_version c)),
           (''validation_receipt_hash'', JStr (ck_validation_receipt_hash c)),
           (''evidence'', JList (map evidence_json (ck_evidence c)))]"

definition evidence_list_of :: "json option \<Rightarrow> evidence_ref list option" where
  "evidence_list_of v =
     (case v of
        None \<Rightarrow> Some []
      | Some (JList vs) \<Rightarrow> those (map evidence_of_json vs)
      | _ \<Rightarrow> None)"

definition checkpoint_of_json :: "json \<Rightarrow> checkpoint option" where
  \<comment> \<open>\<^verbatim>\<open>Checkpoint.model_validate\<close> of a loaded value\<close>
  "checkpoint_of_json v =
     (case v of
        JObj kvs \<Rightarrow>
          (if \<not> known_fields kvs
                 [''checkpoint_id'', ''stage'', ''contract_hash'', ''input_hashes'',
                  ''output_manifest_hash'', ''validator'', ''validator_version'',
                  ''validation_receipt_hash'', ''evidence''] then None
           else do {
             cid \<leftarrow> optional_text kvs ''checkpoint_id'';
             st \<leftarrow> Option.bind (text_field kvs ''stage'') stage_of_value;
             contract \<leftarrow> text_field kvs ''contract_hash'';
             inputs \<leftarrow> Option.bind (map_of kvs ''input_hashes'') digest_map_of_json;
             outputs \<leftarrow> text_field kvs ''output_manifest_hash'';
             validator \<leftarrow> text_field kvs ''validator'';
             version \<leftarrow> text_field kvs ''validator_version'';
             receipt \<leftarrow> text_field kvs ''validation_receipt_hash'';
             evidence \<leftarrow> evidence_list_of (map_of kvs ''evidence'');
             let c = \<lparr>ck_id = cid, ck_stage = st, ck_contract_hash = contract,
                      ck_input_hashes = inputs, ck_output_manifest_hash = outputs,
                      ck_validator = validator, ck_validator_version = version,
                      ck_validation_receipt_hash = receipt, ck_evidence = evidence\<rparr>;
             if checkpoint_valid c then Some c else None
           })
      | _ \<Rightarrow> None)"

subsection \<open>Issuing and matching\<close>

definition checkpoint_payload :: "checkpoint \<Rightarrow> checkpoint_error + json" where
  \<comment> \<open>\<^verbatim>\<open>_payload\<close>\<close>
  "checkpoint_payload c =
     (let payload = checkpoint_json c in
      if \<not> persisted_ok payload then Inl Checkpoint_Unsafe
      else case checkpoint_of_json payload of
             None \<Rightarrow> Inl Checkpoint_Invalid
           | Some d \<Rightarrow> Inr (checkpoint_json d))"

definition registry_path :: "string \<Rightarrow> string" where
  "registry_path cid = ''checkpoint-authority/'' @ cid @ ''.json''"

definition registry_record :: "string \<Rightarrow> json \<Rightarrow> json" where
  "registry_record cid payload =
     JObj [(''checkpoint_id'', JStr cid), (''payload_hash'', JStr (hash_json payload)),
           (''checkpoint'', payload)]"

fun issue_with :: "file_tree \<Rightarrow> checkpoint \<Rightarrow> string list \<Rightarrow> checkpoint_error + checkpoint \<times> file_tree" where
  \<comment> \<open>one turn of the loop of \<^verbatim>\<open>issue\<close> per identifier drawn\<close>
  "issue_with fs c [] = Inl Registry_Corrupt"
| "issue_with fs c (cid # cids) =
     (let d = c\<lparr>ck_id := Some cid\<rparr> in
      if \<not> checkpoint_valid d then Inl Checkpoint_Invalid
      else bind_result (checkpoint_payload d) (\<lambda>payload.
        case write_new_json fs (registry_path cid) (registry_record cid payload) of
          Inl _ \<Rightarrow> Inl Registry_Unwritable
        | Inr (True, fs') \<Rightarrow> Inr (d, fs')
        | Inr (False, _) \<Rightarrow> issue_with fs c cids))"

definition issue :: "file_tree \<Rightarrow> checkpoint \<Rightarrow> string \<times> string \<times> string \<Rightarrow> checkpoint_error + checkpoint \<times> file_tree" where
  "issue fs c draws = (case draws of (a, b, d) \<Rightarrow> issue_with fs c [a, b, d])"

definition checkpoint_matches ::
  "file_tree \<Rightarrow> checkpoint \<Rightarrow> stage \<Rightarrow> string \<Rightarrow> digest_map \<Rightarrow> checkpoint_error + bool" where
  "checkpoint_matches fs c st contract inputs =
     (case ck_id c of
        None \<Rightarrow> Inr False
      | Some cid \<Rightarrow>
          if \<not> checkpoint_id_pattern cid then Inr False
          else case path_lstat fs (registry_path cid) of
            Inl _ \<Rightarrow> Inl Registry_Corrupt
          | Inr None \<Rightarrow> Inr False
          | Inr (Some _) \<Rightarrow>
              (case read_json_file fs (registry_path cid) of
                 Inl _ \<Rightarrow> Inl Registry_Corrupt
               | Inr record \<Rightarrow>
                   (case checkpoint_payload c of
                      Inl _ \<Rightarrow> Inl Registry_Corrupt
                    | Inr payload \<Rightarrow>
                        (case record of
                           JObj kvs \<Rightarrow>
                             (case map_of kvs ''checkpoint'' of
                                Some (JObj persisted) \<Rightarrow>
                                  (case checkpoint_of_json (JObj persisted) of
                                     None \<Rightarrow> Inl Registry_Corrupt
                                   | Some d \<Rightarrow>
                                       (case checkpoint_payload d of
                                          Inl _ \<Rightarrow> Inl Registry_Corrupt
                                        | Inr persisted_payload \<Rightarrow>
                                            Inr (set (map fst kvs)
                                                   = {''checkpoint_id'', ''payload_hash'', ''checkpoint''}
                                                 \<and> map_of kvs ''checkpoint_id'' = Some (JStr cid)
                                                 \<and> map_of kvs ''payload_hash'' = Some (JStr (hash_json payload))
                                                 \<and> persisted_payload = payload
                                                 \<and> ck_stage c = st
                                                 \<and> ck_contract_hash c = contract
                                                 \<and> ck_input_hashes c = inputs)))
                              | _ \<Rightarrow> Inr False)
                         | _ \<Rightarrow> Inr False))))"

definition is_reusable :: "file_tree \<Rightarrow> checkpoint_error reuse_check" where
  "is_reusable fs c st contract inputs = checkpoint_matches fs c st contract inputs"

subsection \<open>Reading a written checkpoint\<close>

lemma map_of_sort_key:
  assumes "distinct (map fst xs)"
  shows "map_of (sort_key fst xs) = map_of xs"
proof -
  have "distinct (map fst (sort_key fst xs))" using assms by (simp add: distinct_map)
  then show ?thesis using assms by (metis map_of_inject_set set_sort)
qed

lemma map_of_canonical:
  assumes "distinct (map fst kvs)" and "canonical_value (JObj kvs) = JObj kvs'"
  shows "map_of kvs' k = map_option canonical_value (map_of kvs k)"
proof -
  let ?xs = "map (\<lambda>kv. (fst kv, canonical_value (snd kv))) kvs"
  have "distinct (map fst ?xs)" using assms(1) by (simp add: comp_def)
  moreover have "map_of ?xs k = map_option canonical_value (map_of kvs k)"
    by (induction kvs) auto
  moreover have "kvs' = sort_key fst ?xs" using assms(2) by (simp add: canonical_value.simps(2))
  ultimately show ?thesis by (simp only: map_of_sort_key)
qed

lemma canonical_fields:
  assumes "distinct (map fst kvs)" and "canonical_value (JObj kvs) = JObj kvs'"
  shows "text_field kvs' k = text_field kvs k" "optional_text kvs' k = optional_text kvs k"
    "known_fields kvs' names = known_fields kvs names"
proof -
  show "text_field kvs' k = text_field kvs k" "optional_text kvs' k = optional_text kvs k"
    using map_of_canonical [OF assms, of k]
    by (auto simp: text_field_def optional_text_def canonical_value.simps(2)
        split: option.splits json.splits)
  have "kvs' = sort_key fst (map (\<lambda>kv. (fst kv, canonical_value (snd kv))) kvs)"
    using assms(2) by (simp add: canonical_value.simps(2))
  then have "fst ` set kvs' = fst ` set kvs" by (simp add: image_image)
  then show "known_fields kvs' names = known_fields kvs names"
    by (simp add: known_fields_def)
qed

lemma canonical_object_shape: "\<exists>kvs'. canonical_value (JObj kvs) = JObj kvs'"
  by (simp add: canonical_value.simps(2))

lemma evidence_of_canonical: "json_wf v \<Longrightarrow> evidence_of_json (canonical_value v) = evidence_of_json v"
proof (cases v)
  case (JObj kvs)
  assume "json_wf v"
  then have d: "distinct (map fst kvs)" by (simp add: JObj)
  obtain kvs' where c: "canonical_value (JObj kvs) = JObj kvs'" using canonical_object_shape by blast
  show ?thesis by (simp add: JObj c evidence_of_json_def canonical_fields [OF d c])
qed (simp_all add: evidence_of_json_def)

lemma stage_of_value_back [simp]: "stage_of_value (stage_value st) = Some st"
  by (cases st) (simp_all add: stage_of_value_def all_stages_def)

lemma evidence_back: "evidence_ref_valid e \<Longrightarrow> evidence_of_json (evidence_json e) = Some e"
  by (cases e) (simp add: evidence_of_json_def evidence_json_def known_fields_def text_field_def Let_def)

lemma evidence_json_wf [simp]: "json_wf (evidence_json e)"
  by (simp add: evidence_json_def)

lemma digest_map_back: "sorted (map fst m) \<Longrightarrow> digest_map_of_json (digest_map_json m) = Some m"
proof -
  assume "sorted (map fst m)"
  moreover have "those (map (\<lambda>kv. case snd kv of JStr h \<Rightarrow> Some (fst kv, h) | _ \<Rightarrow> None)
      (map (\<lambda>(k, h). (k, JStr h)) m)) = Some m"
    by (induction m) auto
  ultimately show ?thesis
    by (simp add: digest_map_of_json_def digest_map_json_def sort_key_id_if_sorted)
qed

lemma digest_map_canonical: "sorted (map fst m) \<Longrightarrow> canonical_value (digest_map_json m) = digest_map_json m"
proof -
  assume "sorted (map fst m)"
  then have "sorted (map fst (map (\<lambda>(k, h). (k, JStr h)) m))"
    by (simp add: comp_def split_def)
  then have "sort_key fst (map (\<lambda>(k, h). (k, JStr h)) m) = map (\<lambda>(k, h). (k, JStr h)) m"
    by (rule sort_key_id_if_sorted)
  then show ?thesis
    by (simp add: digest_map_json_def canonical_value.simps(2) comp_def split_def)
qed

lemma digest_map_json_wf: "distinct (map fst m) \<Longrightarrow> json_wf (digest_map_json m)"
  by (auto simp: digest_map_json_def comp_def split_def)

lemma checkpoint_valid_inputs:
  "checkpoint_valid c \<Longrightarrow> sorted (map fst (ck_input_hashes c)) \<and> distinct (map fst (ck_input_hashes c))
     \<and> list_all evidence_ref_valid (ck_evidence c)"
  by (simp add: checkpoint_valid_def digest_map_valid_def)

lemma checkpoint_json_wf: "checkpoint_valid c \<Longrightarrow> json_wf (checkpoint_json c)"
  by (cases "ck_id c")
    (auto simp: checkpoint_json_def json_opt_def digest_map_json_wf dest: checkpoint_valid_inputs)

lemma evidence_list_back:
  "list_all evidence_ref_valid es \<Longrightarrow>
     evidence_list_of (Some (canonical_value (JList (map evidence_json es)))) = Some es"
  by (simp add: evidence_list_of_def comp_def evidence_of_canonical evidence_back list_all_iff
      those_map_all [where g = id])

definition checkpoint_fields :: "string list" where
  "checkpoint_fields =
     [''checkpoint_id'', ''stage'', ''contract_hash'', ''input_hashes'', ''output_manifest_hash'',
      ''validator'', ''validator_version'', ''validation_receipt_hash'', ''evidence'']"

lemma checkpoint_json_fields:
  assumes "checkpoint_json c = JObj kvs"
  shows "known_fields kvs checkpoint_fields"
    "optional_text kvs ''checkpoint_id'' = Some (ck_id c)"
    "text_field kvs ''stage'' = Some (stage_value (ck_stage c))"
    "text_field kvs ''contract_hash'' = Some (ck_contract_hash c)"
    "text_field kvs ''output_manifest_hash'' = Some (ck_output_manifest_hash c)"
    "text_field kvs ''validator'' = Some (ck_validator c)"
    "text_field kvs ''validator_version'' = Some (ck_validator_version c)"
    "text_field kvs ''validation_receipt_hash'' = Some (ck_validation_receipt_hash c)"
    "map_of kvs ''input_hashes'' = Some (digest_map_json (ck_input_hashes c))"
    "map_of kvs ''evidence'' = Some (JList (map evidence_json (ck_evidence c)))"
proof -
  show "optional_text kvs ''checkpoint_id'' = Some (ck_id c)"
    using assms by (cases "ck_id c") (auto simp: checkpoint_json_def optional_text_def json_opt_def)
qed (use assms in \<open>auto simp: checkpoint_json_def known_fields_def checkpoint_fields_def text_field_def\<close>)

theorem checkpoint_back:
  assumes "checkpoint_valid c"
  shows "checkpoint_of_json (canonical_value (checkpoint_json c)) = Some c"
proof -
  obtain kvs where j: "checkpoint_json c = JObj kvs" by (simp add: checkpoint_json_def)
  have d: "distinct (map fst kvs)" using checkpoint_json_wf [OF assms] j by simp
  obtain kvs' where c: "canonical_value (JObj kvs) = JObj kvs'" using canonical_object_shape by blast
  note parts = checkpoint_valid_inputs [OF assms]
  have "evidence_list_of (map_of kvs' ''evidence'') = Some (ck_evidence c)"
    unfolding map_of_canonical [OF d c] checkpoint_json_fields [OF j] option.map
    using parts by (intro evidence_list_back) simp
  moreover have "Option.bind (map_of kvs' ''input_hashes'') digest_map_of_json = Some (ck_input_hashes c)"
    unfolding map_of_canonical [OF d c] checkpoint_json_fields [OF j]
    using parts by (simp add: digest_map_canonical digest_map_back)
  ultimately show ?thesis
    unfolding j c using assms checkpoint_json_fields [OF j]
    by (cases c) (simp add: checkpoint_of_json_def canonical_fields [OF d c] Let_def
        flip: checkpoint_fields_def)
qed

lemma checkpoint_back_plain:
  assumes "checkpoint_valid c"
  shows "checkpoint_of_json (checkpoint_json c) = Some c"
proof -
  obtain kvs where j: "checkpoint_json c = JObj kvs" by (simp add: checkpoint_json_def)
  note parts = checkpoint_valid_inputs [OF assms]
  have "evidence_list_of (Some (JList (map evidence_json (ck_evidence c)))) = Some (ck_evidence c)"
    using parts by (simp add: evidence_list_of_def comp_def evidence_back list_all_iff
        those_map_all [where g = id])
  then show ?thesis
    unfolding j using assms checkpoint_json_fields [OF j] parts
    by (cases c) (simp add: checkpoint_of_json_def digest_map_back Let_def
        flip: checkpoint_fields_def)
qed

subsection \<open>Issued checkpoints are reusable and stay so\<close>

lemma checkpoint_payload_Inr:
  "checkpoint_valid c \<Longrightarrow>
     checkpoint_payload c = (if persisted_ok (checkpoint_json c) then Inr (checkpoint_json c)
                             else Inl Checkpoint_Unsafe)"
  by (simp add: checkpoint_payload_def checkpoint_back_plain Let_def)

definition recorded_in :: "file_tree \<Rightarrow> checkpoint \<Rightarrow> bool" where
  \<comment> \<open>the registry holds the record of this checkpoint\<close>
  "recorded_in fs c \<longleftrightarrow>
     (\<exists>cid. ck_id c = Some cid \<and> checkpoint_valid c \<and> persisted_ok (checkpoint_json c)
        \<and> read_json_file fs (registry_path cid)
            = Inr (canonical_value (registry_record cid (checkpoint_json c))))"

lemma recorded_in_keeps:
  "recorded_in fs c \<Longrightarrow> durable.keeps fs fs' \<Longrightarrow> recorded_in fs' c"
  by (auto simp: recorded_in_def durable.keeps_def)

lemma registry_record_wf: "checkpoint_valid c \<Longrightarrow> json_wf (registry_record cid (checkpoint_json c))"
  by (simp add: registry_record_def checkpoint_json_wf)

lemma recorded_matches:
  assumes "recorded_in fs c"
  shows "checkpoint_matches fs c st contract inputs =
    Inr (ck_stage c = st \<and> ck_contract_hash c = contract \<and> ck_input_hashes c = inputs)"
proof -
  obtain cid where cid: "ck_id c = Some cid" "checkpoint_valid c" "persisted_ok (checkpoint_json c)"
      "read_json_file fs (registry_path cid)
        = Inr (canonical_value (registry_record cid (checkpoint_json c)))"
    using assms by (auto simp: recorded_in_def)
  let ?r = "registry_record cid (checkpoint_json c)"
  obtain kvs where r: "?r = JObj kvs" by (simp add: registry_record_def)
  obtain kvs' where c: "canonical_value (JObj kvs) = JObj kvs'" using canonical_object_shape by blast
  have d: "distinct (map fst kvs)" using registry_record_wf [OF cid(2), of cid] r by simp
  obtain ps where ps: "canonical_value (checkpoint_json c) = JObj ps"
    using canonical_object_shape unfolding checkpoint_json_def by blast
  have keys: "set (map fst kvs') = {''checkpoint_id'', ''payload_hash'', ''checkpoint''}"
    using c r by (auto simp: canonical_value.simps(2) registry_record_def)
  have fields: "map_of kvs' ''checkpoint_id'' = Some (JStr cid)"
      "map_of kvs' ''payload_hash'' = Some (JStr (hash_json (checkpoint_json c)))"
      "map_of kvs' ''checkpoint'' = Some (JObj ps)"
    unfolding map_of_canonical [OF d c] using r ps by (auto simp: registry_record_def)
  obtain raw where raw: "fs (registry_path cid) = Some (Regular raw)"
    using cid(4) by (auto simp: read_json_file_Inr)
  have "checkpoint_id_pattern cid" using cid(1,2) by (simp add: checkpoint_valid_def)
  moreover have "path_lstat fs (registry_path cid) = Inr (Some (Regular raw))"
    by (simp add: path_lstat_def raw)
  moreover have "checkpoint_of_json (JObj ps) = Some c"
    using checkpoint_back [OF cid(2)] ps by simp
  ultimately show ?thesis
    using cid keys fields r c checkpoint_payload_Inr [OF cid(2)]
    by (simp add: checkpoint_matches_def)
qed

lemma issue_with_recorded:
  "issue_with fs c cids = Inr (d, fs') \<Longrightarrow>
     (\<exists>cid \<in> set cids. d = c\<lparr>ck_id := Some cid\<rparr> \<and> fs (registry_path cid) = None)
     \<and> recorded_in fs' d \<and> durable.keeps fs fs'"
proof (induction cids)
  case Nil
  then show ?case by simp
next
  case (Cons cid cids)
  let ?d = "c\<lparr>ck_id := Some cid\<rparr>"
  from Cons.prems have valid: "checkpoint_valid ?d" by (auto simp: Let_def split: if_splits)
  with Cons.prems have safe: "persisted_ok (checkpoint_json ?d)"
    by (auto simp: checkpoint_payload_Inr Let_def split: if_splits)
  let ?r = "registry_record cid (checkpoint_json ?d)"
  obtain b fs1 where w: "write_new_json fs (registry_path cid) ?r = Inr (b, fs1)"
    using Cons.prems valid safe
    by (auto simp: checkpoint_payload_Inr Let_def split: sum.splits prod.splits)
  show ?case
  proof (cases b)
    case True
    with Cons.prems valid safe w have eq: "d = ?d" "fs' = fs1"
      by (auto simp: checkpoint_payload_Inr Let_def)
    have "read_json_file fs1 (registry_path cid) = Inr (canonical_value ?r)"
      by (rule durable.fetch_published) (use w True registry_record_wf [OF valid] in simp_all)
    then have "recorded_in fs1 ?d"
      using valid safe by (simp add: recorded_in_def)
    moreover have "fs (registry_path cid) = None" using w True by (simp add: write_new_json_Inr)
    ultimately show ?thesis
      using eq durable.publish_keeps [OF w] by auto
  next
    case False
    with Cons.prems valid safe w have "issue_with fs c cids = Inr (d, fs')"
      by (auto simp: checkpoint_payload_Inr Let_def)
    with Cons.IH show ?thesis by auto
  qed
qed

lemma issue_with_all_taken:
  assumes "\<And>cid. cid \<in> set cids \<Longrightarrow> checkpoint_valid (c\<lparr>ck_id := Some cid\<rparr>)
      \<and> persisted_ok (checkpoint_json (c\<lparr>ck_id := Some cid\<rparr>))
      \<and> (\<exists>raw. fs (registry_path cid) = Some (Regular raw))"
  shows "issue_with fs c cids = Inl Registry_Corrupt"
  using assms
proof (induction cids)
  case (Cons cid cids)
  then obtain raw where "fs (registry_path cid) = Some (Regular raw)" by auto
  then have "write_new_json fs (registry_path cid) r = Inr (False, fs)" for r
    by (simp add: write_new_json_Inr)
  with Cons show ?case by (auto simp: checkpoint_payload_Inr)
qed simp

lemma matches_recorded:
  assumes "checkpoint_matches fs c st contract inputs = Inr True" and "checkpoint_valid c"
  shows "ck_stage c = st \<and> ck_contract_hash c = contract \<and> ck_input_hashes c = inputs"
  using assms by (auto simp: checkpoint_matches_def split: option.splits if_splits sum.splits json.splits)


subsection \<open>What the router relies on\<close>

locale reuse_authority =
  fixes reusable :: "'t \<Rightarrow> 'e reuse_check"
    and recorded :: "'t \<Rightarrow> checkpoint \<Rightarrow> bool"
    and grows :: "'t \<Rightarrow> 't \<Rightarrow> bool"
  assumes recorded_reusable: "recorded t c \<Longrightarrow>
      reusable t c st contract inputs =
        Inr (ck_stage c = st \<and> ck_contract_hash c = contract \<and> ck_input_hashes c = inputs)"
    and grows_recorded: "recorded t c \<Longrightarrow> grows t t' \<Longrightarrow> recorded t' c"
begin

definition all_recorded :: "'t \<Rightarrow> run_state \<Rightarrow> bool" where
  "all_recorded t s \<longleftrightarrow> (\<forall>st c. checkpoints s st = Some c \<longrightarrow> recorded t c)"

definition fulfils :: "(stage \<Rightarrow> checkpoint_expectation option) \<Rightarrow> run_state \<Rightarrow> stage \<Rightarrow> bool" where
  \<comment> \<open>the stage has a checkpoint for its output that meets what is expected of it now\<close>
  "fulfils expectations s st \<longleftrightarrow>
     (\<exists>e c out. expectations st = Some e \<and> checkpoints s st = Some c
        \<and> outputs_of (stage_outputs s) st = Some out
        \<and> so_content_hash out = ck_output_manifest_hash c \<and> ck_stage c = st
        \<and> ck_contract_hash c = ce_contract_hash e \<and> ck_input_hashes c = ce_input_hashes e)"

lemma settled_recorded:
  "all_recorded t s \<Longrightarrow>
     stage_settled (reusable t) expectations s st = Inr (fulfils expectations s st)"
  by (auto simp: stage_settled_def fulfils_def all_recorded_def recorded_reusable
      split: option.splits)

lemma first_unsettled_total:
  "first_unsettled (\<lambda>x. Inr (P x)) xs = Inr (find (\<lambda>x. \<not> P x) xs)"
  by (induction xs) auto

lemma next_stage_recorded:
  assumes "all_recorded t s"
  shows "next_stage (reusable t) expectations s =
    Inr (if disposition s = ACTIVE
         then find (\<lambda>st. \<not> fulfils expectations s st) all_stages else None)"
proof -
  have "stage_settled (reusable t) expectations s = (\<lambda>st. Inr (fulfils expectations s st))"
    using settled_recorded [OF assms] by blast
  then show ?thesis by (simp add: next_stage_def first_unsettled_total)
qed

lemma next_stage_grows:
  assumes "all_recorded t s" and "grows t t'"
  shows "next_stage (reusable t') expectations s = next_stage (reusable t) expectations s"
proof -
  have "all_recorded t' s" using assms by (auto simp: all_recorded_def intro: grows_recorded)
  then show ?thesis by (simp add: next_stage_recorded assms(1))
qed

end

interpretation authority: reuse_authority is_reusable recorded_in durable.keeps
  by unfold_locales (simp_all add: is_reusable_def recorded_matches recorded_in_keeps)

end
