(* ===== verification/Activation.thy ===== *)
theory Activation
  imports Checkpoints
begin

section \<open>Runner activation receipts\<close>

text \<open>
  The values of \<^verbatim>\<open>src/auto_code/runner.py\<close> by which a repaired runner is activated:
  release manifest entries, the pending activation, the signed activation receipt and
  the selection proof of the registry, each with its validation, its JSON payload and
  the parser of that payload.  Texts of datetimes are the work of pydantic: the two
  functions of \<open>clock\<close> write and read them.
\<close>

subsection \<open>Pure POSIX paths\<close>

definition path_absolute :: "string \<Rightarrow> bool" where
  "path_absolute s = starts_with ''/'' s"

definition path_parts :: "string \<Rightarrow> string list" where
  \<comment> \<open>the parts after the root: empty components and single dots are dropped\<close>
  "path_parts s = filter (\<lambda>p. p \<notin> {[], ''.''}) (split_on CHR ''/'' s)"

definition path_text :: "string \<Rightarrow> string" where
  \<comment> \<open>\<^verbatim>\<open>str(Path(s))\<close>\<close>
  "path_text s =
     (let root = (if starts_with ''//'' s \<and> \<not> starts_with ''///'' s then ''//''
                  else if starts_with ''/'' s then ''/'' else []);
          t = root @ join_on CHR ''/'' (path_parts s)
      in if t = [] then ''.'' else t)"

subsection \<open>Checks\<close>

definition require_hash :: "string \<Rightarrow> bool" where
  "require_hash s \<longleftrightarrow> \<not> (length s \<noteq> 64 \<or> list_ex (\<lambda>c. \<not> is_lower_hex c) s)"

definition signature_text :: "string \<Rightarrow> bool" where
  "signature_text s \<longleftrightarrow> \<not> (length s \<noteq> 128 \<or> list_ex (\<lambda>c. \<not> is_lower_hex c) s)"

definition run_identifier :: "string \<Rightarrow> bool" where
  \<comment> \<open>\<^verbatim>\<open>_require_identifier\<close> of \<^verbatim>\<open>runner.py\<close>\<close>
  "run_identifier s \<longleftrightarrow>
     \<not> (s = [] \<or> length s > 255 \<or> CHR 0x00 \<in> set s \<or> CHR ''/'' \<in> set s \<or> s \<in> {''.'', ''..''})"

definition relative_path_ok :: "string \<Rightarrow> bool" where
  "relative_path_ok s \<longleftrightarrow>
     \<not> (s = [] \<or> CHR 0x00 \<in> set s) \<and> \<not> (path_absolute s \<or> ''..'' \<in> set (path_parts s))"

type_synonym contract_map = "stage \<Rightarrow> string option"

definition contract_map_ok :: "contract_map \<Rightarrow> bool" where
  "contract_map_ok m \<longleftrightarrow> list_all (\<lambda>st. opt_all require_hash (m st)) all_stages"

definition contract_map_json :: "contract_map \<Rightarrow> json" where
  "contract_map_json m =
     JObj (sort_key fst (List.map_filter (\<lambda>st. map_option (\<lambda>d. (stage_value st, JStr d)) (m st)) all_stages))"

subsection \<open>Release manifests\<close>

record manifest_entry =
  me_path :: string
  me_kind :: string
  me_mode :: int
  me_content :: string

definition max_release_files :: nat where
  "max_release_files = 10000"

definition manifest_entry_valid :: "manifest_entry \<Rightarrow> bool" where
  "manifest_entry_valid e \<longleftrightarrow>
     \<not> (me_path e = [] \<or> path_absolute (me_path e) \<or> ''..'' \<in> set (path_parts (me_path e))
        \<or> me_kind e \<notin> {''directory'', ''file'', ''symlink''}
        \<or> \<not> (0 \<le> me_mode e \<and> me_mode e \<le> 4095))
     \<and> require_hash (me_content e)"

definition manifest_entry_json :: "manifest_entry \<Rightarrow> json" where
  "manifest_entry_json e =
     JObj [(''path'', JStr (me_path e)), (''kind'', JStr (me_kind e)), (''mode'', JInt (me_mode e)),
           (''content_sha256'', JStr (me_content e))]"

definition int_field :: "(string \<times> json) list \<Rightarrow> string \<Rightarrow> int option" where
  "int_field kvs k = (case map_of kvs k of Some (JInt i) \<Rightarrow> Some i | _ \<Rightarrow> None)"

definition exact_fields :: "(string \<times> json) list \<Rightarrow> string list \<Rightarrow> bool" where
  "exact_fields kvs names \<longleftrightarrow> set (map fst kvs) = set names"

definition manifest_entry_of_json :: "json \<Rightarrow> manifest_entry option" where
  "manifest_entry_of_json v =
     (case v of
        JObj kvs \<Rightarrow>
          (if \<not> exact_fields kvs [''path'', ''kind'', ''mode'', ''content_sha256''] then None
           else do {
             path \<leftarrow> text_field kvs ''path'';
             kind \<leftarrow> text_field kvs ''kind'';
             mode \<leftarrow> int_field kvs ''mode'';
             content \<leftarrow> text_field kvs ''content_sha256'';
             let e = \<lparr>me_path = path, me_kind = kind, me_mode = mode, me_content = content\<rparr>;
             if manifest_entry_valid e then Some e else None
           })
      | _ \<Rightarrow> None)"

subsection \<open>Runner identities as JSON\<close>

record clock =
  clock_text :: "datetime \<Rightarrow> string"
  clock_of :: "json \<Rightarrow> datetime option"

definition runner_identity_json :: "clock \<Rightarrow> runner_identity \<Rightarrow> json" where
  "runner_identity_json ck r =
     JObj [(''content_hash'', JStr (ri_content_hash r)), (''source_sha'', JStr (ri_source_sha r)),
           (''dependency_lock_hash'', JStr (ri_dependency_lock_hash r)),
           (''contract_bundle_hash'', JStr (ri_contract_bundle_hash r)),
           (''runner_archive_hash'', JStr (ri_runner_archive_hash r)),
           (''built_at'', JStr (clock_text ck (ri_built_at r)))]"

definition digest_field :: "(string \<times> json) list \<Rightarrow> string \<Rightarrow> string option" where
  \<comment> \<open>a digest that the field validator turns to lower case\<close>
  "digest_field kvs k =
     Option.bind (text_field kvs k) (\<lambda>s. if sha256_pattern s then Some (lower s) else None)"

definition runner_identity_of_json :: "clock \<Rightarrow> json \<Rightarrow> runner_identity option" where
  "runner_identity_of_json ck v =
     (case v of
        JObj kvs \<Rightarrow>
          (if \<not> known_fields kvs
                 [''content_hash'', ''source_sha'', ''dependency_lock_hash'', ''contract_bundle_hash'',
                  ''runner_archive_hash'', ''built_at''] then None
           else do {
             content \<leftarrow> digest_field kvs ''content_hash'';
             source \<leftarrow> digest_field kvs ''source_sha'';
             lock \<leftarrow> digest_field kvs ''dependency_lock_hash'';
             contract \<leftarrow> digest_field kvs ''contract_bundle_hash'';
             archive \<leftarrow> digest_field kvs ''runner_archive_hash'';
             built \<leftarrow> Option.bind (map_of kvs ''built_at'') (clock_of ck);
             Some \<lparr>ri_content_hash = content, ri_source_sha = source,
                   ri_dependency_lock_hash = lock, ri_contract_bundle_hash = contract,
                   ri_runner_archive_hash = archive, ri_built_at = built\<rparr>
           })
      | _ \<Rightarrow> None)"

subsection \<open>Pending activations\<close>

record pending_activation =
  pa_request_hash :: string
  pa_run_id :: string
  pa_expected_revision :: int
  pa_expected_state_hash :: string
  pa_failure_hash :: string
  pa_repair_source_manifest_hash :: string
  pa_project_policy_hash :: string
  pa_regression_evidence_hash :: string
  pa_build_evidence_hash :: string
  pa_release_root :: string
  pa_release_manifest :: "manifest_entry list"
  pa_release_manifest_hash :: string
  pa_runner_archive_hash :: string
  pa_runner_executable :: string
  pa_old_runner_identity :: runner_identity
  pa_new_runner_identity :: runner_identity
  pa_previous_contract_hashes :: contract_map
  pa_contract_hashes :: contract_map

definition release_manifest_ok :: "'a pending_activation_scheme \<Rightarrow> bool" where
  "release_manifest_ok p \<longleftrightarrow>
     \<not> (pa_release_manifest p = []
        \<or> length (pa_release_manifest p) > max_release_files
        \<or> \<not> sorted (map me_path (pa_release_manifest p))
        \<or> \<not> no_dups (map me_path (pa_release_manifest p))
        \<or> pa_release_manifest_hash p \<noteq> hash_json (JList (map manifest_entry_json (pa_release_manifest p)))
        \<or> ri_content_hash (pa_new_runner_identity p) \<noteq> pa_release_manifest_hash p
        \<or> ri_source_sha (pa_new_runner_identity p) \<noteq> pa_repair_source_manifest_hash p
        \<or> ri_runner_archive_hash (pa_new_runner_identity p) \<noteq> pa_runner_archive_hash p)"

definition pending_activation_valid :: "'a pending_activation_scheme \<Rightarrow> bool" where
  \<comment> \<open>\<^verbatim>\<open>PendingRunnerActivation.__post_init__\<close>\<close>
  "pending_activation_valid p \<longleftrightarrow>
     run_identifier (pa_run_id p)
     \<and> 1 \<le> pa_expected_revision p
     \<and> list_all require_hash
         [pa_request_hash p, pa_expected_state_hash p, pa_failure_hash p,
          pa_repair_source_manifest_hash p, pa_project_policy_hash p, pa_regression_evidence_hash p,
          pa_build_evidence_hash p, pa_release_manifest_hash p, pa_runner_archive_hash p]
     \<and> path_absolute (pa_release_root p) \<and> ''..'' \<notin> set (path_parts (pa_release_root p))
     \<and> release_manifest_ok p
     \<and> relative_path_ok (pa_runner_executable p)
     \<and> contract_map_ok (pa_previous_contract_hashes p)
     \<and> contract_map_ok (pa_contract_hashes p)
     \<and> ri_contract_bundle_hash (pa_new_runner_identity p) = hash_json (contract_map_json (pa_contract_hashes p))"

definition pending_members :: "clock \<Rightarrow> 'a pending_activation_scheme \<Rightarrow> (string \<times> json) list" where
  "pending_members ck p =
     [(''request_hash'', JStr (pa_request_hash p)),
      (''run_id'', JStr (pa_run_id p)),
      (''expected_revision'', JInt (pa_expected_revision p)),
      (''expected_state_hash'', JStr (pa_expected_state_hash p)),
      (''failure_hash'', JStr (pa_failure_hash p)),
      (''repair_source_manifest_hash'', JStr (pa_repair_source_manifest_hash p)),
      (''project_policy_hash'', JStr (pa_project_policy_hash p)),
      (''regression_evidence_hash'', JStr (pa_regression_evidence_hash p)),
      (''build_evidence_hash'', JStr (pa_build_evidence_hash p)),
      (''release_root'', JStr (path_text (pa_release_root p))),
      (''release_manifest'', JList (map manifest_entry_json (pa_release_manifest p))),
      (''release_manifest_hash'', JStr (pa_release_manifest_hash p)),
      (''runner_archive_hash'', JStr (pa_runner_archive_hash p)),
      (''runner_executable'', JStr (pa_runner_executable p)),
      (''old_runner_identity'', runner_identity_json ck (pa_old_runner_identity p)),
      (''new_runner_identity'', runner_identity_json ck (pa_new_runner_identity p)),
      (''previous_contract_hashes'', contract_map_json (pa_previous_contract_hashes p)),
      (''contract_hashes'', contract_map_json (pa_contract_hashes p))]"

definition pending_activation_hash :: "clock \<Rightarrow> pending_activation \<Rightarrow> string" where
  "pending_activation_hash ck p = hash_json (JObj (pending_members ck p))"

definition pending_fields :: "string list" where
  "pending_fields =
     [''request_hash'', ''run_id'', ''expected_revision'', ''expected_state_hash'', ''failure_hash'',
      ''repair_source_manifest_hash'', ''project_policy_hash'', ''regression_evidence_hash'',
      ''build_evidence_hash'', ''release_root'', ''release_manifest'', ''release_manifest_hash'',
      ''runner_archive_hash'', ''runner_executable'', ''old_runner_identity'', ''new_runner_identity'',
      ''previous_contract_hashes'', ''contract_hashes'']"

definition contract_map_of_json :: "json \<Rightarrow> contract_map option" where
  "contract_map_of_json v =
     (case v of
        JObj kvs \<Rightarrow>
          map_option map_of
            (those (map (\<lambda>kv. case (stage_of_value (fst kv), snd kv) of
                                 (Some st, JStr d) \<Rightarrow> if require_hash d then Some (st, d) else None
                               | _ \<Rightarrow> None) kvs))
      | _ \<Rightarrow> None)"

definition hash_field :: "(string \<times> json) list \<Rightarrow> string \<Rightarrow> string option" where
  "hash_field kvs k = Option.bind (text_field kvs k) (\<lambda>s. if require_hash s then Some s else None)"

definition manifest_of_json :: "json option \<Rightarrow> manifest_entry list option" where
  "manifest_of_json v =
     (case v of Some (JList vs) \<Rightarrow> those (map manifest_entry_of_json vs) | _ \<Rightarrow> None)"

definition pending_of_members :: "clock \<Rightarrow> (string \<times> json) list \<Rightarrow> pending_activation option" where
  "pending_of_members ck kvs =
     (if \<not> exact_fields kvs pending_fields then None
      else do {
        root \<leftarrow> text_field kvs ''release_root'';
        request \<leftarrow> hash_field kvs ''request_hash'';
        run \<leftarrow> text_field kvs ''run_id'';
        revision \<leftarrow> int_field kvs ''expected_revision'';
        state_hash \<leftarrow> hash_field kvs ''expected_state_hash'';
        failure \<leftarrow> hash_field kvs ''failure_hash'';
        source \<leftarrow> hash_field kvs ''repair_source_manifest_hash'';
        policy \<leftarrow> hash_field kvs ''project_policy_hash'';
        regression \<leftarrow> hash_field kvs ''regression_evidence_hash'';
        build \<leftarrow> hash_field kvs ''build_evidence_hash'';
        manifest \<leftarrow> manifest_of_json (map_of kvs ''release_manifest'');
        manifest_hash \<leftarrow> hash_field kvs ''release_manifest_hash'';
        archive \<leftarrow> hash_field kvs ''runner_archive_hash'';
        executable \<leftarrow> text_field kvs ''runner_executable'';
        old \<leftarrow> Option.bind (map_of kvs ''old_runner_identity'') (runner_identity_of_json ck);
        new \<leftarrow> Option.bind (map_of kvs ''new_runner_identity'') (runner_identity_of_json ck);
        previous \<leftarrow> Option.bind (map_of kvs ''previous_contract_hashes'') contract_map_of_json;
        contracts \<leftarrow> Option.bind (map_of kvs ''contract_hashes'') contract_map_of_json;
        let p = \<lparr>pa_request_hash = request, pa_run_id = run, pa_expected_revision = revision,
                 pa_expected_state_hash = state_hash, pa_failure_hash = failure,
                 pa_repair_source_manifest_hash = source, pa_project_policy_hash = policy,
                 pa_regression_evidence_hash = regression, pa_build_evidence_hash = build,
                 pa_release_root = path_text root, pa_release_manifest = manifest,
                 pa_release_manifest_hash = manifest_hash, pa_runner_archive_hash = archive,
                 pa_runner_executable = executable, pa_old_runner_identity = old,
                 pa_new_runner_identity = new, pa_previous_contract_hashes = previous,
                 pa_contract_hashes = contracts\<rparr>;
        if pending_activation_valid p then Some p else None
      })"

subsection \<open>Activation receipts\<close>

record activation_receipt = pending_activation +
  at_termination_evidence_hash :: string
  at_restart_evidence_hash :: string
  at_attestation_evidence_hash :: string
  at_compatible_checkpoint_stages :: "stage list"
  at_activation_public_key_hash :: string
  at_signature :: string

fun compatible_stages :: "contract_map \<Rightarrow> contract_map \<Rightarrow> stage list \<Rightarrow> stage list" where
  \<comment> \<open>the loop over \<^verbatim>\<open>Stage\<close>: no previous contract is skipped, a changed one ends it\<close>
  "compatible_stages previous contracts [] = []"
| "compatible_stages previous contracts (st # rest) =
     (case previous st of
        None \<Rightarrow> compatible_stages previous contracts rest
      | Some d \<Rightarrow>
          if Some d \<noteq> contracts st then []
          else st # compatible_stages previous contracts rest)"

definition activation_receipt_valid :: "activation_receipt \<Rightarrow> bool" where
  "activation_receipt_valid r \<longleftrightarrow>
     pending_activation_valid r
     \<and> list_all require_hash
         [at_termination_evidence_hash r, at_restart_evidence_hash r, at_attestation_evidence_hash r,
          at_activation_public_key_hash r]
     \<and> signature_text (at_signature r)
     \<and> compatible_stages (pa_previous_contract_hashes r) (pa_contract_hashes r) all_stages
         = at_compatible_checkpoint_stages r"

definition activation_members :: "clock \<Rightarrow> activation_receipt \<Rightarrow> (string \<times> json) list" where
  \<comment> \<open>\<^verbatim>\<open>payload(include_signature=False)\<close>\<close>
  "activation_members ck r =
     pending_members ck r
     @ [(''termination_evidence_hash'', JStr (at_termination_evidence_hash r)),
        (''restart_evidence_hash'', JStr (at_restart_evidence_hash r)),
        (''attestation_evidence_hash'', JStr (at_attestation_evidence_hash r)),
        (''compatible_checkpoint_stages'',
         JList (map (\<lambda>st. JStr (stage_value st)) (at_compatible_checkpoint_stages r))),
        (''activation_public_key_hash'', JStr (at_activation_public_key_hash r))]"

definition activation_payload :: "clock \<Rightarrow> activation_receipt \<Rightarrow> json" where
  "activation_payload ck r =
     JObj (activation_members ck r @ [(''signature'', JStr (at_signature r))])"

definition activation_content_hash :: "clock \<Rightarrow> activation_receipt \<Rightarrow> string" where
  "activation_content_hash ck r = hash_json (activation_payload ck r)"

definition activation_signed_payload :: "clock \<Rightarrow> activation_receipt \<Rightarrow> json" where
  "activation_signed_payload ck r =
     JObj ((''domain'', JStr ''auto-code-repair-activation/v1'') # activation_members ck r)"

definition trusted_signature :: "signature_check \<Rightarrow> bytes \<Rightarrow> string \<Rightarrow> string \<Rightarrow> json \<Rightarrow> bool" where
  \<comment> \<open>\<^verbatim>\<open>verify_signature\<close> with the key hash and the signature of the value\<close>
  "trusted_signature ed25519 key key_hash sig payload \<longleftrightarrow>
     length key = 32 \<and> hexdigest key = key_hash
     \<and> (case fromhex sig of None \<Rightarrow> False | Some s \<Rightarrow> ed25519 key s (canonical_json_bytes payload))"

definition activation_signature_ok :: "signature_check \<Rightarrow> clock \<Rightarrow> activation_receipt \<Rightarrow> bytes \<Rightarrow> bool" where
  "activation_signature_ok ed25519 ck r key =
     trusted_signature ed25519 key (at_activation_public_key_hash r) (at_signature r)
       (activation_signed_payload ck r)"

definition stage_list_of :: "json option \<Rightarrow> stage list option" where
  "stage_list_of v =
     (case v of
        Some (JList vs) \<Rightarrow> those (map (\<lambda>x. case x of JStr s \<Rightarrow> stage_of_value s | _ \<Rightarrow> None) vs)
      | _ \<Rightarrow> None)"

definition activation_fields :: "string list" where
  "activation_fields =
     pending_fields
     @ [''termination_evidence_hash'', ''restart_evidence_hash'', ''attestation_evidence_hash'',
        ''compatible_checkpoint_stages'', ''activation_public_key_hash'', ''signature'']"

definition extend_activation ::
  "pending_activation \<Rightarrow> string \<Rightarrow> string \<Rightarrow> string \<Rightarrow> stage list \<Rightarrow> string \<Rightarrow> string \<Rightarrow> activation_receipt" where
  "extend_activation p termination restart attestation stages key_hash signature =
     pending_activation.extend p
       (activation_receipt.fields termination restart attestation stages key_hash signature)"

definition activation_of_json :: "clock \<Rightarrow> json \<Rightarrow> activation_receipt option" where
  "activation_of_json ck v =
     (case v of
        JObj kvs \<Rightarrow>
          (if \<not> exact_fields kvs activation_fields then None
           else do {
             stages \<leftarrow> stage_list_of (map_of kvs ''compatible_checkpoint_stages'');
             p \<leftarrow> pending_of_members ck (filter (\<lambda>kv. fst kv \<in> set pending_fields) kvs);
             termination \<leftarrow> hash_field kvs ''termination_evidence_hash'';
             restart \<leftarrow> hash_field kvs ''restart_evidence_hash'';
             attestation \<leftarrow> hash_field kvs ''attestation_evidence_hash'';
             key_hash \<leftarrow> hash_field kvs ''activation_public_key_hash'';
             signature \<leftarrow> text_field kvs ''signature'';
             let r = extend_activation p termination restart attestation stages key_hash signature;
             if activation_receipt_valid r then Some r else None
           })
      | _ \<Rightarrow> None)"

subsection \<open>Selection proofs\<close>

definition empty_activation_pointer_hash :: string where
  "empty_activation_pointer_hash =
     hash_json (JObj [(''domain'', JStr ''auto-code-runner-activation-pointer-empty/v1'')])"

record selection_proof =
  sp_registry_root_hash :: string
  sp_registry_identity_hash :: string
  sp_pointer_generation :: int
  sp_previous_pointer_hash :: string
  sp_pointer_hash :: string
  sp_activation_receipt_hash :: string
  sp_run_id :: string
  sp_expected_revision :: int
  sp_expected_state_hash :: string
  sp_failure_hash :: string
  sp_old_runner_identity :: runner_identity
  sp_new_runner_identity :: runner_identity
  sp_nonce :: string
  sp_request_hash :: string
  sp_activation_public_key_hash :: string
  sp_signature :: string

definition pointer_payload :: "clock \<Rightarrow> selection_proof \<Rightarrow> json option" where
  \<comment> \<open>\<^verbatim>\<open>activation_pointer_payload\<close> on the projection of the proof; \<open>None\<close> is \<^verbatim>\<open>ValueError\<close>\<close>
  "pointer_payload ck p =
     (if sp_pointer_generation p < 1
         \<or> \<not> require_hash (sp_previous_pointer_hash p)
         \<or> (sp_pointer_generation p = 1) \<noteq> (sp_previous_pointer_hash p = empty_activation_pointer_hash)
         \<or> \<not> require_hash (sp_registry_root_hash p) \<or> \<not> require_hash (sp_registry_identity_hash p)
         \<or> \<not> require_hash (sp_nonce p)
      then None
      else Some (JObj
        [(''schema_version'', JInt 1), (''generation'', JInt (sp_pointer_generation p)),
         (''previous_pointer_hash'', JStr (sp_previous_pointer_hash p)),
         (''registry_root_hash'', JStr (sp_registry_root_hash p)),
         (''registry_identity_hash'', JStr (sp_registry_identity_hash p)),
         (''nonce'', JStr (sp_nonce p)), (''request_hash'', JStr (sp_request_hash p)),
         (''receipt_hash'', JStr (sp_activation_receipt_hash p)), (''run_id'', JStr (sp_run_id p)),
         (''expected_revision'', JInt (sp_expected_revision p)),
         (''expected_state_hash'', JStr (sp_expected_state_hash p)),
         (''failure_hash'', JStr (sp_failure_hash p)),
         (''old_runner_identity'', runner_identity_json ck (sp_old_runner_identity p)),
         (''runner_identity'', runner_identity_json ck (sp_new_runner_identity p))]))"

definition selection_proof_valid :: "clock \<Rightarrow> selection_proof \<Rightarrow> bool" where
  "selection_proof_valid ck p \<longleftrightarrow>
     run_identifier (sp_run_id p)
     \<and> 1 \<le> sp_expected_revision p
     \<and> list_all require_hash
         [sp_registry_root_hash p, sp_registry_identity_hash p, sp_previous_pointer_hash p,
          sp_pointer_hash p, sp_activation_receipt_hash p, sp_expected_state_hash p,
          sp_failure_hash p, sp_nonce p, sp_request_hash p, sp_activation_public_key_hash p]
     \<and> signature_text (sp_signature p)
     \<and> map_option hash_json (pointer_payload ck p) = Some (sp_pointer_hash p)"

definition selection_members :: "clock \<Rightarrow> selection_proof \<Rightarrow> (string \<times> json) list" where
  "selection_members ck p =
     [(''registry_root_hash'', JStr (sp_registry_root_hash p)),
      (''registry_identity_hash'', JStr (sp_registry_identity_hash p)),
      (''pointer_generation'', JInt (sp_pointer_generation p)),
      (''previous_pointer_hash'', JStr (sp_previous_pointer_hash p)),
      (''pointer_hash'', JStr (sp_pointer_hash p)),
      (''activation_receipt_hash'', JStr (sp_activation_receipt_hash p)),
      (''run_id'', JStr (sp_run_id p)),
      (''expected_revision'', JInt (sp_expected_revision p)),
      (''expected_state_hash'', JStr (sp_expected_state_hash p)),
      (''failure_hash'', JStr (sp_failure_hash p)),
      (''old_runner_identity'', runner_identity_json ck (sp_old_runner_identity p)),
      (''new_runner_identity'', runner_identity_json ck (sp_new_runner_identity p)),
      (''nonce'', JStr (sp_nonce p)),
      (''request_hash'', JStr (sp_request_hash p)),
      (''activation_public_key_hash'', JStr (sp_activation_public_key_hash p))]"

definition selection_payload :: "clock \<Rightarrow> selection_proof \<Rightarrow> json" where
  "selection_payload ck p =
     JObj (selection_members ck p @ [(''signature'', JStr (sp_signature p))])"

definition selection_signed_payload :: "clock \<Rightarrow> selection_proof \<Rightarrow> json" where
  "selection_signed_payload ck p =
     JObj ((''domain'', JStr ''auto-code-runner-registry-selection/v1'') # selection_members ck p)"

definition selection_signature_ok :: "signature_check \<Rightarrow> clock \<Rightarrow> selection_proof \<Rightarrow> bytes \<Rightarrow> bool" where
  "selection_signature_ok ed25519 ck p key =
     trusted_signature ed25519 key (sp_activation_public_key_hash p) (sp_signature p)
       (selection_signed_payload ck p)"

definition selection_fields :: "string list" where
  "selection_fields =
     [''registry_root_hash'', ''registry_identity_hash'', ''pointer_generation'',
      ''previous_pointer_hash'', ''pointer_hash'', ''activation_receipt_hash'', ''run_id'',
      ''expected_revision'', ''expected_state_hash'', ''failure_hash'', ''old_runner_identity'',
      ''new_runner_identity'', ''nonce'', ''request_hash'', ''activation_public_key_hash'', ''signature'']"

definition selection_of_json :: "clock \<Rightarrow> json \<Rightarrow> selection_proof option" where
  "selection_of_json ck v =
     (case v of
        JObj kvs \<Rightarrow>
          (if \<not> exact_fields kvs selection_fields then None
           else do {
             root \<leftarrow> text_field kvs ''registry_root_hash'';
             identity \<leftarrow> text_field kvs ''registry_identity_hash'';
             generation \<leftarrow> int_field kvs ''pointer_generation'';
             previous \<leftarrow> text_field kvs ''previous_pointer_hash'';
             pointer \<leftarrow> text_field kvs ''pointer_hash'';
             receipt \<leftarrow> text_field kvs ''activation_receipt_hash'';
             run \<leftarrow> text_field kvs ''run_id'';
             revision \<leftarrow> int_field kvs ''expected_revision'';
             state_hash \<leftarrow> text_field kvs ''expected_state_hash'';
             failure \<leftarrow> text_field kvs ''failure_hash'';
             old \<leftarrow> Option.bind (map_of kvs ''old_runner_identity'') (runner_identity_of_json ck);
             new \<leftarrow> Option.bind (map_of kvs ''new_runner_identity'') (runner_identity_of_json ck);
             nonce \<leftarrow> text_field kvs ''nonce'';
             request \<leftarrow> text_field kvs ''request_hash'';
             key_hash \<leftarrow> text_field kvs ''activation_public_key_hash'';
             signature \<leftarrow> text_field kvs ''signature'';
             let p = \<lparr>sp_registry_root_hash = root, sp_registry_identity_hash = identity,
                      sp_pointer_generation = generation, sp_previous_pointer_hash = previous,
                      sp_pointer_hash = pointer, sp_activation_receipt_hash = receipt,
                      sp_run_id = run, sp_expected_revision = revision,
                      sp_expected_state_hash = state_hash, sp_failure_hash = failure,
                      sp_old_runner_identity = old, sp_new_runner_identity = new,
                      sp_nonce = nonce, sp_request_hash = request,
                      sp_activation_public_key_hash = key_hash, sp_signature = signature\<rparr>;
             if selection_proof_valid ck p then Some p else None
           })
      | _ \<Rightarrow> None)"

subsection \<open>Compatible stages\<close>

lemma compatible_stages_set:
  "set (compatible_stages previous contracts sts) \<subseteq>
     {st \<in> set sts. previous st \<noteq> None \<and> previous st = contracts st}"
  by (induction sts) (auto split: option.splits, metis)

lemma compatible_stages_complete:
  assumes "sts = pre @ st # post" and "previous st \<noteq> None"
    and "\<forall>x \<in> set (pre @ [st]). previous x = None \<or> previous x = contracts x"
  shows "st \<in> set (compatible_stages previous contracts sts)"
  using assms
  by (induction pre arbitrary: sts) (auto split: option.splits)

lemma compatible_stages_stop:
  assumes "sts = pre @ st # post" and "previous st \<noteq> None" and "previous st \<noteq> contracts st"
    and "distinct sts"
  shows "set (compatible_stages previous contracts sts) \<inter> set (st # post) = {}"
  using assms
proof (induction pre arbitrary: sts)
  case Nil
  then show ?case by (auto split: option.splits)
next
  case (Cons x pre)
  then show ?case by (auto split: option.splits)
qed

end
