(* ===== verification/Receipts.thy ===== *)
theory Receipts
  imports Activation
begin

section \<open>Trusted MCP receipts\<close>

text \<open>
  \<^verbatim>\<open>TrustedMcpReceipt\<close> of \<^verbatim>\<open>src/auto_code/contracts.py\<close> and
  \<^verbatim>\<open>BridgeReceiptAuthority\<close> of \<^verbatim>\<open>src/auto_code/state.py\<close>: the receipt a piece of
  evidence names is read from its file under the state root, validated as a model and
  accepted only when its path, its content hash and its HMAC under the authority's key
  all agree.  \<open>sanitize\<close> is the text sanitizer of the contracts.
\<close>

record trusted_receipt =
  tr_receipt_id :: string
  tr_request_id :: string
  tr_effect_id :: string
  tr_effect_hash :: string
  tr_request_hash :: string
  tr_operation :: string
  tr_target :: string
  tr_run_id :: string
  tr_expected_revision :: int
  tr_expected_state_hash :: string
  tr_expected_external_revision :: "string option"
  tr_payload_hash :: string
  tr_result_hash :: string
  tr_outcome :: effect_outcome
  tr_external_revision :: "string option"
  tr_observed_state_id :: "string option"
  tr_bridge_identity :: string
  tr_mcp_server_identity :: string
  tr_tool_call_id :: string
  tr_observed_at :: datetime
  tr_observations :: "string list"
  tr_relative_path :: string
  tr_bridge_signature :: "string option"

primrec outcome_value :: "effect_outcome \<Rightarrow> string" where
  "outcome_value SUCCESS = ''success''"
| "outcome_value FAILURE = ''failure''"
| "outcome_value NOT_FOUND = ''not_found''"
| "outcome_value CONFLICT = ''conflict''"
| "outcome_value UNKNOWN = ''unknown''"

definition outcome_of_value :: "string \<Rightarrow> effect_outcome option" where
  "outcome_of_value s =
     find (\<lambda>out. outcome_value out = s) [SUCCESS, FAILURE, NOT_FOUND, CONFLICT, UNKNOWN]"

definition trusted_receipt_valid :: "trusted_receipt \<Rightarrow> bool" where
  \<comment> \<open>after the normalizing validators\<close>
  "trusted_receipt_valid r \<longleftrightarrow>
     canonical_uuid (tr_receipt_id r) \<and> canonical_uuid (tr_request_id r)
     \<and> list_all (\<lambda>v. reference_id v \<and> safe_text v)
         [tr_effect_id r, tr_target r, tr_run_id r, tr_bridge_identity r,
          tr_mcp_server_identity r, tr_tool_call_id r]
     \<and> effect_operation (tr_operation r) \<and> safe_text (tr_operation r)
     \<and> list_all lower_sha256
         [tr_effect_hash r, tr_request_hash r, tr_expected_state_hash r, tr_payload_hash r,
          tr_result_hash r]
     \<and> 1 \<le> tr_expected_revision r
     \<and> opt_all external_revision_ok (tr_expected_external_revision r)
     \<and> opt_all external_revision_ok (tr_external_revision r)
     \<and> opt_all external_revision_ok (tr_observed_state_id r)
     \<and> length (tr_observations r) \<le> 32
     \<and> list_all (\<lambda>t. length t \<le> 1024) (tr_observations r)
     \<and> evidence_path (tr_relative_path r)
     \<and> starts_with ''trusted-mcp/receipts/'' (tr_relative_path r)
     \<and> opt_all (fullmatch (Rep (Cls is_lower_hex) 64 0)) (tr_bridge_signature r)"

definition receipt_signed_payload :: "clock \<Rightarrow> trusted_receipt \<Rightarrow> (string \<times> json) list" where
  \<comment> \<open>\<^verbatim>\<open>signed_payload\<close>: every field but the signature\<close>
  "receipt_signed_payload ck r =
     [(''schema_version'', JStr ''v1''),
      (''receipt_id'', JStr (tr_receipt_id r)), (''request_id'', JStr (tr_request_id r)),
      (''effect_id'', JStr (tr_effect_id r)), (''effect_hash'', JStr (tr_effect_hash r)),
      (''request_hash'', JStr (tr_request_hash r)), (''operation'', JStr (tr_operation r)),
      (''target'', JStr (tr_target r)), (''run_id'', JStr (tr_run_id r)),
      (''expected_revision'', JInt (tr_expected_revision r)),
      (''expected_state_hash'', JStr (tr_expected_state_hash r)),
      (''expected_external_revision'', json_opt (tr_expected_external_revision r)),
      (''payload_hash'', JStr (tr_payload_hash r)), (''result_hash'', JStr (tr_result_hash r)),
      (''outcome'', JStr (outcome_value (tr_outcome r))),
      (''external_revision'', json_opt (tr_external_revision r)),
      (''observed_state_id'', json_opt (tr_observed_state_id r)),
      (''bridge_identity'', JStr (tr_bridge_identity r)),
      (''mcp_server_identity'', JStr (tr_mcp_server_identity r)),
      (''tool_call_id'', JStr (tr_tool_call_id r)),
      (''observed_at'', JStr (clock_text ck (tr_observed_at r))),
      (''observations'', JList (map JStr (tr_observations r))),
      (''relative_path'', JStr (tr_relative_path r))]"

definition trusted_receipt_json :: "clock \<Rightarrow> trusted_receipt \<Rightarrow> json" where
  "trusted_receipt_json ck r =
     JObj (receipt_signed_payload ck r @ [(''bridge_signature'', json_opt (tr_bridge_signature r))])"

definition receipt_content_hash :: "clock \<Rightarrow> trusted_receipt \<Rightarrow> string" where
  "receipt_content_hash ck r = hash_json (trusted_receipt_json ck r)"

definition receipt_fields :: "string list" where
  "receipt_fields =
     [''schema_version'', ''receipt_id'', ''request_id'', ''effect_id'', ''effect_hash'',
      ''request_hash'', ''operation'', ''target'', ''run_id'', ''expected_revision'',
      ''expected_state_hash'', ''expected_external_revision'', ''payload_hash'', ''result_hash'',
      ''outcome'', ''external_revision'', ''observed_state_id'', ''bridge_identity'',
      ''mcp_server_identity'', ''tool_call_id'', ''observed_at'', ''observations'',
      ''relative_path'', ''bridge_signature'']"

definition texts_of :: "json option \<Rightarrow> string list option" where
  "texts_of v =
     (case v of
        Some (JList vs) \<Rightarrow> those (map (\<lambda>x. case x of JStr s \<Rightarrow> Some s | _ \<Rightarrow> None) vs)
      | _ \<Rightarrow> None)"

definition trusted_receipt_of_json ::
  "clock \<Rightarrow> (string \<Rightarrow> string) \<Rightarrow> json \<Rightarrow> trusted_receipt option" where
  \<comment> \<open>\<^verbatim>\<open>TrustedMcpReceipt.model_validate\<close>\<close>
  "trusted_receipt_of_json ck sanitize v =
     (case v of
        JObj kvs \<Rightarrow>
          (if \<not> known_fields kvs receipt_fields
              \<or> map_of kvs ''schema_version'' \<notin> {None, Some (JStr ''v1'')} then None
           else do {
             receipt_id \<leftarrow> text_field kvs ''receipt_id'';
             request_id \<leftarrow> text_field kvs ''request_id'';
             effect_id \<leftarrow> text_field kvs ''effect_id'';
             effect_hash \<leftarrow> digest_field kvs ''effect_hash'';
             request_hash \<leftarrow> digest_field kvs ''request_hash'';
             operation \<leftarrow> text_field kvs ''operation'';
             target \<leftarrow> text_field kvs ''target'';
             run \<leftarrow> text_field kvs ''run_id'';
             revision \<leftarrow> int_field kvs ''expected_revision'';
             state_hash \<leftarrow> digest_field kvs ''expected_state_hash'';
             expected_external \<leftarrow> optional_text kvs ''expected_external_revision'';
             payload_hash \<leftarrow> digest_field kvs ''payload_hash'';
             result_hash \<leftarrow> digest_field kvs ''result_hash'';
             outcome \<leftarrow> Option.bind (text_field kvs ''outcome'') outcome_of_value;
             external \<leftarrow> optional_text kvs ''external_revision'';
             observed \<leftarrow> optional_text kvs ''observed_state_id'';
             bridge \<leftarrow> text_field kvs ''bridge_identity'';
             server \<leftarrow> text_field kvs ''mcp_server_identity'';
             call \<leftarrow> text_field kvs ''tool_call_id'';
             observed_at \<leftarrow> Option.bind (map_of kvs ''observed_at'') (clock_of ck);
             observations \<leftarrow> texts_of (map_of kvs ''observations'');
             path \<leftarrow> text_field kvs ''relative_path'';
             signature \<leftarrow> optional_text kvs ''bridge_signature'';
             let r = \<lparr>tr_receipt_id = receipt_id, tr_request_id = request_id,
                      tr_effect_id = effect_id, tr_effect_hash = effect_hash,
                      tr_request_hash = request_hash, tr_operation = operation,
                      tr_target = target, tr_run_id = run, tr_expected_revision = revision,
                      tr_expected_state_hash = state_hash,
                      tr_expected_external_revision = expected_external,
                      tr_payload_hash = payload_hash, tr_result_hash = result_hash,
                      tr_outcome = outcome, tr_external_revision = external,
                      tr_observed_state_id = observed, tr_bridge_identity = bridge,
                      tr_mcp_server_identity = server, tr_tool_call_id = call,
                      tr_observed_at = observed_at, tr_observations = map sanitize observations,
                      tr_relative_path = path, tr_bridge_signature = signature\<rparr>;
             if trusted_receipt_valid r then Some r else None
           })
      | _ \<Rightarrow> None)"

subsection \<open>The receipt authority\<close>

record receipt_authority =
  ra_bridge_identity :: string
  ra_mcp_server_identity :: string
  ra_signing_key :: bytes

definition receipt_authority_valid :: "receipt_authority \<Rightarrow> bool" where
  "receipt_authority_valid a \<longleftrightarrow>
     require_identifier (ra_bridge_identity a) \<and> require_identifier (ra_mcp_server_identity a)
     \<and> 16 \<le> length (ra_signing_key a)"

definition uuid_text :: "string \<Rightarrow> bool" where
  \<comment> \<open>\<^verbatim>\<open>str(uuid.UUID(s)) == s\<close>\<close>
  "uuid_text s =
     fullmatch
       (cats [Rep (Cls is_lower_hex) 8 0, lit ''-'', Rep (Cls is_lower_hex) 4 0, lit ''-'',
              Rep (Cls is_lower_hex) 4 0, lit ''-'', Rep (Cls is_lower_hex) 4 0, lit ''-'',
              Rep (Cls is_lower_hex) 12 0]) s"

definition receipt_directory :: string where
  "receipt_directory = ''trusted-mcp/receipts/''"

definition receipt_file_ok :: "string \<Rightarrow> bool" where
  \<comment> \<open>\<^verbatim>\<open>_receipt_path\<close> accepts: three parts, the last a canonical UUID with the suffix \<^verbatim>\<open>.json\<close>\<close>
  "receipt_file_ok path \<longleftrightarrow>
     \<not> path_absolute path
     \<and> (case path_parts path of
          [a, b, name] \<Rightarrow>
            a = ''trusted-mcp'' \<and> b = ''receipts''
            \<and> name = take (length name - 5) name @ ''.json''
            \<and> uuid_text (take (length name - 5) name)
        | _ \<Rightarrow> False)"

definition signature_matches :: "clock \<Rightarrow> receipt_authority \<Rightarrow> trusted_receipt \<Rightarrow> bool" where
  "signature_matches ck a r \<longleftrightarrow>
     tr_bridge_identity r = ra_bridge_identity a
     \<and> tr_mcp_server_identity r = ra_mcp_server_identity a
     \<and> tr_bridge_signature r
         = Some (hmac_sha256 (ra_signing_key a)
                   (encode_ascii (canonical_json_bytes (JObj (receipt_signed_payload ck r)))))"

definition load_verified_receipt ::
  "clock \<Rightarrow> (string \<Rightarrow> string) \<Rightarrow> file_tree \<Rightarrow> receipt_authority \<Rightarrow> evidence_ref \<Rightarrow> trusted_receipt option" where
  \<comment> \<open>\<open>None\<close> is the \<^verbatim>\<open>ValueError\<close> every failure becomes\<close>
  "load_verified_receipt ck sanitize fs a evidence =
     (if ev_creator evidence \<noteq> ''trusted-mcp-bridge'' \<or> ev_media_type evidence \<noteq> ''application/json''
         \<or> \<not> receipt_file_ok (ev_relative_path evidence) then None
      else
        case read_json_file fs (ev_relative_path evidence) of
          Inl _ \<Rightarrow> None
        | Inr v \<Rightarrow>
            (case trusted_receipt_of_json ck sanitize v of
               None \<Rightarrow> None
             | Some r \<Rightarrow>
                 if tr_relative_path r \<noteq> ev_relative_path evidence
                    \<or> last (path_parts (tr_relative_path r)) \<noteq> tr_receipt_id r @ ''.json''
                    \<or> receipt_content_hash ck r \<noteq> ev_sha256 evidence
                    \<or> \<not> signature_matches ck a r
                 then None else Some r))"

lemma trusted_receipt_of_json_valid:
  "trusted_receipt_of_json ck sanitize v = Some r \<Longrightarrow> trusted_receipt_valid r"
  by (cases v) (auto simp: trusted_receipt_of_json_def Option.bind_eq_Some_conv Let_def
      split: if_splits)

lemma load_verified_receipt_Some:
  assumes "load_verified_receipt ck sanitize fs a evidence = Some r"
  shows "trusted_receipt_valid r" "tr_relative_path r = ev_relative_path evidence"
    "receipt_content_hash ck r = ev_sha256 evidence" "signature_matches ck a r"
    "ev_creator evidence = ''trusted-mcp-bridge''" "ev_media_type evidence = ''application/json''"
  using assms trusted_receipt_of_json_valid
  by (auto simp: load_verified_receipt_def split: if_splits sum.splits option.splits)

end
