(* ===== verification/State_Transition.thy ===== *)
theory State_Transition
  imports Receipts
begin

section \<open>Which states may follow a state\<close>

text \<open>
  \<^verbatim>\<open>RunStateStore._validate_transition\<close> of \<^verbatim>\<open>src/auto_code/state.py\<close> with every
  check it calls, in the order of the source.  \<open>store_env\<close> holds what comes from
  outside the repository's own code (the JSON dump of a run state and the validation of
  such JSON, datetime texts, the sanitizer, Ed25519) and how the store is configured (the authorization verifier, the
  receipt authority); \<open>store_view\<close> is what one transition reads of the disk.
\<close>

record store_env =
  se_clock :: clock
  se_sanitize :: "string \<Rightarrow> string"
  se_dump :: "run_state \<Rightarrow> json"
  se_parse :: "json \<Rightarrow> run_state option"
  se_ed25519 :: signature_check
  se_verifier :: "(human_authorization \<Rightarrow> authorization_action \<Rightarrow> bool) option"
  se_authority :: "receipt_authority option"

definition clean_of :: "store_env \<Rightarrow> string \<Rightarrow> bool" where
  "clean_of env t \<longleftrightarrow> se_sanitize env t = t"

definition state_hash_of :: "store_env \<Rightarrow> run_state \<Rightarrow> string" where
  "state_hash_of env s = hash_json (se_dump env s)"

record state_generation =
  sg_revision :: int
  sg_state_hash :: string
  sg_state :: run_state

definition create_generation :: "store_env \<Rightarrow> int \<Rightarrow> run_state \<Rightarrow> state_generation" where
  "create_generation env revision s =
     \<lparr>sg_revision = revision, sg_state_hash = state_hash_of env s, sg_state = s\<rparr>"

record store_view =
  sv_env :: store_env
  sv_files :: file_tree
  sv_run_id :: string
  sv_binding :: "store_error + string option"               \<comment> \<open>the bound repository, if any\<close>
  sv_load :: "int \<Rightarrow> string \<Rightarrow> state_generation option"    \<comment> \<open>\<^verbatim>\<open>_load_generation_locked\<close>\<close>

datatype transition_error =
    Unsafe_Persisted | Contract_Violated | Unsafe_Identifier | Foreign_Run | Foreign_Repository
  | Binding_Corrupt | Initial_State_Invalid
  | Pending_Own_Event | Pending_Replaced | Pending_Untrusted | Pending_Predecessor | Pending_Unmatched
  | Immutable_Field | Binding_Presence | Immutable_Binding | Branch_Changed | Branch_Binding_Changed
  | Manifest_Substituted | Prefix_Lost | Terminal_Immutable
  | Authorization_Misplaced | Authorization_Untrusted
  | Repair_Unverified
  | Iteration_Decreased | Iteration_Not_Opened | Iteration_Uncounted
  | Task_Initially_Checked | Task_Cleared | Task_Unchecked | Task_Status_Kept | Task_Dependents_Kept
  | Task_Stages_Kept
  | Disposition_Not_Allowed | Done_Not_Approved | Done_Evidence_Mismatch | Done_Release_Unbound
  | Abandon_Unauthorized | Resume_Unauthorized | Restart_Unproved | Waiting_Unreconciled
  | Runner_Changed | Phase_Not_Allowed | Confirmation_Untrusted | Compensation_Cleared
  | Compensation_Untrusted | Compensation_Pending | Compensation_Inactive | Compensation_Without_Failure
  | Resume_Without_Reset | Reset_Unauthorized | Reset_Pending | Reset_Without_Restore

type_synonym checks = "(bool \<times> transition_error) list"

definition appended :: "'a list \<Rightarrow> 'a list \<Rightarrow> 'a list" where
  "appended old new = drop (length old) new"

subsection \<open>The initial state\<close>

definition initial_snapshot :: "run_state \<Rightarrow> run_state" where
  \<comment> \<open>\<^verbatim>\<open>RunState(**values)\<close>: the defaults with the values the source copies\<close>
  "initial_snapshot s =
     (let s0 = new_run_state (run_id s) (ticket_id s) (repository_id s) (max_crew_iterations s);
          s1 = (if has_preparation_binding s then
                  s0\<lparr>project_policy_hash := project_policy_hash s,
                     preparation_input_ref := preparation_input_ref s,
                     preparation_input_hash := preparation_input_hash s,
                     ticket_snapshot_hash := ticket_snapshot_hash s,
                     compatibility_receipt_hash := compatibility_receipt_hash s,
                     compatibility_receipt_ref := compatibility_receipt_ref s,
                     runner_identity := runner_identity s\<rparr>
                else s0);
          s2 = (if repair_activation_public_key s \<noteq> None then
                  s1\<lparr>repair_activation_public_key := repair_activation_public_key s,
                     repair_activation_public_key_hash := repair_activation_public_key_hash s\<rparr>
                else s1);
          s3 = (if finalization_public_key s \<noteq> None then
                  s2\<lparr>finalization_public_key := finalization_public_key s,
                     finalization_public_key_hash := finalization_public_key_hash s\<rparr>
                else s2)
      in if preparation_phase s = SELECTED \<and> disposition s = HUMAN_REVIEW
         then s3\<lparr>disposition := HUMAN_REVIEW\<rparr> else s3)"

definition initial_state_ok :: "store_env \<Rightarrow> run_state \<Rightarrow> bool" where
  "initial_state_ok env s \<longleftrightarrow>
     (case model_validate (clean_of env) (initial_snapshot s) of Inl _ \<Rightarrow> False | Inr t \<Rightarrow> s = t)"

subsection \<open>Pending requests\<close>

definition new_pending_checks :: "state_generation \<Rightarrow> run_state \<Rightarrow> checks" where
  \<comment> \<open>\<^verbatim>\<open>_require_new_pending_matches_predecessor\<close>\<close>
  "new_pending_checks prev s =
     (case pending_external_request s of
        None \<Rightarrow> []
      | Some p \<Rightarrow>
          [(pr_expected_revision p \<noteq> Some (sg_revision prev)
            \<or> pr_expected_state_hash p \<noteq> Some (sg_state_hash prev), Pending_Predecessor),
           (disposition s \<noteq> WAITING_MCP
            \<or> (case appended (effect_ledger (sg_state prev)) (effect_ledger s) of
                 [Effect_Intention eid _ _ payload] \<Rightarrow>
                   eid \<noteq> pr_effect_id p \<or> ip_operation payload \<noteq> pr_operation p
                   \<or> lower (ip_request_hash payload) \<noteq> lower (pr_request_hash p)
               | _ \<Rightarrow> True), Pending_Unmatched)])"

definition trusted_evidence :: "evidence_ref list \<Rightarrow> evidence_ref list \<Rightarrow> string option \<Rightarrow> evidence_ref option" where
  \<comment> \<open>the one evidence reference that observation and reconciliation share\<close>
  "trusted_evidence observed reconciled receipt_hash =
     (case observed of
        [e] \<Rightarrow>
          (if reconciled \<noteq> observed \<or> ev_creator e \<noteq> ''trusted-mcp-bridge''
              \<or> ev_media_type e \<noteq> ''application/json'' \<or> receipt_hash \<noteq> Some (ev_sha256 e)
           then None else Some e)
      | _ \<Rightarrow> None)"

definition load_receipt :: "store_view \<Rightarrow> evidence_ref \<Rightarrow> trusted_receipt option" where
  "load_receipt view e =
     (case se_authority (sv_env view) of
        None \<Rightarrow> None
      | Some a \<Rightarrow>
          load_verified_receipt (se_clock (sv_env view)) (se_sanitize (sv_env view)) (sv_files view) a e)"

definition receipt_answers ::
  "store_env \<Rightarrow> run_state \<Rightarrow> run_state \<Rightarrow> pending_request \<Rightarrow> trusted_receipt \<Rightarrow> evidence_ref
   \<Rightarrow> effect_event \<Rightarrow> effect_event \<Rightarrow> effect_event \<Rightarrow> bool" where
  "receipt_answers env previous s p r e invocation observation reconciliation \<longleftrightarrow>
     (case validate_effect_ledger previous of
        Inl _ \<Rightarrow> False
      | Inr (intentions, _) \<Rightarrow>
          (case map_of intentions (pr_effect_id p) of
             None \<Rightarrow> False
           | Some intention \<Rightarrow>
               \<not> (ip_operation (intention_payload intention) \<noteq> pr_operation p
                  \<or> ip_target (intention_payload intention) \<noteq> tr_target r
                  \<or> lower (ip_request_hash (intention_payload intention)) \<noteq> lower (pr_request_hash p)
                  \<or> receipt_content_hash (se_clock env) r \<noteq> ev_sha256 e
                  \<or> tr_relative_path r \<noteq> ev_relative_path e
                  \<or> tr_run_id r \<noteq> run_id s
                  \<or> tr_request_id r \<noteq> pr_request_id p
                  \<or> tr_effect_id r \<noteq> pr_effect_id p
                  \<or> lower (tr_request_hash r) \<noteq> lower (pr_request_hash p)
                  \<or> Some (tr_effect_hash r) \<noteq> pr_effect_hash p
                  \<or> tr_operation r \<noteq> pr_operation p
                  \<or> Some (tr_expected_revision r) \<noteq> pr_expected_revision p
                  \<or> Some (tr_expected_state_hash r) \<noteq> pr_expected_state_hash p
                  \<or> tr_expected_external_revision r \<noteq> pr_expected_external_revision p
                  \<or> Some (tr_payload_hash r) \<noteq> pr_payload_hash p
                  \<or> tr_outcome r \<noteq> op_outcome (observation_payload observation)
                  \<or> event_timestamp invocation \<noteq> tr_observed_at r
                  \<or> event_timestamp observation \<noteq> tr_observed_at r
                  \<or> event_timestamp reconciliation \<noteq> tr_observed_at r
                  \<or> op_external_revision (observation_payload observation) \<noteq> tr_external_revision r)))"

definition authenticated_reconciliation ::
  "store_view \<Rightarrow> run_state \<Rightarrow> run_state \<Rightarrow> trusted_receipt option" where
  \<comment> \<open>\<^verbatim>\<open>_require_authenticated_pending_reconciliation\<close>; \<open>None\<close> is the exception\<close>
  "authenticated_reconciliation view previous s =
     (case (pending_external_request previous, pending_external_request s,
            appended (effect_ledger previous) (effect_ledger s)) of
        (Some p, None, [Effect_Invocation i1 n1 t1 invoked, Effect_Observation i2 n2 t2 observed,
                        Effect_Reconciliation i3 n3 t3 reconciled]) \<Rightarrow>
          (if iv_wait_seconds invoked < 0
              \<or> i1 \<noteq> pr_effect_id p \<or> i2 \<noteq> pr_effect_id p \<or> i3 \<noteq> pr_effect_id p
              \<or> n1 \<noteq> event_sequence (last (effect_ledger previous)) + 1
              \<or> n2 \<noteq> n1 + 1 \<or> n3 \<noteq> n2 + 1
              \<or> op_outcome observed \<noteq> rp_outcome reconciled
           then None
           else case trusted_evidence (op_evidence_refs observed) (rp_evidence_refs reconciled)
                       (rp_receipt_hash reconciled) of
               None \<Rightarrow> None
             | Some e \<Rightarrow>
                 (case load_receipt view e of
                    None \<Rightarrow> None
                  | Some r \<Rightarrow>
                      if receipt_answers (sv_env view) previous s p r e
                           (Effect_Invocation i1 n1 t1 invoked) (Effect_Observation i2 n2 t2 observed)
                           (Effect_Reconciliation i3 n3 t3 reconciled)
                      then Some r else None))
      | _ \<Rightarrow> None)"

definition pending_lifecycle_checks :: "store_view \<Rightarrow> state_generation \<Rightarrow> run_state \<Rightarrow> checks" where
  "pending_lifecycle_checks view prev s =
     (let previous = sg_state prev in
      case pending_external_request previous of
        None \<Rightarrow> new_pending_checks prev s
      | Some p \<Rightarrow>
          if pending_external_request s = Some p then
            [(list_ex (\<lambda>e. event_effect_id e = pr_effect_id p)
                (appended (effect_ledger previous) (effect_ledger s)), Pending_Own_Event)]
          else
            [(pending_external_request s \<noteq> None, Pending_Replaced),
             (authenticated_reconciliation view previous s = None, Pending_Untrusted)])"

subsection \<open>Fields that never change, histories that only grow\<close>

definition immutable_checks :: "run_state \<Rightarrow> run_state \<Rightarrow> checks" where
  "immutable_checks previous s =
     [(run_id previous \<noteq> run_id s
       \<or> ticket_id previous \<noteq> ticket_id s
       \<or> repository_id previous \<noteq> repository_id s
       \<or> max_crew_iterations previous \<noteq> max_crew_iterations s
       \<or> repair_activation_public_key previous \<noteq> repair_activation_public_key s
       \<or> repair_activation_public_key_hash previous \<noteq> repair_activation_public_key_hash s
       \<or> finalization_public_key previous \<noteq> finalization_public_key s
       \<or> finalization_public_key_hash previous \<noteq> finalization_public_key_hash s, Immutable_Field),
      (has_preparation_binding previous \<noteq> has_preparation_binding s, Binding_Presence),
      (has_preparation_binding previous
       \<and> (project_policy_hash previous \<noteq> project_policy_hash s
          \<or> preparation_input_ref previous \<noteq> preparation_input_ref s
          \<or> preparation_input_hash previous \<noteq> preparation_input_hash s
          \<or> ticket_snapshot_hash previous \<noteq> ticket_snapshot_hash s
          \<or> compatibility_receipt_hash previous \<noteq> compatibility_receipt_hash s
          \<or> compatibility_receipt_ref previous \<noteq> compatibility_receipt_ref s), Immutable_Binding),
      (branch previous \<noteq> None \<and> branch s \<noteq> branch previous, Branch_Changed),
      (branch_binding previous \<noteq> None \<and> branch_binding s \<noteq> branch_binding previous,
       Branch_Binding_Changed),
      (product_change_manifest previous \<noteq> None \<and> product_change_manifest s \<noteq> None
       \<and> (product_change_manifest previous \<noteq> product_change_manifest s
          \<or> product_change_manifest_hash previous \<noteq> product_change_manifest_hash s),
       Manifest_Substituted),
      (\<not> is_prefix (effect_ledger previous) (effect_ledger s), Prefix_Lost),
      (\<not> is_prefix (failure_history previous) (failure_history s), Prefix_Lost),
      (\<not> is_prefix (human_authorizations previous) (human_authorizations s), Prefix_Lost)]"

subsection \<open>Terminal states\<close>

definition exact_release_marker ::
  "store_view \<Rightarrow> state_generation \<Rightarrow> run_state \<Rightarrow> contract_error + bool" where
  "exact_release_marker view prev s =
     (let previous = sg_state prev in
      case (finalization_index_release_binding previous, finalization_index_release_receipt s,
            finalization_public_key previous, finalization_public_key_hash previous) of
        (Some binding, Some receipt, Some key, Some key_hash) \<Rightarrow>
          bind_result
            (model_copy (clean_of (sv_env view))
               (\<lambda>t. t\<lparr>finalization_index_released := True,
                      finalization_index_release_receipt := Some receipt\<rparr>) previous)
            (\<lambda>marker. Inr
               (receipt_signature_ok (se_ed25519 (sv_env view)) receipt key key_hash
                \<and> s = marker \<and> receipt_matches receipt (receipt_for binding (sg_state_hash prev))))
      | _ \<Rightarrow> Inr False)"

definition escalated :: "run_state \<Rightarrow> run_state \<Rightarrow> run_state" where
  "escalated previous s =
     previous\<lparr>disposition := HUMAN_REVIEW, failure_history := failure_history s\<rparr>"

definition terminal_transition ::
  "store_view \<Rightarrow> state_generation \<Rightarrow> run_state \<Rightarrow> transition_error + run_state" where
  "terminal_transition view prev s =
     (let previous = sg_state prev;
          unchanged = (if s \<noteq> previous then Inl Terminal_Immutable else Inr s)
      in if disposition previous \<noteq> DONE then unchanged
         else case (if finalization_index_released previous then Inr False
                    else exact_release_marker view prev s) of
             Inl _ \<Rightarrow> Inl Contract_Violated
           | Inr True \<Rightarrow> Inr s
           | Inr False \<Rightarrow>
               (case model_copy (clean_of (sv_env view)) (\<lambda>t. escalated t s) previous of
                  Inl _ \<Rightarrow> Inl Contract_Violated
                | Inr copy \<Rightarrow>
                    if \<not> finalization_index_released previous \<and> s = copy
                       \<and> length (failure_history s) = length (failure_history previous) + 1
                    then Inr s else unchanged))"

subsection \<open>Repair activation\<close>

primrec failure_class_value :: "failure_class \<Rightarrow> string" where
  "failure_class_value PRODUCT = ''product''"
| "failure_class_value INVALID_OUTPUT = ''invalid_output''"
| "failure_class_value ORCHESTRATION = ''orchestration''"
| "failure_class_value AMBIGUITY = ''ambiguity''"
| "failure_class_value BUDGET_EXHAUSTED = ''budget_exhausted''"

primrec failure_source_value :: "failure_source \<Rightarrow> string" where
  "failure_source_value FS_PREFLIGHT = ''preflight''"
| "failure_source_value FS_TRANSPORT = ''transport''"
| "failure_source_value FS_ARTIFACT = ''artifact''"
| "failure_source_value FS_VERIFICATION = ''verification''"
| "failure_source_value FS_BROWSER = ''browser''"
| "failure_source_value FS_REVIEW = ''review''"
| "failure_source_value FS_FINALIZATION = ''finalization''"
| "failure_source_value FS_SUPERVISOR = ''supervisor''"

primrec finding_kind_value :: "finding_kind \<Rightarrow> string" where
  "finding_kind_value IMPLEMENTATION_MISMATCH = ''implementation_mismatch''"
| "finding_kind_value SCENARIO_MISMATCH = ''scenario_mismatch''"
| "finding_kind_value ARTIFACT_MISMATCH = ''artifact_mismatch''"
| "finding_kind_value REQUIREMENTS_MISMATCH = ''requirements_mismatch''"
| "finding_kind_value INVALID_UNIT_OUTPUT = ''invalid_unit_output''"
| "finding_kind_value INVALID_ROUTING = ''invalid_routing''"

definition failure_json :: "failure_record \<Rightarrow> json" where
  "failure_json f =
     JObj [(''failure_class'', JStr (failure_class_value (fr_class f))),
           (''failure_source'', JStr (failure_source_value (fr_source f))),
           (''finding_kind'', JStr (finding_kind_value (fr_finding f))),
           (''owner_stage'', json_opt (map_option stage_value (fr_owner_stage f))),
           (''cited_ids'', JList (map JStr (fr_cited_ids f))),
           (''evidence_refs'', JList (map evidence_json (fr_evidence_refs f))),
           (''observed_revision'', (case fr_observed_revision f of None \<Rightarrow> JNull | Some n \<Rightarrow> JInt n))]"

definition activation_binds ::
  "store_env \<Rightarrow> state_generation \<Rightarrow> run_state \<Rightarrow> activation_receipt \<Rightarrow> selection_proof \<Rightarrow> bool" where
  "activation_binds env prev s r p \<longleftrightarrow>
     (let old = sg_state prev; receipt_hash = activation_content_hash (se_clock env) r in
      \<not> (Some receipt_hash \<noteq> restart_receipt_hash s
         \<or> Some (pa_request_hash r) \<noteq> restart_receipt_request_hash s
         \<or> pa_run_id r \<noteq> run_id old
         \<or> pa_expected_revision r \<noteq> sg_revision prev
         \<or> pa_expected_state_hash r \<noteq> sg_state_hash prev
         \<or> pa_failure_hash r \<noteq> hash_json (failure_json (last (failure_history old)))
         \<or> Some (pa_old_runner_identity r) \<noteq> runner_identity old
         \<or> Some (pa_new_runner_identity r) \<noteq> runner_identity s
         \<or> Some (pa_project_policy_hash r) \<noteq> project_policy_hash old
         \<or> Some (at_activation_public_key_hash r) \<noteq> repair_activation_public_key_hash old
         \<or> Some (sp_activation_public_key_hash p) \<noteq> repair_activation_public_key_hash old
         \<or> sp_activation_receipt_hash p \<noteq> receipt_hash
         \<or> sp_request_hash p \<noteq> pa_request_hash r
         \<or> sp_run_id p \<noteq> pa_run_id r
         \<or> sp_expected_revision p \<noteq> pa_expected_revision r
         \<or> sp_expected_state_hash p \<noteq> pa_expected_state_hash r
         \<or> sp_failure_hash p \<noteq> pa_failure_hash r
         \<or> sp_old_runner_identity p \<noteq> pa_old_runner_identity r
         \<or> sp_new_runner_identity p \<noteq> pa_new_runner_identity r))"

definition repair_activation_verified :: "store_env \<Rightarrow> state_generation \<Rightarrow> run_state \<Rightarrow> bool" where
  \<comment> \<open>\<^verbatim>\<open>_verify_repair_activation\<close>\<close>
  "repair_activation_verified env prev s \<longleftrightarrow>
     (let old = sg_state prev in
      if restart_receipt_request_hash s = None \<or> restart_receipt_hash s = None
         \<or> runner_identity old = None \<or> runner_identity s = None \<or> failure_history old = []
      then False
      else case (repair_activation_public_key old, repair_activation_public_key_hash old,
                 repair_activation_receipt s, repair_activation_selection_proof s) of
          (Some key_text, Some key_hash, Some receipt_text, Some proof_text) \<Rightarrow>
            (case (fromhex key_text, read_canonical_json receipt_text, read_canonical_json proof_text) of
               (Some key, Some receipt_value, Some proof_value) \<Rightarrow>
                 hexdigest key = key_hash
                 \<and> (case (activation_of_json (se_clock env) receipt_value,
                          selection_of_json (se_clock env) proof_value) of
                      (Some r, Some p) \<Rightarrow>
                        activation_signature_ok (se_ed25519 env) (se_clock env) r key
                        \<and> selection_signature_ok (se_ed25519 env) (se_clock env) p key
                        \<and> activation_binds env prev s r p
                    | _ \<Rightarrow> False)
             | _ \<Rightarrow> False)
        | _ \<Rightarrow> False)"

subsection \<open>Authorizations\<close>

definition is_trusted_authorization ::
  "store_env \<Rightarrow> human_authorization \<Rightarrow> authorization_action \<Rightarrow> bool" where
  "is_trusted_authorization env a action \<longleftrightarrow>
     ha_action a = action
     \<and> (case ha_consumed_at a of
          None \<Rightarrow> False
        | Some t \<Rightarrow> ha_issued_at a \<le> t \<and> t \<le> ha_expires_at a)
     \<and> (case se_verifier env of None \<Rightarrow> False | Some verify \<Rightarrow> verify a action)"

definition required_action :: "run_state \<Rightarrow> run_state \<Rightarrow> authorization_action option" where
  "required_action previous s =
     (if disposition previous = HUMAN_REVIEW \<and> disposition s = ACTIVE then Some RESUME
      else if disposition previous = HUMAN_REVIEW \<and> disposition s = ABANDONED then Some ABANDON
      else None)"

definition new_authorizations :: "run_state \<Rightarrow> run_state \<Rightarrow> human_authorization list" where
  "new_authorizations previous s = appended (human_authorizations previous) (human_authorizations s)"

definition authorization_checks :: "store_env \<Rightarrow> run_state \<Rightarrow> run_state \<Rightarrow> checks" where
  \<comment> \<open>\<^verbatim>\<open>_validate_appended_authorizations\<close>\<close>
  "authorization_checks env previous s =
     (case new_authorizations previous s of
        [] \<Rightarrow> []
      | a # rest \<Rightarrow>
          (case required_action previous s of
             None \<Rightarrow> [(True, Authorization_Misplaced)]
           | Some action \<Rightarrow>
               [(rest \<noteq> [] \<or> ha_action a \<noteq> action, Authorization_Misplaced),
                (\<not> is_trusted_authorization env a action, Authorization_Untrusted)]))"

definition single_authorization :: "run_state \<Rightarrow> run_state \<Rightarrow> authorization_action \<Rightarrow> bool" where
  \<comment> \<open>\<^verbatim>\<open>len(appended_authorizations) == 1 and appended_authorizations[0].action is action\<close>\<close>
  "single_authorization previous s action \<longleftrightarrow> map ha_action (new_authorizations previous s) = [action]"

subsection \<open>Iterations and tasks\<close>

definition iteration_transition_checks :: "run_state \<Rightarrow> run_state \<Rightarrow> checks" where
  "iteration_transition_checks previous s =
     [(crew_iteration_count s < crew_iteration_count previous, Iteration_Decreased),
      (crew_iteration_count s > crew_iteration_count previous
       \<and> (crew_iteration_count s \<noteq> crew_iteration_count previous + 1
          \<or> \<not> can_start_iteration previous \<or> \<not> iteration_open s), Iteration_Not_Opened),
      (crew_iteration_count s = crew_iteration_count previous
       \<and> \<not> iteration_open previous \<and> iteration_open s, Iteration_Uncounted)]"

definition status_of :: "task_status_manifest \<Rightarrow> string \<Rightarrow> unit_status option" where
  "status_of m = map_of (rev (map (\<lambda>t. (ts_task_id t, ts_status t)) (tsm_statuses m)))"

definition dependent_state_clear :: "run_state \<Rightarrow> bool" where
  "dependent_state_clear s \<longleftrightarrow>
     product_change_manifest s = None \<and> product_change_manifest_hash s = None
     \<and> build_identity s = None \<and> verification_result s = None \<and> browser_result s = None
     \<and> review_manifest s = None \<and> review_result s = None
     \<and> prefinalization_ticket_projection s = None \<and> commit_sha s = None \<and> pushed_sha s = None
     \<and> linear_done_receipt s = None \<and> finalization s = None \<and> finalization_evidence s = None
     \<and> \<not> finalization_eligible s"

definition task_transition_checks :: "run_state \<Rightarrow> run_state \<Rightarrow> checks" where
  "task_transition_checks previous s =
     (if task_definition_manifest previous = task_definition_manifest s then
        (case task_status_manifest previous of
           None \<Rightarrow>
             (case task_status_manifest s of
                None \<Rightarrow> []
              | Some statuses \<Rightarrow>
                  [(list_ex (\<lambda>t. ts_status t = CHECKED) (tsm_statuses statuses), Task_Initially_Checked)])
         | Some old \<Rightarrow>
             (case task_status_manifest s of
                None \<Rightarrow> [(True, Task_Cleared)]
              | Some new \<Rightarrow>
                  [(list_ex (\<lambda>tid. status_of old tid = Some CHECKED \<and> status_of new tid \<noteq> Some CHECKED)
                      (map ts_task_id (tsm_statuses old)), Task_Unchecked)]))
      else
        (let invalidated = {PROGRAMMER, VERIFICATION, TESTER, REVIEWER}
               \<union> (if task_definition_manifest previous \<noteq> None then {ARCHITECT_TASKS} else {})
         in [(task_status_manifest s \<noteq> None, Task_Status_Kept),
             (\<not> dependent_state_clear s, Task_Dependents_Kept),
             (list_ex (\<lambda>st. st \<in> invalidated \<and> checkpoints s st \<noteq> None) all_stages
              \<or> list_ex (\<lambda>out. so_stage out \<in> invalidated) (stage_outputs s), Task_Stages_Kept)]))"

subsection \<open>Dispositions\<close>

primrec allowed_dispositions :: "run_disposition \<Rightarrow> run_disposition set" where
  "allowed_dispositions ACTIVE = {ACTIVE, WAITING_MCP, REPAIR_REQUIRED, HUMAN_REVIEW, DONE}"
| "allowed_dispositions WAITING_MCP = {WAITING_MCP, ACTIVE, REPAIR_REQUIRED, HUMAN_REVIEW}"
| "allowed_dispositions REPAIR_REQUIRED = {REPAIR_REQUIRED, ACTIVE, HUMAN_REVIEW}"
| "allowed_dispositions HUMAN_REVIEW = {HUMAN_REVIEW, ACTIVE, ABANDONED}"
| "allowed_dispositions DONE = {}"
| "allowed_dispositions ABANDONED = {}"

definition done_checks :: "run_state \<Rightarrow> run_state \<Rightarrow> checks" where
  \<comment> \<open>\<^verbatim>\<open>_validate_done_transition\<close>\<close>
  "done_checks previous s =
     [(disposition previous \<noteq> ACTIVE \<or> iteration_open previous \<or> iteration_open s
       \<or> \<not> finalization_eligible previous \<or> \<not> finalization_eligible s
       \<or> review_manifest previous = None \<or> review_result previous = None
       \<or> pending_external_request previous \<noteq> None
       \<or> finalization_evidence s = None
       \<or> new_authorizations previous s \<noteq> [], Done_Not_Approved),
      (prefinalization_ticket_projection s \<noteq> map_option fe_prefinalization_ticket_projection (finalization_evidence s)
       \<or> commit_sha s \<noteq> map_option fe_commit_sha (finalization_evidence s)
       \<or> pushed_sha s \<noteq> map_option fe_pushed_sha (finalization_evidence s)
       \<or> linear_done_receipt s \<noteq> map_option fe_linear_done_receipt (finalization_evidence s),
       Done_Evidence_Mismatch),
      (finalization_index_release_receipt s \<noteq> None \<or> finalization_index_released s
       \<or> map_option ib_repository_id (finalization_index_release_binding s) \<noteq> Some (repository_id s)
       \<or> map_option ib_run_id (finalization_index_release_binding s) \<noteq> Some (run_id s),
       Done_Release_Unbound)]"

definition phase_of :: "run_state \<Rightarrow> string \<Rightarrow> effect_phase option" where
  "phase_of s eid = (case validate_effect_ledger s of Inl _ \<Rightarrow> None | Inr (_, phases) \<Rightarrow> phases eid)"

definition waiting_resume_ok :: "run_state \<Rightarrow> run_state \<Rightarrow> bool" where
  "waiting_resume_ok previous s \<longleftrightarrow>
     new_authorizations previous s = []
     \<and> authorized_iteration_limit s = authorized_iteration_limit previous
     \<and> pending_external_request s = None
     \<and> (case pending_external_request previous of
          None \<Rightarrow> False | Some p \<Rightarrow> phase_of s (pr_effect_id p) = Some Phase_Reconciled)"

definition restart_ok :: "run_state \<Rightarrow> run_state \<Rightarrow> bool" where
  "restart_ok previous s \<longleftrightarrow>
     new_authorizations previous s = []
     \<and> authorized_iteration_limit s = authorized_iteration_limit previous
     \<and> runner_identity previous \<noteq> None \<and> runner_identity s \<noteq> None
     \<and> map_option ri_content_hash (runner_identity previous) \<noteq> map_option ri_content_hash (runner_identity s)
     \<and> restart_receipt_hash s \<noteq> None \<and> restart_receipt_hash s \<noteq> restart_receipt_hash previous"

definition disposition_checks :: "run_state \<Rightarrow> run_state \<Rightarrow> checks" where
  "disposition_checks previous s =
     (disposition s \<notin> allowed_dispositions (disposition previous), Disposition_Not_Allowed)
     # (if disposition previous = disposition s then
          [(new_authorizations previous s \<noteq> [], Authorization_Misplaced)]
        else if disposition s = DONE then done_checks previous s
        else if disposition s = ABANDONED then
          [(disposition previous \<noteq> HUMAN_REVIEW \<or> \<not> single_authorization previous s ABANDON,
            Abandon_Unauthorized)]
        else if disposition previous = HUMAN_REVIEW \<and> disposition s = ACTIVE then
          [(\<not> single_authorization previous s RESUME, Resume_Unauthorized)]
        else if disposition previous = REPAIR_REQUIRED \<and> disposition s = ACTIVE then
          [(\<not> restart_ok previous s, Restart_Unproved)]
        else if disposition previous = WAITING_MCP \<and> disposition s = ACTIVE then
          [(\<not> waiting_resume_ok previous s, Waiting_Unreconciled)]
        else [(new_authorizations previous s \<noteq> [], Authorization_Misplaced)])"

subsection \<open>Preparation\<close>

primrec allowed_phases :: "preparation_phase \<Rightarrow> preparation_phase set" where
  "allowed_phases SELECTED = {SELECTED, IN_PROGRESS_REQUESTED}"
| "allowed_phases IN_PROGRESS_REQUESTED = {IN_PROGRESS_REQUESTED, IN_PROGRESS_CONFIRMED}"
| "allowed_phases IN_PROGRESS_CONFIRMED =
     {IN_PROGRESS_CONFIRMED, BRANCH_CREATED, COMPENSATION_REQUIRED}"
| "allowed_phases BRANCH_CREATED = {BRANCH_CREATED, READY}"
| "allowed_phases READY = {READY}"
| "allowed_phases COMPENSATION_REQUIRED = {COMPENSATION_REQUIRED, SELECTED}"

definition restore_started_from_active ::  "store_view \<Rightarrow> trusted_receipt \<Rightarrow> bool" where
  \<comment> \<open>\<^verbatim>\<open>_restore_receipt_started_from_active_compensation\<close>\<close>
  "restore_started_from_active view r \<longleftrightarrow>
     (case sv_load view (tr_expected_revision r) (tr_expected_state_hash r) of
        None \<Rightarrow> False
      | Some g \<Rightarrow>
          preparation_phase (sg_state g) = COMPENSATION_REQUIRED \<and> disposition (sg_state g) = ACTIVE)"

definition authenticated_receipt_for ::
  "store_view \<Rightarrow> run_state \<Rightarrow> run_state \<Rightarrow> string \<Rightarrow> effect_outcome \<Rightarrow> bool" where
  \<comment> \<open>\<^verbatim>\<open>_has_authenticated_receipt_reconciliation\<close>\<close>
  "authenticated_receipt_for view previous s operation outcome \<longleftrightarrow>
     (case authenticated_reconciliation view previous s of
        None \<Rightarrow> False
      | Some r \<Rightarrow>
          \<not> (tr_operation r \<noteq> operation \<or> tr_outcome r \<noteq> outcome \<or> tr_target r \<noteq> ticket_id s)
          \<and> (operation = ''restore_ticket_state'' \<and> outcome = SUCCESS
               \<longrightarrow> restore_started_from_active view r))"

fun reconciliation_triples :: "effect_event list \<Rightarrow> (effect_event \<times> effect_event \<times> effect_event) list" where
  \<comment> \<open>each reconciliation with the two events before it, in order\<close>
  "reconciliation_triples (a # b # c # rest) =
     (case c of Effect_Reconciliation _ _ _ _ \<Rightarrow> [(a, b, c)] | _ \<Rightarrow> [])
     @ reconciliation_triples (b # c # rest)"
| "reconciliation_triples _ = []"

definition reconciliation_receipt ::
  "store_view \<Rightarrow> run_state \<Rightarrow> (string \<times> effect_event) list
   \<Rightarrow> effect_event \<times> effect_event \<times> effect_event \<Rightarrow> (effect_event \<times> trusted_receipt) option" where
  \<comment> \<open>the loop body of \<^verbatim>\<open>_trusted_receipt_reconciliations\<close>; \<open>None\<close> is \<^verbatim>\<open>continue\<close>\<close>
  "reconciliation_receipt view s intentions triple =
     (case triple of
        (Effect_Invocation i1 n1 t1 invoked, Effect_Observation i2 n2 t2 observed,
         Effect_Reconciliation i3 n3 t3 reconciled) \<Rightarrow>
          (case map_of intentions i3 of
             None \<Rightarrow> None
           | Some intention \<Rightarrow>
               if iv_wait_seconds invoked \<noteq> 0 \<or> i1 \<noteq> i3 \<or> i2 \<noteq> i3
                  \<or> event_sequence intention \<ge> n1 \<or> n2 \<noteq> n1 + 1 \<or> n3 \<noteq> n2 + 1
                  \<or> op_outcome observed \<noteq> rp_outcome reconciled
               then None
               else case trusted_evidence (op_evidence_refs observed) (rp_evidence_refs reconciled)
                           (rp_receipt_hash reconciled) of
                   None \<Rightarrow> None
                 | Some e \<Rightarrow>
                     (case load_receipt view e of
                        None \<Rightarrow> None
                      | Some r \<Rightarrow>
                          if receipt_content_hash (se_clock (sv_env view)) r \<noteq> ev_sha256 e
                             \<or> tr_relative_path r \<noteq> ev_relative_path e
                             \<or> tr_run_id r \<noteq> run_id s
                             \<or> tr_effect_id r \<noteq> i3
                             \<or> tr_operation r \<noteq> ip_operation (intention_payload intention)
                             \<or> tr_target r \<noteq> ip_target (intention_payload intention)
                             \<or> lower (tr_request_hash r)
                                 \<noteq> lower (ip_request_hash (intention_payload intention))
                             \<or> tr_outcome r \<noteq> op_outcome observed
                             \<or> tr_external_revision r \<noteq> op_external_revision observed
                             \<or> t1 \<noteq> tr_observed_at r \<or> t2 \<noteq> tr_observed_at r \<or> t3 \<noteq> tr_observed_at r
                          then None
                          else Some (Effect_Reconciliation i3 n3 t3 reconciled, r)))
      | _ \<Rightarrow> None)"

definition trusted_reconciliations ::
  "store_view \<Rightarrow> run_state \<Rightarrow> (effect_event \<times> trusted_receipt) list" where
  "trusted_reconciliations view s =
     (case (se_authority (sv_env view), validate_effect_ledger s) of
        (Some _, Inr (intentions, _)) \<Rightarrow>
          List.map_filter (reconciliation_receipt view s intentions)
            (reconciliation_triples (effect_ledger s))
      | _ \<Rightarrow> [])"

fun latest_of :: "(effect_event \<times> trusted_receipt) list \<Rightarrow> (effect_event \<times> trusted_receipt) option" where
  \<comment> \<open>\<^verbatim>\<open>max(..., key=sequence, default=None)\<close>\<close>
  "latest_of [] = None"
| "latest_of (x # xs) =
     (case latest_of xs of
        None \<Rightarrow> Some x
      | Some y \<Rightarrow> if event_sequence (fst x) < event_sequence (fst y) then Some y else Some x)"

definition has_current_restore :: "store_view \<Rightarrow> run_state \<Rightarrow> bool" where
  \<comment> \<open>\<^verbatim>\<open>_has_current_preparation_restore\<close>\<close>
  "has_current_restore view s \<longleftrightarrow>
     (case latest_of (filter (\<lambda>(_, r). tr_operation r = ''compare_and_start_ticket''
                                \<and> tr_outcome r = SUCCESS \<and> tr_target r = ticket_id s)
                        (trusted_reconciliations view s)) of
        None \<Rightarrow> False
      | Some (start, _) \<Rightarrow>
          list_ex (\<lambda>(e, r). event_sequence e > event_sequence start
                      \<and> tr_operation r = ''restore_ticket_state'' \<and> tr_outcome r = SUCCESS
                      \<and> tr_target r = ticket_id s \<and> restore_started_from_active view r)
            (trusted_reconciliations view s))"

definition reconciliation_appended ::
  "run_state \<Rightarrow> run_state \<Rightarrow> string \<Rightarrow> effect_outcome \<Rightarrow> bool" where
  "reconciliation_appended previous s operation outcome \<longleftrightarrow>
     (case validate_effect_ledger s of
        Inl _ \<Rightarrow> False
      | Inr (intentions, _) \<Rightarrow>
          list_ex (\<lambda>e. case e of
                Effect_Reconciliation eid _ _ payload \<Rightarrow>
                  rp_outcome payload = outcome
                  \<and> map_option (\<lambda>i. ip_operation (intention_payload i)) (map_of intentions eid) = Some operation
              | _ \<Rightarrow> False)
            (appended (effect_ledger previous) (effect_ledger s)))"

definition preparation_checks :: "store_view \<Rightarrow> run_state \<Rightarrow> run_state \<Rightarrow> checks" where
  "preparation_checks view previous s =
     (if \<not> has_preparation_binding previous then []
      else
        let was = preparation_phase previous; now = preparation_phase s;
            from_d = disposition previous; to_d = disposition s;
            restored = authenticated_receipt_for view previous s ''restore_ticket_state'' SUCCESS
        in
        [(runner_identity previous \<noteq> runner_identity s
          \<and> \<not> (from_d = REPAIR_REQUIRED \<and> to_d = ACTIVE), Runner_Changed),
         (now \<notin> allowed_phases was, Phase_Not_Allowed),
         (was = IN_PROGRESS_REQUESTED \<and> now = IN_PROGRESS_CONFIRMED
          \<and> \<not> authenticated_receipt_for view previous s ''compare_and_start_ticket'' SUCCESS,
          Confirmation_Untrusted),
         (compensated previous \<and> \<not> compensated s, Compensation_Cleared),
         (\<not> compensated previous \<and> compensated s
          \<and> (was \<noteq> COMPENSATION_REQUIRED \<or> now \<noteq> COMPENSATION_REQUIRED \<or> to_d \<noteq> HUMAN_REVIEW
             \<or> \<not> restored), Compensation_Untrusted),
         (compensated s \<and> now = COMPENSATION_REQUIRED \<and> from_d \<noteq> HUMAN_REVIEW
          \<and> to_d = HUMAN_REVIEW \<and> \<not> restored, Compensation_Untrusted)]
        @ (if was = IN_PROGRESS_CONFIRMED \<and> now = COMPENSATION_REQUIRED then
             [(pending_external_request previous \<noteq> None, Compensation_Pending),
              (from_d \<noteq> ACTIVE \<or> to_d \<noteq> ACTIVE, Compensation_Inactive),
              (\<not> reconciliation_appended previous s ''create_ticket_branch'' FAILURE,
               Compensation_Without_Failure)]
           else [])
        @ [(was = COMPENSATION_REQUIRED \<and> from_d = HUMAN_REVIEW \<and> to_d = ACTIVE \<and> now \<noteq> SELECTED,
            Resume_Without_Reset)]
        @ (if was = COMPENSATION_REQUIRED \<and> now = SELECTED then
             [(\<not> compensated previous \<or> \<not> compensated s \<or> from_d \<noteq> HUMAN_REVIEW \<or> to_d \<noteq> ACTIVE
               \<or> \<not> single_authorization previous s RESUME, Reset_Unauthorized),
              (pending_external_request s \<noteq> None, Reset_Pending),
              (\<not> has_current_restore view previous, Reset_Without_Restore)]
           else []))"

subsection \<open>The transition\<close>

definition identifiers_ok :: "run_state \<Rightarrow> bool" where
  "identifiers_ok s \<longleftrightarrow>
     require_identifier (run_id s) \<and> require_identifier (ticket_id s) \<and> require_identifier (repository_id s)"

definition live_checks :: "store_view \<Rightarrow> state_generation \<Rightarrow> run_state \<Rightarrow> checks" where
  "live_checks view prev s =
     (let previous = sg_state prev; env = sv_env view in
      authorization_checks env previous s
      @ [(disposition previous = REPAIR_REQUIRED \<and> disposition s = ACTIVE
          \<and> \<not> repair_activation_verified env prev s, Repair_Unverified)]
      @ iteration_transition_checks previous s
      @ task_transition_checks previous s
      @ disposition_checks previous s
      @ preparation_checks view previous s)"

definition entry_checks :: "store_view \<Rightarrow> run_state \<Rightarrow> checks" where
  "entry_checks view s =
     [(\<not> identifiers_ok s, Unsafe_Identifier),
      (run_id s \<noteq> sv_run_id view, Foreign_Run),
      (\<not> is_ok (sv_binding view), Binding_Corrupt),
      (case sv_binding view of Inr (Some bound) \<Rightarrow> bound \<noteq> repository_id s | _ \<Rightarrow> False,
       Foreign_Repository)]"

definition follow_state ::
  "store_view \<Rightarrow> state_generation option \<Rightarrow> run_state \<Rightarrow> transition_error + run_state" where
  \<comment> \<open>the transition from the previous generation to a validated state\<close>
  "follow_state view prev s =
     (case prev of
        None \<Rightarrow> checked [(\<not> initial_state_ok (sv_env view) s, Initial_State_Invalid)] s
      | Some p \<Rightarrow>
          bind_result
            (checked (pending_lifecycle_checks view p s @ immutable_checks (sg_state p) s) s)
            (\<lambda>_. if disposition (sg_state p) = DONE \<or> disposition (sg_state p) = ABANDONED
                 then terminal_transition view p s
                 else checked (live_checks view p s) s))"

definition validate_transition ::
  "store_view \<Rightarrow> state_generation option \<Rightarrow> run_state \<Rightarrow> transition_error + run_state" where
  \<comment> \<open>the given state is written as JSON, checked and validated again\<close>
  "validate_transition view prev s =
     (if \<not> persisted_ok (se_dump (sv_env view) s) then Inl Unsafe_Persisted
      else case model_validate (clean_of (sv_env view)) s of
          Inl _ \<Rightarrow> Inl Contract_Violated
        | Inr t \<Rightarrow> bind_result (checked (entry_checks view t) t) (\<lambda>_. follow_state view prev t))"

end
