(* ===== verification/Transition_Laws.thy ===== *)
theory Transition_Laws
  imports State_Transition
begin

section \<open>What an accepted transition guarantees\<close>

text \<open>
  \<open>accepts\<close> says that the store takes a state after a generation.  Each law below
  is what one group of checks leaves true of the two states; together they are the
  lifecycle of a run: what is fixed, what only grows, which dispositions follow which,
  and what each of the dangerous steps needs as proof.
\<close>

definition accepts :: "store_view \<Rightarrow> state_generation \<Rightarrow> run_state \<Rightarrow> bool" where
  "accepts view p t \<longleftrightarrow> (\<exists>s. validate_transition view (Some p) s = Inr t)"

definition no_error :: "checks \<Rightarrow> bool" where
  "no_error cs \<longleftrightarrow> first_error cs = None"

lemma no_error_simps [simp]:
  "no_error []" "no_error ((bad, e) # cs) \<longleftrightarrow> \<not> bad \<and> no_error cs"
  "no_error (cs @ ds) \<longleftrightarrow> no_error cs \<and> no_error ds"
  by (simp_all add: no_error_def first_error_appendD)

lemma checked_no_error: "checked cs x = Inr y \<longleftrightarrow> y = x \<and> no_error cs"
  by (auto simp: checked_def no_error_def split: option.splits)

definition is_terminal :: "run_state \<Rightarrow> bool" where
  "is_terminal s \<longleftrightarrow> disposition s = DONE \<or> disposition s = ABANDONED"

lemma copy_eq:
  assumes "model_copy clean f s = Inr t" and "normalize (f s) = f s"
  shows "t = f s"
  using assms by (simp add: model_copy_def model_validate_Inr)

lemma escalated_normal: "normalize p = p \<Longrightarrow> normalize (escalated p s) = escalated p s"
  unfolding normalize_fixed_iff by (simp add: normal_fields_def escalated_def)

definition release_marker :: "run_state \<Rightarrow> index_release_receipt \<Rightarrow> run_state" where
  "release_marker p receipt =
     p\<lparr>finalization_index_released := True, finalization_index_release_receipt := Some receipt\<rparr>"

lemma release_marker_normal: "normalize p = p \<Longrightarrow> normalize (release_marker p r) = release_marker p r"
  unfolding normalize_fixed_iff by (simp add: normal_fields_def release_marker_def)

lemma exact_release_marker_True:
  assumes "normalize (sg_state p) = sg_state p" and "exact_release_marker view p s = Inr True"
  obtains binding receipt key key_hash where
    "finalization_index_release_binding (sg_state p) = Some binding"
    "finalization_public_key (sg_state p) = Some key"
    "finalization_public_key_hash (sg_state p) = Some key_hash"
    "receipt_signature_ok (se_ed25519 (sv_env view)) receipt key key_hash"
    "receipt_matches receipt (receipt_for binding (sg_state_hash p))"
    "s = release_marker (sg_state p) receipt"
  using assms(2)
    copy_eq [where f = "\<lambda>q. release_marker q r" for r, OF _ release_marker_normal [OF assms(1)]]
  by (auto simp: exact_release_marker_def Let_def release_marker_def bind_result_Inr
      split: option.splits)

lemma terminal_transition_Inr:
  assumes "terminal_transition view p s = Inr t" and "normalize (sg_state p) = sg_state p"
  shows "t = s \<and>
    (s = sg_state p
     \<or> disposition (sg_state p) = DONE \<and> \<not> finalization_index_released (sg_state p)
       \<and> (exact_release_marker view p s = Inr True
          \<or> s = escalated (sg_state p) s
            \<and> length (failure_history s) = length (failure_history (sg_state p)) + 1))"
proof (cases "disposition (sg_state p) = DONE")
  case False
  with assms show ?thesis by (auto simp: terminal_transition_def Let_def split: if_splits)
next
  case True
  note copy = copy_eq [where f = "\<lambda>q. escalated q s", OF _ escalated_normal [OF assms(2)]]
  show ?thesis
    using assms(1) True copy
    by (auto simp: terminal_transition_def Let_def split: if_splits sum.splits bool.splits)
qed

lemma validate_transition_Some:
  assumes "validate_transition view (Some p) s = Inr t"
  shows "run_inv (clean_of (sv_env view)) t" "no_error (entry_checks view t)"
    "follow_state view (Some p) t = Inr t"
proof -
  obtain u where u: "model_validate (clean_of (sv_env view)) s = Inr u"
      "bind_result (checked (entry_checks view u) u) (\<lambda>_. follow_state view (Some p) u) = Inr t"
    using assms by (auto simp: validate_transition_def split: if_splits sum.splits)
  then have e: "no_error (entry_checks view u)" "follow_state view (Some p) u = Inr t"
    by (auto simp: bind_result_Inr checked_no_error)
  have "t = u"
    using e(2)
    by (auto simp: follow_state_def bind_result_Inr checked_no_error terminal_transition_def Let_def
        split: if_splits sum.splits bool.splits)
  with u(1) e model_validate_inv show "run_inv (clean_of (sv_env view)) t"
      "no_error (entry_checks view t)" "follow_state view (Some p) t = Inr t" by blast+
qed

lemma accepts_cases:
  assumes "accepts view p t" and "run_inv (clean_of (sv_env view)) (sg_state p)"
  shows "run_inv (clean_of (sv_env view)) t"
    "no_error (pending_lifecycle_checks view p t)"
    "no_error (immutable_checks (sg_state p) t)"
    "\<not> is_terminal (sg_state p) \<and> no_error (live_checks view p t)
     \<or> is_terminal (sg_state p) \<and> terminal_transition view p t = Inr t"
proof -
  obtain s where s: "validate_transition view (Some p) s = Inr t"
    using assms(1) by (auto simp: accepts_def)
  note v = validate_transition_Some [OF s]
  show "run_inv (clean_of (sv_env view)) t" by (rule v(1))
  have "no_error (pending_lifecycle_checks view p t) \<and> no_error (immutable_checks (sg_state p) t)
      \<and> (\<not> is_terminal (sg_state p) \<and> no_error (live_checks view p t)
         \<or> is_terminal (sg_state p) \<and> terminal_transition view p t = Inr t)"
    using v(3)
    by (auto simp: follow_state_def bind_result_Inr checked_no_error is_terminal_def split: if_splits)
  then show "no_error (pending_lifecycle_checks view p t)" "no_error (immutable_checks (sg_state p) t)"
    "\<not> is_terminal (sg_state p) \<and> no_error (live_checks view p t)
     \<or> is_terminal (sg_state p) \<and> terminal_transition view p t = Inr t" by blast+
qed

definition step_ok :: "store_view \<Rightarrow> state_generation \<Rightarrow> run_state \<Rightarrow> bool" where
  \<comment> \<open>an accepted transition from a well-formed state\<close>
  "step_ok view p t \<longleftrightarrow> accepts view p t \<and> run_inv (clean_of (sv_env view)) (sg_state p)"

lemma step_parts:
  assumes "step_ok view p t"
  shows "run_inv (clean_of (sv_env view)) (sg_state p)" "run_inv (clean_of (sv_env view)) t"
    "no_error (pending_lifecycle_checks view p t)" "no_error (immutable_checks (sg_state p) t)"
    "\<not> is_terminal (sg_state p) \<Longrightarrow> no_error (live_checks view p t)"
    "is_terminal (sg_state p) \<Longrightarrow> terminal_transition view p t = Inr t"
  using assms accepts_cases [of view p t] by (auto simp: step_ok_def)

subsection \<open>Identity and history\<close>

definition same_identity :: "run_state \<Rightarrow> run_state \<Rightarrow> bool" where
  "same_identity p t \<longleftrightarrow>
     run_id p = run_id t \<and> ticket_id p = ticket_id t \<and> repository_id p = repository_id t
     \<and> max_crew_iterations p = max_crew_iterations t
     \<and> repair_activation_public_key p = repair_activation_public_key t
     \<and> repair_activation_public_key_hash p = repair_activation_public_key_hash t
     \<and> finalization_public_key p = finalization_public_key t
     \<and> finalization_public_key_hash p = finalization_public_key_hash t
     \<and> has_preparation_binding p = has_preparation_binding t
     \<and> (has_preparation_binding p \<longrightarrow>
          project_policy_hash p = project_policy_hash t
          \<and> preparation_input_ref p = preparation_input_ref t
          \<and> preparation_input_hash p = preparation_input_hash t
          \<and> ticket_snapshot_hash p = ticket_snapshot_hash t
          \<and> compatibility_receipt_hash p = compatibility_receipt_hash t
          \<and> compatibility_receipt_ref p = compatibility_receipt_ref t)"

definition history_grows :: "run_state \<Rightarrow> run_state \<Rightarrow> bool" where
  "history_grows p t \<longleftrightarrow>
     is_prefix (effect_ledger p) (effect_ledger t)
     \<and> is_prefix (failure_history p) (failure_history t)
     \<and> is_prefix (human_authorizations p) (human_authorizations t)
     \<and> (branch p \<noteq> None \<longrightarrow> branch t = branch p)
     \<and> (branch_binding p \<noteq> None \<longrightarrow> branch_binding t = branch_binding p)"

lemma same_identity_refl [simp]: "same_identity s s"
  by (simp add: same_identity_def)

lemma same_identity_trans: "same_identity a b \<Longrightarrow> same_identity b c \<Longrightarrow> same_identity a c"
  unfolding same_identity_def by simp

lemma history_grows_refl [simp]: "history_grows s s"
  by (simp add: history_grows_def)

lemma history_grows_trans: "history_grows a b \<Longrightarrow> history_grows b c \<Longrightarrow> history_grows a c"
  unfolding history_grows_def by (metis is_prefix_trans)

lemma step_identity: "step_ok view p t \<Longrightarrow> same_identity (sg_state p) t"
  using step_parts(4) [of view p t] by (auto simp: immutable_checks_def same_identity_def)

lemma step_history: "step_ok view p t \<Longrightarrow> history_grows (sg_state p) t"
  using step_parts(4) [of view p t] by (auto simp: immutable_checks_def history_grows_def)

subsection \<open>Terminal states\<close>

lemma step_terminal:
  assumes "step_ok view p t" and "is_terminal (sg_state p)"
  shows "t = sg_state p
     \<or> disposition (sg_state p) = DONE \<and> \<not> finalization_index_released (sg_state p)
       \<and> ((\<exists>receipt. t = release_marker (sg_state p) receipt)
          \<or> t = escalated (sg_state p) t
            \<and> length (failure_history t) = length (failure_history (sg_state p)) + 1)"
proof -
  note parts = step_parts [OF assms(1)]
  have n: "normalize (sg_state p) = sg_state p" using parts(1) by (simp add: run_inv_parts)
  from terminal_transition_Inr [OF parts(6) [OF assms(2)] n] show ?thesis
    using exact_release_marker_True [OF n] by metis
qed

lemma step_abandoned:
  "step_ok view p t \<Longrightarrow> disposition (sg_state p) = ABANDONED \<Longrightarrow> t = sg_state p"
  using step_terminal [of view p t] by (auto simp: is_terminal_def)

lemma escalated_disposition: "t = escalated p t \<Longrightarrow> disposition t = HUMAN_REVIEW"
  by (drule arg_cong [where f = disposition]) (simp add: escalated_def)

lemma step_done_disposition:
  "step_ok view p t \<Longrightarrow> disposition (sg_state p) = DONE \<Longrightarrow> disposition t \<in> {DONE, HUMAN_REVIEW}"
  using step_terminal [of view p t]
  by (auto simp: is_terminal_def release_marker_def dest: escalated_disposition)

lemma step_released:
  "step_ok view p t \<Longrightarrow> disposition (sg_state p) = DONE \<Longrightarrow> finalization_index_released (sg_state p) \<Longrightarrow>
     t = sg_state p"
  using step_terminal [of view p t] by (auto simp: is_terminal_def)

subsection \<open>Iterations and the budget\<close>

lemma terminal_iteration:
  assumes "step_ok view p t" and "is_terminal (sg_state p)"
  shows "crew_iteration_count t = crew_iteration_count (sg_state p)
    \<and> iteration_open t = iteration_open (sg_state p)
    \<and> human_authorizations t = human_authorizations (sg_state p)
    \<and> task_status_manifest t = task_status_manifest (sg_state p)
    \<and> effect_ledger t = effect_ledger (sg_state p)
    \<and> preparation_phase t = preparation_phase (sg_state p)
    \<and> pending_external_request t = pending_external_request (sg_state p)"
proof -
  consider "t = sg_state p" | r where "t = release_marker (sg_state p) r" | "t = escalated (sg_state p) t"
    using step_terminal [OF assms] by blast
  then show ?thesis
  proof cases
    case 3
    then have "f t = f (escalated (sg_state p) t)" for f :: "run_state \<Rightarrow> 'a" by simp
    from this [of crew_iteration_count] this [of iteration_open] this [of human_authorizations]
      this [of task_status_manifest] this [of effect_ledger] this [of preparation_phase]
      this [of pending_external_request]
    show ?thesis by (simp add: escalated_def)
  qed (simp_all add: release_marker_def)
qed

lemma step_iteration:
  assumes "step_ok view p t"
  shows "crew_iteration_count t = crew_iteration_count (sg_state p)
           \<and> (iteration_open t \<longrightarrow> iteration_open (sg_state p))
         \<or> crew_iteration_count t = crew_iteration_count (sg_state p) + 1
           \<and> can_start_iteration (sg_state p) \<and> iteration_open t"
proof (cases "is_terminal (sg_state p)")
  case True
  then show ?thesis using terminal_iteration [OF assms] by auto
next
  case False
  from step_parts(5) [OF assms False]
  have "no_error (iteration_transition_checks (sg_state p) t)" by (simp add: live_checks_def Let_def)
  then show ?thesis
    by (auto simp: iteration_transition_checks_def)
qed

lemma step_count_bounded:
  "step_ok view p t \<Longrightarrow> crew_iteration_count t \<le> authorized_iteration_limit t"
  using step_parts(2) run_inv_budget by blast

subsection \<open>Authorizations\<close>

lemma step_authorizations:
  assumes "step_ok view p t"
  shows "human_authorizations t = human_authorizations (sg_state p)
    \<or> (\<exists>a action. human_authorizations t = human_authorizations (sg_state p) @ [a]
         \<and> required_action (sg_state p) t = Some action
         \<and> is_trusted_authorization (sv_env view) a action)"
proof (cases "is_terminal (sg_state p)")
  case True
  then show ?thesis using terminal_iteration [OF assms] by auto
next
  case False
  let ?p = "sg_state p"
  have grow: "human_authorizations t = human_authorizations ?p @ new_authorizations ?p t"
    using step_history [OF assms] drop_is_prefix
    by (auto simp: history_grows_def new_authorizations_def appended_def)
  have "no_error (authorization_checks (sv_env view) ?p t)"
    using step_parts(5) [OF assms False] by (simp add: live_checks_def Let_def)
  then show ?thesis
    using grow by (auto simp: authorization_checks_def split: list.splits option.splits)
qed

lemma step_limit:
  assumes "step_ok view p t"
  shows "authorized_iteration_limit (sg_state p) \<le> authorized_iteration_limit t"
    "authorized_iteration_limit t \<noteq> authorized_iteration_limit (sg_state p) \<Longrightarrow>
       disposition (sg_state p) = HUMAN_REVIEW
       \<and> (\<exists>a. human_authorizations t = human_authorizations (sg_state p) @ [a]
            \<and> is_trusted_authorization (sv_env view) a RESUME)"
proof -
  let ?p = "sg_state p"
  have same: "max_crew_iterations ?p = max_crew_iterations t"
    using step_identity [OF assms] by (simp add: same_identity_def)
  have valid: "list_all human_authorization_valid (human_authorizations t)"
    using step_parts(2) [OF assms] by (simp add: run_inv_parts fields_ok_def nested_ok_def)
  consider "human_authorizations t = human_authorizations ?p"
    | a action where "human_authorizations t = human_authorizations ?p @ [a]"
        "required_action ?p t = Some action" "is_trusted_authorization (sv_env view) a action"
    using step_authorizations [OF assms] by blast
  then have *: "authorized_iteration_limit ?p \<le> authorized_iteration_limit t
    \<and> (authorized_iteration_limit t \<noteq> authorized_iteration_limit ?p \<longrightarrow>
       disposition ?p = HUMAN_REVIEW
       \<and> (\<exists>a. human_authorizations t = human_authorizations ?p @ [a]
            \<and> is_trusted_authorization (sv_env view) a RESUME))"
  proof cases
    case 1
    with same show ?thesis by (simp add: authorized_iteration_limit_def)
  next
    case 2
    have a: "human_authorization_valid a" using valid 2(1) by simp
    have "consumed_resume_grant a = 0" if "action = ABANDON"
      using 2(3) that by (auto simp: consumed_resume_grant_def is_trusted_authorization_def
          split: option.splits)
    with a 2 same show ?thesis
      by (cases action)
        (auto simp: authorized_iteration_limit_def required_action_def consumed_resume_grant_nonneg
          split: if_splits)
  qed
  then show "authorized_iteration_limit ?p \<le> authorized_iteration_limit t"
    "authorized_iteration_limit t \<noteq> authorized_iteration_limit ?p \<Longrightarrow>
       disposition ?p = HUMAN_REVIEW
       \<and> (\<exists>a. human_authorizations t = human_authorizations ?p @ [a]
            \<and> is_trusted_authorization (sv_env view) a RESUME)" by blast+
qed

subsection \<open>Dispositions\<close>

lemma live_groups:
  assumes "step_ok view p t" and "\<not> is_terminal (sg_state p)"
  shows "no_error (disposition_checks (sg_state p) t)" "no_error (task_transition_checks (sg_state p) t)"
    "no_error (preparation_checks view (sg_state p) t)"
    "disposition (sg_state p) = REPAIR_REQUIRED \<Longrightarrow> disposition t = ACTIVE \<Longrightarrow>
       repair_activation_verified (sv_env view) p t"
  using step_parts(5) [OF assms] by (auto simp: live_checks_def Let_def)

definition lifecycle_edges :: "(run_disposition \<times> run_disposition) set" where
  \<comment> \<open>every change of disposition that a store can ever accept\<close>
  "lifecycle_edges =
     {(ACTIVE, WAITING_MCP), (ACTIVE, REPAIR_REQUIRED), (ACTIVE, HUMAN_REVIEW), (ACTIVE, DONE),
      (WAITING_MCP, ACTIVE), (WAITING_MCP, REPAIR_REQUIRED), (WAITING_MCP, HUMAN_REVIEW),
      (REPAIR_REQUIRED, ACTIVE), (REPAIR_REQUIRED, HUMAN_REVIEW),
      (HUMAN_REVIEW, ACTIVE), (HUMAN_REVIEW, ABANDONED), (DONE, HUMAN_REVIEW)}"

lemma allowed_edges: "b \<in> allowed_dispositions a \<Longrightarrow> b = a \<or> (a, b) \<in> lifecycle_edges"
  by (cases a) (simp_all only: allowed_dispositions.simps, auto simp: lifecycle_edges_def)

lemma step_disposition:
  assumes "step_ok view p t"
  shows "disposition t = disposition (sg_state p)
    \<or> (disposition (sg_state p), disposition t) \<in> lifecycle_edges"
proof (cases "is_terminal (sg_state p)")
  case True
  then consider "disposition (sg_state p) = ABANDONED" | "disposition (sg_state p) = DONE"
    by (auto simp: is_terminal_def)
  then show ?thesis
  proof cases
    case 1
    then have "t = sg_state p" by (rule step_abandoned [OF assms])
    then show ?thesis by simp
  next
    case 2
    then have "disposition t \<in> {DONE, HUMAN_REVIEW}" by (rule step_done_disposition [OF assms])
    with 2 show ?thesis by (auto simp: lifecycle_edges_def)
  qed
next
  case False
  have "disposition t \<in> allowed_dispositions (disposition (sg_state p))"
    using live_groups(1) [OF assms False] by (simp add: disposition_checks_def)
  then show ?thesis by (rule allowed_edges)
qed

lemma step_to_done:
  assumes "step_ok view p t" and "disposition t = DONE" and "disposition (sg_state p) \<noteq> DONE"
  shows "no_error (done_checks (sg_state p) t)"
proof -
  have live: "\<not> is_terminal (sg_state p)"
    using assms step_abandoned [OF assms(1)] by (auto simp: is_terminal_def)
  show ?thesis
    using live_groups(1) [OF assms(1) live] assms(2,3) by (simp add: disposition_checks_def)
qed

lemma step_out_of_review:
  assumes "step_ok view p t" and "disposition (sg_state p) = HUMAN_REVIEW"
    and "disposition t \<noteq> HUMAN_REVIEW"
  obtains a where "human_authorizations t = human_authorizations (sg_state p) @ [a]"
    "is_trusted_authorization (sv_env view) a (if disposition t = ACTIVE then RESUME else ABANDON)"
    "disposition t = ACTIVE \<or> disposition t = ABANDONED"
proof -
  let ?p = "sg_state p"
  have live: "\<not> is_terminal ?p" using assms(2) by (simp add: is_terminal_def)
  note d = live_groups(1) [OF assms(1) live]
  have to: "disposition t = ACTIVE \<or> disposition t = ABANDONED"
    using d assms(2,3) by (auto simp: disposition_checks_def)
  have "single_authorization ?p t (if disposition t = ACTIVE then RESUME else ABANDON)"
    using d assms(2) to by (auto simp: disposition_checks_def)
  then have "new_authorizations ?p t \<noteq> []" by (auto simp: single_authorization_def)
  then have "human_authorizations t \<noteq> human_authorizations ?p"
    by (auto simp: new_authorizations_def appended_def)
  then obtain a action where "human_authorizations t = human_authorizations ?p @ [a]"
      "required_action ?p t = Some action" "is_trusted_authorization (sv_env view) a action"
    using step_authorizations [OF assms(1)] by blast
  then show ?thesis
    using that [of a] to assms(2) by (auto simp: required_action_def split: if_splits)
qed

lemma step_out_of_waiting:
  assumes "step_ok view p t" and "disposition (sg_state p) = WAITING_MCP" and "disposition t = ACTIVE"
  obtains pending receipt where "pending_external_request (sg_state p) = Some pending"
    "pending_external_request t = None"
    "authenticated_reconciliation view (sg_state p) t = Some receipt"
    "phase_of t (pr_effect_id pending) = Some Phase_Reconciled"
    "human_authorizations t = human_authorizations (sg_state p)"
proof -
  let ?p = "sg_state p"
  have live: "\<not> is_terminal ?p" using assms(2) by (simp add: is_terminal_def)
  have "waiting_resume_ok ?p t"
    using live_groups(1) [OF assms(1) live] assms(2,3) by (simp add: disposition_checks_def)
  then obtain pending where w: "pending_external_request ?p = Some pending"
      "pending_external_request t = None" "phase_of t (pr_effect_id pending) = Some Phase_Reconciled"
      "new_authorizations ?p t = []"
    by (auto simp: waiting_resume_ok_def split: option.splits)
  then obtain receipt where "authenticated_reconciliation view ?p t = Some receipt"
    using step_parts(3) [OF assms(1)] by (auto simp: pending_lifecycle_checks_def Let_def)
  moreover have "human_authorizations t = human_authorizations ?p"
    using w(4) step_authorizations [OF assms(1)] by (auto simp: new_authorizations_def appended_def)
  ultimately show ?thesis using that w by blast
qed

lemma step_out_of_repair:
  assumes "step_ok view p t" and "disposition (sg_state p) = REPAIR_REQUIRED" and "disposition t = ACTIVE"
  shows "repair_activation_verified (sv_env view) p t" "restart_ok (sg_state p) t"
proof -
  have live: "\<not> is_terminal (sg_state p)" using assms(2) by (simp add: is_terminal_def)
  show "repair_activation_verified (sv_env view) p t" by (rule live_groups(4) [OF assms(1) live assms(2,3)])
  show "restart_ok (sg_state p) t"
    using live_groups(1) [OF assms(1) live] assms(2,3) by (simp add: disposition_checks_def)
qed

subsection \<open>Pending requests\<close>

lemma load_receipt_Some:
  "load_receipt view e = Some r \<longleftrightarrow>
     (\<exists>a. se_authority (sv_env view) = Some a
        \<and> load_verified_receipt (se_clock (sv_env view)) (se_sanitize (sv_env view)) (sv_files view) a e
            = Some r)"
  by (simp add: load_receipt_def split: option.splits)

lemma authenticated_shape:
  assumes "authenticated_reconciliation view previous s = Some r"
  obtains pending i1 n1 t1 invoked i2 n2 t2 observed i3 n3 t3 reconciled e where
    "pending_external_request previous = Some pending" "pending_external_request s = None"
    "appended (effect_ledger previous) (effect_ledger s) =
       [Effect_Invocation i1 n1 t1 invoked, Effect_Observation i2 n2 t2 observed,
        Effect_Reconciliation i3 n3 t3 reconciled]"
    "i1 = pr_effect_id pending" "i2 = pr_effect_id pending" "i3 = pr_effect_id pending"
    "trusted_evidence (op_evidence_refs observed) (rp_evidence_refs reconciled)
       (rp_receipt_hash reconciled) = Some e"
    "load_receipt view e = Some r"
    "receipt_answers (sv_env view) previous s pending r e (Effect_Invocation i1 n1 t1 invoked)
       (Effect_Observation i2 n2 t2 observed) (Effect_Reconciliation i3 n3 t3 reconciled)"
proof -
  obtain pending where p: "pending_external_request previous = Some pending"
    using assms by (auto simp: authenticated_reconciliation_def split: option.splits)
  have n: "pending_external_request s = None"
    using assms p by (auto simp: authenticated_reconciliation_def split: option.splits)
  obtain x y z where xs: "appended (effect_ledger previous) (effect_ledger s) = [x, y, z]"
    using assms p n
    by (auto simp: authenticated_reconciliation_def split: list.splits effect_event.splits)
  obtain i1 n1 t1 invoked where x: "x = Effect_Invocation i1 n1 t1 invoked"
    using assms p n xs by (cases x) (auto simp: authenticated_reconciliation_def)
  obtain i2 n2 t2 observed where y: "y = Effect_Observation i2 n2 t2 observed"
    using assms p n xs x by (cases y) (auto simp: authenticated_reconciliation_def)
  obtain i3 n3 t3 reconciled where z: "z = Effect_Reconciliation i3 n3 t3 reconciled"
    using assms p n xs x y by (cases z) (auto simp: authenticated_reconciliation_def)
  show ?thesis
    using assms p n xs x y z that
    by (auto simp: authenticated_reconciliation_def split: if_splits option.splits)
qed

lemma authenticated_receipt:
  assumes "authenticated_reconciliation view previous s = Some r"
  obtains pending a e where "pending_external_request previous = Some pending"
    "se_authority (sv_env view) = Some a"
    "load_verified_receipt (se_clock (sv_env view)) (se_sanitize (sv_env view)) (sv_files view) a e = Some r"
    "tr_run_id r = run_id s" "tr_effect_id r = pr_effect_id pending"
    "tr_operation r = pr_operation pending" "tr_request_id r = pr_request_id pending"
    "Some (tr_expected_revision r) = pr_expected_revision pending"
    "Some (tr_expected_state_hash r) = pr_expected_state_hash pending"
    "map kind_of (appended (effect_ledger previous) (effect_ledger s))
       = [K_Invocation, K_Observation, K_Reconciliation]"
  using assms
  by (rule authenticated_shape)
    (use that in \<open>auto simp: load_receipt_Some receipt_answers_def split: sum.splits option.splits\<close>)

lemma single_intention:
  "(case xs of [Effect_Intention eid n ts payload] \<Rightarrow> Q eid payload | _ \<Rightarrow> False) \<longleftrightarrow>
     (\<exists>eid n ts payload. xs = [Effect_Intention eid n ts payload] \<and> Q eid payload)"
proof (cases xs)
  case (Cons x ys)
  then show ?thesis by (cases x; cases ys) auto
qed simp

lemma step_new_pending:
  assumes "step_ok view p t" and "pending_external_request (sg_state p) = None"
    and "pending_external_request t = Some pending"
  shows "disposition t = WAITING_MCP"
    "pr_expected_revision pending = Some (sg_revision p)"
    "pr_expected_state_hash pending = Some (sg_state_hash p)"
    "\<exists>n ts payload. effect_ledger t =
       effect_ledger (sg_state p) @ [Effect_Intention (pr_effect_id pending) n ts payload]
       \<and> ip_operation payload = pr_operation pending"
proof -
  note c = step_parts(3) [OF assms(1)]
  have grow: "effect_ledger t = effect_ledger (sg_state p)
      @ appended (effect_ledger (sg_state p)) (effect_ledger t)"
    using step_history [OF assms(1)] drop_is_prefix by (auto simp: history_grows_def appended_def)
  have "disposition t = WAITING_MCP
      \<and> pr_expected_revision pending = Some (sg_revision p)
      \<and> pr_expected_state_hash pending = Some (sg_state_hash p)
      \<and> (case appended (effect_ledger (sg_state p)) (effect_ledger t) of
           [Effect_Intention eid _ _ payload] \<Rightarrow> eid = pr_effect_id pending \<and> ip_operation payload = pr_operation pending
         | _ \<Rightarrow> False)"
    using c assms(2,3)
    by (auto simp: pending_lifecycle_checks_def new_pending_checks_def Let_def
        split: list.splits effect_event.splits)
  then show "disposition t = WAITING_MCP"
    "pr_expected_revision pending = Some (sg_revision p)"
    "pr_expected_state_hash pending = Some (sg_state_hash p)"
    "\<exists>n ts payload. effect_ledger t =
       effect_ledger (sg_state p) @ [Effect_Intention (pr_effect_id pending) n ts payload]
       \<and> ip_operation payload = pr_operation pending"
    using grow unfolding single_intention by auto
qed

lemma step_kept_pending:
  assumes "step_ok view p t" and "pending_external_request (sg_state p) = Some pending"
  shows "pending_external_request t = Some pending
    \<or> (\<exists>receipt. authenticated_reconciliation view (sg_state p) t = Some receipt
         \<and> pending_external_request t = None)"
  using step_parts(3) [OF assms(1)] assms(2)
  by (auto simp: pending_lifecycle_checks_def Let_def split: if_splits)

subsection \<open>Tasks and preparation\<close>

lemma step_tasks:
  assumes "step_ok view p t" and "task_definition_manifest (sg_state p) = task_definition_manifest t"
    and "task_status_manifest (sg_state p) = Some old"
  obtains new where "task_status_manifest t = Some new"
    "\<forall>tid \<in> set (map ts_task_id (tsm_statuses old)).
       status_of old tid = Some CHECKED \<longrightarrow> status_of new tid = Some CHECKED"
proof (cases "is_terminal (sg_state p)")
  case True
  then show ?thesis using that [of old] terminal_iteration [OF assms(1)] assms(3) by auto
next
  case False
  then show ?thesis
    using live_groups(2) [OF assms(1)] assms(2,3) that
    by (auto simp: task_transition_checks_def list_ex_iff split: option.splits)
qed

lemma step_task_change:
  assumes "step_ok view p t" and "task_definition_manifest (sg_state p) \<noteq> task_definition_manifest t"
  shows "task_status_manifest t = None" "dependent_state_clear t"
    "checkpoints t PROGRAMMER = None" "checkpoints t REVIEWER = None"
proof -
  have live: "\<not> is_terminal (sg_state p)"
  proof
    assume "is_terminal (sg_state p)"
    then consider "t = sg_state p" | r where "t = release_marker (sg_state p) r"
      | "t = escalated (sg_state p) t"
      using step_terminal [OF assms(1)] by blast
    then show False
    proof cases
      case 3
      then show False
        using assms(2) by (auto simp: escalated_def dest!: arg_cong [where f = task_definition_manifest])
    qed (use assms(2) in \<open>simp_all add: release_marker_def\<close>)
  qed
  note c = live_groups(2) [OF assms(1) live]
  show "task_status_manifest t = None" "dependent_state_clear t"
    "checkpoints t PROGRAMMER = None" "checkpoints t REVIEWER = None"
    using c assms(2) by (auto simp: task_transition_checks_def list_ex_iff Let_def)
qed

lemma step_phase:
  assumes "step_ok view p t" and "has_preparation_binding (sg_state p)"
  shows "preparation_phase t \<in> allowed_phases (preparation_phase (sg_state p))"
proof (cases "is_terminal (sg_state p)")
  case True
  then show ?thesis
    using terminal_iteration [OF assms(1)] by (cases "preparation_phase (sg_state p)") auto
next
  case False
  then show ?thesis
    using live_groups(3) [OF assms(1)] assms(2) by (simp add: preparation_checks_def Let_def)
qed

lemma step_confirmed:
  assumes "step_ok view p t" and "has_preparation_binding (sg_state p)"
    and "preparation_phase (sg_state p) = IN_PROGRESS_REQUESTED"
    and "preparation_phase t = IN_PROGRESS_CONFIRMED"
  obtains r where "authenticated_reconciliation view (sg_state p) t = Some r"
    "tr_operation r = ''compare_and_start_ticket''" "tr_outcome r = SUCCESS" "tr_target r = ticket_id t"
proof -
  have live: "\<not> is_terminal (sg_state p)"
    using terminal_iteration [OF assms(1)] assms(3,4) by auto
  have "authenticated_receipt_for view (sg_state p) t ''compare_and_start_ticket'' SUCCESS"
    using live_groups(3) [OF assms(1) live] assms(2-4) by (simp add: preparation_checks_def Let_def)
  then show ?thesis
    using that by (auto simp: authenticated_receipt_for_def split: option.splits)
qed

end
