(* ===== verification/State_Store.thy ===== *)
theory State_Store
  imports Transition_Laws
begin

section \<open>The run state store\<close>

text \<open>
  \<^verbatim>\<open>RunStateStore\<close> of \<^verbatim>\<open>src/auto_code/state.py\<close>: every accepted state is an immutable
  generation file named by its revision and hash, and one small pointer file names the
  current generation.  \<open>compare_and_swap\<close> writes the generation first and then moves
  the pointer; \<open>cas_prepare\<close> is the part before the pointer moves, so the state it
  leaves is what a crash in between leaves.  The store runs under the interprocess lock
  of the run, one operation at a time.
\<close>

subsection \<open>Names\<close>

definition generations_dir :: "string \<Rightarrow> string" where
  "generations_dir rid = ''runs/'' @ rid @ ''/generations/''"

definition current_path :: "string \<Rightarrow> string" where
  "current_path rid = ''runs/'' @ rid @ ''/current.json''"

definition generation_name :: "int \<Rightarrow> string \<Rightarrow> string" where
  "generation_name revision state_hash = show_int revision @ ''-'' @ state_hash @ ''.json''"

definition run_binding_path :: "string \<Rightarrow> string" where
  "run_binding_path rid = ''active-run-bindings/'' @ hash_json (JStr rid) @ ''.json''"

definition temporary_name :: "string \<Rightarrow> bool" where
  \<comment> \<open>\<^verbatim>\<open>name.startswith(".") and name.endswith(".tmp")\<close>\<close>
  "temporary_name name \<longleftrightarrow> starts_with ''.'' name \<and> starts_with (rev ''.tmp'') (rev name)"

definition generation_of_name :: "string \<Rightarrow> (int \<times> string) option" where
  \<comment> \<open>\<^verbatim>\<open>_GENERATION_FILE.fullmatch\<close>\<close>
  "generation_of_name name =
     (let ds = takeWhile is_digit name; rest = drop (length ds) name in
      if ds = [] \<or> hd ds = CHR ''0'' then None
      else case rest of
          [] \<Rightarrow> None
        | c # t \<Rightarrow>
            if c = CHR ''-'' \<and> length t = 69 \<and> list_all is_lower_hex (take 64 t) \<and> drop 64 t = ''.json''
            then Some (int (digits_value ds), take 64 t) else None)"

subsection \<open>The store\<close>

record run_store =
  rs_env :: store_env
  rs_run_id :: string
  rs_files :: file_tree
  rs_names :: "string list"     \<comment> \<open>\<^verbatim>\<open>os.listdir\<close> of the generation directory\<close>

definition generation_path :: "run_store \<Rightarrow> int \<Rightarrow> string \<Rightarrow> string" where
  "generation_path st revision state_hash =
     generations_dir (rs_run_id st) @ generation_name revision (lower state_hash)"

definition envelope :: "store_env \<Rightarrow> state_generation \<Rightarrow> json" where
  "envelope env g =
     JObj [(''revision'', JInt (sg_revision g)), (''state_hash'', JStr (sg_state_hash g)),
           (''state'', se_dump env (sg_state g))]"

definition equals_int :: "json \<Rightarrow> int \<Rightarrow> bool" where
  \<comment> \<open>Python's \<^verbatim>\<open>==\<close> with an int, where True is 1\<close>
  "equals_int v i = (case v of JInt j \<Rightarrow> j = i | JBool b \<Rightarrow> (if b then 1 else 0) = i | _ \<Rightarrow> False)"

definition load_generation :: "run_store \<Rightarrow> int \<Rightarrow> string \<Rightarrow> store_error + state_generation" where
  \<comment> \<open>\<^verbatim>\<open>_load_generation_locked\<close>\<close>
  "load_generation st revision state_hash =
     (if revision < 1 \<or> \<not> is_sha256 state_hash then Inl Bad_Argument
      else
        bind_result (path_lstat (rs_files st) (generation_path st revision state_hash)) (\<lambda>found.
        if found = None then Inl State_Corrupt
        else bind_result (read_json_file (rs_files st) (generation_path st revision state_hash)) (\<lambda>v.
          case v of
            JObj kvs \<Rightarrow>
              (if \<not> exact_fields kvs [''revision'', ''state_hash'', ''state''] then Inl State_Corrupt
               else case (map_of kvs ''revision'', map_of kvs ''state_hash'', map_of kvs ''state'') of
                   (Some rv, Some (JStr h), Some (JObj raw)) \<Rightarrow>
                     (if \<not> equals_int rv revision \<or> h \<noteq> state_hash \<or> h \<noteq> lower h
                         \<or> hash_json (JObj raw) \<noteq> state_hash
                         \<or> \<not> persisted_ok (JObj raw)
                      then Inl State_Corrupt
                      else case se_parse (rs_env st) (JObj raw) of
                          None \<Rightarrow> Inl State_Corrupt
                        | Some s \<Rightarrow>
                            if run_id s \<noteq> rs_run_id st \<or> \<not> identifiers_ok s then Inl State_Corrupt
                            else Inr \<lparr>sg_revision = revision, sg_state_hash = state_hash, sg_state = s\<rparr>)
                 | _ \<Rightarrow> Inl State_Corrupt)
          | _ \<Rightarrow> Inl State_Corrupt)))"

fun collect_records ::
  "run_store \<Rightarrow> string list \<Rightarrow> (int \<times> string) list \<Rightarrow> store_error + (int \<times> string) list" where
  \<comment> \<open>the loop of \<^verbatim>\<open>_generation_records\<close> with the records so far\<close>
  "collect_records st [] records = Inr records"
| "collect_records st (name # names) records =
     (if temporary_name name then collect_records st names records
      else case generation_of_name name of
          None \<Rightarrow> Inl State_Corrupt
        | Some (revision, state_hash) \<Rightarrow>
            (case rs_files st (generations_dir (rs_run_id st) @ name) of
               Some (Regular _) \<Rightarrow>
                 (if revision \<in> fst ` set records then Inl State_Corrupt
                  else collect_records st names (records @ [(revision, state_hash)]))
             | _ \<Rightarrow> Inl State_Corrupt))"

definition generation_records :: "run_store \<Rightarrow> store_error + (int \<times> string) list" where
  "generation_records st = collect_records st (rs_names st) []"

definition complete_history :: "(int \<times> string) list \<Rightarrow> state_generation \<Rightarrow> bool" where
  "complete_history records g \<longleftrightarrow>
     fst ` set records = {1..sg_revision g}
     \<and> map_of records (sg_revision g) = Some (sg_state_hash g)"

definition pointed_generation :: "run_store \<Rightarrow> store_error + state_generation option" where
  \<comment> \<open>the generation the pointer file names; \<open>None\<close> without a pointer file\<close>
  "pointed_generation st =
     bind_result (path_lstat (rs_files st) (current_path (rs_run_id st))) (\<lambda>found.
       if found = None then Inr None
       else
         bind_result (read_json_file (rs_files st) (current_path (rs_run_id st))) (\<lambda>v.
           case v of
             JObj kvs \<Rightarrow>
               (if \<not> exact_fields kvs [''revision'', ''state_hash''] then Inl State_Corrupt
                else case (map_of kvs ''revision'', map_of kvs ''state_hash'') of
                    (Some (JInt revision), Some (JStr state_hash)) \<Rightarrow>
                      (if revision < 1 \<or> \<not> is_sha256 state_hash \<or> state_hash \<noteq> lower state_hash
                       then Inl State_Corrupt
                       else map_sum id Some (load_generation st revision state_hash))
                  | _ \<Rightarrow> Inl State_Corrupt)
           | _ \<Rightarrow> Inl State_Corrupt))"

definition load_optional :: "run_store \<Rightarrow> bool \<Rightarrow> store_error + state_generation option" where
  \<comment> \<open>\<^verbatim>\<open>load_optional_locked(allow_orphaned_recovery=...)\<close>\<close>
  "load_optional st recovery =
     bind_result (pointed_generation st) (\<lambda>pointed.
       case pointed of
         None \<Rightarrow>
           bind_result (generation_records st) (\<lambda>records.
             if records \<noteq> [] \<and> \<not> recovery then Inl State_Corrupt else Inr None)
       | Some g \<Rightarrow>
           if recovery then Inr (Some g)
           else bind_result (generation_records st) (\<lambda>records.
             if complete_history records g then Inr (Some g) else Inl State_Corrupt))"

definition load :: "run_store \<Rightarrow> store_error + state_generation" where
  "load st =
     bind_result (load_optional st False) (\<lambda>g.
       case g of None \<Rightarrow> Inl State_Not_Found | Some g \<Rightarrow> Inr g)"

definition load_repository_binding :: "run_store \<Rightarrow> store_error + string option" where
  "load_repository_binding st =
     bind_result (path_lstat (rs_files st) (run_binding_path (rs_run_id st))) (\<lambda>found.
       if found = None then Inr None
       else
         bind_result (read_json_file (rs_files st) (run_binding_path (rs_run_id st))) (\<lambda>v.
           case v of
             JObj kvs \<Rightarrow>
               (if \<not> exact_fields kvs [''repository_id'', ''run_id'', ''initial_generation_hash'']
                then Inl State_Corrupt
                else case (map_of kvs ''repository_id'', map_of kvs ''run_id'',
                           map_of kvs ''initial_generation_hash'') of
                    (Some (JStr repository), Some (JStr rid), Some (JStr initial)) \<Rightarrow>
                      (if rid \<noteq> rs_run_id st \<or> \<not> is_sha256 initial \<or> \<not> require_identifier repository
                       then Inl State_Corrupt else Inr (Some repository))
                  | _ \<Rightarrow> Inl State_Corrupt)
           | _ \<Rightarrow> Inl State_Corrupt))"

subsection \<open>Compare and swap\<close>

datatype cas_error = Store store_error | Rejected transition_error

definition store_result :: "store_error + 'a \<Rightarrow> cas_error + 'a" where
  "store_result r = map_sum Store id r"

definition view_of :: "run_store \<Rightarrow> store_view" where
  "view_of st =
     \<lparr>sv_env = rs_env st, sv_files = rs_files st, sv_run_id = rs_run_id st,
      sv_binding = load_repository_binding st,
      sv_load = (\<lambda>revision state_hash.
        case load_generation st revision state_hash of Inl _ \<Rightarrow> None | Inr g \<Rightarrow> Some g)\<rparr>"

definition empty_state_hash :: string where
  "empty_state_hash = hash_json JNull"

definition expected_current :: "state_generation option \<Rightarrow> int \<Rightarrow> string \<Rightarrow> bool" where
  "expected_current current revision state_hash =
     (case current of
        None \<Rightarrow> revision = 0 \<and> state_hash = empty_state_hash
      | Some g \<Rightarrow> sg_revision g = revision \<and> sg_state_hash g = state_hash)"

definition recoverable :: "(int \<times> string) list \<Rightarrow> state_generation option \<Rightarrow> state_generation \<Rightarrow> bool" where
  \<comment> \<open>\<^verbatim>\<open>_require_recoverable_generation\<close>\<close>
  "recoverable records current candidate \<longleftrightarrow>
     (let n = (case current of None \<Rightarrow> 0 | Some g \<Rightarrow> sg_revision g) in
      fst ` set records \<subseteq> {1..n} \<union> {sg_revision candidate}
      \<and> {1..n} \<subseteq> fst ` set records
      \<and> (case current of None \<Rightarrow> True | Some g \<Rightarrow> map_of records (sg_revision g) = Some (sg_state_hash g))
      \<and> opt_all (\<lambda>h. h = sg_state_hash candidate) (map_of records (sg_revision candidate)))"

definition cas_prepare ::
  "run_store \<Rightarrow> int \<Rightarrow> string \<Rightarrow> run_state \<Rightarrow> cas_error + state_generation \<times> run_store" where
  \<comment> \<open>everything up to the durable generation file\<close>
  "cas_prepare st revision state_hash s =
     (if revision < 0 \<or> \<not> is_sha256 state_hash then Inl (Store Bad_Argument)
      else
        bind_result (store_result (load_optional st True)) (\<lambda>current.
        if \<not> expected_current current revision (lower state_hash) then Inl (Store Cas_Conflict)
        else bind_result (map_sum Rejected id (validate_transition (view_of st) current s)) (\<lambda>t.
        let g = create_generation (rs_env st) (revision + 1) t;
            name = generation_name (sg_revision g) (sg_state_hash g);
            path = generation_path st (sg_revision g) (sg_state_hash g)
        in bind_result (store_result (generation_records st)) (\<lambda>records.
           if \<not> recoverable records current g then Inl (Store State_Corrupt)
           else bind_result (store_result (write_new_json (rs_files st) path (envelope (rs_env st) g)))
             (\<lambda>(created, fs).
               if created then Inr (g, st\<lparr>rs_files := fs, rs_names := rs_names st @ [name]\<rparr>)
               else bind_result (store_result (load_generation st (sg_revision g) (sg_state_hash g)))
                 (\<lambda>existing. if existing \<noteq> g then Inl (Store State_Corrupt) else Inr (g, st)))))))"

definition pointer_json :: "state_generation \<Rightarrow> json" where
  "pointer_json g =
     JObj [(''revision'', JInt (sg_revision g)), (''state_hash'', JStr (sg_state_hash g))]"

definition move_pointer :: "run_store \<Rightarrow> state_generation \<Rightarrow> cas_error + run_store" where
  "move_pointer st g =
     bind_result
       (store_result (atomic_replace_json (rs_files st) (current_path (rs_run_id st)) (pointer_json g)))
       (\<lambda>fs. Inr (st\<lparr>rs_files := fs\<rparr>))"

definition compare_and_swap ::
  "run_store \<Rightarrow> int \<Rightarrow> string \<Rightarrow> run_state \<Rightarrow> cas_error + state_generation \<times> run_store" where
  "compare_and_swap st revision state_hash s =
     bind_result (cas_prepare st revision state_hash s) (\<lambda>(g, st').
       bind_result (move_pointer st' g) (\<lambda>st''. Inr (g, st'')))"

end
