(* ===== verification/Store_Laws.thy ===== *)
theory Store_Laws
  imports State_Store
begin

section \<open>Laws of the store\<close>

text \<open>
  What was stored is what is loaded, generations never change, a lost race is refused,
  a crash between the generation file and the pointer loses nothing and admits only the
  same state again.  The dump of a state is pydantic's: \<open>dump_ok\<close> says of one state that
  its JSON is an object and validates back to the state.
\<close>

definition dump_ok :: "store_env \<Rightarrow> run_state \<Rightarrow> bool" where
  "dump_ok env s \<longleftrightarrow>
     (\<exists>kvs. se_dump env s = JObj kvs) \<and> json_wf (se_dump env s)
     \<and> se_parse env (canonical_value (se_dump env s)) = Some s"

definition listing_ok :: "run_store \<Rightarrow> bool" where
  \<comment> \<open>the directory listing names exactly the entries of the generation directory\<close>
  "listing_ok st \<longleftrightarrow>
     (\<forall>name. name \<in> set (rs_names st) \<longleftrightarrow> rs_files st (generations_dir (rs_run_id st) @ name) \<noteq> None)"

subsection \<open>Names of generation files\<close>

lemma show_nat_digits_value:
  "ds \<noteq> [] \<Longrightarrow> list_all is_digit ds \<Longrightarrow> hd ds \<noteq> CHR ''0'' \<Longrightarrow>
     0 < digits_value ds \<and> show_nat (digits_value ds) = ds"
proof (induction ds rule: rev_induct)
  case Nil
  then show ?case by simp
next
  case (snoc d ds)
  have d: "hex_value d < 10" "hex_digit (hex_value d) = d"
    using snoc.prems(2)
    by (auto simp: hex_value_def is_digit_def hex_digit_def Let_def)
  show ?case
  proof (cases "ds = []")
    case True
    have "hex_value d \<noteq> 0"
    proof
      assume "hex_value d = 0"
      with d(2) have "d = hex_digit 0" by simp
      with hex_digit_zero [of 0] snoc.prems(3) True show False by simp
    qed
    with d True show ?thesis
      by (simp add: digits_value_def show_nat.simps [of "hex_value d"])
  next
    case False
    with snoc have IH: "0 < digits_value ds" "show_nat (digits_value ds) = ds" by auto
    have "digits_value (ds @ [d]) div 10 = digits_value ds"
        "digits_value (ds @ [d]) mod 10 = hex_value d" "\<not> digits_value (ds @ [d]) < 10"
      using d IH by (simp_all add: digits_value_snoc)
    with IH d show ?thesis by (simp add: show_nat.simps [of "digits_value (ds @ [d])"])
  qed
qed

lemma takeWhile_digits_dash:
  "list_all is_digit ds \<Longrightarrow> takeWhile is_digit (ds @ CHR ''-'' # t) = ds"
  by (induction ds) (simp_all add: is_digit_def)

lemma show_int_pos: "1 \<le> i \<Longrightarrow> show_int i = show_nat (nat i)"
  by (simp add: show_int_def)

lemma generation_name_back:
  assumes "1 \<le> revision" and "is_digest h"
  shows "generation_of_name (generation_name revision h) = Some (revision, h)"
proof -
  have n: "generation_name revision h = show_nat (nat revision) @ CHR ''-'' # h @ ''.json''"
    using assms by (simp add: generation_name_def show_int_pos)
  have "hd (show_nat (nat revision)) \<noteq> CHR ''0''" using assms by (simp add: show_nat_head)
  then show ?thesis
    unfolding generation_of_name_def n takeWhile_digits_dash [OF show_nat_digits] Let_def
    using assms by (simp add: is_digest_def show_nat_value)
qed

lemma generation_of_name_Some:
  assumes "generation_of_name name = Some (revision, h)"
  shows "name = generation_name revision h" "1 \<le> revision" "is_digest h"
proof -
  define ds where "ds = takeWhile is_digit name"
  obtain t where t: "drop (length ds) name = CHR ''-'' # t" "length t = 69"
      "list_all is_lower_hex (take 64 t)" "drop 64 t = ''.json''" "ds \<noteq> []" "hd ds \<noteq> CHR ''0''"
      "revision = int (digits_value ds)" "h = take 64 t"
    using assms by (auto simp: generation_of_name_def Let_def ds_def split: if_splits list.splits)
  have digits: "list_all is_digit ds"
    unfolding ds_def by (metis list_all_iff set_takeWhileD)
  note s = show_nat_digits_value [OF t(5) digits t(6)]
  have "name = ds @ CHR ''-'' # h @ ''.json''"
    using t(1,4,8) by (metis append_take_drop_id ds_def takeWhile_eq_take)
  with s t show "name = generation_name revision h"
    by (simp add: generation_name_def show_int_pos)
  show "1 \<le> revision" using s t(7) by simp
  show "is_digest h" using t by (simp add: is_digest_def)
qed

lemma generation_name_not_temporary: "1 \<le> revision \<Longrightarrow> \<not> temporary_name (generation_name revision h)"
proof -
  assume "1 \<le> revision"
  obtain c cs where "show_nat (nat revision) = c # cs" "is_digit c" using show_nat_start by blast
  with \<open>1 \<le> revision\<close> show ?thesis
    by (auto simp: temporary_name_def generation_name_def show_int_pos starts_with_def is_digit_def)
qed

subsection \<open>Directory records\<close>

lemma collect_records_cong:
  "\<lbrakk>\<And>name. name \<in> set names \<Longrightarrow> rs_files st' (generations_dir (rs_run_id st') @ name)
       = rs_files st (generations_dir (rs_run_id st) @ name)\<rbrakk> \<Longrightarrow>
   collect_records st' names records = collect_records st names records"
  by (induction names arbitrary: records) (auto split: option.splits entry.splits prod.splits)

lemma collect_records_append:
  "collect_records st (xs @ ys) records =
     bind_result (collect_records st xs records) (\<lambda>r. collect_records st ys r)"
  by (induction xs arbitrary: records) (auto split: option.splits entry.splits prod.splits)

lemma collect_records_set:
  "collect_records st names records = Inr result \<Longrightarrow>
     set result = set records \<union> {(r, h). \<exists>name \<in> set names. \<not> temporary_name name
        \<and> generation_of_name name = Some (r, h)}"
  by (induction names arbitrary: records)
    (auto split: if_splits option.splits prod.splits entry.splits)

lemma collect_records_distinct:
  "collect_records st names records = Inr result \<Longrightarrow> distinct (map fst records) \<Longrightarrow>
     distinct (map fst result)"
  by (induction names arbitrary: records)
    (auto split: if_splits option.splits prod.splits entry.splits)

subsection \<open>Loading what was written\<close>

lemma persisted_ok_canonical [simp]: "persisted_ok (canonical_value v) = persisted_ok v"
  by (induction v rule: canonical_value.induct) (auto simp: canonical_value.simps(2))

lemma exact_fields_canonical:
  "canonical_value (JObj kvs) = JObj kvs' \<Longrightarrow> exact_fields kvs' names = exact_fields kvs names"
proof -
  assume "canonical_value (JObj kvs) = JObj kvs'"
  then have "kvs' = sort_key fst (map (\<lambda>kv. (fst kv, canonical_value (snd kv))) kvs)"
    by (simp add: canonical_value.simps(2))
  then have "fst ` set kvs' = fst ` set kvs" by (simp add: image_image)
  then show ?thesis by (simp add: exact_fields_def)
qed

lemma hash_is_sha256: "is_sha256 (hash_json v)" "lower (hash_json v) = hash_json v"
  using hash_json_digest [of v]
  by (auto simp: is_sha256_def sha256_pattern_iff is_digest_def is_hex_def list_all_iff)

lemma paths_differ:
  "generations_dir rid @ x \<noteq> current_path rid" "current_path rid \<noteq> generations_dir rid @ x"
  by (auto simp: generations_dir_def current_path_def)

lemma generation_path_name:
  "lower h = h \<Longrightarrow> generation_path st r h = generations_dir (rs_run_id st) @ generation_name r h"
  by (simp add: generation_path_def)

lemma load_generation_cong:
  assumes "rs_env st' = rs_env st" "rs_run_id st' = rs_run_id st"
    and "rs_files st' (generation_path st r h) = rs_files st (generation_path st r h)"
  shows "load_generation st' r h = load_generation st r h"
proof -
  have p: "generation_path st' r h = generation_path st r h"
    using assms(2) by (simp add: generation_path_def)
  have f: "path_lstat (rs_files st') (generation_path st r h) = path_lstat (rs_files st) (generation_path st r h)"
      "read_json_file (rs_files st') (generation_path st r h)
        = read_json_file (rs_files st) (generation_path st r h)"
    using assms(3) by (simp_all add: path_lstat_def read_json_file_def)
  show ?thesis
    unfolding load_generation_def p assms(1,2) f by (rule refl)
qed

definition sound_generation :: "run_store \<Rightarrow> state_generation \<Rightarrow> bool" where
  \<comment> \<open>a generation of this store's run, made by \<open>create_generation\<close>, with a dump that reads back\<close>
  "sound_generation st g \<longleftrightarrow>
     1 \<le> sg_revision g \<and> sg_state_hash g = state_hash_of (rs_env st) (sg_state g)
     \<and> dump_ok (rs_env st) (sg_state g) \<and> persisted_ok (se_dump (rs_env st) (sg_state g))
     \<and> run_id (sg_state g) = rs_run_id st \<and> identifiers_ok (sg_state g)"

lemma load_written:
  assumes g: "sound_generation st g"
    and fl: "rs_files st (generation_path st (sg_revision g) (sg_state_hash g))
        = Some (Regular (canonical_json_bytes (envelope (rs_env st) g)))"
  shows "load_generation st (sg_revision g) (sg_state_hash g) = Inr g"
proof -
  let ?d = "se_dump (rs_env st) (sg_state g)"
  obtain d where "?d = JObj d" "json_wf ?d"
      "se_parse (rs_env st) (canonical_value ?d) = Some (sg_state g)"
    using g by (auto simp: sound_generation_def dump_ok_def)
  moreover obtain raw0 where "canonical_value (JObj d) = JObj raw0" using canonical_object_shape by blast
  ultimately obtain raw where raw: "canonical_value ?d = JObj raw" "json_wf ?d"
      "se_parse (rs_env st) (JObj raw) = Some (sg_state g)"
    by metis
  obtain kvs where e: "envelope (rs_env st) g = JObj kvs" by (simp add: envelope_def)
  obtain kvs' where c: "canonical_value (JObj kvs) = JObj kvs'" using canonical_object_shape by blast
  have d: "distinct (map fst kvs)" using e by (auto simp: envelope_def)
  have wf: "json_wf (envelope (rs_env st) g)" using raw(2) by (simp add: envelope_def)
  have fields: "map_of kvs' ''revision'' = Some (JInt (sg_revision g))"
      "map_of kvs' ''state_hash'' = Some (JStr (sg_state_hash g))"
      "map_of kvs' ''state'' = Some (JObj raw)"
    unfolding map_of_canonical [OF d c] using e raw(1) by (auto simp: envelope_def)
  have exact: "exact_fields kvs' [''revision'', ''state_hash'', ''state'']"
    unfolding exact_fields_canonical [OF c] using e by (auto simp: exact_fields_def envelope_def)
  have hash: "hash_json (JObj raw) = sg_state_hash g"
    using g hash_json_value [of ?d] raw(1) by (simp add: sound_generation_def state_hash_of_def)
  have persisted: "persisted_ok (JObj raw)"
    using g persisted_ok_canonical [of ?d] raw(1) by (simp add: sound_generation_def)
  have read: "read_json_file (rs_files st) (generation_path st (sg_revision g) (sg_state_hash g))
      = Inr (JObj kvs')"
    using fl read_canonical_write [OF wf] e c by (simp add: read_json_file_Inr)
  have lstat: "path_lstat (rs_files st) (generation_path st (sg_revision g) (sg_state_hash g))
      = Inr (Some (Regular (canonical_json_bytes (envelope (rs_env st) g))))"
    using fl by (simp add: path_lstat_def)
  have h: "is_sha256 (sg_state_hash g)" "lower (sg_state_hash g) = sg_state_hash g"
    using g hash_is_sha256 by (simp_all add: sound_generation_def state_hash_of_def)
  show ?thesis
    using g lstat read exact fields hash persisted raw(3) h
    by (simp add: load_generation_def sound_generation_def equals_int_def)
qed

lemma load_pointer:
  assumes "rs_files st (current_path (rs_run_id st)) = Some (Regular (canonical_json_bytes (pointer_json g)))"
    and "1 \<le> sg_revision g" "is_sha256 (sg_state_hash g)" "lower (sg_state_hash g) = sg_state_hash g"
    and "load_generation st (sg_revision g) (sg_state_hash g) = Inr g"
  shows "pointed_generation st = Inr (Some g)"
proof -
  obtain kvs where e: "pointer_json g = JObj kvs" by (simp add: pointer_json_def)
  obtain kvs' where c: "canonical_value (JObj kvs) = JObj kvs'" using canonical_object_shape by blast
  have d: "distinct (map fst kvs)" using e by (auto simp: pointer_json_def)
  have fields: "map_of kvs' ''revision'' = Some (JInt (sg_revision g))"
      "map_of kvs' ''state_hash'' = Some (JStr (sg_state_hash g))"
    unfolding map_of_canonical [OF d c] using e by (auto simp: pointer_json_def)
  have exact: "exact_fields kvs' [''revision'', ''state_hash'']"
    unfolding exact_fields_canonical [OF c] using e by (auto simp: exact_fields_def pointer_json_def)
  have "json_wf (pointer_json g)" by (simp add: pointer_json_def)
  from read_canonical_write [OF this]
  have read: "read_json_file (rs_files st) (current_path (rs_run_id st)) = Inr (JObj kvs')"
    using assms(1) e c by (simp add: read_json_file_Inr)
  have lstat: "path_lstat (rs_files st) (current_path (rs_run_id st))
      = Inr (Some (Regular (canonical_json_bytes (pointer_json g))))"
    using assms(1) by (simp add: path_lstat_def)
  show ?thesis
    using lstat read exact fields assms(2-5) by (simp add: pointed_generation_def)
qed

subsection \<open>A successful swap\<close>

lemma map_sum_Inr [simp]: "map_sum f id r = Inr x \<longleftrightarrow> r = Inr x"
  by (cases r) auto

lemma store_result_Inr [simp]: "store_result r = Inr x \<longleftrightarrow> r = Inr x"
  by (simp add: store_result_def)

lemma cas_prepare_Inr:
  assumes "cas_prepare st r h s = Inr (g, st1)"
  obtains current t records where
    "0 \<le> r" "is_sha256 h" "load_optional st True = Inr current"
    "expected_current current r (lower h)"
    "validate_transition (view_of st) current s = Inr t"
    "g = create_generation (rs_env st) (r + 1) t"
    "generation_records st = Inr records" "recoverable records current g"
    "(rs_files st (generation_path st (sg_revision g) (sg_state_hash g)) = None
      \<and> st1 = st\<lparr>rs_files := (rs_files st)(generation_path st (sg_revision g) (sg_state_hash g)
                    \<mapsto> Regular (canonical_json_bytes (envelope (rs_env st) g))),
                 rs_names := rs_names st @ [generation_name (sg_revision g) (sg_state_hash g)]\<rparr>)
     \<or> (rs_files st (generation_path st (sg_revision g) (sg_state_hash g)) \<noteq> None
        \<and> load_generation st (sg_revision g) (sg_state_hash g) = Inr g \<and> st1 = st)"
  using assms
  by (auto simp: cas_prepare_def bind_result_Inr Let_def write_new_json_Inr split: if_splits prod.splits)

lemma move_pointer_Inr:
  "move_pointer st g = Inr st' \<longleftrightarrow>
     st' = st\<lparr>rs_files := (rs_files st)(current_path (rs_run_id st)
                \<mapsto> Regular (canonical_json_bytes (pointer_json g)))\<rparr>
     \<and> rs_files st (current_path (rs_run_id st)) \<notin> {Some Directory, Some Symlink}"
  by (auto simp: move_pointer_def bind_result_Inr atomic_replace_json_Inr)

lemma compare_and_swap_Inr:
  "compare_and_swap st r h s = Inr (g, st') \<longleftrightarrow>
     (\<exists>st1. cas_prepare st r h s = Inr (g, st1) \<and> move_pointer st1 g = Inr st')"
  by (auto simp: compare_and_swap_def bind_result_Inr)

lemma validate_transition_any:
  assumes "validate_transition view prev s = Inr t" and "run_inv (clean_of (sv_env view)) s"
  shows "t = s" "persisted_ok (se_dump (sv_env view) s)" "no_error (entry_checks view s)"
proof -
  have m: "model_validate (clean_of (sv_env view)) s = Inr s" using assms(2) by (simp add: run_inv_def)
  then have "bind_result (checked (entry_checks view s) s) (\<lambda>_. follow_state view prev s) = Inr t"
    using assms(1) by (simp add: validate_transition_def split: if_splits)
  then have e: "no_error (entry_checks view s)" "follow_state view prev s = Inr t"
    by (auto simp: bind_result_Inr checked_no_error)
  show "no_error (entry_checks view s)" by (rule e(1))
  show "persisted_ok (se_dump (sv_env view) s)"
    using assms(1) by (simp add: validate_transition_def split: if_splits)
  show "t = s"
    using e(2)
    by (auto simp: follow_state_def bind_result_Inr checked_no_error terminal_transition_def Let_def
        split: option.splits if_splits sum.splits bool.splits)
qed

lemma swapped_sound:
  assumes "cas_prepare st r h s = Inr (g, st1)" and "run_inv (clean_of (rs_env st)) s"
    and "dump_ok (rs_env st) s"
  shows "sound_generation st g" "sg_state g = s" "sg_revision g = r + 1"
proof -
  obtain current t where c: "0 \<le> r" "validate_transition (view_of st) current s = Inr t"
      "g = create_generation (rs_env st) (r + 1) t"
    using cas_prepare_Inr [OF assms(1)] by metis
  have env: "sv_env (view_of st) = rs_env st" "sv_run_id (view_of st) = rs_run_id st"
    by (simp_all add: view_of_def)
  note v = validate_transition_any [OF c(2), unfolded env, OF assms(2)]
  show "sg_state g = s" "sg_revision g = r + 1"
    using c(3) v(1) by (simp_all add: create_generation_def)
  then show "sound_generation st g"
    using c v assms(3)
    by (simp add: sound_generation_def create_generation_def entry_checks_def env)
qed

lemma records_after:
  assumes "listing_ok st" and "generation_records st = Inr records"
    and "recoverable records current g" and "sound_generation st g"
    and "rs_files st (generation_path st (sg_revision g) (sg_state_hash g)) = None"
    and st1: "st1 = st\<lparr>rs_files := (rs_files st)(generation_path st (sg_revision g) (sg_state_hash g)
                    \<mapsto> Regular c),
                 rs_names := rs_names st @ [generation_name (sg_revision g) (sg_state_hash g)]\<rparr>"
  shows "generation_records st1 = Inr (records @ [(sg_revision g, sg_state_hash g)])" "listing_ok st1"
proof -
  let ?n = "generation_name (sg_revision g) (sg_state_hash g)"
  let ?path = "generation_path st (sg_revision g) (sg_state_hash g)"
  have h: "is_digest (sg_state_hash g)" "lower (sg_state_hash g) = sg_state_hash g" "1 \<le> sg_revision g"
    using assms(4) by (simp_all add: sound_generation_def state_hash_of_def is_digest_lower)
  have path: "?path = generations_dir (rs_run_id st) @ ?n" using h(2) by (rule generation_path_name)
  have new: "?n \<notin> set (rs_names st)" using assms(1,5) path by (simp add: listing_ok_def)
  have "collect_records st1 (rs_names st) [] = collect_records st (rs_names st) []"
    by (rule collect_records_cong) (use new path in \<open>auto simp: st1\<close>)
  then have old: "collect_records st1 (rs_names st) [] = Inr records"
    using assms(2) by (simp add: generation_records_def)
  have "sg_revision g \<notin> fst ` set records"
  proof
    assume "sg_revision g \<in> fst ` set records"
    moreover have "distinct (map fst records)"
      using collect_records_distinct assms(2) by (fastforce simp: generation_records_def)
    ultimately obtain x where "map_of records (sg_revision g) = Some x" "(sg_revision g, x) \<in> set records"
      by (metis (no_types, lifting) image_iff map_of_is_SomeI prod.collapse)
    moreover from this assms(3) have "x = sg_state_hash g" by (simp add: recoverable_def Let_def)
    ultimately have "(sg_revision g, sg_state_hash g) \<in> set records" by simp
    then obtain name where "name \<in> set (rs_names st)"
        "generation_of_name name = Some (sg_revision g, sg_state_hash g)"
      using collect_records_set assms(2) by (fastforce simp: generation_records_def)
    then show False using generation_of_name_Some(1) new by blast
  qed
  then show "generation_records st1 = Inr (records @ [(sg_revision g, sg_state_hash g)])"
    using old generation_name_back [OF h(3,1)] generation_name_not_temporary [OF h(3)] path
    by (simp add: generation_records_def st1 collect_records_append)
  show "listing_ok st1"
    using assms(1) path by (auto simp: listing_ok_def st1)
qed

definition same_rest :: "run_store \<Rightarrow> run_store \<Rightarrow> bool" where
  \<comment> \<open>the same store but for its files and listing\<close>
  "same_rest st st' \<longleftrightarrow> rs_env st' = rs_env st \<and> rs_run_id st' = rs_run_id st"

lemma prepare_frame:
  assumes "cas_prepare st r h s = Inr (g, st1)"
  shows "same_rest st st1"
    "\<And>path. path \<noteq> generation_path st (sg_revision g) (sg_state_hash g) \<Longrightarrow>
       rs_files st1 path = rs_files st path"
    "\<And>path. rs_files st path \<noteq> None \<Longrightarrow> rs_files st1 path = rs_files st path"
proof -
  have shape:
    "(rs_files st (generation_path st (sg_revision g) (sg_state_hash g)) = None
      \<and> (\<exists>c ns. st1 = st\<lparr>rs_files := (rs_files st)(generation_path st (sg_revision g) (sg_state_hash g)
                    \<mapsto> Regular c), rs_names := ns\<rparr>))
     \<or> st1 = st"
    by (rule cas_prepare_Inr [OF assms], elim disjE conjE)
      (rule disjI1, rule conjI, assumption, rule exI, rule exI, assumption, simp)
  then show "same_rest st st1" by (auto simp: same_rest_def)
  show "rs_files st1 path = rs_files st path"
    if "path \<noteq> generation_path st (sg_revision g) (sg_state_hash g)" for path
    using shape that by auto
  show "rs_files st1 path = rs_files st path" if "rs_files st path \<noteq> None" for path
    using shape that by auto
qed

lemma generation_path_not_current: "generation_path st r h \<noteq> current_path (rs_run_id st)"
  by (simp add: generation_path_def generations_dir_def current_path_def)

lemma prepared:
  assumes ok: "listing_ok st" and p: "cas_prepare st r h s = Inr (g, st1)"
    and s: "run_inv (clean_of (rs_env st)) s" "dump_ok (rs_env st) s"
  shows "load_generation st1 (r + 1) (sg_state_hash g) = Inr g" "listing_ok st1"
    "\<exists>records. generation_records st1 = Inr records \<and> complete_history records g"
proof -
  note sound = swapped_sound [OF p s]
  obtain current t records where c: "0 \<le> r" "expected_current current r (lower h)"
      "generation_records st = Inr records" "recoverable records current g"
      "(rs_files st (generation_path st (sg_revision g) (sg_state_hash g)) = None
        \<and> st1 = st\<lparr>rs_files := (rs_files st)(generation_path st (sg_revision g) (sg_state_hash g)
                    \<mapsto> Regular (canonical_json_bytes (envelope (rs_env st) g))),
                 rs_names := rs_names st @ [generation_name (sg_revision g) (sg_state_hash g)]\<rparr>)
       \<or> (rs_files st (generation_path st (sg_revision g) (sg_state_hash g)) \<noteq> None
          \<and> load_generation st (sg_revision g) (sg_state_hash g) = Inr g \<and> st1 = st)"
    using cas_prepare_Inr [OF p] by metis
  have h: "is_digest (sg_state_hash g)" "lower (sg_state_hash g) = sg_state_hash g" "1 \<le> sg_revision g"
    using sound(1) by (simp_all add: sound_generation_def state_hash_of_def is_digest_lower)
  have n: "(case current of None \<Rightarrow> 0 | Some g0 \<Rightarrow> sg_revision g0) = r"
    using c(2) by (auto simp: expected_current_def split: option.splits)
  have dist: "distinct (map fst records')" if "generation_records st' = Inr records'" for st' records'
    using that collect_records_distinct by (fastforce simp: generation_records_def)
  have keys: "fst ` set records \<subseteq> {1..r} \<union> {r + 1}" "{1..r} \<subseteq> fst ` set records"
    using c(4) n sound(3) by (auto simp: recoverable_def Let_def)
  have "load_generation st1 (sg_revision g) (sg_state_hash g) = Inr g \<and> listing_ok st1
    \<and> (\<exists>records. generation_records st1 = Inr records \<and> complete_history records g)"
    using c(5)
  proof
    assume new: "rs_files st (generation_path st (sg_revision g) (sg_state_hash g)) = None
        \<and> st1 = st\<lparr>rs_files := (rs_files st)(generation_path st (sg_revision g) (sg_state_hash g)
                    \<mapsto> Regular (canonical_json_bytes (envelope (rs_env st) g))),
                 rs_names := rs_names st @ [generation_name (sg_revision g) (sg_state_hash g)]\<rparr>"
    note after = records_after [OF ok c(3,4) sound(1) conjunct1 [OF new] conjunct2 [OF new]]
    have "sound_generation st1 g" using sound(1) new by (simp add: sound_generation_def)
    then have "load_generation st1 (sg_revision g) (sg_state_hash g) = Inr g"
      by (rule load_written) (use new in \<open>simp add: generation_path_def\<close>)
    moreover have "complete_history (records @ [(sg_revision g, sg_state_hash g)]) g"
    proof -
      have "{1..r + 1} = {1..r} \<union> {r + 1}" using c(1) by auto
      with keys sound(3) have "fst ` set (records @ [(sg_revision g, sg_state_hash g)]) = {1..sg_revision g}"
        by auto
      moreover have "map_of (records @ [(sg_revision g, sg_state_hash g)]) (sg_revision g) = Some (sg_state_hash g)"
        using dist [OF after(1)] by (intro map_of_is_SomeI) simp_all
      ultimately show ?thesis by (simp add: complete_history_def)
    qed
    ultimately show ?thesis using after by blast
  next
    assume old: "rs_files st (generation_path st (sg_revision g) (sg_state_hash g)) \<noteq> None
          \<and> load_generation st (sg_revision g) (sg_state_hash g) = Inr g \<and> st1 = st"
    then have "generation_name (sg_revision g) (sg_state_hash g) \<in> set (rs_names st)"
      using ok generation_path_name [OF h(2)] by (simp add: listing_ok_def)
    moreover note generation_name_back [OF h(3,1)] generation_name_not_temporary [OF h(3)]
    ultimately have mem: "(sg_revision g, sg_state_hash g) \<in> set records"
      unfolding collect_records_set [OF c(3) [unfolded generation_records_def]] by blast
    have "{1..r + 1} = {1..r} \<union> {r + 1}" using c(1) by auto
    moreover have "r + 1 \<in> fst ` set records" using mem sound(3) by force
    ultimately have "fst ` set records = {1..sg_revision g}" using keys sound(3) by auto
    then have "complete_history records g"
      using mem dist [OF c(3)] by (simp add: complete_history_def)
    with old ok c(3) show ?thesis by blast
  qed
  then show "load_generation st1 (r + 1) (sg_state_hash g) = Inr g" "listing_ok st1"
    "\<exists>records. generation_records st1 = Inr records \<and> complete_history records g"
    using sound(3) by simp_all
qed

lemma pointer_frame:
  assumes "move_pointer st1 g = Inr st2"
  shows "same_rest st1 st2" "rs_names st2 = rs_names st1"
    "\<And>path. path \<noteq> current_path (rs_run_id st1) \<Longrightarrow> rs_files st2 path = rs_files st1 path"
    "rs_files st2 (current_path (rs_run_id st1)) = Some (Regular (canonical_json_bytes (pointer_json g)))"
  using assms by (auto simp: move_pointer_Inr same_rest_def)

lemma generation_records_cong:
  assumes "same_rest st st'" "rs_names st' = rs_names st"
    and "\<And>name. rs_files st' (generations_dir (rs_run_id st) @ name) = rs_files st (generations_dir (rs_run_id st) @ name)"
  shows "generation_records st' = generation_records st" "listing_ok st' = listing_ok st"
proof -
  have "rs_run_id st' = rs_run_id st" using assms(1) by (simp add: same_rest_def)
  with assms(3) show "listing_ok st' = listing_ok st" by (simp add: listing_ok_def assms(2))
  show "generation_records st' = generation_records st"
    unfolding generation_records_def assms(2)
    by (rule collect_records_cong) (simp add: assms(3) \<open>rs_run_id st' = rs_run_id st\<close>)
qed

lemma swapped_loads:
  assumes ok: "listing_ok st" and c: "compare_and_swap st r h s = Inr (g, st')"
    and s: "run_inv (clean_of (rs_env st)) s" "dump_ok (rs_env st) s"
  shows "load_optional st' recovery = Inr (Some g)" "load st' = Inr g" "listing_ok st'"
    "sg_state g = s" "sg_revision g = r + 1" "same_rest st st'"
proof -
  obtain st1 where st1: "cas_prepare st r h s = Inr (g, st1)" "move_pointer st1 g = Inr st'"
    using c by (auto simp: compare_and_swap_Inr)
  note sound = swapped_sound [OF st1(1) s] and prep = prepared [OF ok st1(1) s]
    and frame = pointer_frame [OF st1(2)] and pframe = prepare_frame [OF st1(1)]
  show "sg_state g = s" "sg_revision g = r + 1" by (rule sound)+
  show rest: "same_rest st st'" using frame(1) pframe(1) by (simp add: same_rest_def)
  have rid: "rs_run_id st' = rs_run_id st" "rs_run_id st1 = rs_run_id st"
    using rest pframe(1) by (simp_all add: same_rest_def)
  have recs: "generation_records st' = generation_records st1" "listing_ok st' = listing_ok st1"
    by (rule generation_records_cong [OF frame(1,2)], simp add: frame(3) paths_differ)+
  show "listing_ok st'" using recs prep(2) by simp
  have "load_generation st' (sg_revision g) (sg_state_hash g)
      = load_generation st1 (sg_revision g) (sg_state_hash g)"
    by (rule load_generation_cong)
      (use frame generation_path_not_current in \<open>simp_all add: same_rest_def\<close>)
  then have gen: "load_generation st' (sg_revision g) (sg_state_hash g) = Inr g"
    using prep(1) sound(3) by simp
  have h: "is_sha256 (sg_state_hash g)" "lower (sg_state_hash g) = sg_state_hash g" "1 \<le> sg_revision g"
    using sound(1) hash_is_sha256 by (simp_all add: sound_generation_def state_hash_of_def)
  have ptr: "rs_files st' (current_path (rs_run_id st')) = Some (Regular (canonical_json_bytes (pointer_json g)))"
    using frame(4) rid by simp
  show lo: "load_optional st' recovery = Inr (Some g)" for recovery
    using load_pointer [OF ptr h(3,1,2) gen] recs prep(3) by (auto simp: load_optional_def)
  show "load st' = Inr g" by (simp add: load_def lo)
qed

lemma lost_race:
  assumes "listing_ok st" and "compare_and_swap st r h s = Inr (g, st')"
    and "run_inv (clean_of (rs_env st)) s" "dump_ok (rs_env st) s"
  shows "compare_and_swap st' r h s' = Inl (Store Cas_Conflict)"
proof -
  note l = swapped_loads [OF assms]
  obtain st1 where "cas_prepare st r h s = Inr (g, st1)"
    using assms(2) by (auto simp: compare_and_swap_Inr)
  then have "0 \<le> r" "is_sha256 h" using cas_prepare_Inr by metis+
  moreover have "\<not> expected_current (Some g) r (lower h)" using l(5) by (simp add: expected_current_def)
  ultimately show ?thesis
    by (simp add: compare_and_swap_def cas_prepare_def l(1) store_result_def)
qed

lemma generations_stay:
  assumes "compare_and_swap st r h s = Inr (g, st')" and "load_generation st r' h' = Inr g'"
  shows "load_generation st' r' h' = Inr g'"
proof -
  obtain st1 where st1: "cas_prepare st r h s = Inr (g, st1)" "move_pointer st1 g = Inr st'"
    using assms(1) by (auto simp: compare_and_swap_Inr)
  have "rs_files st (generation_path st r' h') \<noteq> None"
    using assms(2) by (auto simp: load_generation_def bind_result_Inr path_lstat_Inr split: if_splits)
  then have "rs_files st1 (generation_path st r' h') = rs_files st (generation_path st r' h')"
    by (rule prepare_frame(3) [OF st1(1)])
  moreover have "rs_files st' (generation_path st r' h') = rs_files st1 (generation_path st r' h')"
    using generation_path_not_current [of st] prepare_frame(1) [OF st1(1)]
    by (intro pointer_frame(3) [OF st1(2)]) (simp add: same_rest_def)
  ultimately have "load_generation st' r' h' = load_generation st r' h'"
    using prepare_frame(1) [OF st1(1)] pointer_frame(1) [OF st1(2)]
    by (intro load_generation_cong) (simp_all add: same_rest_def)
  with assms(2) show ?thesis by simp
qed

end
