(* ===== verification/Crash_Recovery.thy ===== *)
theory Crash_Recovery
  imports Store_Laws
begin

section \<open>A crash between the generation and the pointer\<close>

text \<open>
  A crash can leave the generation file of the next revision without the pointer that
  names it.  Then the strict load refuses the store, the recovering load still returns
  the generation before, the interrupted swap succeeds when it is repeated with the same
  state, and no other state can be stored in its place.
\<close>

subsection \<open>A larger store accepts at least as much\<close>

definition view_extends :: "store_view \<Rightarrow> store_view \<Rightarrow> bool" where
  "view_extends v v' \<longleftrightarrow>
     sv_env v' = sv_env v \<and> sv_run_id v' = sv_run_id v \<and> sv_binding v' = sv_binding v
     \<and> (\<forall>e. load_receipt v' e = load_receipt v e)
     \<and> (\<forall>r h g. sv_load v r h = Some g \<longrightarrow> sv_load v' r h = Some g)"

lemma extends_fields:
  assumes "view_extends v v'"
  shows "sv_env v' = sv_env v" "load_receipt v' = load_receipt v"
  using assms by (auto simp: view_extends_def)

lemma extends_authenticated:
  "view_extends v v' \<Longrightarrow> authenticated_reconciliation v' p s = authenticated_reconciliation v p s"
  unfolding authenticated_reconciliation_def by (simp only: extends_fields)

lemma extends_restore:
  "view_extends v v' \<Longrightarrow> restore_started_from_active v r \<Longrightarrow> restore_started_from_active v' r"
  by (auto simp: restore_started_from_active_def view_extends_def split: option.splits)

lemma extends_receipt_for:
  "view_extends v v' \<Longrightarrow> authenticated_receipt_for v p s opn out \<Longrightarrow> authenticated_receipt_for v' p s opn out"
  by (auto simp: authenticated_receipt_for_def extends_authenticated extends_restore split: option.splits)

lemma extends_trusted:
  "view_extends v v' \<Longrightarrow> trusted_reconciliations v' s = trusted_reconciliations v s"
  unfolding trusted_reconciliations_def reconciliation_receipt_def
  by (simp only: extends_fields)

lemma extends_current_restore:
  "view_extends v v' \<Longrightarrow> has_current_restore v s \<Longrightarrow> has_current_restore v' s"
  by (auto simp: has_current_restore_def extends_trusted list_ex_iff split: option.splits
      intro: extends_restore)

lemma extends_preparation:
  assumes "view_extends v v'" and "no_error (preparation_checks v p s)"
  shows "no_error (preparation_checks v' p s)"
  using assms(2) extends_receipt_for [OF assms(1), of p s] extends_current_restore [OF assms(1), of p]
  by (auto simp: preparation_checks_def Let_def split: if_splits)

lemma extends_follow:
  assumes v: "view_extends v v'" and "follow_state v prev s = Inr t"
  shows "follow_state v' prev s = Inr t"
proof (cases prev)
  case None
  with assms show ?thesis by (simp add: follow_state_def view_extends_def)
next
  case (Some p)
  have env: "sv_env v' = sv_env v" using v by (simp add: view_extends_def)
  have "pending_lifecycle_checks v' p s = pending_lifecycle_checks v p s"
    unfolding pending_lifecycle_checks_def by (simp only: extends_authenticated [OF v])
  moreover have "terminal_transition v' p s = terminal_transition v p s"
    unfolding terminal_transition_def exact_release_marker_def by (simp only: env)
  moreover have "no_error (live_checks v p s) \<Longrightarrow> no_error (live_checks v' p s)"
    using extends_preparation [OF v] by (simp add: live_checks_def env Let_def)
  ultimately show ?thesis
    using assms(2) by (auto simp: follow_state_def Some bind_result_Inr checked_no_error split: if_splits)
qed

lemma extends_validate:
  assumes v: "view_extends v v'" and "validate_transition v prev s = Inr t"
  shows "validate_transition v' prev s = Inr t"
proof -
  have "sv_env v' = sv_env v" "entry_checks v' u = entry_checks v u" for u
    using v by (simp_all add: view_extends_def entry_checks_def)
  with assms(2) extends_follow [OF v] show ?thesis
    by (auto simp: validate_transition_def bind_result_Inr checked_no_error split: if_splits sum.splits)
qed

subsection \<open>What the interrupted swap leaves\<close>

lemma split_on_prefix:
  "d \<notin> set w \<Longrightarrow> split_on d (w @ d # x) = w # split_on d x"
  by (induction w) auto

lemma receipt_not_run_path:
  "receipt_file_ok path \<Longrightarrow> path \<noteq> ''runs/'' @ x"
proof
  assume ok: "receipt_file_ok path" and eq: "path = ''runs/'' @ x"
  have "split_on CHR ''/'' path = ''runs'' # split_on CHR ''/'' x"
    using split_on_prefix [of "CHR ''/''" "''runs''" x] eq by simp
  then have "path_parts path = ''runs'' # path_parts x" by (simp add: path_parts_def)
  with ok show False by (auto simp: receipt_file_ok_def split: list.splits)
qed

lemma generation_path_runs: "\<exists>x. generation_path st r h = ''runs/'' @ x"
  by (simp add: generation_path_def generations_dir_def)

lemma current_path_runs: "\<exists>x. current_path rid = ''runs/'' @ x"
  by (simp add: current_path_def)

lemma binding_not_run_path: "run_binding_path rid \<noteq> ''runs/'' @ x"
  by (simp add: run_binding_path_def)

lemma load_receipt_cong:
  assumes "sv_env v' = sv_env v"
    and "\<And>path. receipt_file_ok path \<Longrightarrow> sv_files v' path = sv_files v path"
  shows "load_receipt v' e = load_receipt v e"
proof (cases "receipt_file_ok (ev_relative_path e)")
  case True
  then have f: "read_json_file (sv_files v') (ev_relative_path e)
      = read_json_file (sv_files v) (ev_relative_path e)"
    using assms(2) by (intro read_json_file_cong) simp
  show ?thesis
    unfolding load_receipt_def load_verified_receipt_def assms(1) f ..
next
  case False
  then show ?thesis by (simp add: load_receipt_def load_verified_receipt_def assms(1) split: option.splits)
qed

lemma prepare_binding:
  assumes "cas_prepare st r h s = Inr (g, st1)"
  shows "load_repository_binding st1 = load_repository_binding st"
proof -
  have rid: "rs_run_id st1 = rs_run_id st" using prepare_frame(1) [OF assms] by (simp add: same_rest_def)
  have "rs_files st1 (run_binding_path (rs_run_id st)) = rs_files st (run_binding_path (rs_run_id st))"
    using prepare_frame(2) [OF assms] generation_path_runs binding_not_run_path by metis
  then have f: "path_lstat (rs_files st1) (run_binding_path (rs_run_id st))
        = path_lstat (rs_files st) (run_binding_path (rs_run_id st))"
      "read_json_file (rs_files st1) (run_binding_path (rs_run_id st))
        = read_json_file (rs_files st) (run_binding_path (rs_run_id st))"
    by (simp_all add: path_lstat_def read_json_file_def)
  show ?thesis unfolding load_repository_binding_def rid f ..
qed

lemma prepare_loads:
  assumes "cas_prepare st r h s = Inr (g, st1)" and "load_generation st r' h' = Inr g'"
  shows "load_generation st1 r' h' = Inr g'"
proof -
  have "rs_files st (generation_path st r' h') \<noteq> None"
    using assms(2) by (auto simp: load_generation_def bind_result_Inr path_lstat_Inr split: if_splits)
  then have "rs_files st1 (generation_path st r' h') = rs_files st (generation_path st r' h')"
    by (rule prepare_frame(3) [OF assms(1)])
  then have "load_generation st1 r' h' = load_generation st r' h'"
    using prepare_frame(1) [OF assms(1)] by (intro load_generation_cong) (simp_all add: same_rest_def)
  with assms(2) show ?thesis by simp
qed

lemma prepare_extends:
  assumes "cas_prepare st r h s = Inr (g, st1)"
  shows "view_extends (view_of st) (view_of st1)"
proof -
  have rest: "rs_env st1 = rs_env st" "rs_run_id st1 = rs_run_id st"
    using prepare_frame(1) [OF assms] by (simp_all add: same_rest_def)
  have files: "sv_files (view_of st1) path = sv_files (view_of st) path" if "receipt_file_ok path" for path
    using prepare_frame(2) [OF assms, of path] receipt_not_run_path [OF that] generation_path_runs
    by (simp add: view_of_def) metis
  have env: "sv_env (view_of st1) = sv_env (view_of st)" by (simp add: view_of_def rest)
  have "load_receipt (view_of st1) e = load_receipt (view_of st) e" for e
    by (rule load_receipt_cong [OF env files])
  moreover have "sv_load (view_of st) r' h' = Some g' \<Longrightarrow> sv_load (view_of st1) r' h' = Some g'" for r' h' g'
    using prepare_loads [OF assms] by (auto simp: view_of_def split: sum.splits)
  ultimately show ?thesis
    using rest prepare_binding [OF assms] by (simp add: view_extends_def view_of_def)
qed

lemma bind_result_mono:
  "bind_result r f = Inr x \<Longrightarrow> (\<And>y. f y = Inr x \<Longrightarrow> f' y = Inr x) \<Longrightarrow> bind_result r f' = Inr x"
  by (cases r) simp_all

lemma prepare_pointed:
  assumes p: "cas_prepare st r h s = Inr (g, st1)" and c: "pointed_generation st = Inr pointed"
  shows "pointed_generation st1 = Inr pointed"
proof -
  have rid: "rs_run_id st1 = rs_run_id st" using prepare_frame(1) [OF p] by (simp add: same_rest_def)
  have "rs_files st1 (current_path (rs_run_id st)) = rs_files st (current_path (rs_run_id st))"
    by (rule prepare_frame(2) [OF p]) (rule generation_path_not_current [symmetric])
  then have same: "path_lstat (rs_files st1) (current_path (rs_run_id st))
        = path_lstat (rs_files st) (current_path (rs_run_id st))"
      "read_json_file (rs_files st1) (current_path (rs_run_id st))
        = read_json_file (rs_files st) (current_path (rs_run_id st))"
    by (simp_all add: path_lstat_def read_json_file_def)
  have gens: "map_sum id Some (load_generation st r' h') = Inr x \<Longrightarrow>
      map_sum id Some (load_generation st1 r' h') = Inr x" for r' h' x
    using prepare_loads [OF p] by (cases "load_generation st r' h'") auto
  show ?thesis
    using c unfolding pointed_generation_def rid same
    by (elim bind_result_mono) (auto elim!: bind_result_mono gens split: json.splits if_splits option.splits)
qed

lemma load_optional_parts:
  assumes "load_optional st True = Inr current"
  shows "pointed_generation st = Inr current"
  using assms by (auto simp: load_optional_def bind_result_Inr split: option.splits)

lemma load_optional_recovery:
  assumes "pointed_generation st = Inr current" and "generation_records st = Inr records"
  shows "load_optional st True = Inr current"
    "load_optional st False =
       (case current of
          None \<Rightarrow> if records \<noteq> [] then Inl State_Corrupt else Inr None
        | Some g \<Rightarrow> if complete_history records g then Inr (Some g) else Inl State_Corrupt)"
  using assms by (simp_all add: load_optional_def split: option.splits)

lemma crashed_loads:
  assumes ok: "listing_ok st" and p: "cas_prepare st r h s = Inr (g, st1)"
    and s: "run_inv (clean_of (rs_env st)) s" "dump_ok (rs_env st) s"
  shows "load_optional st1 True = load_optional st True"
    "load_optional st1 False = Inl State_Corrupt"
proof -
  obtain current where c: "load_optional st True = Inr current" "expected_current current r (lower h)"
      "0 \<le> r"
    using cas_prepare_Inr [OF p] by metis
  obtain records where recs: "generation_records st1 = Inr records" "complete_history records g"
    using prepared(3) [OF ok p s] by blast
  note l = load_optional_recovery [OF prepare_pointed [OF p load_optional_parts [OF c(1)]] recs(1)]
  show "load_optional st1 True = load_optional st True" using l(1) c(1) by simp
  have "sg_revision g = r + 1" by (rule swapped_sound(3) [OF p s])
  then have keys: "fst ` set records = {1..r + 1}" using recs(2) by (simp add: complete_history_def)
  show "load_optional st1 False = Inl State_Corrupt"
  proof (cases current)
    case None
    have "records \<noteq> []" using keys c(3) by auto
    with None show ?thesis using l(2) by simp
  next
    case (Some g0)
    then have "sg_revision g0 = r" using c(2) by (simp add: expected_current_def)
    moreover have "r + 1 \<in> {1..r + 1}" using c(3) by simp
    ultimately have "fst ` set records \<noteq> {1..sg_revision g0}" unfolding keys by auto
    then have "\<not> complete_history records g0" by (simp add: complete_history_def)
    with Some show ?thesis using l(2) by simp
  qed
qed

lemma recoverable_complete:
  assumes "complete_history records g" and "distinct (map fst records)"
    and "expected_current current r h" and "sg_revision g = r + 1"
    and "case current of None \<Rightarrow> True | Some g0 \<Rightarrow> map_of records (sg_revision g0) = Some (sg_state_hash g0)"
    and "sg_revision g' = r + 1" and "0 \<le> r"
  shows "recoverable records current g' \<longleftrightarrow> sg_state_hash g' = sg_state_hash g"
proof -
  have "(case current of None \<Rightarrow> 0 | Some g0 \<Rightarrow> sg_revision g0) = r"
    using assms(3) by (auto simp: expected_current_def split: option.splits)
  moreover have "{1..r + 1} = {1..r} \<union> {r + 1}" using assms(7) by auto
  ultimately show ?thesis
    using assms(1,4,5,6) by (auto simp: recoverable_def complete_history_def)
qed

lemma crashed_records:
  assumes ok: "listing_ok st" and p: "cas_prepare st r h s = Inr (g, st1)"
    and s: "run_inv (clean_of (rs_env st)) s" "dump_ok (rs_env st) s"
    and c: "load_optional st True = Inr current"
  obtains records where "generation_records st1 = Inr records"
    "\<And>g'. sg_revision g' = r + 1 \<Longrightarrow>
       recoverable records current g' \<longleftrightarrow> sg_state_hash g' = sg_state_hash g"
proof -
  obtain current' records0 where p0: "0 \<le> r" "load_optional st True = Inr current'"
      "expected_current current' r (lower h)" "generation_records st = Inr records0"
      "recoverable records0 current' g"
    using cas_prepare_Inr [OF p] by metis
  then have cur: "current' = current" using c by simp
  obtain records where recs: "generation_records st1 = Inr records" "complete_history records g"
    using prepared(3) [OF ok p s] by blast
  have d: "distinct (map fst records)"
    using collect_records_distinct recs(1) by (fastforce simp: generation_records_def)
  have sub: "set records0 \<subseteq> set records"
  proof -
    have "collect_records st1 (rs_names st) [] = Inr records0"
    proof -
      have "collect_records st1 (rs_names st) [] = collect_records st (rs_names st) []"
      proof (rule collect_records_cong)
        fix name assume "name \<in> set (rs_names st)"
        then have "rs_files st (generations_dir (rs_run_id st) @ name) \<noteq> None"
          using ok by (simp add: listing_ok_def)
        then show "rs_files st1 (generations_dir (rs_run_id st1) @ name)
            = rs_files st (generations_dir (rs_run_id st) @ name)"
          using prepare_frame(3) [OF p] prepare_frame(1) [OF p] by (simp add: same_rest_def)
      qed
      then show ?thesis using p0(4) by (simp add: generation_records_def)
    qed
    moreover have "rs_names st1 = rs_names st
        \<or> rs_names st1 = rs_names st @ [generation_name (sg_revision g) (sg_state_hash g)]"
      by (rule cas_prepare_Inr [OF p], elim disjE conjE) simp_all
    ultimately show ?thesis
      using recs(1) collect_records_set [of st1 "rs_names st" "[]" records0]
        collect_records_set [of st1 "rs_names st1" "[]" records]
      by (auto simp: generation_records_def)
  qed
  have "case current of None \<Rightarrow> True | Some g0 \<Rightarrow> map_of records (sg_revision g0) = Some (sg_state_hash g0)"
    using p0(5) cur sub d
    by (auto simp: recoverable_def Let_def split: option.splits dest!: map_of_SomeD)
  note complete = recoverable_complete [OF recs(2) d p0(3) [unfolded cur] swapped_sound(3) [OF p s] this _ p0(1)]
  show ?thesis by (rule that [OF recs(1) complete])
qed

theorem crash_recovery:
  assumes ok: "listing_ok st" and p: "cas_prepare st r h s = Inr (g, st1)"
    and s: "run_inv (clean_of (rs_env st)) s" "dump_ok (rs_env st) s"
  shows "cas_prepare st1 r h s = Inr (g, st1)"
proof -
  obtain current t where c: "0 \<le> r" "is_sha256 h" "load_optional st True = Inr current"
      "expected_current current r (lower h)" "validate_transition (view_of st) current s = Inr t"
      "g = create_generation (rs_env st) (r + 1) t"
    using cas_prepare_Inr [OF p] by metis
  obtain records where recs: "generation_records st1 = Inr records"
      "\<And>g'. sg_revision g' = r + 1 \<Longrightarrow>
         recoverable records current g' \<longleftrightarrow> sg_state_hash g' = sg_state_hash g"
    using crashed_records [OF ok p s c(3)] by blast
  have env: "rs_env st1 = rs_env st" using prepare_frame(1) [OF p] by (simp add: same_rest_def)
  have rev: "sg_revision g = r + 1" by (rule swapped_sound(3) [OF p s])
  have gen: "load_generation st1 (sg_revision g) (sg_state_hash g) = Inr g"
    using prepared(1) [OF ok p s] rev by simp
  then obtain raw where "rs_files st1 (generation_path st1 (sg_revision g) (sg_state_hash g)) = Some (Regular raw)"
    by (auto simp: load_generation_def bind_result_Inr read_json_file_Inr split: if_splits)
  then have w: "write_new_json (rs_files st1) (generation_path st1 (sg_revision g) (sg_state_hash g)) v
      = Inr (False, rs_files st1)" for v
    by (simp add: write_new_json_Inr)
  have l: "load_optional st1 True = Inr current" using crashed_loads(1) [OF ok p s] c(3) by simp
  have v: "validate_transition (view_of st1) current s = Inr t"
    by (rule extends_validate [OF prepare_extends [OF p] c(5)])
  have r: "recoverable records current g" using recs(2) rev by simp
  show ?thesis
    using c(1,2,4,6) l v recs(1) r gen w env
    by (simp add: cas_prepare_def store_result_def Let_def)
qed

lemma crash_exclusive:
  assumes ok: "listing_ok st" and p: "cas_prepare st r h s = Inr (g, st1)"
    and s: "run_inv (clean_of (rs_env st)) s" "dump_ok (rs_env st) s"
    and q: "cas_prepare st1 r h s' = Inr (g', st2)"
  shows "sg_state_hash g' = sg_state_hash g" "sg_revision g' = sg_revision g"
proof -
  obtain current where c: "load_optional st True = Inr current" using cas_prepare_Inr [OF p] by metis
  obtain current' t records' where q': "load_optional st1 True = Inr current'"
      "generation_records st1 = Inr records'" "recoverable records' current' g'"
      "g' = create_generation (rs_env st1) (r + 1) t"
    using cas_prepare_Inr [OF q] by metis
  then have rev: "sg_revision g' = r + 1" by (simp add: create_generation_def)
  have "current' = current" using crashed_loads(1) [OF ok p s] c q'(1) by simp
  with crashed_records [OF ok p s c] q' rev show "sg_state_hash g' = sg_state_hash g"
    by (metis sum.inject(2))
  show "sg_revision g' = sg_revision g" using rev swapped_sound(3) [OF p s] by simp
qed

end
