(* ===== verification/Run_History.thy ===== *)
theory Run_History
  imports Crash_Recovery
begin

section \<open>The history of a run\<close>

text \<open>
  A run is the list of its generations, oldest first.  \<open>stored_history\<close> says that the first
  was accepted as an initial state and every other one after the generation before it;
  what the transition laws say of one step holds of any two generations of the list.
  The store implements this specification: the generations that a sequence of successful
  swaps on an empty store returns are such a history, the load returns the last of them
  and every one of them stays readable.
\<close>

inductive stored_history :: "store_env \<Rightarrow> state_generation list \<Rightarrow> bool" for env where
  first: "\<lbrakk>validate_transition view None s = Inr t; sv_env view = env\<rbrakk> \<Longrightarrow>
     stored_history env [create_generation env 1 t]"
| follow: "\<lbrakk>stored_history env gs; validate_transition view (Some (last gs)) s = Inr t; sv_env view = env\<rbrakk> \<Longrightarrow>
     stored_history env (gs @ [create_generation env (sg_revision (last gs) + 1) t])"

inductive_simps stored_history_single: "stored_history env [g]"

lemma history_nonempty: "stored_history env gs \<Longrightarrow> gs \<noteq> []"
  by (induction rule: stored_history.induct) simp_all

subsection \<open>The first generation\<close>

lemma initial_accepted:
  assumes "validate_transition view None s = Inr t"
  shows "run_inv (clean_of (sv_env view)) t" "initial_state_ok (sv_env view) t"
    "no_error (entry_checks view t)"
proof -
  obtain u where u: "model_validate (clean_of (sv_env view)) s = Inr u"
      "bind_result (checked (entry_checks view u) u) (\<lambda>_. follow_state view None u) = Inr t"
    using assms by (auto simp: validate_transition_def split: if_splits sum.splits)
  then have e: "no_error (entry_checks view u)"
      "checked [(\<not> initial_state_ok (sv_env view) u, Initial_State_Invalid)] u = Inr t"
    by (auto simp only: bind_result_Inr checked_no_error follow_state_def option.case)
  from e(2) have "t = u" "initial_state_ok (sv_env view) u" unfolding checked_no_error by simp_all
  then show "run_inv (clean_of (sv_env view)) t" "initial_state_ok (sv_env view) t"
    "no_error (entry_checks view t)"
    using e(1) model_validate_inv [OF u(1)] by simp_all
qed

definition untouched :: "run_state \<Rightarrow> bool" where
  \<comment> \<open>nothing has happened in the run yet\<close>
  "untouched s \<longleftrightarrow>
     crew_iteration_count s = 0 \<and> \<not> iteration_open s \<and> preparation_phase s = SELECTED
     \<and> disposition s \<in> {ACTIVE, HUMAN_REVIEW} \<and> effect_ledger s = [] \<and> failure_history s = []
     \<and> human_authorizations s = [] \<and> pending_external_request s = None \<and> stage_outputs s = []
     \<and> (\<forall>st. checkpoints s st = None) \<and> \<not> finalization_eligible s \<and> branch s = None"

lemma untouched_snapshot: "untouched (normalize (initial_snapshot s))"
  by (simp add: untouched_def normalize_def initial_snapshot_def new_run_state_def Let_def)

lemma initial_untouched: "initial_state_ok env s \<Longrightarrow> untouched s"
  unfolding initial_state_ok_def
  using untouched_snapshot [of s] by (auto simp: model_validate_Inr split: sum.splits)

subsection \<open>Any two generations\<close>

definition history_inv :: "store_env \<Rightarrow> state_generation list \<Rightarrow> bool" where
  "history_inv env gs \<longleftrightarrow>
     gs \<noteq> [] \<and> untouched (sg_state (hd gs))
     \<and> map sg_revision gs = [1..int (length gs)]
     \<and> (\<forall>g \<in> set gs. run_inv (clean_of env) (sg_state g)
          \<and> sg_state_hash g = state_hash_of env (sg_state g))
     \<and> successively (\<lambda>p g. \<exists>view. sv_env view = env \<and> step_ok view p (sg_state g)) gs"

lemma created_generation [simp]:
  "sg_revision (create_generation env r t) = r" "sg_state (create_generation env r t) = t"
  "sg_state_hash (create_generation env r t) = state_hash_of env t"
  by (simp_all add: create_generation_def)

lemma upto_next: "0 \<le> n \<Longrightarrow> [1..n] @ [n + 1] = [1..n + (1::int)]"
  by (simp add: upto_rec2)

lemma last_revision:
  assumes "map sg_revision gs = [1..int (length gs)]" "gs \<noteq> []"
  shows "sg_revision (last gs) = int (length gs)"
proof -
  have "last (map sg_revision gs) = last [1..int (length gs)]" using assms(1) by simp
  moreover have "[1..int (length gs)] = [1..int (length gs) - 1] @ [int (length gs)]"
    using assms(2) by (simp add: upto_rec2 Suc_le_eq)
  ultimately show ?thesis using assms(2) by (simp add: last_map)
qed

lemma history_invariant: "stored_history env gs \<Longrightarrow> history_inv env gs"
proof (induction rule: stored_history.induct)
  case (first view s t)
  then show ?case
    using initial_accepted [OF first(1)] initial_untouched [of env t] by (simp add: history_inv_def)
next
  case (follow gs view s t)
  let ?g = "create_generation env (sg_revision (last gs) + 1) t"
  have inv: "gs \<noteq> []" "untouched (sg_state (hd gs))" "map sg_revision gs = [1..int (length gs)]"
    "\<forall>g \<in> set gs. run_inv (clean_of env) (sg_state g) \<and> sg_state_hash g = state_hash_of env (sg_state g)"
    "successively (\<lambda>p g. \<exists>view. sv_env view = env \<and> step_ok view p (sg_state g)) gs"
    using follow.IH by (simp_all add: history_inv_def)
  have last: "run_inv (clean_of env) (sg_state (last gs))" using inv(1,4) by simp
  have new: "run_inv (clean_of env) t"
    using validate_transition_Some(1) [OF follow(2)] follow(3) by simp
  have "step_ok view (last gs) t"
    using last follow(2,3) by (auto simp: step_ok_def accepts_def)
  then have "successively (\<lambda>p g. \<exists>view. sv_env view = env \<and> step_ok view p (sg_state g)) (gs @ [?g])"
    using inv(1,5) follow(3) by (auto simp: successively_append_iff)
  moreover have "map sg_revision (gs @ [?g]) = [1..int (length (gs @ [?g]))]"
    using inv(3) last_revision [OF inv(3,1)] upto_next [of "int (length gs)"]
    by (simp add: add.commute)
  ultimately show ?case
    using inv(1,2,4) new by (simp add: history_inv_def)
qed

lemma successively_pairs:
  assumes "successively P xs" "j < length xs" "i \<le> j"
    and "\<And>i. Suc i < length xs \<Longrightarrow> P (xs ! i) (xs ! Suc i) \<Longrightarrow> Q (xs ! i) (xs ! Suc i)"
    and "\<And>x. Q x x" and "\<And>x y z. Q x y \<Longrightarrow> Q y z \<Longrightarrow> Q x z"
  shows "Q (xs ! i) (xs ! j)"
  using assms(3,2)
proof (induction rule: dec_induct)
  case base
  then show ?case using assms(5) by simp
next
  case (step n)
  have "P (xs ! n) (xs ! Suc n)"
    using assms(1) step.prems by (simp add: successively_conv_nth)
  then show ?case using step assms(4,6) by (metis Suc_lessD)
qed

lemma history_pairs:
  assumes "stored_history env gs" "i \<le> j" "j < length gs"
    and "\<And>view p t. sv_env view = env \<Longrightarrow> step_ok view p t \<Longrightarrow> Q (sg_state p) t"
    and "\<And>x. Q x x" and "\<And>x y z. Q x y \<Longrightarrow> Q y z \<Longrightarrow> Q x z"
  shows "Q (sg_state (gs ! i)) (sg_state (gs ! j))"
proof -
  have "successively (\<lambda>p g. \<exists>view. sv_env view = env \<and> step_ok view p (sg_state g)) gs"
    using history_invariant [OF assms(1)] by (simp add: history_inv_def)
  then show ?thesis
  proof (rule successively_pairs [where Q = "\<lambda>p g. Q (sg_state p) (sg_state g)", OF _ assms(3,2)])
    fix i assume "\<exists>view. sv_env view = env \<and> step_ok view (gs ! i) (sg_state (gs ! Suc i))"
    then show "Q (sg_state (gs ! i)) (sg_state (gs ! Suc i))" using assms(4) by blast
  next
    fix x :: state_generation
    show "Q (sg_state x) (sg_state x)" by (rule assms(5))
  next
    fix x y z :: state_generation
    assume "Q (sg_state x) (sg_state y)" "Q (sg_state y) (sg_state z)"
    then show "Q (sg_state x) (sg_state z)" by (rule assms(6))
  qed
qed

lemma history_first: "stored_history env gs \<Longrightarrow> untouched (sg_state (gs ! 0))"
  using history_invariant [of env gs] hd_conv_nth [of gs] by (auto simp: history_inv_def)

lemma history_state: "stored_history env gs \<Longrightarrow> g \<in> set gs \<Longrightarrow> run_inv (clean_of env) (sg_state g)"
  using history_invariant by (auto simp: history_inv_def)

lemma history_identity:
  assumes "stored_history env gs" "i \<le> j" "j < length gs"
  shows "same_identity (sg_state (gs ! i)) (sg_state (gs ! j))"
  by (rule history_pairs [OF assms]) (blast intro: step_identity same_identity_refl same_identity_trans)+

lemma history_only_grows:
  assumes "stored_history env gs" "i \<le> j" "j < length gs"
  shows "history_grows (sg_state (gs ! i)) (sg_state (gs ! j))"
  by (rule history_pairs [OF assms]) (blast intro: step_history history_grows_refl history_grows_trans)+

lemma step_count: "step_ok view p t \<Longrightarrow> crew_iteration_count (sg_state p) \<le> crew_iteration_count t"
  using step_iteration [of view p t] by auto

lemma history_limit:
  assumes "stored_history env gs" "i \<le> j" "j < length gs"
  shows "crew_iteration_count (sg_state (gs ! i)) \<le> crew_iteration_count (sg_state (gs ! j))"
    "authorized_iteration_limit (sg_state (gs ! i)) \<le> authorized_iteration_limit (sg_state (gs ! j))"
proof -
  show "crew_iteration_count (sg_state (gs ! i)) \<le> crew_iteration_count (sg_state (gs ! j))"
    by (rule history_pairs [OF assms, where Q = "\<lambda>a b. crew_iteration_count a \<le> crew_iteration_count b"])
      (blast intro: step_count order_refl order_trans)+
  show "authorized_iteration_limit (sg_state (gs ! i)) \<le> authorized_iteration_limit (sg_state (gs ! j))"
    by (rule history_pairs [OF assms,
          where Q = "\<lambda>a b. authorized_iteration_limit a \<le> authorized_iteration_limit b"])
      (blast intro: step_limit(1) order_refl order_trans)+
qed

lemma history_abandoned:
  assumes "stored_history env gs" "i \<le> j" "j < length gs"
    and "disposition (sg_state (gs ! i)) = ABANDONED"
  shows "sg_state (gs ! j) = sg_state (gs ! i)"
proof -
  have "disposition (sg_state (gs ! i)) = ABANDONED \<longrightarrow> sg_state (gs ! j) = sg_state (gs ! i)"
    by (rule history_pairs [OF assms(1-3), where Q = "\<lambda>a b. disposition a = ABANDONED \<longrightarrow> b = a"])
      (simp_all add: step_abandoned)
  with assms(4) show ?thesis by simp
qed

lemma step_lifecycle: "step_ok view p t \<Longrightarrow> (disposition (sg_state p), disposition t) \<in> lifecycle_edges\<^sup>*"
  using step_disposition [of view p t] by auto

lemma history_lifecycle:
  assumes "stored_history env gs" "i \<le> j" "j < length gs"
  shows "(disposition (sg_state (gs ! i)), disposition (sg_state (gs ! j))) \<in> lifecycle_edges\<^sup>*"
  by (rule history_pairs [OF assms, where Q = "\<lambda>a b. (disposition a, disposition b) \<in> lifecycle_edges\<^sup>*"])
    (blast intro: step_lifecycle rtrancl_trans)+

subsection \<open>Authorizations and the budget\<close>

definition vouched :: "store_env \<Rightarrow> human_authorization \<Rightarrow> bool" where
  "vouched env a \<longleftrightarrow> (\<exists>action. is_trusted_authorization env a action)"

definition vouched_between :: "store_env \<Rightarrow> run_state \<Rightarrow> run_state \<Rightarrow> bool" where
  "vouched_between env s t \<longleftrightarrow>
     set (human_authorizations t) \<subseteq> set (human_authorizations s) \<union> Collect (vouched env)"

lemma step_vouched: "step_ok view p t \<Longrightarrow> vouched_between (sv_env view) (sg_state p) t"
  using step_authorizations [of view p t] by (auto simp: vouched_between_def vouched_def)

lemma history_vouched:
  assumes "stored_history env gs" and "g \<in> set gs" and "a \<in> set (human_authorizations (sg_state g))"
  shows "vouched env a"
proof -
  obtain j where j: "j < length gs" "g = gs ! j" using assms(2) by (metis in_set_conv_nth)
  have "vouched_between env (sg_state (gs ! 0)) (sg_state (gs ! j))"
    by (rule history_pairs [OF assms(1) _ j(1)])
      (auto simp: step_vouched, auto simp: vouched_between_def)
  moreover have "human_authorizations (sg_state (gs ! 0)) = []"
    using history_first [OF assms(1)] by (simp add: untouched_def)
  ultimately show ?thesis using assms(3) j(2) by (auto simp: vouched_between_def)
qed

lemma limit_without_resume:
  assumes "\<forall>a \<in> set (human_authorizations s). ha_action a \<noteq> RESUME"
  shows "authorized_iteration_limit s = max_crew_iterations s"
proof -
  have "consumed_resume_grant a = 0" if "a \<in> set (human_authorizations s)" for a
    using assms that by (auto simp: consumed_resume_grant_def split: option.splits)
  then have "sum_list (map consumed_resume_grant (human_authorizations s))
      = sum_list (map (\<lambda>_. 0) (human_authorizations s))"
    by (intro arg_cong [where f = sum_list] map_cong) simp_all
  then show ?thesis by (simp add: authorized_iteration_limit_def)
qed

lemma history_budget:
  assumes "stored_history env gs" and "g \<in> set gs"
  shows "crew_iteration_count (sg_state g) \<le> authorized_iteration_limit (sg_state g)"
  using history_state [OF assms] by (rule run_inv_budget)

lemma history_done:
  assumes "stored_history env gs" "i < length gs" "disposition (sg_state (gs ! i)) = DONE"
  obtains k where "Suc k \<le> i" "disposition (sg_state (gs ! k)) = ACTIVE"
    "no_error (done_checks (sg_state (gs ! k)) (sg_state (gs ! Suc k)))"
  using assms(2,3)
proof (induction i arbitrary: thesis)
  case 0
  then show ?case using history_first [OF assms(1)] by (simp add: untouched_def)
next
  case (Suc i)
  show ?case
  proof (cases "disposition (sg_state (gs ! i)) = DONE")
    case True
    with Suc.IH [of thesis] Suc.prems show ?thesis by (meson Suc_lessD le_SucI)
  next
    case False
    obtain view where "step_ok view (gs ! i) (sg_state (gs ! Suc i))"
      using history_invariant [OF assms(1)] Suc.prems(2)
      by (auto simp: history_inv_def successively_conv_nth)
    then have d: "no_error (done_checks (sg_state (gs ! i)) (sg_state (gs ! Suc i)))"
      using step_to_done Suc.prems(3) False by blast
    then have "disposition (sg_state (gs ! i)) = ACTIVE" by (simp add: done_checks_def)
    with d Suc.prems(1) [of i] show ?thesis by simp
  qed
qed

subsection \<open>The store keeps the history\<close>

fun swap_all ::
  "('st \<Rightarrow> int \<Rightarrow> string \<Rightarrow> 's \<Rightarrow> 'e + 'g \<times> 'st) \<Rightarrow> 'st \<Rightarrow> (int \<times> string \<times> 's) list \<Rightarrow> 'e + 'g list \<times> 'st" where
  \<comment> \<open>swaps one after another; the first failure ends them\<close>
  "swap_all swap st [] = Inr ([], st)"
| "swap_all swap st ((r, h, s) # rest) =
     bind_result (swap st r h s) (\<lambda>(g, st').
       bind_result (swap_all swap st' rest) (\<lambda>(gs, st''). Inr (g # gs, st'')))"

lemma swap_all_append:
  "swap_all swap st (xs @ ys) =
     bind_result (swap_all swap st xs) (\<lambda>(gs, st').
       bind_result (swap_all swap st' ys) (\<lambda>(hs, st''). Inr (gs @ hs, st'')))"
proof (induction xs arbitrary: st)
  case Nil
  show ?case by (cases "swap_all swap st ys") auto
next
  case (Cons x xs)
  obtain r h s where x: "x = (r, h, s)" by (cases x)
  show ?case
    unfolding x
    by (cases "swap st r h s")
      (auto simp: Cons bind_result_def split: sum.splits prod.splits)
qed

lemma swap_all_snoc:
  "swap_all swap st (xs @ [(r, h, s)]) = Inr (gs, st') \<longleftrightarrow>
     (\<exists>gs0 st0 g. swap_all swap st xs = Inr (gs0, st0) \<and> swap st0 r h s = Inr (g, st') \<and> gs = gs0 @ [g])"
  by (auto simp: swap_all_append bind_result_Inr)

locale versioned_store =
  fixes swap :: "'st \<Rightarrow> int \<Rightarrow> string \<Rightarrow> 's \<Rightarrow> 'e + 'g \<times> 'st"
    and current :: "'st \<Rightarrow> 'g option"
    and at_version :: "'st \<Rightarrow> int \<Rightarrow> string \<Rightarrow> 'g option"
    and version :: "'g \<Rightarrow> int \<times> string"
    and content :: "'g \<Rightarrow> 's"
    and healthy :: "'st \<Rightarrow> bool"
    and storable :: "'st \<Rightarrow> 's \<Rightarrow> bool"
  assumes swap_done: "\<lbrakk>healthy st; storable st s; swap st r h s = Inr (g, st')\<rbrakk> \<Longrightarrow>
      healthy st' \<and> current st' = Some g \<and> content g = s \<and> fst (version g) = r + 1
      \<and> at_version st' (fst (version g)) (snd (version g)) = Some g"
    and swap_same: "swap st r h s = Inr (g, st') \<Longrightarrow> storable st' = storable st"
    and swap_keeps: "\<lbrakk>swap st r h s = Inr (g, st'); at_version st r' h' = Some g'\<rbrakk> \<Longrightarrow>
      at_version st' r' h' = Some g'"
    and swap_expects: "\<lbrakk>healthy st; current st = Some p; swap st r h s = Inr (g, st')\<rbrakk> \<Longrightarrow>
      fst (version p) = r"
begin

lemma swaps_stored:
  assumes "healthy st" and "\<forall>(r, h, s) \<in> set reqs. storable st s"
    and "swap_all swap st reqs = Inr (gs, st')" and "reqs \<noteq> []"
  shows "healthy st' \<and> current st' = Some (last gs) \<and> storable st' = storable st
    \<and> map content gs = map (snd \<circ> snd) reqs
    \<and> (\<forall>g \<in> set gs. at_version st' (fst (version g)) (snd (version g)) = Some g)"
  using assms(4,2,3)
proof (induction reqs arbitrary: gs st' rule: rev_nonempty_induct)
  case (single x)
  then show ?case
    using swap_done [OF assms(1)] swap_same by (cases x) (fastforce simp: bind_result_Inr)
next
  case (snoc x xs)
  obtain r h s where x: "x = (r, h, s)" by (cases x)
  obtain gs0 st0 g where s0: "swap_all swap st xs = Inr (gs0, st0)" "swap st0 r h s = Inr (g, st')"
      "gs = gs0 @ [g]"
    using snoc.prems(2) unfolding x swap_all_snoc by blast
  have ih: "healthy st0" "storable st0 = storable st" "map content gs0 = map (snd \<circ> snd) xs"
      "\<forall>g \<in> set gs0. at_version st0 (fst (version g)) (snd (version g)) = Some g"
    using snoc.IH [OF _ s0(1)] snoc.prems(1) by auto
  have "storable st0 s" using snoc.prems(1) ih(2) x by auto
  note d = swap_done [OF ih(1) this s0(2)]
  show ?case
    using d ih swap_same [OF s0(2)] swap_keeps [OF s0(2)] s0(3) x by auto
qed

lemma versions_consecutive:
  assumes "healthy st" and "\<forall>(r, h, s) \<in> set reqs. storable st s"
    and "swap_all swap st reqs = Inr (gs, st')" and "i + 1 < length gs"
  shows "fst (version (gs ! (i + 1))) = fst (version (gs ! i)) + 1"
  using assms(2-4)
proof (induction reqs arbitrary: gs st' rule: rev_induct)
  case Nil
  then show ?case by simp
next
  case (snoc x xs)
  obtain r h s where x: "x = (r, h, s)" by (cases x)
  obtain gs0 st0 g where s0: "swap_all swap st xs = Inr (gs0, st0)" "swap st0 r h s = Inr (g, st')"
      "gs = gs0 @ [g]"
    using snoc.prems(2) unfolding x swap_all_snoc by blast
  show ?case
  proof (cases "i + 1 < length gs0")
    case True
    then show ?thesis using snoc.IH [OF _ s0(1)] snoc.prems(1) s0(3) by (auto simp: nth_append)
  next
    case False
    then have i: "i + 1 = length gs0" using snoc.prems(3) s0(3) by simp
    then have "xs \<noteq> []" using s0(1) by auto
    from swaps_stored [OF assms(1) _ s0(1) this] snoc.prems(1)
    have st0: "healthy st0" "current st0 = Some (last gs0)" "storable st0 = storable st" by auto
    then have "fst (version g) = r + 1" "fst (version (last gs0)) = r"
      using swap_done [OF st0(1) _ s0(2)] swap_expects [OF st0(1,2) s0(2)] snoc.prems(1) x by auto
    then show ?thesis
      using i s0(3) by (cases gs0 rule: rev_cases) (auto simp: nth_append)
  qed
qed

lemma one_winner:
  assumes "healthy st" and "storable st s" and "swap st r h s = Inr (g, st')"
  shows "swap st' r h' s' \<noteq> Inr (g', st'')"
proof
  assume "swap st' r h' s' = Inr (g', st'')"
  with swap_done [OF assms] swap_expects [of st' g r h' s' g' st''] show False by simp
qed

end

definition faithful :: "store_env \<Rightarrow> bool" where
  \<comment> \<open>pydantic's side of the store: a well-formed state validates back from its dump, and
    whatever validates is well-formed\<close>
  "faithful env \<longleftrightarrow>
     (\<forall>s. run_inv (clean_of env) s \<longrightarrow> dump_ok env s)
     \<and> (\<forall>v s. se_parse env v = Some s \<longrightarrow> run_inv (clean_of env) s)"

definition store_current :: "run_store \<Rightarrow> state_generation option" where
  "store_current st = (case load st of Inl _ \<Rightarrow> None | Inr g \<Rightarrow> Some g)"

definition store_at :: "run_store \<Rightarrow> int \<Rightarrow> string \<Rightarrow> state_generation option" where
  "store_at st r h = (case load_generation st r h of Inl _ \<Rightarrow> None | Inr g \<Rightarrow> Some g)"

definition storable_state :: "run_store \<Rightarrow> run_state \<Rightarrow> bool" where
  "storable_state st s \<longleftrightarrow> run_inv (clean_of (rs_env st)) s \<and> dump_ok (rs_env st) s"

lemma store_at_Some [simp]: "store_at st r h = Some g \<longleftrightarrow> load_generation st r h = Inr g"
  by (simp add: store_at_def split: sum.splits)

lemma store_current_Some [simp]: "store_current st = Some g \<longleftrightarrow> load st = Inr g"
  by (simp add: store_current_def split: sum.splits)

lemma load_current:
  assumes "load st = Inr p"
  shows "load_optional st False = Inr (Some p)" "load_optional st True = Inr (Some p)"
  using assms
  by (auto simp: load_def load_optional_def bind_result_Inr split: option.splits if_splits)

lemma load_generation_fields:
  "load_generation st r h = Inr g \<Longrightarrow> sg_revision g = r \<and> sg_state_hash g = h"
  unfolding load_generation_def
  by (auto elim!: bind_result_InrE split: if_split_asm json.split_asm option.split_asm)

lemma load_optional_read:
  "map_sum id Some r = Inr (Some g) \<longleftrightarrow> r = Inr g"
  by (cases r) auto

lemma current_loads:
  assumes "load_optional st True = Inr (Some g)"
  shows "load_generation st (sg_revision g) (sg_state_hash g) = Inr g"
  using load_optional_parts [OF assms] load_generation_fields [of st _ _ g]
  unfolding pointed_generation_def
  by (auto simp: load_optional_read elim!: bind_result_InrE split: if_split_asm json.split_asm option.split_asm)

lemma load_generation_inv:
  "load_generation st r h = Inr g \<Longrightarrow>
     run_id (sg_state g) = rs_run_id st \<and> (\<exists>v. se_parse (rs_env st) v = Some (sg_state g))"
  unfolding load_generation_def
  by (auto elim!: bind_result_InrE split: if_split_asm json.split_asm option.split_asm) blast

lemma load_inv:
  assumes "faithful (rs_env st)" and "load st = Inr g"
  shows "run_inv (clean_of (rs_env st)) (sg_state g)" "run_id (sg_state g) = rs_run_id st"
    "dump_ok (rs_env st) (sg_state g)"
  using load_generation_inv [OF current_loads [OF load_current(2) [OF assms(2)]]] assms(1)
  by (auto simp: faithful_def)

lemma swap_same_rest: "compare_and_swap st r h s = Inr (g, st') \<Longrightarrow> same_rest st st'"
  by (auto simp: compare_and_swap_Inr same_rest_def dest!: prepare_frame(1) pointer_frame(1))

lemma swap_expected:
  assumes "compare_and_swap st r h s = Inr (g, st')" and "load st = Inr p"
  shows "sg_revision p = r" "validate_transition (view_of st) (Some p) s = Inr (sg_state g)"
    "g = create_generation (rs_env st) (sg_revision p + 1) (sg_state g)"
proof -
  obtain st1 where "cas_prepare st r h s = Inr (g, st1)"
    using assms(1) by (auto simp: compare_and_swap_Inr)
  then obtain current t where "load_optional st True = Inr current" "expected_current current r (lower h)"
      "validate_transition (view_of st) current s = Inr t" "g = create_generation (rs_env st) (r + 1) t"
    using cas_prepare_Inr by metis
  with load_current(2) [OF assms(2)] show "sg_revision p = r"
    "validate_transition (view_of st) (Some p) s = Inr (sg_state g)"
    "g = create_generation (rs_env st) (sg_revision p + 1) (sg_state g)"
    by (auto simp: expected_current_def)
qed

interpretation runs: versioned_store compare_and_swap store_current store_at
  "\<lambda>g. (sg_revision g, sg_state_hash g)" sg_state listing_ok storable_state
proof
  fix st s r h g st'
  assume "listing_ok st" "storable_state st s" "compare_and_swap st r h s = Inr (g, st')"
  then have "listing_ok st'" "load st' = Inr g" "sg_state g = s" "sg_revision g = r + 1"
      "load_optional st' True = Inr (Some g)"
    using swapped_loads by (auto simp: storable_state_def)
  moreover from this(5) have "load_generation st' (sg_revision g) (sg_state_hash g) = Inr g"
    by (rule current_loads)
  ultimately show "listing_ok st' \<and> store_current st' = Some g \<and> sg_state g = s
      \<and> fst (sg_revision g, sg_state_hash g) = r + 1
      \<and> store_at st' (fst (sg_revision g, sg_state_hash g)) (snd (sg_revision g, sg_state_hash g)) = Some g"
    by simp
next
  fix st r h s g st'
  assume "compare_and_swap st r h s = Inr (g, st')"
  from swap_same_rest [OF this] show "storable_state st' = storable_state st"
    by (auto simp: storable_state_def same_rest_def)
next
  fix st r h s g st' r' h' g'
  assume "compare_and_swap st r h s = Inr (g, st')" "store_at st r' h' = Some g'"
  then show "store_at st' r' h' = Some g'" by (simp add: generations_stay)
next
  fix st p r h s g st'
  assume "listing_ok st" "store_current st = Some p" "compare_and_swap st r h s = Inr (g, st')"
  then show "fst (sg_revision p, sg_state_hash p) = r" by (simp add: swap_expected)
qed

subsection \<open>The store implements the history\<close>

definition empty_run :: "run_store \<Rightarrow> bool" where
  "empty_run st \<longleftrightarrow> listing_ok st \<and> load_optional st True = Inr None"

lemma swaps_history:
  assumes "empty_run st" and "\<forall>(r, h, s) \<in> set reqs. storable_state st s"
    and "swap_all compare_and_swap st reqs = Inr (gs, st')" and "reqs \<noteq> []"
  shows "stored_history (rs_env st) gs \<and> same_rest st st'"
  using assms(4,2,3)
proof (induction reqs arbitrary: gs st' rule: rev_nonempty_induct)
  case (single x)
  obtain r h s where x: "x = (r, h, s)" by (cases x)
  then obtain g where g: "compare_and_swap st r h s = Inr (g, st')" "gs = [g]"
    using single by (auto simp: bind_result_Inr)
  then obtain st1 where "cas_prepare st r h s = Inr (g, st1)" by (auto simp: compare_and_swap_Inr)
  then obtain t where "expected_current None r (lower h)" "validate_transition (view_of st) None s = Inr t"
      "g = create_generation (rs_env st) (r + 1) t"
    using cas_prepare_Inr assms(1) by (metis empty_run_def sum.inject(2))
  then have "stored_history (rs_env st) [g]"
    using stored_history.first [of "view_of st" s t "rs_env st"] by (simp add: expected_current_def view_of_def)
  with g swap_same_rest show ?case by blast
next
  case (snoc x xs)
  obtain r h s where x: "x = (r, h, s)" by (cases x)
  obtain gs0 st0 g where s0: "swap_all compare_and_swap st xs = Inr (gs0, st0)"
      "compare_and_swap st0 r h s = Inr (g, st')" "gs = gs0 @ [g]"
    using snoc.prems(2) unfolding x swap_all_snoc by blast
  have ih: "stored_history (rs_env st) gs0" "same_rest st st0"
    using snoc.IH [OF _ s0(1)] snoc.prems(1) by auto
  have "load st0 = Inr (last gs0)"
    using runs.swaps_stored [OF _ _ s0(1) snoc.hyps(1)] snoc.prems(1) assms(1) by (simp add: empty_run_def)
  note e = swap_expected [OF s0(2) this]
  have env: "rs_env st0 = rs_env st" using ih(2) by (simp add: same_rest_def)
  then have "sv_env (view_of st0) = rs_env st" by (simp add: view_of_def)
  from stored_history.follow [OF ih(1) e(2) this]
  have "stored_history (rs_env st) gs" using e(3) s0(3) env by simp
  moreover have "same_rest st st'"
    using ih(2) swap_same_rest [OF s0(2)] by (simp add: same_rest_def)
  ultimately show ?case by simp
qed

end
