(* ===== verification/Store_Progress.thy ===== *)
theory Store_Progress
  imports Run_History
begin

section \<open>Accepted states are stored\<close>

text \<open>
  Nothing but the stated conditions stands in the way of a swap: on a store that the
  strict load accepts, a swap that names the current generation and gives a state that
  the transition accepts succeeds.  Together with the laws before, compare-and-swap is
  decided by the expectation and the transition alone.
\<close>

definition current_digest :: "state_generation option \<Rightarrow> int \<times> string" where
  \<comment> \<open>what a writer that has seen the current generation expects\<close>
  "current_digest current =
     (case current of None \<Rightarrow> (0, empty_state_hash) | Some g \<Rightarrow> (sg_revision g, sg_state_hash g))"

lemma load_optional_strict:
  assumes "load_optional st False = Inr current"
  shows "load_optional st True = Inr current" "pointed_generation st = Inr current"
    "\<exists>records. generation_records st = Inr records
       \<and> (case current of None \<Rightarrow> records = [] | Some g \<Rightarrow> complete_history records g)"
  using assms
  by (auto simp: load_optional_def bind_result_Inr split: option.splits if_splits)

lemma pointed_digest:
  assumes "pointed_generation st = Inr (Some g)"
  shows "1 \<le> sg_revision g \<and> is_sha256 (sg_state_hash g) \<and> lower (sg_state_hash g) = sg_state_hash g"
  using assms load_generation_fields [of st _ _ g]
  unfolding pointed_generation_def
  by (auto simp: load_optional_read elim!: bind_result_InrE split: if_split_asm json.split_asm option.split_asm)

lemma pointer_replaceable:
  assumes "pointed_generation st = Inr current"
  shows "rs_files st (current_path (rs_run_id st)) \<notin> {Some Directory, Some Symlink}"
proof
  assume "rs_files st (current_path (rs_run_id st)) \<in> {Some Directory, Some Symlink}"
  then have "\<not> is_ok (pointed_generation st)"
    by (auto simp: pointed_generation_def path_lstat_def read_json_file_def)
  with assms show False by simp
qed

lemma current_digest_expected:
  assumes "load_optional st False = Inr current"
  shows "expected_current current (fst (current_digest current)) (lower (snd (current_digest current)))"
    "0 \<le> fst (current_digest current)" "is_sha256 (snd (current_digest current))"
proof -
  have p: "pointed_generation st = Inr current" by (rule load_optional_strict(2) [OF assms])
  show "expected_current current (fst (current_digest current)) (lower (snd (current_digest current)))"
    "0 \<le> fst (current_digest current)" "is_sha256 (snd (current_digest current))"
    using pointed_digest [of st] p hash_is_sha256 [of JNull]
    by (auto simp: current_digest_def expected_current_def empty_state_hash_def split: option.splits)
qed

lemma fresh_generation:
  assumes ok: "listing_ok st" and recs: "generation_records st = Inr records"
    and h: "is_digest h" "1 \<le> r" and fresh: "r \<notin> fst ` set records"
  shows "rs_files st (generation_path st r h) = None"
proof (rule ccontr)
  assume "rs_files st (generation_path st r h) \<noteq> None"
  then have "generation_name r h \<in> set (rs_names st)"
    using ok generation_path_name [of h st r] is_digest_lower [OF h(1)] by (simp add: listing_ok_def)
  then have "(r, h) \<in> set records"
    using generation_name_back [OF h(2,1)] generation_name_not_temporary [OF h(2)]
    unfolding collect_records_set [OF recs [unfolded generation_records_def]] by blast
  with fresh show False by force
qed

lemma fresh_recoverable:
  assumes "case current of None \<Rightarrow> records = [] | Some g0 \<Rightarrow> complete_history records g0"
    and "sg_revision g = fst (current_digest current) + 1"
  shows "recoverable records current g" "sg_revision g \<notin> fst ` set records"
proof -
  have keys: "fst ` set records = {1..fst (current_digest current)}"
    using assms(1) by (auto simp: current_digest_def complete_history_def split: option.splits)
  then show "sg_revision g \<notin> fst ` set records" using assms(2) by simp
  then have "map_of records (sg_revision g) = None" by (simp add: map_of_eq_None_iff)
  then show "recoverable records current g"
    using assms keys
    by (auto simp: recoverable_def Let_def current_digest_def complete_history_def split: option.splits)
qed

lemma swap_succeeds:
  assumes ok: "listing_ok st" and l: "load_optional st False = Inr current"
    and d: "current_digest current = (r, h)"
    and v: "validate_transition (view_of st) current s = Inr t"
  shows "\<exists>st'. compare_and_swap st r h s = Inr (create_generation (rs_env st) (r + 1) t, st')"
proof -
  let ?g = "create_generation (rs_env st) (r + 1) t"
  obtain records where recs: "generation_records st = Inr records"
      "case current of None \<Rightarrow> records = [] | Some g \<Rightarrow> complete_history records g"
    using load_optional_strict(3) [OF l] by blast
  have e: "expected_current current r (lower h)" "0 \<le> r" "is_sha256 h"
    using current_digest_expected [OF l] d by simp_all
  have g: "recoverable records current ?g" "r + 1 \<notin> fst ` set records"
    using fresh_recoverable [OF recs(2), of ?g] d by simp_all
  have none: "rs_files st (generation_path st (sg_revision ?g) (sg_state_hash ?g)) = None"
    by (rule fresh_generation [OF ok recs(1)]) (use e g in \<open>simp_all add: state_hash_of_def hash_json_digest\<close>)
  define st1 where "st1 = st\<lparr>rs_files := (rs_files st)(generation_path st (sg_revision ?g) (sg_state_hash ?g)
        \<mapsto> Regular (canonical_json_bytes (envelope (rs_env st) ?g))),
      rs_names := rs_names st @ [generation_name (sg_revision ?g) (sg_state_hash ?g)]\<rparr>"
  have w: "write_new_json (rs_files st) (generation_path st (sg_revision ?g) (sg_state_hash ?g))
        (envelope (rs_env st) ?g) = Inr (True, rs_files st1)"
    using none by (simp add: write_new_json_Inr st1_def)
  have p: "cas_prepare st r h s = Inr (?g, st1)"
    using e load_optional_strict(1) [OF l] v recs(1) g(1) w
    by (simp add: cas_prepare_def store_result_def Let_def st1_def)
  have "rs_files st1 (current_path (rs_run_id st1)) \<notin> {Some Directory, Some Symlink}"
    using pointer_replaceable [OF load_optional_strict(2) [OF l]]
      generation_path_not_current [of st "sg_revision ?g" "sg_state_hash ?g"]
    by (simp add: st1_def)
  then have "\<exists>st'. move_pointer st1 ?g = Inr st'" by (simp add: move_pointer_Inr)
  with p show ?thesis by (auto simp: compare_and_swap_Inr)
qed

lemma swap_decided:
  assumes "listing_ok st" and "load_optional st False = Inr current" and "is_sha256 h" and "0 \<le> r"
  shows "is_ok (compare_and_swap st r h s) \<longleftrightarrow>
    current_digest current = (r, lower h) \<and> is_ok (validate_transition (view_of st) current s)"
proof
  assume "is_ok (compare_and_swap st r h s)"
  then obtain g st' where "compare_and_swap st r h s = Inr (g, st')" by (auto simp: is_ok_iff)
  then obtain st1 where "cas_prepare st r h s = Inr (g, st1)" by (auto simp: compare_and_swap_Inr)
  then obtain current' t where "load_optional st True = Inr current'" "expected_current current' r (lower h)"
      "validate_transition (view_of st) current' s = Inr t"
    using cas_prepare_Inr by metis
  with load_optional_strict(1) [OF assms(2)]
  show "current_digest current = (r, lower h) \<and> is_ok (validate_transition (view_of st) current s)"
    by (auto simp: current_digest_def expected_current_def split: option.splits)
next
  assume a: "current_digest current = (r, lower h) \<and> is_ok (validate_transition (view_of st) current s)"
  then obtain t where "validate_transition (view_of st) current s = Inr t" by (auto simp: is_ok_iff)
  from swap_succeeds [OF assms(1,2) conjunct1 [OF a] this]
  obtain st' where "compare_and_swap st r (lower h) s = Inr (create_generation (rs_env st) (r + 1) t, st')"
    by blast
  moreover have "compare_and_swap st r h s = compare_and_swap st r (lower h) s"
    using assms(3) by (simp add: compare_and_swap_def cas_prepare_def is_sha256_def sha256_pattern_lower)
  ultimately show "is_ok (compare_and_swap st r h s)" by simp
qed

end
