(* ===== verification/Units.thy ===== *)
theory Units
  imports Checkpoints
begin

section \<open>Contracts of the cognitive units\<close>

text \<open>
  The outputs the cognitive stages hand over, the contracts from \<open>OutputContract\<close> to
  \<open>InvalidUnitOutput\<close> of \<^verbatim>\<open>src/auto_code/contracts.py\<close>.  A record has the fields
  of the class; \<open>X_valid\<close> says that validation accepts it as it is, that is after
  \<^verbatim>\<open>strip_whitespace\<close> has removed the blanks around a text.  Where a validator reads a
  context, the context is an argument, \<open>None\<close> when the caller gives none.
  The \<open>X_json\<close> functions are \<^verbatim>\<open>model_dump(mode="json", round_trip=True)\<close>.  Mappings keep
  their insertion order, which some of the code compares.
\<close>

datatype unit_error =
    Field_Invalid | Not_Unique | Scenarios_Missing | Scenarios_Unexpected | Wrong_Stage
  | Content_Hash_Mismatch | Context_Mismatch | Unknown_Task | Old_Entry_Mismatch | Entry_Mismatch
  | Old_Path_Missing | Old_Path_Same | Old_Path_Unexpected | Untracked_Not_Added
  | Empty_Unauthorized | Pass_State_Mismatch | Commands_Mismatch
  | Skipped_With_Observations | Observations_Missing | Passed_With_Failures | Failed_Without_Failures
  | Required_Skipped | Scenario_Ids_Mismatch | Optional_Not_Skipped | Reason_Mismatch
  | Approved_With_Failure | Rejected_Unclassified | Rejected_Without_Findings

subsection \<open>Field constraints\<close>

definition is_trimmed_space :: "char \<Rightarrow> bool" where
  \<comment> \<open>what \<^verbatim>\<open>strip_whitespace\<close> removes: the ASCII characters with the White_Space property\<close>
  "is_trimmed_space c \<longleftrightarrow> (of_char c :: nat) \<in> {9, 10, 11, 12, 13, 32}"

definition trim :: "string \<Rightarrow> string" where
  "trim t = rev (dropWhile is_trimmed_space (rev (dropWhile is_trimmed_space t)))"

definition trimmed :: "string \<Rightarrow> bool" where
  "trimmed t \<longleftrightarrow> t = [] \<or> \<not> is_trimmed_space (hd t) \<and> \<not> is_trimmed_space (last t)"

definition sized :: "nat \<Rightarrow> nat \<Rightarrow> 'a list \<Rightarrow> bool" where
  "sized lo hi xs \<longleftrightarrow> lo \<le> length xs \<and> length xs \<le> hi"

definition bounded_text :: "string \<Rightarrow> bool" where
  "bounded_text t \<longleftrightarrow> trimmed t \<and> sized 1 4096 t"

definition short_text :: "string \<Rightarrow> bool" where
  "short_text t \<longleftrightarrow> trimmed t \<and> sized 1 512 t"

definition failure_kind_text :: "string \<Rightarrow> bool" where
  "failure_kind_text t \<longleftrightarrow> length t \<le> 64 \<and> safe_identifier t"

definition output_contract_name :: "string \<Rightarrow> bool" where
  "output_contract_name t \<longleftrightarrow> length t \<le> 64
     \<and> fullmatch (Cat (Cls is_upper) (Rep (Cls is_alnum) 0 63)) t"

definition named_hashes_valid :: "(string \<times> string) list \<Rightarrow> bool" where
  \<comment> \<open>\<^verbatim>\<open>Mapping[_REFERENCE_ID, Sha256]\<close> with the check of its keys\<close>
  "named_hashes_valid m \<longleftrightarrow>
     no_dups (map fst m) \<and> list_all (\<lambda>(k, h). reference_id k \<and> sha256_pattern h \<and> safe_text k) m"

definition schema_member :: "string \<times> json" where
  "schema_member = (''schema_version'', JStr ''v1'')"

definition json_texts_of :: "string list \<Rightarrow> json" where
  "json_texts_of ts = JList (map JStr ts)"

subsection \<open>Requirements\<close>

record source_citation =
  sc_source_id :: string
  sc_locator :: string
  sc_source_hash :: string

definition source_citation_valid :: "source_citation \<Rightarrow> bool" where
  "source_citation_valid c \<longleftrightarrow>
     reference_id (sc_source_id c) \<and> reference_id (sc_locator c) \<and> sha256_pattern (sc_source_hash c)
     \<and> safe_text (sc_source_id c) \<and> safe_text (sc_locator c)"

definition source_citation_json :: "source_citation \<Rightarrow> json" where
  "source_citation_json c =
     JObj [(''source_id'', JStr (sc_source_id c)), (''locator'', JStr (sc_locator c)),
           (''source_hash'', JStr (sc_source_hash c))]"

definition sources_valid :: "source_citation list \<Rightarrow> bool" where
  "sources_valid cs \<longleftrightarrow> sized 1 8 cs \<and> list_all source_citation_valid cs"

record cited_requirement =
  cr_requirement_id :: string
  cr_text :: string
  cr_sources :: "source_citation list"

definition cited_requirement_valid :: "cited_requirement \<Rightarrow> bool" where
  "cited_requirement_valid r \<longleftrightarrow>
     reference_id (cr_requirement_id r) \<and> bounded_text (cr_text r) \<and> sources_valid (cr_sources r)
     \<and> safe_text (cr_requirement_id r)"

definition cited_requirement_json :: "cited_requirement \<Rightarrow> json" where
  "cited_requirement_json r =
     JObj [(''requirement_id'', JStr (cr_requirement_id r)), (''text'', JStr (cr_text r)),
           (''sources'', JList (map source_citation_json (cr_sources r)))]"

record cited_criterion =
  cc_criterion_id :: string
  cc_text :: string
  cc_sources :: "source_citation list"

definition cited_criterion_valid :: "cited_criterion \<Rightarrow> bool" where
  "cited_criterion_valid c \<longleftrightarrow>
     reference_id (cc_criterion_id c) \<and> bounded_text (cc_text c) \<and> sources_valid (cc_sources c)
     \<and> safe_text (cc_criterion_id c)"

definition cited_criterion_json :: "cited_criterion \<Rightarrow> json" where
  "cited_criterion_json c =
     JObj [(''criterion_id'', JStr (cc_criterion_id c)), (''text'', JStr (cc_text c)),
           (''sources'', JList (map source_citation_json (cc_sources c)))]"

datatype ambiguity_severity = SEVERITY_LOW | SEVERITY_MEDIUM | SEVERITY_HIGH | SEVERITY_BLOCKING

primrec severity_value :: "ambiguity_severity \<Rightarrow> string" where
  "severity_value SEVERITY_LOW = ''low''"
| "severity_value SEVERITY_MEDIUM = ''medium''"
| "severity_value SEVERITY_HIGH = ''high''"
| "severity_value SEVERITY_BLOCKING = ''blocking''"

record ambiguity =
  am_ambiguity_id :: string
  am_text :: string
  am_severity :: ambiguity_severity
  am_sources :: "source_citation list"

definition ambiguity_valid :: "ambiguity \<Rightarrow> bool" where
  "ambiguity_valid a \<longleftrightarrow>
     reference_id (am_ambiguity_id a) \<and> bounded_text (am_text a) \<and> sources_valid (am_sources a)
     \<and> safe_text (am_ambiguity_id a)"

definition ambiguity_json :: "ambiguity \<Rightarrow> json" where
  "ambiguity_json a =
     JObj [(''ambiguity_id'', JStr (am_ambiguity_id a)), (''text'', JStr (am_text a)),
           (''severity'', JStr (severity_value (am_severity a))),
           (''sources'', JList (map source_citation_json (am_sources a)))]"

record requirements_package =
  rp_objective :: string
  rp_in_scope :: "string list"
  rp_out_of_scope :: "string list"
  rp_requirements :: "cited_requirement list"
  rp_acceptance_criteria :: "cited_criterion list"
  rp_constraints :: "string list"
  rp_dependencies :: "string list"
  rp_ambiguities :: "ambiguity list"

definition requirements_package_valid :: "requirements_package \<Rightarrow> bool" where
  "requirements_package_valid p \<longleftrightarrow>
     bounded_text (rp_objective p)
     \<and> sized 1 64 (rp_in_scope p) \<and> list_all bounded_text (rp_in_scope p)
     \<and> sized 1 64 (rp_out_of_scope p) \<and> list_all bounded_text (rp_out_of_scope p)
     \<and> sized 1 128 (rp_requirements p) \<and> list_all cited_requirement_valid (rp_requirements p)
     \<and> sized 1 128 (rp_acceptance_criteria p) \<and> list_all cited_criterion_valid (rp_acceptance_criteria p)
     \<and> sized 0 64 (rp_constraints p) \<and> list_all bounded_text (rp_constraints p)
     \<and> sized 0 64 (rp_dependencies p) \<and> list_all bounded_text (rp_dependencies p)
     \<and> sized 0 64 (rp_ambiguities p) \<and> list_all ambiguity_valid (rp_ambiguities p)
     \<and> no_dups (map cr_requirement_id (rp_requirements p))
     \<and> no_dups (map cc_criterion_id (rp_acceptance_criteria p))
     \<and> no_dups (map am_ambiguity_id (rp_ambiguities p))"

definition requirements_package_json :: "requirements_package \<Rightarrow> json" where
  "requirements_package_json p =
     JObj [schema_member,
           (''objective'', JStr (rp_objective p)),
           (''in_scope'', json_texts_of (rp_in_scope p)),
           (''out_of_scope'', json_texts_of (rp_out_of_scope p)),
           (''requirements'', JList (map cited_requirement_json (rp_requirements p))),
           (''acceptance_criteria'', JList (map cited_criterion_json (rp_acceptance_criteria p))),
           (''constraints'', json_texts_of (rp_constraints p)),
           (''dependencies'', json_texts_of (rp_dependencies p)),
           (''ambiguities'', JList (map ambiguity_json (rp_ambiguities p)))]"

subsection \<open>Browser decision and change outline\<close>

record browser_scenario =
  bs_scenario_id :: string
  bs_description :: string
  bs_expected_result :: string

definition browser_scenario_valid :: "browser_scenario \<Rightarrow> bool" where
  "browser_scenario_valid b \<longleftrightarrow>
     reference_id (bs_scenario_id b) \<and> bounded_text (bs_description b)
     \<and> bounded_text (bs_expected_result b) \<and> safe_text (bs_scenario_id b)"

definition browser_scenario_json :: "browser_scenario \<Rightarrow> json" where
  "browser_scenario_json b =
     JObj [(''scenario_id'', JStr (bs_scenario_id b)), (''description'', JStr (bs_description b)),
           (''expected_result'', JStr (bs_expected_result b))]"

record browser_decision =
  bd_required :: bool
  bd_reason :: string
  bd_scenarios :: "browser_scenario list"

definition decision_checks :: "browser_decision \<Rightarrow> (bool \<times> unit_error) list" where
  "decision_checks d =
     [(bd_required d \<and> bd_scenarios d = [], Scenarios_Missing),
      (\<not> bd_required d \<and> bd_scenarios d \<noteq> [], Scenarios_Unexpected),
      (\<not> no_dups (map bs_scenario_id (bd_scenarios d)), Not_Unique)]"

definition browser_decision_valid :: "browser_decision \<Rightarrow> bool" where
  "browser_decision_valid d \<longleftrightarrow>
     bounded_text (bd_reason d) \<and> sized 0 64 (bd_scenarios d)
     \<and> list_all browser_scenario_valid (bd_scenarios d) \<and> first_error (decision_checks d) = None"

definition browser_decision_json :: "browser_decision \<Rightarrow> json" where
  "browser_decision_json d =
     JObj [schema_member, (''required'', JBool (bd_required d)), (''reason'', JStr (bd_reason d)),
           (''scenarios'', JList (map browser_scenario_json (bd_scenarios d)))]"

record artifact_unit =
  au_artifact_id :: string
  au_stage :: stage
  au_output_contract :: string

definition artifact_unit_valid :: "artifact_unit \<Rightarrow> bool" where
  "artifact_unit_valid u \<longleftrightarrow>
     reference_id (au_artifact_id u) \<and> output_contract_name (au_output_contract u)
     \<and> au_stage u \<in> architect_stages"

definition artifact_unit_json :: "artifact_unit \<Rightarrow> json" where
  "artifact_unit_json u =
     JObj [(''artifact_id'', JStr (au_artifact_id u)), (''stage'', JStr (stage_value (au_stage u))),
           (''output_contract'', JStr (au_output_contract u))]"

record change_outline_unit =
  co_change_id :: string
  co_artifact_units :: "artifact_unit list"
  co_direct_dependency_hashes :: "(string \<times> string) list"
  co_browser_e2e_decision :: browser_decision

definition change_outline_valid :: "change_outline_unit \<Rightarrow> bool" where
  "change_outline_valid c \<longleftrightarrow>
     change_id_pattern (co_change_id c) \<and> safe_text (co_change_id c)
     \<and> sized 1 16 (co_artifact_units c) \<and> list_all artifact_unit_valid (co_artifact_units c)
     \<and> sized 1 32 (co_direct_dependency_hashes c) \<and> named_hashes_valid (co_direct_dependency_hashes c)
     \<and> browser_decision_valid (co_browser_e2e_decision c)
     \<and> no_dups (map au_artifact_id (co_artifact_units c))"

definition change_outline_json :: "change_outline_unit \<Rightarrow> json" where
  "change_outline_json c =
     JObj [schema_member, (''change_id'', JStr (co_change_id c)),
           (''artifact_units'', JList (map artifact_unit_json (co_artifact_units c))),
           (''direct_dependency_hashes'', digest_map_json (co_direct_dependency_hashes c)),
           (''browser_e2e_decision'', browser_decision_json (co_browser_e2e_decision c))]"

subsection \<open>Artifacts and the implementation\<close>

definition product_path :: "string \<Rightarrow> bool" where
  "product_path v = is_ok (validate_product_path v)"

record artifact_file =
  af_relative_path :: string
  af_content :: string
  af_sha256 :: string

definition artifact_file_valid :: "artifact_file \<Rightarrow> bool" where
  "artifact_file_valid f \<longleftrightarrow>
     evidence_path (af_relative_path f) \<and> product_path (af_relative_path f)
     \<and> length (af_content f) \<le> 262144 \<and> sha256_pattern (af_sha256 f)
     \<and> lower (af_sha256 f) = hexdigest (encode_ascii (af_content f))"

record artifact_envelope =
  ae_artifact_id :: string
  ae_files :: "artifact_file list"

definition artifact_envelope_valid :: "artifact_envelope \<Rightarrow> bool" where
  "artifact_envelope_valid e \<longleftrightarrow>
     reference_id (ae_artifact_id e) \<and> safe_text (ae_artifact_id e)
     \<and> sized 1 64 (ae_files e) \<and> list_all artifact_file_valid (ae_files e)
     \<and> no_dups (map af_relative_path (ae_files e))"

record implementation_result =
  im_task_definition_hash :: string
  im_task_status_hash :: string
  im_completed_task_ids :: "string list"
  im_changed_paths :: "string list"
  im_command_evidence :: "evidence_ref list"
  im_latest_failure_resolution :: string

record programmer_context =
  pc_task_definition_hash :: "string option"
  pc_task_status_hash :: "string option"
  pc_known_task_ids :: "string list option"

definition programmer_context_checks ::
  "programmer_context option \<Rightarrow> implementation_result \<Rightarrow> (bool \<times> unit_error) list" where
  "programmer_context_checks context r =
     (case context of
        None \<Rightarrow> []
      | Some c \<Rightarrow>
          (if pc_task_definition_hash c = None \<and> pc_task_status_hash c = None
              \<and> pc_known_task_ids c = None then []
           else case (pc_task_definition_hash c, pc_task_status_hash c, pc_known_task_ids c) of
               (Some definition_hash, Some status_hash, Some known) \<Rightarrow>
                 [(lower (im_task_definition_hash r) \<noteq> lower definition_hash, Context_Mismatch),
                  (lower (im_task_status_hash r) \<noteq> lower status_hash, Context_Mismatch),
                  (list_ex (\<lambda>t. t \<notin> set known) (im_completed_task_ids r), Unknown_Task)]
             | _ \<Rightarrow> [(True, Context_Mismatch)]))"

definition implementation_result_valid :: "programmer_context option \<Rightarrow> implementation_result \<Rightarrow> bool" where
  "implementation_result_valid context r \<longleftrightarrow>
     sha256_pattern (im_task_definition_hash r) \<and> sha256_pattern (im_task_status_hash r)
     \<and> sized 1 256 (im_completed_task_ids r) \<and> list_all task_id_pattern (im_completed_task_ids r)
     \<and> list_all safe_text (im_completed_task_ids r) \<and> no_dups (im_completed_task_ids r)
     \<and> sized 1 512 (im_changed_paths r) \<and> list_all evidence_path (im_changed_paths r)
     \<and> list_all product_path (im_changed_paths r) \<and> no_dups (im_changed_paths r)
     \<and> sized 1 64 (im_command_evidence r) \<and> list_all evidence_ref_valid (im_command_evidence r)
     \<and> bounded_text (im_latest_failure_resolution r)
     \<and> first_error (programmer_context_checks context r) = None"

subsection \<open>Build identity and product manifest\<close>

record build_identity =
  bi_baseline_sha :: string
  bi_product_manifest_hash :: string
  bi_project_policy_hash :: string
  bi_command_hashes :: "(string \<times> string) list"
  bi_runtime_hash :: string

definition build_identity_valid :: "build_identity \<Rightarrow> bool" where
  "build_identity_valid b \<longleftrightarrow>
     git_sha (bi_baseline_sha b) \<and> sha256_pattern (bi_product_manifest_hash b)
     \<and> sha256_pattern (bi_project_policy_hash b)
     \<and> sized 0 128 (bi_command_hashes b) \<and> named_hashes_valid (bi_command_hashes b)
     \<and> sha256_pattern (bi_runtime_hash b)"

definition build_identity_json :: "build_identity \<Rightarrow> json" where
  "build_identity_json b =
     JObj [schema_member, (''baseline_sha'', JStr (bi_baseline_sha b)),
           (''product_manifest_hash'', JStr (bi_product_manifest_hash b)),
           (''project_policy_hash'', JStr (bi_project_policy_hash b)),
           (''command_hashes'', digest_map_json (bi_command_hashes b)),
           (''runtime_hash'', JStr (bi_runtime_hash b))]"

record product_change_file =
  pf_path :: string
  pf_status :: string
  pf_old_path :: "string option"
  pf_old_mode :: string
  pf_mode :: string
  pf_old_object_id :: "string option"
  pf_object_id :: "string option"
  pf_binary :: bool
  pf_untracked :: bool

definition change_metadata_checks :: "product_change_file \<Rightarrow> (bool \<times> unit_error) list" where
  "change_metadata_checks f =
     (let kind = hd (pf_status f) in
      [((kind \<noteq> CHR ''A'') \<noteq> (pf_old_mode f \<noteq> ''000000'' \<and> pf_old_object_id f \<noteq> None), Old_Entry_Mismatch),
       ((kind \<noteq> CHR ''D'') \<noteq> (pf_mode f \<noteq> ''000000'' \<and> pf_object_id f \<noteq> None), Entry_Mismatch)]
      @ (if kind \<in> {CHR ''R'', CHR ''C''}
         then [(pf_old_path f = None, Old_Path_Missing), (pf_old_path f = Some (pf_path f), Old_Path_Same)]
         else [(pf_old_path f \<noteq> None, Old_Path_Unexpected)])
      @ [(pf_untracked f \<and> kind \<noteq> CHR ''A'', Untracked_Not_Added)])"

definition product_change_file_valid :: "product_change_file \<Rightarrow> bool" where
  "product_change_file_valid f \<longleftrightarrow>
     evidence_path (pf_path f) \<and> product_path (pf_path f) \<and> git_change_status (pf_status f)
     \<and> opt_all (\<lambda>p. evidence_path p \<and> product_path p) (pf_old_path f)
     \<and> git_mode (pf_old_mode f) \<and> git_mode (pf_mode f)
     \<and> opt_all git_sha (pf_old_object_id f) \<and> opt_all git_sha (pf_object_id f)
     \<and> first_error (change_metadata_checks f) = None"

definition product_change_file_json :: "product_change_file \<Rightarrow> json" where
  "product_change_file_json f =
     JObj [schema_member, (''path'', JStr (pf_path f)), (''status'', JStr (pf_status f)),
           (''old_path'', json_opt (pf_old_path f)), (''old_mode'', JStr (pf_old_mode f)),
           (''mode'', JStr (pf_mode f)), (''old_object_id'', json_opt (pf_old_object_id f)),
           (''object_id'', json_opt (pf_object_id f)), (''binary'', JBool (pf_binary f)),
           (''untracked'', JBool (pf_untracked f))]"

record product_change_manifest =
  pm_baseline_sha :: string
  pm_files :: "product_change_file list"
  pm_content_hash :: string

definition product_manifest_payload :: "product_change_manifest \<Rightarrow> json" where
  \<comment> \<open>\<^verbatim>\<open>_content_payload\<close>\<close>
  "product_manifest_payload m =
     JObj [schema_member, (''baseline_sha'', JStr (pm_baseline_sha m)),
           (''files'', JList (map product_change_file_json (pm_files m)))]"

definition product_manifest_shape :: "product_change_manifest \<Rightarrow> bool" where
  \<comment> \<open>validation with the construction context\<close>
  "product_manifest_shape m \<longleftrightarrow>
     git_sha (pm_baseline_sha m) \<and> sized 1 512 (pm_files m)
     \<and> list_all product_change_file_valid (pm_files m) \<and> sha256_pattern (pm_content_hash m)
     \<and> no_dups (map pf_path (pm_files m))"

definition product_manifest_valid :: "product_change_manifest \<Rightarrow> bool" where
  "product_manifest_valid m \<longleftrightarrow>
     product_manifest_shape m \<and> lower (pm_content_hash m) = hash_json (product_manifest_payload m)"

definition product_manifest_from_files ::
  "string \<Rightarrow> product_change_file list \<Rightarrow> unit_error + product_change_manifest" where
  \<comment> \<open>\<^verbatim>\<open>from_files\<close>\<close>
  "product_manifest_from_files baseline fs =
     (let unchecked = \<lparr>pm_baseline_sha = baseline, pm_files = fs, pm_content_hash = replicate 64 CHR ''0''\<rparr>;
          m = unchecked\<lparr>pm_content_hash := hash_json (product_manifest_payload unchecked)\<rparr>
      in if \<not> product_manifest_shape unchecked then Inl Field_Invalid
         else if \<not> product_manifest_valid m then Inl Content_Hash_Mismatch else Inr m)"

subsection \<open>Verification\<close>

record verification_check =
  vc_command_id :: string
  vc_command_hash :: string
  vc_returncode :: int
  vc_failure_kind :: "string option"
  vc_stdout_evidence :: evidence_ref
  vc_stderr_evidence :: evidence_ref

definition verification_check_valid :: "verification_check \<Rightarrow> bool" where
  "verification_check_valid c \<longleftrightarrow>
     reference_id (vc_command_id c) \<and> sha256_pattern (vc_command_hash c)
     \<and> opt_all (\<lambda>k. failure_kind_text k \<and> safe_text k) (vc_failure_kind c)
     \<and> evidence_ref_valid (vc_stdout_evidence c) \<and> evidence_ref_valid (vc_stderr_evidence c)
     \<and> safe_text (vc_command_id c)"

definition verification_check_json :: "verification_check \<Rightarrow> json" where
  "verification_check_json c =
     JObj [schema_member, (''command_id'', JStr (vc_command_id c)),
           (''command_hash'', JStr (vc_command_hash c)), (''returncode'', JInt (vc_returncode c)),
           (''failure_kind'', json_opt (vc_failure_kind c)),
           (''stdout_evidence'', evidence_json (vc_stdout_evidence c)),
           (''stderr_evidence'', evidence_json (vc_stderr_evidence c))]"

record verification_record =
  vr_build_identity_hash :: string
  vr_checks :: "verification_check list"
  vr_passed :: bool
  vr_empty_authorized :: bool

definition verification_checks ::
  "build_identity option \<Rightarrow> verification_record \<Rightarrow> (bool \<times> unit_error) list" where
  \<comment> \<open>\<^verbatim>\<open>validate_checks\<close> with the \<^verbatim>\<open>build_identity\<close> of the context, if there is one\<close>
  "verification_checks context v =
     [(vr_checks v = [] \<and> \<not> vr_empty_authorized v, Empty_Unauthorized),
      (vr_passed v \<noteq> list_all (\<lambda>c. vc_returncode c = 0) (vr_checks v), Pass_State_Mismatch)]
     @ (case context of
          None \<Rightarrow> []
        | Some build \<Rightarrow>
            [(lower (vr_build_identity_hash v) \<noteq> lower (hash_json (build_identity_json build)), Context_Mismatch),
             (map (\<lambda>c. (vc_command_id c, vc_command_hash c)) (vr_checks v) \<noteq> bi_command_hashes build,
              Commands_Mismatch)])"

definition verification_record_valid :: "build_identity option \<Rightarrow> verification_record \<Rightarrow> bool" where
  "verification_record_valid context v \<longleftrightarrow>
     sha256_pattern (vr_build_identity_hash v) \<and> sized 0 128 (vr_checks v)
     \<and> list_all verification_check_valid (vr_checks v)
     \<and> first_error (verification_checks context v) = None"

definition verification_record_json :: "verification_record \<Rightarrow> json" where
  "verification_record_json v =
     JObj [schema_member, (''build_identity_hash'', JStr (vr_build_identity_hash v)),
           (''checks'', JList (map verification_check_json (vr_checks v))),
           (''passed'', JBool (vr_passed v)), (''empty_authorized'', JBool (vr_empty_authorized v))]"

subsection \<open>Browser result\<close>

datatype browser_status = BROWSER_PASSED | BROWSER_FAILED | BROWSER_SKIPPED

datatype scenario_status = SCENARIO_PASSED | SCENARIO_FAILED

primrec browser_status_value :: "browser_status \<Rightarrow> string" where
  "browser_status_value BROWSER_PASSED = ''passed''"
| "browser_status_value BROWSER_FAILED = ''failed''"
| "browser_status_value BROWSER_SKIPPED = ''skipped''"

primrec scenario_status_value :: "scenario_status \<Rightarrow> string" where
  "scenario_status_value SCENARIO_PASSED = ''passed''"
| "scenario_status_value SCENARIO_FAILED = ''failed''"

record scenario_observation =
  ob_scenario_id :: string
  ob_status :: scenario_status
  ob_observation :: string
  ob_evidence :: "evidence_ref list"

definition scenario_observation_valid :: "scenario_observation \<Rightarrow> bool" where
  "scenario_observation_valid b \<longleftrightarrow>
     reference_id (ob_scenario_id b) \<and> safe_text (ob_scenario_id b) \<and> bounded_text (ob_observation b)
     \<and> sized 1 16 (ob_evidence b) \<and> list_all evidence_ref_valid (ob_evidence b)"

definition scenario_observation_json :: "scenario_observation \<Rightarrow> json" where
  "scenario_observation_json b =
     JObj [(''scenario_id'', JStr (ob_scenario_id b)),
           (''status'', JStr (scenario_status_value (ob_status b))),
           (''observation'', JStr (ob_observation b)),
           (''evidence'', JList (map evidence_json (ob_evidence b)))]"

record browser_record =
  br_status :: browser_status
  br_browser_e2e_decision_hash :: string
  br_build_identity_hash :: string
  br_reason :: string
  br_scenario_observations :: "scenario_observation list"
  br_evidence :: "evidence_ref list"

definition observation_checks :: "browser_record \<Rightarrow> (bool \<times> unit_error) list" where
  \<comment> \<open>\<^verbatim>\<open>validate_observations\<close>\<close>
  "observation_checks r =
     (let observations = br_scenario_observations r in
      [(\<not> no_dups (map ob_scenario_id observations), Not_Unique)]
      @ (if br_status r = BROWSER_SKIPPED then [(observations \<noteq> [], Skipped_With_Observations)]
         else [(observations = [], Observations_Missing),
               (br_status r = BROWSER_PASSED
                \<and> list_ex (\<lambda>b. ob_status b \<noteq> SCENARIO_PASSED) observations, Passed_With_Failures),
               (br_status r = BROWSER_FAILED
                \<and> \<not> list_ex (\<lambda>b. ob_status b = SCENARIO_FAILED) observations, Failed_Without_Failures)]))"

definition tester_checks ::
  "(browser_decision option \<times> build_identity option) option \<Rightarrow> browser_record \<Rightarrow> (bool \<times> unit_error) list" where
  \<comment> \<open>\<^verbatim>\<open>validate_tester_context\<close>\<close>
  "tester_checks context r =
     (case context of
        None \<Rightarrow> []
      | Some (None, None) \<Rightarrow> []
      | Some (Some decision, Some build) \<Rightarrow>
          [(lower (br_browser_e2e_decision_hash r) \<noteq> lower (hash_json (browser_decision_json decision)),
            Context_Mismatch),
           (lower (br_build_identity_hash r) \<noteq> lower (hash_json (build_identity_json build)), Context_Mismatch)]
          @ (if bd_required decision then
               [(br_status r = BROWSER_SKIPPED, Required_Skipped),
                (set (map ob_scenario_id (br_scenario_observations r))
                 \<noteq> set (map bs_scenario_id (bd_scenarios decision)), Scenario_Ids_Mismatch)]
             else
               [(br_status r \<noteq> BROWSER_SKIPPED, Optional_Not_Skipped),
                (br_reason r \<noteq> bd_reason decision, Reason_Mismatch)])
      | _ \<Rightarrow> [(True, Context_Mismatch)])"

definition browser_record_valid ::
  "(browser_decision option \<times> build_identity option) option \<Rightarrow> browser_record \<Rightarrow> bool" where
  "browser_record_valid context r \<longleftrightarrow>
     sha256_pattern (br_browser_e2e_decision_hash r) \<and> sha256_pattern (br_build_identity_hash r)
     \<and> bounded_text (br_reason r)
     \<and> sized 0 64 (br_scenario_observations r)
     \<and> list_all scenario_observation_valid (br_scenario_observations r)
     \<and> sized 1 64 (br_evidence r) \<and> list_all evidence_ref_valid (br_evidence r)
     \<and> first_error (observation_checks r) = None \<and> first_error (tester_checks context r) = None"

definition browser_record_json :: "browser_record \<Rightarrow> json" where
  "browser_record_json r =
     JObj [schema_member, (''status'', JStr (browser_status_value (br_status r))),
           (''browser_e2e_decision_hash'', JStr (br_browser_e2e_decision_hash r)),
           (''build_identity_hash'', JStr (br_build_identity_hash r)),
           (''reason'', JStr (br_reason r)),
           (''scenario_observations'', JList (map scenario_observation_json (br_scenario_observations r))),
           (''evidence'', JList (map evidence_json (br_evidence r)))]"

subsection \<open>Review\<close>

record review_manifest_unit =
  rm_baseline_sha :: string
  rm_requirements_package_hash :: string
  rm_change_outline_hash :: string
  rm_artifact_hashes :: "(string \<times> string) list"
  rm_task_definition_hash :: string
  rm_task_status_hash :: string
  rm_product_manifest_hash :: string
  rm_build_identity_hash :: string
  rm_project_policy_hash :: string
  rm_verification_result_hash :: string
  rm_browser_result_hash :: string

definition review_manifest_valid :: "review_manifest_unit \<Rightarrow> bool" where
  "review_manifest_valid m \<longleftrightarrow>
     git_sha (rm_baseline_sha m)
     \<and> list_all sha256_pattern
         [rm_requirements_package_hash m, rm_change_outline_hash m, rm_task_definition_hash m,
          rm_task_status_hash m, rm_product_manifest_hash m, rm_build_identity_hash m,
          rm_project_policy_hash m, rm_verification_result_hash m, rm_browser_result_hash m]
     \<and> sized 1 128 (rm_artifact_hashes m) \<and> named_hashes_valid (rm_artifact_hashes m)"

definition review_manifest_json :: "review_manifest_unit \<Rightarrow> json" where
  "review_manifest_json m =
     JObj [schema_member, (''baseline_sha'', JStr (rm_baseline_sha m)),
           (''requirements_package_hash'', JStr (rm_requirements_package_hash m)),
           (''change_outline_hash'', JStr (rm_change_outline_hash m)),
           (''artifact_hashes'', digest_map_json (rm_artifact_hashes m)),
           (''task_definition_hash'', JStr (rm_task_definition_hash m)),
           (''task_status_hash'', JStr (rm_task_status_hash m)),
           (''product_manifest_hash'', JStr (rm_product_manifest_hash m)),
           (''build_identity_hash'', JStr (rm_build_identity_hash m)),
           (''project_policy_hash'', JStr (rm_project_policy_hash m)),
           (''verification_result_hash'', JStr (rm_verification_result_hash m)),
           (''browser_result_hash'', JStr (rm_browser_result_hash m))]"

definition review_manifest_hash :: "review_manifest_unit \<Rightarrow> string" where
  \<comment> \<open>\<^verbatim>\<open>content_hash\<close>\<close>
  "review_manifest_hash m = hash_json (review_manifest_json m)"

record review_result =
  rv_approved :: bool
  rv_review_manifest_hash :: string
  rv_failure_class :: "failure_class option"
  rv_failure_source :: "failure_source option"
  rv_finding_kind :: "finding_kind option"
  rv_owner_stage :: "stage option"
  rv_cited_ids :: "string list"
  rv_blocking_findings :: "string list"
  rv_evidence :: "evidence_ref list"
  rv_next_action :: string

definition review_checks :: "string option \<Rightarrow> review_result \<Rightarrow> (bool \<times> unit_error) list" where
  \<comment> \<open>\<^verbatim>\<open>validate_review\<close> with the \<^verbatim>\<open>review_manifest_hash\<close> of the context, if there is one\<close>
  "review_checks expected v =
     (if rv_approved v then
        [(rv_failure_class v \<noteq> None \<or> rv_failure_source v \<noteq> None \<or> rv_finding_kind v \<noteq> None
          \<or> rv_owner_stage v \<noteq> None, Approved_With_Failure),
         (rv_blocking_findings v \<noteq> [], Approved_With_Failure)]
      else
        [(rv_failure_class v = None \<or> rv_failure_source v = None \<or> rv_finding_kind v = None
          \<or> rv_owner_stage v = None, Rejected_Unclassified),
         (rv_blocking_findings v = [], Rejected_Without_Findings)])
     @ [(expected \<noteq> None \<and> map_option lower expected \<noteq> Some (lower (rv_review_manifest_hash v)),
         Context_Mismatch)]"

definition review_result_valid :: "string option \<Rightarrow> review_result \<Rightarrow> bool" where
  "review_result_valid expected v \<longleftrightarrow>
     sha256_pattern (rv_review_manifest_hash v)
     \<and> sized 0 128 (rv_cited_ids v) \<and> list_all reference_id (rv_cited_ids v)
     \<and> list_all safe_text (rv_cited_ids v) \<and> no_dups (rv_cited_ids v)
     \<and> sized 0 64 (rv_blocking_findings v) \<and> list_all bounded_text (rv_blocking_findings v)
     \<and> sized 0 64 (rv_evidence v) \<and> list_all evidence_ref_valid (rv_evidence v)
     \<and> bounded_text (rv_next_action v)
     \<and> first_error (review_checks expected v) = None"

subsection \<open>Invalid output\<close>

record validation_issue =
  is_location :: "string list"
  is_message :: string
  is_error_type :: string

definition validation_issue_valid :: "validation_issue \<Rightarrow> bool" where
  "validation_issue_valid i \<longleftrightarrow>
     sized 1 16 (is_location i) \<and> list_all reference_id (is_location i)
     \<and> list_all safe_text (is_location i) \<and> short_text (is_message i)
     \<and> length (is_error_type i) \<le> 128 \<and> safe_identifier (is_error_type i)"

record invalid_unit_output =
  iu_stage :: stage
  iu_output_hash :: string
  iu_validation_errors :: "validation_issue list"

definition invalid_unit_output_valid :: "invalid_unit_output \<Rightarrow> bool" where
  "invalid_unit_output_valid u \<longleftrightarrow>
     sha256_pattern (iu_output_hash u) \<and> sized 1 32 (iu_validation_errors u)
     \<and> list_all validation_issue_valid (iu_validation_errors u) \<and> iu_stage u \<noteq> VERIFICATION"

definition sanitize_error_location :: "string \<Rightarrow> string" where
  "sanitize_error_location candidate =
     (if fullmatch safe_reference_segment candidate \<and> \<not> looks_sensitive candidate
      then candidate else ''invalid'')"

definition sanitize_error_message :: "string \<Rightarrow> string" where
  "sanitize_error_message v =
     (let candidate = strip v in
      if candidate = [] \<or> looks_sensitive candidate then ''Validation failed''
      else take 512 candidate)"

definition sanitize_error_type :: "string \<Rightarrow> string" where
  "sanitize_error_type v =
     (let candidate = map (\<lambda>c. if c = CHR ''-'' then CHR ''_'' else c) (lower (strip v)) in
      if safe_identifier candidate then candidate else ''validation_error'')"

definition sanitize_validation_errors :: "(string list \<times> string \<times> string) list \<Rightarrow> validation_issue list" where
  \<comment> \<open>of the location, the message and the type of each error pydantic reports\<close>
  "sanitize_validation_errors details =
     (if details = []
      then [\<lparr>is_location = [''root''], is_message = ''Validation failed'', is_error_type = ''validation_error''\<rparr>]
      else map (\<lambda>(loc, msg, kind).
                  \<lparr>is_location = (if loc = [] then [''root''] else map sanitize_error_location loc),
                   is_message = trim (sanitize_error_message msg), is_error_type = sanitize_error_type kind\<rparr>)
             (take 32 details))"

definition validation_issue_json :: "validation_issue \<Rightarrow> json" where
  "validation_issue_json i =
     JObj [(''location'', json_texts_of (is_location i)), (''message'', JStr (is_message i)),
           (''error_type'', JStr (is_error_type i))]"

definition hash_invalid_output :: "(string list \<times> string \<times> string) list \<Rightarrow> string" where
  "hash_invalid_output details =
     hash_json (JList (map validation_issue_json (sanitize_validation_errors details)))"

end
