(* ===== verification/Supervisor.thy ===== *)
theory Supervisor
  imports Run_History Units
begin

section \<open>The supervisor\<close>

text \<open>
  \<^verbatim>\<open>src/auto_code/supervisor.py\<close>: one call of \<open>supervisor_step\<close> loads the run, runs at
  most one stage through the executor, and stores one checkpoint or one routed failure.
  The stage executor is an argument (\<^verbatim>\<open>StageExecutor\<close> is a protocol the caller
  implements); so are the identifiers drawn for a checkpoint.  A step returns its result
  or the exception together with the world it leaves: the run store and the file tree of
  the checkpoint authority.
\<close>

subsection \<open>Step results\<close>

record step_result =
  sr_kind :: step_kind
  sr_run_id :: string
  sr_state_revision :: int
  sr_state_hash :: string
  sr_request_id :: "string option"
  sr_stage :: "stage option"
  sr_action :: "mcp_request option"
  sr_failure :: "failure_record option"
  sr_evidence :: "evidence_ref list"

definition step_shape_ok :: "step_result \<Rightarrow> bool" where
  \<comment> \<open>\<^verbatim>\<open>validate_result_shape\<close>\<close>
  "step_shape_ok r \<longleftrightarrow>
     (if sr_kind r = STEP_MCP_ACTION
      then (case sr_action r of
              None \<Rightarrow> False
            | Some a \<Rightarrow> sr_request_id r = Some (mr_request_id a) \<and> mr_run_id a = sr_run_id r)
      else sr_action r = None \<and> sr_request_id r = None)
     \<and> (if sr_kind r \<in> {STEP_ITERATION_FAILED, STEP_REPAIR_REQUIRED, STEP_HUMAN_REVIEW}
        then sr_failure r \<noteq> None else sr_failure r = None)
     \<and> (sr_kind r = STEP_CONTINUE \<longleftrightarrow> sr_stage r \<noteq> None)"

definition step_result_valid :: "step_result \<Rightarrow> bool" where
  "step_result_valid r \<longleftrightarrow>
     reference_id (sr_run_id r) \<and> safe_text (sr_run_id r) \<and> 1 \<le> sr_state_revision r
     \<and> sha256_pattern (sr_state_hash r)
     \<and> opt_all canonical_uuid (sr_request_id r)
     \<and> opt_all failure_record_valid (sr_failure r)
     \<and> list_all evidence_ref_valid (sr_evidence r)
     \<and> step_shape_ok r"

subsection \<open>What the executor returns\<close>

record stage_execution =
  se_output_manifest_hash :: string
  se_validator :: string
  se_validator_version :: string
  se_validation_receipt_hash :: string
  se_evidence :: "evidence_ref list"
  se_review :: "review_result option"

datatype stage_outcome =
    Executed stage_execution
  | Reported_Failure failure_record
  | Reported_Invalid_Output
  | Unknown_Outcome
  | Executor_Raised

subsection \<open>The world and the dependencies\<close>

record supervisor_world =
  sw_store :: run_store
  sw_registry :: file_tree      \<comment> \<open>the root of the checkpoint authority\<close>

record supervisor_deps =
  sd_expectations :: "stage \<Rightarrow> checkpoint_expectation"
  sd_execute :: "stage \<Rightarrow> run_state \<Rightarrow> stage_outcome"
  sd_draws :: "string \<times> string \<times> string"      \<comment> \<open>\<^verbatim>\<open>uuid.uuid4().hex\<close>, at most three times\<close>

datatype supervisor_error =
    State_Mismatch
  | Store_Raised cas_error
  | Contract_Raised contract_error
  | Authority_Raised checkpoint_error
  | Unsupported_Failure

type_synonym 'a outcome = "(supervisor_error + 'a) \<times> supervisor_world"

definition world_clean :: "supervisor_world \<Rightarrow> string \<Rightarrow> bool" where
  "world_clean w = clean_of (rs_env (sw_store w))"

definition supervisor_failure :: "finding_kind \<Rightarrow> failure_record" where
  "supervisor_failure kind =
     \<lparr>fr_class = ORCHESTRATION, fr_source = FS_SUPERVISOR, fr_finding = kind,
      fr_owner_stage = None, fr_cited_ids = [], fr_evidence_refs = [], fr_observed_revision = None\<rparr>"

definition orchestration_failure :: "stage \<Rightarrow> failure_record" where
  "orchestration_failure st =
     \<lparr>fr_class = ORCHESTRATION, fr_source = FS_ARTIFACT, fr_finding = INVALID_UNIT_OUTPUT,
      fr_owner_stage = Some st, fr_cited_ids = [], fr_evidence_refs = [], fr_observed_revision = None\<rparr>"

definition invalid_output_failure :: "stage \<Rightarrow> evidence_ref list \<Rightarrow> failure_record" where
  "invalid_output_failure st evidence =
     \<lparr>fr_class = INVALID_OUTPUT, fr_source = FS_ARTIFACT, fr_finding = INVALID_UNIT_OUTPUT,
      fr_owner_stage = Some st, fr_cited_ids = [], fr_evidence_refs = evidence, fr_observed_revision = None\<rparr>"

definition budget_failure :: failure_record where
  "budget_failure =
     \<lparr>fr_class = BUDGET_EXHAUSTED, fr_source = FS_SUPERVISOR, fr_finding = REQUIREMENTS_MISMATCH,
      fr_owner_stage = None, fr_cited_ids = [], fr_evidence_refs = [], fr_observed_revision = None\<rparr>"

definition product_failure :: "stage \<Rightarrow> evidence_ref list \<Rightarrow> failure_record" where
  "product_failure st evidence =
     \<lparr>fr_class = PRODUCT, fr_source = FS_REVIEW, fr_finding = IMPLEMENTATION_MISMATCH,
      fr_owner_stage = Some st, fr_cited_ids = [], fr_evidence_refs = evidence, fr_observed_revision = None\<rparr>"

definition latest_failure :: "run_state \<Rightarrow> failure_record" where
  "latest_failure s =
     (if failure_history s \<noteq> [] then last (failure_history s) else supervisor_failure INVALID_ROUTING)"

subsection \<open>Results of a generation\<close>

definition make_result ::
  "step_kind \<Rightarrow> state_generation \<Rightarrow> stage option \<Rightarrow> failure_record option \<Rightarrow> evidence_ref list
   \<Rightarrow> supervisor_error + step_result" where
  \<comment> \<open>\<^verbatim>\<open>_result\<close>\<close>
  "make_result kind g st failure evidence =
     (let r = \<lparr>sr_kind = kind, sr_run_id = run_id (sg_state g), sr_state_revision = sg_revision g,
               sr_state_hash = sg_state_hash g, sr_request_id = None, sr_stage = st,
               sr_action = None, sr_failure = failure, sr_evidence = evidence\<rparr>
      in if step_result_valid r then Inr r else Inl (Contract_Raised Step_Shape_Invalid))"

definition failure_kind :: "run_disposition \<Rightarrow> step_kind" where
  "failure_kind d =
     (case d of
        ACTIVE \<Rightarrow> STEP_ITERATION_FAILED
      | REPAIR_REQUIRED \<Rightarrow> STEP_REPAIR_REQUIRED
      | _ \<Rightarrow> STEP_HUMAN_REVIEW)"

definition failure_result :: "state_generation \<Rightarrow> failure_record \<Rightarrow> supervisor_error + step_result" where
  "failure_result g failure =
     make_result (failure_kind (disposition (sg_state g))) g None (Some failure) (fr_evidence_refs failure)"

definition store_swap ::
  "supervisor_world \<Rightarrow> state_generation \<Rightarrow> run_state \<Rightarrow> state_generation outcome" where
  \<comment> \<open>\<^verbatim>\<open>self.store.compare_and_swap(generation.revision, generation.state_hash, ...)\<close>\<close>
  "store_swap w g s =
     (case compare_and_swap (sw_store w) (sg_revision g) (sg_state_hash g) s of
        Inl e \<Rightarrow> (Inl (Store_Raised e), w)
      | Inr (g', st) \<Rightarrow> (Inr g', w\<lparr>sw_store := st\<rparr>))"

definition route_and_store ::
  "supervisor_world \<Rightarrow> state_generation \<Rightarrow> failure_record \<Rightarrow> step_result outcome" where
  \<comment> \<open>\<^verbatim>\<open>_route_failure\<close>, which \<^verbatim>\<open>_human_review\<close> calls\<close>
  "route_and_store w g failure =
     (case apply_route (world_clean w) (sg_state g) (route_failure (sg_state g) failure) of
        Inl e \<Rightarrow> (Inl (Contract_Raised e), w)
      | Inr routed \<Rightarrow>
          (case store_swap w g routed of
             (Inl e, w') \<Rightarrow> (Inl e, w')
           | (Inr p, w') \<Rightarrow> (failure_result p (last (failure_history (sg_state p))), w')))"

subsection \<open>Checkpoints of a stage\<close>

definition candidate_checkpoint :: "stage \<Rightarrow> checkpoint_expectation \<Rightarrow> stage_execution \<Rightarrow> checkpoint" where
  \<comment> \<open>the arguments of \<^verbatim>\<open>issue\<close>\<close>
  "candidate_checkpoint st e x =
     \<lparr>ck_id = None, ck_stage = st, ck_contract_hash = ce_contract_hash e,
      ck_input_hashes = ce_input_hashes e, ck_output_manifest_hash = se_output_manifest_hash x,
      ck_validator = se_validator x, ck_validator_version = se_validator_version x,
      ck_validation_receipt_hash = se_validation_receipt_hash x, ck_evidence = se_evidence x\<rparr>"

definition with_checkpoint :: "stage \<Rightarrow> checkpoint \<Rightarrow> run_state \<Rightarrow> run_state" where
  "with_checkpoint st c s =
     s\<lparr>checkpoints := (checkpoints s)(st \<mapsto> c),
       stage_outputs := stage_outputs s @ [\<lparr>so_stage = st, so_content_hash = ck_output_manifest_hash c\<rparr>],
       current_stage := st\<rparr>"

definition approved_update :: "checkpoint \<Rightarrow> stage_execution \<Rightarrow> run_state \<Rightarrow> run_state" where
  "approved_update c x s =
     (with_checkpoint REVIEWER c s)
       \<lparr>review_result := Some (se_output_manifest_hash x), iteration_open := False,
        finalization_eligible := True\<rparr>"

definition store_checkpoint ::
  "supervisor_deps \<Rightarrow> supervisor_world \<Rightarrow> state_generation \<Rightarrow> stage \<Rightarrow> stage_execution
   \<Rightarrow> (checkpoint \<Rightarrow> run_state \<Rightarrow> run_state)
   \<Rightarrow> (state_generation \<Rightarrow> supervisor_error + step_result) \<Rightarrow> step_result outcome" where
  \<comment> \<open>the two \<^verbatim>\<open>try\<close> blocks: issue, store, or route an orchestration failure\<close>
  "store_checkpoint deps w g st x update result =
     (let e = sd_expectations deps st in
      case issue (sw_registry w) (candidate_checkpoint st e x) (sd_draws deps) of
        Inl _ \<Rightarrow> route_and_store w g (orchestration_failure st)
      | Inr (c, registry) \<Rightarrow>
          (let w1 = w\<lparr>sw_registry := registry\<rparr> in
           case model_copy (world_clean w1) (update c) (sg_state g) of
             Inl _ \<Rightarrow> route_and_store w1 g (orchestration_failure st)
           | Inr s \<Rightarrow>
               (case store_swap w1 g s of
                  (Inl _, w2) \<Rightarrow> route_and_store w2 g (orchestration_failure st)
                | (Inr p, w2) \<Rightarrow> (result p, w2))))"

definition rejected_review :: "review_result \<Rightarrow> failure_record option" where
  \<comment> \<open>\<^verbatim>\<open>None\<close> where pydantic refuses a missing classification\<close>
  "rejected_review v =
     (case (rv_failure_class v, rv_failure_source v, rv_finding_kind v) of
        (Some cls, Some src, Some kind) \<Rightarrow>
          Some \<lparr>fr_class = cls, fr_source = src, fr_finding = kind, fr_owner_stage = rv_owner_stage v,
                fr_cited_ids = rv_cited_ids v, fr_evidence_refs = rv_evidence v,
                fr_observed_revision = None\<rparr>
      | _ \<Rightarrow> None)"

definition checkpoint_reviewer ::
  "supervisor_deps \<Rightarrow> supervisor_world \<Rightarrow> state_generation \<Rightarrow> stage_execution \<Rightarrow> step_result outcome" where
  "checkpoint_reviewer deps w g x =
     (case se_review x of
        None \<Rightarrow> route_and_store w g (orchestration_failure REVIEWER)
      | Some review \<Rightarrow>
          if Some (rv_review_manifest_hash review) \<noteq> review_manifest (sg_state g)
          then route_and_store w g (supervisor_failure INVALID_ROUTING)
          else if \<not> rv_approved review then
            (case rejected_review review of
               None \<Rightarrow> (Inl (Contract_Raised Invalid_Field), w)
             | Some failure \<Rightarrow> route_and_store w g failure)
          else store_checkpoint deps w g REVIEWER x (\<lambda>c. approved_update c x)
                 (\<lambda>p. make_result STEP_READY_TO_FINALIZE p None None (se_evidence x)))"

definition execute_and_checkpoint ::
  "supervisor_deps \<Rightarrow> supervisor_world \<Rightarrow> state_generation \<Rightarrow> stage \<Rightarrow> step_result outcome" where
  "execute_and_checkpoint deps w g st =
     (if current_stage (sg_state g) \<noteq> st \<or> \<not> iteration_open (sg_state g)
      then route_and_store w g (supervisor_failure INVALID_ROUTING)
      else case sd_execute deps st (sg_state g) of
          Executor_Raised \<Rightarrow> route_and_store w g (orchestration_failure st)
        | Reported_Invalid_Output \<Rightarrow> route_and_store w g (invalid_output_failure st [])
        | Reported_Failure failure \<Rightarrow> route_and_store w g failure
        | Unknown_Outcome \<Rightarrow> route_and_store w g (orchestration_failure st)
        | Executed x \<Rightarrow>
            if st = REVIEWER then checkpoint_reviewer deps w g x
            else store_checkpoint deps w g st x (with_checkpoint st)
                   (\<lambda>p. make_result STEP_CONTINUE p (Some st) None (se_evidence x)))"

subsection \<open>One step\<close>

definition pending_action :: "(string \<Rightarrow> bool) \<Rightarrow> run_state \<Rightarrow> mcp_request option" where
  "pending_action clean s =
     (case pending_external_request s of
        None \<Rightarrow> None
      | Some p \<Rightarrow> (case reconstruct_request clean p (run_id s) of Inl _ \<Rightarrow> None | Inr r \<Rightarrow> Some r))"

definition mcp_result :: "state_generation \<Rightarrow> mcp_request \<Rightarrow> supervisor_error + step_result" where
  "mcp_result g action =
     (let r = \<lparr>sr_kind = STEP_MCP_ACTION, sr_run_id = run_id (sg_state g),
               sr_state_revision = sg_revision g, sr_state_hash = sg_state_hash g,
               sr_request_id = Some (mr_request_id action), sr_stage = None, sr_action = Some action,
               sr_failure = None, sr_evidence = []\<rparr>
      in if step_result_valid r then Inr r else Inl (Contract_Raised Step_Shape_Invalid))"

definition gated_result :: "supervisor_world \<Rightarrow> state_generation \<Rightarrow> step_result outcome" where
  "gated_result w g =
     (let s = sg_state g in
      case disposition s of
        WAITING_MCP \<Rightarrow>
          (case pending_action (world_clean w) s of
             Some action \<Rightarrow> (mcp_result g action, w)
           | None \<Rightarrow> route_and_store w g (supervisor_failure INVALID_ROUTING))
      | REPAIR_REQUIRED \<Rightarrow> (make_result STEP_REPAIR_REQUIRED g None (Some (latest_failure s)) [], w)
      | HUMAN_REVIEW \<Rightarrow> (make_result STEP_HUMAN_REVIEW g None (Some (latest_failure s)) [], w)
      | DONE \<Rightarrow> (make_result STEP_DONE g None None [], w)
      | ABANDONED \<Rightarrow> (make_result STEP_DONE g None None [], w)
      | ACTIVE \<Rightarrow>
          (make_result STEP_HUMAN_REVIEW g None (Some (supervisor_failure INVALID_ROUTING)) [], w))"

definition open_iteration :: "supervisor_world \<Rightarrow> state_generation \<Rightarrow> state_generation outcome" where
  \<comment> \<open>\<^verbatim>\<open>compare_and_swap(..., state.begin_iteration())\<close>\<close>
  "open_iteration w g =
     (case begin_iteration (world_clean w) (sg_state g) of
        Inl e \<Rightarrow> (Inl (Contract_Raised e), w)
      | Inr s \<Rightarrow> store_swap w g s)"

definition supervisor_step ::
  "supervisor_deps \<Rightarrow> supervisor_world \<Rightarrow> string \<Rightarrow> int \<Rightarrow> string \<Rightarrow> step_result outcome" where
  "supervisor_step deps w rid expected_revision expected_hash =
     (if rid \<noteq> rs_run_id (sw_store w) then (Inl State_Mismatch, w)
      else case load (sw_store w) of
          Inl e \<Rightarrow> (Inl (Store_Raised (Store e)), w)
        | Inr g \<Rightarrow>
            if sg_revision g \<noteq> expected_revision \<or> sg_state_hash g \<noteq> lower expected_hash
            then (Inl State_Mismatch, w)
            else if disposition (sg_state g) \<noteq> ACTIVE then gated_result w g
            else case next_stage (is_reusable (sw_registry w)) (\<lambda>st. Some (sd_expectations deps st))
                        (sg_state g) of
                Inl e \<Rightarrow> (Inl (Authority_Raised e), w)
              | Inr None \<Rightarrow>
                  if \<not> iteration_open (sg_state g) \<and> finalization_eligible (sg_state g)
                  then (make_result STEP_READY_TO_FINALIZE g None None [], w)
                  else route_and_store w g (supervisor_failure INVALID_ROUTING)
              | Inr (Some st) \<Rightarrow>
                  if iteration_open (sg_state g) then execute_and_checkpoint deps w g st
                  else if \<not> can_start_iteration (sg_state g) then route_and_store w g budget_failure
                  else case open_iteration w g of
                      (Inl e, w') \<Rightarrow> (Inl e, w')
                    | (Inr g', w') \<Rightarrow> execute_and_checkpoint deps w' g' st)"

definition record_failure ::
  "supervisor_world \<Rightarrow> failure_class \<Rightarrow> stage \<Rightarrow> evidence_ref list \<Rightarrow> step_result outcome" where
  "record_failure w cls owner evidence =
     (if cls \<notin> {PRODUCT, INVALID_OUTPUT} then (Inl Unsupported_Failure, w)
      else case load (sw_store w) of
          Inl e \<Rightarrow> (Inl (Store_Raised (Store e)), w)
        | Inr g \<Rightarrow>
            route_and_store w g
              (if cls = PRODUCT then product_failure owner evidence
               else invalid_output_failure owner evidence))"

end
