(* ===== verification/Supervisor_Laws.thy ===== *)
theory Supervisor_Laws
  imports Supervisor
begin

section \<open>What a supervisor step does\<close>

text \<open>
  A step changes the run only through compare-and-swap, at most twice, and its result
  names the generation it leaves.  A step continues only from the stage that the state
  is positioned at; the checkpoint it stores leaves the position on that stage, so the
  step after it finds another stage to run and hands the run to human review.
\<close>

definition world_ok :: "supervisor_world \<Rightarrow> bool" where
  "world_ok w \<longleftrightarrow> listing_ok (sw_store w) \<and> faithful (rs_env (sw_store w))"

definition keeps_identity :: "supervisor_world \<Rightarrow> supervisor_world \<Rightarrow> bool" where
  "keeps_identity w w' \<longleftrightarrow>
     rs_env (sw_store w') = rs_env (sw_store w) \<and> rs_run_id (sw_store w') = rs_run_id (sw_store w)"

subsection \<open>Swaps\<close>

definition advances :: "nat \<Rightarrow> supervisor_world \<Rightarrow> supervisor_world \<Rightarrow> bool" where
  \<comment> \<open>the store moved by at most \<open>n\<close> swaps of well-formed states\<close>
  "advances n w w' \<longleftrightarrow>
     (\<exists>reqs gs. length reqs \<le> n \<and> (\<forall>(r, h, s) \<in> set reqs. run_inv (world_clean w) s)
        \<and> swap_all compare_and_swap (sw_store w) reqs = Inr (gs, sw_store w'))"

lemma advances_same: "sw_store w' = sw_store w \<Longrightarrow> advances n w w'"
  unfolding advances_def by (intro exI [of _ "[]"]) simp

lemma advances_trans:
  assumes "advances m w w1" "advances n w1 w2" "world_clean w1 = world_clean w"
  shows "advances (m + n) w w2"
proof -
  obtain xs gs ys hs where
    "length xs \<le> m" "\<forall>(r, h, s) \<in> set xs. run_inv (world_clean w) s"
    "swap_all compare_and_swap (sw_store w) xs = Inr (gs, sw_store w1)"
    "length ys \<le> n" "\<forall>(r, h, s) \<in> set ys. run_inv (world_clean w) s"
    "swap_all compare_and_swap (sw_store w1) ys = Inr (hs, sw_store w2)"
    using assms unfolding advances_def by auto
  then show ?thesis
    unfolding advances_def
    by (intro exI [of _ "xs @ ys"] exI [of _ "gs @ hs"]) (auto simp: swap_all_append)
qed

lemma store_swap_cases:
  "store_swap w g s = (out, w') \<longleftrightarrow>
     (\<exists>e. compare_and_swap (sw_store w) (sg_revision g) (sg_state_hash g) s = Inl e
        \<and> out = Inl (Store_Raised e) \<and> w' = w)
     \<or> (\<exists>p st. compare_and_swap (sw_store w) (sg_revision g) (sg_state_hash g) s = Inr (p, st)
        \<and> out = Inr p \<and> w' = w\<lparr>sw_store := st\<rparr>)"
  by (auto simp: store_swap_def split: sum.splits)

lemma store_swap_Inl: "store_swap w g s = (Inl e, w') \<Longrightarrow> w' = w"
  by (auto simp: store_swap_cases)

lemma store_swap_Inr:
  assumes "store_swap w g s = (Inr p, w')" and "world_ok w" and "run_inv (world_clean w) s"
  shows "load (sw_store w') = Inr p" "sg_state p = s" "sg_revision p = sg_revision g + 1"
    "world_ok w'" "keeps_identity w w'" "sw_registry w' = sw_registry w"
proof -
  obtain st where c: "compare_and_swap (sw_store w) (sg_revision g) (sg_state_hash g) s = Inr (p, st)"
      and w': "w' = w\<lparr>sw_store := st\<rparr>"
    using assms(1) by (auto simp: store_swap_cases)
  have ok: "listing_ok (sw_store w)" "run_inv (clean_of (rs_env (sw_store w))) s"
      "dump_ok (rs_env (sw_store w)) s"
    using assms(2,3) by (simp_all add: world_ok_def world_clean_def faithful_def)
  note l = swapped_loads [OF ok(1) c ok(2,3)]
  show "load (sw_store w') = Inr p" "sg_state p = s" "sg_revision p = sg_revision g + 1"
    "world_ok w'" "keeps_identity w w'" "sw_registry w' = sw_registry w"
    using l w' assms(2) by (simp_all add: world_ok_def keeps_identity_def same_rest_def)
qed

lemma store_swap_advances:
  "store_swap w g s = (out, w') \<Longrightarrow> run_inv (world_clean w) s \<Longrightarrow> advances 1 w w'"
  unfolding store_swap_cases
proof (elim disjE exE conjE)
  fix p st
  assume "run_inv (world_clean w) s"
    "compare_and_swap (sw_store w) (sg_revision g) (sg_state_hash g) s = Inr (p, st)"
    "w' = w\<lparr>sw_store := st\<rparr>"
  then show ?thesis
    unfolding advances_def
    by (intro exI [of _ "[(sg_revision g, sg_state_hash g, s)]"] exI [of _ "[p]"]) simp
qed (simp add: advances_same)

lemma world_clean_registry [simp]: "world_clean (w\<lparr>sw_registry := fs\<rparr>) = world_clean w"
  by (simp add: world_clean_def)

lemma keeps_clean: "keeps_identity w w' \<Longrightarrow> world_clean w' = world_clean w"
  by (simp add: keeps_identity_def world_clean_def)

subsection \<open>Routed failures\<close>

lemma make_result_Inr:
  "make_result kind g st failure evidence = Inr r \<longleftrightarrow>
     r = \<lparr>sr_kind = kind, sr_run_id = run_id (sg_state g), sr_state_revision = sg_revision g,
          sr_state_hash = sg_state_hash g, sr_request_id = None, sr_stage = st,
          sr_action = None, sr_failure = failure, sr_evidence = evidence\<rparr>
     \<and> step_result_valid r"
  by (auto simp: make_result_def Let_def)

lemma failure_result_Inr:
  assumes "failure_result p f = Inr r"
  shows "sr_kind r = failure_kind (disposition (sg_state p))" "sr_stage r = None"
    "sr_failure r = Some f" "sr_state_revision r = sg_revision p" "sr_state_hash r = sg_state_hash p"
    "sr_run_id r = run_id (sg_state p)"
  using assms by (auto simp: failure_result_def make_result_Inr)

lemma failure_kind_range: "failure_kind d \<in> {STEP_ITERATION_FAILED, STEP_REPAIR_REQUIRED, STEP_HUMAN_REVIEW}"
  by (cases d) (simp_all add: failure_kind_def)

lemma route_and_store_advances:
  assumes "route_and_store w g f = (out, w')"
  shows "advances 1 w w'"
proof (cases "apply_route (world_clean w) (sg_state g) (route_failure (sg_state g) f)")
  case (Inl e)
  then show ?thesis using assms by (simp add: route_and_store_def advances_same)
next
  case (Inr routed)
  have "run_inv (world_clean w) routed"
    using Inr by (auto simp: apply_route_def bind_result_Inr Let_def split: if_splits dest: model_copy_inv)
  moreover obtain o1 w1 where s: "store_swap w g routed = (o1, w1)" by fastforce
  moreover have "w' = w1" using assms Inr s by (auto simp: route_and_store_def split: sum.splits)
  ultimately show ?thesis using store_swap_advances by simp
qed

lemma route_and_store_Inr:
  assumes r: "route_and_store w g f = (Inr r, w')" and ok: "world_ok w"
    and inv: "run_inv (world_clean w) (sg_state g)" and f: "failure_record_valid f"
  obtains p where "load (sw_store w') = Inr p" "sg_revision p = sg_revision g + 1"
    "disposition (sg_state p) = rd_disposition (route_failure (sg_state g) f)"
    "\<not> iteration_open (sg_state p)" "run_inv (world_clean w) (sg_state p)"
    "crew_iteration_count (sg_state p) = crew_iteration_count (sg_state g)"
    "failure_result p (last (failure_history (sg_state p))) = Inr r"
    "world_ok w'" "keeps_identity w w'" "sw_registry w' = sw_registry w"
proof -
  obtain u where u: "apply_route (world_clean w) (sg_state g) (route_failure (sg_state g) f) = Inr u"
      "run_inv (world_clean w) u" "\<not> iteration_open u"
      "disposition u = rd_disposition (route_failure (sg_state g) f)"
      "crew_iteration_count u = crew_iteration_count (sg_state g)"
    using apply_route_failure [OF inv f] by metis
  obtain o1 w1 where s: "store_swap w g u = (o1, w1)" by fastforce
  with r u(1) obtain p where p: "o1 = Inr p" "w' = w1"
      "failure_result p (last (failure_history (sg_state p))) = Inr r"
    by (auto simp: route_and_store_def split: sum.splits)
  note q = store_swap_Inr [OF s [unfolded p(1)] ok u(2)]
  show ?thesis by (rule that [of p]) (use q u p in simp_all)
qed

lemma route_and_store_kind:
  assumes "route_and_store w g f = (Inr r, w')"
  shows "sr_kind r \<notin> {STEP_CONTINUE, STEP_READY_TO_FINALIZE, STEP_MCP_ACTION, STEP_DONE}" "sr_stage r = None"
proof -
  obtain p where "failure_result p (last (failure_history (sg_state p))) = Inr r"
    using assms by (auto simp: route_and_store_def split: sum.splits prod.splits)
  note k = failure_result_Inr(1,2) [OF this]
  show "sr_stage r = None" by (rule k(2))
  show "sr_kind r \<notin> {STEP_CONTINUE, STEP_READY_TO_FINALIZE, STEP_MCP_ACTION, STEP_DONE}"
    using failure_kind_range [of "disposition (sg_state p)"] k(1) by auto
qed

subsection \<open>Stored checkpoints\<close>

lemma store_checkpoint_advances:
  assumes "store_checkpoint deps w g st x update result = (out, w')"
  shows "advances 1 w w'"
proof (cases "issue (sw_registry w) (candidate_checkpoint st (sd_expectations deps st) x) (sd_draws deps)")
  case (Inl e)
  then show ?thesis
    using assms route_and_store_advances by (simp add: store_checkpoint_def)
next
  case (Inr y)
  obtain c fs where y: "y = (c, fs)" by (cases y)
  let ?w1 = "w\<lparr>sw_registry := fs\<rparr>"
  have same: "advances 1 ?w1 v \<Longrightarrow> advances 1 w v" for v by (simp add: advances_def)
  show ?thesis
  proof (cases "model_copy (world_clean ?w1) (update c) (sg_state g)")
    case (Inl e)
    then show ?thesis
      using assms Inr y same route_and_store_advances by (simp add: store_checkpoint_def Let_def)
  next
    case m: (Inr s)
    obtain o2 w2 where s: "store_swap ?w1 g s = (o2, w2)" by fastforce
    show ?thesis
    proof (cases o2)
      case (Inl e)
      then have "w2 = ?w1" using s store_swap_Inl by blast
      then show ?thesis
        using assms Inr y m s Inl same route_and_store_advances
        by (simp add: store_checkpoint_def Let_def)
    next
      case p: (Inr p)
      have "run_inv (world_clean ?w1) s" by (rule model_copy_inv [OF m])
      then have "advances 1 ?w1 w2" by (rule store_swap_advances [OF s])
      then show ?thesis
        using assms Inr y m s p same by (simp add: store_checkpoint_def Let_def)
    qed
  qed
qed

lemma store_checkpoint_Inr:
  assumes r: "store_checkpoint deps w g st x update result = (Inr r, w')"
    and kind: "sr_kind r \<in> {STEP_CONTINUE, STEP_READY_TO_FINALIZE}" and ok: "world_ok w"
  obtains c p where
    "issue (sw_registry w) (candidate_checkpoint st (sd_expectations deps st) x) (sd_draws deps)
       = Inr (c, sw_registry w')"
    "model_copy (world_clean w) (update c) (sg_state g) = Inr (sg_state p)" "result p = Inr r"
    "load (sw_store w') = Inr p" "sg_revision p = sg_revision g + 1" "world_ok w'" "keeps_identity w w'"
proof -
  have no: "route_and_store v g f \<noteq> (Inr r, w')" for v f
    using route_and_store_kind(1) kind by fastforce
  from r no obtain c fs where i:
      "issue (sw_registry w) (candidate_checkpoint st (sd_expectations deps st) x) (sd_draws deps) = Inr (c, fs)"
    by (auto simp: store_checkpoint_def split: sum.splits)
  let ?w1 = "w\<lparr>sw_registry := fs\<rparr>"
  from r no i obtain s where m: "model_copy (world_clean w) (update c) (sg_state g) = Inr s"
    by (auto simp: store_checkpoint_def Let_def split: sum.splits)
  obtain o2 w2 where s: "store_swap ?w1 g s = (o2, w2)" by fastforce
  with r no i m obtain p where p: "o2 = Inr p" "result p = Inr r" "w2 = w'"
    by (cases o2) (auto simp: store_checkpoint_def Let_def)
  have ok1: "world_ok ?w1" using ok by (simp add: world_ok_def)
  have inv: "run_inv (world_clean ?w1) s" using model_copy_inv [OF m] by simp
  note q = store_swap_Inr [OF s [unfolded p(1)] ok1 inv]
  show ?thesis
    by (rule that [of c p]) (use i m p q in \<open>simp_all add: keeps_identity_def\<close>)
qed

subsection \<open>Which steps continue\<close>

lemma execute_advances:
  "execute_and_checkpoint deps w g st = (out, w') \<Longrightarrow> advances 1 w w'"
  unfolding execute_and_checkpoint_def checkpoint_reviewer_def
  by (auto split: if_splits stage_outcome.splits option.splits
      dest: route_and_store_advances store_checkpoint_advances intro: advances_same)

lemma execute_continue:
  assumes r: "execute_and_checkpoint deps w g st = (Inr r, w')" and kind: "sr_kind r = STEP_CONTINUE"
  obtains x where "current_stage (sg_state g) = st" "iteration_open (sg_state g)" "st \<noteq> REVIEWER"
    "sd_execute deps st (sg_state g) = Executed x"
    "store_checkpoint deps w g st x (with_checkpoint st)
       (\<lambda>p. make_result STEP_CONTINUE p (Some st) None (se_evidence x)) = (Inr r, w')"
proof -
  have no: "route_and_store v h f \<noteq> (Inr r, w')" for v h f
    using route_and_store_kind(1) kind by fastforce
  have no2: "store_checkpoint deps w g REVIEWER x (approved_update' x)
      (\<lambda>p. make_result STEP_READY_TO_FINALIZE p None None (se_evidence x)) \<noteq> (Inr r, w')"
    for x and approved_update' :: "stage_execution \<Rightarrow> checkpoint \<Rightarrow> run_state \<Rightarrow> run_state"
    using no kind
    by (auto simp: store_checkpoint_def Let_def make_result_Inr split: sum.splits prod.splits)
  show ?thesis
    using r no no2 [of _ "\<lambda>x c. approved_update c x"] that
    by (auto simp: execute_and_checkpoint_def checkpoint_reviewer_def
        split: if_splits stage_outcome.splits option.splits)
qed

lemma execute_ready:
  assumes r: "execute_and_checkpoint deps w g st = (Inr r, w')"
    and kind: "sr_kind r = STEP_READY_TO_FINALIZE"
  obtains x v where "current_stage (sg_state g) = REVIEWER" "iteration_open (sg_state g)" "st = REVIEWER"
    "sd_execute deps REVIEWER (sg_state g) = Executed x" "se_review x = Some v" "rv_approved v"
    "review_manifest (sg_state g) = Some (rv_review_manifest_hash v)"
    "store_checkpoint deps w g REVIEWER x (\<lambda>c. approved_update c x)
       (\<lambda>p. make_result STEP_READY_TO_FINALIZE p None None (se_evidence x)) = (Inr r, w')"
proof -
  have no: "route_and_store v h f \<noteq> (Inr r, w')" for v h f
    using route_and_store_kind(1) kind by fastforce
  have no2: "store_checkpoint deps w g st x (with_checkpoint st)
      (\<lambda>p. make_result STEP_CONTINUE p (Some st) None (se_evidence x)) \<noteq> (Inr r, w')" for x
    using no kind
    by (auto simp: store_checkpoint_def Let_def make_result_Inr split: sum.splits prod.splits)
  show ?thesis
    using r no no2 that
    by (auto simp: execute_and_checkpoint_def checkpoint_reviewer_def
        split: if_splits stage_outcome.splits option.splits)
qed

subsection \<open>One step\<close>

lemma begin_iteration_Inr:
  assumes "begin_iteration clean s = Inr t"
  shows "run_inv clean t" "can_start_iteration s" "iteration_open t" "current_stage t = current_stage s"
    "disposition t = disposition s" "crew_iteration_count t = crew_iteration_count s + 1"
    "checkpoints t = checkpoints s" "stage_outputs t = stage_outputs s" "review_manifest t = review_manifest s"
proof -
  let ?u = "s\<lparr>crew_iteration_count := crew_iteration_count s + 1, iteration_open := True\<rparr>"
  have m: "model_validate clean ?u = Inr t" and c: "can_start_iteration s"
    using assms by (auto simp: begin_iteration_def model_copy_def split: if_splits)
  have t: "t = normalize ?u" using m by (simp add: model_validate_Inr)
  show "run_inv clean t" by (rule model_validate_inv [OF m])
  show "can_start_iteration s" by (rule c)
  show "iteration_open t" "current_stage t = current_stage s"
    "disposition t = disposition s" "crew_iteration_count t = crew_iteration_count s + 1"
    "checkpoints t = checkpoints s" "stage_outputs t = stage_outputs s" "review_manifest t = review_manifest s"
    unfolding t by (simp_all add: normalize_def)
qed

lemma open_iteration_Inr:
  assumes r: "open_iteration w g = (Inr p, w')" and ok: "world_ok w"
  shows "begin_iteration (world_clean w) (sg_state g) = Inr (sg_state p)"
    "load (sw_store w') = Inr p" "sg_revision p = sg_revision g + 1" "world_ok w'"
    "keeps_identity w w'" "sw_registry w' = sw_registry w"
proof -
  obtain s where s: "begin_iteration (world_clean w) (sg_state g) = Inr s" "store_swap w g s = (Inr p, w')"
    using r by (auto simp: open_iteration_def split: sum.splits)
  note q = store_swap_Inr [OF s(2) ok begin_iteration_Inr(1) [OF s(1)]]
  show "begin_iteration (world_clean w) (sg_state g) = Inr (sg_state p)"
    "load (sw_store w') = Inr p" "sg_revision p = sg_revision g + 1" "world_ok w'"
    "keeps_identity w w'" "sw_registry w' = sw_registry w"
    using q s(1) by simp_all
qed

lemma open_iteration_advances: "open_iteration w g = (out, w') \<Longrightarrow> advances 1 w w'"
  using begin_iteration_Inr(1) store_swap_advances
  by (fastforce simp: open_iteration_def advances_same split: sum.splits)

lemma open_iteration_identity: "open_iteration w g = (out, w') \<Longrightarrow> keeps_identity w w'"
  by (auto simp: open_iteration_def keeps_identity_def store_swap_cases split: sum.splits
      dest: swap_same_rest simp: same_rest_def)

lemma advances_mono: "advances m w w' \<Longrightarrow> m \<le> n \<Longrightarrow> advances n w w'"
  unfolding advances_def by (meson le_trans)

lemma gated_advances: "gated_result w g = (out, w') \<Longrightarrow> advances 1 w w'"
  unfolding gated_result_def Let_def
  by (auto split: run_disposition.splits option.splits
      dest: route_and_store_advances intro: advances_same)

lemma step_advances:
  assumes "supervisor_step deps w rid r h = (out, w')"
  shows "advances 2 w w'"
proof -
  have up: "advances 1 w v \<Longrightarrow> advances 2 w v" for v by (erule advances_mono) simp
  have two: "advances 2 w v" if "open_iteration w g = (o1, w1)" "execute_and_checkpoint deps w1 g' st = (o2, v)"
    for g o1 w1 g' st o2 v
    using advances_trans [OF open_iteration_advances [OF that(1)] execute_advances [OF that(2)]]
      keeps_clean [OF open_iteration_identity [OF that(1)]] by (simp add: numeral_2_eq_2)
  have one: "advances 2 w v" if "gated_result w g = (o1, v) \<or> route_and_store w g f = (o1, v)
      \<or> execute_and_checkpoint deps w g st = (o1, v) \<or> open_iteration w g = (o2, v)" for g o1 o2 v f st
    using that gated_advances route_and_store_advances execute_advances open_iteration_advances up by blast
  show ?thesis
    using assms unfolding supervisor_step_def
    by (auto split: if_splits sum.splits option.splits prod.splits intro: advances_same one two)
qed

lemma step_loaded:
  assumes "supervisor_step deps w rid r h = (Inr res, w')"
  obtains g where "rid = rs_run_id (sw_store w)" "load (sw_store w) = Inr g" "sg_revision g = r"
    "sg_state_hash g = lower h"
  using assms unfolding supervisor_step_def
  by (auto split: if_splits sum.splits option.splits prod.splits)

lemma gated_kind:
  assumes "gated_result w g = (Inr r, w')"
  shows "sr_kind r \<notin> {STEP_CONTINUE, STEP_READY_TO_FINALIZE}"
  using assms route_and_store_kind(1)
  by (fastforce simp: gated_result_def Let_def make_result_Inr mcp_result_def
      split: run_disposition.splits option.splits if_splits)

abbreviation expected_by :: "supervisor_deps \<Rightarrow> stage \<Rightarrow> checkpoint_expectation option" where
  "expected_by deps \<equiv> \<lambda>st. Some (sd_expectations deps st)"

lemma step_executes:
  assumes r: "supervisor_step deps w rid n h = (Inr r, w')"
    and kind: "sr_kind r = STEP_CONTINUE \<or> sr_kind r = STEP_READY_TO_FINALIZE \<and> \<not> finalization_eligible (sg_state g)"
    and ok: "world_ok w" and g: "load (sw_store w) = Inr g"
  obtains st g1 w1 where
    "disposition (sg_state g) = ACTIVE"
    "next_stage (is_reusable (sw_registry w)) (expected_by deps) (sg_state g) = Inr (Some st)"
    "execute_and_checkpoint deps w1 g1 st = (Inr r, w')"
    "load (sw_store w1) = Inr g1" "world_ok w1" "keeps_identity w w1" "sw_registry w1 = sw_registry w"
    "current_stage (sg_state g1) = current_stage (sg_state g)" "disposition (sg_state g1) = ACTIVE"
    "iteration_open (sg_state g) \<and> g1 = g
     \<or> \<not> iteration_open (sg_state g)
       \<and> begin_iteration (world_clean w) (sg_state g) = Inr (sg_state g1) \<and> sg_revision g1 = sg_revision g + 1"
    "review_manifest (sg_state g1) = review_manifest (sg_state g)"
proof -
  have no: "route_and_store v x f \<noteq> (Inr r, w')" for v x f
    using route_and_store_kind(1) kind by fastforce
  have act: "disposition (sg_state g) = ACTIVE"
    using r g gated_kind kind by (auto simp: supervisor_step_def split: if_splits)
  have ready: "\<not> (\<not> iteration_open (sg_state g) \<and> finalization_eligible (sg_state g)
      \<and> make_result STEP_READY_TO_FINALIZE g None None [] = Inr r)"
    using kind by (auto simp: make_result_Inr)
  obtain st where st: "next_stage (is_reusable (sw_registry w)) (expected_by deps) (sg_state g) = Inr (Some st)"
    using r g act no ready by (auto simp: supervisor_step_def split: if_splits sum.splits option.splits)
  show ?thesis
  proof (cases "iteration_open (sg_state g)")
    case True
    then have "execute_and_checkpoint deps w g st = (Inr r, w')"
      using r g act st by (auto simp: supervisor_step_def split: if_splits)
    with True st act ok g that [of st w g] show ?thesis by (simp add: keeps_identity_def)
  next
    case False
    then obtain g1 w1 where o: "open_iteration w g = (Inr g1, w1)"
        "execute_and_checkpoint deps w1 g1 st = (Inr r, w')"
      using r g act st no by (auto simp: supervisor_step_def split: if_splits sum.splits prod.splits)
    note q = open_iteration_Inr [OF o(1) ok]
    note b = begin_iteration_Inr [OF q(1)]
    show ?thesis by (rule that [of st w1 g1]) (use False o q b act st in simp_all)
  qed
qed

lemma issued_recorded:
  assumes "issue fs (candidate_checkpoint st e x) draws = Inr (c, fs')"
  shows "recorded_in fs' c" "ck_stage c = st" "ck_contract_hash c = ce_contract_hash e"
    "ck_input_hashes c = ce_input_hashes e" "ck_output_manifest_hash c = se_output_manifest_hash x"
proof -
  obtain cids where i: "issue_with fs (candidate_checkpoint st e x) cids = Inr (c, fs')"
    using assms unfolding issue_def by (cases draws) (simp only: prod.case)
  obtain cid where "c = (candidate_checkpoint st e x)\<lparr>ck_id := Some cid\<rparr>"
    using issue_with_recorded [OF i] by blast
  then show "ck_stage c = st" "ck_contract_hash c = ce_contract_hash e"
    "ck_input_hashes c = ce_input_hashes e" "ck_output_manifest_hash c = se_output_manifest_hash x"
    by (simp_all add: candidate_checkpoint_def)
  show "recorded_in fs' c" using issue_with_recorded [OF i] by blast
qed

lemma copied_state: "model_copy clean f s = Inr t \<Longrightarrow> t = normalize (f s)"
  by (simp add: model_copy_def model_validate_Inr)

lemma settled_checkpoint:
  assumes "recorded_in fs c" "ck_stage c = st" "ck_contract_hash c = ce_contract_hash e"
    "ck_input_hashes c = ce_input_hashes e" "exps st = Some e"
  shows "stage_settled (is_reusable fs) exps (normalize (with_checkpoint st c s)) st = Inr True"
  using assms
  by (simp add: stage_settled_def normalize_def with_checkpoint_def outputs_of_def is_reusable_def
      recorded_matches)

lemma step_continue:
  assumes r: "supervisor_step deps w rid n h = (Inr r, w')" and kind: "sr_kind r = STEP_CONTINUE"
    and ok: "world_ok w"
  obtains g p st where
    "load (sw_store w) = Inr g" "disposition (sg_state g) = ACTIVE" "current_stage (sg_state g) = st"
    "next_stage (is_reusable (sw_registry w)) (expected_by deps) (sg_state g) = Inr (Some st)"
    "sr_stage r = Some st" "st \<noteq> REVIEWER"
    "load (sw_store w') = Inr p" "sr_state_revision r = sg_revision p" "sr_state_hash r = sg_state_hash p"
    "current_stage (sg_state p) = st" "iteration_open (sg_state p)" "disposition (sg_state p) = ACTIVE"
    "stage_settled (is_reusable (sw_registry w')) (expected_by deps) (sg_state p) st = Inr True"
    "world_ok w'" "keeps_identity w w'"
proof -
  obtain g where g: "load (sw_store w) = Inr g" using step_loaded [OF r] by metis
  obtain st g1 w1 where e: "disposition (sg_state g) = ACTIVE"
      "next_stage (is_reusable (sw_registry w)) (expected_by deps) (sg_state g) = Inr (Some st)"
      "execute_and_checkpoint deps w1 g1 st = (Inr r, w')"
      "load (sw_store w1) = Inr g1" "world_ok w1" "keeps_identity w w1"
      "current_stage (sg_state g1) = current_stage (sg_state g)" "disposition (sg_state g1) = ACTIVE"
    using step_executes [OF r _ ok g] kind by metis
  obtain x where x: "current_stage (sg_state g1) = st" "iteration_open (sg_state g1)" "st \<noteq> REVIEWER"
      "store_checkpoint deps w1 g1 st x (with_checkpoint st)
         (\<lambda>p. make_result STEP_CONTINUE p (Some st) None (se_evidence x)) = (Inr r, w')"
    using execute_continue [OF e(3) kind] by metis
  obtain c p where p:
      "issue (sw_registry w1) (candidate_checkpoint st (sd_expectations deps st) x) (sd_draws deps)
         = Inr (c, sw_registry w')"
      "model_copy (world_clean w1) (with_checkpoint st c) (sg_state g1) = Inr (sg_state p)"
      "make_result STEP_CONTINUE p (Some st) None (se_evidence x) = Inr r"
      "load (sw_store w') = Inr p" "world_ok w'" "keeps_identity w1 w'"
    by (rule store_checkpoint_Inr [OF x(4) _ e(5)]) (use kind in simp_all)
  note t = copied_state [OF p(2)]
  note i = issued_recorded [OF p(1)]
  have "stage_settled (is_reusable (sw_registry w')) (expected_by deps) (sg_state p) st = Inr True"
    unfolding t by (rule settled_checkpoint [OF i(1-4)]) simp
  moreover have "current_stage (sg_state p) = st" "iteration_open (sg_state p)"
      "disposition (sg_state p) = ACTIVE"
    unfolding t using x(2) e(8) by (simp_all add: normalize_def with_checkpoint_def)
  moreover have "keeps_identity w w'" using e(6) p(6) by (simp add: keeps_identity_def)
  moreover have "sr_stage r = Some st" "sr_state_revision r = sg_revision p" "sr_state_hash r = sg_state_hash p"
    using p(3) by (simp_all add: make_result_Inr)
  ultimately show ?thesis using that g e x p by metis
qed

subsection \<open>The position after a checkpoint\<close>

lemma next_stage_unsettled:
  "next_stage reusable exps s = Inr (Some st) \<Longrightarrow> stage_settled reusable exps s st = Inr False"
  by (simp add: next_stage_Some)

lemma invalid_routing_review:
  "disposition s = ACTIVE \<Longrightarrow> rd_disposition (route_failure s (supervisor_failure INVALID_ROUTING)) = HUMAN_REVIEW"
  "disposition s = ACTIVE \<Longrightarrow> rd_disposition (route_failure s budget_failure) = HUMAN_REVIEW"
  using route_failure_other [of s]
  by (simp_all add: retry_stage_def supervisor_failure_def budget_failure_def repair_sources_def)

lemma supervisor_failure_valid [simp]:
  "failure_record_valid (supervisor_failure k)" "failure_record_valid budget_failure"
  "failure_record_valid (orchestration_failure st)"
  by (simp_all add: failure_record_valid_def supervisor_failure_def budget_failure_def
      orchestration_failure_def)

lemma reviewed_route:
  assumes "route_and_store w g f = (Inr r, w')" and "world_ok w" and "load (sw_store w) = Inr g"
    and "failure_record_valid f" and "rd_disposition (route_failure (sg_state g) f) = HUMAN_REVIEW"
  shows "sr_kind r = STEP_HUMAN_REVIEW"
    "\<exists>p. load (sw_store w') = Inr p \<and> disposition (sg_state p) = HUMAN_REVIEW"
proof -
  have inv: "run_inv (world_clean w) (sg_state g)"
    using load_inv(1) [OF _ assms(3)] assms(2) by (simp add: world_ok_def world_clean_def)
  obtain p where p: "load (sw_store w') = Inr p" "disposition (sg_state p) = HUMAN_REVIEW"
      "failure_result p (last (failure_history (sg_state p))) = Inr r"
    using route_and_store_Inr [OF assms(1,2) inv assms(4)] assms(5) by metis
  show "sr_kind r = STEP_HUMAN_REVIEW"
    using failure_result_Inr(1) [OF p(3)] p(2) by (simp add: failure_kind_def)
  show "\<exists>p. load (sw_store w') = Inr p \<and> disposition (sg_state p) = HUMAN_REVIEW" using p(1,2) by blast
qed

lemma settled_position_review:
  assumes r: "supervisor_step deps w rid n h = (Inr r, w')" and ok: "world_ok w"
    and g: "load (sw_store w) = Inr g" and act: "disposition (sg_state g) = ACTIVE"
    and settled: "stage_settled (is_reusable (sw_registry w)) (expected_by deps) (sg_state g)
        (current_stage (sg_state g)) = Inr True"
    and open_it: "iteration_open (sg_state g) \<or> \<not> finalization_eligible (sg_state g)"
  shows "sr_kind r = STEP_HUMAN_REVIEW"
    "\<exists>p. load (sw_store w') = Inr p \<and> disposition (sg_state p) = HUMAN_REVIEW"
proof -
  let ?next = "next_stage (is_reusable (sw_registry w)) (expected_by deps) (sg_state g)"
  have *: "sr_kind r = STEP_HUMAN_REVIEW
      \<and> (\<exists>p. load (sw_store w') = Inr p \<and> disposition (sg_state p) = HUMAN_REVIEW)"
  proof (cases ?next)
    case (Inl e)
    with r g act show ?thesis by (auto simp: supervisor_step_def split: if_splits)
  next
    case (Inr found)
    show ?thesis
    proof (cases found)
      case None
      then have "route_and_store w g (supervisor_failure INVALID_ROUTING) = (Inr r, w')"
        using r g act Inr open_it by (auto simp: supervisor_step_def split: if_splits)
      from reviewed_route [OF this ok g] invalid_routing_review act show ?thesis by simp
    next
      case (Some st)
      then have other: "current_stage (sg_state g) \<noteq> st"
        using next_stage_unsettled Inr settled by fastforce
      show ?thesis
      proof (cases "iteration_open (sg_state g)")
        case True
        then have "execute_and_checkpoint deps w g st = (Inr r, w')"
          using r g act Inr Some by (auto simp: supervisor_step_def split: if_splits)
        then have "route_and_store w g (supervisor_failure INVALID_ROUTING) = (Inr r, w')"
          using other by (simp add: execute_and_checkpoint_def)
        from reviewed_route [OF this ok g] invalid_routing_review act show ?thesis by simp
      next
        case closed: False
        show ?thesis
        proof (cases "can_start_iteration (sg_state g)")
          case False
          then have "route_and_store w g budget_failure = (Inr r, w')"
            using r g act Inr Some closed by (auto simp: supervisor_step_def split: if_splits)
          from reviewed_route [OF this ok g] invalid_routing_review act show ?thesis by simp
        next
          case True
          then obtain g1 w1 where o: "open_iteration w g = (Inr g1, w1)"
              "execute_and_checkpoint deps w1 g1 st = (Inr r, w')"
            using r g act Inr Some closed
            by (auto simp: supervisor_step_def split: if_splits sum.splits prod.splits)
          note q = open_iteration_Inr [OF o(1) ok]
          note b = begin_iteration_Inr [OF q(1)]
          have "route_and_store w1 g1 (supervisor_failure INVALID_ROUTING) = (Inr r, w')"
            using o(2) other b(4) by (simp add: execute_and_checkpoint_def)
          from reviewed_route [OF this q(4,2)] invalid_routing_review act b(5) show ?thesis by simp
        qed
      qed
    qed
  qed
  then show "sr_kind r = STEP_HUMAN_REVIEW"
    "\<exists>p. load (sw_store w') = Inr p \<and> disposition (sg_state p) = HUMAN_REVIEW" by blast+
qed

subsection \<open>Ready to finalize\<close>

lemma step_ready:
  assumes r: "supervisor_step deps w rid n h = (Inr r, w')" and kind: "sr_kind r = STEP_READY_TO_FINALIZE"
    and ok: "world_ok w" and g: "load (sw_store w) = Inr g" and fresh: "\<not> finalization_eligible (sg_state g)"
  obtains p s x v where
    "load (sw_store w') = Inr p" "current_stage (sg_state g) = REVIEWER"
    "s = sg_state g \<or> begin_iteration (world_clean w) (sg_state g) = Inr s"
    "sd_execute deps REVIEWER s = Executed x" "se_review x = Some v" "rv_approved v"
    "review_manifest (sg_state g) = Some (rv_review_manifest_hash v)"
    "finalization_eligible (sg_state p)" "\<not> iteration_open (sg_state p)"
    "review_result (sg_state p) = Some (se_output_manifest_hash x)"
    "checkpoints (sg_state p) REVIEWER \<noteq> None"
    "sr_state_revision r = sg_revision p" "sr_state_hash r = sg_state_hash p"
proof -
  obtain st g1 w1 where e: "execute_and_checkpoint deps w1 g1 st = (Inr r, w')" "world_ok w1"
      "current_stage (sg_state g1) = current_stage (sg_state g)"
      "sg_state g1 = sg_state g \<or> begin_iteration (world_clean w) (sg_state g) = Inr (sg_state g1)"
      "review_manifest (sg_state g1) = review_manifest (sg_state g)"
    using step_executes [OF r _ ok g] kind fresh by metis
  obtain x v where x: "current_stage (sg_state g1) = REVIEWER"
      "sd_execute deps REVIEWER (sg_state g1) = Executed x" "se_review x = Some v" "rv_approved v"
      "review_manifest (sg_state g1) = Some (rv_review_manifest_hash v)"
      "store_checkpoint deps w1 g1 REVIEWER x (\<lambda>c. approved_update c x)
         (\<lambda>p. make_result STEP_READY_TO_FINALIZE p None None (se_evidence x)) = (Inr r, w')"
    using execute_ready [OF e(1) kind] by metis
  obtain c p where p:
      "model_copy (world_clean w1) (approved_update c x) (sg_state g1) = Inr (sg_state p)"
      "make_result STEP_READY_TO_FINALIZE p None None (se_evidence x) = Inr r"
      "load (sw_store w') = Inr p"
    by (rule store_checkpoint_Inr [OF x(6) _ e(2)]) (use kind in simp_all)
  note t = copied_state [OF p(1)]
  show ?thesis
    by (rule that [of p "sg_state g1" x v])
      (use e x p in \<open>simp_all add: make_result_Inr\<close>,
       simp_all add: t normalize_def approved_update_def with_checkpoint_def)
qed

end
