(* ===== verification/Receipt_Laws.thy ===== *)
theory Receipt_Laws
  imports Receipts
begin

section \<open>Receipts that verify\<close>

text \<open>
  The JSON form of a receipt reads back to the receipt, so a receipt that the authority
  signed and stored under its path is accepted, and the loader accepts nothing else: a
  receipt that comes back carries the HMAC of its own content under the key of the
  authority.
\<close>

lemma receipt_json_fields:
  assumes "trusted_receipt_json ck r = JObj kvs"
  shows "known_fields kvs receipt_fields" "distinct (map fst kvs)"
    "map_of kvs ''schema_version'' = Some (JStr ''v1'')"
    "text_field kvs ''receipt_id'' = Some (tr_receipt_id r)"
    "text_field kvs ''request_id'' = Some (tr_request_id r)"
    "text_field kvs ''effect_id'' = Some (tr_effect_id r)"
    "text_field kvs ''effect_hash'' = Some (tr_effect_hash r)"
    "text_field kvs ''request_hash'' = Some (tr_request_hash r)"
    "text_field kvs ''operation'' = Some (tr_operation r)"
    "text_field kvs ''target'' = Some (tr_target r)"
    "text_field kvs ''run_id'' = Some (tr_run_id r)"
    "map_of kvs ''expected_revision'' = Some (JInt (tr_expected_revision r))"
    "text_field kvs ''expected_state_hash'' = Some (tr_expected_state_hash r)"
    "optional_text kvs ''expected_external_revision'' = Some (tr_expected_external_revision r)"
    "text_field kvs ''payload_hash'' = Some (tr_payload_hash r)"
    "text_field kvs ''result_hash'' = Some (tr_result_hash r)"
    "text_field kvs ''outcome'' = Some (outcome_value (tr_outcome r))"
    "optional_text kvs ''external_revision'' = Some (tr_external_revision r)"
    "optional_text kvs ''observed_state_id'' = Some (tr_observed_state_id r)"
    "text_field kvs ''bridge_identity'' = Some (tr_bridge_identity r)"
    "text_field kvs ''mcp_server_identity'' = Some (tr_mcp_server_identity r)"
    "text_field kvs ''tool_call_id'' = Some (tr_tool_call_id r)"
    "map_of kvs ''observed_at'' = Some (JStr (clock_text ck (tr_observed_at r)))"
    "map_of kvs ''observations'' = Some (JList (map JStr (tr_observations r)))"
    "text_field kvs ''relative_path'' = Some (tr_relative_path r)"
    "optional_text kvs ''bridge_signature'' = Some (tr_bridge_signature r)"
proof -
  have k: "kvs = receipt_signed_payload ck r @ [(''bridge_signature'', json_opt (tr_bridge_signature r))]"
    using assms by (simp add: trusted_receipt_json_def)
  show "known_fields kvs receipt_fields" "distinct (map fst kvs)"
    unfolding k by (simp_all add: known_fields_def receipt_fields_def receipt_signed_payload_def)
  show "optional_text kvs ''expected_external_revision'' = Some (tr_expected_external_revision r)"
    "optional_text kvs ''external_revision'' = Some (tr_external_revision r)"
    "optional_text kvs ''observed_state_id'' = Some (tr_observed_state_id r)"
    "optional_text kvs ''bridge_signature'' = Some (tr_bridge_signature r)"
    unfolding k by (simp_all add: optional_text_def receipt_signed_payload_def json_opt_def split: option.splits)
qed (use assms in \<open>auto simp: trusted_receipt_json_def receipt_signed_payload_def text_field_def\<close>)

lemma outcome_back [simp]: "outcome_of_value (outcome_value out) = Some out"
  by (cases out) (simp_all add: outcome_of_value_def)

lemma texts_back: "texts_of (Some (JList (map JStr xs))) = Some xs"
  by (induction xs) (simp_all add: texts_of_def)

lemma canonical_values:
  assumes "distinct (map fst kvs)" and "canonical_value (JObj kvs) = JObj kvs'"
  shows "digest_field kvs' k = digest_field kvs k" "int_field kvs' k = int_field kvs k"
    "map_of kvs k = Some (JStr s) \<Longrightarrow> map_of kvs' k = Some (JStr s)"
    "map_of kvs k = Some (JList (map JStr xs)) \<Longrightarrow> map_of kvs' k = Some (JList (map JStr xs))"
  using map_of_canonical [OF assms, of k] canonical_fields(1) [OF assms, of k]
  by (auto simp: digest_field_def int_field_def canonical_value.simps(2) comp_def
      split: option.splits json.splits)

lemma digest_field_back:
  "text_field kvs k = Some h \<Longrightarrow> lower_sha256 h \<Longrightarrow> digest_field kvs k = Some h"
  by (simp add: digest_field_def lower_sha256_def)

lemma receipt_json_wf: "json_wf (trusted_receipt_json ck r)"
proof -
  obtain kvs where j: "trusted_receipt_json ck r = JObj kvs" by (simp add: trusted_receipt_json_def)
  have "\<forall>kv \<in> set kvs. json_wf (snd kv)"
    using j by (auto simp: trusted_receipt_json_def receipt_signed_payload_def json_opt_def split: option.splits)
  then show ?thesis using receipt_json_fields(2) [OF j] j by auto
qed

lemma receipt_back:
  assumes valid: "trusted_receipt_valid r"
    and clock: "clock_of ck (JStr (clock_text ck (tr_observed_at r))) = Some (tr_observed_at r)"
    and clean: "\<forall>t \<in> set (tr_observations r). sanitize t = t"
  shows "trusted_receipt_of_json ck sanitize (canonical_value (trusted_receipt_json ck r)) = Some r"
proof -
  obtain kvs where j: "trusted_receipt_json ck r = JObj kvs" by (simp add: trusted_receipt_json_def)
  obtain kvs' where c: "canonical_value (JObj kvs) = JObj kvs'" using canonical_object_shape by blast
  note f = receipt_json_fields [OF j]
  have digests: "lower_sha256 (tr_effect_hash r)" "lower_sha256 (tr_request_hash r)"
      "lower_sha256 (tr_expected_state_hash r)" "lower_sha256 (tr_payload_hash r)"
      "lower_sha256 (tr_result_hash r)"
    using valid by (simp_all add: trusted_receipt_valid_def)
  have sane: "map sanitize (tr_observations r) = tr_observations r"
    using clean by (simp add: map_idI)
  note vals = canonical_values [OF f(2) c] canonical_fields [OF f(2) c]
  have "texts_of (map_of kvs' ''observations'') = Some (tr_observations r)"
    using vals(4) [OF f(24)] texts_back by simp
  moreover have "int_field kvs ''expected_revision'' = Some (tr_expected_revision r)"
    using f(12) by (simp add: int_field_def)
  moreover note digests [THEN digest_field_back [rotated]]
  ultimately show ?thesis
    unfolding j c trusted_receipt_of_json_def json.case
    by (cases r) (use valid clock sane f vals(3) [OF f(3)] vals(3) [OF f(23)] in
      \<open>simp add: vals digests digest_field_back Let_def\<close>)
qed

lemma stored_receipt_verifies:
  assumes valid: "trusted_receipt_valid r" and sig: "signature_matches ck a r"
    and clock: "clock_of ck (JStr (clock_text ck (tr_observed_at r))) = Some (tr_observed_at r)"
    and clean: "\<forall>t \<in> set (tr_observations r). sanitize t = t"
    and path: "receipt_file_ok (tr_relative_path r)"
      "last (path_parts (tr_relative_path r)) = tr_receipt_id r @ ''.json''"
    and stored: "fs (tr_relative_path r) = Some (Regular (canonical_json_bytes (trusted_receipt_json ck r)))"
  shows "load_verified_receipt ck sanitize fs a
      \<lparr>ev_relative_path = tr_relative_path r, ev_sha256 = receipt_content_hash ck r,
       ev_media_type = ''application/json'', ev_creator = ''trusted-mcp-bridge''\<rparr> = Some r"
proof -
  have "read_json_file fs (tr_relative_path r) = Inr (canonical_value (trusted_receipt_json ck r))"
    using stored read_canonical_write [OF receipt_json_wf] by (simp add: read_json_file_Inr)
  then show ?thesis
    using receipt_back [OF valid clock clean] sig path by (simp add: load_verified_receipt_def)
qed

end
