(* ===== verification/Countable_State.thy ===== *)
theory Countable_State
  imports Run_State "HOL-Library.Countable"
begin

section \<open>Run states are countable\<close>

text \<open>
  The records and datatypes a run state is made of are instances of the library's class
  of countable types, so a run state has a number.  \<open>Sample_World\<close> uses the number
  as the JSON form of a state.
\<close>

instance stage :: countable by countable_datatype
instance failure_class :: countable by countable_datatype
instance failure_source :: countable by countable_datatype
instance finding_kind :: countable by countable_datatype
instance run_disposition :: countable by countable_datatype
instance preparation_phase :: countable by countable_datatype
instance unit_status :: countable by countable_datatype
instance effect_outcome :: countable by countable_datatype
instance authorization_action :: countable by countable_datatype
instance json :: countable by countable_datatype

instance evidence_ref_ext :: (countable) countable
  by (rule countable_classI [of "\<lambda>r. to_nat (ev_relative_path r, ev_sha256 r, ev_media_type r, ev_creator r, evidence_ref.more r)"])
    (rule evidence_ref.equality, simp_all)

instance checkpoint_ext :: (countable) countable
  by (rule countable_classI [of "\<lambda>r. to_nat (ck_id r, ck_stage r, ck_contract_hash r, ck_input_hashes r, ck_output_manifest_hash r,
        ck_validator r, ck_validator_version r, ck_validation_receipt_hash r, ck_evidence r,
        checkpoint.more r)"])
    (rule checkpoint.equality, simp_all)

instance stage_output_ext :: (countable) countable
  by (rule countable_classI [of "\<lambda>r. to_nat (so_stage r, so_content_hash r, stage_output.more r)"])
    (rule stage_output.equality, simp_all)

instance failure_record_ext :: (countable) countable
  by (rule countable_classI [of "\<lambda>r. to_nat (fr_class r, fr_source r, fr_finding r, fr_owner_stage r, fr_cited_ids r,
        fr_evidence_refs r, fr_observed_revision r, failure_record.more r)"])
    (rule failure_record.equality, simp_all)

instance intention_payload_ext :: (countable) countable
  by (rule countable_classI [of "\<lambda>r. to_nat (ip_operation r, ip_target r, ip_request_hash r, intention_payload.more r)"])
    (rule intention_payload.equality, simp_all)

instance invocation_payload_ext :: (countable) countable
  by (rule countable_classI [of "\<lambda>r. to_nat (iv_wait_seconds r, invocation_payload.more r)"])
    (rule invocation_payload.equality, simp_all)

instance observation_payload_ext :: (countable) countable
  by (rule countable_classI [of "\<lambda>r. to_nat (op_outcome r, op_external_revision r, op_evidence_refs r, observation_payload.more r)"])
    (rule observation_payload.equality, simp_all)

instance reconciliation_payload_ext :: (countable) countable
  by (rule countable_classI [of "\<lambda>r. to_nat (rp_outcome r, rp_evidence_refs r, rp_receipt_hash r, reconciliation_payload.more r)"])
    (rule reconciliation_payload.equality, simp_all)

instance effect_event :: countable by countable_datatype

instance task_definition_ext :: (countable) countable
  by (rule countable_classI [of "\<lambda>r. to_nat (td_task_id r, td_text r, task_definition.more r)"])
    (rule task_definition.equality, simp_all)

instance task_definition_manifest_ext :: (countable) countable
  by (rule countable_classI [of "\<lambda>r. to_nat (tdm_definition_hash r, tdm_tasks r, task_definition_manifest.more r)"])
    (rule task_definition_manifest.equality, simp_all)

instance task_status_ext :: (countable) countable
  by (rule countable_classI [of "\<lambda>r. to_nat (ts_task_id r, ts_status r, task_status.more r)"])
    (rule task_status.equality, simp_all)

instance task_status_manifest_ext :: (countable) countable
  by (rule countable_classI [of "\<lambda>r. to_nat (tsm_definition_hash r, tsm_statuses r, task_status_manifest.more r)"])
    (rule task_status_manifest.equality, simp_all)

instance human_authorization_ext :: (countable) countable
  by (rule countable_classI [of "\<lambda>r. to_nat (ha_id r, ha_action r, ha_run_id r, ha_challenge r, ha_actor r, ha_reason r,
        ha_issued_at r, ha_expires_at r, ha_key_id r, ha_signature r,
        ha_additional_iterations r, ha_consumed_at r, human_authorization.more r)"])
    (rule human_authorization.equality, simp_all)

instance runner_identity_ext :: (countable) countable
  by (rule countable_classI [of "\<lambda>r. to_nat (ri_content_hash r, ri_source_sha r, ri_dependency_lock_hash r,
        ri_contract_bundle_hash r, ri_runner_archive_hash r, ri_built_at r,
        runner_identity.more r)"])
    (rule runner_identity.equality, simp_all)

instance preparation_input_ref_ext :: (countable) countable
  by (rule countable_classI [of "\<lambda>r. to_nat (pi_input_id r, pi_relative_path r, pi_repository_id r, pi_reservation_id r,
        pi_challenge_hash r, pi_input_hash r, pi_query_hash r, pi_payload_hash r,
        pi_result_hash r, pi_source_page_hashes r, pi_pagination_complete r,
        pi_max_crew_iterations r, pi_bridge_identity r, pi_mcp_server_identity r,
        pi_tool_call_id r, pi_captured_at r, pi_observations r, pi_bridge_signature r,
        preparation_input_ref.more r)"])
    (rule preparation_input_ref.equality, simp_all)

instance branch_binding_ext :: (countable) countable
  by (rule countable_classI [of "\<lambda>r. to_nat (bb_ticket_id r, bb_branch r, bb_base_sha r, bb_repository_identity r,
        bb_remote_fingerprint r, bb_default_branch r, bb_checkpoint_lineage r,
        branch_binding.more r)"])
    (rule branch_binding.equality, simp_all)

instance finalization_evidence_ext :: (countable) countable
  by (rule countable_classI [of "\<lambda>r. to_nat (fe_prefinalization_ticket_projection r, fe_commit_sha r, fe_pushed_sha r,
        fe_linear_done_receipt r, finalization_evidence.more r)"])
    (rule finalization_evidence.equality, simp_all)

instance index_release_binding_ext :: (countable) countable
  by (rule countable_classI [of "\<lambda>r. to_nat (ib_repository_id r, ib_run_id r, ib_prior_revision r, ib_prior_hash r,
        index_release_binding.more r)"])
    (rule index_release_binding.equality, simp_all)

instance index_release_receipt_ext :: (countable) countable
  by (rule countable_classI [of "\<lambda>r. to_nat (ir_repository_id r, ir_run_id r, ir_prior_revision r, ir_prior_hash r,
        ir_terminal_generation_hash r, ir_receipt_hash r, ir_signature r,
        index_release_receipt.more r)"])
    (rule index_release_receipt.equality, simp_all)

instance pending_request_ext :: (countable) countable
  by (rule countable_classI [of "\<lambda>r. to_nat (pr_request_id r, pr_effect_id r, pr_request_hash r, pr_operation r, pr_entity r,
        pr_target r, pr_arguments r, pr_effect_hash r, pr_expected_revision r,
        pr_expected_state_hash r, pr_expected_external_revision r, pr_payload_hash r,
        pending_request.more r)"])
    (rule pending_request.equality, simp_all)

instance run_state_ext :: (countable) countable
  by (rule countable_classI [of "\<lambda>r. to_nat (run_id r, ticket_id r, repository_id r, max_crew_iterations r, branch r,
        branch_binding r, preparation_phase r, project_policy_hash r, preparation_input_ref r,
        preparation_input_hash r, ticket_snapshot_hash r, compatibility_receipt_hash r,
        compatibility_receipt_ref r, disposition r, compensated r, crew_iteration_count r,
        iteration_open r, current_stage r, requirements_package r, change_outline r,
        stage_outputs r, task_definition_manifest r, task_status_manifest r,
        product_change_manifest r, product_change_manifest_hash r, build_identity r,
        verification_result r, browser_result r, review_manifest r, review_result r,
        checkpoints r, failure_history r, effect_ledger r, human_authorizations r,
        runner_identity r, repair_runner_identity r, repair_activation_public_key r,
        repair_activation_public_key_hash r, finalization_public_key r,
        finalization_public_key_hash r, restart_receipt_hash r,
        restart_receipt_request_hash r, repair_activation_receipt r,
        repair_activation_selection_proof r, pending_external_request r,
        prefinalization_ticket_projection r, commit_sha r, pushed_sha r,
        linear_done_receipt r, finalization_eligible r, finalization r,
        finalization_evidence r, finalization_index_released r,
        finalization_index_release_binding r, finalization_index_release_receipt r,
        finalization_retry_wait_seconds r, finalization_next_eligible_at r, run_state.more r)"])
    (rule run_state.equality, simp_all)

end
