(* ===== verification/Digest_Text.thy ===== *)
theory Digest_Text
  imports Contract_Text Hashing Durable_Files
begin

section \<open>Digests pass every text filter\<close>

text \<open>
  The text filters search for patterns that look like secrets or instructions.  Every
  such pattern consumes a character that no hexadecimal digest contains, so a digest is
  never refused, and the values the program derives by hashing can always be persisted.
  \<open>must_consume\<close> is the syntactic test for that.
\<close>

primrec must_consume :: "(char \<Rightarrow> bool) \<Rightarrow> regex \<Rightarrow> bool" where
  "must_consume P Eps = False"
| "must_consume P (Cls f) = (\<forall>c. f c \<longrightarrow> P c)"
| "must_consume P (Cat r s) = (must_consume P r \<or> must_consume P s)"
| "must_consume P (Alt r s) = (must_consume P r \<and> must_consume P s)"
| "must_consume P (Star r) = False"
| "must_consume P (Opt r) = False"
| "must_consume P (Rep r m n) = (0 < m \<and> must_consume P r)"
| "must_consume P (Look r) = False"
| "must_consume P At_End = False"
| "must_consume P (Behind f) = False"
| "must_consume P Word_Boundary = False"

lemma matches_suffix: "matches r p q \<Longrightarrow> \<exists>u. snd p = u @ snd q"
  by (induction rule: matches.induct) auto

lemma must_consume_matches:
  "matches r p q \<Longrightarrow> must_consume P r \<Longrightarrow> \<exists>c \<in> set (snd p). P c"
proof (induction rule: matches.induct)
  case (Cat r p q s t)
  then show ?case using matches_suffix [OF Cat.hyps(1)] by auto
next
  case (Rep_must r p q m n t)
  then show ?case by simp
qed auto

lemma must_consume_search:
  assumes "must_consume P r" and "\<forall>c \<in> set s. \<not> P c"
  shows "\<not> search r s"
  using assms must_consume_matches by (fastforce simp: search_def search_from_iff)

lemma split_on_subsets: "\<forall>part \<in> set (split_on d s). set part \<subseteq> set s"
  by (induction d s rule: split_on.induct) (auto split: list.splits, blast+)

lemma split_on_parts: "part \<in> set (split_on d s) \<Longrightarrow> set part \<subseteq> set s"
  using split_on_subsets by blast

definition lacks :: "string \<Rightarrow> string \<Rightarrow> bool" where
  \<comment> \<open>a letter of the word, in either case, does not occur in the text\<close>
  "lacks s w \<longleftrightarrow> list_ex (\<lambda>d. d \<notin> set (lower s)) w"

definition plain :: "string \<Rightarrow> bool" where
  \<comment> \<open>too few letters for any of the patterns\<close>
  "plain s \<longleftrightarrow>
     (CHR ''J'' \<notin> set s \<or> CHR ''.'' \<notin> set s) \<and> lacks s ''sk-''
     \<and> CHR '':'' \<notin> set s \<and> CHR ''='' \<notin> set s
     \<and> (lacks s ''instructions'' \<or> lacks s ''ignore'' \<and> lacks s ''follow'' \<and> lacks s ''assistant'')
     \<and> (lacks s ''system'' \<or> lacks s ''prompt'') \<and> (lacks s ''developer'' \<or> lacks s ''message'')"

lemma lacks_consumes: "lacks s w \<Longrightarrow> must_consume (\<lambda>c. c \<notin> set s) (ilit w)"
  by (induction w) (auto simp: lacks_def lower_def)

lemma plain_consumes:
  assumes "plain s"
  shows "must_consume (\<lambda>c. c \<notin> set s) jwt_like_segment"
    "must_consume (\<lambda>c. c \<notin> set s) credential_like_segment"
    "must_consume (\<lambda>c. c \<notin> set s) instruction_like_value"
    "must_consume (\<lambda>c. c \<notin> set s) persisted_secret_assignment"
  using assms lacks_consumes [of s]
  by (auto simp: plain_def jwt_like_segment_def credential_like_segment_def instruction_like_value_def
      persisted_secret_assignment_def chars_def simp del: ilit.simps)

lemma consumed_safe:
  assumes "must_consume P jwt_like_segment" "must_consume P credential_like_segment"
    "must_consume P instruction_like_value" "must_consume P persisted_secret_assignment"
    and out: "\<forall>c \<in> set s. \<not> P c"
  shows "safe_text s" "validate_persisted_text s"
proof -
  have "\<not> search r part" if "part \<in> set (split_on CHR ''/'' s)" "must_consume P r" for part r
    using must_consume_search [OF that(2)] split_on_parts [OF that(1)] out by blast
  then show "safe_text s"
    using assms(1-3) by (auto simp: safe_text_def reject_unsafe_persisted_value_def list_ex_iff)
  moreover have "\<not> search persisted_secret_assignment s"
    by (rule must_consume_search [OF assms(4) out])
  ultimately show "validate_persisted_text s" by (simp add: validate_persisted_text_def)
qed

lemma plain_safe: "plain s \<Longrightarrow> safe_text s" "plain s \<Longrightarrow> validate_persisted_text s"
  using consumed_safe [OF plain_consumes] by blast+

lemmas plain_simps = plain_def lacks_def lower_def to_lower_char_def is_upper_def

definition outside_digest :: "char \<Rightarrow> bool" where
  "outside_digest c \<longleftrightarrow> \<not> is_lower_hex c"

lemma lower_hex_to_lower: "is_lower_hex c \<Longrightarrow> to_lower_char c = c"
  using lower_hex_fixed [of "[c]"] by (simp add: lower_def)

lemma literal_consumes:
  "list_ex (\<lambda>d. \<not> is_lower_hex d) w \<Longrightarrow> must_consume outside_digest (ilit w)"
  "list_ex (\<lambda>d. \<not> is_lower_hex d) w \<Longrightarrow> must_consume outside_digest (lit w)"
  by (induction w) (auto simp: outside_digest_def lower_hex_to_lower)

lemma filters_consume:
  "must_consume outside_digest jwt_like_segment"
  "must_consume outside_digest credential_like_segment"
  "must_consume outside_digest instruction_like_value"
  "must_consume outside_digest persisted_secret_assignment"
  by (simp_all add: jwt_like_segment_def credential_like_segment_def instruction_like_value_def
      persisted_secret_assignment_def api_key_def literal_consumes is_lower_hex_def is_digit_def
      del: lit.simps ilit.simps)

lemma lower_hex_safe:
  assumes "list_all is_lower_hex s"
  shows "safe_text s" "validate_persisted_text s"
  using consumed_safe [OF filters_consume, of s] assms
  by (simp_all add: outside_digest_def list_all_iff)

lemma digest_safe: "is_digest s \<Longrightarrow> safe_text s \<and> validate_persisted_text s"
  using lower_hex_safe by (simp add: is_digest_def)

lemma hash_is_pattern [simp]: "sha256_pattern (hash_json v)"
  using hash_json_digest [of v] by (auto simp: sha256_pattern_iff is_digest_def is_hex_def list_all_iff)

end
