(* ===== verification/Sample_World.thy ===== *)
theory Sample_World
  imports Store_Progress Supervisor_Laws Receipt_Laws Countable_State Digest_Text
begin

section \<open>A concrete environment\<close>

text \<open>
  The theorems about the store take the JSON form of a run state as a parameter and rely
  on one documented property of it: a well-formed state that is dumped and validated
  again is the same state.  This theory shows that such a form exists.  The types of a
  run state are countable, so the number of a state is a JSON value that determines it.
  It also holds the concrete run states, generations and stores that the applications
  of the theorems to concrete inputs use.
\<close>

subsection \<open>A faithful environment\<close>

definition sample_dump :: "run_state \<Rightarrow> json" where
  "sample_dump s = JObj [(''number'', JInt (int (to_nat s)))]"

definition sample_parse :: "json \<Rightarrow> run_state option" where
  "sample_parse v =
     (case v of
        JObj [(_, JInt n)] \<Rightarrow>
          (let s = from_nat (nat n) in if run_inv (\<lambda>_. True) s then Some s else None)
      | _ \<Rightarrow> None)"

definition sample_env :: store_env where
  "sample_env =
     \<lparr>se_clock = \<lparr>clock_text = (\<lambda>_. []), clock_of = (\<lambda>_. None)\<rparr>, se_sanitize = (\<lambda>t. t),
      se_dump = sample_dump, se_parse = sample_parse, se_ed25519 = (\<lambda>_ _ _. True),
      se_verifier = Some (\<lambda>_ _. True), se_authority = None\<rparr>"

lemma sample_env_fields [simp]:
  "clean_of sample_env = (\<lambda>_. True)" "se_dump sample_env = sample_dump"
  "se_parse sample_env = sample_parse" "se_verifier sample_env = Some (\<lambda>_ _. True)"
  by (simp_all add: clean_of_def sample_env_def fun_eq_iff)

lemma sample_faithful: "faithful sample_env"
  by (auto simp: faithful_def dump_ok_def sample_dump_def sample_parse_def canonical_value.simps(2)
      Let_def split: json.splits list.splits prod.splits if_splits)

lemma sample_dump_persisted [simp]: "persisted_ok (sample_dump s)"
  by (simp add: sample_dump_def) code_simp

subsection \<open>The first states of a run\<close>

definition sample_start :: run_state where
  "sample_start = new_run_state ''r1'' ''T1'' ''p1'' 2"

definition sample_opened :: run_state where
  "sample_opened = sample_start\<lparr>crew_iteration_count := 1, iteration_open := True\<rparr>"

lemmas state_check_defs =
  run_inv_parts fields_ok_def nested_ok_def digest_fields_def normalize_fixed_iff normal_fields_def
  state_checks_def binding_checks_def trust_checks_def release_checks_def iteration_checks_def
  task_checks_def checkpoint_checks_def pending_ok_def ledger_run_iff_spec [symmetric]
  all_stages_def has_preparation_binding_def authorized_iteration_limit_def key_hash_mismatch_def outputs_of_def

lemma start_inv [simp]: "run_inv (\<lambda>_. True) sample_start"
  by (simp add: state_check_defs sample_start_def new_run_state_def)

lemma opened_inv [simp]: "run_inv (\<lambda>_. True) sample_opened"
  by (simp add: state_check_defs sample_opened_def sample_start_def new_run_state_def)

definition sample_view :: "store_view \<Rightarrow> bool" where
  \<comment> \<open>a view of the sample run, without a repository binding\<close>
  "sample_view view \<longleftrightarrow>
     clean_of (sv_env view) = (\<lambda>_. True) \<and> se_dump (sv_env view) = sample_dump
     \<and> se_verifier (sv_env view) = Some (\<lambda>_ _. True)
     \<and> sv_run_id view = ''r1'' \<and> sv_binding view = Inr None"

lemma sample_identifiers: "require_identifier ''r1''" "require_identifier ''T1''" "require_identifier ''p1''"
  by code_simp+

lemma entry_sample:
  assumes "sample_view view" and "run_id s = ''r1''" "ticket_id s = ''T1''" "repository_id s = ''p1''"
  shows "no_error (entry_checks view s)"
  using assms sample_identifiers by (simp add: entry_checks_def identifiers_ok_def sample_view_def)

lemma accepted_sample:
  assumes v: "sample_view view" and s: "run_inv (\<lambda>_. True) s"
    and ids: "run_id s = ''r1''" "ticket_id s = ''T1''" "repository_id s = ''p1''"
    and f: "follow_state view prev s = Inr s"
  shows "validate_transition view prev s = Inr s"
proof -
  have "model_validate (clean_of (sv_env view)) s = Inr s" "persisted_ok (se_dump (sv_env view) s)"
    using v s by (simp_all add: sample_view_def run_inv_def)
  moreover have "checked (entry_checks view s) s = Inr s"
    using entry_sample [OF v ids] by (simp add: checked_no_error)
  ultimately show ?thesis using f by (simp add: validate_transition_def)
qed

lemma start_initial: "clean_of env = (\<lambda>_. True) \<Longrightarrow> initial_state_ok env sample_start"
proof -
  assume "clean_of env = (\<lambda>_. True)"
  moreover
  have "initial_snapshot sample_start = sample_start"
    by (simp add: initial_snapshot_def Let_def sample_start_def new_run_state_def has_preparation_binding_def)
  ultimately show ?thesis
    using start_inv by (simp add: initial_state_ok_def run_inv_def)
qed

lemma start_accepted: "sample_view view \<Longrightarrow> validate_transition view None sample_start = Inr sample_start"
  by (rule accepted_sample)
    (simp_all add: follow_state_def checked_no_error start_initial sample_view_def,
     simp_all add: sample_start_def new_run_state_def)

text \<open>A state that follows another one in the sample run, without pending requests or a
  preparation binding, when what the transition compares is unchanged.\<close>

lemma sample_follow:
  assumes v: "sample_view view" and inv: "run_inv (\<lambda>_. True) s"
    and ids: "run_id s = ''r1''" "ticket_id s = ''T1''" "repository_id s = ''p1''"
    and checks: "no_error (pending_lifecycle_checks view p s)" "no_error (immutable_checks (sg_state p) s)"
    and live: "\<not> is_terminal (sg_state p)" "no_error (live_checks view p s)"
  shows "validate_transition view (Some p) s = Inr s"
proof (rule accepted_sample [OF v inv ids])
  have "checked (pending_lifecycle_checks view p s @ immutable_checks (sg_state p) s) s = Inr s"
      "checked (live_checks view p s) s = Inr s"
    using checks live(2) by (simp_all add: checked_no_error)
  then show "follow_state view (Some p) s = Inr s"
    using live(1) by (simp add: follow_state_def is_terminal_def)
qed

lemmas transition_check_defs =
  pending_lifecycle_checks_def new_pending_checks_def immutable_checks_def is_terminal_def live_checks_def
  authorization_checks_def new_authorizations_def appended_def iteration_transition_checks_def
  task_transition_checks_def disposition_checks_def preparation_checks_def has_preparation_binding_def
  can_start_iteration_def authorized_iteration_limit_def Let_def

lemma opened_accepted:
  "sample_view view \<Longrightarrow> sg_state p = sample_start \<Longrightarrow>
     validate_transition view (Some p) sample_opened = Inr sample_opened"
  by (rule sample_follow [OF _ opened_inv])
    (simp_all add: transition_check_defs sample_opened_def sample_start_def new_run_state_def)

subsection \<open>Review, waiting, finished\<close>

definition sample_digest :: string where
  "sample_digest = replicate 64 CHR ''a''"

lemma sample_digest_ok [simp]:
  "sha256_pattern sample_digest" "lower sample_digest = sample_digest" "safe_text sample_digest"
  "validate_persisted_text sample_digest"
proof -
  have hex: "list_all is_lower_hex sample_digest"
    by (simp add: sample_digest_def list_all_iff is_lower_hex_def)
  show "safe_text sample_digest" "validate_persisted_text sample_digest"
    by (rule lower_hex_safe [OF hex])+
  show "sha256_pattern sample_digest"
    using hex by (simp add: sha256_pattern_iff list_all_iff is_hex_def) (simp add: sample_digest_def)
  show "lower sample_digest = sample_digest" by (rule lower_hex_fixed [OF hex])
qed

definition sample_generation :: "run_state \<Rightarrow> state_generation" where
  "sample_generation s = \<lparr>sg_revision = 1, sg_state_hash = sample_digest, sg_state = s\<rparr>"

definition sample_review :: run_state where
  "sample_review = sample_start\<lparr>disposition := HUMAN_REVIEW\<rparr>"

definition sample_authorization :: human_authorization where
  "sample_authorization =
     \<lparr>ha_id = ''h1'', ha_action = RESUME, ha_run_id = ''r1'', ha_challenge = [], ha_actor = [],
      ha_reason = [], ha_issued_at = 1, ha_expires_at = 9, ha_key_id = [], ha_signature = [],
      ha_additional_iterations = 1, ha_consumed_at = Some 5\<rparr>"

definition sample_resumed :: run_state where
  "sample_resumed = sample_start\<lparr>human_authorizations := [sample_authorization]\<rparr>"

lemma review_inv [simp]: "run_inv (\<lambda>_. True) sample_review"
  by (simp add: state_check_defs sample_review_def sample_start_def new_run_state_def)

lemma resumed_inv [simp]: "run_inv (\<lambda>_. True) sample_resumed"
  by (simp add: state_check_defs sample_resumed_def sample_start_def new_run_state_def
      sample_authorization_def human_authorization_valid_def consumed_resume_grant_def)

lemma review_accepted:
  "sample_view view \<Longrightarrow> sg_state p = sample_start \<Longrightarrow>
     validate_transition view (Some p) sample_review = Inr sample_review"
  by (rule sample_follow [OF _ review_inv])
    (simp_all add: transition_check_defs sample_review_def sample_start_def new_run_state_def)

lemma resumed_accepted:
  "sample_view view \<Longrightarrow> sg_state p = sample_review \<Longrightarrow>
     validate_transition view (Some p) sample_resumed = Inr sample_resumed"
  by (rule sample_follow [OF _ resumed_inv])
    (simp_all add: transition_check_defs sample_resumed_def sample_review_def sample_start_def
      new_run_state_def sample_authorization_def required_action_def is_trusted_authorization_def
      single_authorization_def sample_view_def is_prefix_def)

definition sample_uuid :: string where
  "sample_uuid = ''00000000-0000-4000-8000-000000000001''"

lemma sample_uuid_ok [simp]: "reference_id sample_uuid" "canonical_uuid sample_uuid" "safe_text sample_uuid"
proof -
  show "reference_id sample_uuid" "canonical_uuid sample_uuid" by code_simp+
  show "safe_text sample_uuid"
    by (rule plain_safe(1)) (simp add: plain_simps sample_uuid_def)
qed

definition sample_request :: pending_request where
  "sample_request =
     \<lparr>pr_request_id = sample_uuid, pr_effect_id = ''e1'', pr_request_hash = sample_digest,
      pr_operation = ''query_tickets'', pr_entity = None, pr_target = None, pr_arguments = None,
      pr_effect_hash = Some sample_digest, pr_expected_revision = Some 1,
      pr_expected_state_hash = Some sample_digest, pr_expected_external_revision = None,
      pr_payload_hash = Some sample_digest\<rparr>"

definition sample_intention :: effect_event where
  "sample_intention =
     Effect_Intention ''e1'' 1 1
       \<lparr>ip_operation = ''query_tickets'', ip_target = ''p1'', ip_request_hash = sample_digest\<rparr>"

definition sample_waiting :: run_state where
  "sample_waiting =
     sample_start\<lparr>disposition := WAITING_MCP, effect_ledger := [sample_intention],
                   pending_external_request := Some sample_request\<rparr>"

lemma sample_texts:
  "reference_id ''e1''" "reference_id ''p1''" "effect_operation ''query_tickets''"
  "safe_text ''e1''" "safe_text ''p1''" "safe_text ''query_tickets''"
proof -
  show "reference_id ''e1''" "reference_id ''p1''" "effect_operation ''query_tickets''" by code_simp+
  show "safe_text ''e1''" "safe_text ''p1''" "safe_text ''query_tickets''"
    by (rule plain_safe(1), simp add: plain_simps)+
qed

lemma waiting_inv [simp]: "run_inv (\<lambda>_. True) sample_waiting"
  by (simp add: state_check_defs sample_waiting_def sample_start_def new_run_state_def
      sample_intention_def sample_request_def effect_event_valid_def intention_payload_valid_def
      sample_texts pending_request_valid_def lower_sha256_def validate_effect_ledger_def
      ledger_step_def empty_ledger_def set_phase_def Let_def pending_checks_def)

lemma waiting_accepted:
  "sample_view view \<Longrightarrow>
     validate_transition view (Some (sample_generation sample_start)) sample_waiting = Inr sample_waiting"
  by (rule sample_follow [OF _ waiting_inv])
    (simp_all add: transition_check_defs sample_waiting_def sample_start_def new_run_state_def
      sample_generation_def sample_intention_def sample_request_def is_prefix_def)

definition sample_eligible :: run_state where
  "sample_eligible =
     sample_start\<lparr>review_manifest := Some ''m1'', review_result := Some ''v1'',
                   finalization_eligible := True\<rparr>"

definition sample_done :: run_state where
  "sample_done =
     sample_eligible\<lparr>disposition := DONE,
       finalization_evidence := Some \<lparr>fe_prefinalization_ticket_projection = ''e1'',
         fe_commit_sha = ''e1'', fe_pushed_sha = ''e1'', fe_linear_done_receipt = ''e1''\<rparr>,
       prefinalization_ticket_projection := Some ''e1'', commit_sha := Some ''e1'',
       pushed_sha := Some ''e1'', linear_done_receipt := Some ''e1'',
       finalization_index_release_binding := Some \<lparr>ib_repository_id = ''p1'', ib_run_id = ''r1'',
         ib_prior_revision = 1, ib_prior_hash = sample_digest\<rparr>\<rparr>"

lemma sample_snapshot_ids: "safe_snapshot_identifier ''p1''" "safe_snapshot_identifier ''r1''"
  by code_simp+

lemma eligible_inv [simp]: "run_inv (\<lambda>_. True) sample_eligible"
  by (simp add: state_check_defs sample_eligible_def sample_start_def new_run_state_def)

lemma done_inv [simp]: "run_inv (\<lambda>_. True) sample_done"
  by (simp add: state_check_defs sample_done_def sample_eligible_def sample_start_def new_run_state_def
      finalization_evidence_valid_def index_release_binding_valid_def sample_texts sample_snapshot_ids
      lower_sha256_def)

lemma eligible_accepted:
  "sample_view view \<Longrightarrow> sg_state p = sample_start \<Longrightarrow>
     validate_transition view (Some p) sample_eligible = Inr sample_eligible"
  by (rule sample_follow [OF _ eligible_inv])
    (simp_all add: transition_check_defs sample_eligible_def sample_start_def new_run_state_def)

lemma done_accepted:
  "sample_view view \<Longrightarrow> sg_state p = sample_eligible \<Longrightarrow>
     validate_transition view (Some p) sample_done = Inr sample_done"
  by (rule sample_follow [OF _ done_inv])
    (simp_all add: transition_check_defs sample_done_def sample_eligible_def sample_start_def
      new_run_state_def done_checks_def)

subsection \<open>A store with two generations\<close>

definition sample_store :: run_store where
  "sample_store = \<lparr>rs_env = sample_env, rs_run_id = ''r1'', rs_files = (\<lambda>_. None), rs_names = []\<rparr>"

definition sample_like :: "run_store \<Rightarrow> bool" where
  "sample_like st \<longleftrightarrow>
     rs_env st = sample_env \<and> rs_run_id st = ''r1'' \<and> load_repository_binding st = Inr None
     \<and> listing_ok st"

lemma sample_like_view: "sample_like st \<Longrightarrow> sample_view (view_of st)"
  by (simp add: sample_like_def sample_view_def view_of_def)

lemma sample_store_empty:
  "sample_like sample_store" "load_optional sample_store recovery = Inr None"
  by (simp_all add: sample_like_def sample_store_def load_repository_binding_def path_lstat_def
      listing_ok_def load_optional_def pointed_generation_def generation_records_def)

lemma pointer_binding:
  assumes "move_pointer st1 g = Inr st2"
  shows "load_repository_binding st2 = load_repository_binding st1"
proof -
  have rid: "rs_run_id st2 = rs_run_id st1" using pointer_frame(1) [OF assms] by (simp add: same_rest_def)
  have "run_binding_path (rs_run_id st1) \<noteq> current_path (rs_run_id st1)"
    using current_path_runs binding_not_run_path by metis
  then have "rs_files st2 (run_binding_path (rs_run_id st1)) = rs_files st1 (run_binding_path (rs_run_id st1))"
    by (rule pointer_frame(3) [OF assms])
  then have f: "path_lstat (rs_files st2) (run_binding_path (rs_run_id st1))
        = path_lstat (rs_files st1) (run_binding_path (rs_run_id st1))"
      "read_json_file (rs_files st2) (run_binding_path (rs_run_id st1))
        = read_json_file (rs_files st1) (run_binding_path (rs_run_id st1))"
    by (simp_all add: path_lstat_def read_json_file_def)
  show ?thesis unfolding load_repository_binding_def rid f ..
qed

lemma swap_binding:
  "compare_and_swap st r h s = Inr (g, st') \<Longrightarrow> load_repository_binding st' = load_repository_binding st"
  by (auto simp: compare_and_swap_Inr prepare_binding pointer_binding)

definition stored :: "run_store \<Rightarrow> int \<Rightarrow> string \<Rightarrow> run_state \<Rightarrow> run_store" where
  "stored st r h s = (case compare_and_swap st r h s of Inl _ \<Rightarrow> st | Inr (_, st') \<Rightarrow> st')"

lemma sample_stored:
  assumes st: "sample_like st" and l: "load_optional st False = Inr current"
    and d: "current_digest current = (r, h)" and inv: "run_inv (\<lambda>_. True) s"
    and a: "\<And>view. sample_view view \<Longrightarrow> validate_transition view current s = Inr s"
  shows "compare_and_swap st r h s = Inr (create_generation sample_env (r + 1) s, stored st r h s)"
    "sample_like (stored st r h s)"
    "load (stored st r h s) = Inr (create_generation sample_env (r + 1) s)"
proof -
  have env: "rs_env st = sample_env" "listing_ok st" using st by (simp_all add: sample_like_def)
  obtain st' where c: "compare_and_swap st r h s = Inr (create_generation sample_env (r + 1) s, st')"
    using swap_succeeds [OF env(2) l d a [OF sample_like_view [OF st]]] env(1) by auto
  then have e: "stored st r h s = st'" by (simp add: stored_def)
  have dump: "dump_ok (rs_env st) s" "run_inv (clean_of (rs_env st)) s"
    using sample_faithful inv env(1) by (simp_all add: faithful_def)
  note l = swapped_loads [OF env(2) c dump(2,1)]
  show "compare_and_swap st r h s = Inr (create_generation sample_env (r + 1) s, stored st r h s)"
    using c e by simp
  show "load (stored st r h s) = Inr (create_generation sample_env (r + 1) s)" using l(2) e by simp
  show "sample_like (stored st r h s)"
    using l(3,6) swap_binding [OF c] st e by (simp add: sample_like_def same_rest_def)
qed

definition sample_first :: state_generation where
  "sample_first = create_generation sample_env 1 sample_start"

definition sample_second :: state_generation where
  "sample_second = create_generation sample_env 2 sample_opened"

definition sample_store1 :: run_store where
  "sample_store1 = stored sample_store 0 empty_state_hash sample_start"

definition sample_store2 :: run_store where
  "sample_store2 = stored sample_store1 1 (sg_state_hash sample_first) sample_opened"

lemma first_swap:
  "compare_and_swap sample_store 0 empty_state_hash sample_start = Inr (sample_first, sample_store1)"
  "sample_like sample_store1" "load sample_store1 = Inr sample_first"
  using sample_stored [OF sample_store_empty, of 0 empty_state_hash sample_start] start_accepted
  by (simp_all add: current_digest_def sample_first_def sample_store1_def)

lemma second_swap:
  "compare_and_swap sample_store1 1 (sg_state_hash sample_first) sample_opened
     = Inr (sample_second, sample_store2)"
  "sample_like sample_store2" "load sample_store2 = Inr sample_second"
  using sample_stored [OF first_swap(2) load_current(1) [OF first_swap(3)], of 1
      "sg_state_hash sample_first" sample_opened] opened_accepted [of _ sample_first]
  by (simp_all add: current_digest_def sample_second_def sample_store2_def sample_first_def)

lemma sample_history: "stored_history sample_env [sample_first, sample_second]"
proof -
  have v: "sample_view (view_of sample_store)" by (rule sample_like_view [OF sample_store_empty(1)])
  have env: "sv_env (view_of sample_store) = sample_env" by (simp add: view_of_def sample_store_def)
  have "stored_history sample_env [sample_first]"
    unfolding sample_first_def by (rule stored_history.first [OF start_accepted [OF v] env])
  from stored_history.follow [OF this, of "view_of sample_store" sample_opened sample_opened]
  show ?thesis
    using opened_accepted [OF v, of sample_first] env by (simp add: sample_first_def sample_second_def)
qed

lemma finished_history:
  "stored_history sample_env [sample_first, create_generation sample_env 2 sample_eligible,
     create_generation sample_env 3 sample_done]"
proof -
  have v: "sample_view (view_of sample_store)" by (rule sample_like_view [OF sample_store_empty(1)])
  have env: "sv_env (view_of sample_store) = sample_env" by (simp add: view_of_def sample_store_def)
  have one: "stored_history sample_env [sample_first]"
    unfolding sample_first_def by (rule stored_history.first [OF start_accepted [OF v] env])
  have two: "stored_history sample_env [sample_first, create_generation sample_env 2 sample_eligible]"
    using stored_history.follow [OF one, of "view_of sample_store" sample_eligible sample_eligible]
      eligible_accepted [OF v, of sample_first] env by (simp add: sample_first_def)
  show ?thesis
    using stored_history.follow [OF two, of "view_of sample_store" sample_done sample_done]
      done_accepted [OF v, of "create_generation sample_env 2 sample_eligible"] env by simp
qed

end
