(* ===== verification/Store_Guarantees.thy ===== *)
theory Store_Guarantees
  imports Sample_World
begin

section \<open>Guarantees of the run state store\<close>

text \<open>
  The properties of the store and of the runs it keeps, each with an application to the
  sample run: two generations, the initial state and the one that opens an iteration.
\<close>

text \<open>C1: the store refines the history specification.  Whatever sequence of successful
  compare-and-swaps is made on an empty store, the generations they return are a history
  in which each state was accepted after the one before, the load returns the last one,
  and every generation can still be read by its revision and hash.\<close>

theorem store_implements_history:
  assumes "listing_ok st" and "load_optional st True = Inr None" and "faithful (rs_env st)"
    and "\<forall>(r, h, s) \<in> set reqs. run_inv (clean_of (rs_env st)) s" and "reqs \<noteq> []"
    and "swap_all compare_and_swap st reqs = Inr (gs, st')"
  shows "stored_history (rs_env st) gs \<and> load st' = Inr (last gs)
    \<and> map sg_state gs = map (snd \<circ> snd) reqs
    \<and> (\<forall>g \<in> set gs. load_generation st' (sg_revision g) (sg_state_hash g) = Inr g)"
proof -
  have s: "\<forall>(r, h, s) \<in> set reqs. storable_state st s"
    using assms(3,4) by (auto simp: storable_state_def faithful_def)
  have "empty_run st" using assms(1,2) by (simp add: empty_run_def)
  from swaps_history [OF this s assms(6,5)] runs.swaps_stored [OF assms(1) s assms(6,5)]
  show ?thesis by simp
qed

theorem store_implements_history_applied:
  "stored_history sample_env [sample_first, sample_second]
   \<and> load sample_store2 = Inr (last [sample_first, sample_second])
   \<and> map sg_state [sample_first, sample_second] = [sample_start, sample_opened]
   \<and> load_generation sample_store2 (sg_revision sample_first) (sg_state_hash sample_first) = Inr sample_first
   \<and> load_generation sample_store2 (sg_revision sample_second) (sg_state_hash sample_second) = Inr sample_second"
  using store_implements_history [of sample_store
      "[(0, empty_state_hash, sample_start), (1, sg_state_hash sample_first, sample_opened)]"
      "[sample_first, sample_second]" sample_store2]
    sample_store_empty sample_faithful first_swap(1) second_swap(1)
  by (simp add: sample_like_def)

text \<open>C2: in every history the identity of the run, its budget, its keys and its
  preparation binding never change, the effect ledger, the failures and the
  authorizations only grow at the end, a branch once bound stays, and neither the
  iteration count nor the authorized limit ever decreases.\<close>

theorem run_only_grows:
  assumes "stored_history env gs" "i \<le> j" "j < length gs"
  shows "same_identity (sg_state (gs ! i)) (sg_state (gs ! j))
    \<and> history_grows (sg_state (gs ! i)) (sg_state (gs ! j))
    \<and> crew_iteration_count (sg_state (gs ! i)) \<le> crew_iteration_count (sg_state (gs ! j))
    \<and> authorized_iteration_limit (sg_state (gs ! i)) \<le> authorized_iteration_limit (sg_state (gs ! j))
    \<and> sg_revision (gs ! j) = int j + 1"
proof -
  have "map sg_revision gs = [1..int (length gs)]"
    using history_invariant [OF assms(1)] by (simp add: history_inv_def)
  then have "map sg_revision gs ! j = [1..int (length gs)] ! j" by simp
  then have "sg_revision (gs ! j) = int j + 1" using assms(3) by simp
  then show ?thesis
    using history_identity [OF assms] history_only_grows [OF assms] history_limit [OF assms] by simp
qed

theorem run_only_grows_applied:
  "same_identity sample_start sample_opened \<and> history_grows sample_start sample_opened
   \<and> crew_iteration_count sample_start \<le> crew_iteration_count sample_opened
   \<and> authorized_iteration_limit sample_start \<le> authorized_iteration_limit sample_opened
   \<and> sg_revision sample_second = 2"
  using run_only_grows [OF sample_history, of 0 1]
  by (simp add: sample_first_def sample_second_def)

text \<open>C3: the budget.  In every generation of a history each authorization was accepted by
  the verifier within its validity, the iteration count is within the authorized limit,
  and as long as no authorization resumes the run the count is within the budget the run
  was created with.\<close>

theorem iteration_budget:
  assumes "stored_history env gs" and "g \<in> set gs"
  shows "(\<forall>a \<in> set (human_authorizations (sg_state g)). \<exists>action. is_trusted_authorization env a action)
    \<and> crew_iteration_count (sg_state g) \<le> authorized_iteration_limit (sg_state g)
    \<and> ((\<forall>a \<in> set (human_authorizations (sg_state g)). ha_action a \<noteq> RESUME) \<longrightarrow>
        crew_iteration_count (sg_state g) \<le> max_crew_iterations (sg_state (hd gs)))"
proof -
  have count: "crew_iteration_count (sg_state g) \<le> authorized_iteration_limit (sg_state g)"
    by (rule history_budget [OF assms])
  obtain j where j: "j < length gs" "g = gs ! j" using assms(2) by (metis in_set_conv_nth)
  then have "same_identity (sg_state (hd gs)) (sg_state g)"
    using history_identity [OF assms(1), of 0 j] by (cases gs) simp_all
  then have "max_crew_iterations (sg_state (hd gs)) = max_crew_iterations (sg_state g)"
    by (simp add: same_identity_def)
  with count show ?thesis
    using history_vouched [OF assms] limit_without_resume [of "sg_state g"] by (auto simp: vouched_def)
qed

theorem iteration_budget_applied:
  "crew_iteration_count sample_opened \<le> max_crew_iterations sample_start \<and> sg_state sample_second = sample_opened"
  using iteration_budget [OF sample_history, of sample_second]
  by (simp add: sample_first_def sample_second_def)
    (simp add: sample_opened_def sample_start_def new_run_state_def)



text \<open>C5: a run is DONE only after approval.  If a generation of a history is DONE then two
  consecutive generations before it or up to it were the completion: the earlier one was
  ACTIVE, closed, eligible, reviewed and without a pending request, the later one carries
  the finalization evidence, agrees with it, and is bound to an index release.\<close>

theorem done_was_approved:
  assumes "stored_history env gs" "i < length gs" "disposition (sg_state (gs ! i)) = DONE"
  shows "\<exists>k < i. disposition (sg_state (gs ! k)) = ACTIVE \<and> \<not> iteration_open (sg_state (gs ! k))
    \<and> finalization_eligible (sg_state (gs ! k)) \<and> review_result (sg_state (gs ! k)) \<noteq> None
    \<and> pending_external_request (sg_state (gs ! k)) = None
    \<and> no_error (done_checks (sg_state (gs ! k)) (sg_state (gs ! Suc k)))"
proof -
  obtain k where "Suc k \<le> i" "disposition (sg_state (gs ! k)) = ACTIVE"
      "no_error (done_checks (sg_state (gs ! k)) (sg_state (gs ! Suc k)))"
    using history_done [OF assms] by metis
  then show ?thesis by (intro exI [of _ k]) (simp add: done_checks_def)
qed

theorem done_was_approved_applied:
  "\<exists>k < 2. disposition ([sample_start, sample_eligible, sample_done] ! k) = ACTIVE
     \<and> finalization_eligible ([sample_start, sample_eligible, sample_done] ! k)"
proof -
  let ?gs = "[sample_first, create_generation sample_env 2 sample_eligible,
    create_generation sample_env 3 sample_done]"
  have "disposition (sg_state (?gs ! 2)) = DONE" by (simp add: sample_done_def)
  from done_was_approved [OF finished_history _ this]
  obtain k where k: "k < 2" "disposition (sg_state (?gs ! k)) = ACTIVE"
      "finalization_eligible (sg_state (?gs ! k))" by auto
  have "map sg_state ?gs ! k = sg_state (?gs ! k)" using k(1) by (intro nth_map) simp
  moreover have "map sg_state ?gs = [sample_start, sample_eligible, sample_done]"
    by (simp add: sample_first_def)
  ultimately show ?thesis using k by auto
qed

text \<open>C6: compare-and-swap is decided by two things.  On a store that the strict load
  accepts, a swap succeeds exactly when it names the current revision and hash and the
  transition to the given state is accepted.\<close>

theorem swap_exactly_when_accepted:
  assumes "listing_ok st" and "load_optional st False = Inr current" and "is_sha256 h" and "0 \<le> r"
  shows "is_ok (compare_and_swap st r h s) \<longleftrightarrow>
    current_digest current = (r, lower h) \<and> is_ok (validate_transition (view_of st) current s)"
  by (rule swap_decided [OF assms])

theorem swap_exactly_when_accepted_applied:
  "is_ok (compare_and_swap sample_store 0 empty_state_hash sample_start)
   \<and> \<not> is_ok (compare_and_swap sample_store 1 empty_state_hash sample_start)"
proof -
  have h: "is_sha256 empty_state_hash" "lower empty_state_hash = empty_state_hash"
    using hash_is_sha256 [of JNull] by (simp_all add: empty_state_hash_def)
  have l: "listing_ok sample_store" "load_optional sample_store False = Inr None"
    using sample_store_empty by (simp_all add: sample_like_def)
  have "validate_transition (view_of sample_store) None sample_start = Inr sample_start"
    by (rule start_accepted [OF sample_like_view [OF sample_store_empty(1)]])
  then show ?thesis
    using swap_exactly_when_accepted [OF l h(1), of 0 sample_start]
      swap_exactly_when_accepted [OF l h(1), of 1 sample_start] h(2)
    by (simp add: current_digest_def)
qed

text \<open>C7: what was swapped in is what is loaded.  After a successful swap the store loads
  the generation it returned, whose state is the one given and whose revision is the
  next one, and every generation that could be read before still reads the same.\<close>

theorem swap_then_load:
  assumes "listing_ok st" and "faithful (rs_env st)" and "run_inv (clean_of (rs_env st)) s"
    and "compare_and_swap st r h s = Inr (g, st')"
  shows "load st' = Inr g \<and> sg_state g = s \<and> sg_revision g = r + 1 \<and> listing_ok st'
    \<and> (\<forall>r' h' g'. load_generation st r' h' = Inr g' \<longrightarrow> load_generation st' r' h' = Inr g')"
  using swapped_loads [OF assms(1,4,3)] generations_stay [OF assms(4)] assms(2,3)
  by (simp add: faithful_def)

theorem swap_then_load_applied:
  "load sample_store2 = Inr sample_second \<and> sg_state sample_second = sample_opened
   \<and> sg_revision sample_second = 1 + 1 \<and> listing_ok sample_store2
   \<and> load_generation sample_store2 (sg_revision sample_first) (sg_state_hash sample_first) = Inr sample_first"
  using swap_then_load [OF _ _ _ second_swap(1)] first_swap(2) sample_faithful
    current_loads [OF load_current(2) [OF first_swap(3)]]
  by (simp add: sample_like_def)

text \<open>C8: of two writers that saw the same generation at most one succeeds: after the first
  swap every swap that expects the same revision and hash is a conflict, whatever state
  it brings.\<close>

theorem one_writer_wins:
  assumes "listing_ok st" and "faithful (rs_env st)" and "run_inv (clean_of (rs_env st)) s"
    and "compare_and_swap st r h s = Inr (g, st')"
  shows "compare_and_swap st' r h s' = Inl (Store Cas_Conflict)"
  using lost_race [OF assms(1,4,3)] assms(2,3) by (simp add: faithful_def)

theorem one_writer_wins_applied:
  "compare_and_swap sample_store1 0 empty_state_hash sample_opened = Inl (Store Cas_Conflict)"
  using one_writer_wins [OF _ _ _ first_swap(1)] sample_store_empty(1) sample_faithful
  by (simp add: sample_like_def sample_store_def)

text \<open>C9: a crash between the generation file and the pointer.  The store it leaves is
  refused by the strict load, the recovering load still returns the generation before,
  repeating the interrupted swap finishes it with the same generation, and no other state
  can take its revision.\<close>

theorem crash_between_files:
  assumes "listing_ok st" and "faithful (rs_env st)" and "run_inv (clean_of (rs_env st)) s"
    and "cas_prepare st r h s = Inr (g, st1)"
  shows "load_optional st1 False = Inl State_Corrupt
    \<and> load_optional st1 True = load_optional st True
    \<and> cas_prepare st1 r h s = Inr (g, st1)
    \<and> (\<forall>s' g' st2. cas_prepare st1 r h s' = Inr (g', st2) \<longrightarrow>
         sg_revision g' = sg_revision g \<and> sg_state_hash g' = sg_state_hash g)"
proof -
  have d: "dump_ok (rs_env st) s" using assms(2,3) by (simp add: faithful_def)
  show ?thesis
    using crashed_loads [OF assms(1,4,3) d] crash_recovery [OF assms(1,4,3) d]
      crash_exclusive [OF assms(1,4,3) d] by blast
qed

theorem crash_between_files_applied:
  "\<exists>st1. cas_prepare sample_store1 1 (sg_state_hash sample_first) sample_opened = Inr (sample_second, st1)
     \<and> load_optional st1 False = Inl State_Corrupt
     \<and> load_optional st1 True = Inr (Some sample_first)"
proof -
  obtain st1 where p: "cas_prepare sample_store1 1 (sg_state_hash sample_first) sample_opened
      = Inr (sample_second, st1)"
    using second_swap(1) by (auto simp: compare_and_swap_Inr)
  then show ?thesis
    using crash_between_files [OF _ _ _ p] first_swap(2) sample_faithful
      load_current(2) [OF first_swap(3)]
    by (auto simp: sample_like_def)
qed

end
