(* ===== verification/Supervisor_Guarantees.thy ===== *)
theory Supervisor_Guarantees
  imports Sample_World
begin

section \<open>Guarantees of the supervisor\<close>

subsection \<open>A sample pipeline\<close>

text \<open>
  The sample run with an executor that always succeeds: the first step runs the analyst
  and stores its checkpoint.
\<close>

definition sample_execution :: stage_execution where
  "sample_execution =
     \<lparr>se_output_manifest_hash = sample_digest, se_validator = ''v'', se_validator_version = ''1'',
      se_validation_receipt_hash = sample_digest, se_evidence = [], se_review = None\<rparr>"

definition sample_id :: string where
  "sample_id = replicate 32 CHR ''b''"

definition sample_deps :: supervisor_deps where
  "sample_deps =
     \<lparr>sd_expectations = (\<lambda>_. \<lparr>ce_contract_hash = sample_digest, ce_input_hashes = []\<rparr>),
      sd_execute = (\<lambda>_ _. Executed sample_execution), sd_draws = (sample_id, sample_id, sample_id)\<rparr>"

definition sample_world :: supervisor_world where
  "sample_world = \<lparr>sw_store = sample_store1, sw_registry = (\<lambda>_. None)\<rparr>"

definition sample_checkpoint :: checkpoint where
  "sample_checkpoint =
     \<lparr>ck_id = Some sample_id, ck_stage = ANALYST, ck_contract_hash = sample_digest, ck_input_hashes = [],
      ck_output_manifest_hash = sample_digest, ck_validator = ''v'', ck_validator_version = ''1'',
      ck_validation_receipt_hash = sample_digest, ck_evidence = []\<rparr>"

definition sample_checked :: run_state where
  "sample_checked = with_checkpoint ANALYST sample_checkpoint sample_opened"

definition sample_handed :: run_state where
  "sample_handed =
     sample_checked\<lparr>disposition := HUMAN_REVIEW, iteration_open := False,
                     failure_history := [supervisor_failure INVALID_ROUTING]\<rparr>"

lemma sample_id_ok: "checkpoint_id_pattern sample_id" "validate_persisted_text sample_id"
proof -
  have hex: "list_all is_lower_hex sample_id" by (simp add: sample_id_def list_all_iff is_lower_hex_def)
  show "validate_persisted_text sample_id" by (rule lower_hex_safe [OF hex])
  show "checkpoint_id_pattern sample_id"
    using hex by (simp add: checkpoint_id_pattern_iff) (simp add: sample_id_def)
qed

lemma checkpoint_keys_safe:
  "validate_persisted_text ''checkpoint_id''" "validate_persisted_text ''stage''"
  "validate_persisted_text ''contract_hash''" "validate_persisted_text ''input_hashes''"
  "validate_persisted_text ''output_manifest_hash''" "validate_persisted_text ''validator''"
  "validate_persisted_text ''validator_version''" "validate_persisted_text ''validation_receipt_hash''"
  "validate_persisted_text ''evidence''" "validate_persisted_text ''analyst''"
  "validate_persisted_text ''v''" "validate_persisted_text ''1''" "safe_text ''v''" "safe_text ''1''"
  by (rule plain_safe(2) plain_safe(1), simp add: plain_simps)+

lemma sample_checkpoint_valid: "checkpoint_valid sample_checkpoint" "persisted_ok (checkpoint_json sample_checkpoint)"
proof -
  have "safe_identifier ''v''" "reference_id ''1''" by code_simp+
  then show "checkpoint_valid sample_checkpoint"
    by (simp add: checkpoint_valid_def sample_checkpoint_def sample_id_ok checkpoint_keys_safe
        digest_map_valid_def)
  show "persisted_ok (checkpoint_json sample_checkpoint)"
    by (simp add: checkpoint_json_def sample_checkpoint_def json_opt_def digest_map_json_def
        checkpoint_keys_safe sample_id_ok)
qed

definition sample_registry :: file_tree where
  "sample_registry = (\<lambda>_. None)(registry_path sample_id \<mapsto> Regular (canonical_json_bytes
     (registry_record sample_id (checkpoint_json sample_checkpoint))))"

lemma sample_issued:
  "issue (\<lambda>_. None) (candidate_checkpoint ANALYST (sd_expectations sample_deps ANALYST) sample_execution)
     (sd_draws sample_deps) = Inr (sample_checkpoint, sample_registry)"
proof -
  have c: "(candidate_checkpoint ANALYST (sd_expectations sample_deps ANALYST) sample_execution)\<lparr>ck_id := Some sample_id\<rparr>
      = sample_checkpoint"
    by (simp add: candidate_checkpoint_def sample_deps_def sample_execution_def sample_checkpoint_def)
  have "sd_draws sample_deps = (sample_id, sample_id, sample_id)" by (simp add: sample_deps_def)
  then show ?thesis
    by (simp add: issue_def c Let_def sample_checkpoint_valid checkpoint_payload_Inr write_new_json_def
        path_lstat_def sample_registry_def)
qed

lemma checked_inv [simp]: "run_inv (\<lambda>_. True) sample_checked"
  using sample_checkpoint_valid(1)
  by (simp add: state_check_defs sample_checked_def with_checkpoint_def sample_opened_def sample_start_def
      new_run_state_def)
    (simp add: sample_checkpoint_def)

lemma handed_inv [simp]: "run_inv (\<lambda>_. True) sample_handed"
  using settle_inv [OF checked_inv, of "[supervisor_failure INVALID_ROUTING]" HUMAN_REVIEW]
  by (simp add: sample_handed_def settle_def)

lemma checked_accepted:
  "sample_view view \<Longrightarrow> sg_state p = sample_opened \<Longrightarrow>
     validate_transition view (Some p) sample_checked = Inr sample_checked"
  by (rule sample_follow [OF _ checked_inv])
    (simp_all add: transition_check_defs sample_checked_def with_checkpoint_def sample_opened_def
      sample_start_def new_run_state_def)

lemma handed_accepted:
  "sample_view view \<Longrightarrow> sg_state p = sample_checked \<Longrightarrow>
     validate_transition view (Some p) sample_handed = Inr sample_handed"
  by (rule sample_follow [OF _ handed_inv])
    (simp_all add: transition_check_defs sample_handed_def sample_checked_def with_checkpoint_def
      sample_opened_def sample_start_def new_run_state_def is_prefix_def)


subsection \<open>Two steps of the sample pipeline\<close>

definition sample_third :: state_generation where
  "sample_third = create_generation sample_env 3 sample_checked"

definition sample_store3 :: run_store where
  "sample_store3 = stored sample_store2 2 (sg_state_hash sample_second) sample_checked"

definition sample_fourth :: state_generation where
  "sample_fourth = create_generation sample_env 4 sample_handed"

definition sample_store4 :: run_store where
  "sample_store4 = stored sample_store3 3 (sg_state_hash sample_third) sample_handed"

lemma third_swap:
  "compare_and_swap sample_store2 2 (sg_state_hash sample_second) sample_checked
     = Inr (sample_third, sample_store3)"
  "sample_like sample_store3" "load sample_store3 = Inr sample_third"
  using sample_stored [OF second_swap(2) load_current(1) [OF second_swap(3)], of 2
      "sg_state_hash sample_second" sample_checked] checked_accepted [of _ sample_second]
  by (simp_all add: current_digest_def sample_third_def sample_store3_def sample_second_def)

lemma fourth_swap:
  "compare_and_swap sample_store3 3 (sg_state_hash sample_third) sample_handed
     = Inr (sample_fourth, sample_store4)"
  "sample_like sample_store4" "load sample_store4 = Inr sample_fourth"
  using sample_stored [OF third_swap(2) load_current(1) [OF third_swap(3)], of 3
      "sg_state_hash sample_third" sample_handed] handed_accepted [of _ sample_third]
  by (simp_all add: current_digest_def sample_fourth_def sample_store4_def sample_third_def)

lemma sample_clean [simp]: "sample_like (sw_store w) \<Longrightarrow> world_clean w = (\<lambda>_. True)"
  by (simp add: world_clean_def sample_like_def)

lemma sample_world_ok: "sample_like (sw_store w) \<Longrightarrow> world_ok w"
  using sample_faithful by (simp add: world_ok_def sample_like_def)

lemma sample_ids [simp]:
  "run_id sample_start = ''r1''" "run_id sample_opened = ''r1''" "run_id sample_checked = ''r1''"
  "run_id sample_handed = ''r1''"
  by (simp_all add: sample_handed_def sample_checked_def with_checkpoint_def sample_opened_def
      sample_start_def new_run_state_def)

definition sample_result :: step_result where
  "sample_result =
     \<lparr>sr_kind = STEP_CONTINUE, sr_run_id = ''r1'', sr_state_revision = 3,
      sr_state_hash = sg_state_hash sample_third, sr_request_id = None, sr_stage = Some ANALYST,
      sr_action = None, sr_failure = None, sr_evidence = []\<rparr>"

lemma digest_pattern: "sha256_pattern (state_hash_of env s)"
  using hash_is_sha256(1) by (simp add: state_hash_of_def is_sha256_def)

lemma sample_run_reference: "reference_id ''r1''" "safe_text ''r1''"
  by (code_simp, rule plain_safe(1), simp add: plain_simps)

lemma sample_result_made: "make_result STEP_CONTINUE sample_third (Some ANALYST) None [] = Inr sample_result"
  by (simp add: make_result_Inr sample_result_def step_result_valid_def step_shape_ok_def
      sample_third_def digest_pattern sample_run_reference)

lemma sample_executes:
  "execute_and_checkpoint sample_deps (sample_world\<lparr>sw_store := sample_store2\<rparr>) sample_second ANALYST
   = (Inr sample_result, \<lparr>sw_store = sample_store3, sw_registry = sample_registry\<rparr>)"
proof -
  have "model_copy (\<lambda>_. True) (with_checkpoint ANALYST sample_checkpoint) sample_opened = Inr sample_checked"
    using checked_inv by (simp add: model_copy_def run_inv_def sample_checked_def)
  moreover have "sample_like sample_store2" by (rule second_swap(2))
  moreover have "sg_state sample_second = sample_opened" "sg_revision sample_second = 2"
    by (simp_all add: sample_second_def)
  moreover have "current_stage sample_opened = ANALYST" "iteration_open sample_opened"
    by (simp_all add: sample_opened_def sample_start_def new_run_state_def)
  moreover have "sd_execute sample_deps ANALYST sample_opened = Executed sample_execution"
    by (simp add: sample_deps_def)
  moreover have "se_evidence sample_execution = []" by (simp add: sample_execution_def)
  ultimately show ?thesis
    using sample_issued sample_result_made third_swap(1)
    by (simp add: execute_and_checkpoint_def store_checkpoint_def sample_world_def Let_def store_swap_def)
qed

lemma start_next:
  "next_stage (is_reusable fs) (expected_by sample_deps) sample_start = Inr (Some ANALYST)"
  using unsettled_without_checkpoint [of sample_start ANALYST "is_reusable fs" "expected_by sample_deps"]
  by (simp add: next_stage_def all_stages_def sample_start_def new_run_state_def)

lemma sample_first_step:
  "supervisor_step sample_deps sample_world ''r1'' 1 (sg_state_hash sample_first)
   = (Inr sample_result, \<lparr>sw_store = sample_store3, sw_registry = sample_registry\<rparr>)"
proof -
  have s: "sw_store sample_world = sample_store1" "sw_registry sample_world = (\<lambda>_. None)"
    by (simp_all add: sample_world_def)
  have g: "sg_state sample_first = sample_start" "sg_revision sample_first = 1"
      "lower (sg_state_hash sample_first) = sg_state_hash sample_first"
    by (simp_all add: sample_first_def state_hash_of_def)
  have st: "disposition sample_start = ACTIVE" "\<not> iteration_open sample_start" "can_start_iteration sample_start"
    by (simp_all add: sample_start_def new_run_state_def can_start_iteration_def authorized_iteration_limit_def)
  have b: "begin_iteration (\<lambda>_. True) sample_start = Inr sample_opened"
  proof -
    have "sample_start\<lparr>crew_iteration_count := crew_iteration_count sample_start + 1, iteration_open := True\<rparr>
        = sample_opened"
      by (simp add: sample_opened_def sample_start_def new_run_state_def)
    then show ?thesis using opened_inv st(3) by (simp add: begin_iteration_def model_copy_def run_inv_def)
  qed
  have rid: "rs_run_id sample_store1 = ''r1''" using first_swap(2) by (simp add: sample_like_def)
  have o: "open_iteration sample_world sample_first = (Inr sample_second, sample_world\<lparr>sw_store := sample_store2\<rparr>)"
    using b second_swap(1) first_swap(2) g s by (simp add: open_iteration_def store_swap_def)
  show ?thesis
    unfolding supervisor_step_def s rid first_swap(3)
    using g st start_next o sample_executes by simp
qed

lemma checked_fields:
  "disposition sample_checked = ACTIVE" "current_stage sample_checked = ANALYST"
  "iteration_open sample_checked" "checkpoints sample_checked ARCHITECT_OUTLINE = None"
  "failure_history sample_checked = []"
  by (simp_all add: sample_checked_def with_checkpoint_def sample_opened_def sample_start_def new_run_state_def)

lemma checked_next:
  "next_stage (is_reusable sample_registry) (expected_by sample_deps) sample_checked
   = Inr (Some ARCHITECT_OUTLINE)"
proof -
  have "normalize sample_checked = sample_checked" using checked_inv by (simp add: run_inv_parts)
  moreover note issued_recorded [OF sample_issued]
  ultimately have "stage_settled (is_reusable sample_registry) (expected_by sample_deps) sample_checked ANALYST
      = Inr True"
    using settled_checkpoint [of sample_registry sample_checkpoint ANALYST "sd_expectations sample_deps ANALYST"
        "expected_by sample_deps" sample_opened]
    by (simp flip: sample_checked_def)
  moreover have "stage_settled (is_reusable sample_registry) (expected_by sample_deps) sample_checked ARCHITECT_OUTLINE
      = Inr False"
    by (rule unsettled_without_checkpoint) (rule checked_fields)
  ultimately show ?thesis by (simp add: next_stage_def all_stages_def checked_fields)
qed

definition sample_review_result :: step_result where
  "sample_review_result =
     \<lparr>sr_kind = STEP_HUMAN_REVIEW, sr_run_id = ''r1'', sr_state_revision = 4,
      sr_state_hash = sg_state_hash sample_fourth, sr_request_id = None, sr_stage = None,
      sr_action = None, sr_failure = Some (supervisor_failure INVALID_ROUTING), sr_evidence = []\<rparr>"

lemma sample_second_step:
  "supervisor_step sample_deps \<lparr>sw_store = sample_store3, sw_registry = sample_registry\<rparr>
     ''r1'' 3 (sg_state_hash sample_third)
   = (Inr sample_review_result, \<lparr>sw_store = sample_store4, sw_registry = sample_registry\<rparr>)"
proof -
  let ?w = "\<lparr>sw_store = sample_store3, sw_registry = sample_registry\<rparr>"
  let ?f = "supervisor_failure INVALID_ROUTING"
  have g: "sg_state sample_third = sample_checked" "sg_revision sample_third = 3"
      "lower (sg_state_hash sample_third) = sg_state_hash sample_third"
    by (simp_all add: sample_third_def state_hash_of_def)
  have rid: "rs_run_id sample_store3 = ''r1''" using third_swap(2) by (simp add: sample_like_def)
  have route: "route_failure sample_checked ?f
      = \<lparr>rd_disposition = HUMAN_REVIEW, rd_invalidation_roots = [], rd_next_stage = None,
         rd_failure = ?f, rd_original_failure = None\<rparr>"
    by (simp add: route_failure_def checked_fields supervisor_failure_def repair_sources_def
        human_review_orchestration_sources_def human_review_route_def)
  have "model_copy (\<lambda>_. True) (\<lambda>t. t\<lparr>disposition := HUMAN_REVIEW, iteration_open := False,
      failure_history := [?f]\<rparr>) sample_checked = Inr sample_handed"
    using handed_inv by (simp add: model_copy_def run_inv_def sample_handed_def)
  then have "apply_route (\<lambda>_. True) sample_checked (route_failure sample_checked ?f) = Inr sample_handed"
    by (simp add: apply_route_def route checked_fields)
  moreover have "failure_result sample_fourth ?f = Inr sample_review_result"
    by (simp add: failure_result_def make_result_Inr sample_review_result_def step_result_valid_def
        step_shape_ok_def sample_fourth_def digest_pattern sample_run_reference failure_kind_def)
      (simp add: sample_handed_def supervisor_failure_def)
  moreover have "failure_history (sg_state sample_fourth) = [?f]" by (simp add: sample_fourth_def sample_handed_def)
  ultimately have "route_and_store ?w sample_third ?f
      = (Inr sample_review_result, \<lparr>sw_store = sample_store4, sw_registry = sample_registry\<rparr>)"
    using fourth_swap(1) third_swap(2) g by (simp add: route_and_store_def store_swap_def)
  then show ?thesis
    using g checked_next
    by (simp add: supervisor_step_def rid third_swap(3) checked_fields execute_and_checkpoint_def)
qed

subsection \<open>The guarantees\<close>

text \<open>C10: no run passes its first stage.  Once a step has stored a checkpoint for a stage the
  state stays positioned on that stage, and every later step of the same supervisor, on
  the store this step left, finds another stage to run, refuses it as invalid routing and
  hands the run to human review.  The position is only set to the stage that was just
  checkpointed; nothing moves it to the next one.\<close>

theorem second_step_handed_over:
  assumes "world_ok w" and "supervisor_step deps w rid n h = (Inr r, w')" and "sr_kind r = STEP_CONTINUE"
    and "sd_expectations deps' = sd_expectations deps"
    and "supervisor_step deps' w' rid' n' h' = (Inr r', w'')"
  shows "sr_kind r' = STEP_HUMAN_REVIEW
    \<and> (\<exists>p. load (sw_store w'') = Inr p \<and> disposition (sg_state p) = HUMAN_REVIEW)"
proof -
  obtain p st where p: "load (sw_store w') = Inr p" "current_stage (sg_state p) = st"
      "iteration_open (sg_state p)" "disposition (sg_state p) = ACTIVE"
      "stage_settled (is_reusable (sw_registry w')) (expected_by deps) (sg_state p) st = Inr True"
      "world_ok w'"
    using step_continue [OF assms(2,3,1)] by metis
  from settled_position_review [OF assms(5) p(6,1,4)] p(2,3,5) assms(4) show ?thesis by simp
qed

theorem second_step_handed_over_applied:
  "sr_kind sample_review_result = STEP_HUMAN_REVIEW
   \<and> (\<exists>p. load sample_store4 = Inr p \<and> disposition (sg_state p) = HUMAN_REVIEW)"
proof -
  have "world_ok sample_world"
    by (rule sample_world_ok) (simp add: sample_world_def first_swap(2))
  from second_step_handed_over [OF this sample_first_step _ refl sample_second_step]
  show ?thesis by (simp add: sample_result_def)
qed

text \<open>C11: the supervisor changes a run only through the store.  Whatever a step returns,
  result or exception, the store it leaves is the result of at most two compare-and-swaps
  of well-formed states on the store it found.\<close>

theorem step_only_swaps: "advances 2 w (snd (supervisor_step deps w rid n h))"
  by (rule step_advances [of deps w rid n h "fst (supervisor_step deps w rid n h)"]) simp

text \<open>What a continuing step did.  The run was active and positioned on the first stage
  that is not settled, which is not the reviewer; the step stored a generation whose
  revision and hash it returns, in which the iteration is open and the stage is settled:
  its checkpoint is recorded by the authority and meets what the supervisor expects.\<close>

theorem continue_checkpoints_stage:
  assumes "world_ok w" and "supervisor_step deps w rid n h = (Inr r, w')" and "sr_kind r = STEP_CONTINUE"
  shows "\<exists>g p st. load (sw_store w) = Inr g \<and> disposition (sg_state g) = ACTIVE
    \<and> current_stage (sg_state g) = st \<and> st \<noteq> REVIEWER
    \<and> next_stage (is_reusable (sw_registry w)) (\<lambda>st. Some (sd_expectations deps st)) (sg_state g) = Inr (Some st)
    \<and> sr_stage r = Some st
    \<and> load (sw_store w') = Inr p \<and> sr_state_revision r = sg_revision p \<and> sr_state_hash r = sg_state_hash p
    \<and> iteration_open (sg_state p)
    \<and> stage_settled (is_reusable (sw_registry w')) (\<lambda>st. Some (sd_expectations deps st)) (sg_state p) st = Inr True"
  by (rule step_continue [OF assms(2,3,1)]) (intro exI conjI; assumption)

end
