(* ===== verification/Sample_Receipts.thy ===== *)
theory Sample_Receipts
  imports Sample_World
begin

section \<open>A signed receipt\<close>

text \<open>
  A receipt that a receipt authority signed and stored, and the sample run resumed by it.
  The signature and the content hash are the terms that define them, so nothing here
  depends on the value of a digest.
\<close>

definition sample_clock :: clock where
  "sample_clock = \<lparr>clock_text = (\<lambda>_. ''t''), clock_of = (\<lambda>_. Some 1)\<rparr>"

definition sample_authority :: receipt_authority where
  "sample_authority =
     \<lparr>ra_bridge_identity = ''b1'', ra_mcp_server_identity = ''m1'', ra_signing_key = replicate 16 7\<rparr>"

definition sample_path :: string where
  "sample_path = ''trusted-mcp/receipts/'' @ sample_uuid @ ''.json''"

definition unsigned_receipt :: trusted_receipt where
  "unsigned_receipt =
     \<lparr>tr_receipt_id = sample_uuid, tr_request_id = sample_uuid, tr_effect_id = ''e1'',
      tr_effect_hash = sample_digest, tr_request_hash = sample_digest,
      tr_operation = ''query_tickets'', tr_target = ''p1'', tr_run_id = ''r1'',
      tr_expected_revision = 1, tr_expected_state_hash = sample_digest,
      tr_expected_external_revision = None, tr_payload_hash = sample_digest,
      tr_result_hash = sample_digest, tr_outcome = SUCCESS, tr_external_revision = None,
      tr_observed_state_id = None, tr_bridge_identity = ''b1'', tr_mcp_server_identity = ''m1'',
      tr_tool_call_id = ''c1'', tr_observed_at = 1, tr_observations = [],
      tr_relative_path = sample_path, tr_bridge_signature = None\<rparr>"

definition sample_receipt :: trusted_receipt where
  "sample_receipt =
     unsigned_receipt\<lparr>tr_bridge_signature :=
       Some (hmac_sha256 (ra_signing_key sample_authority)
         (encode_ascii (canonical_json_bytes (JObj (receipt_signed_payload sample_clock unsigned_receipt)))))\<rparr>"

definition sample_evidence :: evidence_ref where
  "sample_evidence =
     \<lparr>ev_relative_path = sample_path, ev_sha256 = receipt_content_hash sample_clock sample_receipt,
      ev_media_type = ''application/json'', ev_creator = ''trusted-mcp-bridge''\<rparr>"

definition sample_files :: file_tree where
  "sample_files = (\<lambda>_. None)(sample_path \<mapsto>
     Regular (canonical_json_bytes (trusted_receipt_json sample_clock sample_receipt)))"

lemma hmac_digest: "is_digest (hmac_sha256 key msg)"
  by (simp add: hmac_sha256_def Let_def hexdigest_digest)

lemma sample_receipt_texts:
  "reference_id ''c1''" "reference_id ''b1''" "reference_id ''m1''" "reference_id ''r1''"
  "evidence_path sample_path" "starts_with ''trusted-mcp/receipts/'' sample_path"
  "evidence_media_type ''application/json''" "safe_identifier ''trusted-mcp-bridge''"
  by code_simp+

lemma sample_receipt_safe:
  "safe_text ''c1''" "safe_text ''b1''" "safe_text ''m1''" "safe_text ''r1''"
  "safe_text sample_path" "safe_text ''trusted-mcp-bridge''"
  by (rule plain_safe(1), simp add: plain_simps sample_path_def sample_uuid_def)+

lemma sample_receipt_path:
  "receipt_file_ok sample_path" "last (path_parts sample_path) = sample_uuid @ ''.json''"
  by code_simp+

lemma sample_receipt_valid: "trusted_receipt_valid sample_receipt"
  using hmac_digest
  by (simp add: trusted_receipt_valid_def sample_receipt_def unsigned_receipt_def sample_receipt_texts sample_receipt_safe
      sample_texts lower_sha256_def exact_class_iff is_digest_def)

lemma sample_receipt_signed: "signature_matches sample_clock sample_authority sample_receipt"
proof -
  have "receipt_signed_payload sample_clock sample_receipt = receipt_signed_payload sample_clock unsigned_receipt"
    by (simp add: receipt_signed_payload_def sample_receipt_def)
  then show ?thesis
    unfolding signature_matches_def by (simp add: sample_receipt_def unsigned_receipt_def sample_authority_def)
qed

lemma sample_receipt_loads:
  assumes "fs sample_path = sample_files sample_path"
  shows "load_verified_receipt sample_clock (\<lambda>t. t) fs sample_authority sample_evidence = Some sample_receipt"
proof -
  have path: "tr_relative_path sample_receipt = sample_path" "tr_receipt_id sample_receipt = sample_uuid"
      "tr_observed_at sample_receipt = 1"
    by (simp_all add: sample_receipt_def unsigned_receipt_def)
  show ?thesis
    using stored_receipt_verifies [OF sample_receipt_valid sample_receipt_signed, of "\<lambda>t. t" fs]
      sample_receipt_path assms
    by (simp add: path sample_evidence_def sample_clock_def sample_files_def)
qed

subsection \<open>The waiting run answered\<close>

definition receipt_env :: store_env where
  "receipt_env = sample_env\<lparr>se_clock := sample_clock, se_authority := Some sample_authority\<rparr>"

definition receipt_view :: store_view where
  "receipt_view =
     \<lparr>sv_env = receipt_env, sv_files = sample_files, sv_run_id = ''r1'', sv_binding = Inr None,
      sv_load = (\<lambda>_ _. None)\<rparr>"

lemma receipt_view_sample: "sample_view receipt_view"
  by (simp add: sample_view_def receipt_view_def receipt_env_def clean_of_def sample_env_def fun_eq_iff)

definition sample_answer :: "effect_event list" where
  "sample_answer =
     [Effect_Invocation ''e1'' 2 1 \<lparr>iv_wait_seconds = 0\<rparr>,
      Effect_Observation ''e1'' 3 1
        \<lparr>op_outcome = SUCCESS, op_external_revision = None, op_evidence_refs = [sample_evidence]\<rparr>,
      Effect_Reconciliation ''e1'' 4 1
        \<lparr>rp_outcome = SUCCESS, rp_evidence_refs = [sample_evidence],
         rp_receipt_hash = Some (receipt_content_hash sample_clock sample_receipt)\<rparr>]"

definition sample_answered :: run_state where
  "sample_answered =
     sample_waiting\<lparr>disposition := ACTIVE, pending_external_request := None,
                     effect_ledger := sample_intention # sample_answer\<rparr>"

lemma content_hash_ok: "sha256_pattern (receipt_content_hash ck r)" "lower (receipt_content_hash ck r) = receipt_content_hash ck r"
  using hash_is_sha256 by (simp_all add: receipt_content_hash_def is_sha256_def)

lemma sample_evidence_valid: "evidence_ref_valid sample_evidence"
  by (simp add: evidence_ref_valid_def sample_evidence_def sample_receipt_texts sample_receipt_safe
      content_hash_ok)

lemma answered_inv: "run_inv (\<lambda>_. True) sample_answered"
  by (simp add: state_check_defs sample_answered_def sample_waiting_def sample_start_def new_run_state_def
      sample_intention_def sample_answer_def effect_event_valid_def intention_payload_valid_def
      observation_payload_valid_def reconciliation_payload_valid_def sample_texts sample_evidence_valid
      content_hash_ok ledger_step_def empty_ledger_def set_phase_def Let_def)

lemma answered_authenticated:
  "authenticated_reconciliation receipt_view sample_waiting sample_answered = Some sample_receipt"
proof -
  have l: "load_receipt receipt_view sample_evidence = Some sample_receipt"
    using sample_receipt_loads [of sample_files]
    by (simp add: load_receipt_def receipt_view_def receipt_env_def sample_env_def)
  have c: "se_clock (sv_env receipt_view) = sample_clock"
    by (simp add: receipt_view_def receipt_env_def)
  show ?thesis
    using l
    by (simp add: authenticated_reconciliation_def sample_answered_def sample_waiting_def
        appended_def sample_answer_def sample_request_def sample_intention_def trusted_evidence_def
        sample_evidence_def receipt_answers_def c validate_effect_ledger_def
        sample_start_def new_run_state_def ledger_step_def empty_ledger_def set_phase_def Let_def)
      (simp add: sample_receipt_def unsigned_receipt_def)
qed

lemma answered_accepted:
  "sg_state p = sample_waiting \<Longrightarrow>
     validate_transition receipt_view (Some p) sample_answered = Inr sample_answered"
proof (rule sample_follow [OF receipt_view_sample answered_inv])
  assume p: "sg_state p = sample_waiting"
  show "no_error (pending_lifecycle_checks receipt_view p sample_answered)"
  proof -
    have "pending_external_request sample_waiting = Some sample_request"
        "pending_external_request sample_answered = None"
      by (simp_all add: sample_waiting_def sample_answered_def)
    then show ?thesis by (simp add: pending_lifecycle_checks_def p answered_authenticated Let_def)
  qed
  show "no_error (live_checks receipt_view p sample_answered)"
    by (simp add: p transition_check_defs waiting_resume_ok_def phase_of_def validate_effect_ledger_def
        sample_answered_def sample_waiting_def sample_start_def new_run_state_def sample_answer_def
        sample_intention_def sample_request_def ledger_step_def empty_ledger_def set_phase_def)
qed (simp_all add: transition_check_defs sample_answered_def sample_waiting_def sample_start_def
      new_run_state_def sample_answer_def is_prefix_def)

subsection \<open>A finished run stays, a run with tasks\<close>

lemma escalated_inv: "run_inv (\<lambda>_. True) (escalated sample_done sample_done)"
  by (simp add: escalated_def state_check_defs sample_done_def sample_eligible_def sample_start_def
      new_run_state_def finalization_evidence_valid_def index_release_binding_valid_def sample_texts
      sample_snapshot_ids lower_sha256_def)

lemma done_stays:
  assumes v: "sample_view view" and p: "sg_state p = sample_done"
  shows "validate_transition view (Some p) sample_done = Inr sample_done"
proof (rule accepted_sample [OF v done_inv])
  have f: "pending_external_request sample_done = None" "disposition sample_done = DONE"
      "effect_ledger sample_done = []" "finalization_index_release_receipt sample_done = None"
    by (simp_all add: sample_done_def sample_eligible_def sample_start_def new_run_state_def)
  have pre: "no_error (pending_lifecycle_checks view p sample_done @ immutable_checks (sg_state p) sample_done)"
    by (simp add: p pending_lifecycle_checks_def new_pending_checks_def f immutable_checks_def Let_def)
  have marker: "exact_release_marker view p sample_done = Inr False"
    by (simp add: exact_release_marker_def p f Let_def split: option.splits)
  have copy: "model_copy (clean_of (sv_env view)) (\<lambda>t. escalated t sample_done) sample_done
      = Inl e \<Longrightarrow> False" for e
    using v escalated_inv by (simp add: model_copy_def sample_view_def run_inv_def)
  have "terminal_transition view p sample_done = Inr sample_done"
    using copy by (auto simp: terminal_transition_def p f marker Let_def split: sum.splits)
  then show "follow_state view (Some p) sample_done = Inr sample_done"
    using pre by (simp add: follow_state_def p f checked_def no_error_def)
qed (simp_all add: sample_done_def sample_eligible_def sample_start_def new_run_state_def)

definition sample_definitions :: task_definition_manifest where
  "sample_definitions =
     (let tasks = [\<lparr>td_task_id = ''1'', td_text = ''x''\<rparr>]
      in \<lparr>tdm_definition_hash = canonical_task_definition_hash tasks, tdm_tasks = tasks\<rparr>)"

definition sample_statuses :: task_status_manifest where
  "sample_statuses =
     \<lparr>tsm_definition_hash = tdm_definition_hash sample_definitions,
      tsm_statuses = [\<lparr>ts_task_id = ''1'', ts_status = CHECKED\<rparr>]\<rparr>"

definition sample_tasks :: run_state where
  "sample_tasks =
     sample_start\<lparr>task_definition_manifest := Some sample_definitions,
                   task_status_manifest := Some sample_statuses\<rparr>"

definition sample_tasks_opened :: run_state where
  "sample_tasks_opened = sample_tasks\<lparr>crew_iteration_count := 1, iteration_open := True\<rparr>"

lemma sample_definitions_valid:
  "task_definition_manifest_valid sample_definitions" "task_status_manifest_valid sample_statuses"
  using hash_is_sha256(1)
  by (simp_all add: task_definition_manifest_valid_def task_status_manifest_valid_def
      sample_definitions_def sample_statuses_def canonical_task_definition_hash_def is_sha256_def Let_def no_dups_def)

lemma tasks_inv [simp]: "run_inv (\<lambda>_. True) sample_tasks"
  using sample_definitions_valid
  by (simp add: state_check_defs sample_tasks_def sample_start_def new_run_state_def)
    (simp add: sample_statuses_def sample_definitions_def Let_def)

lemma tasks_opened_inv [simp]: "run_inv (\<lambda>_. True) sample_tasks_opened"
  using sample_definitions_valid
  by (simp add: state_check_defs sample_tasks_opened_def sample_tasks_def sample_start_def new_run_state_def)
    (simp add: sample_statuses_def sample_definitions_def Let_def)

lemma tasks_opened_accepted:
  "sample_view view \<Longrightarrow> sg_state p = sample_tasks \<Longrightarrow>
     validate_transition view (Some p) sample_tasks_opened = Inr sample_tasks_opened"
  by (rule sample_follow [OF _ tasks_opened_inv])
    (simp_all add: transition_check_defs sample_tasks_opened_def sample_tasks_def sample_start_def
      new_run_state_def list_ex_iff)

end
