(* ===== verification/Transition_Guarantees.thy ===== *)
theory Transition_Guarantees
  imports Sample_Receipts
begin

section \<open>Guarantees of one transition\<close>

text \<open>
  What the store demands before a run may take one of the steps that matter: leaving a
  wait, leaving human review, opening an iteration, finishing, changing its tasks.  A
  step is an accepted transition from a well-formed state; each property is applied to
  a concrete accepted step.
\<close>

lemma sample_step:
  assumes "sample_view view" and "run_inv (\<lambda>_. True) (sg_state p)"
    and "validate_transition view (Some p) t = Inr t"
  shows "step_ok view p t"
  using assms by (auto simp: step_ok_def accepts_def sample_view_def)

abbreviation plain_view :: store_view where
  "plain_view \<equiv> view_of sample_store"

lemma plain_view: "sample_view plain_view"
  by (rule sample_like_view [OF sample_store_empty(1)])

lemma sample_generation_fields [simp]:
  "sg_state (sample_generation s) = s" "sg_revision (sample_generation s) = 1"
  "sg_state_hash (sample_generation s) = sample_digest"
  by (simp_all add: sample_generation_def)

text \<open>C13: a run that waits for an external answer becomes active again only through a
  trusted receipt.  The pending request is cleared, the ledger ends with its invocation,
  observation and reconciliation, and the evidence they carry names a receipt that the
  configured authority verified and that answers this request of this run: same effect,
  operation, request, expected revision and state hash.\<close>

theorem waiting_resumes_by_receipt:
  assumes "step_ok view p t" and "disposition (sg_state p) = WAITING_MCP" and "disposition t = ACTIVE"
  shows "\<exists>pending a e r. pending_external_request (sg_state p) = Some pending
    \<and> pending_external_request t = None
    \<and> se_authority (sv_env view) = Some a
    \<and> load_verified_receipt (se_clock (sv_env view)) (se_sanitize (sv_env view)) (sv_files view) a e = Some r
    \<and> tr_run_id r = run_id t \<and> tr_effect_id r = pr_effect_id pending
    \<and> tr_operation r = pr_operation pending \<and> tr_request_id r = pr_request_id pending
    \<and> Some (tr_expected_revision r) = pr_expected_revision pending
    \<and> Some (tr_expected_state_hash r) = pr_expected_state_hash pending
    \<and> map kind_of (appended (effect_ledger (sg_state p)) (effect_ledger t))
        = [K_Invocation, K_Observation, K_Reconciliation]
    \<and> phase_of t (pr_effect_id pending) = Some Phase_Reconciled
    \<and> human_authorizations t = human_authorizations (sg_state p)"
proof -
  obtain pending r where w: "pending_external_request (sg_state p) = Some pending"
      "pending_external_request t = None" "authenticated_reconciliation view (sg_state p) t = Some r"
      "phase_of t (pr_effect_id pending) = Some Phase_Reconciled"
      "human_authorizations t = human_authorizations (sg_state p)"
    using step_out_of_waiting [OF assms] by metis
  show ?thesis
    by (rule authenticated_receipt [OF w(3)]) (use w in \<open>intro exI conjI; simp\<close>)
qed

theorem waiting_resumes_by_receipt_applied:
  "\<exists>e r. load_verified_receipt sample_clock (\<lambda>t. t) sample_files sample_authority e = Some r
     \<and> tr_run_id r = ''r1'' \<and> tr_effect_id r = ''e1''"
proof -
  let ?p = "sample_generation sample_waiting"
  have "step_ok receipt_view ?p sample_answered"
    by (rule sample_step [OF receipt_view_sample]) (simp_all add: answered_accepted)
  from waiting_resumes_by_receipt [OF this] show ?thesis
    by (auto simp: sample_answered_def sample_waiting_def sample_start_def new_run_state_def
        sample_request_def receipt_view_def receipt_env_def sample_env_def)
qed

text \<open>C14: a run leaves human review only by an authorization.  The next state is active or
  abandoned, exactly one authorization was appended, and the verifier accepted it, within
  its validity, for the action that the change of disposition is.\<close>

theorem review_exit_authorized:
  assumes "step_ok view p t" and "disposition (sg_state p) = HUMAN_REVIEW"
    and "disposition t \<noteq> HUMAN_REVIEW"
  shows "disposition t \<in> {ACTIVE, ABANDONED}
    \<and> (\<exists>a. human_authorizations t = human_authorizations (sg_state p) @ [a]
         \<and> is_trusted_authorization (sv_env view) a
             (if disposition t = ACTIVE then RESUME else ABANDON))"
  using step_out_of_review [OF assms] by (metis insertCI)

theorem review_exit_authorized_applied:
  "disposition sample_resumed \<in> {ACTIVE, ABANDONED}
   \<and> (\<exists>a. human_authorizations sample_resumed = human_authorizations sample_review @ [a]
        \<and> is_trusted_authorization sample_env a
            (if disposition sample_resumed = ACTIVE then RESUME else ABANDON))"
proof -
  let ?p = "sample_generation sample_review"
  have "step_ok plain_view ?p sample_resumed"
    by (rule sample_step [OF plain_view]) (simp_all add: resumed_accepted [OF plain_view])
  from review_exit_authorized [OF this]
  have "disposition sample_resumed \<in> {ACTIVE, ABANDONED}
     \<and> (\<exists>a. human_authorizations sample_resumed = human_authorizations sample_review @ [a]
          \<and> is_trusted_authorization (sv_env plain_view) a
              (if disposition sample_resumed = ACTIVE then RESUME else ABANDON))"
    by (simp add: sample_review_def) (simp add: sample_resumed_def sample_start_def new_run_state_def)
  then show ?thesis by (simp add: view_of_def sample_store_def)
qed

text \<open>C15: iterations are counted one at a time.  A step either keeps the count and opens
  nothing that was closed, or increments it by one, and then the state before could start
  an iteration: active, closed, not eligible and below the authorized limit; the count
  never passes that limit, and the limit itself moves only by a trusted authorization to
  resume from human review.\<close>

theorem iterations_counted:
  assumes "step_ok view p t"
  shows "(crew_iteration_count t = crew_iteration_count (sg_state p)
            \<and> (iteration_open t \<longrightarrow> iteration_open (sg_state p))
          \<or> crew_iteration_count t = crew_iteration_count (sg_state p) + 1
            \<and> can_start_iteration (sg_state p) \<and> iteration_open t)
    \<and> crew_iteration_count t \<le> authorized_iteration_limit t
    \<and> authorized_iteration_limit (sg_state p) \<le> authorized_iteration_limit t
    \<and> (authorized_iteration_limit t \<noteq> authorized_iteration_limit (sg_state p) \<longrightarrow>
         disposition (sg_state p) = HUMAN_REVIEW
         \<and> (\<exists>a. human_authorizations t = human_authorizations (sg_state p) @ [a]
              \<and> is_trusted_authorization (sv_env view) a RESUME))"
  using step_iteration [OF assms] step_count_bounded [OF assms] step_limit [OF assms] by blast

theorem iterations_counted_applied:
  "(crew_iteration_count sample_opened = crew_iteration_count sample_start
      \<and> (iteration_open sample_opened \<longrightarrow> iteration_open sample_start)
    \<or> crew_iteration_count sample_opened = crew_iteration_count sample_start + 1
      \<and> can_start_iteration sample_start \<and> iteration_open sample_opened)"
proof -
  have "step_ok plain_view (sample_generation sample_start) sample_opened"
    by (rule sample_step [OF plain_view]) (simp_all add: opened_accepted [OF plain_view])
  from iterations_counted [OF this] show ?thesis by simp
qed



text \<open>A new external request is bound to the generation it was made in.  When a step
  adds a pending request the run waits, the request expects exactly the revision and the
  hash of the previous generation, and the only event appended to the ledger is the
  intention of its effect, for the same operation.\<close>

theorem request_bound_to_predecessor:
  assumes "step_ok view p t" and "pending_external_request (sg_state p) = None"
    and "pending_external_request t = Some pending"
  shows "disposition t = WAITING_MCP
    \<and> pr_expected_revision pending = Some (sg_revision p)
    \<and> pr_expected_state_hash pending = Some (sg_state_hash p)
    \<and> (\<exists>n ts payload. effect_ledger t =
         effect_ledger (sg_state p) @ [Effect_Intention (pr_effect_id pending) n ts payload]
         \<and> ip_operation payload = pr_operation pending)"
  using step_new_pending [OF assms] by blast

text \<open>A checked task stays checked.  While the task definitions are unchanged a step
  keeps the status manifest and every task that was checked is checked afterwards; when
  the definitions change, the status manifest, the checkpoints of programmer and reviewer
  and everything derived from them are gone.\<close>

theorem tasks_stay_checked:
  assumes "step_ok view p t"
  shows "(if task_definition_manifest (sg_state p) = task_definition_manifest t
    then \<forall>old. task_status_manifest (sg_state p) = Some old \<longrightarrow>
           (\<exists>new. task_status_manifest t = Some new
              \<and> (\<forall>tid \<in> set (map ts_task_id (tsm_statuses old)).
                   status_of old tid = Some CHECKED \<longrightarrow> status_of new tid = Some CHECKED))
    else task_status_manifest t = None \<and> dependent_state_clear t
         \<and> checkpoints t PROGRAMMER = None \<and> checkpoints t REVIEWER = None)"
  using step_tasks [OF assms] step_task_change [OF assms] by (auto; metis)

end
