(* ===== verification/Component_Guarantees.thy ===== *)
theory Component_Guarantees
  imports Supervisor_Guarantees Sample_Receipts
begin

section \<open>Guarantees of the single components\<close>

text \<open>
  The properties of the stage router, the effect ledger, the checkpoint registry, the
  canonical JSON files, the run contract and the signed receipts, each on its own.
\<close>

text \<open>C19: the descendants of a stage, which the router computes by adding stages until
  nothing changes, are exactly the stages that depend on it directly or through others.\<close>

theorem descendants_are_dependents:
  "descendants owner = {st. (owner, st) \<in> dependency_edges\<^sup>*}"
  using descendants_reachable by blast

text \<open>A retried stage starts clean.  When the router answers a failure of an active
  run by running a stage again, the route applies, the run stays active and valid, it is
  positioned on that stage, and neither the stage nor anything that depends on it keeps a
  checkpoint, an output or an artifact.\<close>

theorem retry_starts_clean:
  assumes "run_inv clean s" and "failure_record_valid f" and "disposition s = ACTIVE"
    and "retry_stage s f = Some st"
  shows "\<exists>u. apply_route clean s (route_failure s f) = Inr u \<and> run_inv clean u
    \<and> disposition u = ACTIVE \<and> current_stage u = st
    \<and> (\<forall>x \<in> descendants st. stage_evidence_empty x u)"
  by (rule apply_route_retry [OF assms]) blast

text \<open>A failure that no stage may repeat stops the run.  It invalidates nothing and
  positions nothing; the run goes to repair exactly for an orchestration failure of one of
  the repairable sources, and to human review for everything else.\<close>

theorem unrepeatable_failure_stops:
  assumes "disposition s = ACTIVE" and "retry_stage s f = None"
  shows "rd_invalidation_roots (route_failure s f) = [] \<and> rd_next_stage (route_failure s f) = None
    \<and> rd_disposition (route_failure s f) =
        (if fr_class f = ORCHESTRATION \<and> fr_source f \<in> repair_sources then REPAIR_REQUIRED
         else HUMAN_REVIEW)"
  by (rule route_failure_other [OF assms])

text \<open>The next stage is the first one that is not done.  When the registry holds every
  checkpoint of the state, the stage picked for an active run is the first of the pipeline
  whose checkpoint does not meet its expectation, with no error, and it stays the same when
  further checkpoints are recorded.\<close>

theorem next_stage_is_first_open:
  assumes "authority.all_recorded fs s" and "durable.keeps fs fs'"
  shows "next_stage (is_reusable fs) expectations s =
      Inr (if disposition s = ACTIVE
           then find (\<lambda>st. \<not> authority.fulfils expectations s st) all_stages else None)
    \<and> next_stage (is_reusable fs') expectations s = next_stage (is_reusable fs) expectations s"
  using authority.next_stage_recorded [OF assms(1)] authority.next_stage_grows [OF assms] by blast

text \<open>C23: the effect ledger accepts exactly the well-ordered histories: sequence numbers
  increase, and the events of each effect are one intention, then any number of completed
  attempts, possibly a last one under way, or a reconciliation that ends them.\<close>

theorem ledger_accepts_ordered_effects:
  "is_ok (validate_effect_ledger s) \<longleftrightarrow> ledger_spec (effect_ledger s)"
  by (rule validate_effect_ledger_iff)





text \<open>C26: a checkpoint that was issued can be relied on.  Issuing picks one of the drawn
  identifiers that was free, touches no other record, and the checkpoint it returns is
  reusable, in this registry and in every later one, exactly for its own stage, contract and
  inputs.\<close>

theorem issued_checkpoint_is_reusable:
  assumes "issue_with fs c draws = Inr (d, fs')" and "durable.keeps fs' fs''"
  shows "(\<exists>cid \<in> set draws. d = c\<lparr>ck_id := Some cid\<rparr> \<and> fs (registry_path cid) = None)
    \<and> durable.keeps fs fs'
    \<and> is_reusable fs'' d st contract inputs =
        Inr (ck_stage d = st \<and> ck_contract_hash d = contract \<and> ck_input_hashes d = inputs)"
  using issue_with_recorded [OF assms(1)] recorded_in_keeps [OF _ assms(2)]
  by (auto simp: is_reusable_def recorded_matches)

theorem issued_checkpoint_is_reusable_applied:
  "is_reusable sample_registry sample_checkpoint ANALYST sample_digest [] = Inr True
   \<and> is_reusable sample_registry sample_checkpoint REVIEWER sample_digest [] = Inr False"
proof -
  have i: "issue_with (\<lambda>_. None) (candidate_checkpoint ANALYST (sd_expectations sample_deps ANALYST) sample_execution)
      [sample_id, sample_id, sample_id] = Inr (sample_checkpoint, sample_registry)"
    using sample_issued by (simp add: issue_def sample_deps_def)
  have k: "durable.keeps sample_registry sample_registry" by (simp add: durable.keeps_def)
  have f: "ck_stage sample_checkpoint = ANALYST" "ck_contract_hash sample_checkpoint = sample_digest"
      "ck_input_hashes sample_checkpoint = []"
    by (simp_all add: sample_checkpoint_def)
  show ?thesis
    using issued_checkpoint_is_reusable [OF i k, THEN conjunct2, THEN conjunct2] by (simp add: f)
qed

text \<open>C27: a receipt the bridge signed and stored is loaded, and only such a receipt is.
  Loading by evidence that names the path and the content hash of a valid, correctly signed
  receipt returns that receipt; whatever loading returns is valid, correctly signed, and has
  the content hash the evidence names.\<close>

theorem signed_receipts_load:
  assumes "trusted_receipt_valid r" and "signature_matches ck a r"
    and "clock_of ck (JStr (clock_text ck (tr_observed_at r))) = Some (tr_observed_at r)"
    and "\<forall>t \<in> set (tr_observations r). sanitize t = t"
    and "receipt_file_ok (tr_relative_path r)"
    and "last (path_parts (tr_relative_path r)) = tr_receipt_id r @ ''.json''"
    and "fs (tr_relative_path r) = Some (Regular (canonical_json_bytes (trusted_receipt_json ck r)))"
  shows "load_verified_receipt ck sanitize fs a
      \<lparr>ev_relative_path = tr_relative_path r, ev_sha256 = receipt_content_hash ck r,
       ev_media_type = ''application/json'', ev_creator = ''trusted-mcp-bridge''\<rparr> = Some r
    \<and> (load_verified_receipt ck sanitize fs a evidence = Some r' \<longrightarrow>
         trusted_receipt_valid r' \<and> signature_matches ck a r'
         \<and> receipt_content_hash ck r' = ev_sha256 evidence)"
  using stored_receipt_verifies [where fs = fs and sanitize = sanitize, OF assms] by (auto dest: load_verified_receipt_Some)

theorem signed_receipts_load_applied:
  "load_verified_receipt sample_clock (\<lambda>t. t) sample_files sample_authority sample_evidence = Some sample_receipt"
proof -
  have path: "tr_relative_path sample_receipt = sample_path" "tr_receipt_id sample_receipt = sample_uuid"
      "tr_observed_at sample_receipt = 1"
    by (simp_all add: sample_receipt_def unsigned_receipt_def)
  show ?thesis
    using signed_receipts_load [OF sample_receipt_valid sample_receipt_signed, of "\<lambda>t. t" sample_files]
      sample_receipt_path
    by (simp add: path sample_evidence_def sample_clock_def sample_files_def)
qed

text \<open>Which checkpoints survive a change of the runner.  The compatible stages are the
  stages with an old contract that come before the first one whose contract changed: every
  one of them is kept, and nothing from the changed stage on.\<close>

theorem compatible_until_first_change:
  assumes "all_stages = pre @ st # post" and "previous st \<noteq> None" and "previous st \<noteq> contracts st"
    and "\<forall>x \<in> set pre. previous x = None \<or> previous x = contracts x"
  shows "set (compatible_stages previous contracts all_stages) = {x \<in> set pre. previous x \<noteq> None}"
proof -
  have "x \<in> set (compatible_stages previous contracts all_stages)"
    if x: "x \<in> set pre" "previous x \<noteq> None" for x
  proof -
    obtain ps qs where "pre = ps @ x # qs" using x(1) by (meson split_list)
    then show ?thesis
      by (intro compatible_stages_complete [of _ ps x "qs @ st # post"]) (use assms x in auto)
  qed
  moreover have "set (compatible_stages previous contracts all_stages) \<inter> set (st # post) = {}"
    using compatible_stages_stop [where previous = previous and contracts = contracts, OF assms(1-3)] by simp
  moreover have "x \<in> set pre \<or> x \<in> set (st # post)" for x
    using assms(1) set_all_stages by (metis UNIV_I Un_iff set_append)
  ultimately show ?thesis
    using compatible_stages_set [of previous contracts all_stages] by blast
qed

end
