(* ===== verification/Url.thy ===== *)
theory Url
  imports Prelude "HOL-Library.Monad_Syntax"
begin

section \<open>URLs as the standard library splits them\<close>

text \<open>
  \<^verbatim>\<open>urllib.parse.urlsplit\<close> and \<^verbatim>\<open>urlunsplit\<close> of Python 3.12 on ASCII text, as far as
  \<^verbatim>\<open>src/auto_code/contracts.py\<close> and \<^verbatim>\<open>src/auto_code/project_config.py\<close> use them.
  \<open>None\<close> is the \<^verbatim>\<open>ValueError\<close> of a malformed URL.  Which texts between brackets are
  IP addresses is decided by the \<^verbatim>\<open>ipaddress\<close> module, the argument \<open>bracketed\<close>.
\<close>

subsection \<open>Cutting texts\<close>

fun find_char :: "char \<Rightarrow> string \<Rightarrow> nat option" where
  "find_char d [] = None"
| "find_char d (c # cs) = (if c = d then Some 0 else map_option Suc (find_char d cs))"

definition cut_at :: "char \<Rightarrow> string \<Rightarrow> (string \<times> string) option" where
  \<comment> \<open>\<^verbatim>\<open>partition\<close>: the texts around the first occurrence\<close>
  "cut_at d s = map_option (\<lambda>i. (take i s, drop (Suc i) s)) (find_char d s)"

definition upto_char :: "char \<Rightarrow> string \<Rightarrow> string" where
  "upto_char d s = (case cut_at d s of None \<Rightarrow> s | Some (a, b) \<Rightarrow> a)"

definition after_char :: "char \<Rightarrow> string \<Rightarrow> string" where
  "after_char d s = (case cut_at d s of None \<Rightarrow> [] | Some (a, b) \<Rightarrow> b)"

definition cut_last :: "char \<Rightarrow> string \<Rightarrow> (string \<times> string) option" where
  \<comment> \<open>\<^verbatim>\<open>rpartition\<close>\<close>
  "cut_last d s = map_option (\<lambda>(a, b). (rev b, rev a)) (cut_at d (rev s))"

lemma cut_at_Some: "cut_at d s = Some (a, b) \<longleftrightarrow> s = a @ d # b \<and> d \<notin> set a"
proof (induction s arbitrary: a b)
  case Nil
  then show ?case by (simp add: cut_at_def)
next
  case (Cons c cs)
  show ?case
  proof (cases "c = d")
    case True
    then show ?thesis by (cases a) (auto simp: cut_at_def)
  next
    case False
    then have "cut_at d (c # cs) = map_option (\<lambda>(a, b). (c # a, b)) (cut_at d cs)"
      by (cases "find_char d cs") (simp_all add: cut_at_def)
    with Cons.IH False show ?thesis by (cases a) (auto simp: split: prod.splits)
  qed
qed

lemma cut_at_None: "cut_at d s = None \<longleftrightarrow> d \<notin> set s"
  using cut_at_Some [of d s] by (metis in_set_conv_decomp_first not_None_eq prod.exhaust)

lemma upto_char_less: "d \<notin> set (upto_char d s)"
  using cut_at_Some [of d s] cut_at_None [of d s]
  by (auto simp: upto_char_def split: option.splits)

lemma cut_last_Some: "cut_last d s = Some (a, b) \<Longrightarrow> s = a @ d # b \<and> d \<notin> set b"
  by (auto simp: cut_last_def cut_at_Some rev_swap)

lemma cut_last_None: "cut_last d s = None \<longleftrightarrow> d \<notin> set s"
  by (simp add: cut_last_def cut_at_None)

subsection \<open>Splitting\<close>

record split_url =
  su_scheme :: string
  su_netloc :: string
  su_path :: string
  su_query :: string
  su_fragment :: string

definition scheme_char :: "char \<Rightarrow> bool" where
  "scheme_char c \<longleftrightarrow> is_alnum c \<or> c \<in> set ''+-.''"

definition control_or_space :: "char \<Rightarrow> bool" where
  "control_or_space c \<longleftrightarrow> (of_char c :: nat) \<le> 32"

definition split_scheme :: "string \<Rightarrow> string \<times> string" where
  "split_scheme url =
     (case cut_at CHR '':'' url of
        Some (a, b) \<Rightarrow>
          if a \<noteq> [] \<and> (is_upper (hd a) \<or> is_lower (hd a)) \<and> list_all scheme_char a
          then (lower a, b) else ([], url)
      | None \<Rightarrow> ([], url))"

definition split_netloc :: "(string \<Rightarrow> bool) \<Rightarrow> string \<Rightarrow> (string \<times> string) option" where
  "split_netloc bracketed url =
     (if \<not> starts_with ''//'' url then Some ([], url)
      else
        let rest = drop 2 url;
            inside = (\<lambda>c. c \<notin> set ''/?#'');
            netloc = takeWhile inside rest
        in if (CHR ''['' \<in> set netloc) \<noteq> (CHR '']'' \<in> set netloc) then None
           else if CHR ''['' \<in> set netloc \<and> \<not> bracketed (upto_char CHR '']'' (after_char CHR ''['' netloc))
           then None
           else Some (netloc, dropWhile inside rest))"

definition urlsplit :: "(string \<Rightarrow> bool) \<Rightarrow> string \<Rightarrow> split_url option" where
  "urlsplit bracketed text =
     (let url = filter (\<lambda>c. (of_char c :: nat) \<notin> {9, 10, 13}) (dropWhile control_or_space text);
          (scheme, rest) = split_scheme url
      in do {
           (netloc, rest) \<leftarrow> split_netloc bracketed rest;
           let fragment = after_char CHR ''#'' rest;
           let rest = upto_char CHR ''#'' rest;
           Some \<lparr>su_scheme = scheme, su_netloc = netloc, su_path = upto_char CHR ''?'' rest,
                 su_query = after_char CHR ''?'' rest, su_fragment = fragment\<rparr>
         })"

definition host_info :: "string \<Rightarrow> string" where
  \<comment> \<open>what follows the user information\<close>
  "host_info netloc = (case cut_last CHR ''@'' netloc of None \<Rightarrow> netloc | Some (a, b) \<Rightarrow> b)"

definition host_and_port :: "string \<Rightarrow> string \<times> string" where
  \<comment> \<open>\<^verbatim>\<open>_hostinfo\<close>; an empty text is \<^verbatim>\<open>None\<close>\<close>
  "host_and_port netloc =
     (let info = host_info netloc in
      case cut_at CHR ''['' info of
        Some (a, inside) \<Rightarrow>
          (upto_char CHR '']'' inside, after_char CHR '':'' (after_char CHR '']'' inside))
      | None \<Rightarrow> (upto_char CHR '':'' info, after_char CHR '':'' info))"

definition url_hostname :: "string \<Rightarrow> string" where
  \<comment> \<open>lower case up to a zone of an IPv6 address\<close>
  "url_hostname netloc =
     (let host = fst (host_and_port netloc) in
      case cut_at CHR ''%'' host of
        None \<Rightarrow> lower host
      | Some (a, zone) \<Rightarrow> lower a @ CHR ''%'' # zone)"

definition url_username :: "string \<Rightarrow> string option" where
  "url_username netloc = map_option (\<lambda>(a, b). upto_char CHR '':'' a) (cut_last CHR ''@'' netloc)"

definition url_password :: "string \<Rightarrow> string option" where
  "url_password netloc =
     (case cut_last CHR ''@'' netloc of
        None \<Rightarrow> None | Some (a, b) \<Rightarrow> map_option snd (cut_at CHR '':'' a))"

fun decimal :: "nat \<Rightarrow> string \<Rightarrow> nat" where
  "decimal n [] = n"
| "decimal n (c # cs) = decimal (10 * n + (of_char c - 48)) cs"

definition url_port :: "string \<Rightarrow> nat option option" where
  \<comment> \<open>\<^verbatim>\<open>port\<close>: \<open>None\<close> is the exception, \<open>Some None\<close> no port\<close>
  "url_port netloc =
     (let port = snd (host_and_port netloc) in
      if port = [] then Some None
      else if \<not> list_all is_digit port then None
      else if decimal 0 port > 65535 then None else Some (Some (decimal 0 port)))"

definition netloc_schemes :: "string list" where
  "netloc_schemes =
     [[], ''ftp'', ''http'', ''gopher'', ''nntp'', ''telnet'', ''imap'', ''wais'', ''file'', ''mms'',
      ''https'', ''shttp'', ''snews'', ''prospero'', ''rtsp'', ''rtsps'', ''rtspu'', ''rsync'', ''svn'',
      ''svn+ssh'', ''sftp'', ''nfs'', ''git'', ''git+ssh'', ''ws'', ''wss'', ''itms-services'']"

definition urlunsplit :: "string \<Rightarrow> string \<Rightarrow> string \<Rightarrow> string" where
  \<comment> \<open>with no query and no fragment\<close>
  "urlunsplit scheme netloc path =
     (let url =
        (if netloc \<noteq> [] then
           ''//'' @ netloc @ (if path \<noteq> [] \<and> hd path \<noteq> CHR ''/'' then CHR ''/'' # path else path)
         else if starts_with ''//'' path then ''//'' @ path
         else if scheme \<noteq> [] \<and> scheme \<in> set netloc_schemes \<and> (path = [] \<or> hd path = CHR ''/'')
         then ''//'' @ path
         else path)
      in if scheme = [] then url else scheme @ CHR '':'' # url)"

end
