(* ===== verification/Project_Policy.thy ===== *)
theory Project_Policy
  imports Activation Url Units
begin

section \<open>Project Policy\<close>

text \<open>
  \<^verbatim>\<open>src/auto_code/project_config.py\<close>: the policy a project declares, read from a YAML
  text.  YAML itself is third-party code: \<open>parse\<close> is the strict loader, which returns the
  value of a text, \<open>None\<close> for a text it refuses or a value JSON cannot express (every field
  refuses those).  All failures are the one \<^verbatim>\<open>ProjectConfigError\<close>, so validation returns an
  option.
\<close>

subsection \<open>Fields of a mapping\<close>

definition json_text :: "json \<Rightarrow> string option" where
  "json_text v = (case v of JStr s \<Rightarrow> Some s | _ \<Rightarrow> None)"

definition json_int :: "json \<Rightarrow> int option" where
  "json_int v = (case v of JInt i \<Rightarrow> Some i | _ \<Rightarrow> None)"

definition json_bool :: "json \<Rightarrow> bool option" where
  "json_bool v = (case v of JBool b \<Rightarrow> Some b | _ \<Rightarrow> None)"

definition nullable :: "(json \<Rightarrow> 'a option) \<Rightarrow> json \<Rightarrow> 'a option option" where
  "nullable f v = (case v of JNull \<Rightarrow> Some None | _ \<Rightarrow> map_option Some (f v))"

definition json_list :: "(json \<Rightarrow> 'a option) \<Rightarrow> json \<Rightarrow> 'a list option" where
  "json_list f v = (case v of JList vs \<Rightarrow> those (map f vs) | _ \<Rightarrow> None)"

definition accept :: "('a \<Rightarrow> bool) \<Rightarrow> 'a \<Rightarrow> 'a option" where
  "accept P x = (if P x then Some x else None)"

definition fields_of :: "string list \<Rightarrow> string list \<Rightarrow> json \<Rightarrow> (string \<times> json) list option" where
  \<comment> \<open>a mapping with every required and no unknown key\<close>
  "fields_of required optional v =
     (case v of
        JObj kvs \<Rightarrow>
          if set required \<subseteq> set (map fst kvs) \<and> known_fields kvs (required @ optional)
          then Some kvs else None
      | _ \<Rightarrow> None)"

definition field :: "(string \<times> json) list \<Rightarrow> string \<Rightarrow> (json \<Rightarrow> 'a option) \<Rightarrow> 'a option" where
  "field kvs k f = Option.bind (map_of kvs k) f"

definition field_or :: "(string \<times> json) list \<Rightarrow> string \<Rightarrow> 'a \<Rightarrow> (json \<Rightarrow> 'a option) \<Rightarrow> 'a option" where
  "field_or kvs k d f = (case map_of kvs k of None \<Rightarrow> Some d | Some v \<Rightarrow> f v)"

subsection \<open>Launcher-owned fields\<close>

definition forbidden_launcher_keys :: "string list" where
  "forbidden_launcher_keys =
     [''active_run_index'', ''authoritative_state_root'', ''authorization_key'', ''authorization_keys'',
      ''authorization_public_key'', ''authorization_public_keys'', ''bridge_signing_key'',
      ''launcher_config'', ''receipt_signing_key'', ''receipt_trust_root'', ''registry_location'',
      ''repair_runner_identity'', ''runner_identity'', ''state_root'']"

definition normalize_launcher_key :: "string \<Rightarrow> string" where
  "normalize_launcher_key key = map (\<lambda>c. if c = CHR ''-'' then CHR ''_'' else c) (lower key)"

fun launcher_fields_free :: "json \<Rightarrow> bool" where
  \<comment> \<open>\<^verbatim>\<open>_reject_launcher_owned_fields\<close>\<close>
  "launcher_fields_free (JObj kvs) =
     (\<forall>kv \<in> set kvs. normalize_launcher_key (fst kv) \<notin> set forbidden_launcher_keys
        \<and> launcher_fields_free (snd kv))"
| "launcher_fields_free (JList vs) = (\<forall>v \<in> set vs. launcher_fields_free v)"
| "launcher_fields_free v = True"

subsection \<open>Commands\<close>

definition launcher_token :: regex where
  "launcher_token =
     cats [lit ''${'', alts [lit ''PROJECT'', lit ''RUNNER'', lit ''REPAIR_WORKTREE''], lit ''}'']"

definition shell_syntax :: "string \<Rightarrow> bool" where
  "shell_syntax s \<longleftrightarrow> list_ex (\<lambda>c. c \<in> set '';&|`'' \<or> (of_char c :: nat) \<in> {0, 10, 13}) s"

definition secret_command_value :: regex where
  "secret_command_value =
     (let edge = Cls (\<lambda>c. \<not> is_alnum c);
          word = (\<lambda>a. cats [ilit a, Opt (chars ''_-''), ilit ''key''])
      in cats [Alt at_start edge,
               alts [word ''api'', word ''access'', word ''private'', ilit ''token'', ilit ''password'',
                     ilit ''secret'', ilit ''credential'', ilit ''authorization''],
               Alt At_End edge])"

definition camel_case_boundary :: regex where
  "camel_case_boundary =
     Cat (Behind (\<lambda>b. case b of None \<Rightarrow> False | Some c \<Rightarrow> is_lower c \<or> is_digit c)) (Look (Cls is_upper))"

definition command_argument_name :: regex where
  "command_argument_name =
     (let name = Star (Cls dash_char); letter = (\<lambda>c. is_upper c \<or> is_lower c) in
      Alt (cats [Rep (lit ''-'') 1 1, Cls letter, name, Look (Alt At_End (lit ''=''))])
          (cats [Cls (\<lambda>c. letter c \<or> c = CHR ''_''), name, Look (lit ''='')]))"

definition normalize_command_argument_name :: "string \<Rightarrow> string" where
  "normalize_command_argument_name argument =
     (case ends command_argument_name (None, argument) of
        [] \<Rightarrow> argument
      | (b, rest) # _ \<Rightarrow>
          sub_all camel_case_boundary (\<lambda>_. ''_'') (take (length argument - length rest) argument) @ rest)"

definition path_name :: "string \<Rightarrow> string" where
  \<comment> \<open>\<^verbatim>\<open>Path(s).name\<close>\<close>
  "path_name s = (let parts = path_parts s in if parts = [] then [] else last parts)"

definition shell_executables :: "string list" where
  "shell_executables =
     [''bash'', ''csh'', ''dash'', ''fish'', ''ksh'', ''sh'', ''tcsh'', ''zsh'', ''cmd'', ''cmd.exe'',
      ''powershell'', ''pwsh'']"

definition command_argument_ok :: "string \<Rightarrow> bool" where
  "command_argument_ok argument \<longleftrightarrow>
     \<not> shell_syntax argument
     \<and> \<not> search secret_command_value argument
     \<and> \<not> search secret_command_value (normalize_command_argument_name argument)
     \<and> CHR ''$'' \<notin> set (sub_all launcher_token (\<lambda>_. []) argument)"

definition command_ok :: "string list \<Rightarrow> bool" where
  \<comment> \<open>\<^verbatim>\<open>_command\<close>\<close>
  "command_ok command \<longleftrightarrow>
     command \<noteq> [] \<and> [] \<notin> set command
     \<and> lower (path_name (hd command)) \<notin> set shell_executables
     \<and> list_all command_argument_ok command"

definition command_of :: "json \<Rightarrow> string list option" where
  "command_of v = Option.bind (json_list json_text v) (accept command_ok)"

subsection \<open>Paths and environment\<close>

definition policy_path_ok :: "string \<Rightarrow> bool" where
  \<comment> \<open>\<^verbatim>\<open>_relative_path\<close>\<close>
  "policy_path_ok v \<longleftrightarrow>
     v \<noteq> [] \<and> length v \<le> 512 \<and> CHR 0x00 \<notin> set v
     \<and> \<not> starts_with ''/'' v \<and> CHR 0x5C \<notin> set v
     \<and> \<not> list_ex (\<lambda>part. part \<in> {[], ''.'', ''..''}) (split_on CHR ''/'' v)"

definition path_list_of :: "json \<Rightarrow> string list option" where
  "path_list_of v =
     Option.bind (json_list (\<lambda>x. Option.bind (json_text x) (accept policy_path_ok)) v) (accept no_dups)"

definition path_overlaps :: "string \<Rightarrow> string \<Rightarrow> bool" where
  "path_overlaps first second \<longleftrightarrow>
     first = second \<or> starts_with (second @ ''/'') first \<or> starts_with (first @ ''/'') second"

definition safe_environment :: "string \<Rightarrow> bool" where
  "safe_environment s \<longleftrightarrow>
     fullmatch (Cat (Cls (\<lambda>c. is_upper c \<or> is_lower c \<or> c = CHR ''_''))
       (Rep (Cls (\<lambda>c. is_alnum c \<or> c = CHR ''_'')) 0 127)) s"

definition forbidden_environment :: regex where
  "forbidden_environment =
     alts [ilit ''key'', ilit ''token'', ilit ''secret'', ilit ''password'', ilit ''credential'',
           ilit ''authorization'']"

definition environment_list_ok :: "string list \<Rightarrow> bool" where
  "environment_list_ok vs \<longleftrightarrow>
     list_all safe_environment vs
     \<and> \<not> list_ex (\<lambda>v. v \<in> {''HOME'', ''PATH''} \<or> search forbidden_environment v) vs
     \<and> no_dups vs"

subsection \<open>The policies\<close>

record git_policy =
  gp_remote :: string
  gp_base_branch :: "string option"

definition safe_remote :: "string \<Rightarrow> bool" where
  "safe_remote s = fullmatch (Cat (Cls is_alnum) (Rep (Cls ident_char) 0 127)) s"

definition contains :: "string \<Rightarrow> string \<Rightarrow> bool" where
  "contains t s = search (lit t) s"

definition base_branch_ok :: "string \<Rightarrow> bool" where
  "base_branch_ok v \<longleftrightarrow>
     v \<noteq> [] \<and> length v \<le> 255 \<and> \<not> list_ex is_space v
     \<and> \<not> starts_with ''-'' v \<and> \<not> contains ''..'' v \<and> \<not> contains [CHR ''@'', CHR ''{''] v \<and> CHR 0x5C \<notin> set v"

definition git_policy_of :: "json \<Rightarrow> git_policy option" where
  "git_policy_of v = do {
     kvs \<leftarrow> fields_of [''remote'', ''base_branch''] [] v;
     remote \<leftarrow> field kvs ''remote'' json_text;
     remote \<leftarrow> accept safe_remote remote;
     branch \<leftarrow> field kvs ''base_branch'' (nullable json_text);
     branch \<leftarrow> accept (opt_all base_branch_ok) branch;
     Some \<lparr>gp_remote = remote, gp_base_branch = branch\<rparr>
   }"

record verification_policy =
  vp_allow_empty :: bool
  vp_commands :: "string list list"
  vp_mutation_commands :: "string list list"

definition verification_policy_of :: "json \<Rightarrow> verification_policy option" where
  "verification_policy_of v = do {
     kvs \<leftarrow> fields_of [''commands''] [''allow_empty'', ''mutation_commands''] v;
     empty \<leftarrow> field_or kvs ''allow_empty'' False json_bool;
     commands \<leftarrow> field kvs ''commands'' (json_list command_of);
     mutations \<leftarrow> field_or kvs ''mutation_commands'' [] (json_list command_of);
     if commands = [] \<and> \<not> empty then None
     else Some \<lparr>vp_allow_empty = empty, vp_commands = commands, vp_mutation_commands = mutations\<rparr>
   }"

record browser_policy =
  bp_start_command :: "string list option"
  bp_base_url :: "string option"
  bp_ready_timeout_seconds :: int
  bp_command_timeout_seconds :: int
  bp_playwright_command_prefix :: "string list"
  bp_allowed_operations :: "string list"

definition playwright_operations :: "string list" where
  "playwright_operations =
     [''open'', ''goto'', ''snapshot'', ''click'', ''fill'', ''type'', ''press'', ''screenshot'', ''close'']"

definition local_base_url :: "(string \<Rightarrow> bool) \<Rightarrow> string \<Rightarrow> bool" where
  \<comment> \<open>\<^verbatim>\<open>validate_base_url\<close>\<close>
  "local_base_url bracketed v \<longleftrightarrow>
     (case urlsplit bracketed v of
        None \<Rightarrow> False
      | Some u \<Rightarrow>
          \<not> (su_scheme u \<noteq> ''http''
             \<or> url_hostname (su_netloc u) \<notin> {''localhost'', ''127.0.0.1'', ''::1''}
             \<or> url_username (su_netloc u) \<noteq> None \<or> url_password (su_netloc u) \<noteq> None
             \<or> su_query u \<noteq> [] \<or> su_fragment u \<noteq> []))"

definition positive :: "int \<Rightarrow> bool" where
  "positive i \<longleftrightarrow> 0 < i"

definition between :: "int \<Rightarrow> int \<Rightarrow> int \<Rightarrow> bool" where
  "between lo hi i \<longleftrightarrow> lo \<le> i \<and> i \<le> hi"

definition int_within :: "(int \<Rightarrow> bool) \<Rightarrow> json \<Rightarrow> int option" where
  "int_within P v = Option.bind (json_int v) (accept P)"

definition browser_policy_of :: "(string \<Rightarrow> bool) \<Rightarrow> json \<Rightarrow> browser_policy option" where
  "browser_policy_of bracketed v = do {
     kvs \<leftarrow> fields_of [''start_command'', ''base_url'', ''ready_timeout_seconds'', ''command_timeout_seconds'',
                    ''playwright_command_prefix'', ''allowed_operations''] [] v;
     start \<leftarrow> field kvs ''start_command'' (nullable command_of);
     url \<leftarrow> field kvs ''base_url'' (nullable json_text);
     url \<leftarrow> accept (opt_all (local_base_url bracketed)) url;
     ready \<leftarrow> field kvs ''ready_timeout_seconds'' (int_within positive);
     timeout \<leftarrow> field kvs ''command_timeout_seconds'' (int_within positive);
     prefix \<leftarrow> field kvs ''playwright_command_prefix'' command_of;
     operations \<leftarrow> field kvs ''allowed_operations'' (json_list json_text);
     if \<not> no_dups operations \<or> \<not> set operations \<subseteq> set playwright_operations then None
     else if (start = None) \<noteq> (url = None) then None
     else Some \<lparr>bp_start_command = start, bp_base_url = url, bp_ready_timeout_seconds = ready,
                bp_command_timeout_seconds = timeout, bp_playwright_command_prefix = prefix,
                bp_allowed_operations = operations\<rparr>
   }"

record process_policy =
  pp_command_timeout_seconds :: int
  pp_termination_grace_seconds :: int

definition process_policy_of :: "json \<Rightarrow> process_policy option" where
  "process_policy_of v = do {
     kvs \<leftarrow> fields_of [''command_timeout_seconds'', ''termination_grace_seconds''] [] v;
     timeout \<leftarrow> field kvs ''command_timeout_seconds'' (int_within positive);
     grace \<leftarrow> field kvs ''termination_grace_seconds'' (int_within positive);
     Some \<lparr>pp_command_timeout_seconds = timeout, pp_termination_grace_seconds = grace\<rparr>
   }"

definition transport_policy_of :: "json \<Rightarrow> int option" where
  \<comment> \<open>its only field, the retry wait\<close>
  "transport_policy_of v = do {
     kvs \<leftarrow> fields_of [''total_retry_wait_seconds''] [] v;
     field kvs ''total_retry_wait_seconds'' (int_within (\<lambda>i. 0 \<le> i))
   }"

record preflight_policy =
  cp_catalog_timeout_seconds :: int
  cp_max_catalog_response_bytes :: int
  cp_catalog_retry_budget :: int
  cp_catalog_cache_validity_seconds :: int

definition preflight_policy_of :: "json \<Rightarrow> preflight_policy option" where
  "preflight_policy_of v = do {
     kvs \<leftarrow> fields_of [''catalog_timeout_seconds'', ''max_catalog_response_bytes'', ''catalog_retry_budget'',
                    ''catalog_cache_validity_seconds''] [] v;
     timeout \<leftarrow> field kvs ''catalog_timeout_seconds'' (int_within (between 1 300));
     bytes \<leftarrow> field kvs ''max_catalog_response_bytes'' (int_within (between 1024 8388608));
     retries \<leftarrow> field kvs ''catalog_retry_budget'' (int_within (between 0 3));
     validity \<leftarrow> field kvs ''catalog_cache_validity_seconds'' (int_within (between 1 3600));
     Some \<lparr>cp_catalog_timeout_seconds = timeout, cp_max_catalog_response_bytes = bytes,
           cp_catalog_retry_budget = retries, cp_catalog_cache_validity_seconds = validity\<rparr>
   }"

record finalization_policy =
  fp_max_invocations_per_effect :: int
  fp_total_retry_wait_seconds :: int

definition finalization_policy_of :: "json \<Rightarrow> finalization_policy option" where
  "finalization_policy_of v = do {
     kvs \<leftarrow> fields_of [''max_invocations_per_effect'', ''total_retry_wait_seconds''] [] v;
     invocations \<leftarrow> field kvs ''max_invocations_per_effect'' (int_within positive);
     wait \<leftarrow> field kvs ''total_retry_wait_seconds'' (int_within (\<lambda>i. 0 \<le> i));
     Some \<lparr>fp_max_invocations_per_effect = invocations, fp_total_retry_wait_seconds = wait\<rparr>
   }"

definition automation_policy_of :: "json \<Rightarrow> string list option" where
  \<comment> \<open>its only field, the regression command\<close>
  "automation_policy_of v = do {
     kvs \<leftarrow> fields_of [''regression_command''] [] v;
     field kvs ''regression_command'' command_of
   }"

record linear_policy =
  lp_started_state_id :: "string option"
  lp_completed_state_id :: "string option"

definition linear_state_id_ok :: "string \<Rightarrow> bool" where
  "linear_state_id_ok v \<longleftrightarrow> v \<noteq> [] \<and> length v \<le> 256 \<and> \<not> list_ex is_space v"

definition linear_policy_of :: "json \<Rightarrow> linear_policy option" where
  "linear_policy_of v = do {
     kvs \<leftarrow> fields_of [''started_state_id'', ''completed_state_id''] [] v;
     started \<leftarrow> field kvs ''started_state_id'' (nullable json_text);
     started \<leftarrow> accept (opt_all linear_state_id_ok) started;
     completed \<leftarrow> field kvs ''completed_state_id'' (nullable json_text);
     completed \<leftarrow> accept (opt_all linear_state_id_ok) completed;
     Some \<lparr>lp_started_state_id = started, lp_completed_state_id = completed\<rparr>
   }"

definition review_policy_of :: "json \<Rightarrow> bool option" where
  \<comment> \<open>its only field, \<^verbatim>\<open>require_distinct_model\<close>\<close>
  "review_policy_of v = do {
     kvs \<leftarrow> fields_of [] [''require_distinct_model''] v;
     field_or kvs ''require_distinct_model'' False json_bool
   }"

record project_config =
  pj_git :: git_policy
  pj_verification :: verification_policy
  pj_browser :: browser_policy
  pj_process :: process_policy
  pj_transport_retry_wait :: int
  pj_preflight :: preflight_policy
  pj_finalization :: finalization_policy
  pj_regression_command :: "string list"
  pj_protected_paths :: "string list"
  pj_evidence_readable_paths :: "string list"
  pj_commit_excluded_paths :: "string list"
  pj_writable_roots :: "string list"
  pj_environment_allowlist :: "string list"
  pj_linear :: linear_policy
  pj_require_distinct_model :: bool

definition path_roles_ok :: "project_config \<Rightarrow> bool" where
  \<comment> \<open>\<^verbatim>\<open>validate_path_roles\<close>\<close>
  "path_roles_ok c \<longleftrightarrow>
     list_all (\<lambda>p. \<not> list_ex (path_overlaps p) (pj_protected_paths c)) (pj_evidence_readable_paths c)
     \<and> list_all (\<lambda>p. \<not> list_ex (path_overlaps p) (pj_protected_paths c)) (pj_writable_roots c)"

definition project_config_of :: "(string \<Rightarrow> bool) \<Rightarrow> json \<Rightarrow> project_config option" where
  \<comment> \<open>\<^verbatim>\<open>ProjectConfig.model_validate\<close>\<close>
  "project_config_of bracketed v = do {
     kvs \<leftarrow> fields_of
       [''git'', ''verification'', ''browser'', ''process'', ''transport'', ''preflight'', ''finalization'',
        ''automation'', ''protected_paths'', ''commit_excluded_paths'', ''environment_allowlist'',
        ''linear'', ''review''] [''evidence_readable_paths'', ''writable_roots''] v;
     git \<leftarrow> field kvs ''git'' git_policy_of;
     verification \<leftarrow> field kvs ''verification'' verification_policy_of;
     browser \<leftarrow> field kvs ''browser'' (browser_policy_of bracketed);
     process \<leftarrow> field kvs ''process'' process_policy_of;
     transport \<leftarrow> field kvs ''transport'' transport_policy_of;
     preflight \<leftarrow> field kvs ''preflight'' preflight_policy_of;
     finalization \<leftarrow> field kvs ''finalization'' finalization_policy_of;
     automation \<leftarrow> field kvs ''automation'' automation_policy_of;
     protected \<leftarrow> field kvs ''protected_paths'' path_list_of;
     readable \<leftarrow> field_or kvs ''evidence_readable_paths'' [] path_list_of;
     excluded \<leftarrow> field kvs ''commit_excluded_paths'' path_list_of;
     writable \<leftarrow> field_or kvs ''writable_roots'' [] path_list_of;
     environment \<leftarrow> field kvs ''environment_allowlist'' (json_list json_text);
     environment \<leftarrow> accept environment_list_ok environment;
     linear \<leftarrow> field kvs ''linear'' linear_policy_of;
     review \<leftarrow> field kvs ''review'' review_policy_of;
     accept path_roles_ok
       \<lparr>pj_git = git, pj_verification = verification, pj_browser = browser, pj_process = process,
        pj_transport_retry_wait = transport, pj_preflight = preflight, pj_finalization = finalization,
        pj_regression_command = automation, pj_protected_paths = protected,
        pj_evidence_readable_paths = readable, pj_commit_excluded_paths = excluded,
        pj_writable_roots = writable, pj_environment_allowlist = environment, pj_linear = linear,
        pj_require_distinct_model = review\<rparr>
   }"

definition load_policy :: "(string \<Rightarrow> bool) \<Rightarrow> (string \<Rightarrow> json option) \<Rightarrow> string \<Rightarrow> project_config option" where
  \<comment> \<open>\<^verbatim>\<open>load\<close> of a text that could be read\<close>
  "load_policy bracketed parse raw =
     (if 1048576 < length raw then None
      else case parse raw of
          Some (JObj kvs) \<Rightarrow>
            if launcher_fields_free (JObj kvs) then project_config_of bracketed (JObj kvs) else None
        | _ \<Rightarrow> None)"

subsection \<open>The policy as JSON\<close>

definition commands_json :: "string list list \<Rightarrow> json" where
  "commands_json cs = JList (map json_texts_of cs)"

definition opt_json :: "('a \<Rightarrow> json) \<Rightarrow> 'a option \<Rightarrow> json" where
  "opt_json f v = (case v of None \<Rightarrow> JNull | Some x \<Rightarrow> f x)"

definition project_config_json :: "project_config \<Rightarrow> json" where
  "project_config_json c =
     JObj
       [(''git'', JObj [(''remote'', JStr (gp_remote (pj_git c))), (''base_branch'', json_opt (gp_base_branch (pj_git c)))]),
        (''verification'',
          JObj [(''allow_empty'', JBool (vp_allow_empty (pj_verification c))),
                (''commands'', commands_json (vp_commands (pj_verification c))),
                (''mutation_commands'', commands_json (vp_mutation_commands (pj_verification c)))]),
        (''browser'',
          JObj [(''start_command'', opt_json json_texts_of (bp_start_command (pj_browser c))),
                (''base_url'', json_opt (bp_base_url (pj_browser c))),
                (''ready_timeout_seconds'', JInt (bp_ready_timeout_seconds (pj_browser c))),
                (''command_timeout_seconds'', JInt (bp_command_timeout_seconds (pj_browser c))),
                (''playwright_command_prefix'', json_texts_of (bp_playwright_command_prefix (pj_browser c))),
                (''allowed_operations'', json_texts_of (bp_allowed_operations (pj_browser c)))]),
        (''process'',
          JObj [(''command_timeout_seconds'', JInt (pp_command_timeout_seconds (pj_process c))),
                (''termination_grace_seconds'', JInt (pp_termination_grace_seconds (pj_process c)))]),
        (''transport'', JObj [(''total_retry_wait_seconds'', JInt (pj_transport_retry_wait c))]),
        (''preflight'',
          JObj [(''catalog_timeout_seconds'', JInt (cp_catalog_timeout_seconds (pj_preflight c))),
                (''max_catalog_response_bytes'', JInt (cp_max_catalog_response_bytes (pj_preflight c))),
                (''catalog_retry_budget'', JInt (cp_catalog_retry_budget (pj_preflight c))),
                (''catalog_cache_validity_seconds'', JInt (cp_catalog_cache_validity_seconds (pj_preflight c)))]),
        (''finalization'',
          JObj [(''max_invocations_per_effect'', JInt (fp_max_invocations_per_effect (pj_finalization c))),
                (''total_retry_wait_seconds'', JInt (fp_total_retry_wait_seconds (pj_finalization c)))]),
        (''automation'', JObj [(''regression_command'', json_texts_of (pj_regression_command c))]),
        (''protected_paths'', json_texts_of (pj_protected_paths c)),
        (''evidence_readable_paths'', json_texts_of (pj_evidence_readable_paths c)),
        (''commit_excluded_paths'', json_texts_of (pj_commit_excluded_paths c)),
        (''writable_roots'', json_texts_of (pj_writable_roots c)),
        (''environment_allowlist'', json_texts_of (pj_environment_allowlist c)),
        (''linear'',
          JObj [(''started_state_id'', json_opt (lp_started_state_id (pj_linear c))),
                (''completed_state_id'', json_opt (lp_completed_state_id (pj_linear c)))]),
        (''review'', JObj [(''require_distinct_model'', JBool (pj_require_distinct_model c))])]"

definition policy_hash :: "project_config \<Rightarrow> string" where
  "policy_hash c = hash_json (project_config_json c)"

subsection \<open>Launcher tokens\<close>

record launcher_roots =
  lr_project_root :: string
  lr_runner_root :: string
  lr_repair_worktree :: string

definition launcher_roots_valid :: "launcher_roots \<Rightarrow> bool" where
  "launcher_roots_valid r \<longleftrightarrow>
     list_all (\<lambda>p. path_absolute p \<and> ''..'' \<notin> set (path_parts p))
       [lr_project_root r, lr_runner_root r, lr_repair_worktree r]"

definition token_root :: "launcher_roots \<Rightarrow> string \<Rightarrow> string" where
  \<comment> \<open>what replaces the text of a token\<close>
  "token_root r token =
     (if token = ''${PROJECT}'' then path_text (lr_project_root r)
      else if token = ''${RUNNER}'' then path_text (lr_runner_root r)
      else path_text (lr_repair_worktree r))"

definition expand_argument :: "launcher_roots \<Rightarrow> string \<Rightarrow> string option" where
  "expand_argument r argument =
     (if shell_syntax argument then None
      else
        let v = sub_all launcher_token (token_root r) argument
        in if CHR ''$'' \<in> set v then None else Some v)"

definition expand_launcher_tokens :: "launcher_roots \<Rightarrow> string list \<Rightarrow> string list option" where
  "expand_launcher_tokens r argv = those (map (expand_argument r) argv)"

lemma sub_at_chars: "set (sub_at r f m b s) \<subseteq> set (sub_at r (\<lambda>_. []) m b s) \<union> (\<Union>x. set (f x))"
proof (induction r f m b s rule: sub_at.induct)
  case (1 r f m b s)
  show ?case
  proof (cases "if m then progressing (b, s) (ends r (b, s)) else ends r (b, s)")
    case Nil
    then have "sub_at r g m b s = (case s of [] \<Rightarrow> [] | c # cs \<Rightarrow> c # sub_at r g False (Some c) cs)" for g
      by (subst sub_at.simps) simp
    with 1(1) [OF Nil] show ?thesis by (cases s) auto
  next
    case (Cons q qs)
    obtain b' s' where q: "q = (b', s')" by (cases q)
    have IH: "length s' < length s \<Longrightarrow> set (sub_at r f False b' s') \<subseteq>
        set (sub_at r (\<lambda>_. []) False b' s') \<union> (\<Union>x. set (f x))"
      using 1(2) [OF Cons q [symmetric]] by blast
    have IH': "\<not> length s' < length s \<Longrightarrow> \<not> m \<Longrightarrow> set (sub_at r f True b s) \<subseteq>
        set (sub_at r (\<lambda>_. []) True b s) \<union> (\<Union>x. set (f x))"
      using 1(3) [OF Cons q [symmetric]] by blast
    have "sub_at r g m b s =
        (if length s' < length s then g (take (length s - length s') s) @ sub_at r g False b' s'
         else if m then [] else g [] @ sub_at r g True b s)" for g
      using Cons by (subst sub_at.simps) (simp add: q)
    with IH IH' show ?thesis by (cases "length s' < length s") auto
  qed
qed

lemma valid_argument_expands:
  assumes "command_argument_ok argument" and "\<forall>x. CHR ''$'' \<notin> set (token_root r x)"
  shows "expand_argument r argument = Some (sub_all launcher_token (token_root r) argument)"
  using assms sub_at_chars [of launcher_token "token_root r" False None argument]
  by (auto simp: expand_argument_def command_argument_ok_def sub_all_def Let_def)

lemma valid_command_expands:
  assumes "command_ok argv"
    and "\<forall>p \<in> {lr_project_root r, lr_runner_root r, lr_repair_worktree r}. CHR ''$'' \<notin> set (path_text p)"
  shows "expand_launcher_tokens r argv = Some (map (sub_all launcher_token (token_root r)) argv)"
  unfolding expand_launcher_tokens_def
  by (rule those_map_all, rule valid_argument_expands)
    (use assms in \<open>auto simp: command_ok_def list_all_iff token_root_def\<close>)

end
