(* ===== verification/Git_Text.thy ===== *)
theory Git_Text
  imports Project_Policy
begin

section \<open>What Git says and what may be said to it\<close>

text \<open>
  The values and parsers of \<^verbatim>\<open>src/auto_code/git.py\<close>: paths, object identifiers, branch
  names, the manifest of changed files, and the readers of the NUL-separated output of
  \<^verbatim>\<open>git status\<close>, \<^verbatim>\<open>git diff --raw\<close> and \<^verbatim>\<open>git diff --numstat\<close>.
\<close>

datatype git_error =
    Path_Invalid | Sha_Invalid | Branch_Invalid | Ticket_Invalid | Slug_Empty | Policy_Duplicates
  | Status_Malformed | Raw_Malformed | Numstat_Malformed | Manifest_Invalid | Manifest_Duplicates
  | Command_Failed int | Not_Worktree | Dirty_Worktree | Protected_Path | Commit_Excluded_Path
  | Remote_Invalid | Base_Moved | Branch_Reuse | Untracked_Unauthorized | Manifest_Mismatch
  | Push_Unauthorized | Duplicate_Untracked | Manifest_Denied_Path
  | Executor_Unavailable | Executor_Raised | Output_Unreadable | Output_Index_Error
  | Identity_Unavailable | Worktree_Unreadable | Repair_Limit | Sandbox_Mismatch

definition nul :: char where
  "nul = CHR 0x00"

subsection \<open>Checks\<close>

definition git_path_ok :: "string \<Rightarrow> bool" where
  \<comment> \<open>\<^verbatim>\<open>_validate_relative_path\<close>\<close>
  "git_path_ok v \<longleftrightarrow>
     v \<noteq> [] \<and> nul \<notin> set v \<and> \<not> path_absolute v \<and> path_parts v \<noteq> [] \<and> ''..'' \<notin> set (path_parts v)"

definition validate_git_path :: "string \<Rightarrow> git_error + string" where
  "validate_git_path v = (if git_path_ok v then Inr v else Inl Path_Invalid)"

definition git_sha_ok :: "string \<Rightarrow> bool" where
  "git_sha_ok v = lower_git_sha (lower v)"

definition validate_sha :: "string \<Rightarrow> git_error + string" where
  "validate_sha v = (if git_sha_ok v then Inr (lower v) else Inl Sha_Invalid)"

definition ends_with :: "string \<Rightarrow> string \<Rightarrow> bool" where
  "ends_with t s = starts_with (rev t) (rev s)"

definition branch_name_ok :: "string \<Rightarrow> bool" where
  \<comment> \<open>\<^verbatim>\<open>_validate_branch_name\<close>\<close>
  "branch_name_ok v \<longleftrightarrow>
     v \<noteq> [] \<and> length v \<le> 255 \<and> \<not> starts_with ''-'' v
     \<and> \<not> ends_with ''.'' v \<and> \<not> ends_with ''/'' v \<and> \<not> ends_with ''.lock'' v
     \<and> \<not> contains ''..'' v \<and> \<not> contains [CHR ''@'', CHR ''{''] v \<and> \<not> contains ''//'' v
     \<and> \<not> list_ex (\<lambda>c. is_space c \<or> c \<in> set ''~^:?*['' \<or> c = CHR 0x5C \<or> c = nul) v"

definition policy_paths :: "string list \<Rightarrow> git_error + string list" where
  "policy_paths ps =
     (if \<not> list_all git_path_ok ps then Inl Path_Invalid
      else if \<not> no_dups ps then Inl Policy_Duplicates else Inr ps)"

definition matches_policy_path :: "string \<Rightarrow> string list \<Rightarrow> bool" where
  "matches_policy_path path roots =
     list_ex (\<lambda>root. path = root \<or> starts_with (root @ ''/'') path) roots"

definition check_path_role :: "string list \<Rightarrow> string list \<Rightarrow> string \<Rightarrow> git_error + unit" where
  \<comment> \<open>\<^verbatim>\<open>_check_path_role\<close> of the protected and the commit-excluded paths\<close>
  "check_path_role protected excluded path =
     (if \<not> git_path_ok path then Inl Path_Invalid
      else if matches_policy_path path protected then Inl Protected_Path
      else if matches_policy_path path excluded then Inl Commit_Excluded_Path
      else Inr ())"

subsection \<open>The branch of a ticket\<close>

definition ticket_text :: "string \<Rightarrow> bool" where
  "ticket_text s = fullmatch (Cat (Cls is_alnum) (Rep (Cls ident_char) 0 127)) s"

definition strip_dashes :: "string \<Rightarrow> string" where
  "strip_dashes s =
     rev (dropWhile (\<lambda>c. c = CHR ''-'') (rev (dropWhile (\<lambda>c. c = CHR ''-'') s)))"

definition rstrip_dashes :: "string \<Rightarrow> string" where
  "rstrip_dashes s = rev (dropWhile (\<lambda>c. c = CHR ''-'') (rev s))"

definition title_slug :: "string \<Rightarrow> string" where
  \<comment> \<open>of an ASCII title, which \<^verbatim>\<open>NFKD\<close> leaves as it is\<close>
  "title_slug title =
     rstrip_dashes (take 96 (strip_dashes
       (sub_all (plus (Cls (\<lambda>c. \<not> (is_lower c \<or> is_digit c)))) (\<lambda>_. ''-'') (lower title))))"

definition ticket_branch_name :: "string \<Rightarrow> string \<Rightarrow> git_error + string" where
  "ticket_branch_name ticket title =
     (if \<not> ticket_text ticket then Inl Ticket_Invalid
      else
        let slug = title_slug title; branch = ticket @ ''-'' @ slug
        in if slug = [] then Inl Slug_Empty
           else if \<not> branch_name_ok branch then Inl Branch_Invalid else Inr branch)"

subsection \<open>The manifest of changed files\<close>

record git_manifest_file =
  gf_path :: string
  gf_status :: string
  gf_old_path :: "string option"
  gf_old_mode :: string
  gf_new_mode :: string
  gf_old_object_id :: "string option"
  gf_object_id :: "string option"
  gf_binary :: bool
  gf_untracked :: bool

definition octal_mode :: "string \<Rightarrow> bool" where
  "octal_mode m \<longleftrightarrow> length m = 6 \<and> list_all (\<lambda>c. c \<in> set ''01234567'') m"

definition git_manifest_file_valid :: "git_manifest_file \<Rightarrow> bool" where
  "git_manifest_file_valid f \<longleftrightarrow>
     git_path_ok (gf_path f) \<and> opt_all git_path_ok (gf_old_path f)
     \<and> gf_status f \<noteq> [] \<and> hd (gf_status f) \<in> set ''ACDMRT''
     \<and> octal_mode (gf_old_mode f) \<and> octal_mode (gf_new_mode f)
     \<and> opt_all git_sha_ok (gf_old_object_id f) \<and> opt_all git_sha_ok (gf_object_id f)
     \<and> \<not> (hd (gf_status f) = CHR ''D'' \<and> gf_object_id f \<noteq> None)"

record git_manifest =
  gm_baseline_sha :: string
  gm_files :: "git_manifest_file list"

definition git_manifest_valid :: "git_manifest \<Rightarrow> bool" where
  "git_manifest_valid m \<longleftrightarrow>
     git_sha_ok (gm_baseline_sha m) \<and> list_all git_manifest_file_valid (gm_files m)
     \<and> no_dups (map gf_path (gm_files m))"

definition manifest_renames :: "git_manifest \<Rightarrow> (string \<times> string) list" where
  "manifest_renames m =
     concat (map (\<lambda>f. case gf_old_path f of
                    Some old \<Rightarrow> if starts_with ''R'' (gf_status f) then [(old, gf_path f)] else []
                  | None \<Rightarrow> []) (gm_files m))"

definition authorized_untracked_paths :: "git_manifest \<Rightarrow> string list" where
  "authorized_untracked_paths m = map gf_path (filter gf_untracked (gm_files m))"

definition manifest_stage_paths :: "git_manifest \<Rightarrow> string set" where
  "manifest_stage_paths m = set (map gf_path (gm_files m)) \<union> set (map fst (manifest_renames m))"

definition product_manifest_inputs :: "product_change_manifest \<Rightarrow> git_error + git_manifest" where
  "product_manifest_inputs m =
     (let inputs = \<lparr>gm_baseline_sha = pm_baseline_sha m,
                    gm_files = map (\<lambda>f.
                      \<lparr>gf_path = pf_path f, gf_status = pf_status f, gf_old_path = pf_old_path f,
                       gf_old_mode = pf_old_mode f, gf_new_mode = pf_mode f,
                       gf_old_object_id = pf_old_object_id f, gf_object_id = pf_object_id f,
                       gf_binary = pf_binary f, gf_untracked = pf_untracked f\<rparr>) (pm_files m)\<rparr>
      in if git_manifest_valid inputs then Inr inputs else Inl Manifest_Invalid)"

subsection \<open>Reading the output of Git\<close>

definition split_tab :: "string \<Rightarrow> (string \<times> string) option" where
  "split_tab s = cut_at (CHR 0x09) s"

function parse_status_fields :: "string list \<Rightarrow> git_error + (string \<times> string list) list" where
  "parse_status_fields fs =
     (case fs of
        [] \<Rightarrow> Inr []
      | r # rest \<Rightarrow>
          if length r < 4 then Inl Status_Malformed
          else
            let status = take 2 r in
            bind_result (validate_git_path (drop 3 r)) (\<lambda>path.
              if CHR ''R'' \<in> set status \<or> CHR ''C'' \<in> set status then
                (case rest of
                   [] \<Rightarrow> Inl Status_Malformed
                 | old # rest' \<Rightarrow>
                     bind_result (validate_git_path old) (\<lambda>old.
                       bind_result (parse_status_fields rest') (\<lambda>es. Inr ((status, [path, old]) # es))))
              else bind_result (parse_status_fields rest) (\<lambda>es. Inr ((status, [path]) # es))))"
  by pat_completeness auto
termination by (relation "measure length") auto

declare parse_status_fields.simps [simp del]

definition parse_status :: "string \<Rightarrow> git_error + (string \<times> string list) list" where
  "parse_status output = parse_status_fields (filter (\<lambda>f. f \<noteq> []) (split_on nul output))"

record raw_diff_entry =
  rd_old_mode :: string
  rd_new_mode :: string
  rd_old_object_id :: string
  rd_new_object_id :: string
  rd_status :: string
  rd_old_path :: "string option"
  rd_path :: string

definition raw_object_id :: "string \<Rightarrow> bool" where
  "raw_object_id s \<longleftrightarrow> 40 \<le> length s \<and> length s \<le> 64 \<and> list_all is_lower_hex s"

definition raw_status :: "string \<Rightarrow> bool" where
  "raw_status s \<longleftrightarrow> (case s of [] \<Rightarrow> False | c # cs \<Rightarrow> is_upper c \<and> list_all is_digit cs)"

definition raw_header :: "string \<Rightarrow> (string \<times> string \<times> string \<times> string \<times> string) option" where
  \<comment> \<open>the groups of \<^verbatim>\<open>_RAW_HEADER\<close>; none of them contains a blank\<close>
  "raw_header s =
     (case split_on CHR '' '' s of
        [colon_mode, new_mode, old_oid, new_oid, status] \<Rightarrow>
          if starts_with '':'' colon_mode \<and> octal_mode (tl colon_mode) \<and> octal_mode new_mode
             \<and> raw_object_id old_oid \<and> raw_object_id new_oid \<and> raw_status status
          then Some (tl colon_mode, new_mode, old_oid, new_oid, status) else None
      | _ \<Rightarrow> None)"

definition raw_entry ::
  "string \<times> string \<times> string \<times> string \<times> string \<Rightarrow> string option \<Rightarrow> string \<Rightarrow> raw_diff_entry" where
  "raw_entry h old path =
     (case h of (old_mode, new_mode, old_oid, new_oid, status) \<Rightarrow>
        \<lparr>rd_old_mode = old_mode, rd_new_mode = new_mode, rd_old_object_id = lower old_oid,
         rd_new_object_id = lower new_oid, rd_status = status, rd_old_path = old, rd_path = path\<rparr>)"

definition renaming :: "string \<Rightarrow> bool" where
  "renaming status \<longleftrightarrow> starts_with ''R'' status \<or> starts_with ''C'' status"

function parse_raw_fields :: "string list \<Rightarrow> git_error + raw_diff_entry list" where
  "parse_raw_fields fs =
     (case fs of
        [] \<Rightarrow> Inr []
      | header # rest \<Rightarrow>
          if header = [] then parse_raw_fields rest
          else
            let (header, inline_path) =
              (case split_tab header of None \<Rightarrow> (header, None) | Some (a, b) \<Rightarrow> (a, Some b))
            in case raw_header header of
                 None \<Rightarrow> Inl Raw_Malformed
               | Some h \<Rightarrow>
                   (case (case inline_path of
                            Some p \<Rightarrow> Some (p, rest)
                          | None \<Rightarrow> (case rest of [] \<Rightarrow> None | p # ps \<Rightarrow> Some (p, ps))) of
                      None \<Rightarrow> Inl Raw_Malformed
                    | Some (first, rest) \<Rightarrow>
                        bind_result (validate_git_path first) (\<lambda>first.
                          if renaming (snd (snd (snd (snd h)))) then
                            (case rest of
                               [] \<Rightarrow> Inl Raw_Malformed
                             | second # rest' \<Rightarrow>
                                 bind_result (validate_git_path second) (\<lambda>path.
                                   bind_result (parse_raw_fields rest') (\<lambda>es.
                                     Inr (raw_entry h (Some first) path # es))))
                          else
                            bind_result (parse_raw_fields rest) (\<lambda>es. Inr (raw_entry h None first # es)))))"
  by pat_completeness auto
termination
  by (relation "measure length") (auto split: option.splits list.splits prod.splits if_splits)

declare parse_raw_fields.simps [simp del]

definition parse_raw_diff :: "string \<Rightarrow> git_error + raw_diff_entry list" where
  "parse_raw_diff output = parse_raw_fields (split_on nul output)"

definition numstat_record :: "string \<Rightarrow> git_error + string option" where
  \<comment> \<open>the path of a binary change; fewer than three fs is the \<^verbatim>\<open>ValueError\<close> of the unpacking\<close>
  "numstat_record r =
     (case split_tab r of
        None \<Rightarrow> Inl Numstat_Malformed
      | Some (added, counted) \<Rightarrow>
          (case split_tab counted of
             None \<Rightarrow> Inl Numstat_Malformed
           | Some (deleted, path) \<Rightarrow>
               if added = ''-'' \<and> deleted = ''-''
               then map_sum id Some (validate_git_path path) else Inr None))"

fun numstat_paths :: "string list \<Rightarrow> git_error + string list" where
  "numstat_paths [] = Inr []"
| "numstat_paths (r # rest) =
     bind_result (numstat_record r) (\<lambda>p. bind_result (numstat_paths rest) (\<lambda>ps.
       Inr (case p of None \<Rightarrow> ps | Some q \<Rightarrow> q # ps)))"

definition parse_binary_numstat :: "string \<Rightarrow> git_error + string list" where
  "parse_binary_numstat output = numstat_paths (filter (\<lambda>r. r \<noteq> []) (split_on nul output))"

subsection \<open>The raw format read back\<close>

text \<open>
  \<open>raw_text\<close> writes entries the way \<^verbatim>\<open>git diff --raw -z\<close> documents it: the header, then
  the paths, each ended by NUL.
\<close>

definition raw_fields :: "raw_diff_entry \<Rightarrow> string list" where
  "raw_fields e =
     [CHR '':'' # join_on CHR '' '' [rd_old_mode e, rd_new_mode e, rd_old_object_id e,
        rd_new_object_id e, rd_status e]]
     @ (case rd_old_path e of None \<Rightarrow> [] | Some p \<Rightarrow> [p]) @ [rd_path e]"

definition raw_text :: "raw_diff_entry list \<Rightarrow> string" where
  "raw_text es = concat (map (\<lambda>f. f @ [nul]) (concat (map raw_fields es)))"

definition raw_entry_ok :: "raw_diff_entry \<Rightarrow> bool" where
  "raw_entry_ok e \<longleftrightarrow>
     octal_mode (rd_old_mode e) \<and> octal_mode (rd_new_mode e)
     \<and> raw_object_id (rd_old_object_id e) \<and> raw_object_id (rd_new_object_id e)
     \<and> raw_status (rd_status e) \<and> (renaming (rd_status e) \<longleftrightarrow> rd_old_path e \<noteq> None)
     \<and> opt_all git_path_ok (rd_old_path e) \<and> git_path_ok (rd_path e)"

lemma split_on_cut: "d \<notin> set w \<Longrightarrow> split_on d (w @ d # s) = w # split_on d s"
  by (induction w) auto

lemma split_on_whole: "d \<notin> set w \<Longrightarrow> split_on d w = [w]"
  by (induction w) auto

lemma split_on_terminated:
  "(\<And>f. f \<in> set fs \<Longrightarrow> d \<notin> set f) \<Longrightarrow> split_on d (concat (map (\<lambda>f. f @ [d]) fs)) = fs @ [[]]"
  by (induction fs) (simp_all add: split_on_cut)

definition unseparated :: "string \<Rightarrow> bool" where
  \<comment> \<open>no blank, tab or NUL\<close>
  "unseparated w \<longleftrightarrow> list_all (\<lambda>c. (of_char c :: nat) \<notin> {0, 9, 32}) w"

lemma unseparated_chars:
  assumes "unseparated w"
  shows "CHR '' '' \<notin> set w" "nul \<notin> set w" "CHR 0x09 \<notin> set w"
  using assms by (auto simp: unseparated_def list_all_iff nul_def)

lemma octal_unseparated: "octal_mode m \<Longrightarrow> unseparated m"
proof -
  have "c \<in> set ''01234567'' \<Longrightarrow> (of_char c :: nat) \<notin> {0, 9, 32}" for c by auto
  then show "octal_mode m \<Longrightarrow> unseparated m"
    unfolding octal_mode_def unseparated_def by (elim conjE, elim list.pred_mono_strong) blast
qed

lemma oid_unseparated: "raw_object_id m \<Longrightarrow> unseparated m"
proof -
  have "is_lower_hex c \<Longrightarrow> (of_char c :: nat) \<notin> {0, 9, 32}" for c
    by (auto simp: is_lower_hex_def is_digit_def)
  then show "raw_object_id m \<Longrightarrow> unseparated m"
    unfolding raw_object_id_def unseparated_def by (elim conjE, elim list.pred_mono_strong) blast
qed

lemma status_unseparated: "raw_status m \<Longrightarrow> unseparated m"
  by (auto simp: raw_status_def unseparated_def list_all_iff is_upper_def is_digit_def split: list.splits)

lemma join_on_chars: "c \<in> set (join_on d ws) \<Longrightarrow> c = d \<or> (\<exists>w \<in> set ws. c \<in> set w)"
  by (induction d ws rule: join_on.induct) auto

definition raw_header_text :: "raw_diff_entry \<Rightarrow> string" where
  "raw_header_text e = hd (raw_fields e)"

lemma header_reads_back:
  assumes "raw_entry_ok e"
  shows "raw_header (raw_header_text e) =
      Some (rd_old_mode e, rd_new_mode e, rd_old_object_id e, rd_new_object_id e, rd_status e)"
    and "nul \<notin> set (raw_header_text e)" and "split_tab (raw_header_text e) = None"
    and "raw_header_text e \<noteq> []"
proof -
  let ?ws = "[rd_old_mode e, rd_new_mode e, rd_old_object_id e, rd_new_object_id e, rd_status e]"
  have t: "raw_header_text e = CHR '':'' # join_on CHR '' '' ?ws"
    by (simp add: raw_header_text_def raw_fields_def)
  have free: "list_all unseparated ?ws"
    using assms by (simp add: raw_entry_ok_def octal_unseparated oid_unseparated status_unseparated)
  then have blank: "CHR '' '' \<notin> set (CHR '':'' # rd_old_mode e)" "CHR '' '' \<notin> set (rd_new_mode e)"
      "CHR '' '' \<notin> set (rd_old_object_id e)" "CHR '' '' \<notin> set (rd_new_object_id e)"
      "CHR '' '' \<notin> set (rd_status e)"
    by (simp_all add: unseparated_chars)
  have clean: "c \<notin> set (join_on CHR '' '' ?ws)" if "c \<in> {nul, CHR 0x09}" for c
  proof
    assume "c \<in> set (join_on CHR '' '' ?ws)"
    then have "c = CHR '' '' \<or> (\<exists>w \<in> set ?ws. c \<in> set w)" by (rule join_on_chars)
    moreover have "w \<in> set ?ws \<Longrightarrow> c \<notin> set w" for w
      using free that unseparated_chars(2,3) unfolding list_all_iff by blast
    ultimately show False using that by (auto simp: nul_def)
  qed
  have "raw_header_text e = (CHR '':'' # rd_old_mode e) @ CHR '' '' # rd_new_mode e @ CHR '' ''
      # rd_old_object_id e @ CHR '' '' # rd_new_object_id e @ CHR '' '' # rd_status e"
    by (simp add: t)
  then have "split_on CHR '' '' (raw_header_text e) =
      [CHR '':'' # rd_old_mode e, rd_new_mode e, rd_old_object_id e, rd_new_object_id e, rd_status e]"
    by (simp only: split_on_cut [OF blank(1)] split_on_cut [OF blank(2)] split_on_cut [OF blank(3)]
        split_on_cut [OF blank(4)] split_on_whole [OF blank(5)])
  then show "raw_header (raw_header_text e) =
      Some (rd_old_mode e, rd_new_mode e, rd_old_object_id e, rd_new_object_id e, rd_status e)"
    using assms by (simp add: raw_header_def raw_entry_ok_def starts_with_def)
  show "nul \<notin> set (raw_header_text e)"
    using clean [of nul] by (simp add: t) (simp add: nul_def)
  show "split_tab (raw_header_text e) = None"
    unfolding split_tab_def cut_at_None t using clean [of "CHR 0x09"] by simp
  show "raw_header_text e \<noteq> []" by (simp add: t)
qed

lemma lower_hex_id: "raw_object_id s \<Longrightarrow> lower s = s"
  by (simp add: raw_object_id_def lower_hex_fixed)

lemma parse_raw_entry:
  assumes "raw_entry_ok e"
  shows "parse_raw_fields (raw_fields e @ rest) = bind_result (parse_raw_fields rest) (\<lambda>es. Inr (e # es))"
proof -
  note h = header_reads_back [OF assms]
  have f: "raw_fields e = raw_header_text e
      # (case rd_old_path e of None \<Rightarrow> [] | Some p \<Rightarrow> [p]) @ [rd_path e]"
    by (simp add: raw_header_text_def raw_fields_def)
  have e: "raw_entry (rd_old_mode e, rd_new_mode e, rd_old_object_id e, rd_new_object_id e, rd_status e)
      (rd_old_path e) (rd_path e) = e"
    using assms by (simp add: raw_entry_def raw_entry_ok_def lower_hex_id)
  show ?thesis
  proof (cases "rd_old_path e")
    case None
    with assms e show ?thesis
      unfolding f by (subst parse_raw_fields.simps) (simp add: h raw_entry_ok_def validate_git_path_def)
  next
    case (Some old)
    with assms e show ?thesis
      unfolding f by (subst parse_raw_fields.simps) (simp add: h raw_entry_ok_def validate_git_path_def)
  qed
qed

lemma raw_fields_clean: "raw_entry_ok e \<Longrightarrow> f \<in> set (raw_fields e) \<Longrightarrow> nul \<notin> set f"
  using header_reads_back(2) [of e]
  by (auto simp: raw_fields_def raw_header_text_def raw_entry_ok_def git_path_ok_def split: option.splits)

lemma raw_diff_reads_back:
  assumes "list_all raw_entry_ok es"
  shows "parse_raw_diff (raw_text es) = Inr es"
proof -
  have "split_on nul (raw_text es) = concat (map raw_fields es) @ [[]]"
    unfolding raw_text_def
    by (rule split_on_terminated) (use assms raw_fields_clean in \<open>auto simp: list_all_iff\<close>)
  moreover have "parse_raw_fields (concat (map raw_fields es) @ [[]]) = Inr es"
    using assms
  proof (induction es)
    case Nil
    then show ?case by (simp add: parse_raw_fields.simps)
  next
    case (Cons e es)
    then show ?case by (simp add: parse_raw_entry)
  qed
  ultimately show ?thesis by (simp add: parse_raw_diff_def)
qed

end
