(* ===== verification/Manifests.thy ===== *)
theory Manifests
  imports Git_Text
begin

section \<open>Manifests and verification\<close>

text \<open>
  \<^verbatim>\<open>src/auto_code/manifests.py\<close> and \<^verbatim>\<open>src/auto_code/verification.py\<close>: the product
  manifest made from what Git reports, the build identity, the run of the verification
  commands, and the manifest a reviewer is given.  The process runner is an argument: it
  takes a world and a command and returns the result and the next world, or raises.
\<close>

datatype binding_error =
    Unit_Error unit_error | Git_Error git_error | Untracked_Outside_Roots | Denied_Path
  | Baseline_Mismatch | Commands_Not_Policy | Artifacts_Incomplete | Task_Status_Mismatch
  | Build_Mismatch | Verification_Mismatch | Browser_Mismatch | Manifest_Field_Invalid
  | Empty_Policy | Policy_Mismatch | Evidence_Missing | Process_Raised

subsection \<open>The product manifest\<close>

definition under_path :: "string \<Rightarrow> string \<Rightarrow> bool" where
  "under_path path base \<longleftrightarrow> path = base \<or> starts_with (base @ ''/'') path"

definition overlaps_policy :: "string \<Rightarrow> string list \<Rightarrow> bool" where
  "overlaps_policy path roots = list_ex (\<lambda>root. under_path path root \<or> under_path root path) roots"

definition product_file :: "project_config \<Rightarrow> git_manifest_file \<Rightarrow> binding_error + product_change_file" where
  "product_file config entry =
     (let f = \<lparr>pf_path = gf_path entry, pf_status = gf_status entry, pf_old_path = gf_old_path entry,
               pf_old_mode = gf_old_mode entry, pf_mode = gf_new_mode entry,
               pf_old_object_id = gf_old_object_id entry, pf_object_id = gf_object_id entry,
               pf_binary = gf_binary entry, pf_untracked = gf_untracked entry\<rparr>;
          denied = (\<lambda>p. overlaps_policy p (pj_protected_paths config @ pj_commit_excluded_paths config))
      in if gf_untracked entry \<and> \<not> list_ex (under_path (gf_path entry)) (pj_writable_roots config)
         then Inl Untracked_Outside_Roots
         else if denied (gf_path entry) \<or> \<not> opt_all (\<lambda>p. \<not> denied p) (gf_old_path entry) then Inl Denied_Path
         else if \<not> product_change_file_valid f then Inl (Unit_Error Field_Invalid)
         else Inr f)"

fun product_files :: "project_config \<Rightarrow> git_manifest_file list \<Rightarrow> binding_error + product_change_file list" where
  "product_files config [] = Inr []"
| "product_files config (e # es) =
     bind_result (product_file config e) (\<lambda>f. bind_result (product_files config es) (\<lambda>fs. Inr (f # fs)))"

definition build_product_manifest ::
  "project_config \<Rightarrow> git_manifest \<Rightarrow> binding_error + product_change_manifest" where
  "build_product_manifest config inputs =
     bind_result (product_files config (gm_files inputs)) (\<lambda>fs.
       map_sum Unit_Error id (product_manifest_from_files (gm_baseline_sha inputs) fs))"

subsection \<open>The build identity\<close>

definition command_hash :: "string list \<Rightarrow> string" where
  "command_hash command = hash_json (json_texts_of command)"

definition check_name :: "nat \<Rightarrow> string" where
  "check_name i = ''check-'' @ show_nat i"

definition command_hashes_of :: "string list list \<Rightarrow> (string \<times> string) list" where
  "command_hashes_of commands =
     map (\<lambda>(i, command). (check_name i, command_hash command)) (zip [1..<Suc (length commands)] commands)"

definition create_build_identity ::
  "string \<Rightarrow> product_change_manifest \<Rightarrow> project_config \<Rightarrow> string list list \<Rightarrow> string
   \<Rightarrow> binding_error + build_identity" where
  "create_build_identity baseline manifest policy commands runtime_hash =
     (if lower baseline \<noteq> lower (pm_baseline_sha manifest) then Inl Baseline_Mismatch
      else if commands \<noteq> vp_commands (pj_verification policy) then Inl Commands_Not_Policy
      else
        let b = \<lparr>bi_baseline_sha = baseline, bi_product_manifest_hash = pm_content_hash manifest,
                 bi_project_policy_hash = policy_hash policy,
                 bi_command_hashes = command_hashes_of commands, bi_runtime_hash = runtime_hash\<rparr>
        in if build_identity_valid b then Inr b else Inl (Unit_Error Field_Invalid))"

subsection \<open>Running the verification commands\<close>

record command_result =
  cr_returncode :: int
  cr_failure_kind :: "string option"
  cr_stdout :: "evidence_ref option"   \<comment> \<open>\<^verbatim>\<open>None\<close> when it is no evidence reference\<close>
  cr_stderr :: "evidence_ref option"

type_synonym 'w process_runner = "'w \<Rightarrow> string list \<Rightarrow> command_result option \<times> 'w"

fun run_checks ::
  "'w process_runner \<Rightarrow> nat \<Rightarrow> string list list \<Rightarrow> 'w \<Rightarrow> (binding_error + verification_check list) \<times> 'w" where
  "run_checks run i [] w = (Inr [], w)"
| "run_checks run i (argv # rest) w =
     (case run w argv of
        (None, w') \<Rightarrow> (Inl Process_Raised, w')
      | (Some r, w') \<Rightarrow>
          (case (cr_stdout r, cr_stderr r) of
             (Some out, Some err) \<Rightarrow>
               let c = \<lparr>vc_command_id = check_name i, vc_command_hash = command_hash argv,
                        vc_returncode = cr_returncode r, vc_failure_kind = cr_failure_kind r,
                        vc_stdout_evidence = out, vc_stderr_evidence = err\<rparr>
               in if \<not> verification_check_valid c then (Inl (Unit_Error Field_Invalid), w')
                  else (case run_checks run (Suc i) rest w' of
                          (Inl e, w'') \<Rightarrow> (Inl e, w'')
                        | (Inr cs, w'') \<Rightarrow> (Inr (c # cs), w''))
           | _ \<Rightarrow> (Inl Evidence_Missing, w')))"

definition run_all ::
  "'w process_runner \<Rightarrow> project_config \<Rightarrow> build_identity \<Rightarrow> 'w
   \<Rightarrow> (binding_error + verification_record) \<times> 'w" where
  "run_all run config build w =
     (let commands = vp_commands (pj_verification config) in
      if commands = [] \<and> \<not> vp_allow_empty (pj_verification config) then (Inl Empty_Policy, w)
      else if bi_project_policy_hash build \<noteq> policy_hash config then (Inl Policy_Mismatch, w)
      else if bi_command_hashes build \<noteq> command_hashes_of commands then (Inl Commands_Not_Policy, w)
      else (case run_checks run 1 commands w of
              (Inl e, w') \<Rightarrow> (Inl e, w')
            | (Inr checks, w') \<Rightarrow>
                let v = \<lparr>vr_build_identity_hash = hash_json (build_identity_json build), vr_checks = checks,
                         vr_passed = list_all (\<lambda>c. vc_returncode c = 0) checks,
                         vr_empty_authorized = (checks = [])\<rparr>
                in (if verification_record_valid (Some build) v then Inr v
                    else Inl (Unit_Error Field_Invalid), w')))"

subsection \<open>The review manifest\<close>

definition validate_verification ::
  "verification_record \<Rightarrow> build_identity \<Rightarrow> binding_error + unit" where
  "validate_verification v build =
     (if lower (vr_build_identity_hash v) \<noteq> lower (hash_json (build_identity_json build))
      then Inl Verification_Mismatch
      else if \<not> verification_record_valid (Some build) v then Inl Verification_Mismatch
      else Inr ())"

definition unit_status_value :: "unit_status \<Rightarrow> string" where
  "unit_status_value st = (case st of UNCHECKED \<Rightarrow> ''unchecked'' | CHECKED \<Rightarrow> ''checked'')"

definition task_status_manifest_json :: "task_status_manifest \<Rightarrow> json" where
  "task_status_manifest_json m =
     JObj [(''definition_hash'', JStr (tsm_definition_hash m)),
           (''statuses'', JList (map (\<lambda>t. JObj [(''task_id'', JStr (ts_task_id t)),
              (''status'', JStr (unit_status_value (ts_status t)))]) (tsm_statuses m)))]"

definition create_review_manifest ::
  "requirements_package \<Rightarrow> change_outline_unit \<Rightarrow> (string \<times> string) list \<Rightarrow> task_definition_manifest
   \<Rightarrow> task_status_manifest \<Rightarrow> product_change_manifest \<Rightarrow> project_config \<Rightarrow> build_identity
   \<Rightarrow> verification_record \<Rightarrow> browser_record \<Rightarrow> binding_error + review_manifest_unit" where
  "create_review_manifest requirements outline artifacts definitions status product policy build v browser =
     (if set (map fst artifacts) \<noteq> {''proposal'', ''specs'', ''design'', ''tasks''} then Inl Artifacts_Incomplete
      else if lower (tsm_definition_hash status) \<noteq> lower (tdm_definition_hash definitions)
      then Inl Task_Status_Mismatch
      else if lower (bi_baseline_sha build) \<noteq> lower (pm_baseline_sha product)
              \<or> lower (bi_product_manifest_hash build) \<noteq> lower (pm_content_hash product)
              \<or> lower (bi_project_policy_hash build) \<noteq> lower (policy_hash policy)
      then Inl Build_Mismatch
      else if bi_command_hashes build \<noteq> command_hashes_of (vp_commands (pj_verification policy))
      then Inl Commands_Not_Policy
      else bind_result (validate_verification v build) (\<lambda>_.
        if \<not> browser_record_valid (Some (Some (co_browser_e2e_decision outline), Some build)) browser
        then Inl Browser_Mismatch
        else
          let m = \<lparr>rm_baseline_sha = pm_baseline_sha product,
                   rm_requirements_package_hash = hash_json (requirements_package_json requirements),
                   rm_change_outline_hash = hash_json (change_outline_json outline),
                   rm_artifact_hashes = artifacts,
                   rm_task_definition_hash = tdm_definition_hash definitions,
                   rm_task_status_hash = hash_json (task_status_manifest_json status),
                   rm_product_manifest_hash = pm_content_hash product,
                   rm_build_identity_hash = hash_json (build_identity_json build),
                   rm_project_policy_hash = policy_hash policy,
                   rm_verification_result_hash = hash_json (verification_record_json v),
                   rm_browser_result_hash = hash_json (browser_record_json browser)\<rparr>
          in if review_manifest_valid m then Inr m else Inl Manifest_Field_Invalid))"

subsection \<open>What the builders guarantee\<close>

lemma product_file_Inr:
  assumes "product_file config e = Inr f"
  shows "pf_path f = gf_path e" "product_change_file_valid f" "pf_untracked f = gf_untracked e"
    "\<not> overlaps_policy (pf_path f) (pj_protected_paths config @ pj_commit_excluded_paths config)"
    "opt_all (\<lambda>p. \<not> overlaps_policy p (pj_protected_paths config @ pj_commit_excluded_paths config)) (pf_old_path f)"
    "pf_untracked f \<Longrightarrow> \<exists>base \<in> set (pj_writable_roots config). under_path (pf_path f) base"
  using assms by (auto simp: product_file_def Let_def list_ex_iff split: if_splits)

definition permitted_file :: "project_config \<Rightarrow> product_change_file \<Rightarrow> bool" where
  "permitted_file config f \<longleftrightarrow>
     product_change_file_valid f
     \<and> (\<forall>p \<in> {pf_path f} \<union> set_option (pf_old_path f).
          \<not> overlaps_policy p (pj_protected_paths config @ pj_commit_excluded_paths config))
     \<and> (pf_untracked f \<longrightarrow> (\<exists>base \<in> set (pj_writable_roots config). under_path (pf_path f) base))"

lemma product_files_Inr:
  "product_files config es = Inr fs \<Longrightarrow>
     map pf_path fs = map gf_path es \<and> (\<forall>f \<in> set fs. permitted_file config f)"
proof (induction es arbitrary: fs)
  case Nil
  then show ?case by simp
next
  case (Cons e es)
  then obtain f fs' where f: "product_file config e = Inr f" "product_files config es = Inr fs'" "fs = f # fs'"
    by (auto simp: bind_result_Inr)
  have "permitted_file config f"
    using product_file_Inr [OF f(1)] by (auto simp: permitted_file_def opt_all_def split: option.splits)
  with Cons.IH [OF f(2)] f(3) product_file_Inr(1) [OF f(1)] show ?case by auto
qed

lemma from_files_Inr:
  "product_manifest_from_files baseline fs = Inr m \<Longrightarrow>
     product_manifest_valid m \<and> pm_files m = fs \<and> pm_baseline_sha m = baseline
     \<and> pm_content_hash m = hash_json (product_manifest_payload m)"
  by (auto simp: product_manifest_from_files_def Let_def product_manifest_payload_def split: if_splits)

lemma map_sum_id_Inr: "map_sum f id r = Inr x \<longleftrightarrow> r = Inr x"
  by (cases r) simp_all

lemma build_product_manifest_Inr:
  assumes "build_product_manifest config inputs = Inr m"
  shows "product_manifest_valid m" "map pf_path (pm_files m) = map gf_path (gm_files inputs)"
    "\<forall>f \<in> set (pm_files m). permitted_file config f"
proof -
  obtain fs where fs: "product_files config (gm_files inputs) = Inr fs"
      "product_manifest_from_files (gm_baseline_sha inputs) fs = Inr m"
    using assms unfolding build_product_manifest_def
    by (auto simp: bind_result_Inr map_sum_id_Inr)
  from from_files_Inr [OF fs(2)] product_files_Inr [OF fs(1)]
  show "product_manifest_valid m" "map pf_path (pm_files m) = map gf_path (gm_files inputs)"
    "\<forall>f \<in> set (pm_files m). permitted_file config f"
    by auto
qed

lemma build_product_manifest_hash:
  "build_product_manifest config inputs = Inr m \<Longrightarrow>
     pm_content_hash m = hash_json (product_manifest_payload m)"
  by (auto simp: build_product_manifest_def bind_result_Inr map_sum_id_Inr dest!: from_files_Inr)

lemma zip_upt_Cons:
  "zip [i..<Suc (i + n)] (c # cs) = (i, c) # zip [Suc i..<Suc (i + n)] cs"
  by (simp add: upt_conv_Cons del: upt_Suc)

lemma run_checks_Inr:
  "run_checks run i commands w = (Inr cs, w') \<Longrightarrow>
     map (\<lambda>c. (vc_command_id c, vc_command_hash c)) cs
       = map (\<lambda>(i, command). (check_name i, command_hash command)) (zip [i..<i + length commands] commands)
     \<and> list_all verification_check_valid cs"
proof (induction run i commands w arbitrary: cs w' rule: run_checks.induct)
  case (1 run i w)
  then show ?case by simp
next
  case (2 run i argv rest w)
  obtain r w1 where r: "run w argv = (Some r, w1)"
    using 2(2) by (cases "run w argv") (auto split: option.splits)
  obtain out err where e: "cr_stdout r = Some out" "cr_stderr r = Some err"
    using 2(2) r by (auto split: option.splits)
  let ?c = "\<lparr>vc_command_id = check_name i, vc_command_hash = command_hash argv,
      vc_returncode = cr_returncode r, vc_failure_kind = cr_failure_kind r,
      vc_stdout_evidence = out, vc_stderr_evidence = err\<rparr>"
  obtain cs' where cs: "run_checks run (Suc i) rest w1 = (Inr cs', w')" "cs = ?c # cs'"
      "verification_check_valid ?c"
    using 2(2) r e by (auto simp: Let_def split: if_splits sum.splits prod.splits)
  have "map (\<lambda>c. (vc_command_id c, vc_command_hash c)) cs'
      = map (\<lambda>(i, command). (check_name i, command_hash command)) (zip [Suc i..<Suc i + length rest] rest)
      \<and> list_all verification_check_valid cs'"
    by (rule 2(1) [OF r [symmetric] refl]) (use e cs in \<open>auto simp: Let_def\<close>)
  with cs(2,3) show ?case by (simp add: zip_upt_Cons del: upt_Suc)
qed

lemma run_all_Inr:
  assumes "run_all run config build w = (Inr v, w')"
  shows "verification_record_valid (Some build) v"
    "vr_build_identity_hash v = hash_json (build_identity_json build)"
    "map (\<lambda>c. (vc_command_id c, vc_command_hash c)) (vr_checks v)
       = command_hashes_of (vp_commands (pj_verification config))"
    "vr_passed v = list_all (\<lambda>c. vc_returncode c = 0) (vr_checks v)"
  using assms
  by (auto simp: run_all_def Let_def command_hashes_of_def simp del: upt_Suc
      dest!: run_checks_Inr split: if_splits sum.splits prod.splits)

lemma run_all_validates:
  "run_all run config build w = (Inr v, w') \<Longrightarrow> validate_verification v build = Inr ()"
  by (simp add: validate_verification_def run_all_Inr)

end
