(* ===== verification/Policy_Laws.thy ===== *)
theory Policy_Laws
  imports Project_Policy
begin

section \<open>What an accepted policy is\<close>

text \<open>
  Reading each part of a policy and writing it again: the parts that were accepted are
  accepted again as the same values, and every command list holds commands that pass the
  command check.
\<close>

lemma accept_Some [simp]: "accept P x = Some y \<longleftrightarrow> P x \<and> y = x"
  by (auto simp: accept_def)

lemma json_value_readers [simp]:
  "json_text (JStr s) = Some s" "json_int (JInt i) = Some i" "json_bool (JBool b) = Some b"
  by (simp_all add: json_text_def json_int_def json_bool_def)

lemma int_within_again [simp]: "int_within P (JInt i) = (if P i then Some i else None)"
  by (simp add: int_within_def accept_def)

lemma int_within_Some: "int_within P v = Some i \<Longrightarrow> P i"
  by (auto simp: int_within_def bind_eq_Some_conv)

lemma nullable_text [simp]: "nullable json_text (json_opt t) = Some t"
  by (cases t) (simp_all add: nullable_def json_opt_def)

lemma json_list_texts [simp]: "json_list json_text (json_texts_of xs) = Some xs"
  by (induction xs) (simp_all add: json_list_def json_texts_of_def)

lemma json_list_Some: "json_list f v = Some xs \<Longrightarrow> (\<And>w x. f w = Some x \<Longrightarrow> P x) \<Longrightarrow> list_all P xs"
  by (auto simp: json_list_def split: json.splits intro: those_list_all)

lemma command_of_Some: "command_of v = Some c \<Longrightarrow> command_ok c"
  by (auto simp: command_of_def bind_eq_Some_conv)

lemma command_of_again [simp]: "command_of (json_texts_of c) = (if command_ok c then Some c else None)"
  by (simp add: command_of_def accept_def)

lemma commands_Some: "json_list command_of v = Some cs \<Longrightarrow> list_all command_ok cs"
  by (erule json_list_Some) (rule command_of_Some)

lemma commands_again [simp]:
  "list_all command_ok cs \<Longrightarrow> json_list command_of (commands_json cs) = Some cs"
  by (induction cs) (simp_all add: json_list_def commands_json_def)

lemma nullable_command_Some: "nullable command_of v = Some c \<Longrightarrow> opt_all command_ok c"
  by (auto simp: nullable_def opt_all_def command_of_Some split: json.splits option.splits)

lemma nullable_command_again [simp]:
  "opt_all command_ok c \<Longrightarrow> nullable command_of (opt_json json_texts_of c) = Some c"
  by (cases c) (simp_all add: nullable_def opt_json_def json_texts_of_def opt_all_def,
      simp add: json_texts_of_def [symmetric])

lemma path_list_Some: "path_list_of v = Some ps \<Longrightarrow> list_all policy_path_ok ps \<and> no_dups ps"
  by (auto simp: path_list_of_def bind_eq_Some_conv elim!: json_list_Some)

lemma path_list_again [simp]:
  "list_all policy_path_ok ps \<Longrightarrow> no_dups ps \<Longrightarrow> path_list_of (json_texts_of ps) = Some ps"
proof -
  assume ok: "list_all policy_path_ok ps" and "no_dups ps"
  from ok have "json_list (\<lambda>x. Option.bind (json_text x) (accept policy_path_ok)) (json_texts_of ps) = Some ps"
    by (induction ps) (simp_all add: json_list_def json_texts_of_def accept_def)
  with \<open>no_dups ps\<close> show "path_list_of (json_texts_of ps) = Some ps"
    by (simp add: path_list_of_def accept_def)
qed

lemma field_or_Some: "field_or kvs k d f = Some x \<Longrightarrow> x = d \<or> (\<exists>v. f v = Some x)"
  by (auto simp: field_or_def split: option.splits)

lemma field_Some: "field kvs k f = Some x \<Longrightarrow> \<exists>v. f v = Some x"
  by (auto simp: field_def bind_eq_Some_conv)

subsection \<open>The parts of a policy\<close>

lemmas read_fields = bind_eq_Some_conv field_or_def field_def fields_of_def known_fields_def

lemma git_policy_again:
  "git_policy_of v = Some g \<Longrightarrow>
     git_policy_of (JObj [(''remote'', JStr (gp_remote g)), (''base_branch'', json_opt (gp_base_branch g))]) = Some g"
  by (auto simp: git_policy_of_def read_fields split: json.splits if_splits)

lemma verification_policy_commands:
  assumes "verification_policy_of v = Some p"
  shows "list_all command_ok (vp_commands p)" "list_all command_ok (vp_mutation_commands p)"
    "vp_commands p = [] \<longrightarrow> vp_allow_empty p"
  using assms
  by (auto simp: verification_policy_of_def bind_eq_Some_conv split: if_splits
      dest!: field_or_Some [where f = "json_list command_of"] field_Some commands_Some)

lemma verification_policy_again:
  assumes "verification_policy_of v = Some p"
  shows "verification_policy_of (JObj [(''allow_empty'', JBool (vp_allow_empty p)),
      (''commands'', commands_json (vp_commands p)),
      (''mutation_commands'', commands_json (vp_mutation_commands p))]) = Some p"
  using verification_policy_commands [OF assms]
  by (simp add: verification_policy_of_def read_fields)

lemma browser_policy_parts:
  assumes "browser_policy_of bracketed v = Some p"
  shows "opt_all command_ok (bp_start_command p)" "opt_all (local_base_url bracketed) (bp_base_url p)"
    "positive (bp_ready_timeout_seconds p)" "positive (bp_command_timeout_seconds p)"
    "command_ok (bp_playwright_command_prefix p)"
    "no_dups (bp_allowed_operations p)" "set (bp_allowed_operations p) \<subseteq> set playwright_operations"
    "(bp_start_command p = None) = (bp_base_url p = None)"
  using assms
  by (auto simp: browser_policy_of_def bind_eq_Some_conv split: if_splits
      dest!: field_Some nullable_command_Some command_of_Some int_within_Some)

lemma browser_policy_again:
  assumes "browser_policy_of bracketed v = Some p"
  shows "browser_policy_of bracketed (JObj [(''start_command'', opt_json json_texts_of (bp_start_command p)),
      (''base_url'', json_opt (bp_base_url p)),
      (''ready_timeout_seconds'', JInt (bp_ready_timeout_seconds p)),
      (''command_timeout_seconds'', JInt (bp_command_timeout_seconds p)),
      (''playwright_command_prefix'', json_texts_of (bp_playwright_command_prefix p)),
      (''allowed_operations'', json_texts_of (bp_allowed_operations p))]) = Some p"
  using browser_policy_parts [OF assms]
  by (simp add: browser_policy_of_def read_fields)

lemma process_policy_again:
  "process_policy_of v = Some p \<Longrightarrow>
     process_policy_of (JObj [(''command_timeout_seconds'', JInt (pp_command_timeout_seconds p)),
       (''termination_grace_seconds'', JInt (pp_termination_grace_seconds p))]) = Some p"
  by (auto simp: process_policy_of_def read_fields dest!: int_within_Some split: json.splits if_splits)

lemma transport_policy_again:
  "transport_policy_of v = Some p \<Longrightarrow>
     transport_policy_of (JObj [(''total_retry_wait_seconds'', JInt p)]) = Some p"
  by (auto simp: transport_policy_of_def read_fields dest!: int_within_Some split: json.splits if_splits)

lemma preflight_policy_parts:
  assumes "preflight_policy_of v = Some p"
  shows "between 1 300 (cp_catalog_timeout_seconds p)"
    "between 1024 8388608 (cp_max_catalog_response_bytes p)"
    "between 0 3 (cp_catalog_retry_budget p)" "between 1 3600 (cp_catalog_cache_validity_seconds p)"
  using assms by (auto simp: preflight_policy_of_def bind_eq_Some_conv dest!: field_Some int_within_Some)

lemma preflight_policy_again:
  assumes "preflight_policy_of v = Some p"
  shows "preflight_policy_of (JObj [(''catalog_timeout_seconds'', JInt (cp_catalog_timeout_seconds p)),
       (''max_catalog_response_bytes'', JInt (cp_max_catalog_response_bytes p)),
       (''catalog_retry_budget'', JInt (cp_catalog_retry_budget p)),
       (''catalog_cache_validity_seconds'', JInt (cp_catalog_cache_validity_seconds p))]) = Some p"
  using preflight_policy_parts [OF assms] by (simp add: preflight_policy_of_def read_fields)

lemma finalization_policy_again:
  "finalization_policy_of v = Some p \<Longrightarrow>
     finalization_policy_of (JObj [(''max_invocations_per_effect'', JInt (fp_max_invocations_per_effect p)),
       (''total_retry_wait_seconds'', JInt (fp_total_retry_wait_seconds p))]) = Some p"
  by (auto simp: finalization_policy_of_def read_fields dest!: int_within_Some split: json.splits if_splits)

lemma automation_policy_again:
  assumes "automation_policy_of v = Some p"
  shows "command_ok p" "automation_policy_of (JObj [(''regression_command'', json_texts_of p)]) = Some p"
proof -
  show "command_ok p"
    using assms by (auto simp: automation_policy_of_def bind_eq_Some_conv dest!: field_Some command_of_Some)
  then show "automation_policy_of (JObj [(''regression_command'', json_texts_of p)]) = Some p"
    by (simp add: automation_policy_of_def read_fields)
qed

lemma linear_policy_again:
  "linear_policy_of v = Some p \<Longrightarrow>
     linear_policy_of (JObj [(''started_state_id'', json_opt (lp_started_state_id p)),
       (''completed_state_id'', json_opt (lp_completed_state_id p))]) = Some p"
  by (auto simp: linear_policy_of_def read_fields split: json.splits if_splits)

lemma review_policy_again:
  "review_policy_of (JObj [(''require_distinct_model'', JBool p)]) = Some p"
  by (simp add: review_policy_of_def read_fields)

subsection \<open>A whole policy\<close>

lemma project_config_parts:
  assumes "project_config_of bracketed v = Some c"
  shows "\<exists>w. git_policy_of w = Some (pj_git c)" "\<exists>w. verification_policy_of w = Some (pj_verification c)"
    "\<exists>w. browser_policy_of bracketed w = Some (pj_browser c)" "\<exists>w. process_policy_of w = Some (pj_process c)"
    "\<exists>w. transport_policy_of w = Some (pj_transport_retry_wait c)"
    "\<exists>w. preflight_policy_of w = Some (pj_preflight c)"
    "\<exists>w. finalization_policy_of w = Some (pj_finalization c)"
    "\<exists>w. automation_policy_of w = Some (pj_regression_command c)"
    "\<exists>w. linear_policy_of w = Some (pj_linear c)"
    "environment_list_ok (pj_environment_allowlist c)" "path_roles_ok c"
  using assms
  by (auto simp: project_config_of_def bind_eq_Some_conv dest!: field_Some)

lemma path_list_default: "field_or kvs k [] path_list_of = Some ps \<Longrightarrow> list_all policy_path_ok ps \<and> no_dups ps"
  by (drule field_or_Some) (auto dest: path_list_Some)

lemma path_list_field: "field kvs k path_list_of = Some ps \<Longrightarrow> list_all policy_path_ok ps \<and> no_dups ps"
  by (drule field_Some) (auto dest: path_list_Some)

lemma project_config_paths:
  assumes "project_config_of bracketed v = Some c"
  shows "list_all policy_path_ok (pj_protected_paths c) \<and> no_dups (pj_protected_paths c)"
    "list_all policy_path_ok (pj_evidence_readable_paths c) \<and> no_dups (pj_evidence_readable_paths c)"
    "list_all policy_path_ok (pj_commit_excluded_paths c) \<and> no_dups (pj_commit_excluded_paths c)"
    "list_all policy_path_ok (pj_writable_roots c) \<and> no_dups (pj_writable_roots c)"
  using assms
  by (auto simp: project_config_of_def bind_eq_Some_conv simp del: not_None_eq
      dest!: path_list_default path_list_field)

lemma project_config_again:
  assumes "project_config_of bracketed v = Some c"
  shows "project_config_of bracketed (project_config_json c) = Some c"
proof -
  note parts = project_config_parts [OF assms]
  note paths = project_config_paths [OF assms]
  have lists: "path_list_of (json_texts_of (pj_protected_paths c)) = Some (pj_protected_paths c)"
      "path_list_of (json_texts_of (pj_evidence_readable_paths c)) = Some (pj_evidence_readable_paths c)"
      "path_list_of (json_texts_of (pj_commit_excluded_paths c)) = Some (pj_commit_excluded_paths c)"
      "path_list_of (json_texts_of (pj_writable_roots c)) = Some (pj_writable_roots c)"
    using paths by (auto intro: path_list_again)
  obtain w1 w2 w3 w4 w5 w6 w7 w8 w9 where again:
      "git_policy_of w1 = Some (pj_git c)" "verification_policy_of w2 = Some (pj_verification c)"
      "browser_policy_of bracketed w3 = Some (pj_browser c)" "process_policy_of w4 = Some (pj_process c)"
      "transport_policy_of w5 = Some (pj_transport_retry_wait c)"
      "preflight_policy_of w6 = Some (pj_preflight c)" "finalization_policy_of w7 = Some (pj_finalization c)"
      "automation_policy_of w8 = Some (pj_regression_command c)" "linear_policy_of w9 = Some (pj_linear c)"
    using parts by blast
  note reads = git_policy_again [OF again(1)] verification_policy_again [OF again(2)]
    browser_policy_again [OF again(3)] process_policy_again [OF again(4)] transport_policy_again [OF again(5)]
    preflight_policy_again [OF again(6)] finalization_policy_again [OF again(7)]
    automation_policy_again(2) [OF again(8)] linear_policy_again [OF again(9)]
    review_policy_again [of "pj_require_distinct_model c"]
  show ?thesis
    unfolding project_config_of_def project_config_json_def
    using parts(11) by (simp add: read_fields reads parts(10) lists path_roles_ok_def)
qed

lemma project_config_commands:
  assumes "project_config_of bracketed v = Some c"
    and "argv \<in> set (vp_commands (pj_verification c)) \<union> set (vp_mutation_commands (pj_verification c))
           \<union> {pj_regression_command c}"
  shows "command_ok argv"
  using project_config_parts(2,8) [OF assms(1)] verification_policy_commands(1,2) automation_policy_again(1) assms(2)
  by (auto simp: list_all_iff)

lemma load_policy_Some:
  "load_policy bracketed parse raw = Some c \<Longrightarrow> \<exists>v. parse raw = Some v \<and> project_config_of bracketed v = Some c"
  by (auto simp: load_policy_def split: if_splits option.splits json.splits)

end
