(* ===== verification/Unit_Guarantees.thy ===== *)
theory Unit_Guarantees
  imports Manifests Policy_Laws Sample_Receipts
begin

section \<open>Guarantees of the policy, the manifests and the texts of Git\<close>

text \<open>
  The properties of the Project Policy, of the readers of Git's output, and of the chain
  from the files Git reports to the manifest a reviewer is given.
\<close>

subsection \<open>A concrete project\<close>

definition sample_policy :: project_config where
  "sample_policy =
     \<lparr>pj_git = \<lparr>gp_remote = ''origin'', gp_base_branch = None\<rparr>,
      pj_verification = \<lparr>vp_allow_empty = False, vp_commands = [[''make'', ''test''], [''${PROJECT}/lint'']],
        vp_mutation_commands = []\<rparr>,
      pj_browser = \<lparr>bp_start_command = None, bp_base_url = None, bp_ready_timeout_seconds = 1,
        bp_command_timeout_seconds = 1, bp_playwright_command_prefix = [''pw''], bp_allowed_operations = []\<rparr>,
      pj_process = \<lparr>pp_command_timeout_seconds = 1, pp_termination_grace_seconds = 1\<rparr>,
      pj_transport_retry_wait = 0,
      pj_preflight = \<lparr>cp_catalog_timeout_seconds = 1, cp_max_catalog_response_bytes = 1024,
        cp_catalog_retry_budget = 0, cp_catalog_cache_validity_seconds = 1\<rparr>,
      pj_finalization = \<lparr>fp_max_invocations_per_effect = 1, fp_total_retry_wait_seconds = 0\<rparr>,
      pj_regression_command = [''make''], pj_protected_paths = [''ops''], pj_evidence_readable_paths = [],
      pj_commit_excluded_paths = [''out''], pj_writable_roots = [''src''], pj_environment_allowlist = [],
      pj_linear = \<lparr>lp_started_state_id = None, lp_completed_state_id = None\<rparr>,
      pj_require_distinct_model = False\<rparr>"

definition sample_change :: git_manifest_file where
  "sample_change =
     \<lparr>gf_path = ''src/a'', gf_status = ''A'', gf_old_path = None, gf_old_mode = ''000000'',
      gf_new_mode = ''100644'', gf_old_object_id = None, gf_object_id = Some (replicate 40 CHR ''b''),
      gf_binary = False, gf_untracked = True\<rparr>"

definition sample_changes :: git_manifest where
  "sample_changes = \<lparr>gm_baseline_sha = replicate 40 CHR ''a'', gm_files = [sample_change]\<rparr>"

lemma sample_path_ok: "evidence_path ''src/a''" "safe_text ''src/a''" "product_path ''src/a''"
proof -
  show "evidence_path ''src/a''" by code_simp
  show s: "safe_text ''src/a''" by (rule plain_safe(1)) (simp add: plain_simps)
  then show "product_path ''src/a''"
    by (auto simp: product_path_def validate_product_path_def safe_text_def sensitive_path_parts_def
        starts_with_def is_ok_iff)
qed

lemma sample_sha_ok [simp]:
  "git_sha (replicate 40 CHR ''a'')" "git_sha (replicate 40 CHR ''b'')"
  by code_simp+

lemma zeros_pattern: "sha256_pattern (replicate 64 CHR ''0'')"
  by code_simp

lemma sample_manifest: "\<exists>m. build_product_manifest sample_policy sample_changes = Inr m"
proof -
  have "\<exists>f. product_files sample_policy (gm_files sample_changes) = Inr [f] \<and> product_change_file_valid f"
    by (simp add: sample_changes_def sample_change_def sample_policy_def product_file_def Let_def
        under_path_def overlaps_policy_def starts_with_def product_change_file_valid_def sample_path_ok
        change_metadata_checks_def git_mode_def) code_simp
  then obtain f where f: "product_files sample_policy (gm_files sample_changes) = Inr [f]"
      "product_change_file_valid f"
    by blast
  then show ?thesis
    by (simp add: build_product_manifest_def product_manifest_from_files_def product_manifest_shape_def
        product_manifest_valid_def product_manifest_payload_def Let_def sized_def zeros_pattern)
      (simp add: sample_changes_def)
qed

subsection \<open>The policy\<close>

definition sample_roots :: launcher_roots where
  "sample_roots = \<lparr>lr_project_root = ''/p'', lr_runner_root = ''/r'', lr_repair_worktree = ''/w''\<rparr>"

lemma sample_commands_ok [simp]:
  "command_ok [''make'']" "command_ok [''make'', ''test'']" "command_ok [''${PROJECT}/lint'']" "command_ok [''pw'']"
  by code_simp+

lemma sample_policy_accepted:
  "project_config_of (\<lambda>_. True) (project_config_json sample_policy) = Some sample_policy"
proof -
  have lists: "path_list_of (json_texts_of [''ops'']) = Some [''ops'']"
      "path_list_of (json_texts_of [''out'']) = Some [''out'']"
      "path_list_of (json_texts_of [''src'']) = Some [''src'']" "path_list_of (json_texts_of []) = Some []"
      "safe_remote ''origin''"
    by code_simp+
  show ?thesis
    unfolding project_config_of_def project_config_json_def sample_policy_def
    by (simp add: read_fields lists git_policy_of_def verification_policy_of_def browser_policy_of_def
        process_policy_of_def transport_policy_of_def preflight_policy_of_def finalization_policy_of_def
        automation_policy_of_def linear_policy_of_def review_policy_of_def positive_def between_def
        opt_all_def nullable_def opt_json_def environment_list_ok_def no_dups_def path_roles_ok_def
        path_overlaps_def starts_with_def json_opt_def)
qed


lemma sample_policy_loads:
  "load_policy (\<lambda>_. True) (\<lambda>_. Some (project_config_json sample_policy)) [] = Some sample_policy"
proof -
  have "launcher_fields_free (project_config_json sample_policy)" by code_simp
  with sample_policy_accepted show ?thesis
    by (auto simp: load_policy_def project_config_json_def)
qed

text \<open>An accepted policy is accepted again.  The policy that loading returns, written as
  JSON for its hash and validated again, is the same policy, so that a policy that is passed
  on keeps its hash.\<close>

theorem policy_reads_back:
  assumes "load_policy bracketed parse raw = Some config"
  shows "project_config_of bracketed (project_config_json config) = Some config"
  using load_policy_Some [OF assms] project_config_again by blast

text \<open>Every command of an accepted policy can be run.  Expanding the launcher tokens of a
  verification, mutation or regression command of a policy that was loaded, with launcher roots
  whose paths contain no dollar sign, succeeds, keeps the number of arguments and leaves no
  token behind.\<close>

theorem policy_commands_expand:
  assumes "load_policy bracketed parse raw = Some config"
    and "argv \<in> set (vp_commands (pj_verification config)) \<union> set (vp_mutation_commands (pj_verification config))
           \<union> {pj_regression_command config}"
    and "\<forall>p \<in> {lr_project_root roots, lr_runner_root roots, lr_repair_worktree roots}.
           CHR ''$'' \<notin> set (path_text p)"
  shows "\<exists>out. expand_launcher_tokens roots argv = Some out \<and> length out = length argv
    \<and> list_all (\<lambda>a. CHR ''$'' \<notin> set a) out"
proof -
  have ok: "command_ok argv"
    using load_policy_Some [OF assms(1)] project_config_commands [OF _ assms(2)] by blast
  have "CHR ''$'' \<notin> set (token_root roots x)" for x
    using assms(3) by (simp add: token_root_def)
  then have "CHR ''$'' \<notin> set (sub_all launcher_token (token_root roots) a)" if "a \<in> set argv" for a
    using valid_argument_expands [of a roots] ok that
    by (auto simp: command_ok_def list_all_iff expand_argument_def Let_def split: if_splits)
  then show ?thesis
    using valid_command_expands [OF ok assms(3)] by (simp add: list_all_iff)
qed

subsection \<open>From Git to the review\<close>

text \<open>C31: the product manifest lists exactly the files Git reported and only permitted ones.
  A manifest that was built is valid, with its own content hash; it has the reported paths in
  their order; no path, new or old, lies in or above a protected or excluded path, and every
  untracked file lies under a writable root.\<close>

theorem product_manifest_is_permitted:
  assumes "build_product_manifest config inputs = Inr m"
  shows "product_manifest_valid m \<and> map pf_path (pm_files m) = map gf_path (gm_files inputs)
    \<and> list_all (permitted_file config) (pm_files m)"
  using build_product_manifest_Inr [OF assms] by (simp add: list_all_iff)

theorem product_manifest_is_permitted_applied:
  "\<exists>m. build_product_manifest sample_policy sample_changes = Inr m \<and> product_manifest_valid m
     \<and> map pf_path (pm_files m) = [''src/a'']"
proof -
  obtain m where m: "build_product_manifest sample_policy sample_changes = Inr m"
    using sample_manifest by blast
  from product_manifest_is_permitted [OF m] m show ?thesis
    by (auto simp: sample_changes_def sample_change_def)
qed

text \<open>C32: what the pipeline produces fits together.  When a product manifest was built from
  Git, a build identity was created for it and the commands of the policy, the verification
  ran to an end and the browser result is valid for that build and the outline's decision,
  then the review manifest is created, and it carries the hashes of exactly these values.\<close>

theorem pipeline_outputs_reviewable:
  assumes "build_product_manifest config inputs = Inr product"
    and "create_build_identity (pm_baseline_sha product) product config
           (vp_commands (pj_verification config)) runtime = Inr build"
    and "run_all run config build w = (Inr v, w')"
    and "browser_record_valid (Some (Some (co_browser_e2e_decision outline), Some build)) browser"
    and "set (map fst artifacts) = {''proposal'', ''specs'', ''design'', ''tasks''}"
    and "sized 1 128 artifacts" and "named_hashes_valid artifacts"
    and "tsm_definition_hash status = tdm_definition_hash definitions"
    and "sha256_pattern (tdm_definition_hash definitions)"
  shows "\<exists>m. create_review_manifest requirements outline artifacts definitions status product config
           build v browser = Inr m
    \<and> review_manifest_valid m
    \<and> rm_product_manifest_hash m = hash_json (product_manifest_payload product)
    \<and> rm_build_identity_hash m = vr_build_identity_hash v
    \<and> rm_project_policy_hash m = policy_hash config
    \<and> rm_verification_result_hash m = hash_json (verification_record_json v)
    \<and> rm_browser_result_hash m = hash_json (browser_record_json browser)"
proof -
  have product: "product_manifest_valid product" "pm_content_hash product = hash_json (product_manifest_payload product)"
    using build_product_manifest_Inr(1) [OF assms(1)] build_product_manifest_hash [OF assms(1)] by auto
  have build: "bi_baseline_sha build = pm_baseline_sha product"
      "bi_product_manifest_hash build = pm_content_hash product" "bi_project_policy_hash build = policy_hash config"
      "bi_command_hashes build = command_hashes_of (vp_commands (pj_verification config))"
    using assms(2) by (auto simp: create_build_identity_def Let_def split: if_splits)
  have "git_sha (pm_baseline_sha product)"
    using product(1) by (simp add: product_manifest_valid_def product_manifest_shape_def)
  then show ?thesis
    using assms(5-9) build product(2) run_all_validates [OF assms(3)] run_all_Inr(2) [OF assms(3)] assms(4)
    by (auto simp: create_review_manifest_def Let_def review_manifest_valid_def policy_hash_def)
qed

definition sample_run :: "unit process_runner" where
  "sample_run w argv =
     (Some \<lparr>cr_returncode = 0, cr_failure_kind = None, cr_stdout = Some sample_evidence,
            cr_stderr = Some sample_evidence\<rparr>, w)"

definition sample_outline :: change_outline_unit where
  "sample_outline =
     \<lparr>co_change_id = ''c1'', co_artifact_units = [], co_direct_dependency_hashes = [],
      co_browser_e2e_decision = \<lparr>bd_required = False, bd_reason = ''none'', bd_scenarios = []\<rparr>\<rparr>"

definition sample_skipped :: "build_identity \<Rightarrow> browser_record" where
  "sample_skipped build =
     \<lparr>br_status = BROWSER_SKIPPED,
      br_browser_e2e_decision_hash = hash_json (browser_decision_json (co_browser_e2e_decision sample_outline)),
      br_build_identity_hash = hash_json (build_identity_json build), br_reason = ''none'',
      br_scenario_observations = [], br_evidence = [sample_evidence]\<rparr>"

definition sample_requirements :: requirements_package where
  "sample_requirements =
     \<lparr>rp_objective = ''goal'', rp_in_scope = [''a''], rp_out_of_scope = [''b''],
      rp_requirements = [\<lparr>cr_requirement_id = ''r1'', cr_text = ''t'', cr_sources = []\<rparr>],
      rp_acceptance_criteria = [\<lparr>cc_criterion_id = ''c1'', cc_text = ''t'', cc_sources = []\<rparr>],
      rp_constraints = [], rp_dependencies = [], rp_ambiguities = []\<rparr>"

lemma sample_names_ok [simp]:
  "reference_id ''check-1''" "reference_id ''check-2''" "check_name (Suc 0) = ''check-1''"
  "check_name (Suc (Suc 0)) = ''check-2''"
  "reference_id ''proposal''" "reference_id ''specs''" "reference_id ''design''" "reference_id ''tasks''"
  by code_simp+

lemma sample_names_safe [simp]:
  "safe_text ''check-1''" "safe_text ''check-2''" "safe_text ''proposal''" "safe_text ''specs''"
  "safe_text ''design''" "safe_text ''tasks''" "safe_text ''none''"
  by (rule plain_safe(1), simp add: plain_simps)+

lemma sample_commands [simp]:
  "vp_commands (pj_verification sample_policy) = [[''make'', ''test''], [''${PROJECT}/lint'']]"
  by (simp add: sample_policy_def)

lemma sample_build:
  assumes "build_product_manifest sample_policy sample_changes = Inr product"
  shows "\<exists>build. create_build_identity (pm_baseline_sha product) product sample_policy
      (vp_commands (pj_verification sample_policy)) (hash_json JNull) = Inr build"
proof -
  have "git_sha (pm_baseline_sha product)"
    using build_product_manifest_Inr(1) [OF assms] by (simp add: product_manifest_valid_def product_manifest_shape_def)
  then show ?thesis
    by (simp add: create_build_identity_def Let_def build_identity_valid_def policy_hash_def
        build_product_manifest_hash [OF assms] command_hashes_of_def sized_def
        named_hashes_valid_def command_hash_def no_dups_def upt_rec)
qed

lemma sample_verified:
  assumes "create_build_identity baseline product sample_policy
      (vp_commands (pj_verification sample_policy)) runtime = Inr build"
  shows "\<exists>v. run_all sample_run sample_policy build () = (Inr v, ())"
proof -
  have b: "bi_project_policy_hash build = policy_hash sample_policy"
      "bi_command_hashes build = command_hashes_of (vp_commands (pj_verification sample_policy))"
    using assms by (auto simp: create_build_identity_def Let_def split: if_splits)
  show ?thesis
    using b sample_evidence_valid
    by (simp add: run_all_def Let_def sample_run_def verification_check_valid_def command_hash_def
        verification_record_valid_def verification_checks_def sized_def command_hashes_of_def upt_rec
        opt_all_def)
qed

definition sample_artifacts :: "(string \<times> string) list" where
  "sample_artifacts = map (\<lambda>n. (n, hash_json JNull)) [''proposal'', ''specs'', ''design'', ''tasks'']"

theorem pipeline_outputs_reviewable_applied:
  "\<exists>product build v m.
     build_product_manifest sample_policy sample_changes = Inr product
     \<and> run_all sample_run sample_policy build () = (Inr v, ())
     \<and> create_review_manifest sample_requirements sample_outline sample_artifacts
         \<lparr>tdm_definition_hash = hash_json JNull, tdm_tasks = []\<rparr>
         \<lparr>tsm_definition_hash = hash_json JNull, tsm_statuses = []\<rparr>
         product sample_policy build v (sample_skipped build) = Inr m
     \<and> rm_build_identity_hash m = vr_build_identity_hash v"
proof -
  obtain product where product: "build_product_manifest sample_policy sample_changes = Inr product"
    using sample_manifest by blast
  obtain build where build: "create_build_identity (pm_baseline_sha product) product sample_policy
      (vp_commands (pj_verification sample_policy)) (hash_json JNull) = Inr build"
    using sample_build [OF product] by blast
  obtain v where v: "run_all sample_run sample_policy build () = (Inr v, ())"
    using sample_verified [OF build] by blast
  have browser: "browser_record_valid (Some (Some (co_browser_e2e_decision sample_outline), Some build))
      (sample_skipped build)"
    by (simp add: browser_record_valid_def sample_skipped_def sample_outline_def tester_checks_def
        observation_checks_def sized_def bounded_text_def sample_evidence_valid trimmed_def) code_simp
  have artifacts: "set (map fst sample_artifacts) = {''proposal'', ''specs'', ''design'', ''tasks''}"
      "sized 1 128 sample_artifacts" "named_hashes_valid sample_artifacts"
    by (simp_all add: sample_artifacts_def sized_def named_hashes_valid_def no_dups_def)
  show ?thesis
    using pipeline_outputs_reviewable [OF product build v browser artifacts,
        of "\<lparr>tsm_definition_hash = hash_json JNull, tsm_statuses = []\<rparr>"
           "\<lparr>tdm_definition_hash = hash_json JNull, tdm_tasks = []\<rparr>" sample_requirements]
      product v by auto
qed

text \<open>The verification result reports what ran.  A run that ends has one check per command
  of the policy, in its order and with its hash; it passed exactly when every command returned
  zero; and the result is valid for the build it was run for, as the review manifest demands.\<close>

theorem verification_reports_every_command:
  assumes "run_all run config build w = (Inr v, w')"
  shows "map (\<lambda>c. (vc_command_id c, vc_command_hash c)) (vr_checks v)
           = command_hashes_of (vp_commands (pj_verification config))
    \<and> (vr_passed v \<longleftrightarrow> list_all (\<lambda>c. vc_returncode c = 0) (vr_checks v))
    \<and> validate_verification v build = Inr ()"
  using run_all_Inr(3,4) [OF assms] run_all_validates [OF assms] by blast

theorem verification_reports_every_command_applied:
  "\<exists>build v. run_all sample_run sample_policy build () = (Inr v, ())
     \<and> map vc_command_id (vr_checks v) = [''check-1'', ''check-2'']"
proof -
  obtain product where product: "build_product_manifest sample_policy sample_changes = Inr product"
    using sample_manifest by blast
  obtain build where build: "create_build_identity (pm_baseline_sha product) product sample_policy
      (vp_commands (pj_verification sample_policy)) (hash_json JNull) = Inr build"
    using sample_build [OF product] by blast
  obtain v where v: "run_all sample_run sample_policy build () = (Inr v, ())"
    using sample_verified [OF build] by blast
  have "map (fst \<circ> (\<lambda>c. (vc_command_id c, vc_command_hash c))) (vr_checks v) = [''check-1'', ''check-2'']"
    using verification_reports_every_command [OF v] unfolding map_map [symmetric]
    by (simp add: command_hashes_of_def upt_rec)
  then have "map vc_command_id (vr_checks v) = [''check-1'', ''check-2'']" by (auto simp: comp_def)
  with v show ?thesis by (intro exI conjI)
qed

text \<open>The raw diff is read back.  Whatever well-formed entries Git writes, in the format
  \<^verbatim>\<open>git diff --raw -z\<close> documents, renames and copies with their two paths included, the
  parser returns exactly these entries.\<close>

theorem raw_diff_round_trip:
  assumes "list_all raw_entry_ok es"
  shows "parse_raw_diff (raw_text es) = Inr es"
  by (rule raw_diff_reads_back [OF assms])

definition sample_entries :: "raw_diff_entry list" where
  "sample_entries =
     [\<lparr>rd_old_mode = ''100644'', rd_new_mode = ''100644'', rd_old_object_id = replicate 40 CHR ''a'',
       rd_new_object_id = replicate 40 CHR ''b'', rd_status = ''R100'', rd_old_path = Some ''a/b'', rd_path = ''c d''\<rparr>,
      \<lparr>rd_old_mode = ''100644'', rd_new_mode = ''000000'', rd_old_object_id = replicate 40 CHR ''a'',
       rd_new_object_id = replicate 40 CHR ''0'', rd_status = ''D'', rd_old_path = None, rd_path = ''e''\<rparr>]"

text \<open>An addition that still names an old object is accepted: the check of the old entry only
  refuses an addition whose old mode and old object are both present.\<close>

lemma half_present_old_entry_accepted:
  "product_change_file_valid
     \<lparr>pf_path = ''src/a'', pf_status = ''A'', pf_old_path = None, pf_old_mode = ''000000'',
      pf_mode = ''100644'', pf_old_object_id = Some (replicate 40 CHR ''a''),
      pf_object_id = Some (replicate 40 CHR ''b''), pf_binary = False, pf_untracked = False\<rparr>"
  by (simp add: product_change_file_valid_def sample_path_ok change_metadata_checks_def git_mode_def
      opt_all_def) code_simp

end
