(* ===== verification/Tickets.thy ===== *)
theory Tickets
  imports Units Url Activation
begin

section \<open>Tickets\<close>

text \<open>
  The sanitizer and the ticket contracts of \<^verbatim>\<open>src/auto_code/contracts.py\<close>: what is kept of
  an untrusted ticket, the snapshot with its content hash, and the projections made from it.
  Every failure is a \<^verbatim>\<open>ValueError\<close> or pydantic's subclass of it, so that results are options.
  The numbers with a fraction a ticket may hold are not in the value type.
\<close>

subsection \<open>Sanitizing texts\<close>

definition redacted :: string where
  "redacted = ''[REDACTED]''"

definition url_in_text :: regex where
  "url_in_text =
     (let alnum_before = (\<lambda>b. case b of None \<Rightarrow> False | Some c \<Rightarrow> is_alnum c) in
      cats [Alt (Cat (Behind (\<lambda>b. \<not> alnum_before b)) (lit ''//''))
                (Cat Word_Boundary
                  (Alt (cats [Cls (\<lambda>c. is_upper c \<or> is_lower c), Star (Cls scheme_char), lit ''://''])
                       (ilit ''mailto:''))),
            plus (Cls (\<lambda>c. \<not> is_space c \<and> c \<notin> set ''<>()[]{}'' \<and> c \<notin> {CHR 0x22, CHR 0x27}))])"

definition secret_literal :: regex where
  "secret_literal =
     cats [Word_Boundary, ilit ''sk-'', Rep (Cls dash_char) 8 0, Star (Cls dash_char), Word_Boundary]"

definition sanitize_url :: "(string \<Rightarrow> bool) \<Rightarrow> string \<Rightarrow> string" where
  "sanitize_url bracketed value =
     (case urlsplit bracketed value of
        None \<Rightarrow> redacted
      | Some u \<Rightarrow>
          if su_scheme u = [] \<and> su_netloc u = [] then value
          else if url_hostname (su_netloc u) = [] then urlunsplit (su_scheme u) [] (su_path u)
          else
            let hostname = url_hostname (su_netloc u);
                hostname = (if CHR '':'' \<in> set hostname \<and> \<not> starts_with ''['' hostname
                            then ''['' @ hostname @ '']'' else hostname)
            in (case url_port (su_netloc u) of
                 None \<Rightarrow> redacted
               | Some None \<Rightarrow> urlunsplit (su_scheme u) hostname (su_path u)
               | Some (Some port) \<Rightarrow>
                   urlunsplit (su_scheme u) (hostname @ CHR '':'' # show_nat port) (su_path u)))"

definition sanitize_text :: "(string \<Rightarrow> bool) \<Rightarrow> string \<Rightarrow> string option" where
  \<comment> \<open>\<^verbatim>\<open>sanitize_untrusted_text\<close>\<close>
  "sanitize_text bracketed value =
     (if 1048576 < length value then None
      else
        let redact = (\<lambda>r. sub_all r (\<lambda>_. redacted));
            sanitized = sub_all url_in_text (sanitize_url bracketed) value;
            sanitized = redact secret_assignment sanitized;
            sanitized = redact bearer_secret sanitized;
            sanitized = redact secret_literal sanitized
        in Some (redact jwt_like_segment sanitized))"

subsection \<open>Sanitizing values\<close>

definition secret_mapping_key :: regex where
  "secret_mapping_key =
     (let dash = chars ''_-''; s = Opt (lit ''s''); word = (\<lambda>a. cats [lit a, Opt dash, lit ''key'', s]) in
      cats [Alt at_start dash,
            alts [word ''api'', word ''access'', word ''private'', Cat (lit ''token'') s,
                  Cat (lit ''password'') s, Cat (lit ''secret'') s, Cat (lit ''credential'') s,
                  Cat (lit ''authorization'') s],
            Alt At_End dash])"

definition secret_key_boundary :: regex where
  "secret_key_boundary =
     Cat (Behind (\<lambda>b. case b of None \<Rightarrow> False | Some c \<Rightarrow> is_lower c \<or> is_digit c)) (Look (Cls is_upper))"

definition is_secret_mapping_key :: "string \<Rightarrow> bool" where
  "is_secret_mapping_key v = search secret_mapping_key (lower (sub_all secret_key_boundary (\<lambda>_. ''_'') v))"

fun sanitize_value :: "(string \<Rightarrow> bool) \<Rightarrow> nat \<Rightarrow> json \<Rightarrow> json option" where
  \<comment> \<open>\<^verbatim>\<open>sanitize_untrusted_value\<close> at a depth\<close>
  "sanitize_value bracketed depth (JObj kvs) =
     (if 32 < depth \<or> 512 < length kvs then None
      else Option.bind
        (those (map (\<lambda>(k, v). Option.bind (sanitize_text bracketed k) (\<lambda>k.
           if is_secret_mapping_key k then Some (k, JStr redacted)
           else map_option (Pair k) (sanitize_value bracketed (Suc depth) v))) kvs))
        (\<lambda>clean. if no_dups (map fst clean) then Some (JObj clean) else None))"
| "sanitize_value bracketed depth (JList vs) =
     (if 32 < depth \<or> 512 < length vs then None
      else map_option JList (those (map (sanitize_value bracketed (Suc depth)) vs)))"
| "sanitize_value bracketed depth (JStr s) =
     (if 32 < depth then None else map_option JStr (sanitize_text bracketed s))"
| "sanitize_value bracketed depth v = (if 32 < depth then None else Some v)"

subsection \<open>Resolved identities and candidates\<close>

datatype resolution_status = RESOLVED | NOT_FOUND | AMBIGUOUS

record identity_resolution =
  is_status :: resolution_status
  is_resolved_id :: "string option"
  is_candidate_ids :: "string list"

definition identity_resolution_valid :: "identity_resolution \<Rightarrow> bool" where
  "identity_resolution_valid r \<longleftrightarrow>
     opt_all safe_snapshot_identifier (is_resolved_id r)
     \<and> sized 0 64 (is_candidate_ids r) \<and> list_all safe_snapshot_identifier (is_candidate_ids r)
     \<and> no_dups (is_candidate_ids r)
     \<and> (case is_status r of
          RESOLVED \<Rightarrow> is_resolved_id r \<noteq> None \<and> is_candidate_ids r = []
        | NOT_FOUND \<Rightarrow> is_resolved_id r = None \<and> is_candidate_ids r = []
        | AMBIGUOUS \<Rightarrow> is_resolved_id r = None \<and> 2 \<le> length (is_candidate_ids r))"

definition checked_resolution :: "identity_resolution \<Rightarrow> identity_resolution option" where
  "checked_resolution r = (if identity_resolution_valid r then Some r else None)"

definition resolved_identity :: "string \<Rightarrow> identity_resolution option" where
  "resolved_identity i =
     checked_resolution \<lparr>is_status = RESOLVED, is_resolved_id = Some i, is_candidate_ids = []\<rparr>"

definition identity_not_found :: "identity_resolution option" where
  "identity_not_found =
     checked_resolution \<lparr>is_status = NOT_FOUND, is_resolved_id = None, is_candidate_ids = []\<rparr>"

definition ambiguous_identity :: "string list \<Rightarrow> identity_resolution option" where
  "ambiguous_identity is =
     checked_resolution \<lparr>is_status = AMBIGUOUS, is_resolved_id = None, is_candidate_ids = is\<rparr>"

definition require_resolved :: "identity_resolution \<Rightarrow> string option" where
  \<comment> \<open>\<^verbatim>\<open>IdentityResolutionError\<close> is \<open>None\<close>\<close>
  "require_resolved r = (if is_status r = RESOLVED then is_resolved_id r else None)"

record candidate_ticket =
  cd_id :: string
  cd_assignee_id :: string
  cd_milestone_id :: string
  cd_priority :: "int option"
  cd_created_at :: datetime
  cd_title :: string

definition candidate_ticket_of :: "(string \<Rightarrow> bool) \<Rightarrow> candidate_ticket \<Rightarrow> candidate_ticket option" where
  \<comment> \<open>validation of the fields; the only state type is \<^verbatim>\<open>unstarted\<close>\<close>
  "candidate_ticket_of bracketed c =
     (case sanitize_text bracketed (cd_title c) of
        None \<Rightarrow> None
      | Some title \<Rightarrow>
          if list_all safe_snapshot_identifier [cd_id c, cd_assignee_id c, cd_milestone_id c]
             \<and> opt_all (\<lambda>p. 0 < p) (cd_priority c)
          then Some (c\<lparr>cd_title := title\<rparr>) else None)"

subsection \<open>Comments and attachments\<close>

record ticket_comment =
  tc_comment_id :: "string option"
  tc_text :: string

definition ticket_comment_of :: "(string \<Rightarrow> bool) \<Rightarrow> ticket_comment \<Rightarrow> ticket_comment option" where
  "ticket_comment_of bracketed c =
     (if opt_all safe_snapshot_identifier (tc_comment_id c)
      then map_option (\<lambda>t. c\<lparr>tc_text := t\<rparr>) (sanitize_text bracketed (tc_text c)) else None)"

definition ticket_comment_json :: "ticket_comment \<Rightarrow> json" where
  "ticket_comment_json c =
     JObj [(''comment_id'', json_opt (tc_comment_id c)), (''text'', JStr (tc_text c))]"

record ticket_attachment =
  ta_name :: "string option"
  ta_url :: "string option"
  ta_media_type :: "string option"
  ta_safe_text :: "string option"
  ta_metadata :: "(string \<times> json) list"

definition sanitize_opt :: "(string \<Rightarrow> bool) \<Rightarrow> string option \<Rightarrow> string option option" where
  "sanitize_opt bracketed t =
     (case t of None \<Rightarrow> Some None | Some s \<Rightarrow> map_option Some (sanitize_text bracketed s))"

definition ticket_attachment_of :: "(string \<Rightarrow> bool) \<Rightarrow> ticket_attachment \<Rightarrow> ticket_attachment option" where
  "ticket_attachment_of bracketed a =
     (case (sanitize_opt bracketed (ta_name a), sanitize_opt bracketed (ta_media_type a),
            sanitize_opt bracketed (ta_safe_text a), sanitize_value bracketed 0 (JObj (ta_metadata a))) of
        (Some name, Some media, Some txt, Some (JObj metadata)) \<Rightarrow>
          Some \<lparr>ta_name = name, ta_url = map_option (sanitize_url bracketed) (ta_url a),
                ta_media_type = media, ta_safe_text = txt, ta_metadata = metadata\<rparr>
      | _ \<Rightarrow> None)"

definition ticket_attachment_json :: "ticket_attachment \<Rightarrow> json" where
  "ticket_attachment_json a =
     JObj [(''name'', json_opt (ta_name a)), (''url'', json_opt (ta_url a)),
           (''media_type'', json_opt (ta_media_type a)), (''safe_text'', json_opt (ta_safe_text a)),
           (''metadata'', JObj (ta_metadata a))]"

subsection \<open>Reading an untrusted ticket\<close>

definition text_member :: "(string \<times> json) list \<Rightarrow> string list \<Rightarrow> string option" where
  \<comment> \<open>the first of the names whose value is text\<close>
  "text_member kvs names =
     (case filter (\<lambda>n. case map_of kvs n of Some (JStr t) \<Rightarrow> True | _ \<Rightarrow> False) names of
        [] \<Rightarrow> None
      | n # _ \<Rightarrow> (case map_of kvs n of Some (JStr t) \<Rightarrow> Some t | _ \<Rightarrow> None))"

definition sanitized_json_text :: "(string \<Rightarrow> bool) \<Rightarrow> json \<Rightarrow> string option" where
  "sanitized_json_text bracketed v = map_option canonical_json_bytes (sanitize_value bracketed 0 v)"

definition snapshot_text_value :: "(string \<Rightarrow> bool) \<Rightarrow> json \<Rightarrow> string option" where
  "snapshot_text_value bracketed v =
     (case v of
        JStr t \<Rightarrow> Some t
      | JObj kvs \<Rightarrow>
          (case text_member kvs [''text'', ''description'', ''title'', ''body''] of
             Some t \<Rightarrow> Some t | None \<Rightarrow> sanitized_json_text bracketed v)
      | _ \<Rightarrow> None)"

definition snapshot_comment :: "(string \<Rightarrow> bool) \<Rightarrow> json \<Rightarrow> ticket_comment option" where
  "snapshot_comment bracketed v =
     (case v of
        JStr t \<Rightarrow> ticket_comment_of bracketed \<lparr>tc_comment_id = None, tc_text = t\<rparr>
      | JObj kvs \<Rightarrow>
          Option.bind
            (case text_member kvs [''body'', ''text'', ''content'', ''description''] of
               Some t \<Rightarrow> Some t | None \<Rightarrow> sanitized_json_text bracketed v)
            (\<lambda>t. ticket_comment_of bracketed \<lparr>tc_comment_id = text_member kvs [''id''], tc_text = t\<rparr>)
      | _ \<Rightarrow> None)"

definition snapshot_label :: "(string \<Rightarrow> bool) \<Rightarrow> json \<Rightarrow> string option" where
  "snapshot_label bracketed v =
     (case v of
        JStr t \<Rightarrow> Some t
      | JObj kvs \<Rightarrow>
          (case text_member kvs [''name''] of
             Some t \<Rightarrow> Some t | None \<Rightarrow> sanitized_json_text bracketed v)
      | _ \<Rightarrow> sanitized_json_text bracketed v)"

definition ticket_record :: "(string \<Rightarrow> bool) \<Rightarrow> json \<Rightarrow> json option" where
  \<comment> \<open>an item of \<^verbatim>\<open>sanitize_ticket_records\<close> and of \<^verbatim>\<open>_snapshot_records\<close>\<close>
  "ticket_record bracketed v =
     (case sanitize_value bracketed 0 v of Some (JObj kvs) \<Rightarrow> Some (JObj kvs) | _ \<Rightarrow> None)"

definition text_or_other :: "(string \<times> json) list \<Rightarrow> string \<Rightarrow> string \<Rightarrow> string option option" where
  \<comment> \<open>the first name if its value is text, else the second, which has to be text or absent\<close>
  "text_or_other kvs first second =
     (case text_member kvs [first] of
        Some t \<Rightarrow> Some (Some t)
      | None \<Rightarrow>
          (case map_of kvs second of
             None \<Rightarrow> Some None | Some JNull \<Rightarrow> Some None | Some (JStr t) \<Rightarrow> Some (Some t) | _ \<Rightarrow> None))"

definition snapshot_attachment :: "(string \<Rightarrow> bool) \<Rightarrow> json \<Rightarrow> ticket_attachment option" where
  "snapshot_attachment bracketed v =
     (case v of
        JObj kvs \<Rightarrow>
          (case (text_or_other kvs ''name'' ''title'', text_or_other kvs ''media_type'' ''mime_type'') of
             (Some name, Some media) \<Rightarrow>
               ticket_attachment_of bracketed
                 \<lparr>ta_name = name, ta_url = text_member kvs [''url''], ta_media_type = media,
                  ta_safe_text = text_member kvs [''text'', ''content'', ''description''],
                  ta_metadata = filter (\<lambda>(k, v). k \<notin> {''url'', ''text'', ''content'', ''description''}) kvs\<rparr>
           | _ \<Rightarrow> None)
      | _ \<Rightarrow> None)"

subsection \<open>The snapshot\<close>

record ticket_snapshot =
  sn_ticket_id :: string
  sn_title :: string
  sn_description :: string
  sn_criteria :: "string list"
  sn_comments :: "ticket_comment list"
  sn_labels :: "string list"
  sn_relations :: "json list"
  sn_subtickets :: "json list"
  sn_attachments :: "ticket_attachment list"
  sn_workspace_id :: "string option"
  sn_team_id :: "string option"
  sn_captured_at :: datetime
  sn_pagination_complete :: bool
  sn_source_page_hashes :: "(string \<times> string) list"
  sn_content_hash :: string

definition snapshot_payload :: "clock \<Rightarrow> ticket_snapshot \<Rightarrow> json" where
  "snapshot_payload ck s =
     JObj [schema_member, (''ticket_id'', JStr (sn_ticket_id s)), (''title'', JStr (sn_title s)),
           (''description'', JStr (sn_description s)), (''criteria'', json_texts_of (sn_criteria s)),
           (''comments'', JList (map ticket_comment_json (sn_comments s))),
           (''labels'', json_texts_of (sn_labels s)),
           (''relations'', JList (sn_relations s)), (''subtickets'', JList (sn_subtickets s)),
           (''attachments'', JList (map ticket_attachment_json (sn_attachments s))),
           (''workspace_id'', json_opt (sn_workspace_id s)), (''team_id'', json_opt (sn_team_id s)),
           (''captured_at'', JStr (clock_text ck (sn_captured_at s))),
           (''pagination_complete'', JBool (sn_pagination_complete s)),
           (''source_page_hashes'', digest_map_json (sn_source_page_hashes s))]"

definition page_hashes_valid :: "(string \<times> string) list \<Rightarrow> bool" where
  "page_hashes_valid m \<longleftrightarrow>
     sized 1 512 m \<and> no_dups (map fst m)
     \<and> list_all (\<lambda>(k, h). safe_snapshot_identifier k \<and> sha256_pattern h) m"

definition clean_fields :: "(string \<Rightarrow> bool) \<Rightarrow> ticket_snapshot \<Rightarrow> ticket_snapshot option" where
  \<comment> \<open>the field validators, with comments and attachments that are validated already\<close>
  "clean_fields bracketed s = do {
     title \<leftarrow> sanitize_text bracketed (sn_title s);
     description \<leftarrow> sanitize_text bracketed (sn_description s);
     criteria \<leftarrow> those (map (sanitize_text bracketed) (sn_criteria s));
     labels \<leftarrow> those (map (sanitize_text bracketed) (sn_labels s));
     relations \<leftarrow> those (map (ticket_record bracketed) (sn_relations s));
     subtickets \<leftarrow> those (map (ticket_record bracketed) (sn_subtickets s));
     if safe_snapshot_identifier (sn_ticket_id s)
        \<and> opt_all safe_snapshot_identifier (sn_workspace_id s) \<and> opt_all safe_snapshot_identifier (sn_team_id s)
        \<and> list_all (\<lambda>n. n \<le> 512) [length criteria, length (sn_comments s), length labels, length relations,
             length subtickets, length (sn_attachments s)]
        \<and> page_hashes_valid (sn_source_page_hashes s) \<and> sha256_pattern (sn_content_hash s)
     then Some (s\<lparr>sn_title := title, sn_description := description, sn_criteria := criteria,
                  sn_labels := labels, sn_relations := relations, sn_subtickets := subtickets,
                  sn_source_page_hashes := map (\<lambda>(k, h). (k, lower h)) (sn_source_page_hashes s)\<rparr>)
     else None
   }"

definition clean_snapshot :: "clock \<Rightarrow> (string \<Rightarrow> bool) \<Rightarrow> ticket_snapshot \<Rightarrow> ticket_snapshot option" where
  \<comment> \<open>the field validators on a dumped snapshot\<close>
  "clean_snapshot ck bracketed s = do {
     comments \<leftarrow> those (map (ticket_comment_of bracketed) (sn_comments s));
     attachments \<leftarrow> those (map (ticket_attachment_of bracketed) (sn_attachments s));
     captured \<leftarrow> clock_of ck (JStr (clock_text ck (sn_captured_at s)));
     clean_fields bracketed
       (s\<lparr>sn_comments := comments, sn_attachments := attachments, sn_captured_at := captured\<rparr>)
   }"

definition snapshot_hash_ok :: "clock \<Rightarrow> ticket_snapshot \<Rightarrow> bool" where
  \<comment> \<open>\<^verbatim>\<open>validate_content_hash\<close>\<close>
  "snapshot_hash_ok ck s \<longleftrightarrow> lower (sn_content_hash s) = hash_json (snapshot_payload ck s)"

definition validate_snapshot :: "clock \<Rightarrow> (string \<Rightarrow> bool) \<Rightarrow> ticket_snapshot \<Rightarrow> ticket_snapshot option" where
  \<comment> \<open>\<^verbatim>\<open>model_validate\<close> of a dumped snapshot\<close>
  "validate_snapshot ck bracketed s =
     Option.bind (clean_snapshot ck bracketed s) (\<lambda>t. if snapshot_hash_ok ck t then Some t else None)"

definition blank_text :: "string \<Rightarrow> bool" where
  "blank_text s \<longleftrightarrow> trim s = []"

definition member_or :: "(string \<times> json) list \<Rightarrow> string \<Rightarrow> json \<Rightarrow> json" where
  "member_or kvs k d = (case map_of kvs k of None \<Rightarrow> d | Some v \<Rightarrow> v)"

definition list_member :: "(json \<Rightarrow> 'a option) \<Rightarrow> json \<Rightarrow> 'a list option" where
  "list_member f v = (case v of JList vs \<Rightarrow> those (map f vs) | _ \<Rightarrow> None)"

definition opt_text_value :: "json \<Rightarrow> string option option" where
  "opt_text_value v = (case v of JNull \<Rightarrow> Some None | JStr t \<Rightarrow> Some (Some t) | _ \<Rightarrow> None)"

definition text_value :: "json \<Rightarrow> string option" where
  "text_value v = (case v of JStr t \<Rightarrow> Some t | _ \<Rightarrow> None)"

definition snapshot_from_untrusted ::
  "clock \<Rightarrow> (string \<Rightarrow> bool) \<Rightarrow> json \<Rightarrow> datetime \<Rightarrow> bool \<Rightarrow> (string \<times> string) list \<Rightarrow> ticket_snapshot option" where
  \<comment> \<open>\<^verbatim>\<open>TicketSnapshot.from_untrusted\<close>\<close>
  "snapshot_from_untrusted ck bracketed raw captured_at paginated page_hashes =
     (case raw of
        JObj kvs \<Rightarrow> do {
          title \<leftarrow> text_value (member_or kvs ''title'' JNull);
          title \<leftarrow> (if blank_text title then None else Some title);
          ticket \<leftarrow> text_value (member_or kvs ''id'' (member_or kvs ''identifier'' JNull));
          description \<leftarrow> text_value (member_or kvs ''description'' (JStr []));
          criteria \<leftarrow> list_member (snapshot_text_value bracketed)
            (member_or kvs ''criteria'' (member_or kvs ''acceptance_criteria'' (JList [])));
          comments \<leftarrow> list_member (snapshot_comment bracketed) (member_or kvs ''comments'' (JList []));
          labels \<leftarrow> list_member (snapshot_label bracketed) (member_or kvs ''labels'' (JList []));
          relations \<leftarrow> list_member (ticket_record bracketed) (member_or kvs ''relations'' (JList []));
          subtickets \<leftarrow> list_member (ticket_record bracketed) (member_or kvs ''subtickets'' (JList []));
          attachments \<leftarrow> list_member (snapshot_attachment bracketed) (member_or kvs ''attachments'' (JList []));
          workspace \<leftarrow> opt_text_value (member_or kvs ''workspace_id'' JNull);
          team \<leftarrow> opt_text_value (member_or kvs ''team_id'' JNull);
          unchecked \<leftarrow> clean_fields bracketed
            \<lparr>sn_ticket_id = ticket, sn_title = title, sn_description = description, sn_criteria = criteria,
             sn_comments = comments, sn_labels = labels, sn_relations = relations,
             sn_subtickets = subtickets, sn_attachments = attachments, sn_workspace_id = workspace,
             sn_team_id = team, sn_captured_at = captured_at, sn_pagination_complete = paginated,
             sn_source_page_hashes = page_hashes, sn_content_hash = replicate 64 CHR ''0''\<rparr>;
          validate_snapshot ck bracketed
            (unchecked\<lparr>sn_content_hash := hash_json (snapshot_payload ck unchecked)\<rparr>)
        }
      | _ \<Rightarrow> None)"

subsection \<open>Projections\<close>

record ticket_projection =
  tp_ticket_id :: string
  tp_title :: string
  tp_description :: string
  tp_criteria :: "string list"
  tp_comments :: "ticket_comment list"
  tp_labels :: "string list"
  tp_relations :: "json list"
  tp_subtickets :: "json list"
  tp_attachments :: "ticket_attachment list"
  tp_content_hash :: string

definition projection_payload :: "ticket_projection \<Rightarrow> (string \<times> json) list" where
  "projection_payload p =
     [schema_member, (''ticket_id'', JStr (tp_ticket_id p)), (''title'', JStr (tp_title p)),
      (''description'', JStr (tp_description p)), (''criteria'', json_texts_of (tp_criteria p)),
      (''comments'', JList (map ticket_comment_json (tp_comments p))),
      (''labels'', json_texts_of (tp_labels p)),
      (''relations'', JList (tp_relations p)), (''subtickets'', JList (tp_subtickets p)),
      (''attachments'', JList (map ticket_attachment_json (tp_attachments p)))]"

definition clean_records :: "(string \<Rightarrow> bool) \<Rightarrow> ticket_projection \<Rightarrow> ticket_projection option" where
  \<comment> \<open>the field validators, with comments and attachments that are validated already\<close>
  "clean_records bracketed p = do {
     relations \<leftarrow> those (map (ticket_record bracketed) (tp_relations p));
     subtickets \<leftarrow> those (map (ticket_record bracketed) (tp_subtickets p));
     if list_all (\<lambda>n. n \<le> 512) [length (tp_criteria p), length (tp_comments p), length (tp_labels p),
          length relations, length subtickets, length (tp_attachments p)]
        \<and> sha256_pattern (tp_content_hash p)
     then Some (p\<lparr>tp_relations := relations, tp_subtickets := subtickets\<rparr>) else None
   }"

definition projection_hash_ok :: "ticket_projection \<Rightarrow> bool" where
  "projection_hash_ok p \<longleftrightarrow> lower (tp_content_hash p) = hash_json (JObj (projection_payload p))"

definition validate_projection :: "(string \<Rightarrow> bool) \<Rightarrow> ticket_projection \<Rightarrow> ticket_projection option" where
  \<comment> \<open>\<^verbatim>\<open>model_validate\<close> of a dumped projection\<close>
  "validate_projection bracketed p = do {
     comments \<leftarrow> those (map (ticket_comment_of bracketed) (tp_comments p));
     attachments \<leftarrow> those (map (ticket_attachment_of bracketed) (tp_attachments p));
     q \<leftarrow> clean_records bracketed (p\<lparr>tp_comments := comments, tp_attachments := attachments\<rparr>);
     if projection_hash_ok q then Some q else None
   }"

definition constraint_projection :: "(string \<Rightarrow> bool) \<Rightarrow> ticket_snapshot \<Rightarrow> ticket_projection option" where
  \<comment> \<open>\<^verbatim>\<open>TicketConstraintProjection.from_snapshot\<close>\<close>
  "constraint_projection bracketed s = do {
     unchecked \<leftarrow> clean_records bracketed
       \<lparr>tp_ticket_id = sn_ticket_id s, tp_title = sn_title s, tp_description = sn_description s,
        tp_criteria = sn_criteria s, tp_comments = sn_comments s, tp_labels = sn_labels s,
        tp_relations = sn_relations s, tp_subtickets = sn_subtickets s,
        tp_attachments = sn_attachments s, tp_content_hash = replicate 64 CHR ''0''\<rparr>;
     validate_projection bracketed
       (unchecked\<lparr>tp_content_hash := hash_json (JObj (projection_payload unchecked))\<rparr>)
   }"

definition projection_text :: "ticket_projection \<Rightarrow> string" where
  "projection_text p =
     canonical_json_bytes (JObj (projection_payload p @ [(''content_hash'', JStr (tp_content_hash p))]))"

datatype projection_error = Projection_Invalid | Limit_Not_Positive | Projection_Too_Large

definition to_prompt_text :: "int \<Rightarrow> ticket_projection \<Rightarrow> projection_error + string" where
  "to_prompt_text max_chars p =
     (if max_chars \<le> 0 then Inl Limit_Not_Positive
      else if max_chars < int (length (projection_text p)) then Inl Projection_Too_Large
      else Inr (projection_text p))"

definition analyst_projection ::
  "(string \<Rightarrow> bool) \<Rightarrow> int \<Rightarrow> ticket_snapshot \<Rightarrow> projection_error + ticket_projection" where
  "analyst_projection bracketed max_chars s =
     (case constraint_projection bracketed s of
        None \<Rightarrow> Inl Projection_Invalid
      | Some p \<Rightarrow> bind_result (to_prompt_text max_chars p) (\<lambda>_. Inr p))"

end
