(* ===== verification/Ticket_Laws.thy ===== *)
theory Ticket_Laws
  imports Tickets Digest_Text
begin

section \<open>What the sanitizer guarantees\<close>

text \<open>
  A value is shielded when it is nested no deeper than allowed, its collections are
  bounded, its keys are distinct, and everything under a secret key is redacted.
\<close>

fun shielded :: "nat \<Rightarrow> json \<Rightarrow> bool" where
  "shielded n (JObj kvs) \<longleftrightarrow>
     length kvs \<le> 512 \<and> no_dups (map fst kvs)
     \<and> (\<forall>kv \<in> set kvs. if is_secret_mapping_key (fst kv) then snd kv = JStr redacted
          else case n of 0 \<Rightarrow> False | Suc m \<Rightarrow> shielded m (snd kv))"
| "shielded n (JList vs) \<longleftrightarrow>
     length vs \<le> 512 \<and> (\<forall>v \<in> set vs. case n of 0 \<Rightarrow> False | Suc m \<Rightarrow> shielded m v)"
| "shielded n v \<longleftrightarrow> True"

lemma level_below:
  assumes "Suc d \<le> 32"
  obtains n where "32 - d = Suc n" "32 - Suc d = n"
proof -
  have "32 - d = Suc (32 - Suc d)" using assms by (rule Suc_diff_Suc [OF Suc_le_lessD, symmetric])
  then show thesis using that by blast
qed

lemma one_level_up:
  assumes "Suc d \<le> 32 \<and> shielded (32 - Suc d) w"
  shows "case 32 - d of 0 \<Rightarrow> False | Suc m \<Rightarrow> shielded m w"
proof -
  obtain n where n: "32 - d = Suc n" "32 - Suc d = n" using level_below assms by blast
  from assms show ?thesis unfolding n by simp
qed

lemma sanitize_value_shielded:
  "sanitize_value bracketed d v = Some w \<Longrightarrow> d \<le> 32 \<and> shielded (32 - d) w"
proof (induction bracketed d v arbitrary: w rule: sanitize_value.induct)
  case (1 bracketed d kvs)
  let ?f = "\<lambda>(k, v). Option.bind (sanitize_text bracketed k) (\<lambda>k.
      if is_secret_mapping_key k then Some (k, JStr redacted)
      else map_option (Pair k) (sanitize_value bracketed (Suc d) v))"
  from "1.prems" obtain clean where c: "those (map ?f kvs) = Some clean" "w = JObj clean"
      "no_dups (map fst clean)" "d \<le> 32" "length kvs \<le> 512"
    by (auto simp: bind_eq_Some_conv split: if_splits)
  have "if is_secret_mapping_key (fst kv) then snd kv = JStr redacted
      else case 32 - d of 0 \<Rightarrow> False | Suc m \<Rightarrow> shielded m (snd kv)" if kv_in: "kv \<in> set clean" for kv
  proof -
    obtain k v where kv: "(k, v) \<in> set kvs" "?f (k, v) = Some kv"
      using those_map_set [OF c(1) kv_in] by auto
    then obtain k' where k': "sanitize_text bracketed k = Some k'"
        "(if is_secret_mapping_key k' then Some (k', JStr redacted)
          else map_option (Pair k') (sanitize_value bracketed (Suc d) v)) = Some kv"
      by (auto simp: bind_eq_Some_conv)
    show ?thesis
    proof (cases "is_secret_mapping_key k'")
      case True
      with k' show ?thesis by auto
    next
      case False
      with k' obtain x where "kv = (k', x)" "sanitize_value bracketed (Suc d) v = Some x" by auto
      moreover have "\<not> (32 < d \<or> 512 < length kvs)" using c(4,5) by simp
      ultimately have "Suc d \<le> 32 \<and> shielded (32 - Suc d) (snd kv)" "fst kv = k'"
        using "1.IH" [OF _ kv(1) refl k'(1) False] by auto
      with False show ?thesis by (simp add: one_level_up)
    qed
  qed
  with c those_map_length [OF c(1)] show ?case by simp
next
  case (2 bracketed d vs)
  from "2.prems" obtain ws where w: "those (map (sanitize_value bracketed (Suc d)) vs) = Some ws"
      "w = JList ws" "d \<le> 32" "length vs \<le> 512"
    by (auto split: if_splits)
  have "case 32 - d of 0 \<Rightarrow> False | Suc m \<Rightarrow> shielded m x" if x: "x \<in> set ws" for x
  proof -
    obtain v where v: "v \<in> set vs" "sanitize_value bracketed (Suc d) v = Some x"
      using those_map_set [OF w(1) x] by blast
    moreover have "\<not> (32 < d \<or> 512 < length vs)" using w(3,4) by simp
    ultimately have "Suc d \<le> 32 \<and> shielded (32 - Suc d) x" using "2.IH" by blast
    then show ?thesis by (rule one_level_up)
  qed
  with w those_map_length [OF w(1)] show ?case by simp
qed (auto split: if_splits)

lemma ticket_record_shielded: "ticket_record bracketed v = Some w \<Longrightarrow> shielded 32 w"
  using sanitize_value_shielded [of bracketed 0 v]
  by (auto simp del: shielded.simps simp: ticket_record_def split: option.splits json.splits)


subsection \<open>Snapshots and projections\<close>

definition sanitized :: "(string \<Rightarrow> bool) \<Rightarrow> string \<Rightarrow> bool" where
  \<comment> \<open>a text the sanitizer returned\<close>
  "sanitized bracketed t \<longleftrightarrow> (\<exists>raw. sanitize_text bracketed raw = Some t)"

definition shielded_snapshot :: "(string \<Rightarrow> bool) \<Rightarrow> ticket_snapshot \<Rightarrow> bool" where
  "shielded_snapshot bracketed s \<longleftrightarrow>
     list_all (sanitized bracketed)
       (sn_title s # sn_description s # sn_criteria s @ sn_labels s @ map tc_text (sn_comments s))
     \<and> list_all (shielded 32) (sn_relations s @ sn_subtickets s @ map (\<lambda>a. JObj (ta_metadata a)) (sn_attachments s))"

lemma texts_sanitized: "those (map (sanitize_text bracketed) xs) = Some ys \<Longrightarrow> list_all (sanitized bracketed) ys"
  by (erule those_list_all) (auto simp: sanitized_def)

lemma records_shielded: "those (map (ticket_record bracketed) xs) = Some ys \<Longrightarrow> list_all (shielded 32) ys"
  by (erule those_list_all) (rule ticket_record_shielded)

lemma comment_sanitized: "ticket_comment_of bracketed c = Some d \<Longrightarrow> sanitized bracketed (tc_text d)"
  by (auto simp: ticket_comment_of_def sanitized_def split: if_splits)

lemma comments_sanitized:
  "those (map (ticket_comment_of bracketed) xs) = Some ys \<Longrightarrow> list_all (sanitized bracketed) (map tc_text ys)"
  unfolding list.pred_map comp_def by (erule those_list_all) (rule comment_sanitized)

lemma attachment_shielded:
  "ticket_attachment_of bracketed a = Some b \<Longrightarrow> shielded 32 (JObj (ta_metadata b))"
  using sanitize_value_shielded [of bracketed 0 "JObj (ta_metadata a)"]
  by (auto simp del: shielded.simps simp: ticket_attachment_of_def split: option.splits json.splits)

lemma attachments_shielded:
  "those (map (ticket_attachment_of bracketed) xs) = Some ys \<Longrightarrow>
     list_all (shielded 32) (map (\<lambda>a. JObj (ta_metadata a)) ys)"
  unfolding list.pred_map comp_def by (erule those_list_all) (rule attachment_shielded)

lemma clean_fields_Some:
  assumes "clean_fields bracketed s = Some t"
  shows "list_all (sanitized bracketed) (sn_title t # sn_description t # sn_criteria t @ sn_labels t)"
    "list_all (shielded 32) (sn_relations t @ sn_subtickets t)"
    "sn_comments t = sn_comments s" "sn_attachments t = sn_attachments s"
    "safe_snapshot_identifier (sn_ticket_id t)"
proof -
  obtain title description criteria labels relations subtickets where
      "sanitize_text bracketed (sn_title s) = Some title"
      "sanitize_text bracketed (sn_description s) = Some description"
      "those (map (sanitize_text bracketed) (sn_criteria s)) = Some criteria"
      "those (map (sanitize_text bracketed) (sn_labels s)) = Some labels"
      "those (map (ticket_record bracketed) (sn_relations s)) = Some relations"
      "those (map (ticket_record bracketed) (sn_subtickets s)) = Some subtickets"
      and t: "safe_snapshot_identifier (sn_ticket_id s)"
      "t = s\<lparr>sn_title := title, sn_description := description, sn_criteria := criteria,
                  sn_labels := labels, sn_relations := relations, sn_subtickets := subtickets,
                  sn_source_page_hashes := map (\<lambda>(k, h). (k, lower h)) (sn_source_page_hashes s)\<rparr>"
    using assms by (auto simp: clean_fields_def bind_eq_Some_conv split: if_splits)
  then show "list_all (sanitized bracketed) (sn_title t # sn_description t # sn_criteria t @ sn_labels t)"
    "list_all (shielded 32) (sn_relations t @ sn_subtickets t)"
    "sn_comments t = sn_comments s" "sn_attachments t = sn_attachments s"
    "safe_snapshot_identifier (sn_ticket_id t)"
    by (auto simp: texts_sanitized records_shielded) (auto simp: sanitized_def)
qed

lemma validate_snapshot_Some:
  assumes "validate_snapshot ck bracketed s = Some t"
  shows "snapshot_hash_ok ck t" "shielded_snapshot bracketed t" "safe_snapshot_identifier (sn_ticket_id t)"
proof -
  obtain comments attachments captured where c:
      "those (map (ticket_comment_of bracketed) (sn_comments s)) = Some comments"
      "those (map (ticket_attachment_of bracketed) (sn_attachments s)) = Some attachments"
      "clean_fields bracketed
         (s\<lparr>sn_comments := comments, sn_attachments := attachments, sn_captured_at := captured\<rparr>) = Some t"
      and "snapshot_hash_ok ck t"
    using assms by (auto simp: validate_snapshot_def clean_snapshot_def bind_eq_Some_conv split: if_splits)
  then show "snapshot_hash_ok ck t" "shielded_snapshot bracketed t" "safe_snapshot_identifier (sn_ticket_id t)"
    using clean_fields_Some [OF c(3)] comments_sanitized [OF c(1)] attachments_shielded [OF c(2)]
    by (auto simp: shielded_snapshot_def)
qed

lemma snapshot_from_untrusted_Some:
  "snapshot_from_untrusted ck bracketed raw captured_at paginated hashes = Some s \<Longrightarrow>
     \<exists>u. validate_snapshot ck bracketed u = Some s"
  by (auto simp: snapshot_from_untrusted_def bind_eq_Some_conv split: json.splits)

lemma constraint_projection_Some:
  assumes "constraint_projection bracketed s = Some p"
  shows "projection_hash_ok p" "list_all (shielded 32) (tp_relations p @ tp_subtickets p)"
    "list_all (sanitized bracketed) (map tc_text (tp_comments p))"
    "tp_ticket_id p = sn_ticket_id s" "tp_title p = sn_title s" "tp_description p = sn_description s"
    "tp_criteria p = sn_criteria s"
proof -
  obtain u q where u: "clean_records bracketed
       \<lparr>tp_ticket_id = sn_ticket_id s, tp_title = sn_title s, tp_description = sn_description s,
        tp_criteria = sn_criteria s, tp_comments = sn_comments s, tp_labels = sn_labels s,
        tp_relations = sn_relations s, tp_subtickets = sn_subtickets s,
        tp_attachments = sn_attachments s, tp_content_hash = replicate 64 CHR ''0''\<rparr> = Some u"
      "q = u\<lparr>tp_content_hash := hash_json (JObj (projection_payload u))\<rparr>"
      "validate_projection bracketed q = Some p"
    using assms by (auto simp: constraint_projection_def bind_eq_Some_conv)
  obtain comments attachments where v:
      "those (map (ticket_comment_of bracketed) (tp_comments q)) = Some comments"
      "clean_records bracketed (q\<lparr>tp_comments := comments, tp_attachments := attachments\<rparr>) = Some p"
      "projection_hash_ok p"
    using u(3) by (auto simp: validate_projection_def bind_eq_Some_conv split: if_splits)
  have "tp_comments p = comments" "list_all (shielded 32) (tp_relations p @ tp_subtickets p)"
      "tp_ticket_id p = tp_ticket_id q" "tp_title p = tp_title q" "tp_description p = tp_description q"
      "tp_criteria p = tp_criteria q"
    using v(2) by (auto simp: clean_records_def bind_eq_Some_conv records_shielded split: if_splits)
  moreover have "tp_ticket_id u = sn_ticket_id s" "tp_title u = sn_title s"
      "tp_description u = sn_description s" "tp_criteria u = sn_criteria s"
    using u(1) by (auto simp: clean_records_def bind_eq_Some_conv split: if_splits)
  ultimately show "projection_hash_ok p" "list_all (shielded 32) (tp_relations p @ tp_subtickets p)"
    "list_all (sanitized bracketed) (map tc_text (tp_comments p))"
    "tp_ticket_id p = sn_ticket_id s" "tp_title p = sn_title s" "tp_description p = sn_description s"
    "tp_criteria p = sn_criteria s"
    using v(1,3) u(2) by (simp_all add: comments_sanitized)
qed


definition sample_ticket :: json where
  "sample_ticket =
     JObj [(''id'', JStr ''t1''), (''title'', JStr ''t''),
           (''relations'', JList [JObj [(''token'', JStr ''x'')]])]"


subsection \<open>What the sanitizer misses\<close>

text \<open>The assignment pattern consumes the word Bearer before the bearer pattern sees it, and a
  token that ends neither the text nor at a full stop is not recognised.  Redacting can also
  uncover a URL, so that sanitizing again changes the text.\<close>

lemma bearer_secret_survives:
  "sanitize_text (\<lambda>_. True) ''token: Bearer abcdefgh12'' = Some ''[REDACTED] abcdefgh12''"
  unfolding sanitize_text_def by simp code_simp

lemma jwt_in_sentence_survives:
  "sanitize_text (\<lambda>_. True) ''use eyJa.b.c now'' = Some ''use eyJa.b.c now''"
  unfolding sanitize_text_def by simp code_simp

lemma sanitizer_not_idempotent:
  "sanitize_text (\<lambda>_. True) ''sk-abcdefgh//u:pw@h'' = Some ''[REDACTED]//u:pw@h''"
  "sanitize_text (\<lambda>_. True) ''[REDACTED]//u:pw@h'' = Some ''[REDACTED]//h''"
  unfolding sanitize_text_def by (simp, code_simp)+


end
