(* ===== verification/Linear_Gateway.thy ===== *)
theory Linear_Gateway
  imports Store_Progress Receipt_Laws
begin

section \<open>The Linear gateway\<close>

text \<open>
  \<^verbatim>\<open>LinearGateway\<close> of \<^verbatim>\<open>src/auto_code/linear.py\<close>: it turns an intended call of the
  Linear service into a pending request of the run state, and an authenticated receipt
  into the recorded answer.  It never calls Linear; both operations are one compare and
  swap on the run state store, and a lost race is settled by loading the store again.
  An identity test on the receipt authority (\<^verbatim>\<open>is\<close>) is an equality of its record.
  The callers' state updates are arguments, which may raise.
\<close>

datatype gateway_error =
    Gateway_Value_Error
  | Gateway_Index_Error
  | Gateway_Contract contract_error
  | Gateway_Store cas_error
  | Pending_Request_Conflict
  | Untrusted_Receipt_Error
  | Conflicting_Receipt_Replay
  | Update_Raised

record linear_gateway =
  lg_store :: run_store
  lg_authority :: receipt_authority

abbreviation gateway_env :: "linear_gateway \<Rightarrow> store_env" where
  "gateway_env w \<equiv> rs_env (lg_store w)"

definition authority_bound :: "linear_gateway \<Rightarrow> bool" where
  "authority_bound w \<longleftrightarrow> se_authority (gateway_env w) = Some (lg_authority w)"

definition new_gateway :: "run_store \<Rightarrow> receipt_authority \<Rightarrow> linear_gateway option" where
  "new_gateway st a =
     (let w = \<lparr>lg_store = st, lg_authority = a\<rparr> in if authority_bound w then Some w else None)"

definition generation_valid :: "linear_gateway \<Rightarrow> state_generation \<Rightarrow> bool" where
  \<comment> \<open>\<^verbatim>\<open>_validate_generation\<close> does not raise\<close>
  "generation_valid w g \<longleftrightarrow> authority_bound w \<and> run_id (sg_state g) = rs_run_id (lg_store w)"

definition gateway_contract :: "contract_error + 'a \<Rightarrow> gateway_error + 'a" where
  "gateway_contract r = map_sum Gateway_Contract id r"

subsection \<open>Requests\<close>

definition request_action ::
  "linear_gateway \<Rightarrow> state_generation \<Rightarrow> string \<times> string \<Rightarrow> string \<Rightarrow> string \<Rightarrow> string \<Rightarrow> string option
   \<Rightarrow> (string \<times> json) list \<Rightarrow> gateway_error + mcp_request" where
  \<comment> \<open>the pair holds the two fresh UUIDs of \<^verbatim>\<open>McpActionRequest.create\<close>\<close>
  "request_action w g uuids operation entity target external_revision arguments =
     (if \<not> generation_valid w g then Inl Gateway_Value_Error
      else gateway_contract
             (mcp_request_create (clean_of (gateway_env w)) (fst uuids) (snd uuids) operation entity target
                external_revision (run_id (sg_state g)) (sg_revision g) (sg_state_hash g) arguments None))"

definition request_ticket_projection ::
  "linear_gateway \<Rightarrow> state_generation \<Rightarrow> string \<times> string \<Rightarrow> string \<Rightarrow> string option \<Rightarrow> string option
   \<Rightarrow> gateway_error + mcp_request" where
  "request_ticket_projection w g uuids ticket external_revision state_id =
     request_action w g uuids ''query_ticket_projection'' ''ticket'' ticket external_revision
       (case state_id of
          Some s \<Rightarrow> [(''ticket_id'', JStr ticket), (''state_id'', JStr s)]
        | None \<Rightarrow> [(''ticket_id'', JStr ticket)])"

definition request_state ::
  "linear_gateway \<Rightarrow> state_generation \<Rightarrow> string \<times> string \<Rightarrow> string \<Rightarrow> string option
   \<Rightarrow> gateway_error + mcp_request" where
  "request_state w g uuids ticket external_revision =
     request_action w g uuids ''query_ticket_state'' ''ticket'' ticket external_revision
       [(''ticket_id'', JStr ticket)]"

subsection \<open>Matching\<close>

fun same_json :: "json \<Rightarrow> json \<Rightarrow> bool" where
  \<comment> \<open>Python's \<^verbatim>\<open>==\<close>: a dict ignores the order of its keys, True is 1\<close>
  "same_json (JObj a) v =
     (case v of
        JObj b \<Rightarrow>
          length a = length b
          \<and> (\<forall>kv \<in> set a. \<exists>w \<in> set_option (map_of b (fst kv)). same_json (snd kv) w)
      | _ \<Rightarrow> False)"
| "same_json (JList a) v =
     (case v of JList b \<Rightarrow> list_all2 same_json a b | _ \<Rightarrow> False)"
| "same_json (JInt i) v = equals_int v i"
| "same_json (JBool b) v = equals_int v (if b then 1 else 0)"
| "same_json v w = (v = w)"

definition hashes_match :: "string \<Rightarrow> string \<Rightarrow> bool" where
  "hashes_match a b \<longleftrightarrow> lower a = lower b"

definition pending_matches :: "pending_request \<Rightarrow> mcp_request \<Rightarrow> bool" where
  \<comment> \<open>\<^verbatim>\<open>_pending_matches_request\<close>\<close>
  "pending_matches p r \<longleftrightarrow>
     pr_request_id p = mr_request_id r
     \<and> pr_effect_id p = mr_effect_id r
     \<and> hashes_match (pr_request_hash p) (mr_request_hash r)
     \<and> pr_operation p = mr_operation r
     \<and> pr_entity p = Some (mr_entity r)
     \<and> pr_target p = Some (mr_target r)
     \<and> (case pr_arguments p of None \<Rightarrow> False | Some args \<Rightarrow> same_json (JObj args) (JObj (mr_arguments r)))
     \<and> pr_effect_hash p = Some (mr_effect_hash r)
     \<and> pr_expected_revision p = Some (mr_expected_revision r)
     \<and> pr_expected_state_hash p = Some (mr_expected_state_hash r)
     \<and> pr_expected_external_revision p = mr_expected_external_revision r
     \<and> pr_payload_hash p = Some (mr_payload_hash r)"

definition receipt_matches_pending :: "trusted_receipt \<Rightarrow> pending_request \<Rightarrow> string \<Rightarrow> bool" where
  \<comment> \<open>\<^verbatim>\<open>_receipt_matches_pending\<close>\<close>
  "receipt_matches_pending r p rid \<longleftrightarrow>
     tr_run_id r = rid
     \<and> tr_request_id r = pr_request_id p
     \<and> tr_effect_id r = pr_effect_id p
     \<and> hashes_match (tr_request_hash r) (pr_request_hash p)
     \<and> tr_operation r = pr_operation p
     \<and> Some (tr_effect_hash r) = pr_effect_hash p
     \<and> Some (tr_expected_revision r) = pr_expected_revision p
     \<and> Some (tr_expected_state_hash r) = pr_expected_state_hash p
     \<and> tr_expected_external_revision r = pr_expected_external_revision p
     \<and> Some (tr_payload_hash r) = pr_payload_hash p"

definition receipt_consumed :: "clock \<Rightarrow> state_generation \<Rightarrow> trusted_receipt \<Rightarrow> bool" where
  "receipt_consumed ck g r \<longleftrightarrow>
     run_id (sg_state g) = tr_run_id r
     \<and> (\<exists>e \<in> set (effect_ledger (sg_state g)).
          case e of
            Effect_Reconciliation x _ _ p \<Rightarrow>
              x = tr_effect_id r \<and> rp_receipt_hash p = Some (receipt_content_hash ck r)
          | _ \<Rightarrow> False)"

definition gateway_evidence :: "clock \<Rightarrow> trusted_receipt \<Rightarrow> evidence_ref" where
  \<comment> \<open>\<^verbatim>\<open>_receipt_evidence\<close>\<close>
  "gateway_evidence ck r =
     \<lparr>ev_relative_path = tr_relative_path r, ev_sha256 = receipt_content_hash ck r,
      ev_media_type = ''application/json'', ev_creator = ''trusted-mcp-bridge''\<rparr>"

subsection \<open>Swapping and settling a lost race\<close>

definition gateway_load :: "linear_gateway \<Rightarrow> gateway_error + state_generation" where
  "gateway_load w = map_sum (\<lambda>e. Gateway_Store (Store e)) id (load (lg_store w))"

definition swap_or_settle ::
  "linear_gateway \<Rightarrow> state_generation \<Rightarrow> run_state \<Rightarrow> (state_generation \<Rightarrow> bool)
   \<Rightarrow> gateway_error + state_generation \<times> linear_gateway" where
  \<comment> \<open>the \<^verbatim>\<open>try ... except CompareAndSwapConflict\<close> that ends both operations\<close>
  "swap_or_settle w g s settled =
     (case compare_and_swap (lg_store w) (sg_revision g) (sg_state_hash g) s of
        Inr (g', st) \<Rightarrow> Inr (g', w\<lparr>lg_store := st\<rparr>)
      | Inl e \<Rightarrow>
          if e = Store Cas_Conflict then
            bind_result (gateway_load w) (\<lambda>current.
              if settled current then Inr (current, w) else Inl (Gateway_Store e))
          else Inl (Gateway_Store e))"

subsection \<open>Persisting and replaying a request\<close>

definition request_binding_checks ::
  "linear_gateway \<Rightarrow> state_generation \<Rightarrow> mcp_request \<Rightarrow> gateway_error + mcp_request" where
  \<comment> \<open>\<^verbatim>\<open>_validate_request_binding\<close>\<close>
  "request_binding_checks w g r =
     (if \<not> generation_valid w g then Inl Gateway_Value_Error
      else bind_result (gateway_contract (validate_request_hashes r)) (\<lambda>r.
        if mr_run_id r \<noteq> run_id (sg_state g) \<or> mr_expected_revision r \<noteq> sg_revision g
           \<or> mr_expected_state_hash r \<noteq> sg_state_hash g
        then Inl Gateway_Value_Error else Inr r))"

definition pending_of_request :: "mcp_request \<Rightarrow> pending_request" where
  "pending_of_request r =
     \<lparr>pr_request_id = mr_request_id r, pr_effect_id = mr_effect_id r,
      pr_request_hash = mr_request_hash r, pr_operation = mr_operation r,
      pr_entity = Some (mr_entity r), pr_target = Some (mr_target r),
      pr_arguments = Some (mr_arguments r), pr_effect_hash = Some (mr_effect_hash r),
      pr_expected_revision = Some (mr_expected_revision r),
      pr_expected_state_hash = Some (mr_expected_state_hash r),
      pr_expected_external_revision = mr_expected_external_revision r,
      pr_payload_hash = Some (mr_payload_hash r)\<rparr>"

definition intention_of_request :: "mcp_request \<Rightarrow> int \<Rightarrow> datetime \<Rightarrow> effect_event" where
  "intention_of_request r sequence now =
     Effect_Intention (mr_effect_id r) sequence now
       \<lparr>ip_operation = mr_operation r, ip_target = mr_target r, ip_request_hash = mr_request_hash r\<rparr>"

type_synonym 'a state_update = "run_state \<Rightarrow> 'a \<Rightarrow> run_state option"

definition apply_update ::
  "'a state_update option \<Rightarrow> run_state \<Rightarrow> 'a \<Rightarrow> gateway_error + run_state" where
  \<comment> \<open>the update of the caller must keep the ledger and the pending request\<close>
  "apply_update update s x =
     (case update of
        None \<Rightarrow> Inr s
      | Some f \<Rightarrow>
          (case f s x of
             None \<Rightarrow> Inl Update_Raised
           | Some t \<Rightarrow>
               if effect_ledger t \<noteq> effect_ledger s
                  \<or> pending_external_request t \<noteq> pending_external_request s
               then Inl Gateway_Value_Error else Inr t))"

definition persist_pending ::
  "linear_gateway \<Rightarrow> state_generation \<Rightarrow> mcp_request \<Rightarrow> datetime \<Rightarrow> mcp_request state_update option
   \<Rightarrow> gateway_error + state_generation \<times> linear_gateway" where
  "persist_pending w g request now update =
     bind_result (gateway_contract (mcp_request_validate (clean_of (gateway_env w)) request)) (\<lambda>snapshot.
     bind_result (request_binding_checks w g snapshot) (\<lambda>_.
     case pending_external_request (sg_state g) of
       Some p \<Rightarrow>
         (if pending_matches p snapshot then Inr (g, w) else Inl Pending_Request_Conflict)
     | None \<Rightarrow>
         (if disposition (sg_state g) \<noteq> ACTIVE then Inl Pending_Request_Conflict
          else
            let pending = pending_of_request snapshot;
                intended = intention_of_request snapshot (next_sequence (effect_ledger (sg_state g))) now
            in if \<not> pending_request_valid (clean_of (gateway_env w)) pending \<or> \<not> effect_event_valid intended
               then Inl (Gateway_Contract Invalid_Field)
               else
                 bind_result
                   (gateway_contract (model_copy (clean_of (gateway_env w))
                      (\<lambda>s. s\<lparr>disposition := WAITING_MCP, effect_ledger := effect_ledger s @ [intended],
                             pending_external_request := Some pending\<rparr>) (sg_state g))) (\<lambda>s.
                 bind_result (apply_update update s request) (\<lambda>t.
                   swap_or_settle w g t (\<lambda>current.
                     opt_all (\<lambda>p. pending_matches p snapshot) (pending_external_request (sg_state current))
                     \<and> pending_external_request (sg_state current) \<noteq> None))))))"

definition persisted_request_checks ::
  "state_generation \<Rightarrow> pending_request \<Rightarrow> mcp_request \<Rightarrow> gateway_error + mcp_request" where
  \<comment> \<open>\<^verbatim>\<open>_validate_persisted_request\<close>\<close>
  "persisted_request_checks g p r =
     (if \<not> pending_matches p r then Inl Pending_Request_Conflict
      else bind_result (gateway_contract (validate_effect_ledger (sg_state g))) (\<lambda>(intentions, _).
        case map_of intentions (pr_effect_id p) of
          Some (Effect_Intention _ _ _ i) \<Rightarrow>
            (if ip_operation i \<noteq> mr_operation r \<or> ip_target i \<noteq> mr_target r
                \<or> \<not> hashes_match (ip_request_hash i) (mr_request_hash r)
             then Inl Pending_Request_Conflict else Inr r)
        | _ \<Rightarrow> Inl Pending_Request_Conflict))"

definition replay_pending ::
  "linear_gateway \<Rightarrow> state_generation \<Rightarrow> gateway_error + mcp_request option" where
  "replay_pending w g =
     (if \<not> generation_valid w g then Inl Gateway_Value_Error
      else bind_result (gateway_load w) (\<lambda>current.
        if current \<noteq> g then Inl (Gateway_Store (Store Cas_Conflict))
        else case pending_external_request (sg_state current) of
            None \<Rightarrow> Inr None
          | Some p \<Rightarrow>
              (case reconstruct_request (clean_of (gateway_env w)) p (run_id (sg_state current)) of
                 Inl _ \<Rightarrow> Inl Pending_Request_Conflict
               | Inr r \<Rightarrow> map_sum id Some (persisted_request_checks current p r))))"

subsection \<open>Consuming a receipt\<close>

definition load_trusted ::
  "linear_gateway \<Rightarrow> trusted_receipt \<Rightarrow> trusted_receipt option" where
  \<comment> \<open>\<^verbatim>\<open>_load_trusted_receipt\<close> after its binding check\<close>
  "load_trusted w r =
     (let ck = se_clock (gateway_env w) in
      if \<not> evidence_ref_valid (gateway_evidence ck r) then None
      else case load_verified_receipt ck (se_sanitize (gateway_env w)) (rs_files (lg_store w))
                  (lg_authority w) (gateway_evidence ck r) of
          None \<Rightarrow> None
        | Some a \<Rightarrow> if a = r then Some a else None)"

definition answer_events ::
  "clock \<Rightarrow> pending_request \<Rightarrow> int \<Rightarrow> trusted_receipt \<Rightarrow> seconds \<Rightarrow> effect_event list" where
  \<comment> \<open>the invocation, observation and reconciliation of a receipt\<close>
  "answer_events ck p sequence r wait =
     [Effect_Invocation (pr_effect_id p) sequence (tr_observed_at r) \<lparr>iv_wait_seconds = wait\<rparr>,
      Effect_Observation (pr_effect_id p) (sequence + 1) (tr_observed_at r)
        \<lparr>op_outcome = tr_outcome r, op_external_revision = tr_external_revision r,
         op_evidence_refs = [gateway_evidence ck r]\<rparr>,
      Effect_Reconciliation (pr_effect_id p) (sequence + 2) (tr_observed_at r)
        \<lparr>rp_outcome = tr_outcome r, rp_evidence_refs = [gateway_evidence ck r],
         rp_receipt_hash = Some (receipt_content_hash ck r)\<rparr>]"

definition consume_receipt ::
  "linear_gateway \<Rightarrow> state_generation \<Rightarrow> trusted_receipt \<Rightarrow> trusted_receipt state_update option \<Rightarrow> seconds
   \<Rightarrow> gateway_error + state_generation \<times> linear_gateway" where
  "consume_receipt w g receipt update wait =
     (if \<not> authority_bound w then Inl Gateway_Value_Error
      else case load_trusted w receipt of
          None \<Rightarrow> Inl Untrusted_Receipt_Error
        | Some r \<Rightarrow>
            if \<not> generation_valid w g then Inl Gateway_Value_Error
            else bind_result (gateway_load w) (\<lambda>current.
              let ck = se_clock (gateway_env w) in
              case pending_external_request (sg_state current) of
                None \<Rightarrow>
                  (if receipt_consumed ck current r then Inr (current, w)
                   else Inl Conflicting_Receipt_Replay)
              | Some p \<Rightarrow>
                  (if current \<noteq> g then Inl (Gateway_Store (Store Cas_Conflict))
                   else if \<not> receipt_matches_pending r p (run_id (sg_state current))
                   then Inl Untrusted_Receipt_Error
                   else if wait < 0 then Inl Gateway_Value_Error
                   else if effect_ledger (sg_state current) = [] then Inl Gateway_Index_Error
                   else
                     let sequence = event_sequence (last (effect_ledger (sg_state current))) + 1;
                         events = answer_events ck p sequence r wait
                     in if \<not> list_all effect_event_valid events then Inl (Gateway_Contract Invalid_Field)
                        else
                          bind_result
                            (gateway_contract (model_copy (clean_of (gateway_env w))
                               (\<lambda>s. s\<lparr>disposition := ACTIVE, effect_ledger := effect_ledger s @ events,
                                      pending_external_request := None\<rparr>) (sg_state current))) (\<lambda>s.
                          bind_result (apply_update update s r) (\<lambda>t.
                            swap_or_settle w current t (\<lambda>latest. receipt_consumed ck latest r))))))"

end
