(* ===== verification/Ticket_Selection.thy ===== *)
theory Ticket_Selection
  imports Tickets "HOL-Library.Product_Lexorder" "HOL-Library.Multiset"
begin

section \<open>Selecting a ticket\<close>

text \<open>
  \<^verbatim>\<open>select_ticket\<close> of \<^verbatim>\<open>src/auto_code/linear.py\<close> and its helpers.  The response is a
  JSON value; \<open>parse_iso\<close> is \<^verbatim>\<open>datetime.fromisoformat\<close>: the local time in microseconds since
  the first of January of year 1 and, for an aware time, its offset from UTC.  The range
  check of \<^verbatim>\<open>astimezone\<close> raises an \<^verbatim>\<open>OverflowError\<close>, which the handler of the caller does
  not catch, so the error type has two constructors.
\<close>

datatype linear_error = Linear_Data_Error | Datetime_Overflow

type_synonym iso_parser = "string \<Rightarrow> (int \<times> int option) option"

definition canonical_ticket_id :: "json option \<Rightarrow> string option" where
  "canonical_ticket_id v =
     (case v of
        Some (JStr s) \<Rightarrow>
          (let i = upper (strip s) in
           if fullmatch (Cat (Cls (\<lambda>c. is_upper c \<or> is_digit c))
                (Rep (Cls (\<lambda>c. is_upper c \<or> is_digit c \<or> c \<in> {CHR ''.'', CHR ''_'', CHR ''-''})) 0 255)) i
           then Some i else None)
      | _ \<Rightarrow> None)"

definition linear_identifier :: "string \<Rightarrow> bool" where
  \<comment> \<open>\<^verbatim>\<open>_is_identifier\<close> of a text\<close>
  "linear_identifier s \<longleftrightarrow> s \<noteq> [] \<and> length s \<le> 256 \<and> \<not> list_ex is_space s"

definition required_identifier :: "json option \<Rightarrow> string option" where
  "required_identifier v =
     (case v of Some (JStr s) \<Rightarrow> (if linear_identifier s then Some s else None) | _ \<Rightarrow> None)"

definition state_type_of :: "json option \<Rightarrow> string option" where
  "state_type_of v =
     (case v of
        Some (JStr s) \<Rightarrow> (if s = [] \<or> 64 < length s then None else Some (lower (strip s)))
      | _ \<Rightarrow> None)"

definition priority_of :: "json option \<Rightarrow> int option option" where
  "priority_of v =
     (case v of
        None \<Rightarrow> Some None
      | Some JNull \<Rightarrow> Some None
      | Some (JInt n) \<Rightarrow> Some (if 0 < n then Some n else None)
      | _ \<Rightarrow> None)"

definition max_datetime :: int where
  \<comment> \<open>\<^verbatim>\<open>datetime.max\<close>: 3652059 days of microseconds, less one\<close>
  "max_datetime = 3652059 * 86400 * 1000000 - 1"

definition timestamp_of :: "iso_parser \<Rightarrow> json option \<Rightarrow> linear_error + datetime" where
  "timestamp_of parse_iso v =
     (case v of
        Some (JStr s) \<Rightarrow>
          (if s = [] then Inl Linear_Data_Error
           else case parse_iso (if last s = CHR ''Z'' then butlast s @ ''+00:00'' else s) of
               Some (local, Some offset) \<Rightarrow>
                 (if 0 \<le> local - offset \<and> local - offset \<le> max_datetime then Inr (local - offset)
                  else Inl Datetime_Overflow)
             | _ \<Rightarrow> Inl Linear_Data_Error)
      | _ \<Rightarrow> Inl Linear_Data_Error)"

definition blocker_active :: "json \<Rightarrow> bool option" where
  "blocker_active v =
     (case v of
        JObj kvs \<Rightarrow>
          map_option (\<lambda>t. t \<notin> {''completed'', ''canceled''}) (state_type_of (map_of kvs ''state_type''))
      | _ \<Rightarrow> None)"

fun any_blocker_active :: "json list \<Rightarrow> bool option" where
  \<comment> \<open>\<^verbatim>\<open>any(...)\<close>: the blockers behind the first active one are not looked at\<close>
  "any_blocker_active [] = Some False"
| "any_blocker_active (v # vs) =
     (case blocker_active v of
        None \<Rightarrow> None
      | Some active \<Rightarrow> if active then Some True else any_blocker_active vs)"

definition blockers_active :: "json option \<Rightarrow> bool option" where
  "blockers_active v =
     (case v of None \<Rightarrow> any_blocker_active [] | Some (JList vs) \<Rightarrow> any_blocker_active vs | _ \<Rightarrow> None)"

definition title_of :: "json option \<Rightarrow> string option" where
  "title_of v = (case v of None \<Rightarrow> Some [] | Some (JStr s) \<Rightarrow> Some s | _ \<Rightarrow> None)"

definition or_malformed :: "'a option \<Rightarrow> linear_error + 'a" where
  "or_malformed v = (case v of None \<Rightarrow> Inl Linear_Data_Error | Some x \<Rightarrow> Inr x)"

type_synonym normalized_ticket = "string \<times> candidate_ticket option \<times> bool"

definition normalize_ticket ::
  "iso_parser \<Rightarrow> (string \<Rightarrow> bool) \<Rightarrow> json \<Rightarrow> linear_error + normalized_ticket" where
  "normalize_ticket parse_iso bracketed raw =
     (case raw of
        JObj kvs \<Rightarrow>
          bind_result (or_malformed (canonical_ticket_id (map_of kvs ''id''))) (\<lambda>identifier.
          bind_result (or_malformed (state_type_of (map_of kvs ''state_type''))) (\<lambda>state_type.
          bind_result (or_malformed (required_identifier (map_of kvs ''assignee_id''))) (\<lambda>assignee.
          bind_result (or_malformed (required_identifier (map_of kvs ''milestone_id''))) (\<lambda>milestone.
          bind_result (or_malformed (priority_of (map_of kvs ''priority''))) (\<lambda>priority.
          bind_result (timestamp_of parse_iso (map_of kvs ''created_at'')) (\<lambda>created_at.
          bind_result (or_malformed (blockers_active (map_of kvs ''blockers''))) (\<lambda>active.
          bind_result (or_malformed (title_of (map_of kvs ''title''))) (\<lambda>title.
            if state_type \<noteq> ''unstarted'' then Inr (identifier, None, active)
            else bind_result
                   (or_malformed (candidate_ticket_of bracketed
                      \<lparr>cd_id = identifier, cd_assignee_id = assignee, cd_milestone_id = milestone,
                       cd_priority = priority, cd_created_at = created_at, cd_title = title\<rparr>))
                   (\<lambda>ticket. Inr (identifier, Some ticket, active))))))))))
      | _ \<Rightarrow> Inl Linear_Data_Error)"

definition ticket_items :: "json \<Rightarrow> json list option" where
  "ticket_items raw =
     (case raw of
        JObj kvs \<Rightarrow> (case map_of kvs ''tickets'' of Some (JList vs) \<Rightarrow> Some vs | _ \<Rightarrow> None)
      | JList vs \<Rightarrow> Some vs
      | _ \<Rightarrow> None)"

fun normalize_tickets ::
  "iso_parser \<Rightarrow> (string \<Rightarrow> bool) \<Rightarrow> json list \<Rightarrow> linear_error + normalized_ticket list" where
  "normalize_tickets parse_iso bracketed [] = Inr []"
| "normalize_tickets parse_iso bracketed (v # vs) =
     bind_result (normalize_ticket parse_iso bracketed v) (\<lambda>t.
       bind_result (normalize_tickets parse_iso bracketed vs) (\<lambda>ts. Inr (t # ts)))"

definition candidate_order :: "candidate_ticket \<Rightarrow> int \<times> int \<times> datetime \<times> string" where
  "candidate_order c =
     (case cd_priority c of
        None \<Rightarrow> (1, 0, cd_created_at c, cd_id c)
      | Some p \<Rightarrow> (0, p, cd_created_at c, cd_id c))"

fun first_candidate :: "candidate_ticket \<Rightarrow> candidate_ticket list \<Rightarrow> candidate_ticket" where
  \<comment> \<open>\<^verbatim>\<open>min(candidates, key=...)\<close> with the least so far\<close>
  "first_candidate best [] = best"
| "first_candidate best (c # cs) =
     first_candidate (if candidate_order c < candidate_order best then c else best) cs"

definition eligible_tickets :: "string \<Rightarrow> string \<Rightarrow> normalized_ticket list \<Rightarrow> candidate_ticket list" where
  "eligible_tickets assignee milestone ts =
     concat (map (\<lambda>(_, ticket, active).
       case ticket of
         None \<Rightarrow> []
       | Some t \<Rightarrow>
           if cd_assignee_id t = assignee \<and> cd_milestone_id t = milestone \<and> \<not> active then [t] else [])
       ts)"

definition select_ticket ::
  "iso_parser \<Rightarrow> (string \<Rightarrow> bool) \<Rightarrow> json \<Rightarrow> string \<Rightarrow> string \<Rightarrow> linear_error + candidate_ticket option" where
  "select_ticket parse_iso bracketed raw assignee milestone =
     (if \<not> linear_identifier assignee \<or> \<not> linear_identifier milestone then Inl Linear_Data_Error
      else
        bind_result (or_malformed (ticket_items raw)) (\<lambda>items.
        bind_result (normalize_tickets parse_iso bracketed items) (\<lambda>ts.
          if \<not> no_dups (map fst ts) then Inl Linear_Data_Error
          else case eligible_tickets assignee milestone ts of
              [] \<Rightarrow> Inr None
            | c # cs \<Rightarrow> Inr (Some (first_candidate c cs)))))"

text \<open>A time at the edge of the range escapes the handler of \<^verbatim>\<open>_normalize_ticket\<close>.\<close>

lemma timestamp_escapes:
  "timestamp_of (\<lambda>_. Some (0, Some 3600000000)) (Some (JStr ''0001-01-01T00:00:00+01:00'')) = Inl Datetime_Overflow"
  by (simp add: timestamp_of_def)

subsection \<open>The selection is the least eligible ticket\<close>

lemma or_malformed_Inr [simp]: "or_malformed v = Inr x \<longleftrightarrow> v = Some x"
  by (simp add: or_malformed_def split: option.splits)

lemma candidate_ticket_of_id: "candidate_ticket_of bracketed c = Some t \<Longrightarrow> cd_id t = cd_id c"
  by (auto simp: candidate_ticket_of_def split: option.splits if_splits)

lemma normalized_identifier:
  assumes "normalize_ticket parse_iso bracketed v = Inr (i, Some t, active)"
  shows "cd_id t = i"
proof (cases v)
  case (JObj kvs)
  show ?thesis
    using assms unfolding normalize_ticket_def JObj
    apply (simp only: json.case)
    apply (erule bind_result_InrE)+
    apply (auto simp: bind_result_Inr dest: candidate_ticket_of_id split: if_split_asm)
    done
qed (use assms in \<open>simp_all add: normalize_ticket_def\<close>)

lemma normalize_tickets_iff:
  "normalize_tickets parse_iso bracketed vs = Inr ts \<longleftrightarrow>
     list_all2 (\<lambda>v t. normalize_ticket parse_iso bracketed v = Inr t) vs ts"
proof (induction vs arbitrary: ts)
  case Nil
  then show ?case by auto
next
  case (Cons v vs)
  then show ?case by (simp add: bind_result_Inr list_all2_Cons1) blast
qed

lemma normalized_mset:
  assumes "list_all2 (\<lambda>v t. normalize_ticket parse_iso bracketed v = Inr t) vs ts" and "mset vs' = mset vs"
  shows "\<exists>ts'. normalize_tickets parse_iso bracketed vs' = Inr ts' \<and> mset ts' = mset ts"
proof -
  from list_all2_reorder_left_invariance [OF assms(1), of vs'] assms(2)
  obtain ts' where "list_all2 (\<lambda>v t. normalize_ticket parse_iso bracketed v = Inr t) vs' ts'"
      "mset ts' = mset ts" by auto
  then show ?thesis by (auto simp: normalize_tickets_iff)
qed

lemma eligible_iff:
  "t \<in> set (eligible_tickets a m ts) \<longleftrightarrow>
     (\<exists>i. (i, Some t, False) \<in> set ts) \<and> cd_assignee_id t = a \<and> cd_milestone_id t = m"
proof (induction ts)
  case Nil
  then show ?case by (simp add: eligible_tickets_def)
next
  case (Cons n ts)
  obtain i r active where "n = (i, r, active)" by (cases n) auto
  with Cons show ?case by (cases r) (auto simp: eligible_tickets_def)
qed

lemma eligible_mset:
  assumes "mset ts' = mset ts"
  shows "set (eligible_tickets a m ts') = set (eligible_tickets a m ts)"
  using mset_eq_setD [OF assms] by (auto simp: eligible_iff)

lemma first_candidate_least:
  "first_candidate b cs \<in> set (b # cs)
   \<and> (\<forall>c \<in> set (b # cs). candidate_order (first_candidate b cs) \<le> candidate_order c)"
proof (induction cs arbitrary: b)
  case Nil
  then show ?case by simp
next
  case (Cons c cs)
  from Cons [of "if candidate_order c < candidate_order b then c else b"]
  show ?case by (auto split: if_splits intro: order.trans)
qed

lemma candidate_order_id: "candidate_order c = candidate_order d \<Longrightarrow> cd_id c = cd_id d"
  by (auto simp: candidate_order_def split: option.splits)

lemma eligible_distinct_ids:
  assumes "normalize_tickets parse_iso bracketed vs = Inr ts" and "distinct (map fst ts)"
    and "c \<in> set (eligible_tickets a m ts)" "d \<in> set (eligible_tickets a m ts)" "cd_id c = cd_id d"
  shows "c = d"
proof -
  have ids: "cd_id t = i" if "(i, Some t, active) \<in> set ts" for i t active
    using assms(1) [unfolded normalize_tickets_iff] that normalized_identifier
    by (fastforce simp: list_all2_conv_all_nth in_set_conv_nth)
  obtain i j where m: "(i, Some c, False) \<in> set ts" "(j, Some d, False) \<in> set ts"
    using assms(3,4) by (auto simp: eligible_iff)
  then have "i = j" using ids assms(5) by metis
  with m assms(2) show ?thesis by (metis eq_key_imp_eq_value option.inject prod.inject)
qed

definition is_selection :: "candidate_ticket list \<Rightarrow> candidate_ticket option \<Rightarrow> bool" where
  "is_selection cs r \<longleftrightarrow>
     (case r of
        None \<Rightarrow> cs = []
      | Some c \<Rightarrow> c \<in> set cs \<and> (\<forall>d \<in> set cs. d \<noteq> c \<longrightarrow> candidate_order c < candidate_order d))"

lemma select_ticket_parts:
  assumes "select_ticket parse_iso bracketed raw a m = Inr r"
  shows "\<exists>items ts. ticket_items raw = Some items \<and> normalize_tickets parse_iso bracketed items = Inr ts
    \<and> distinct (map fst ts) \<and> is_selection (eligible_tickets a m ts) r
    \<and> linear_identifier a \<and> linear_identifier m"
proof -
  from assms obtain items ts where s: "ticket_items raw = Some items"
      "normalize_tickets parse_iso bracketed items = Inr ts" "distinct (map fst ts)"
      "(case eligible_tickets a m ts of [] \<Rightarrow> Inr None | c # cs \<Rightarrow> Inr (Some (first_candidate c cs)))
         = (Inr r :: linear_error + candidate_ticket option)"
      "linear_identifier a" "linear_identifier m"
    by (auto simp: select_ticket_def bind_result_Inr split: if_splits)
  have "is_selection (eligible_tickets a m ts) r"
  proof (cases "eligible_tickets a m ts")
    case Nil
    with s(4) show ?thesis by (simp add: is_selection_def)
  next
    case (Cons c cs)
    with s(4) have r: "r = Some (first_candidate c cs)" by simp
    have "candidate_order (first_candidate c cs) < candidate_order d"
      if d: "d \<in> set (c # cs)" "d \<noteq> first_candidate c cs" for d
    proof -
      have "candidate_order (first_candidate c cs) \<noteq> candidate_order d"
        using eligible_distinct_ids [OF s(2,3)] first_candidate_least [of c cs] d Cons candidate_order_id
        by metis
      with first_candidate_least [of c cs] d(1) show ?thesis by (metis order_le_less)
    qed
    then show ?thesis
      using r Cons first_candidate_least [of c cs] by (simp add: is_selection_def)
  qed
  with s show ?thesis by blast
qed

lemma selection_unique:
  assumes "is_selection cs r" and "is_selection ds r'" and "set cs = set ds"
  shows "r = r'"
proof (cases r)
  case None
  with assms show ?thesis by (cases r') (auto simp: is_selection_def)
next
  case (Some c)
  moreover obtain d where "r' = Some d" using assms Some by (cases r') (auto simp: is_selection_def)
  ultimately show ?thesis using assms by (force simp: is_selection_def)
qed

lemma select_ticket_list:
  assumes "select_ticket parse_iso bracketed (JList items) a m = Inr r"
  obtains ts where "normalize_tickets parse_iso bracketed items = Inr ts"
    "distinct (map fst ts)" "is_selection (eligible_tickets a m ts) r"
    "linear_identifier a" "linear_identifier m"
  using select_ticket_parts [OF assms] that by (auto simp: ticket_items_def)

lemma select_ticket_order:
  assumes "select_ticket parse_iso bracketed (JList items) a m = Inr r" and "mset items' = mset items"
  shows "select_ticket parse_iso bracketed (JList items') a m = Inr r"
proof (rule select_ticket_list [OF assms(1)])
  fix ts
  assume s: "normalize_tickets parse_iso bracketed items = Inr ts" "distinct (map fst ts)"
    "is_selection (eligible_tickets a m ts) r" "linear_identifier a" "linear_identifier m"
  from normalized_mset [OF s(1) [unfolded normalize_tickets_iff] assms(2)] obtain ts' where t:
      "normalize_tickets parse_iso bracketed items' = Inr ts'" "mset ts' = mset ts"
    by blast
  have "distinct (map fst ts')"
    using s(2) t(2) by (metis mset_eq_imp_distinct_iff mset_map)
  then obtain r' where r': "select_ticket parse_iso bracketed (JList items') a m = Inr r'"
    using t s
    by (cases "eligible_tickets a m ts'") (simp_all add: select_ticket_def ticket_items_def or_malformed_def)
  have "is_selection (eligible_tickets a m ts') r'"
    by (rule select_ticket_list [OF r']) (simp add: t(1))
  with selection_unique [OF s(3)] eligible_mset [OF t(2)] have "r' = r" by metis
  with r' show ?thesis by simp
qed

end
