(* ===== verification/Gateway_Laws.thy ===== *)
theory Gateway_Laws
  imports Linear_Gateway Ticket_Selection
begin

section \<open>Laws of the Linear gateway\<close>

text \<open>
  A persisted request is the one that is replayed, a consumed receipt is recognised as
  consumed whatever generation the caller still holds, and an authentic answer to the
  pending request of a waiting run is always accepted.
\<close>

subsection \<open>Requests\<close>

lemma gateway_contract_Inr [simp]:
  "gateway_contract r = Inr x \<longleftrightarrow> r = Inr x" "gateway_contract (Inr x) = Inr x"
  by (simp_all add: gateway_contract_def)

lemma gateway_load_Inr: "gateway_load w = Inr g \<longleftrightarrow> load (lg_store w) = Inr g"
  by (cases "load (lg_store w)") (simp_all add: gateway_load_def)

lemma checked_request:
  assumes "mcp_request_validate clean r = Inr t"
  shows "t = mcp_request_normal r" "mcp_request_fields_ok clean r" "validate_request_hashes t = Inr t"
proof -
  from assms have a: "mcp_request_fields_ok clean r"
      "validate_request_hashes (mcp_request_normal r) = Inr t"
    by (auto simp: mcp_request_validate_def split: if_splits)
  then show "mcp_request_fields_ok clean r" by simp
  from a(2) show t: "t = mcp_request_normal r"
    by (auto simp: validate_request_hashes_def bind_result_Inr split: if_split_asm)
  from a(2) show "validate_request_hashes t = Inr t" by (simp add: t)
qed

lemma request_normal_idem [simp]: "mcp_request_normal (mcp_request_normal r) = mcp_request_normal r"
  by (simp add: mcp_request_normal_def)

lemma request_normal_fields: "mcp_request_fields_ok clean r \<Longrightarrow> mcp_request_fields_ok clean (mcp_request_normal r)"
  by (simp add: mcp_request_fields_ok_def mcp_request_normal_def sha256_pattern_lower)

lemma checked_request_again:
  assumes "mcp_request_validate clean r = Inr t"
  shows "mcp_request_validate clean t = Inr t"
proof -
  note c = checked_request [OF assms]
  have "mcp_request_fields_ok clean t" "mcp_request_normal t = t"
    using c(2) request_normal_fields by (simp_all add: c(1))
  with c(3) show ?thesis by (simp add: mcp_request_validate_def)
qed

lemma same_json_refl: "json_sizes_ok v \<Longrightarrow> same_json v v"
proof (induction v)
  case (JList vs)
  then show ?case by (auto simp: list.rel_refl_strong)
next
  case (JObj kvs)
  have "\<exists>w \<in> set_option (map_of kvs (fst kv)). same_json (snd kv) w" if kv: "kv \<in> set kvs" for kv
  proof -
    have "map_of kvs (fst kv) = Some (snd kv)" using JObj.prems kv by simp
    moreover have "same_json (snd kv) (snd kv)"
      using JObj.IH [of kv "snd kv"] JObj.prems kv by (cases kv) auto
    ultimately show ?thesis by simp
  qed
  then show ?case by simp
qed (simp_all add: equals_int_def)

lemma request_pending_matches:
  assumes "mcp_request_fields_ok clean r"
  shows "pending_matches (pending_of_request r) r"
proof -
  have "same_json (JObj (mr_arguments r)) (JObj (mr_arguments r))"
    using assms by (intro same_json_refl) (simp add: mcp_request_fields_ok_def action_arguments_ok_def)
  then show ?thesis
    unfolding pending_matches_def pending_of_request_def hashes_match_def
    by (simp del: same_json.simps)
qed

lemma pending_rebuilds:
  assumes "mcp_request_validate clean r = Inr t" and "rid = mr_run_id t"
  shows "reconstruct_request clean (pending_of_request t) rid = Inr t"
proof -
  have "\<lparr>mr_request_id = mr_request_id t, mr_effect_id = mr_effect_id t,
      mr_effect_hash = mr_effect_hash t, mr_operation = mr_operation t,
      mr_entity = mr_entity t, mr_target = mr_target t,
      mr_expected_external_revision = mr_expected_external_revision t,
      mr_run_id = rid, mr_expected_revision = mr_expected_revision t,
      mr_expected_state_hash = mr_expected_state_hash t, mr_arguments = mr_arguments t,
      mr_request_hash = mr_request_hash t\<rparr> = t"
    by (simp add: assms(2))
  with checked_request_again [OF assms(1)] show ?thesis
    by (simp add: reconstruct_request_def pending_of_request_def)
qed

subsection \<open>A waiting run\<close>

lemma first_error_two:
  "first_error ((b1, e1) # (b2, e2) # cs) = None \<longleftrightarrow> \<not> b1 \<and> \<not> b2 \<and> first_error cs = None"
  by simp

lemma pending_intention:
  assumes "run_inv clean s" and "pending_external_request s = Some p"
  obtains intentions phases n ts i where
    "validate_effect_ledger s = Inr (intentions, phases)"
    "map_of intentions (pr_effect_id p) = Some (Effect_Intention (pr_effect_id p) n ts i)"
    "phases (pr_effect_id p) \<noteq> Some Phase_Reconciled"
    "ip_request_hash i = pr_request_hash p" "ip_operation i = pr_operation p"
    "pr_target p \<noteq> None \<Longrightarrow>
       \<exists>r. reconstruct_request clean p (run_id s) = Inr r \<and> ip_target i = mr_target r"
proof -
  obtain intentions phases where v: "validate_effect_ledger s = Inr (intentions, phases)"
      "first_error (pending_checks clean s intentions phases p) = None"
    using assms by (auto simp: run_inv_parts pending_ok_def split: sum.splits prod.splits)
  obtain e where e: "map_of intentions (pr_effect_id p) = Some e"
    using v(2) by (auto simp: pending_checks_def split: option.splits)
  have "(pr_effect_id p, e) \<in> set intentions" using e by (rule map_of_SomeD)
  then have "event_effect_id e = pr_effect_id p" "kind_of e = K_Intention"
    unfolding validate_effect_ledger_Inr(3) [OF v(1)] by auto
  then obtain n ts i where i: "e = Effect_Intention (pr_effect_id p) n ts i" by (cases e) auto
  note c = v(2) [unfolded pending_checks_def e i option.case check_simps]
  show thesis
    using that [OF v(1) e [unfolded i]] c
    by (auto simp: first_error_append split: sum.splits if_splits option.splits)
qed

lemma effect_rounds_reconciled:
  "effect_rounds ks \<Longrightarrow> K_Reconciliation \<in> set ks \<Longrightarrow> ks \<noteq> [] \<and> last ks = K_Reconciliation"
  by (induction ks rule: effect_rounds.induct) auto

lemma reconciled_phase:
  "effect_trace ks \<Longrightarrow> K_Reconciliation \<in> set ks \<Longrightarrow> phase_of_trace ks = Some Phase_Reconciled"
  by (cases ks rule: effect_trace.cases) (auto simp: phase_of_trace_def dest: effect_rounds_reconciled)

lemma pending_not_reconciled:
  assumes "run_inv clean s" and "pending_external_request s = Some p"
    and "Effect_Reconciliation (pr_effect_id p) n ts payload \<in> set (effect_ledger s)"
  shows False
proof (rule pending_intention [OF assms(1,2)])
  fix intentions phases
  assume v: "validate_effect_ledger s = Inr (intentions, phases)"
    and p: "phases (pr_effect_id p) \<noteq> Some Phase_Reconciled"
  have "K_Reconciliation \<in> set (trace_of (pr_effect_id p) (effect_ledger s))"
    using assms(3) by (force simp: trace_of_def)
  moreover have "effect_trace (trace_of (pr_effect_id p) (effect_ledger s))"
    using validate_effect_ledger_Inr(1) [OF v] by (simp add: ledger_spec_def)
  ultimately show False
    using p reconciled_phase unfolding validate_effect_ledger_Inr(2) [OF v] by blast
qed

subsection \<open>Persisting\<close>

lemma copied_normal: "model_copy clean f s = Inr t \<Longrightarrow> t = normalize (f s)"
  by (simp add: model_copy_def model_validate_Inr)

lemma swap_or_settle_cases:
  assumes "swap_or_settle w g s settled = Inr (g', w')"
  shows "(\<exists>st. compare_and_swap (lg_store w) (sg_revision g) (sg_state_hash g) s = Inr (g', st)
            \<and> w' = w\<lparr>lg_store := st\<rparr>)
         \<or> (w' = w \<and> load (lg_store w) = Inr g' \<and> settled g')"
  using assms
  by (auto simp: swap_or_settle_def bind_result_Inr gateway_load_Inr split: sum.splits prod.splits if_splits)

lemma persist_parts:
  assumes "persist_pending w g request now update = Inr (g', w')"
    and "pending_external_request (sg_state g) = None"
  obtains snapshot s t where
    "mcp_request_validate (clean_of (gateway_env w)) request = Inr snapshot"
    "request_binding_checks w g snapshot = Inr snapshot"
    "disposition (sg_state g) = ACTIVE"
    "pending_request_valid (clean_of (gateway_env w)) (pending_of_request snapshot)"
    "effect_event_valid (intention_of_request snapshot (next_sequence (effect_ledger (sg_state g))) now)"
    "model_copy (clean_of (gateway_env w))
       (\<lambda>s. s\<lparr>disposition := WAITING_MCP,
              effect_ledger := effect_ledger s
                @ [intention_of_request snapshot (next_sequence (effect_ledger (sg_state g))) now],
              pending_external_request := Some (pending_of_request snapshot)\<rparr>) (sg_state g) = Inr s"
    "apply_update update s request = Inr t"
    "swap_or_settle w g t (\<lambda>current.
       opt_all (\<lambda>p. pending_matches p snapshot) (pending_external_request (sg_state current))
       \<and> pending_external_request (sg_state current) \<noteq> None) = Inr (g', w')"
  using assms
  by (auto simp: persist_pending_def request_binding_checks_def bind_result_Inr Let_def
      dest: checked_request(3) split: if_splits)

lemma persisted_swapped:
  assumes "persist_pending w g request now update = Inr (g', w')"
    and "pending_external_request (sg_state g) = None" and "load (lg_store w) = Inr g"
  obtains snapshot s t where
    "mcp_request_validate (clean_of (gateway_env w)) request = Inr snapshot"
    "mr_run_id snapshot = run_id (sg_state g)"
    "s = normalize ((sg_state g)\<lparr>disposition := WAITING_MCP,
              effect_ledger := effect_ledger (sg_state g)
                @ [intention_of_request snapshot (next_sequence (effect_ledger (sg_state g))) now],
              pending_external_request := Some (pending_of_request snapshot)\<rparr>)"
    "run_inv (clean_of (gateway_env w)) s" "generation_valid w g"
    "apply_update update s request = Inr t"
    "compare_and_swap (lg_store w) (sg_revision g) (sg_state_hash g) t = Inr (g', lg_store w')"
    "w' = w\<lparr>lg_store := lg_store w'\<rparr>"
proof (rule persist_parts [OF assms(1,2)])
  fix snapshot s t
  assume p: "mcp_request_validate (clean_of (gateway_env w)) request = Inr snapshot"
    "request_binding_checks w g snapshot = Inr snapshot"
    "apply_update update s request = Inr t"
    and s: "model_copy (clean_of (gateway_env w))
       (\<lambda>s. s\<lparr>disposition := WAITING_MCP,
              effect_ledger := effect_ledger s
                @ [intention_of_request snapshot (next_sequence (effect_ledger (sg_state g))) now],
              pending_external_request := Some (pending_of_request snapshot)\<rparr>) (sg_state g) = Inr s"
    and w: "swap_or_settle w g t (\<lambda>current.
       opt_all (\<lambda>p. pending_matches p snapshot) (pending_external_request (sg_state current))
       \<and> pending_external_request (sg_state current) \<noteq> None) = Inr (g', w')"
  have "mr_run_id snapshot = run_id (sg_state g)" "generation_valid w g"
    using p(2) by (auto simp: request_binding_checks_def bind_result_Inr split: if_split_asm)
  moreover from swap_or_settle_cases [OF w] assms(2,3) obtain st where
      "compare_and_swap (lg_store w) (sg_revision g) (sg_state_hash g) t = Inr (g', st)"
      "w' = w\<lparr>lg_store := st\<rparr>" by auto
  moreover note p(1) p(3) model_copy_inv [OF s] copied_normal [OF s]
  ultimately show thesis using that by simp
qed

subsection \<open>Replaying\<close>

lemma replay_stored:
  assumes inv: "run_inv (clean_of (gateway_env w)) (sg_state g)" and l: "load (lg_store w) = Inr g"
    and v: "generation_valid w g"
    and p: "pending_external_request (sg_state g) = Some (pending_of_request snapshot)"
    and r: "mcp_request_validate (clean_of (gateway_env w)) request = Inr snapshot"
      "mr_run_id snapshot = run_id (sg_state g)"
  shows "replay_pending w g = Inr (Some snapshot)"
proof (rule pending_intention [OF inv p])
  fix intentions phases n ts i
  assume i: "validate_effect_ledger (sg_state g) = Inr (intentions, phases)"
    "map_of intentions (pr_effect_id (pending_of_request snapshot))
      = Some (Effect_Intention (pr_effect_id (pending_of_request snapshot)) n ts i)"
    "ip_request_hash i = pr_request_hash (pending_of_request snapshot)"
    "ip_operation i = pr_operation (pending_of_request snapshot)"
    and t: "pr_target (pending_of_request snapshot) \<noteq> None \<Longrightarrow>
       \<exists>r. reconstruct_request (clean_of (gateway_env w)) (pending_of_request snapshot) (run_id (sg_state g))
             = Inr r \<and> ip_target i = mr_target r"
  note rebuilt = pending_rebuilds [OF r(1) r(2) [symmetric]]
  have "ip_target i = mr_target snapshot" using t rebuilt by (simp add: pending_of_request_def)
  moreover have "pending_matches (pending_of_request snapshot) snapshot"
    using checked_request(1,2) [OF r(1)] request_normal_fields by (metis request_pending_matches)
  ultimately have "persisted_request_checks g (pending_of_request snapshot) snapshot = Inr snapshot"
    using i by (simp add: persisted_request_checks_def hashes_match_def pending_of_request_def)
  moreover have "gateway_load w = Inr g" using l by (simp add: gateway_load_Inr)
  ultimately show ?thesis
    using v p rebuilt by (simp add: replay_pending_def)
qed

lemma persisted_replays:
  assumes "persist_pending w g request now None = Inr (g', w')"
    and "pending_external_request (sg_state g) = None" and "load (lg_store w) = Inr g"
    and ok: "listing_ok (lg_store w)" "faithful (gateway_env w)"
  shows "(\<exists>snapshot. mcp_request_validate (clean_of (gateway_env w)) request = Inr snapshot
      \<and> replay_pending w' g' = Inr (Some snapshot))
    \<and> load (lg_store w') = Inr g' \<and> generation_valid w' g' \<and> listing_ok (lg_store w')
    \<and> gateway_env w' = gateway_env w"
proof (rule persisted_swapped [OF assms(1-3)])
  fix snapshot s t
  assume a: "mcp_request_validate (clean_of (gateway_env w)) request = Inr snapshot"
    "mr_run_id snapshot = run_id (sg_state g)"
    "s = normalize ((sg_state g)\<lparr>disposition := WAITING_MCP,
              effect_ledger := effect_ledger (sg_state g)
                @ [intention_of_request snapshot (next_sequence (effect_ledger (sg_state g))) now],
              pending_external_request := Some (pending_of_request snapshot)\<rparr>)"
    "run_inv (clean_of (gateway_env w)) s" "generation_valid w g"
    "apply_update None s request = Inr t"
    "compare_and_swap (lg_store w) (sg_revision g) (sg_state_hash g) t = Inr (g', lg_store w')"
    "w' = w\<lparr>lg_store := lg_store w'\<rparr>"
  have t: "t = s" using a(6) by (simp add: apply_update_def)
  have dump: "dump_ok (gateway_env w) s" using ok(2) a(4) by (simp add: faithful_def)
  note l = swapped_loads [OF ok(1) a(7) [unfolded t] a(4) dump]
  have fields: "run_id s = run_id (sg_state g)"
      "pending_external_request s = Some (pending_of_request snapshot)"
    by (simp_all add: a(3) normalize_def)
  have env: "gateway_env w' = gateway_env w" using l(6) by (simp add: same_rest_def)
  have auth: "lg_authority w' = lg_authority w" by (subst a(8)) simp
  have v: "generation_valid w' g'"
    using a(5) l(4,6) fields(1) env auth
    by (simp add: generation_valid_def authority_bound_def same_rest_def)
  have "replay_pending w' g' = Inr (Some snapshot)"
    by (rule replay_stored [OF _ l(2) v, of snapshot request])
      (use a(1,2,4) l(4) fields env in simp_all)
  with a(1) l(2,3) v env show ?thesis by simp
qed

subsection \<open>Consuming\<close>

lemma swap_receipts:
  assumes "compare_and_swap st r h s = Inr (g, st')" and "receipt_file_ok path"
  shows "rs_files st' path = rs_files st path"
proof -
  obtain st1 where st1: "cas_prepare st r h s = Inr (g, st1)" "move_pointer st1 g = Inr st'"
    using assms(1) by (auto simp: compare_and_swap_Inr)
  have "path \<noteq> generation_path st (sg_revision g) (sg_state_hash g)"
      "path \<noteq> current_path (rs_run_id st1)"
    using receipt_not_run_path [OF assms(2)] generation_path_runs current_path_runs by metis+
  then show ?thesis
    using prepare_frame(2) [OF st1(1)] pointer_frame(3) [OF st1(2)] by simp
qed

lemma verified_receipt_cong:
  assumes "\<And>path. receipt_file_ok path \<Longrightarrow> fs' path = fs path"
  shows "load_verified_receipt ck sanitize fs' a e = load_verified_receipt ck sanitize fs a e"
proof (cases "receipt_file_ok (ev_relative_path e)")
  case True
  then have f: "read_json_file fs' (ev_relative_path e) = read_json_file fs (ev_relative_path e)"
    using assms by (intro read_json_file_cong) simp
  show ?thesis unfolding load_verified_receipt_def f ..
next
  case False
  then show ?thesis by (simp add: load_verified_receipt_def)
qed

lemma load_trusted_cong:
  assumes "gateway_env w' = gateway_env w" "lg_authority w' = lg_authority w"
    and "\<And>path. receipt_file_ok path \<Longrightarrow> rs_files (lg_store w') path = rs_files (lg_store w) path"
  shows "load_trusted w' r = load_trusted w r"
proof -
  have "load_verified_receipt ck san (rs_files (lg_store w')) a e
      = load_verified_receipt ck san (rs_files (lg_store w)) a e" for ck san a e
    by (rule verified_receipt_cong) (rule assms(3))
  then show ?thesis by (simp add: load_trusted_def assms(1,2) Let_def)
qed

lemma load_trusted_Some:
  assumes "load_trusted w r = Some a"
  shows "a = r" "trusted_receipt_valid r"
    "signature_matches (se_clock (gateway_env w)) (lg_authority w) r"
    "evidence_ref_valid (gateway_evidence (se_clock (gateway_env w)) r)"
    "load_verified_receipt (se_clock (gateway_env w)) (se_sanitize (gateway_env w)) (rs_files (lg_store w))
       (lg_authority w) (gateway_evidence (se_clock (gateway_env w)) r) = Some r"
  using assms load_verified_receipt_Some
  by (fastforce simp: load_trusted_def Let_def split: if_splits option.splits)+

definition answered :: "store_env \<Rightarrow> run_state \<Rightarrow> trusted_receipt \<Rightarrow> seconds \<Rightarrow> run_state" where
  \<comment> \<open>the state a consumed receipt leads to\<close>
  "answered env s r wait =
     s\<lparr>disposition := ACTIVE,
       effect_ledger := effect_ledger s
         @ answer_events (se_clock env) (the (pending_external_request s)) (next_sequence (effect_ledger s)) r wait,
       pending_external_request := None\<rparr>"

lemma consume_parts:
  assumes "consume_receipt w g r update wait = Inr (g', w')"
  obtains (recorded) "load_trusted w r = Some r" "authority_bound w" "w' = w" "load (lg_store w) = Inr g'"
      "pending_external_request (sg_state g') = None" "receipt_consumed (se_clock (gateway_env w)) g' r"
  | (swapped) p s t where "load_trusted w r = Some r" "authority_bound w" "load (lg_store w) = Inr g"
      "pending_external_request (sg_state g) = Some p"
      "receipt_matches_pending r p (run_id (sg_state g))"
      "model_copy (clean_of (gateway_env w)) (\<lambda>s. answered (gateway_env w) s r wait) (sg_state g) = Inr s"
      "apply_update update s r = Inr t"
      "swap_or_settle w g t (\<lambda>latest. receipt_consumed (se_clock (gateway_env w)) latest r) = Inr (g', w')"
proof -
  obtain a where a: "authority_bound w" "load_trusted w r = Some a"
    using assms by (auto simp: consume_receipt_def split: if_splits option.splits)
  have ar: "load_trusted w r = Some r" using load_trusted_Some(1) [OF a(2)] a(2) by simp
  obtain current where c: "load (lg_store w) = Inr current"
    using assms a ar
    by (auto simp: consume_receipt_def bind_result_Inr gateway_load_Inr split: if_splits)
  then have gl: "gateway_load w = Inr current" by (simp add: gateway_load_Inr)
  show thesis
  proof (cases "pending_external_request (sg_state current)")
    case None
    then show thesis
      using recorded [OF ar a(1)] assms a c ar gl
      by (auto simp: consume_receipt_def split: if_splits)
  next
    case (Some p)
    note u = assms [unfolded consume_receipt_def]
    have e: "current = g" "receipt_matches_pending r p (run_id (sg_state g))" "effect_ledger (sg_state g) \<noteq> []"
      using u a(1) c ar gl Some by (auto simp: Let_def split: if_splits)
    have n: "event_sequence (last (effect_ledger (sg_state g))) + 1 = next_sequence (effect_ledger (sg_state g))"
      using e(3) by (simp add: next_sequence_def)
    have copy: "model_copy clean (\<lambda>s. s\<lparr>disposition := ACTIVE,
          effect_ledger := effect_ledger s @ answer_events ck p (next_sequence (effect_ledger (sg_state g))) r wait,
          pending_external_request := None\<rparr>) (sg_state g)
        = model_copy clean (\<lambda>s. answered env s r wait) (sg_state g)"
      if "ck = se_clock env" for clean env ck
      using Some e(1) that by (simp add: model_copy_def answered_def)
    obtain s t where "model_copy (clean_of (gateway_env w)) (\<lambda>s. answered (gateway_env w) s r wait) (sg_state g) = Inr s"
      "apply_update update s r = Inr t"
      "swap_or_settle w g t (\<lambda>latest. receipt_consumed (se_clock (gateway_env w)) latest r) = Inr (g', w')"
      using u a(1) c ar gl Some e
      by (auto simp: Let_def n copy [OF refl] bind_result_Inr split: if_splits)
    then show thesis
      using swapped [OF ar a(1) c [unfolded e(1)] Some [unfolded e(1)] e(2)] by blast
  qed
qed

definition sound_update :: "linear_gateway \<Rightarrow> trusted_receipt state_update option \<Rightarrow> bool" where
  \<comment> \<open>what the caller's update returns is a validated run state\<close>
  "sound_update w update \<longleftrightarrow>
     (case update of
        None \<Rightarrow> True
      | Some f \<Rightarrow> \<forall>s r t. f s r = Some t \<longrightarrow> run_inv (clean_of (gateway_env w)) t)"

lemma apply_update_Inr:
  assumes "apply_update update s r = Inr t"
  shows "effect_ledger t = effect_ledger s" "pending_external_request t = pending_external_request s"
    "run_inv (clean_of (gateway_env w)) s \<Longrightarrow> sound_update w update \<Longrightarrow> run_inv (clean_of (gateway_env w)) t"
  using assms
  by (auto simp: apply_update_def sound_update_def split: option.splits if_splits)

lemma answer_consumed:
  assumes "receipt_matches_pending r p (run_id s)" and "pending_external_request s = Some p"
    and "effect_ledger (sg_state g) = effect_ledger (answered env s r wait)"
    and "run_id (sg_state g) = run_id s"
  shows "receipt_consumed (se_clock env) g r"
  using assms by (simp add: receipt_consumed_def receipt_matches_pending_def answered_def answer_events_def)

lemma consumed_run:
  assumes "consume_receipt w g r update wait = Inr (g', w')"
    and ok: "listing_ok (lg_store w)" "faithful (gateway_env w)" and u: "sound_update w update"
  shows "authority_bound w' \<and> load_trusted w' r = Some r \<and> load (lg_store w') = Inr g'
    \<and> pending_external_request (sg_state g') = None
    \<and> receipt_consumed (se_clock (gateway_env w')) g' r
    \<and> gateway_env w' = gateway_env w \<and> rs_run_id (lg_store w') = rs_run_id (lg_store w)"
  using assms(1)
proof (cases rule: consume_parts)
  case recorded
  then show ?thesis by simp
next
  case (swapped p s t)
  note inv = load_inv [OF ok(2) swapped(3)]
  note s = copied_normal [OF swapped(6)] model_copy_inv [OF swapped(6)]
  note t = apply_update_Inr [OF swapped(7)]
  have ledger: "effect_ledger t = effect_ledger (answered (gateway_env w) (sg_state g) r wait)"
      "pending_external_request t = None"
    using s(1) t(1,2) by (simp_all add: normalize_def answered_def)
  from swap_or_settle_cases [OF swapped(8)] show ?thesis
  proof
    assume "w' = w \<and> load (lg_store w) = Inr g' \<and> receipt_consumed (se_clock (gateway_env w)) g' r"
    then have c: "receipt_consumed (se_clock (gateway_env w)) g r" using swapped(3) by simp
    have "tr_effect_id r = pr_effect_id p" using swapped(5) by (simp add: receipt_matches_pending_def)
    moreover from c obtain e where "e \<in> set (effect_ledger (sg_state g))"
        "case e of Effect_Reconciliation x _ _ p \<Rightarrow>
              x = tr_effect_id r \<and> rp_receipt_hash p = Some (receipt_content_hash (se_clock (gateway_env w)) r)
          | _ \<Rightarrow> False"
      by (auto simp: receipt_consumed_def)
    ultimately obtain n ts payload where
        "Effect_Reconciliation (pr_effect_id p) n ts payload \<in> set (effect_ledger (sg_state g))"
      by (cases e) auto
    from pending_not_reconciled [OF inv(1) swapped(4) this] show ?thesis ..
  next
    assume "\<exists>st. compare_and_swap (lg_store w) (sg_revision g) (sg_state_hash g) t = Inr (g', st)
        \<and> w' = w\<lparr>lg_store := st\<rparr>"
    then obtain st where st: "compare_and_swap (lg_store w) (sg_revision g) (sg_state_hash g) t = Inr (g', st)"
        "w' = w\<lparr>lg_store := st\<rparr>" by blast
    have ti: "run_inv (clean_of (gateway_env w)) t" "dump_ok (gateway_env w) t"
      using t(3) [OF s(2) u] ok(2) by (simp_all add: faithful_def)
    note l = swapped_loads [OF ok(1) st(1) ti]
    have env: "gateway_env w' = gateway_env w" "rs_run_id (lg_store w') = rs_run_id (lg_store w)"
      using l(6) st(2) by (simp_all add: same_rest_def)
    have "load_trusted w' r = load_trusted w r"
      by (rule load_trusted_cong) (use env st swap_receipts [OF st(1)] in simp_all)
    moreover have "run_id (sg_state g') = run_id (sg_state g)"
      using load_inv(2) [of "lg_store w'" g'] l(2) inv(2) env ok(2) st(2) by simp
    with answer_consumed [OF swapped(5,4)] ledger(1) l(4)
    have "receipt_consumed (se_clock (gateway_env w)) g' r" by simp
    ultimately show ?thesis
      using swapped(1,2) l(2,4) ledger(2) env st(2) by (simp add: authority_bound_def)
  qed
qed

lemma consumed_again:
  assumes "consume_receipt w g r update wait = Inr (g', w')"
    and "listing_ok (lg_store w)" "faithful (gateway_env w)" "sound_update w update"
    and "run_id (sg_state h) = rs_run_id (lg_store w)"
  shows "consume_receipt w' h r update' wait' = Inr (g', w')"
proof -
  note c = consumed_run [OF assms(1-4)]
  then have "gateway_load w' = Inr g'" "generation_valid w' h"
    using assms(5) by (simp_all add: gateway_load_Inr generation_valid_def)
  with c show ?thesis by (auto simp: consume_receipt_def)
qed

subsection \<open>Persisting again\<close>

text \<open>The time of an intention plays no part in the validity of a state, so a retry at
  another time reaches the compare and swap, loses it and finds its own request.\<close>

definition with_intention :: "run_state \<Rightarrow> mcp_request \<Rightarrow> datetime \<Rightarrow> run_state" where
  "with_intention s r now =
     s\<lparr>disposition := WAITING_MCP,
       effect_ledger := effect_ledger s @ [intention_of_request r (next_sequence (effect_ledger s)) now],
       pending_external_request := Some (pending_of_request r)\<rparr>"

lemma intention_valid_time:
  "effect_event_valid (intention_of_request r n now) = effect_event_valid (intention_of_request r n now')"
  by (simp add: effect_event_valid_def intention_of_request_def)

lemma intention_step_time:
  "ledger_step l (intention_of_request r n now) =
     (case ledger_step l (intention_of_request r n now') of
        Inl e \<Rightarrow> Inl e
      | Inr l' \<Rightarrow> Inr (l'\<lparr>led_intentions := led_intentions l @ [(mr_effect_id r, intention_of_request r n now)]\<rparr>))"
  by (simp add: ledger_step_def intention_of_request_def set_phase_def Let_def)

lemma pending_checks_payload:
  assumes "map_option intention_payload (map_of a (pr_effect_id p)) = map_option intention_payload (map_of b (pr_effect_id p))"
  shows "pending_checks clean s a phases p = pending_checks clean s b phases p"
  using assms by (cases "map_of a (pr_effect_id p)"; cases "map_of b (pr_effect_id p)")
    (simp_all add: pending_checks_def cong: sum.case_cong if_cong)

lemma pending_ok_time:
  assumes "pending_ok clean (normalize (with_intention s r now))"
  shows "pending_ok clean (normalize (with_intention s r now'))"
proof -
  let ?es = "effect_ledger s" and ?n = "next_sequence (effect_ledger s)" and ?p = "pending_of_request r"
  let ?t = "normalize (with_intention s r now)" and ?t' = "normalize (with_intention s r now')"
  have f: "pending_external_request ?t = Some ?p" "pending_external_request ?t' = Some ?p"
      "run_id ?t' = run_id ?t"
      "effect_ledger ?t = ?es @ [intention_of_request r ?n now]"
      "effect_ledger ?t' = ?es @ [intention_of_request r ?n now']"
    by (simp_all add: normalize_def with_intention_def)
  obtain i ph where v: "validate_effect_ledger ?t = Inr (i, ph)"
      "first_error (pending_checks clean ?t i ph ?p) = None"
    using assms f(1) by (auto simp: pending_ok_def split: sum.splits)
  then obtain l l1 where l: "ledger_run empty_ledger ?es = Inr l"
      "ledger_step l (intention_of_request r ?n now) = Inr l1" "i = led_intentions l1" "ph = led_phases l1"
    by (auto simp: validate_effect_ledger_def f(4) ledger_run_snoc bind_result_Inr)
  define l2 where "l2 = l1\<lparr>led_intentions := led_intentions l @ [(mr_effect_id r, intention_of_request r ?n now')]\<rparr>"
  have step: "ledger_step l (intention_of_request r ?n now') = Inr l2"
    using intention_step_time [of l r ?n now' now] l(2) by (simp add: l2_def)
  have "led_intentions l1 = led_intentions l @ [(mr_effect_id r, intention_of_request r ?n now)]"
    using ledger_step_result(3) [OF l(2)] by (simp add: intention_of_request_def)
  then have same: "map_option intention_payload (map_of (led_intentions l1) (pr_effect_id ?p))
      = map_option intention_payload (map_of (led_intentions l2) (pr_effect_id ?p))"
    by (simp add: l2_def map_add_def intention_of_request_def split: option.splits)
  have "validate_effect_ledger ?t' = Inr (led_intentions l2, ph)"
    using l(1) step l(4) by (simp add: validate_effect_ledger_def f(5) ledger_run_snoc l2_def)
  moreover have "first_error (pending_checks clean ?t' (led_intentions l2) ph ?p) = None"
    using v(2) pending_checks_payload [OF same] pending_checks_cong [OF f(3)] l(3) by simp
  ultimately show ?thesis by (simp add: pending_ok_def f(2))
qed

lemma state_checks_frame:
  "state_checks (s\<lparr>disposition := d, effect_ledger := l, pending_external_request := p\<rparr>) = state_checks s"
proof -
  let ?t = "s\<lparr>disposition := d, effect_ledger := l, pending_external_request := p\<rparr>"
  have "task_checks ?t = task_checks s" by (rule task_checks_cong) simp_all
  then show ?thesis
    by (simp add: state_checks_def binding_checks_def trust_checks_def release_checks_def
        iteration_checks_def checkpoint_checks_def has_preparation_binding_def authorized_iteration_limit_def)
qed

lemma with_intention_time:
  assumes "model_validate clean (with_intention s r now) = Inr t"
  shows "model_validate clean (with_intention s r now') = Inr (normalize (with_intention s r now'))"
proof -
  let ?t = "normalize (with_intention s r now)" and ?t' = "normalize (with_intention s r now')"
  have ok: "fields_ok clean (with_intention s r now)" "validate_state clean ?t = Inr ?t"
    using assms by (simp_all add: model_validate_Inr)
  have "fields_ok clean (with_intention s r now')"
    using ok(1) intention_valid_time [of r "next_sequence (effect_ledger s)" now now']
    by (simp add: fields_ok_def nested_ok_def digest_fields_def with_intention_def)
  moreover have "state_checks ?t' = state_checks ?t"
  proof -
    have "normalize (with_intention s r x) = (normalize s)\<lparr>disposition := WAITING_MCP,
        effect_ledger := effect_ledger s @ [intention_of_request r (next_sequence (effect_ledger s)) x],
        pending_external_request := Some (pending_of_request r)\<rparr>" for x
      by (simp add: normalize_def with_intention_def)
    then show ?thesis by (simp only: state_checks_frame)
  qed
  moreover have "ledger_spec (effect_ledger ?t') = ledger_spec (effect_ledger ?t)"
    by (simp add: normalize_def with_intention_def ledger_spec_snoc intention_of_request_def)
  ultimately show ?thesis
    using ok(2) pending_ok_time [of clean s r now now']
    by (simp add: model_validate_Inr validate_state_iff)
qed

lemma persisted_once:
  assumes "persist_pending w g request now None = Inr (g', w')"
    and n: "pending_external_request (sg_state g) = None" and l: "load (lg_store w) = Inr g"
    and ok: "listing_ok (lg_store w)" "faithful (gateway_env w)"
  shows "persist_pending w' g request now' None = Inr (g', w')"
proof (rule persist_parts [OF assms(1) n])
  fix snapshot s t
  assume p: "mcp_request_validate (clean_of (gateway_env w)) request = Inr snapshot"
    "request_binding_checks w g snapshot = Inr snapshot" "disposition (sg_state g) = ACTIVE"
    "pending_request_valid (clean_of (gateway_env w)) (pending_of_request snapshot)"
    "effect_event_valid (intention_of_request snapshot (next_sequence (effect_ledger (sg_state g))) now)"
    "apply_update None s request = Inr t"
    and s: "model_copy (clean_of (gateway_env w))
       (\<lambda>s. s\<lparr>disposition := WAITING_MCP,
              effect_ledger := effect_ledger s
                @ [intention_of_request snapshot (next_sequence (effect_ledger (sg_state g))) now],
              pending_external_request := Some (pending_of_request snapshot)\<rparr>) (sg_state g) = Inr s"
    and w: "swap_or_settle w g t (\<lambda>current.
       opt_all (\<lambda>p. pending_matches p snapshot) (pending_external_request (sg_state current))
       \<and> pending_external_request (sg_state current) \<noteq> None) = Inr (g', w')"
  have t: "t = s" using p(6) by (simp add: apply_update_def)
  obtain st where st: "compare_and_swap (lg_store w) (sg_revision g) (sg_state_hash g) s = Inr (g', st)"
      "w' = w\<lparr>lg_store := st\<rparr>"
    using swap_or_settle_cases [OF w [unfolded t]] n l by auto
  have inv: "run_inv (clean_of (gateway_env w)) s" "dump_ok (gateway_env w) s"
    using model_copy_inv [OF s] ok(2) by (simp_all add: faithful_def)
  note after = swapped_loads [OF ok(1) st(1) inv]
  have env: "gateway_env w' = gateway_env w" "rs_run_id (lg_store w') = rs_run_id (lg_store w)"
      "lg_authority w' = lg_authority w" "lg_store w' = st"
    using after(6) st(2) by (simp_all add: same_rest_def)
  then have v: "generation_valid w' g = generation_valid w g" "request_binding_checks w' g = request_binding_checks w g"
    by (simp_all add: generation_valid_def authority_bound_def request_binding_checks_def fun_eq_iff)
  have sn: "with_intention (sg_state g) snapshot now = (sg_state g)\<lparr>disposition := WAITING_MCP,
              effect_ledger := effect_ledger (sg_state g)
                @ [intention_of_request snapshot (next_sequence (effect_ledger (sg_state g))) now],
              pending_external_request := Some (pending_of_request snapshot)\<rparr>" for now
    by (simp add: with_intention_def)
  have copy: "model_copy (clean_of (gateway_env w))
       (\<lambda>s. s\<lparr>disposition := WAITING_MCP,
              effect_ledger := effect_ledger s
                @ [intention_of_request snapshot (next_sequence (effect_ledger (sg_state g))) now'],
              pending_external_request := Some (pending_of_request snapshot)\<rparr>) (sg_state g)
      = Inr (normalize (with_intention (sg_state g) snapshot now'))"
    using with_intention_time [of _ "sg_state g" snapshot now s now'] s by (simp add: model_copy_def sn)
  have lost: "compare_and_swap st (sg_revision g) (sg_state_hash g) x = Inl (Store Cas_Conflict)" for x
    by (rule lost_race [OF ok(1) st(1) inv])
  have "gateway_load w' = Inr g'" using after(2) by (simp add: gateway_load_Inr env(4))
  moreover have "pending_external_request (sg_state g') = Some (pending_of_request snapshot)"
    using after(4) copied_normal [OF s] by (simp add: normalize_def)
  moreover have "pending_matches (pending_of_request snapshot) snapshot"
    using checked_request(1,2) [OF p(1)] request_normal_fields by (metis request_pending_matches)
  ultimately have "swap_or_settle w' g x (\<lambda>current.
       opt_all (\<lambda>p. pending_matches p snapshot) (pending_external_request (sg_state current))
       \<and> pending_external_request (sg_state current) \<noteq> None) = Inr (g', w')" for x
    by (simp add: swap_or_settle_def env(4) lost)
  then show ?thesis
    using p n copy intention_valid_time [of snapshot _ now now']
    by (simp add: persist_pending_def env(1) v(2) Let_def apply_update_def)
qed

subsection \<open>An authentic answer is accepted\<close>

definition answers ::
  "linear_gateway \<Rightarrow> state_generation \<Rightarrow> pending_request \<Rightarrow> trusted_receipt \<Rightarrow> seconds \<Rightarrow> bool" where
  \<comment> \<open>an authenticated receipt for the open effect \<open>p\<close> of a waiting run\<close>
  "answers w g p r wait \<longleftrightarrow>
     disposition (sg_state g) = WAITING_MCP \<and> pending_external_request (sg_state g) = Some p
     \<and> phase_of (sg_state g) (pr_effect_id p) = Some Phase_Ready
     \<and> load_trusted w r = Some r \<and> receipt_matches_pending r p (run_id (sg_state g))
     \<and> pr_target p = Some (tr_target r) \<and> 0 \<le> wait \<and> opt_all safe_text (tr_external_revision r)
     \<and> persisted_ok (se_dump (gateway_env w) (answered (gateway_env w) (sg_state g) r wait))"

lemma pending_ledger_nonempty:
  assumes "run_inv clean s" and "pending_external_request s = Some p"
  shows "effect_ledger s \<noteq> []"
proof
  assume empty: "effect_ledger s = []"
  show False
  proof (rule pending_intention [OF assms])
    fix intentions phases n ts i
    assume v: "validate_effect_ledger s = Inr (intentions, phases)"
      and m: "map_of intentions (pr_effect_id p) = Some (Effect_Intention (pr_effect_id p) n ts i)"
    show False using m validate_effect_ledger_Inr(3) [OF v] by (simp add: empty)
  qed
qed

lemma next_sequence_positive:
  assumes "ledger_spec es"
  shows "0 < next_sequence es"
proof (cases "es = []")
  case False
  then have "0 < event_sequence (last es)"
    using assms by (simp add: ledger_spec_def sequences_increase_def)
  with False show ?thesis by (simp add: next_sequence_def)
qed (simp add: next_sequence_def)

lemma answer_events_valid:
  assumes "answers w g p r wait" and "run_inv (clean_of (gateway_env w)) (sg_state g)"
  shows "list_all effect_event_valid
    (answer_events (se_clock (gateway_env w)) p (next_sequence (effect_ledger (sg_state g))) r wait)"
proof -
  have p: "reference_id (pr_effect_id p)" "safe_text (pr_effect_id p)"
    using assms
    by (auto simp: answers_def run_inv_parts fields_ok_def nested_ok_def pending_request_valid_def)
  have t: "load_trusted w r = Some r" "0 \<le> wait" "opt_all safe_text (tr_external_revision r)"
    using assms(1) by (simp_all add: answers_def)
  have "evidence_ref_valid (gateway_evidence (se_clock (gateway_env w)) r)"
      "opt_all external_revision_ok (tr_external_revision r)"
    using load_trusted_Some [OF t(1)] by (simp_all add: trusted_receipt_valid_def)
  moreover have "sha256_pattern (receipt_content_hash ck r) \<and> lower (receipt_content_hash ck r) = receipt_content_hash ck r" for ck
    using hash_is_sha256 by (simp add: receipt_content_hash_def is_sha256_def)
  ultimately show ?thesis
    using p t next_sequence_positive [OF run_inv_ledger [OF assms(2)]]
    by (cases "tr_external_revision r")
      (simp_all add: answer_events_def effect_event_valid_def observation_payload_valid_def
        reconciliation_payload_valid_def)
qed

lemma next_sequence_snoc [simp]: "next_sequence (es @ [e]) = event_sequence e + 1"
  by (simp add: next_sequence_def)

lemma phase_of_trace_snoc [simp]: "phase_of_trace (trace_of x (es @ [e])) =
    (if event_effect_id e = x then phase_of_trace [kind_of e] else phase_of_trace (trace_of x es))"
  by (simp add: trace_of_snoc phase_of_trace_def)

lemma phase_of_trace_single [simp]:
  "phase_of_trace [K_Intention] = Some Phase_Ready" "phase_of_trace [K_Invocation] = Some Phase_Awaiting"
  "phase_of_trace [K_Observation] = Some Phase_Ready"
  "phase_of_trace [K_Reconciliation] = Some Phase_Reconciled"
  by (simp_all add: phase_of_trace_def)

lemma answered_ledger:
  assumes "ledger_spec es" and "phase_of_trace (trace_of (pr_effect_id p) es) = Some Phase_Ready"
  shows "ledger_spec (es @ answer_events ck p (next_sequence es) r wait)"
    "phase_of_trace (trace_of (pr_effect_id p) (es @ answer_events ck p (next_sequence es) r wait))
       = Some Phase_Reconciled"
proof -
  obtain e1 e2 e3 where e: "answer_events ck p (next_sequence es) r wait = [e1, e2, e3]"
      "event_effect_id e1 = pr_effect_id p" "event_effect_id e2 = pr_effect_id p"
      "event_effect_id e3 = pr_effect_id p" "kind_of e1 = K_Invocation" "kind_of e2 = K_Observation"
      "kind_of e3 = K_Reconciliation" "event_sequence e1 = next_sequence es"
      "event_sequence e2 = event_sequence e1 + 1" "event_sequence e3 = event_sequence e2 + 1"
    by (simp add: answer_events_def)
  have "ledger_spec (es @ [e1])"
    by (rule ledger_spec_next [OF assms(1)]) (use assms(2) e in \<open>simp_all add: phase_allows_def\<close>)
  then have "ledger_spec ((es @ [e1]) @ [e2])"
    by (rule ledger_spec_next) (use e in \<open>simp_all add: phase_allows_def\<close>)
  then have "ledger_spec (((es @ [e1]) @ [e2]) @ [e3])"
    by (rule ledger_spec_next)
      (use e in \<open>simp_all add: phase_allows_def del: append_assoc\<close>)
  then show "ledger_spec (es @ answer_events ck p (next_sequence es) r wait)" using e(1) by simp
  have "phase_of_trace (trace_of (pr_effect_id p) ((es @ [e1, e2]) @ [e3])) = Some Phase_Reconciled"
    by (subst phase_of_trace_snoc) (simp add: e)
  with e(1) show "phase_of_trace (trace_of (pr_effect_id p) (es @ answer_events ck p (next_sequence es) r wait))
       = Some Phase_Reconciled"
    by simp
qed

lemma phase_of_ledger:
  assumes "ledger_spec (effect_ledger s)"
  shows "phase_of s x = phase_of_trace (trace_of x (effect_ledger s))"
proof -
  obtain i ph where v: "validate_effect_ledger s = Inr (i, ph)"
    using assms validate_effect_ledger_iff [of s] by (auto simp: is_ok_iff)
  from validate_effect_ledger_Inr(2) [OF v] v show ?thesis by (simp add: phase_of_def)
qed

lemma answer_state_inv:
  assumes a: "answers w g p r wait" and i: "run_inv (clean_of (gateway_env w)) (sg_state g)"
  shows "run_inv (clean_of (gateway_env w)) (answered (gateway_env w) (sg_state g) r wait)"
proof -
  let ?s = "sg_state g" and ?t = "answered (gateway_env w) (sg_state g) r wait"
  have p: "pending_external_request ?s = Some p" "phase_of ?s (pr_effect_id p) = Some Phase_Ready"
    using a by (simp_all add: answers_def)
  have "fields_ok (clean_of (gateway_env w)) ?t"
    using i answer_events_valid [OF a i] p(1)
    by (simp add: run_inv_parts fields_ok_def nested_ok_def digest_fields_def answered_def)
  moreover have "normalize ?t = ?t"
    using i by (simp add: run_inv_parts normalize_fixed_iff normal_fields_def answered_def)
  moreover have "state_checks ?t = state_checks ?s" by (simp only: answered_def state_checks_frame)
  moreover have "ledger_spec (effect_ledger ?t)"
    using answered_ledger(1) run_inv_ledger [OF i] p
    by (simp add: answered_def phase_of_ledger)
  ultimately show ?thesis
    using i by (simp add: run_inv_parts pending_ok_def answered_def)
qed

lemma reconstruct_target:
  assumes "reconstruct_request clean p rid = Inr q"
  shows "pr_target p = Some (mr_target q)"
proof -
  obtain entity tgt arguments effect_hash revision state_hash where
      c: "pr_entity p = Some entity" "pr_target p = Some tgt" "pr_arguments p = Some arguments"
      "pr_effect_hash p = Some effect_hash" "pr_expected_revision p = Some revision"
      "pr_expected_state_hash p = Some state_hash"
    using assms by (auto simp: reconstruct_request_def split: option.splits)
  with assms show ?thesis
    by (auto simp: reconstruct_request_def mcp_request_normal_def dest!: checked_request(1)
        split: sum.splits if_splits)
qed

lemma answered_authentic:
  assumes a: "answers w g p r wait" and i: "run_inv (clean_of (gateway_env w)) (sg_state g)"
    and bound: "authority_bound w"
  shows "authenticated_reconciliation (view_of (lg_store w)) (sg_state g)
           (answered (gateway_env w) (sg_state g) r wait) = Some r"
proof -
  let ?s = "sg_state g" and ?ck = "se_clock (gateway_env w)"
  have p: "pending_external_request ?s = Some p" "load_trusted w r = Some r" "0 \<le> wait"
      "receipt_matches_pending r p (run_id ?s)" "pr_target p = Some (tr_target r)"
    using a by (simp_all add: answers_def)
  note env = load_trusted_Some(5) [OF p(2)]
  have view: "sv_env (view_of (lg_store w)) = gateway_env w" "sv_files (view_of (lg_store w)) = rs_files (lg_store w)"
    by (simp_all add: view_of_def)
  have "load_receipt (view_of (lg_store w)) (gateway_evidence ?ck r) = Some r"
    using env bound by (simp add: load_receipt_def view authority_bound_def)
  moreover have "receipt_answers (gateway_env w) ?s u p r (gateway_evidence ?ck r) e1
      (Effect_Observation x n ts \<lparr>op_outcome = tr_outcome r, op_external_revision = tr_external_revision r,
         op_evidence_refs = es\<rparr>) e3"
    if "event_timestamp e1 = tr_observed_at r" "ts = tr_observed_at r" "event_timestamp e3 = tr_observed_at r"
      "run_id u = run_id ?s"
    for u e1 x n ts es e3
  proof (rule pending_intention [OF i p(1)])
    fix intentions phases n ts' j
    assume v: "validate_effect_ledger ?s = Inr (intentions, phases)"
      "map_of intentions (pr_effect_id p) = Some (Effect_Intention (pr_effect_id p) n ts' j)"
      "ip_request_hash j = pr_request_hash p" "ip_operation j = pr_operation p"
      and t: "pr_target p \<noteq> None \<Longrightarrow>
       \<exists>q. reconstruct_request (clean_of (gateway_env w)) p (run_id ?s) = Inr q \<and> ip_target j = mr_target q"
    have "ip_target j = tr_target r" using t p(5) reconstruct_target by fastforce
    with v p(4) that show ?thesis
      by (simp add: receipt_answers_def gateway_evidence_def receipt_matches_pending_def hashes_match_def)
  qed
  moreover have "next_sequence (effect_ledger ?s) = event_sequence (last (effect_ledger ?s)) + 1"
    using pending_ledger_nonempty [OF i p(1)] by (simp add: next_sequence_def)
  moreover have "trusted_evidence [gateway_evidence ?ck r] [gateway_evidence ?ck r]
      (Some (receipt_content_hash ?ck r)) = Some (gateway_evidence ?ck r)"
    by (simp add: trusted_evidence_def gateway_evidence_def)
  ultimately show ?thesis
    using p
    by (simp add: authenticated_reconciliation_def answered_def appended_def answer_events_def view)
qed

lemma answer_state_accepted:
  assumes a: "answers w g p r wait" and i: "run_inv (clean_of (gateway_env w)) (sg_state g)"
    and bound: "authority_bound w"
    and entry: "no_error (entry_checks (view_of (lg_store w)) (sg_state g))"
  shows "validate_transition (view_of (lg_store w)) (Some g) (answered (gateway_env w) (sg_state g) r wait)
    = Inr (answered (gateway_env w) (sg_state g) r wait)"
proof -
  let ?s = "sg_state g" and ?t = "answered (gateway_env w) (sg_state g) r wait"
  let ?v = "view_of (lg_store w)"
  have p: "pending_external_request ?s = Some p" "disposition ?s = WAITING_MCP"
      "phase_of ?s (pr_effect_id p) = Some Phase_Ready"
    using a by (simp_all add: answers_def)
  have view: "sv_env ?v = gateway_env w" by (simp add: view_of_def)
  have f: "pending_external_request ?t = None" "disposition ?t = ACTIVE"
      "effect_ledger ?t = effect_ledger ?s
         @ answer_events (se_clock (gateway_env w)) p (next_sequence (effect_ledger ?s)) r wait"
    by (simp_all add: answered_def p)
  have same: "run_id ?t = run_id ?s" "ticket_id ?t = ticket_id ?s" "repository_id ?t = repository_id ?s"
    by (simp_all add: answered_def)
  have "model_validate (clean_of (gateway_env w)) ?t = Inr ?t"
    using answer_state_inv [OF a i] by (simp add: run_inv_def)
  moreover have "persisted_ok (se_dump (gateway_env w) ?t)" using a by (simp add: answers_def)
  moreover have "no_error (entry_checks ?v ?t)"
    using entry by (simp only: entry_checks_def identifiers_ok_def same)
  moreover have "no_error (pending_lifecycle_checks ?v g ?t)"
    using answered_authentic [OF a i bound] by (simp add: pending_lifecycle_checks_def p f Let_def)
  moreover have "no_error (immutable_checks ?s ?t)"
    by (simp add: immutable_checks_def answered_def has_preparation_binding_def is_prefix_def)
  moreover have "no_error (live_checks ?v g ?t)"
  proof -
    have "phase_of ?t (pr_effect_id p) = Some Phase_Reconciled"
      using answered_ledger run_inv_ledger [OF i] run_inv_ledger [OF answer_state_inv [OF a i]] p(3)
      by (simp add: phase_of_ledger f(3))
    then have w: "waiting_resume_ok ?s ?t"
      by (simp add: waiting_resume_ok_def p f(1))
        (simp add: answered_def new_authorizations_def appended_def authorized_iteration_limit_def)
    have n: "new_authorizations ?s ?t = []" "\<not> compensated ?s \<and> compensated ?t \<Longrightarrow> False"
      by (simp_all add: new_authorizations_def answered_def appended_def)
    have "no_error (task_transition_checks ?s ?t)"
      by (cases "task_status_manifest ?s")
        (auto simp: task_transition_checks_def answered_def no_error_def list_ex_iff)
    moreover have "no_error (preparation_checks ?v ?s ?t)"
      by (cases "preparation_phase ?s") (simp_all add: preparation_checks_def answered_def Let_def p(2))
    moreover have "no_error (disposition_checks ?s ?t)"
      using w by (simp add: disposition_checks_def p(2) f(2))
    moreover have "no_error (iteration_transition_checks ?s ?t)"
      by (simp add: iteration_transition_checks_def answered_def)
    moreover have "no_error (authorization_checks (gateway_env w) ?s ?t)"
      by (simp add: authorization_checks_def n)
    ultimately show ?thesis by (simp add: live_checks_def view p(2) Let_def)
  qed
  ultimately show ?thesis
    by (simp add: validate_transition_def view follow_state_def p(2) checked_no_error [THEN iffD2])
qed

lemma answer_resumes:
  assumes a: "answers w g p r wait" and l: "load (lg_store w) = Inr g"
    and bound: "authority_bound w" and ok: "listing_ok (lg_store w)" "faithful (gateway_env w)"
    and entry: "no_error (entry_checks (view_of (lg_store w)) (sg_state g))"
  shows "\<exists>g' w'. consume_receipt w g r None wait = Inr (g', w')
    \<and> sg_state g' = answered (gateway_env w) (sg_state g) r wait \<and> load (lg_store w') = Inr g'"
proof -
  let ?t = "answered (gateway_env w) (sg_state g) r wait"
  note li = load_inv [OF ok(2) l]
  have p: "pending_external_request (sg_state g) = Some p" "load_trusted w r = Some r" "\<not> wait < 0"
      "receipt_matches_pending r p (run_id (sg_state g))"
    using a by (simp_all add: answers_def)
  have t: "run_inv (clean_of (gateway_env w)) ?t" "dump_ok (gateway_env w) ?t"
    using answer_state_inv [OF a li(1)] ok(2) by (simp_all add: faithful_def)
  from swap_succeeds [OF ok(1) load_current(1) [OF l] _ answer_state_accepted [OF a li(1) bound entry]]
  obtain st where st: "compare_and_swap (lg_store w) (sg_revision g) (sg_state_hash g) ?t
      = Inr (create_generation (gateway_env w) (sg_revision g + 1) ?t, st)"
    by (auto simp: current_digest_def)
  note after = swapped_loads [OF ok(1) st t]
  have gl: "gateway_load w = Inr g" using l by (simp add: gateway_load_Inr)
  have v: "generation_valid w g" using bound li(2) by (simp add: generation_valid_def)
  have nonempty: "effect_ledger (sg_state g) \<noteq> []" by (rule pending_ledger_nonempty [OF li(1) p(1)])
  have copy: "model_copy (clean_of (gateway_env w))
      (\<lambda>s. s\<lparr>disposition := ACTIVE,
             effect_ledger := effect_ledger s
               @ answer_events (se_clock (gateway_env w)) p (event_sequence (last (effect_ledger (sg_state g))) + 1) r wait,
             pending_external_request := None\<rparr>) (sg_state g) = Inr ?t"
    using t(1) nonempty
    by (simp add: model_copy_def run_inv_def answered_def p(1) next_sequence_def)
  have "list_all effect_event_valid
      (answer_events (se_clock (gateway_env w)) p (event_sequence (last (effect_ledger (sg_state g))) + 1) r wait)"
    using answer_events_valid [OF a li(1)] nonempty by (simp add: next_sequence_def)
  then have "consume_receipt w g r None wait
      = Inr (create_generation (gateway_env w) (sg_revision g + 1) ?t, w\<lparr>lg_store := st\<rparr>)"
    using bound p gl v nonempty copy st
    by (simp add: consume_receipt_def Let_def apply_update_def swap_or_settle_def)
  with after(2,4) show ?thesis by auto
qed

end
