(* ===== verification/Sample_Gateway.thy ===== *)
theory Sample_Gateway
  imports Gateway_Laws Sample_Receipts
begin

section \<open>A request and its answer\<close>

text \<open>
  A store with the sample run, a request for it, the signed receipt that answers the
  request, and the gateway over them: the concrete world of the gateway's properties.
\<close>

definition sample_action :: mcp_request where
  "sample_action =
     (let r0 = \<lparr>mr_request_id = sample_uuid, mr_effect_id = ''e1'', mr_effect_hash = [],
                mr_operation = ''query_tickets'', mr_entity = ''p1'', mr_target = ''p1'',
                mr_expected_external_revision = None, mr_run_id = ''r1'', mr_expected_revision = 1,
                mr_expected_state_hash = state_hash_of receipt_env sample_start, mr_arguments = [],
                mr_request_hash = []\<rparr>;
          r1 = r0\<lparr>mr_effect_hash := hash_json (effect_payload r0)\<rparr>
      in r1\<lparr>mr_request_hash := hash_json (request_payload r1)\<rparr>)"

lemma sample_action_fields:
  "mr_request_id sample_action = sample_uuid" "mr_effect_id sample_action = ''e1''"
  "mr_operation sample_action = ''query_tickets''" "mr_entity sample_action = ''p1''"
  "mr_target sample_action = ''p1''" "mr_expected_external_revision sample_action = None"
  "mr_run_id sample_action = ''r1''" "mr_expected_revision sample_action = 1"
  "mr_expected_state_hash sample_action = state_hash_of receipt_env sample_start"
  "mr_arguments sample_action = []"
  "mr_effect_hash sample_action = hash_json (effect_payload sample_action)"
  "mr_request_hash sample_action = hash_json (request_payload sample_action)"
  by (simp_all add: sample_action_def Let_def effect_payload_def request_payload_def)

lemma hash_patterns [simp]:
  "sha256_pattern (hash_json v)" "lower (hash_json v) = hash_json v" "lower_sha256 (hash_json v)"
  using hash_is_sha256 [of v] by (simp_all add: is_sha256_def lower_sha256_def hash_json_digest is_digest_def exact_class_iff)

lemma sample_action_checked: "mcp_request_validate clean sample_action = Inr sample_action"
proof -
  have normal: "mcp_request_normal sample_action = sample_action"
    by (simp add: mcp_request_normal_def sample_action_fields state_hash_of_def)
  have "mcp_request_fields_ok clean sample_action"
    by (simp add: mcp_request_fields_ok_def sample_action_fields state_hash_of_def sample_texts
        sample_receipt_texts sample_receipt_safe action_arguments_ok_def)
  moreover have "validate_request_hashes sample_action = Inr sample_action"
    by (simp add: validate_request_hashes_def validated_ticket_target_def ticket_mcp_operations_def
        sample_action_fields)
  ultimately show ?thesis by (simp add: mcp_request_validate_def normal)
qed

subsection \<open>The receipt\<close>

definition unsigned_answer :: trusted_receipt where
  "unsigned_answer =
     unsigned_receipt\<lparr>tr_effect_hash := mr_effect_hash sample_action,
       tr_request_hash := mr_request_hash sample_action,
       tr_expected_state_hash := mr_expected_state_hash sample_action,
       tr_payload_hash := mr_payload_hash sample_action\<rparr>"

definition signed_answer :: trusted_receipt where
  "signed_answer =
     unsigned_answer\<lparr>tr_bridge_signature :=
       Some (hmac_sha256 (ra_signing_key sample_authority)
         (encode_ascii (canonical_json_bytes (JObj (receipt_signed_payload sample_clock unsigned_answer)))))\<rparr>"

lemma signed_answer_valid: "trusted_receipt_valid signed_answer"
  using hmac_digest
  by (simp add: trusted_receipt_valid_def signed_answer_def unsigned_answer_def unsigned_receipt_def
      sample_receipt_texts sample_receipt_safe sample_texts lower_sha256_def exact_class_iff is_digest_def
      sample_action_fields state_hash_of_def mr_payload_hash_def)

lemma signed_answer_signed: "signature_matches sample_clock sample_authority signed_answer"
proof -
  have "receipt_signed_payload sample_clock signed_answer = receipt_signed_payload sample_clock unsigned_answer"
    by (simp add: receipt_signed_payload_def signed_answer_def)
  then show ?thesis
    unfolding signature_matches_def
    by (simp add: signed_answer_def unsigned_answer_def unsigned_receipt_def sample_authority_def)
qed

lemma signed_answer_loads:
  assumes "fs sample_path = Some (Regular (canonical_json_bytes (trusted_receipt_json sample_clock signed_answer)))"
  shows "load_verified_receipt sample_clock (\<lambda>t. t) fs sample_authority
           (gateway_evidence sample_clock signed_answer) = Some signed_answer"
proof -
  have path: "tr_relative_path signed_answer = sample_path" "tr_receipt_id signed_answer = sample_uuid"
      "tr_observed_at signed_answer = 1"
    by (simp_all add: signed_answer_def unsigned_answer_def unsigned_receipt_def)
  show ?thesis
    using stored_receipt_verifies [OF signed_answer_valid signed_answer_signed, of "\<lambda>t. t" fs]
      sample_receipt_path assms
    by (simp add: path gateway_evidence_def sample_clock_def)
qed

subsection \<open>The store and the gateway\<close>

definition answer_files :: file_tree where
  "answer_files = (\<lambda>_. None)(sample_path \<mapsto>
     Regular (canonical_json_bytes (trusted_receipt_json sample_clock signed_answer)))"

definition gateway_store0 :: run_store where
  "gateway_store0 = \<lparr>rs_env = receipt_env, rs_run_id = ''r1'', rs_files = answer_files, rs_names = []\<rparr>"

definition gateway_store1 :: run_store where
  "gateway_store1 = stored gateway_store0 0 empty_state_hash sample_start"

definition sample_gateway :: linear_gateway where
  "sample_gateway = \<lparr>lg_store = gateway_store1, lg_authority = sample_authority\<rparr>"

definition gateway_first :: state_generation where
  "gateway_first = create_generation receipt_env 1 sample_start"

lemma receipt_env_fields [simp]:
  "se_clock receipt_env = sample_clock" "se_sanitize receipt_env = (\<lambda>t. t)"
  "se_authority receipt_env = Some sample_authority" "clean_of receipt_env = (\<lambda>_. True)"
  "se_dump receipt_env = sample_dump" "se_parse receipt_env = sample_parse"
  "se_verifier receipt_env = Some (\<lambda>_ _. True)"
  by (simp_all add: receipt_env_def sample_env_def clean_of_def fun_eq_iff)

lemma receipt_env_faithful: "faithful receipt_env"
  using sample_faithful by (simp add: faithful_def dump_ok_def)

lemma not_receipt_path: "runs_path = ''runs/'' @ x \<Longrightarrow> runs_path \<noteq> sample_path" "run_binding_path ''r1'' \<noteq> sample_path"
  by (simp_all add: sample_path_def run_binding_path_def)

lemma gateway_store0_empty:
  "listing_ok gateway_store0" "load_optional gateway_store0 recovery = Inr None"
  "load_repository_binding gateway_store0 = Inr None" "sample_view (view_of gateway_store0)"
proof -
  have free: "rs_files gateway_store0 (''runs/'' @ x) = None" "rs_files gateway_store0 (run_binding_path ''r1'') = None" for x
    by (simp_all add: gateway_store0_def answer_files_def not_receipt_path)
  have id: "rs_run_id gateway_store0 = ''r1''" "rs_names gateway_store0 = []" "rs_env gateway_store0 = receipt_env"
    by (simp_all add: gateway_store0_def)
  show b: "load_repository_binding gateway_store0 = Inr None"
    by (simp add: load_repository_binding_def path_lstat_def id free)
  show "listing_ok gateway_store0"
    using free(1) by (simp add: listing_ok_def id generations_dir_def)
  show "load_optional gateway_store0 recovery = Inr None"
    using free(1) by (simp add: load_optional_def pointed_generation_def generation_records_def
        path_lstat_def id current_path_def)
  show "sample_view (view_of gateway_store0)"
    using b by (simp add: sample_view_def view_of_def id)
qed

lemma gateway_store1_loads:
  "load gateway_store1 = Inr gateway_first" "listing_ok gateway_store1" "rs_env gateway_store1 = receipt_env"
  "rs_run_id gateway_store1 = ''r1''" "load_repository_binding gateway_store1 = Inr None"
  "sample_view (view_of gateway_store1)"
  "rs_files gateway_store1 sample_path = Some (Regular (canonical_json_bytes (trusted_receipt_json sample_clock signed_answer)))"
proof -
  have id: "rs_run_id gateway_store0 = ''r1''" "rs_env gateway_store0 = receipt_env"
    by (simp_all add: gateway_store0_def)
  obtain st where st: "compare_and_swap gateway_store0 0 empty_state_hash sample_start = Inr (gateway_first, st)"
    using swap_succeeds [OF gateway_store0_empty(1,2) _ start_accepted [OF gateway_store0_empty(4)]]
    by (auto simp: current_digest_def id gateway_first_def)
  then have e: "gateway_store1 = st" by (simp add: gateway_store1_def stored_def)
  have inv: "run_inv (clean_of (rs_env gateway_store0)) sample_start" "dump_ok (rs_env gateway_store0) sample_start"
    using receipt_env_faithful by (simp_all add: id faithful_def)
  note l = swapped_loads [OF gateway_store0_empty(1) st inv]
  show "load gateway_store1 = Inr gateway_first" "listing_ok gateway_store1" "rs_env gateway_store1 = receipt_env"
    "rs_run_id gateway_store1 = ''r1''"
    using l by (simp_all add: e same_rest_def id)
  moreover show b: "load_repository_binding gateway_store1 = Inr None"
    using swap_binding [OF st] gateway_store0_empty(3) by (simp add: e)
  ultimately show "sample_view (view_of gateway_store1)" by (simp add: sample_view_def view_of_def)
  show "rs_files gateway_store1 sample_path = Some (Regular (canonical_json_bytes (trusted_receipt_json sample_clock signed_answer)))"
    using swap_receipts [OF st sample_receipt_path(1)] by (simp add: e gateway_store0_def answer_files_def)
qed

subsection \<open>The request persisted\<close>

definition gateway_waiting :: run_state where
  "gateway_waiting = with_intention sample_start sample_action 1"

lemma gateway_waiting_fields:
  "disposition gateway_waiting = WAITING_MCP" "run_id gateway_waiting = ''r1''"
  "effect_ledger gateway_waiting = [intention_of_request sample_action 1 1]"
  "pending_external_request gateway_waiting = Some (pending_of_request sample_action)"
  by (simp_all add: gateway_waiting_def with_intention_def sample_start_def new_run_state_def next_sequence_def)

lemma sample_pending_valid:
  "pending_request_valid (\<lambda>_. True) (pending_of_request sample_action)"
  "effect_event_valid (intention_of_request sample_action 1 now)"
proof -
  have d: "is_digest (hash_json v)" for v by (rule hash_json_digest)
  have s: "safe_text (hash_json v)" for v by (rule digest_safe [OF d, THEN conjunct1])
  show "pending_request_valid (\<lambda>_. True) (pending_of_request sample_action)"
    using s
    by (simp add: pending_request_valid_def pending_of_request_def sample_action_fields sample_texts
        state_hash_of_def mr_payload_hash_def action_arguments_ok_def)
  show "effect_event_valid (intention_of_request sample_action 1 now)"
    using s
    by (simp add: effect_event_valid_def intention_of_request_def intention_payload_valid_def
        sample_action_fields sample_texts)
qed

lemma gateway_waiting_inv: "run_inv (\<lambda>_. True) gateway_waiting"
proof -
  have ledger: "validate_effect_ledger gateway_waiting
      = Inr ([(''e1'', intention_of_request sample_action 1 1)], [''e1'' \<mapsto> Phase_Ready])"
    by (simp add: validate_effect_ledger_def gateway_waiting_fields ledger_step_def empty_ledger_def
        set_phase_def Let_def intention_of_request_def sample_action_fields)
  have rebuilt: "reconstruct_request (\<lambda>_. True) (pending_of_request sample_action) ''r1'' = Inr sample_action"
    by (rule pending_rebuilds [OF sample_action_checked]) (simp add: sample_action_fields)
  have "pending_ok (\<lambda>_. True) gateway_waiting"
    using rebuilt
    by (simp add: pending_ok_def gateway_waiting_fields ledger pending_checks_def)
      (simp add: pending_of_request_def intention_of_request_def sample_action_fields)
  moreover have "ledger_spec (effect_ledger gateway_waiting)"
    using validate_effect_ledger_Inr(1) [OF ledger] .
  moreover have "state_checks gateway_waiting = state_checks sample_start"
    by (simp only: gateway_waiting_def with_intention_def state_checks_frame)
  moreover have "fields_ok (\<lambda>_. True) gateway_waiting \<and> normalize gateway_waiting = gateway_waiting"
    using sample_pending_valid
    by (simp add: fields_ok_def nested_ok_def digest_fields_def normalize_def gateway_waiting_fields)
      (simp add: gateway_waiting_def with_intention_def sample_start_def new_run_state_def list_all_iff)
  ultimately show ?thesis
    using start_inv by (simp add: run_inv_parts)
qed

lemma gateway_waiting_accepted:
  "sample_view view \<Longrightarrow> validate_transition view (Some gateway_first) gateway_waiting = Inr gateway_waiting"
  by (rule sample_follow [OF _ gateway_waiting_inv])
    (simp_all add: transition_check_defs gateway_waiting_def with_intention_def sample_start_def
      new_run_state_def gateway_first_def create_generation_def sample_action_fields
      intention_of_request_def pending_of_request_def is_prefix_def)

definition gateway_second :: state_generation where
  "gateway_second = create_generation receipt_env 2 gateway_waiting"

definition waiting_gateway :: linear_gateway where
  "waiting_gateway = sample_gateway\<lparr>lg_store := stored gateway_store1 1 (sg_state_hash gateway_first) gateway_waiting\<rparr>"

lemma gateway_first_fields:
  "sg_revision gateway_first = 1" "sg_state gateway_first = sample_start"
  "sg_state_hash gateway_first = state_hash_of receipt_env sample_start"
  by (simp_all add: gateway_first_def create_generation_def)

lemma gateway_swap:
  "compare_and_swap gateway_store1 1 (sg_state_hash gateway_first) gateway_waiting
     = Inr (gateway_second, lg_store waiting_gateway)"
proof -
  obtain st where st: "compare_and_swap gateway_store1 1 (sg_state_hash gateway_first) gateway_waiting
      = Inr (gateway_second, st)"
    using swap_succeeds [OF gateway_store1_loads(2) load_current(1) [OF gateway_store1_loads(1)] _
        gateway_waiting_accepted [OF gateway_store1_loads(6)]]
    by (auto simp: current_digest_def gateway_first_fields gateway_store1_loads gateway_second_def)
  then show ?thesis by (simp add: waiting_gateway_def stored_def)
qed

lemma sample_gateway_fields:
  "lg_store sample_gateway = gateway_store1" "lg_authority sample_gateway = sample_authority"
  "gateway_env sample_gateway = receipt_env" "authority_bound sample_gateway"
  by (simp_all add: sample_gateway_def gateway_store1_loads authority_bound_def)

lemma sample_persisted:
  "persist_pending sample_gateway gateway_first sample_action 1 None = Inr (gateway_second, waiting_gateway)"
proof -
  have start: "pending_external_request sample_start = None" "disposition sample_start = ACTIVE"
      "effect_ledger sample_start = []" "run_id sample_start = ''r1''"
    by (simp_all add: sample_start_def new_run_state_def)
  have bind: "request_binding_checks sample_gateway gateway_first sample_action = Inr sample_action"
    using checked_request(3) [OF sample_action_checked]
    by (simp add: request_binding_checks_def generation_valid_def sample_gateway_fields
        gateway_first_fields start gateway_store1_loads sample_action_fields)
  have copy: "model_copy (\<lambda>_. True) (\<lambda>s. s\<lparr>disposition := WAITING_MCP,
        effect_ledger := effect_ledger s @ [intention_of_request sample_action 1 1],
        pending_external_request := Some (pending_of_request sample_action)\<rparr>) sample_start = Inr gateway_waiting"
    using gateway_waiting_inv
    by (simp add: model_copy_def run_inv_def gateway_waiting_def with_intention_def start next_sequence_def)
  have w: "waiting_gateway = sample_gateway\<lparr>lg_store := lg_store waiting_gateway\<rparr>"
    by (simp add: waiting_gateway_def)
  have env: "clean_of (gateway_env sample_gateway) = (\<lambda>_. True)"
    by (simp add: sample_gateway_fields(3))
  have swap: "swap_or_settle sample_gateway gateway_first gateway_waiting settled
      = Inr (gateway_second, waiting_gateway)" for settled
    using gateway_swap w by (simp add: swap_or_settle_def sample_gateway_fields(1) gateway_first_fields(1))
  show ?thesis
    unfolding persist_pending_def env sample_action_checked
    using sample_pending_valid bind copy swap
    by (simp add: gateway_first_fields start next_sequence_def apply_update_def Let_def)
qed

subsection \<open>The answer\<close>

lemma waiting_gateway_loads:
  "load (lg_store waiting_gateway) = Inr gateway_second" "listing_ok (lg_store waiting_gateway)"
  "gateway_env waiting_gateway = receipt_env" "authority_bound waiting_gateway"
  "no_error (entry_checks (view_of (lg_store waiting_gateway)) (sg_state gateway_second))"
  "lg_authority waiting_gateway = sample_authority"
  "rs_files (lg_store waiting_gateway) sample_path
     = Some (Regular (canonical_json_bytes (trusted_receipt_json sample_clock signed_answer)))"
proof -
  have inv: "run_inv (clean_of (rs_env gateway_store1)) gateway_waiting" "dump_ok (rs_env gateway_store1) gateway_waiting"
    using receipt_env_faithful gateway_waiting_inv by (simp_all add: gateway_store1_loads faithful_def)
  note l = swapped_loads [OF gateway_store1_loads(2) gateway_swap inv]
  show "load (lg_store waiting_gateway) = Inr gateway_second" "listing_ok (lg_store waiting_gateway)"
    and env: "gateway_env waiting_gateway = receipt_env"
    using l by (simp_all add: same_rest_def gateway_store1_loads)
  show "lg_authority waiting_gateway = sample_authority"
    by (simp add: waiting_gateway_def sample_gateway_fields)
  with env show "authority_bound waiting_gateway" by (simp add: authority_bound_def)
  have view: "sample_view (view_of (lg_store waiting_gateway))"
    using l(6) swap_binding [OF gateway_swap] env gateway_store1_loads
    by (simp add: sample_view_def view_of_def same_rest_def)
  show "no_error (entry_checks (view_of (lg_store waiting_gateway)) (sg_state gateway_second))"
    by (rule entry_sample [OF view])
      (simp_all add: gateway_second_def create_generation_def gateway_waiting_def with_intention_def
        sample_start_def new_run_state_def)
  show "rs_files (lg_store waiting_gateway) sample_path
     = Some (Regular (canonical_json_bytes (trusted_receipt_json sample_clock signed_answer)))"
    using swap_receipts [OF gateway_swap sample_receipt_path(1)] gateway_store1_loads(7) by simp
qed

lemma sample_answers:
  "answers waiting_gateway gateway_second (pending_of_request sample_action) signed_answer 0"
proof -
  have r: "tr_relative_path signed_answer = sample_path" "tr_external_revision signed_answer = None"
      "tr_target signed_answer = ''p1''" "tr_run_id signed_answer = ''r1''"
    by (simp_all add: signed_answer_def unsigned_answer_def unsigned_receipt_def)
  have "evidence_ref_valid (gateway_evidence sample_clock signed_answer)"
    by (simp add: evidence_ref_valid_def gateway_evidence_def sample_receipt_texts sample_receipt_safe
        receipt_content_hash_def r)
  then have "load_trusted waiting_gateway signed_answer = Some signed_answer"
    using signed_answer_loads waiting_gateway_loads(3,6,7) by (simp add: load_trusted_def)
  moreover have "receipt_matches_pending signed_answer (pending_of_request sample_action) ''r1''"
    by (simp add: receipt_matches_pending_def pending_of_request_def hashes_match_def sample_action_fields)
      (simp add: signed_answer_def unsigned_answer_def unsigned_receipt_def sample_action_fields)
  moreover have "phase_of gateway_waiting ''e1'' = Some Phase_Ready"
    using phase_of_ledger [OF run_inv_ledger [OF gateway_waiting_inv], of "''e1''"]
    by (simp add: gateway_waiting_fields trace_of_def intention_of_request_def sample_action_fields)
  ultimately show ?thesis
    by (simp add: answers_def gateway_second_def create_generation_def gateway_waiting_fields r
        waiting_gateway_loads(3) pending_of_request_def sample_action_fields)
qed

end
