(* ===== verification/Gateway_Guarantees.thy ===== *)
theory Gateway_Guarantees
  imports Sample_Gateway
begin

section \<open>What the Linear gateway guarantees\<close>

text \<open>Properties C36 to C39, each with a witness in the sample world.\<close>

text \<open>C36: \<^verbatim>\<open>select_ticket\<close> returns the least eligible ticket in the order of priority,
  creation time and identifier, \<open>None\<close> exactly when no ticket is eligible, and the order in
  which the response lists the tickets does not matter.\<close>
theorem selected_ticket_is_least:
  assumes "select_ticket parse_iso bracketed (JList items) assignee milestone = Inr r"
  shows "\<exists>ts. normalize_tickets parse_iso bracketed items = Inr ts
      \<and> is_selection (eligible_tickets assignee milestone ts) r
      \<and> (\<forall>items'. mset items' = mset items \<longrightarrow>
           select_ticket parse_iso bracketed (JList items') assignee milestone = Inr r)"
proof (rule select_ticket_list [OF assms])
  fix ts
  assume "normalize_tickets parse_iso bracketed items = Inr ts"
    "is_selection (eligible_tickets assignee milestone ts) r"
  with select_ticket_order [OF assms] show ?thesis by blast
qed

definition sample_ticket :: "string \<Rightarrow> json \<Rightarrow> json" where
  "sample_ticket i priority =
     JObj [(''id'', JStr i), (''state_type'', JStr ''unstarted''), (''assignee_id'', JStr ''u''),
           (''milestone_id'', JStr ''m''), (''priority'', priority), (''created_at'', JStr ''t'')]"

definition chosen_ticket :: candidate_ticket where
  "chosen_ticket = \<lparr>cd_id = ''A2'', cd_assignee_id = ''u'', cd_milestone_id = ''m'',
     cd_priority = Some 2, cd_created_at = 0, cd_title = []\<rparr>"

lemma sanitize_empty: "sanitize_text bracketed [] = Some []"
  by (simp add: sanitize_text_def Let_def) code_simp

lemma sample_ticket_fields:
  "canonical_ticket_id (Some (JStr ''a1'')) = Some ''A1''" "canonical_ticket_id (Some (JStr ''a2'')) = Some ''A2''"
  "state_type_of (Some (JStr ''unstarted'')) = Some ''unstarted''"
  "required_identifier (Some (JStr ''u'')) = Some ''u''" "required_identifier (Some (JStr ''m'')) = Some ''m''"
  "linear_identifier ''u''" "linear_identifier ''m''"
  by code_simp+

lemma sample_snapshot_names:
  "safe_snapshot_identifier ''A1''" "safe_snapshot_identifier ''A2''"
  "safe_snapshot_identifier ''u''" "safe_snapshot_identifier ''m''"
  by code_simp+

lemma sample_selection:
  "select_ticket (\<lambda>_. Some (0, Some 0)) (\<lambda>_. True)
     (JList [sample_ticket ''a1'' (JInt 0), sample_ticket ''a2'' (JInt 2)]) ''u'' ''m''
   = Inr (Some chosen_ticket)"
  by (simp add: select_ticket_def ticket_items_def sample_ticket_def normalize_ticket_def or_malformed_def
      sample_ticket_fields sample_snapshot_names priority_of_def timestamp_of_def max_datetime_def
      blockers_active_def title_of_def candidate_ticket_of_def sanitize_empty eligible_tickets_def
      candidate_order_def chosen_ticket_def)

theorem selected_ticket_is_least_applied:
  "select_ticket (\<lambda>_. Some (0, Some 0)) (\<lambda>_. True)
     (JList [sample_ticket ''a2'' (JInt 2), sample_ticket ''a1'' (JInt 0)]) ''u'' ''m''
   = Inr (Some chosen_ticket)"
  using selected_ticket_is_least [OF sample_selection] by (auto simp: add_mset_commute)

text \<open>C37: a request that the gateway persisted is replayed unchanged from the store, and
  persisting it again, at any later time, finds it and stores nothing.\<close>
theorem persisted_request_is_kept:
  assumes "persist_pending w g request now None = Inr (g', w')"
    and "pending_external_request (sg_state g) = None" and "load (lg_store w) = Inr g"
    and "listing_ok (lg_store w)" "faithful (gateway_env w)"
  shows "(\<exists>snapshot. mcp_request_validate (clean_of (gateway_env w)) request = Inr snapshot
            \<and> replay_pending w' g' = Inr (Some snapshot))
    \<and> persist_pending w' g request later None = Inr (g', w')"
  using persisted_replays [OF assms] persisted_once [OF assms] by blast

theorem persisted_request_is_kept_applied:
  "replay_pending waiting_gateway gateway_second = Inr (Some sample_action)
   \<and> persist_pending waiting_gateway gateway_first sample_action 7 None = Inr (gateway_second, waiting_gateway)"
proof -
  have start: "pending_external_request (sg_state gateway_first) = None"
    by (simp add: gateway_first_fields sample_start_def new_run_state_def)
  show ?thesis
    using persisted_request_is_kept [OF sample_persisted start, of 7]
    by (simp add: sample_gateway_fields gateway_store1_loads receipt_env_faithful sample_action_checked)
qed

text \<open>C38: a receipt that the gateway accepted carries the signature of its authority and
  is recorded in the ledger; presenting it again, with whatever generation of the run, returns
  the same generation and stores nothing.\<close>
theorem receipt_is_consumed_once:
  assumes "consume_receipt w g r update wait = Inr (g', w')"
    and "listing_ok (lg_store w)" "faithful (gateway_env w)" "sound_update w update"
    and "run_id (sg_state h) = rs_run_id (lg_store w)"
  shows "signature_matches (se_clock (gateway_env w')) (lg_authority w') r
    \<and> receipt_consumed (se_clock (gateway_env w')) g' r
    \<and> consume_receipt w' h r update' wait' = Inr (g', w')"
  using consumed_run [OF assms(1-4)] consumed_again [OF assms] load_trusted_Some(3) by blast

text \<open>C39: the authenticated receipt that answers the pending request of a waiting run is
  always accepted: the run is active again, with the answer in its ledger and nothing pending.\<close>
theorem authentic_answer_resumes:
  assumes "answers w g p r wait" and "load (lg_store w) = Inr g" and "authority_bound w"
    and "listing_ok (lg_store w)" "faithful (gateway_env w)"
    and "no_error (entry_checks (view_of (lg_store w)) (sg_state g))"
  shows "\<exists>g' w'. consume_receipt w g r None wait = Inr (g', w')
    \<and> load (lg_store w') = Inr g' \<and> disposition (sg_state g') = ACTIVE
    \<and> pending_external_request (sg_state g') = None
    \<and> effect_ledger (sg_state g') = effect_ledger (sg_state g)
        @ answer_events (se_clock (gateway_env w)) p (next_sequence (effect_ledger (sg_state g))) r wait"
proof -
  have "pending_external_request (sg_state g) = Some p" using assms(1) by (simp add: answers_def)
  with answer_resumes [OF assms(1-6)] show ?thesis by (force simp: answered_def)
qed

theorem authentic_answer_resumes_applied:
  "\<exists>g' w'. consume_receipt waiting_gateway gateway_second signed_answer None 0 = Inr (g', w')
    \<and> disposition (sg_state g') = ACTIVE"
  using authentic_answer_resumes [OF sample_answers waiting_gateway_loads(1,4,2) _ waiting_gateway_loads(5)]
  by (auto simp: waiting_gateway_loads(3) receipt_env_faithful)

theorem receipt_is_consumed_once_applied:
  "\<exists>g' w'. receipt_consumed sample_clock g' signed_answer
    \<and> consume_receipt w' gateway_first signed_answer None 3 = Inr (g', w')"
proof -
  have f: "faithful (gateway_env waiting_gateway)" "sound_update waiting_gateway None"
    by (simp_all add: waiting_gateway_loads(3) receipt_env_faithful sound_update_def)
  have id: "run_id (sg_state gateway_first) = rs_run_id (lg_store waiting_gateway)"
    using load_inv(2) [OF f(1) waiting_gateway_loads(1)]
    by (simp add: gateway_first_fields gateway_second_def create_generation_def gateway_waiting_fields
        sample_start_def new_run_state_def)
  obtain g' w' where c: "consume_receipt waiting_gateway gateway_second signed_answer None 0 = Inr (g', w')"
    using answer_resumes [OF sample_answers waiting_gateway_loads(1,4,2) f(1) waiting_gateway_loads(5)] by blast
  have "gateway_env w' = receipt_env"
    using consumed_run [OF c waiting_gateway_loads(2) f] by (simp add: waiting_gateway_loads(3))
  with receipt_is_consumed_once [OF c waiting_gateway_loads(2) f id, of None 3] show ?thesis by auto
qed

end
