(* ===== verification/Preparation.thy ===== *)
theory Preparation
  imports Ticket_Selection State_Transition
begin

section \<open>Preparation contracts\<close>

text \<open>
  The values of \<^verbatim>\<open>src/auto_code/contracts.py\<close> by which a run is prepared: the input the
  bridge captured (\<^verbatim>\<open>PreparationInput\<close>), the context published with a run
  (\<^verbatim>\<open>PreparationContextPayload\<close>), the binding of a compatibility receipt
  (\<^verbatim>\<open>CompatibilityClaimBinding\<close>), the claim of a selected ticket
  (\<^verbatim>\<open>SelectedActivationClaimRequest\<close>) and the request that activates a run
  (\<^verbatim>\<open>ActivationRequest\<close>).  Each has its validators as one function that returns the
  normalized value, \<open>None\<close> for \<^verbatim>\<open>ValidationError\<close>.  Writing such a model as JSON and
  reading its fields back is pydantic's work: a \<open>pydantic\<close> holds the two functions of one
  model class, and the \<open>..._of\<close> functions here add what the class itself checks.
\<close>

record 'a pydantic =
  py_dump :: "'a \<Rightarrow> json"             \<comment> \<open>\<^verbatim>\<open>model_dump(mode="json", round_trip=True)\<close>\<close>
  py_parse :: "json \<Rightarrow> 'a option"      \<comment> \<open>the types of the fields in \<^verbatim>\<open>model_validate\<close>\<close>

subsection \<open>The captured input\<close>

record preparation_attestation =
  pa_bridge_identity :: string
  pa_mcp_server_identity :: string
  pa_tool_call_id :: string
  pa_captured_at :: datetime

definition safe_reference :: "string \<Rightarrow> bool" where
  \<comment> \<open>an \<^verbatim>\<open>EffectReference\<close> after \<^verbatim>\<open>reject_unsafe_persisted_value\<close>\<close>
  "safe_reference v \<longleftrightarrow> reference_id v \<and> safe_text v"

definition preparation_attestation_valid :: "preparation_attestation \<Rightarrow> bool" where
  "preparation_attestation_valid a \<longleftrightarrow>
     safe_reference (pa_bridge_identity a) \<and> safe_reference (pa_mcp_server_identity a)
     \<and> safe_reference (pa_tool_call_id a)"

record preparation_input =
  pp_repository_id :: string
  pp_max_crew_iterations :: int
  pp_assignee :: identity_resolution
  pp_milestone :: identity_resolution
  pp_pages :: "json list"
  pp_page_hashes :: digest_map
  pp_workflow_states :: "(string \<times> string) list"
  pp_attestation :: preparation_attestation

definition expected_page_hashes :: "json list \<Rightarrow> digest_map" where
  \<comment> \<open>\<^verbatim>\<open>page-<index>\<close>, counted from 1\<close>
  "expected_page_hashes pages =
     map (\<lambda>(i, page). (''page-'' @ show_int (int i), hash_json page)) (zip [1..<Suc (length pages)] pages)"

definition preparation_pages_of :: "(string \<Rightarrow> bool) \<Rightarrow> json list \<Rightarrow> json list option" where
  \<comment> \<open>\<^verbatim>\<open>sanitize_preparation_pages\<close>\<close>
  "preparation_pages_of bracketed pages =
     Option.bind (those (map (sanitize_value bracketed 0) pages)) (\<lambda>clean.
       if list_all (\<lambda>page. case page of JObj _ \<Rightarrow> True | _ \<Rightarrow> False) clean \<and> length clean \<le> 512
       then Some clean else None)"

definition lower_digests :: "digest_map \<Rightarrow> digest_map" where
  "lower_digests m = map (\<lambda>(k, h). (k, lower h)) m"

definition preparation_input_of :: "(string \<Rightarrow> bool) \<Rightarrow> preparation_input \<Rightarrow> preparation_input option" where
  "preparation_input_of bracketed p =
     Option.bind (preparation_pages_of bracketed (pp_pages p)) (\<lambda>pages.
       let q = p\<lparr>pp_pages := pages, pp_page_hashes := lower_digests (pp_page_hashes p)\<rparr> in
       if safe_reference (pp_repository_id p) \<and> 0 < pp_max_crew_iterations p
          \<and> identity_resolution_valid (pp_assignee p) \<and> identity_resolution_valid (pp_milestone p)
          \<and> sized 0 512 (pp_page_hashes p) \<and> no_dups (map fst (pp_page_hashes p))
          \<and> list_all (\<lambda>(k, h). safe_snapshot_identifier k \<and> sha256_pattern h) (pp_page_hashes p)
          \<and> sized 1 512 (pp_workflow_states p) \<and> no_dups (map fst (pp_workflow_states p))
          \<and> list_all (\<lambda>(k, s). safe_snapshot_identifier k \<and> safe_reference s) (pp_workflow_states p)
          \<and> preparation_attestation_valid (pp_attestation p)
          \<and> set (pp_page_hashes q) = set (expected_page_hashes pages)
       then Some q else None)"

definition preparation_input_envelope_hash ::
  "(preparation_input_ref \<Rightarrow> (string \<times> json) list) \<Rightarrow> (preparation_input \<Rightarrow> json) \<Rightarrow>
   preparation_input_ref \<Rightarrow> preparation_input \<Rightarrow> string" where
  \<comment> \<open>the dumps of the two models are arguments\<close>
  "preparation_input_envelope_hash dump_reference dump_input reference p =
     hash_json (JObj
       [(''reference'',
         JObj (filter (\<lambda>(k, _). k \<notin> {''input_hash'', ''bridge_signature''}) (dump_reference reference))),
        (''input'', dump_input p)])"

subsection \<open>The compatibility binding\<close>

record compatibility_binding =
  cb_receipt_hash :: string
  cb_receipt_ref :: evidence_ref
  cb_project_policy_hash :: string
  cb_runner_identity :: runner_identity

definition launcher_receipt :: "string \<Rightarrow> evidence_ref \<Rightarrow> bool" where
  "launcher_receipt receipt_hash e \<longleftrightarrow>
     ev_sha256 e = receipt_hash \<and> ev_creator e = ''trusted-launcher'' \<and> ev_media_type e = ''application/json''"

definition compatibility_binding_valid :: "compatibility_binding \<Rightarrow> bool" where
  "compatibility_binding_valid b \<longleftrightarrow>
     sha256_pattern (cb_receipt_hash b) \<and> evidence_ref_valid (cb_receipt_ref b)
     \<and> sha256_pattern (cb_project_policy_hash b) \<and> runner_identity_valid (cb_runner_identity b)
     \<and> launcher_receipt (cb_receipt_hash b) (cb_receipt_ref b)"

definition compatibility_binding_of :: "compatibility_binding pydantic \<Rightarrow> json \<Rightarrow> compatibility_binding option" where
  "compatibility_binding_of py v =
     Option.bind (py_parse py v) (\<lambda>b. if compatibility_binding_valid b then Some b else None)"

subsection \<open>The published context\<close>

record preparation_context =
  pc_run_id :: string
  pc_repository_id :: string
  pc_snapshot :: ticket_snapshot
  pc_snapshot_hash :: string
  pc_original_state_id :: string
  pc_original_revision :: string
  pc_reference :: preparation_input_ref
  pc_input_hash :: string
  pc_receipt_hash :: string
  pc_receipt_ref :: evidence_ref
  pc_runner_identity :: runner_identity

definition preparation_context_valid :: "preparation_context \<Rightarrow> bool" where
  \<comment> \<open>the field patterns and \<^verbatim>\<open>validate_bindings\<close>, for parts that are valid themselves\<close>
  "preparation_context_valid c \<longleftrightarrow>
     sha256_pattern (pc_snapshot_hash c) \<and> sha256_pattern (pc_input_hash c) \<and> sha256_pattern (pc_receipt_hash c)
     \<and> safe_snapshot_identifier (pc_run_id c) \<and> safe_snapshot_identifier (pc_repository_id c)
     \<and> safe_snapshot_identifier (pc_original_state_id c) \<and> safe_text (pc_original_revision c)
     \<and> sn_content_hash (pc_snapshot c) = pc_snapshot_hash c
     \<and> pi_input_hash (pc_reference c) = pc_input_hash c
     \<and> pi_repository_id (pc_reference c) = pc_repository_id c
     \<and> launcher_receipt (pc_receipt_hash c) (pc_receipt_ref c)"

definition preparation_context_of ::
  "clock \<Rightarrow> (string \<Rightarrow> bool) \<Rightarrow> preparation_context pydantic \<Rightarrow> json \<Rightarrow> preparation_context option" where
  "preparation_context_of ck bracketed py v =
     Option.bind (py_parse py v) (\<lambda>c.
     Option.bind (validate_snapshot ck bracketed (pc_snapshot c)) (\<lambda>snapshot.
       let d = c\<lparr>pc_snapshot := snapshot\<rparr> in
       if preparation_input_ref_valid (pc_reference d) \<and> evidence_ref_valid (pc_receipt_ref d)
          \<and> runner_identity_valid (pc_runner_identity d) \<and> preparation_context_valid d
       then Some d else None))"

subsection \<open>The claim of a selected ticket\<close>

record selected_claim =
  sc_reservation_id :: string
  sc_repository_id :: string
  sc_expected_revision :: int
  sc_expected_hash :: string
  sc_reference :: preparation_input_ref
  sc_snapshot :: ticket_snapshot
  sc_original_state_id :: string
  sc_original_revision :: string
  sc_repair_key :: string
  sc_repair_key_hash :: string
  sc_final_key :: string
  sc_final_key_hash :: string

definition key_binds :: "string \<Rightarrow> string \<Rightarrow> bool" where
  \<comment> \<open>\<^verbatim>\<open>sha256(bytes.fromhex(key)).hexdigest() == key_hash\<close>\<close>
  "key_binds key key_hash = (case fromhex key of None \<Rightarrow> False | Some bs \<Rightarrow> hexdigest bs = key_hash)"

definition selected_claim_checked :: "selected_claim \<Rightarrow> selected_claim option" where
  \<comment> \<open>the field patterns and \<^verbatim>\<open>validate_selection_binding\<close>, for parts that are valid themselves\<close>
  "selected_claim_checked c =
     (let reference = sc_reference c in
      if 1 \<le> sc_expected_revision c \<and> sha256_pattern (sc_expected_hash c)
         \<and> list_all sha256_pattern
             [sc_repair_key c, sc_repair_key_hash c, sc_final_key c, sc_final_key_hash c]
         \<and> pi_bridge_signature reference \<noteq> None \<and> pi_pagination_complete reference
         \<and> pi_repository_id reference = sc_repository_id c
         \<and> pi_reservation_id reference = sc_reservation_id c
         \<and> sn_pagination_complete (sc_snapshot c)
         \<and> set (sn_source_page_hashes (sc_snapshot c)) = set (pi_source_page_hashes reference)
         \<and> safe_snapshot_identifier (sc_original_state_id c)
         \<and> length (sc_original_revision c) \<le> 256 \<and> \<not> looks_sensitive (sc_original_revision c)
         \<and> sc_original_revision c \<noteq> ''[REDACTED]'' \<and> safe_text (sc_original_revision c)
         \<and> key_binds (sc_repair_key c) (sc_repair_key_hash c)
         \<and> sc_final_key c \<noteq> sc_repair_key c
         \<and> key_binds (sc_final_key c) (sc_final_key_hash c)
      then Some (c\<lparr>sc_expected_hash := lower (sc_expected_hash c)\<rparr>) else None)"

definition selected_claim_of ::
  "clock \<Rightarrow> (string \<Rightarrow> bool) \<Rightarrow> selected_claim pydantic \<Rightarrow> json \<Rightarrow> selected_claim option" where
  "selected_claim_of ck bracketed py v =
     Option.bind (py_parse py v) (\<lambda>c.
     Option.bind (validate_snapshot ck bracketed (sc_snapshot c)) (\<lambda>snapshot.
       if preparation_input_ref_valid (sc_reference c)
       then selected_claim_checked (c\<lparr>sc_snapshot := snapshot\<rparr>) else None))"

subsection \<open>The activation request\<close>

record activation_request =
  ar_reservation_id :: string
  ar_repository_id :: string
  ar_expected_revision :: int
  ar_expected_hash :: string
  ar_reference :: preparation_input_ref
  ar_run_id :: "string option"
  ar_initial_state :: "run_state option"
  ar_initial_hash :: "string option"
  ar_context :: "preparation_context option"
  ar_context_hash :: "string option"

definition ar_challenge_hash :: "activation_request \<Rightarrow> string" where
  "ar_challenge_hash r = pi_challenge_hash (ar_reference r)"

definition ar_input_hash :: "activation_request \<Rightarrow> string" where
  "ar_input_hash r = pi_input_hash (ar_reference r)"

definition context_fits_state :: "preparation_context \<Rightarrow> activation_request \<Rightarrow> run_state \<Rightarrow> bool" where
  "context_fits_state c r s \<longleftrightarrow>
     ar_run_id r = Some (pc_run_id c) \<and> pc_repository_id c = ar_repository_id r
     \<and> pc_reference c = ar_reference r
     \<and> Some (pc_snapshot_hash c) = ticket_snapshot_hash s
     \<and> Some (pc_input_hash c) = preparation_input_hash s
     \<and> Some (pc_receipt_hash c) = compatibility_receipt_hash s
     \<and> Some (pc_receipt_ref c) = compatibility_receipt_ref s
     \<and> Some (pc_runner_identity c) = runner_identity s
     \<and> sn_ticket_id (pc_snapshot c) = ticket_id s"

definition activation_request_checked ::
  "store_env \<Rightarrow> preparation_context pydantic \<Rightarrow> activation_request \<Rightarrow> activation_request option" where
  \<comment> \<open>the field patterns and \<^verbatim>\<open>validate_initial_state\<close>, for parts that are valid themselves\<close>
  "activation_request_checked env py r =
     (if 1 \<le> ar_expected_revision r \<and> sha256_pattern (ar_expected_hash r)
         \<and> opt_all sha256_pattern (ar_initial_hash r) \<and> opt_all sha256_pattern (ar_context_hash r)
         \<and> pi_bridge_signature (ar_reference r) \<noteq> None \<and> pi_pagination_complete (ar_reference r)
         \<and> pi_repository_id (ar_reference r) = ar_repository_id r
         \<and> pi_reservation_id (ar_reference r) = ar_reservation_id r
         \<and> (case ar_run_id r of
              None \<Rightarrow>
                ar_initial_state r = None \<and> ar_initial_hash r = None
                \<and> ar_context r = None \<and> ar_context_hash r = None
            | Some rid \<Rightarrow>
                (case (ar_initial_state r, ar_initial_hash r) of
                   (Some s, Some h) \<Rightarrow>
                     run_id s = rid \<and> repository_id s = ar_repository_id r
                     \<and> state_hash_of env s = lower h
                     \<and> (case (ar_context r, ar_context_hash r) of
                          (None, None) \<Rightarrow> True
                        | (Some c, Some ch) \<Rightarrow>
                            hash_json (py_dump py c) = lower ch \<and> context_fits_state c r s
                        | _ \<Rightarrow> False)
                 | _ \<Rightarrow> False))
      then Some (r\<lparr>ar_expected_hash := lower (ar_expected_hash r)\<rparr>) else None)"

end
