(* ===== verification/Operations.thy ===== *)
theory Operations
  imports Prelude
begin

section \<open>Operations on a state that may raise\<close>

text \<open>
  An operation is a function of the state of its object that returns its result, or the
  exception it raised, and the state it left: what was changed before an exception stays
  changed.  \<open>keeps_op\<close> and \<open>ensures_op\<close> are the judgements that a property of the state
  survives the operation, with one rule per constructor in \<open>op_rules\<close>; \<open>returns_op\<close> and
  \<open>post_op\<close> say what a normal result satisfies (\<open>return_rules\<close>, \<open>post_rules\<close>).
\<close>

type_synonym ('e, 's, 'a) operation = "'s \<Rightarrow> ('e + 'a) \<times> 's"

subsection \<open>Sequencing\<close>

definition return_op :: "'a \<Rightarrow> ('e, 's, 'a) operation" where
  "return_op x w = (Inr x, w)"

definition raise_op :: "'e \<Rightarrow> ('e, 's, 'a) operation" where
  "raise_op e w = (Inl e, w)"

definition bind_op :: "('e, 's, 'a) operation \<Rightarrow> ('a \<Rightarrow> ('e, 's, 'b) operation) \<Rightarrow> ('e, 's, 'b) operation" where
  "bind_op m f w = (case m w of (Inl e, w') \<Rightarrow> (Inl e, w') | (Inr x, w') \<Rightarrow> f x w')"

definition reading :: "('s \<Rightarrow> 'e + 'a) \<Rightarrow> ('e, 's, 'a) operation" where
  \<comment> \<open>an operation that writes nothing\<close>
  "reading f w = (f w, w)"

definition require_op :: "bool \<Rightarrow> 'e \<Rightarrow> ('e, 's, unit) operation" where
  \<comment> \<open>\<^verbatim>\<open>if not ...: raise\<close>\<close>
  "require_op ok e = (if ok then return_op () else raise_op e)"

definition result_op :: "'e + 'a \<Rightarrow> ('e, 's, 'a) operation" where
  \<comment> \<open>a computation without state\<close>
  "result_op r = reading (\<lambda>_. r)"

primrec map_op :: "('a \<Rightarrow> ('e, 's, 'b) operation) \<Rightarrow> 'a list \<Rightarrow> ('e, 's, 'b list) operation" where
  \<comment> \<open>a \<^verbatim>\<open>for\<close> loop that collects one result per element\<close>
  "map_op f [] = return_op []"
| "map_op f (x # xs) = bind_op (f x) (\<lambda>y. bind_op (map_op f xs) (\<lambda>ys. return_op (y # ys)))"

primrec fold_op :: "('a \<Rightarrow> 'b \<Rightarrow> ('e, 's, 'b) operation) \<Rightarrow> 'a list \<Rightarrow> 'b \<Rightarrow> ('e, 's, 'b) operation" where
  \<comment> \<open>a \<^verbatim>\<open>for\<close> loop that updates a variable\<close>
  "fold_op f [] b = return_op b"
| "fold_op f (x # xs) b = bind_op (f x b) (fold_op f xs)"

lemma map_sum_right_Inr [simp]: "map_sum id f r = Inr y \<longleftrightarrow> (\<exists>x. r = Inr x \<and> y = f x)"
  by (cases r) auto

lemma bind_op_simps [simp]:
  "bind_op (return_op x) f = f x"
  "bind_op (raise_op e) f = raise_op e"
  "bind_op m return_op = m"
  by (auto simp: bind_op_def return_op_def raise_op_def fun_eq_iff split: prod.splits sum.splits)

lemma bind_op_assoc: "bind_op (bind_op m f) g = bind_op m (\<lambda>x. bind_op (f x) g)"
  by (auto simp: bind_op_def fun_eq_iff split: prod.splits sum.splits)

lemma bind_op_Inr:
  "bind_op m f w = (Inr y, w'') \<longleftrightarrow> (\<exists>x w'. m w = (Inr x, w') \<and> f x w' = (Inr y, w''))"
  by (auto simp: bind_op_def split: prod.splits sum.splits)

lemma return_op_Inr [simp]: "return_op x w = (Inr y, w') \<longleftrightarrow> y = x \<and> w' = w"
  by (auto simp: return_op_def)

lemma raise_op_Inr [simp]: "raise_op e w \<noteq> (Inr y, w')"
  by (simp add: raise_op_def)

lemma reading_Inr [simp]: "reading f w = (Inr y, w') \<longleftrightarrow> f w = Inr y \<and> w' = w"
  by (auto simp: reading_def)

lemma require_op_Inr [simp]: "require_op ok e w = (Inr y, w') \<longleftrightarrow> ok \<and> w' = w"
  by (simp add: require_op_def)

lemma result_op_Inr [simp]: "result_op r w = (Inr y, w') \<longleftrightarrow> r = Inr y \<and> w' = w"
  by (simp add: result_op_def)

lemma require_op_simps [simp]: "require_op True e = return_op ()" "require_op False e = raise_op e"
  by (simp_all add: require_op_def)

subsection \<open>What an operation keeps\<close>

definition keeps_op :: "('s \<Rightarrow> bool) \<Rightarrow> ('e, 's, 'a) operation \<Rightarrow> bool" where
  \<comment> \<open>whatever the operation returns or raises\<close>
  "keeps_op P m \<longleftrightarrow> (\<forall>w. P w \<longrightarrow> P (snd (m w)))"

definition ensures_op :: "('s \<Rightarrow> bool) \<Rightarrow> ('e, 's, 'a) operation \<Rightarrow> ('a \<Rightarrow> 's \<Rightarrow> bool) \<Rightarrow> bool" where
  \<comment> \<open>\<open>P\<close> is kept, and \<open>Q\<close> holds of a normal result\<close>
  "ensures_op P m Q \<longleftrightarrow>
     (\<forall>w. P w \<longrightarrow> P (snd (m w)) \<and> (case fst (m w) of Inl _ \<Rightarrow> True | Inr x \<Rightarrow> Q x (snd (m w))))"

named_theorems op_rules \<open>rules that walk through an operation\<close>

lemma keeps_op_return [op_rules]: "keeps_op P (return_op x)"
  by (simp add: keeps_op_def return_op_def)

lemma keeps_op_raise [op_rules]: "keeps_op P (raise_op e)"
  by (simp add: keeps_op_def raise_op_def)

lemma keeps_op_require [op_rules]: "keeps_op P (require_op ok e)"
  by (simp add: require_op_def keeps_op_return keeps_op_raise)

lemma keeps_op_reading [op_rules]: "keeps_op P (reading f)"
  by (simp add: keeps_op_def reading_def)

lemma keeps_op_result [op_rules]: "keeps_op P (result_op r)"
  by (simp add: result_op_def keeps_op_reading)

lemma keeps_op_bind [op_rules]:
  "keeps_op P m \<Longrightarrow> (\<And>x. keeps_op P (f x)) \<Longrightarrow> keeps_op P (bind_op m f)"
  unfolding keeps_op_def bind_op_def by (fastforce split: prod.splits sum.splits)

lemma keeps_op_if [op_rules]:
  "(b \<Longrightarrow> keeps_op P m) \<Longrightarrow> (\<not> b \<Longrightarrow> keeps_op P n) \<Longrightarrow> keeps_op P (if b then m else n)"
  by simp

lemma keeps_op_option [op_rules]:
  "(x = None \<Longrightarrow> keeps_op P m) \<Longrightarrow> (\<And>y. x = Some y \<Longrightarrow> keeps_op P (f y)) \<Longrightarrow>
   keeps_op P (case x of None \<Rightarrow> m | Some y \<Rightarrow> f y)"
  by (cases x) auto

lemma keeps_op_pair [op_rules]:
  "(\<And>a b. x = (a, b) \<Longrightarrow> keeps_op P (f a b)) \<Longrightarrow> keeps_op P (case x of (a, b) \<Rightarrow> f a b)"
  by (cases x) auto

lemma keeps_op_sum [op_rules]:
  "(\<And>a. x = Inl a \<Longrightarrow> keeps_op P (f a)) \<Longrightarrow> (\<And>b. x = Inr b \<Longrightarrow> keeps_op P (g b)) \<Longrightarrow>
   keeps_op P (case x of Inl a \<Rightarrow> f a | Inr b \<Rightarrow> g b)"
  by (cases x) auto

lemma keeps_op_map [op_rules]: "(\<And>x. keeps_op P (f x)) \<Longrightarrow> keeps_op P (map_op f xs)"
  by (induction xs) (auto intro!: keeps_op_return keeps_op_bind)

lemma keeps_op_fold [op_rules]: "(\<And>x b. keeps_op P (f x b)) \<Longrightarrow> keeps_op P (fold_op f xs b)"
  by (induction xs arbitrary: b) (auto intro!: keeps_op_return keeps_op_bind)

lemma ensures_op_keeps: "ensures_op P m Q \<Longrightarrow> keeps_op P m"
  by (simp add: ensures_op_def keeps_op_def)

lemma keeps_op_ensures: "keeps_op P m \<Longrightarrow> ensures_op P m (\<lambda>_ _. True)"
  by (simp add: ensures_op_def keeps_op_def split: sum.splits)

lemma ensures_op_bind:
  assumes "ensures_op P m Q"
    and "\<And>x. keeps_op P (f x)"
    and "\<And>x w. P w \<Longrightarrow> Q x w \<Longrightarrow> case f x w of (Inl _, _) \<Rightarrow> True | (Inr y, w') \<Rightarrow> R y w'"
  shows "ensures_op P (bind_op m f) R"
  unfolding ensures_op_def
proof (intro allI impI)
  fix w
  assume w: "P w"
  obtain r w' where m: "m w = (r, w')"
    by fastforce
  show "P (snd (bind_op m f w)) \<and> (case fst (bind_op m f w) of Inl _ \<Rightarrow> True | Inr x \<Rightarrow> R x (snd (bind_op m f w)))"
  proof (cases r)
    case (Inl e)
    with m w assms(1) show ?thesis
      by (auto simp: bind_op_def ensures_op_def)
  next
    case (Inr x)
    with m w assms(1) have "P w'" "Q x w'"
      by (auto simp: ensures_op_def)
    with assms(2) [of x] assms(3) [of w' x] m Inr show ?thesis
      by (auto simp: bind_op_def keeps_op_def split: prod.splits sum.splits)
  qed
qed

lemma keeps_opD: "keeps_op P m \<Longrightarrow> P w \<Longrightarrow> P (snd (m w))"
  by (simp add: keeps_op_def)

subsection \<open>What an operation returns\<close>

definition returns_op :: "('e, 's, 'a) operation \<Rightarrow> ('a \<Rightarrow> bool) \<Rightarrow> bool" where
  "returns_op m Q \<longleftrightarrow> (\<forall>w x w'. m w = (Inr x, w') \<longrightarrow> Q x)"

named_theorems return_rules \<open>rules for the result of an operation\<close>

lemma returns_op_return [return_rules]: "Q x \<Longrightarrow> returns_op (return_op x) Q"
  by (simp add: returns_op_def)

lemma returns_op_raise [return_rules]: "returns_op (raise_op e) Q"
  by (simp add: returns_op_def)

lemma returns_op_result [return_rules]: "(\<And>x. r = Inr x \<Longrightarrow> Q x) \<Longrightarrow> returns_op (result_op r) Q"
  by (simp add: returns_op_def)

lemma returns_op_require [return_rules]:
  "(ok \<Longrightarrow> returns_op (f ()) Q) \<Longrightarrow> returns_op (bind_op (require_op ok e) f) Q"
  by (cases ok) (simp_all add: returns_op_raise)

lemma returns_op_bind: "(\<And>x. returns_op (f x) Q) \<Longrightarrow> returns_op (bind_op m f) Q"
  unfolding returns_op_def bind_op_Inr by blast

lemma returns_op_bind_result [return_rules]:
  "(\<And>x. r = Inr x \<Longrightarrow> returns_op (f x) Q) \<Longrightarrow> returns_op (bind_op (result_op r) f) Q"
  unfolding returns_op_def bind_op_Inr by auto

lemma returns_op_bind_known: "returns_op m R \<Longrightarrow> (\<And>x. R x \<Longrightarrow> returns_op (f x) Q) \<Longrightarrow> returns_op (bind_op m f) Q"
  unfolding returns_op_def bind_op_Inr by blast

lemma returns_opD: "returns_op m Q \<Longrightarrow> m w = (Inr x, w') \<Longrightarrow> Q x"
  unfolding returns_op_def by blast

lemma keeps_op_bind_returns:
  "returns_op m Q \<Longrightarrow> keeps_op P m \<Longrightarrow> (\<And>x. Q x \<Longrightarrow> keeps_op P (f x)) \<Longrightarrow> keeps_op P (bind_op m f)"
  unfolding keeps_op_def returns_op_def bind_op_def by (fastforce split: prod.splits sum.splits)

lemma returns_op_option [return_rules]:
  "(x = None \<Longrightarrow> returns_op m Q) \<Longrightarrow> (\<And>y. x = Some y \<Longrightarrow> returns_op (f y) Q) \<Longrightarrow>
   returns_op (case x of None \<Rightarrow> m | Some y \<Rightarrow> f y) Q"
  by (cases x) auto

lemma returns_op_if [return_rules]:
  "(b \<Longrightarrow> returns_op m Q) \<Longrightarrow> (\<not> b \<Longrightarrow> returns_op n Q) \<Longrightarrow> returns_op (if b then m else n) Q"
  by simp

lemma returns_op_map: "(\<And>x. returns_op (f x) Q) \<Longrightarrow> returns_op (map_op f xs) (list_all Q)"
proof (induction xs)
  case (Cons x xs)
  then show ?case unfolding returns_op_def map_op.simps bind_op_Inr by fastforce
qed (simp add: returns_op_return)

lemma returns_op_fold:
  "(\<And>x b. I b \<Longrightarrow> returns_op (f x b) I) \<Longrightarrow> I b \<Longrightarrow> returns_op (fold_op f xs b) I"
proof (induction xs arbitrary: b)
  case (Cons x xs)
  then show ?case unfolding fold_op.simps by (blast intro: returns_op_bind_known)
qed (simp add: returns_op_return)

subsection \<open>Judgements on the state and the result\<close>

definition post_op :: "('s \<Rightarrow> bool) \<Rightarrow> ('e, 's, 'a) operation \<Rightarrow> ('a \<Rightarrow> bool) \<Rightarrow> bool" where
  \<comment> \<open>\<open>P\<close> is kept whatever happens, and \<open>Q\<close> holds of a normal result\<close>
  "post_op P m Q \<longleftrightarrow> (\<forall>w r w'. P w \<and> m w = (r, w') \<longrightarrow> P w' \<and> (\<forall>x. r = Inr x \<longrightarrow> Q x))"

named_theorems post_rules \<open>rules that walk through an operation with its result\<close>

lemma post_op_return [post_rules]: "Q x \<Longrightarrow> post_op P (return_op x) Q"
  by (auto simp: post_op_def return_op_def)

lemma post_op_raise [post_rules]: "post_op P (raise_op e) Q"
  by (auto simp: post_op_def raise_op_def)

lemma post_op_reading: "(\<And>w x. P w \<Longrightarrow> f w = Inr x \<Longrightarrow> Q x) \<Longrightarrow> post_op P (reading f) Q"
  by (auto simp: post_op_def reading_def)

lemma post_op_result: "(\<And>x. r = Inr x \<Longrightarrow> Q x) \<Longrightarrow> post_op P (result_op r) Q"
  by (auto simp: result_op_def intro: post_op_reading)

lemma post_op_bind:
  "post_op P m Q \<Longrightarrow> (\<And>x. Q x \<Longrightarrow> post_op P (f x) R) \<Longrightarrow> post_op P (bind_op m f) R"
  unfolding post_op_def
proof (intro allI impI, elim conjE)
  fix w r w'
  assume m: "\<forall>w r w'. P w \<and> m w = (r, w') \<longrightarrow> P w' \<and> (\<forall>x. r = Inr x \<longrightarrow> Q x)"
    and f: "\<And>x. Q x \<Longrightarrow> \<forall>w r w'. P w \<and> f x w = (r, w') \<longrightarrow> P w' \<and> (\<forall>x. r = Inr x \<longrightarrow> R x)"
    and w: "P w" "bind_op m f w = (r, w')"
  obtain q w1 where q: "m w = (q, w1)" by fastforce
  with m w(1) have w1: "P w1" "\<And>x. q = Inr x \<Longrightarrow> Q x" by blast+
  show "P w' \<and> (\<forall>x. r = Inr x \<longrightarrow> R x)"
  proof (cases q)
    case (Inl e)
    with w(2) q w1 show ?thesis by (auto simp: bind_op_def)
  next
    case (Inr x)
    with w(2) q have "f x w1 = (r, w')" by (simp add: bind_op_def)
    with f [OF w1(2) [OF Inr]] w1(1) show ?thesis by blast
  qed
qed

lemma post_op_mono: "post_op P m Q \<Longrightarrow> (\<And>x. Q x \<Longrightarrow> R x) \<Longrightarrow> post_op P m R"
  unfolding post_op_def by blast

lemma post_op_require [post_rules]:
  "(ok \<Longrightarrow> post_op P (f ()) Q) \<Longrightarrow> post_op P (bind_op (require_op ok e) f) Q"
  by (cases ok) (simp_all add: post_op_raise)

lemma post_op_if [post_rules]:
  "(b \<Longrightarrow> post_op P m Q) \<Longrightarrow> (\<not> b \<Longrightarrow> post_op P n Q) \<Longrightarrow> post_op P (if b then m else n) Q"
  by simp

lemma post_op_option [post_rules]:
  "(x = None \<Longrightarrow> post_op P m Q) \<Longrightarrow> (\<And>y. x = Some y \<Longrightarrow> post_op P (f y) Q) \<Longrightarrow>
   post_op P (case x of None \<Rightarrow> m | Some y \<Rightarrow> f y) Q"
  by (cases x) auto

lemma post_op_pair:
  "(\<And>a b. x = (a, b) \<Longrightarrow> post_op P (f a b) Q) \<Longrightarrow> post_op P (case x of (a, b) \<Rightarrow> f a b) Q"
  by (cases x) auto

lemma post_opD: "post_op P m Q \<Longrightarrow> P w \<Longrightarrow> m w = (r, w') \<Longrightarrow> P w'"
  unfolding post_op_def by blast

end
