(* ===== verification/Index_World.thy ===== *)
theory Index_World
  imports Preparation State_Store Operations
begin

section \<open>The world of the run index\<close>

text \<open>
  What \<^verbatim>\<open>ActiveRunIndex\<close> of \<^verbatim>\<open>src/auto_code/run_index.py\<close> works on: the shared file tree
  and the generation listings of the runs.  An operation is a function of the world that
  returns its result, or the exception it raised, and the world it left: what was written
  before an exception stays.  Each durable write spends one unit of \<open>iw_writes\<close>; where
  it is \<open>Some 0\<close> the process dies before the write, so an operation run with a limit shows
  every crash point of the code, and \<open>None\<close> is a process that does not die.  The locks
  (repository, run ID, run state) make every operation one step.
\<close>

datatype index_error =
    Invalid_Value              \<comment> \<open>\<^verbatim>\<open>ValueError\<close> and pydantic's \<^verbatim>\<open>ValidationError\<close>\<close>
  | Run_Exists                 \<comment> \<open>\<^verbatim>\<open>ActiveRunExists\<close>\<close>
  | Reservation_Exists         \<comment> \<open>\<^verbatim>\<open>PreparationReservationExists\<close>\<close>
  | Replay_Mismatch            \<comment> \<open>\<^verbatim>\<open>ActivationReplayMismatch\<close>\<close>
  | Reservation_Mismatch       \<comment> \<open>\<^verbatim>\<open>ActivationReservationMismatch\<close>\<close>
  | State_Mismatch             \<comment> \<open>\<^verbatim>\<open>ActivationStateMismatch\<close>\<close>
  | Run_Id_Used                \<comment> \<open>\<^verbatim>\<open>RunIdAlreadyUsed\<close>\<close>
  | Index_Corrupt              \<comment> \<open>\<^verbatim>\<open>AuthoritativeIndexCorrupt\<close>\<close>
  | Index_Conflict             \<comment> \<open>\<^verbatim>\<open>IndexCompareAndSwapConflict\<close>\<close>
  | Non_Terminal_Release       \<comment> \<open>\<^verbatim>\<open>NonTerminalRunRelease\<close>\<close>
  | Terminal_Mismatch          \<comment> \<open>\<^verbatim>\<open>TerminalGenerationMismatch\<close>\<close>
  | Assertion_Failed           \<comment> \<open>\<^verbatim>\<open>AssertionError\<close>\<close>
  | Time_Overflow              \<comment> \<open>\<^verbatim>\<open>OverflowError\<close> of \<^verbatim>\<open>datetime\<close>\<close>
  | Store_Raised cas_error     \<comment> \<open>an exception of \<^verbatim>\<open>state.py\<close> that is not caught\<close>
  | Process_Stopped            \<comment> \<open>the process died at a durable write\<close>

record index_world =
  iw_files :: file_tree
  iw_names :: "string \<Rightarrow> string list"     \<comment> \<open>the generation listing of each run\<close>
  iw_writes :: "nat option"

type_synonym 'a index_op = "(index_error, index_world, 'a) operation"

subsection \<open>Durable writes\<close>

definition spend :: "index_world \<Rightarrow> index_world" where
  "spend w = w\<lparr>iw_writes := map_option (\<lambda>n. n - 1) (iw_writes w)\<rparr>"

lemma spend_simps [simp]: "iw_files (spend w) = iw_files w" "iw_names (spend w) = iw_names w"
  by (simp_all add: spend_def)

lemma spend_unlimited: "iw_writes w = None \<Longrightarrow> spend w = w"
  by (simp add: spend_def)

definition durable :: "(file_tree \<Rightarrow> store_error + 'a \<times> file_tree) \<Rightarrow> 'a index_op" where
  "durable f w =
     (case f (iw_files w) of
        Inl e \<Rightarrow> (Inl (Store_Raised (Store e)), w)
      | Inr (x, fs) \<Rightarrow>
          (if iw_writes w = Some 0 then (Inl Process_Stopped, w)
           else (Inr x, spend (w\<lparr>iw_files := fs\<rparr>))))"

definition publish_json :: "string \<Rightarrow> json \<Rightarrow> bool index_op" where
  "publish_json path v = durable (\<lambda>fs. write_new_json fs path v)"

definition replace_json :: "string \<Rightarrow> json \<Rightarrow> unit index_op" where
  "replace_json path v = durable (\<lambda>fs. map_sum id (Pair ()) (atomic_replace_json fs path v))"

definition unlink_regular_file :: "file_tree \<Rightarrow> string \<Rightarrow> store_error + bool \<times> file_tree" where
  \<comment> \<open>the flag is false for \<^verbatim>\<open>FileNotFoundError\<close>\<close>
  "unlink_regular_file fs path =
     bind_result (path_lstat fs path) (\<lambda>found.
       case found of
         None \<Rightarrow> Inr (False, fs)
       | Some (Regular _) \<Rightarrow> Inr (True, fs(path := None))
       | _ \<Rightarrow> Inl State_Corrupt)"

definition ensure_directory :: "file_tree \<Rightarrow> string \<Rightarrow> store_error + unit \<times> file_tree" where
  "ensure_directory fs path =
     (case fs path of
        None \<Rightarrow> Inr ((), fs(path \<mapsto> Directory))
      | Some Directory \<Rightarrow> Inr ((), fs)
      | _ \<Rightarrow> Inl State_Corrupt)"

definition run_directory :: "string \<Rightarrow> string" where
  "run_directory rid = ''runs/'' @ rid"

definition run_directory_exists :: "file_tree \<Rightarrow> string \<Rightarrow> store_error + bool" where
  "run_directory_exists fs rid =
     (if \<not> require_identifier rid then Inl Bad_Argument
      else
        bind_result (path_lstat fs ''runs'') (\<lambda>runs.
          case runs of
            None \<Rightarrow> Inr False
          | Some Directory \<Rightarrow>
              bind_result (path_lstat fs (run_directory rid)) (\<lambda>found.
                case found of
                  None \<Rightarrow> Inr False
                | Some Directory \<Rightarrow> Inr True
                | _ \<Rightarrow> Inl State_Corrupt)
          | _ \<Rightarrow> Inl State_Corrupt))"

subsection \<open>The store of a run\<close>

definition store_of :: "store_env \<Rightarrow> index_world \<Rightarrow> string \<Rightarrow> run_store" where
  \<comment> \<open>a store opened by the index has no receipt authority\<close>
  "store_of env w rid =
     \<lparr>rs_env = env\<lparr>se_authority := None\<rparr>, rs_run_id = rid, rs_files = iw_files w, rs_names = iw_names w rid\<rparr>"

definition open_store :: "string \<Rightarrow> unit index_op" where
  \<comment> \<open>\<^verbatim>\<open>RunStateStore(root, run_id)\<close>: the directories of the run\<close>
  "open_store rid =
     bind_op (require_op (require_identifier rid) Invalid_Value) (\<lambda>_.
     bind_op (durable (\<lambda>fs. ensure_directory fs ''runs'')) (\<lambda>_.
     bind_op (durable (\<lambda>fs. ensure_directory fs (run_directory rid))) (\<lambda>_.
       durable (\<lambda>fs. ensure_directory fs (run_directory rid @ ''/generations'')))))"

definition store_reading :: "(index_world \<Rightarrow> store_error + 'a) \<Rightarrow> 'a index_op" where
  "store_reading f = reading (\<lambda>w. map_sum (\<lambda>e. Store_Raised (Store e)) id (f w))"

definition store_writing ::
  "(run_store \<Rightarrow> cas_error + 'a \<times> run_store) \<Rightarrow> store_env \<Rightarrow> string \<Rightarrow> 'a index_op" where
  \<comment> \<open>one durable write of the store\<close>
  "store_writing f env rid w =
     (case f (store_of env w rid) of
        Inl e \<Rightarrow> (Inl (Store_Raised e), w)
      | Inr (x, st) \<Rightarrow>
          (if iw_writes w = Some 0 then (Inl Process_Stopped, w)
           else (Inr x, spend (w\<lparr>iw_files := rs_files st, iw_names := (iw_names w)(rid := rs_names st)\<rparr>))))"

definition swap_initial :: "store_env \<Rightarrow> string \<Rightarrow> run_state \<Rightarrow> state_generation index_op" where
  \<comment> \<open>\<^verbatim>\<open>compare_and_swap_locked(0, EMPTY_STATE_HASH, state)\<close>: the generation file, then the pointer\<close>
  "swap_initial env rid s =
     bind_op (store_writing (\<lambda>st. cas_prepare st 0 empty_state_hash s) env rid) (\<lambda>g.
     bind_op (store_writing (\<lambda>st. map_sum id (Pair ()) (move_pointer st g)) env rid) (\<lambda>_.
       return_op g))"

subsection \<open>Walking through the operations of the index\<close>

lemma keeps_op_store_reading [op_rules]: "keeps_op P (store_reading f)"
  by (simp add: store_reading_def keeps_op_reading)

lemma durable_cases:
  obtains (Unchanged) e where "durable f w = (Inl e, w)"
    | (Written) x fs where "f (iw_files w) = Inr (x, fs)" "iw_writes w \<noteq> Some 0"
        "durable f w = (Inr x, spend (w\<lparr>iw_files := fs\<rparr>))"
  by (cases "f (iw_files w)"; cases "iw_writes w = Some 0") (auto simp: durable_def)

lemma durable_Inr:
  "durable f w = (Inr x, w') \<longleftrightarrow>
     (\<exists>fs. f (iw_files w) = Inr (x, fs) \<and> iw_writes w \<noteq> Some 0 \<and> w' = spend (w\<lparr>iw_files := fs\<rparr>))"
  by (cases "f (iw_files w)"; cases "iw_writes w = Some 0") (auto simp: durable_def)

lemma store_writing_cases:
  obtains (Unchanged) e where "store_writing f env rid w = (Inl e, w)"
    | (Written) x st where "f (store_of env w rid) = Inr (x, st)" "iw_writes w \<noteq> Some 0"
        "store_writing f env rid w =
          (Inr x, spend (w\<lparr>iw_files := rs_files st, iw_names := (iw_names w)(rid := rs_names st)\<rparr>))"
  by (cases "f (store_of env w rid)"; cases "iw_writes w = Some 0") (auto simp: store_writing_def)

end
