(* ===== verification/Index_Records.thy ===== *)
theory Index_Records
  imports Index_World
begin

section \<open>The records of the run index\<close>

text \<open>
  The three kinds of entry of the run index and the activation journal of
  \<^verbatim>\<open>src/auto_code/run_index.py\<close>: their JSON, the checks they are loaded with, and the
  values the operations return.  A journal carries the dumps of the models it was written
  from as JSON; comparisons of those are Python's, which ignore the order of keys.
\<close>

record index_env =
  ix_store :: store_env
  ix_bracketed :: "string \<Rightarrow> bool"
  ix_iso :: iso_parser                    \<comment> \<open>\<^verbatim>\<open>datetime.fromisoformat\<close>\<close>
  ix_isoformat :: "datetime \<Rightarrow> string"    \<comment> \<open>\<^verbatim>\<open>isoformat\<close> of a UTC datetime\<close>
  ix_reference :: "preparation_input_ref pydantic"
  ix_claim :: "selected_claim pydantic"
  ix_context :: "preparation_context pydantic"
  ix_binding :: "compatibility_binding pydantic"
  ix_input_verifier :: "(preparation_input_ref \<Rightarrow> (preparation_input_ref \<times> preparation_input) option) option"
  ix_host :: string
  ix_pid :: int
  ix_process_gone :: "int \<Rightarrow> bool"         \<comment> \<open>\<^verbatim>\<open>os.kill(pid, 0)\<close> raises \<^verbatim>\<open>ProcessLookupError\<close>\<close>
  ix_public_key :: string
  ix_sign :: "string \<Rightarrow> string"             \<comment> \<open>the signature of the finalization key, in hex\<close>

definition index_path :: "string \<Rightarrow> string" where
  "index_path repository = ''active-run-index/'' @ hash_json (JStr repository) @ ''.json''"

definition journal_path :: "string \<Rightarrow> string" where
  "journal_path reservation = ''preparation-journal/'' @ reservation @ ''.json''"

definition release_path :: "index_release_receipt \<Rightarrow> string" where
  "release_path r = ''active-run-index-releases/'' @ ir_receipt_hash r @ ''.json''"

definition context_path :: "string \<Rightarrow> string" where
  "context_path rid = run_directory rid @ ''/preparation-context.json''"

subsection \<open>Entries\<close>

datatype index_record =
    Reserved (rec_repository: string) (rec_reservation: string) (rec_challenge: string)
      (rec_issued: string) (rec_expires: string) (rec_host: string) (rec_pid: int)
  | Unselected (rec_repository: string) (rec_reservation: string) (rec_challenge: string)
      (rec_input: string) (rec_initial: string)
  | Activated (rec_repository: string) (rec_reservation: string) (rec_challenge: string)
      (rec_input: string) (rec_run: string) (rec_initial: string)

primrec index_record_json :: "index_record \<Rightarrow> json" where
  "index_record_json (Reserved repository reservation challenge issued expires host pid) =
     JObj [(''kind'', JStr ''reservation''), (''repository_id'', JStr repository),
           (''reservation_id'', JStr reservation), (''challenge_hash'', JStr challenge),
           (''issued_at'', JStr issued), (''expires_at'', JStr expires),
           (''owner_host'', JStr host), (''owner_pid'', JInt pid)]"
| "index_record_json (Unselected repository reservation challenge inp initial) =
     JObj [(''kind'', JStr ''no_candidate''), (''repository_id'', JStr repository),
           (''reservation_id'', JStr reservation), (''challenge_hash'', JStr challenge),
           (''preparation_input_hash'', JStr inp), (''initial_generation_hash'', JStr initial)]"
| "index_record_json (Activated repository reservation challenge inp rid initial) =
     JObj [(''kind'', JStr ''active''), (''repository_id'', JStr repository),
           (''reservation_id'', JStr reservation), (''challenge_hash'', JStr challenge),
           (''preparation_input_hash'', JStr inp), (''run_id'', JStr rid),
           (''initial_generation_hash'', JStr initial)]"

record index_entry =
  ie_revision :: int
  ie_hash :: string
  ie_record :: index_record

definition new_entry :: "int \<Rightarrow> index_record \<Rightarrow> index_entry" where
  "new_entry revision r =
     \<lparr>ie_revision = revision, ie_hash = hash_json (index_record_json r), ie_record = r\<rparr>"

definition index_entry_json :: "index_entry \<Rightarrow> json" where
  "index_entry_json e =
     JObj [(''revision'', JInt (ie_revision e)), (''index_hash'', JStr (ie_hash e)),
           (''record'', index_record_json (ie_record e))]"

definition reservation_timestamp :: "iso_parser \<Rightarrow> string \<Rightarrow> index_error + datetime" where
  "reservation_timestamp iso_text t =
     (case iso_text t of
        Some (local, Some offset) \<Rightarrow>
          (if 0 \<le> local - offset \<and> local - offset \<le> max_datetime then Inr (local - offset)
           else Inl Time_Overflow)
      | _ \<Rightarrow> Inl Invalid_Value)"

definition text_fields :: "(string \<times> json) list \<Rightarrow> string list \<Rightarrow> string list option" where
  "text_fields kvs ks = those (map (text_field kvs) ks)"

definition record_members :: "(string \<times> json) list \<Rightarrow> index_record option" where
  \<comment> \<open>the members of a record of one of the three kinds; a PID that is no int is 0, which is refused too\<close>
  "record_members kvs =
     (case map_of kvs ''kind'' of
        Some (JStr kind) \<Rightarrow>
          (if kind = ''reservation'' then
             if \<not> exact_fields kvs [''kind'', ''repository_id'', ''reservation_id'', ''challenge_hash'',
                 ''issued_at'', ''expires_at'', ''owner_host'', ''owner_pid''] then None
             else case text_fields kvs [''repository_id'', ''reservation_id'', ''challenge_hash'',
                   ''issued_at'', ''expires_at'', ''owner_host''] of
                 Some [repository, reservation, challenge, issued, expires, host] \<Rightarrow>
                   Some (Reserved repository reservation challenge issued expires host
                     (case map_of kvs ''owner_pid'' of Some (JInt pid) \<Rightarrow> pid | _ \<Rightarrow> 0))
               | _ \<Rightarrow> None
           else if kind = ''no_candidate'' then
             if \<not> exact_fields kvs [''kind'', ''repository_id'', ''reservation_id'', ''challenge_hash'',
                 ''preparation_input_hash'', ''initial_generation_hash''] then None
             else case text_fields kvs [''repository_id'', ''reservation_id'', ''challenge_hash'',
                   ''preparation_input_hash'', ''initial_generation_hash''] of
                 Some [repository, reservation, challenge, inp, initial] \<Rightarrow>
                   Some (Unselected repository reservation challenge inp initial)
               | _ \<Rightarrow> None
           else if kind = ''active'' then
             if \<not> exact_fields kvs [''kind'', ''repository_id'', ''reservation_id'', ''challenge_hash'',
                 ''preparation_input_hash'', ''run_id'', ''initial_generation_hash''] then None
             else case text_fields kvs [''repository_id'', ''reservation_id'', ''challenge_hash'',
                   ''preparation_input_hash'', ''run_id'', ''initial_generation_hash''] of
                 Some [repository, reservation, challenge, inp, rid, initial] \<Rightarrow>
                   Some (Activated repository reservation challenge inp rid initial)
               | _ \<Rightarrow> None
           else None)
      | _ \<Rightarrow> None)"

definition record_texts_ok :: "index_record \<Rightarrow> string \<Rightarrow> bool" where
  "record_texts_ok r repository \<longleftrightarrow>
     rec_repository r = repository \<and> require_identifier (rec_repository r)
     \<and> require_identifier (rec_reservation r) \<and> is_sha256 (rec_challenge r)
     \<and> (case r of
          Reserved _ _ _ _ _ host _ \<Rightarrow> require_identifier host
        | Unselected _ _ _ inp initial \<Rightarrow> is_sha256 inp \<and> is_sha256 initial
        | Activated _ _ _ inp rid initial \<Rightarrow> is_sha256 inp \<and> require_identifier rid \<and> is_sha256 initial)"

definition timestamps_ok :: "iso_parser \<Rightarrow> index_record \<Rightarrow> index_error + unit" where
  \<comment> \<open>what a reservation is checked for besides\<close>
  "timestamps_ok iso_text r =
     (case r of
        Reserved _ _ _ issued expires _ pid \<Rightarrow>
          bind_result (reservation_timestamp iso_text issued) (\<lambda>i.
          bind_result (reservation_timestamp iso_text expires) (\<lambda>e.
            if e \<le> i \<or> pid < 1 then Inl Invalid_Value else Inr ()))
      | _ \<Rightarrow> Inr ())"

definition index_record_of :: "iso_parser \<Rightarrow> (string \<times> json) list \<Rightarrow> string \<Rightarrow> index_error + index_record" where
  \<comment> \<open>\<^verbatim>\<open>_validate_record\<close>\<close>
  "index_record_of iso_text kvs repository =
     (case record_members kvs of
        None \<Rightarrow> Inl Invalid_Value
      | Some r \<Rightarrow>
          if \<not> record_texts_ok r repository then Inl Invalid_Value
          else map_sum id (\<lambda>_. r) (timestamps_ok iso_text r))"

definition corrupt_unless_overflow :: "index_error + 'a \<Rightarrow> index_error + 'a" where
  \<comment> \<open>\<^verbatim>\<open>except (AuthoritativeStateCorrupt, ValueError, TypeError)\<close>\<close>
  "corrupt_unless_overflow r =
     (case r of Inl Time_Overflow \<Rightarrow> Inl Time_Overflow | Inl _ \<Rightarrow> Inl Index_Corrupt | Inr x \<Rightarrow> Inr x)"

definition entry_members :: "(string \<times> json) list \<Rightarrow> (int \<times> string \<times> (string \<times> json) list) option" where
  "entry_members kvs =
     (case (map_of kvs ''revision'', map_of kvs ''index_hash'', map_of kvs ''record'') of
        (Some (JInt revision), Some (JStr h), Some (JObj r)) \<Rightarrow> Some (revision, h, r)
      | _ \<Rightarrow> None)"

definition index_entry_of :: "iso_parser \<Rightarrow> string \<Rightarrow> json \<Rightarrow> index_error + index_entry" where
  "index_entry_of iso_text repository v =
     (case v of
        JObj kvs \<Rightarrow>
          (if \<not> exact_fields kvs [''revision'', ''index_hash'', ''record''] then Inl Invalid_Value
           else case entry_members kvs of
               None \<Rightarrow> Inl Invalid_Value
             | Some (revision, h, r) \<Rightarrow>
                 if revision < 1 \<or> \<not> is_sha256 h \<or> h \<noteq> lower h \<or> hash_json (JObj r) \<noteq> h
                 then Inl Invalid_Value
                 else map_sum id (\<lambda>rec. \<lparr>ie_revision = revision, ie_hash = h, ie_record = rec\<rparr>)
                        (index_record_of iso_text r repository))
      | _ \<Rightarrow> Inl Invalid_Value)"

definition load_entry :: "index_env \<Rightarrow> string \<Rightarrow> file_tree \<Rightarrow> index_error + index_entry option" where
  \<comment> \<open>\<^verbatim>\<open>_load_entry_locked\<close>\<close>
  "load_entry env repository fs =
     (case path_lstat fs (index_path repository) of
        Inl _ \<Rightarrow> Inl Index_Corrupt
      | Inr None \<Rightarrow> Inr None
      | Inr (Some _) \<Rightarrow>
          (case read_json_file fs (index_path repository) of
             Inl _ \<Rightarrow> Inl Index_Corrupt
           | Inr v \<Rightarrow> map_sum id Some (corrupt_unless_overflow (index_entry_of (ix_iso env) repository v))))"

subsection \<open>Values the operations return\<close>

record reservation =
  rv_repository_id :: string
  rv_reservation_id :: string
  rv_challenge_hash :: string
  rv_revision :: int
  rv_hash :: string
  rv_issued_at :: datetime
  rv_expires_at :: datetime
  rv_owner_host :: string
  rv_owner_pid :: int
  rv_challenge :: "string option"

datatype activation_outcome = Outcome_Active | Outcome_No_Candidate

record active_run_record =
  ax_outcome :: activation_outcome
  ax_repository_id :: string
  ax_run_id :: "string option"
  ax_revision :: "int option"
  ax_hash :: "string option"
  ax_initial_hash :: string

datatype claim_outcome = Preflight_Required | Wait_For_Preflight | Preflight_Done | Preflight_Failed_Outcome

record selected_activation =
  sx_outcome :: claim_outcome
  sx_repository_id :: string
  sx_run_id :: string

datatype probe_result =
    Probe_Active active_run_record
  | Probe_Blocked reservation
  | Probe_Reserved reservation

record reservation_owner =
  ro_host :: string
  ro_pid :: int

definition reservation_owner_ok :: "reservation_owner \<Rightarrow> bool" where
  "reservation_owner_ok owner \<longleftrightarrow> require_identifier (ro_host owner) \<and> \<not> ro_pid owner < 1"

definition reservation_of_entry ::
  "index_env \<Rightarrow> index_entry \<Rightarrow> string option \<Rightarrow> index_error + reservation" where
  \<comment> \<open>\<^verbatim>\<open>_reservation_from_entry\<close>, for an entry that is a reservation\<close>
  "reservation_of_entry env e challenge =
     (case ie_record e of
        Reserved repository reservation challenge_hash issued expires host pid \<Rightarrow>
          bind_result (reservation_timestamp (ix_iso env) issued) (\<lambda>i.
          bind_result (reservation_timestamp (ix_iso env) expires) (\<lambda>x.
            Inr \<lparr>rv_repository_id = repository, rv_reservation_id = reservation,
                 rv_challenge_hash = challenge_hash, rv_revision = ie_revision e, rv_hash = ie_hash e,
                 rv_issued_at = i, rv_expires_at = x, rv_owner_host = host, rv_owner_pid = pid,
                 rv_challenge = challenge\<rparr>))
      | _ \<Rightarrow> Inl Invalid_Value)"

definition active_result :: "index_entry \<Rightarrow> active_run_record" where
  "active_result e =
     \<lparr>ax_outcome = Outcome_Active, ax_repository_id = rec_repository (ie_record e),
      ax_run_id = Some (rec_run (ie_record e)), ax_revision = Some (ie_revision e),
      ax_hash = Some (ie_hash e), ax_initial_hash = rec_initial (ie_record e)\<rparr>"

subsection \<open>The activation journal\<close>

datatype journal_phase = Claimed | Preflight_Failed | Preflight_Complete | Prepared | Completed

primrec journal_phase_value :: "journal_phase \<Rightarrow> string" where
  "journal_phase_value Claimed = ''claimed''"
| "journal_phase_value Preflight_Failed = ''preflight_failed''"
| "journal_phase_value Preflight_Complete = ''preflight_complete''"
| "journal_phase_value Prepared = ''prepared''"
| "journal_phase_value Completed = ''completed''"

definition journal_phase_of :: "string \<Rightarrow> journal_phase option" where
  "journal_phase_of v =
     find (\<lambda>p. journal_phase_value p = v) [Claimed, Preflight_Failed, Preflight_Complete, Prepared, Completed]"

primrec activation_outcome_value :: "activation_outcome \<Rightarrow> string" where
  "activation_outcome_value Outcome_Active = ''active''"
| "activation_outcome_value Outcome_No_Candidate = ''no_candidate''"

definition activation_outcome_of :: "string \<Rightarrow> activation_outcome option" where
  "activation_outcome_of v = find (\<lambda>o'. activation_outcome_value o' = v) [Outcome_Active, Outcome_No_Candidate]"

record journal =
  jn_reservation_id :: string
  jn_repository_id :: string
  jn_expected_revision :: int
  jn_expected_hash :: string
  jn_challenge_hash :: string
  jn_input_hash :: string
  jn_reference :: json
  jn_run_id :: "string option"
  jn_initial_hash :: string
  jn_initial_state :: json
  jn_context :: json
  jn_context_hash :: json
  jn_claim :: json
  jn_binding :: json
  jn_outcome :: activation_outcome
  jn_phase :: journal_phase
  jn_revision :: "int option"
  jn_hash :: "string option"

definition json_int_opt :: "int option \<Rightarrow> json" where
  "json_int_opt v = (case v of None \<Rightarrow> JNull | Some n \<Rightarrow> JInt n)"

definition journal_json :: "journal \<Rightarrow> json" where
  "journal_json j =
     JObj [(''reservation_id'', JStr (jn_reservation_id j)), (''repository_id'', JStr (jn_repository_id j)),
           (''expected_index_revision'', JInt (jn_expected_revision j)),
           (''expected_index_hash'', JStr (jn_expected_hash j)),
           (''challenge_hash'', JStr (jn_challenge_hash j)),
           (''preparation_input_hash'', JStr (jn_input_hash j)),
           (''preparation_input_ref'', jn_reference j), (''run_id'', json_opt (jn_run_id j)),
           (''initial_generation_hash'', JStr (jn_initial_hash j)), (''initial_state'', jn_initial_state j),
           (''preparation_context_payload'', jn_context j), (''preparation_context_hash'', jn_context_hash j),
           (''selection_claim'', jn_claim j), (''compatibility_binding'', jn_binding j),
           (''outcome'', JStr (activation_outcome_value (jn_outcome j))), (''phase'', JStr (journal_phase_value (jn_phase j))),
           (''index_revision'', json_int_opt (jn_revision j)), (''index_hash'', json_opt (jn_hash j))]"

definition journal_fields :: "string list" where
  "journal_fields =
     [''reservation_id'', ''repository_id'', ''expected_index_revision'', ''expected_index_hash'',
      ''challenge_hash'', ''preparation_input_hash'', ''preparation_input_ref'', ''run_id'',
      ''initial_generation_hash'', ''initial_state'', ''preparation_context_payload'',
      ''preparation_context_hash'', ''selection_claim'', ''compatibility_binding'', ''outcome'', ''phase'',
      ''index_revision'', ''index_hash'']"

definition revision_member :: "json option \<Rightarrow> int option option" where
  \<comment> \<open>None, or an int: True counts as 1\<close>
  "revision_member v =
     (case v of
        Some JNull \<Rightarrow> Some None
      | Some (JInt n) \<Rightarrow> Some (Some n)
      | Some (JBool b) \<Rightarrow> Some (Some (if b then 1 else 0))
      | _ \<Rightarrow> None)"

definition journal_members :: "(string \<times> json) list \<Rightarrow> journal option" where
  \<comment> \<open>the members of a journal object with the types the checks ask for\<close>
  "journal_members kvs = do {
     reservation \<leftarrow> text_field kvs ''reservation_id'';
     repository \<leftarrow> text_field kvs ''repository_id'';
     revision \<leftarrow> (case map_of kvs ''expected_index_revision'' of Some (JInt n) \<Rightarrow> Some n | _ \<Rightarrow> None);
     expected_hash \<leftarrow> text_field kvs ''expected_index_hash'';
     challenge \<leftarrow> text_field kvs ''challenge_hash'';
     inp \<leftarrow> text_field kvs ''preparation_input_hash'';
     reference \<leftarrow> map_of kvs ''preparation_input_ref'';
     rid \<leftarrow> optional_text kvs ''run_id'';
     initial \<leftarrow> text_field kvs ''initial_generation_hash'';
     state \<leftarrow> map_of kvs ''initial_state'';
     context \<leftarrow> map_of kvs ''preparation_context_payload'';
     context_hash \<leftarrow> map_of kvs ''preparation_context_hash'';
     claim \<leftarrow> map_of kvs ''selection_claim'';
     binding \<leftarrow> map_of kvs ''compatibility_binding'';
     outcome \<leftarrow> Option.bind (text_field kvs ''outcome'') activation_outcome_of;
     phase \<leftarrow> Option.bind (text_field kvs ''phase'') journal_phase_of;
     index_revision \<leftarrow> revision_member (map_of kvs ''index_revision'');
     index_hash \<leftarrow> optional_text kvs ''index_hash'';
     Some \<lparr>jn_reservation_id = reservation, jn_repository_id = repository,
           jn_expected_revision = revision, jn_expected_hash = expected_hash,
           jn_challenge_hash = challenge, jn_input_hash = inp, jn_reference = reference,
           jn_run_id = rid, jn_initial_hash = initial, jn_initial_state = state,
           jn_context = context, jn_context_hash = context_hash, jn_claim = claim, jn_binding = binding,
           jn_outcome = outcome, jn_phase = phase, jn_revision = index_revision, jn_hash = index_hash\<rparr>
   }"

definition reference_of :: "index_env \<Rightarrow> json \<Rightarrow> preparation_input_ref option" where
  "reference_of env v =
     Option.bind (py_parse (ix_reference env) v)
       (\<lambda>p. if preparation_input_ref_valid p then Some p else None)"

definition claim_of :: "index_env \<Rightarrow> json \<Rightarrow> selected_claim option" where
  "claim_of env v = selected_claim_of (se_clock (ix_store env)) (ix_bracketed env) (ix_claim env) v"

definition context_of :: "index_env \<Rightarrow> json \<Rightarrow> preparation_context option" where
  "context_of env v = preparation_context_of (se_clock (ix_store env)) (ix_bracketed env) (ix_context env) v"

definition binding_of :: "index_env \<Rightarrow> json \<Rightarrow> compatibility_binding option" where
  "binding_of env v = compatibility_binding_of (ix_binding env) v"

definition selected_run_id :: "selected_claim \<Rightarrow> string" where
  "selected_run_id c =
     ''run-'' @ take 32 (hash_json (JObj
       [(''repository_id'', JStr (sc_repository_id c)), (''reservation_id'', JStr (sc_reservation_id c)),
        (''preparation_input_hash'', JStr (pi_input_hash (sc_reference c))),
        (''ticket_snapshot_hash'', JStr (sn_content_hash (sc_snapshot c)))]))"

definition claim_fits_journal :: "index_env \<Rightarrow> preparation_input_ref \<Rightarrow> journal \<Rightarrow> bool" where
  "claim_fits_journal env reference j \<longleftrightarrow>
     (case claim_of env (jn_claim j) of
        None \<Rightarrow> False
      | Some c \<Rightarrow>
          jn_outcome j = Outcome_Active \<and> sc_repository_id c = jn_repository_id j
          \<and> sc_reservation_id c = jn_reservation_id j \<and> sc_reference c = reference
          \<and> jn_run_id j = Some (selected_run_id c))"

definition run_published :: "index_env \<Rightarrow> preparation_input_ref \<Rightarrow> journal \<Rightarrow> bool" where
  \<comment> \<open>what a prepared or completed journal says about its run\<close>
  "run_published env reference j \<longleftrightarrow>
     (case jn_outcome j of
        Outcome_Active \<Rightarrow>
          (case (jn_run_id j, se_parse (ix_store env) (jn_initial_state j)) of
             (Some rid, Some s) \<Rightarrow>
               require_identifier rid \<and> run_id s = rid \<and> repository_id s = jn_repository_id j
               \<and> state_hash_of (ix_store env) s = jn_initial_hash j
               \<and> (jn_context j = JNull \<longleftrightarrow> jn_context_hash j = JNull)
               \<and> (jn_context j = JNull
                  \<or> (case context_of env (jn_context j) of
                       None \<Rightarrow> False
                     | Some c \<Rightarrow>
                         jn_context_hash j = JStr (hash_json (py_dump (ix_context env) c))
                         \<and> pc_run_id c = rid \<and> pc_repository_id c = jn_repository_id j
                         \<and> pc_reference c = reference))
           | _ \<Rightarrow> False)
      | Outcome_No_Candidate \<Rightarrow>
          jn_run_id j = None \<and> jn_initial_hash j = empty_state_hash \<and> jn_initial_state j = JNull
          \<and> jn_context j = JNull \<and> jn_context_hash j = JNull)"

definition journal_ok :: "index_env \<Rightarrow> journal \<Rightarrow> bool" where
  \<comment> \<open>\<^verbatim>\<open>_validate_journal\<close>, for a journal of the right shape\<close>
  "journal_ok env j \<longleftrightarrow>
     require_identifier (jn_reservation_id j) \<and> require_identifier (jn_repository_id j)
     \<and> 1 \<le> jn_expected_revision j
     \<and> list_all is_sha256 [jn_expected_hash j, jn_challenge_hash j, jn_input_hash j, jn_initial_hash j]
     \<and> (case reference_of env (jn_reference j) of
          None \<Rightarrow> False
        | Some reference \<Rightarrow>
            pi_repository_id reference = jn_repository_id j \<and> pi_reservation_id reference = jn_reservation_id j
            \<and> pi_challenge_hash reference = jn_challenge_hash j \<and> pi_input_hash reference = jn_input_hash j
            \<and> (if jn_phase j \<noteq> Completed then jn_revision j = None \<and> jn_hash j = None
               else (case jn_revision j of None \<Rightarrow> False | Some n \<Rightarrow> 1 \<le> n)
                 \<and> (case jn_hash j of None \<Rightarrow> False | Some h \<Rightarrow> lower_sha256 h))
            \<and> (if jn_claim j = JNull then jn_binding j = JNull \<and> run_published env reference j
               else claim_fits_journal env reference j
                 \<and> (case jn_phase j of
                      Preflight_Complete \<Rightarrow>
                        binding_of env (jn_binding j) \<noteq> None \<and> jn_initial_state j = JNull \<and> jn_context j = JNull
                    | Prepared \<Rightarrow> (jn_binding j = JNull \<or> binding_of env (jn_binding j) \<noteq> None)
                        \<and> run_published env reference j
                    | Completed \<Rightarrow> (jn_binding j = JNull \<or> binding_of env (jn_binding j) \<noteq> None)
                        \<and> run_published env reference j
                    | _ \<Rightarrow>
                        jn_binding j = JNull \<and> jn_initial_state j = JNull \<and> jn_context j = JNull
                        \<and> jn_context_hash j = JNull \<and> jn_initial_hash j = empty_state_hash)))"

definition journal_of :: "index_env \<Rightarrow> string \<Rightarrow> json \<Rightarrow> journal option" where
  \<comment> \<open>the object and its checksum; \<open>None\<close> for every exception, all of which are caught\<close>
  "journal_of env reservation v =
     (case v of
        JObj kvs \<Rightarrow>
          (if \<not> exact_fields kvs [''journal_hash'', ''journal''] then None
           else case (text_field kvs ''journal_hash'', map_of kvs ''journal'') of
               (Some h, Some (JObj members)) \<Rightarrow>
                 if \<not> is_sha256 h \<or> hash_json (JObj members) \<noteq> h
                    \<or> \<not> exact_fields members journal_fields then None
                 else Option.bind (journal_members members) (\<lambda>j.
                   if jn_reservation_id j = reservation \<and> journal_ok env j then Some j else None)
             | _ \<Rightarrow> None)
      | _ \<Rightarrow> None)"

definition load_journal :: "index_env \<Rightarrow> string \<Rightarrow> file_tree \<Rightarrow> index_error + journal option" where
  \<comment> \<open>\<^verbatim>\<open>_load_journal_locked\<close>\<close>
  "load_journal env reservation fs =
     (case path_lstat fs (journal_path reservation) of
        Inl _ \<Rightarrow> Inl Index_Corrupt
      | Inr None \<Rightarrow> Inr None
      | Inr (Some _) \<Rightarrow>
          (case read_json_file fs (journal_path reservation) of
             Inl _ \<Rightarrow> Inl Index_Corrupt
           | Inr v \<Rightarrow>
               (case journal_of env reservation v of None \<Rightarrow> Inl Index_Corrupt | Some j \<Rightarrow> Inr (Some j))))"

definition journal_envelope :: "journal \<Rightarrow> json" where
  "journal_envelope j =
     JObj [(''journal_hash'', JStr (hash_json (journal_json j))), (''journal'', journal_json j)]"

definition journal_result :: "journal \<Rightarrow> active_run_record" where
  "journal_result j =
     \<lparr>ax_outcome = jn_outcome j, ax_repository_id = jn_repository_id j, ax_run_id = jn_run_id j,
      ax_revision = jn_revision j, ax_hash = jn_hash j, ax_initial_hash = jn_initial_hash j\<rparr>"

definition same_intent :: "journal \<Rightarrow> journal \<Rightarrow> bool" where
  \<comment> \<open>\<^verbatim>\<open>_journal_intent\<close> of the two are equal\<close>
  "same_intent a b \<longleftrightarrow>
     jn_reservation_id a = jn_reservation_id b \<and> jn_repository_id a = jn_repository_id b
     \<and> jn_expected_revision a = jn_expected_revision b \<and> jn_expected_hash a = jn_expected_hash b
     \<and> jn_challenge_hash a = jn_challenge_hash b \<and> jn_input_hash a = jn_input_hash b
     \<and> same_value (jn_reference a) (jn_reference b) \<and> jn_run_id a = jn_run_id b
     \<and> jn_initial_hash a = jn_initial_hash b
     \<and> same_value (jn_initial_state a) (jn_initial_state b) \<and> same_value (jn_context a) (jn_context b)
     \<and> same_value (jn_context_hash a) (jn_context_hash b) \<and> jn_outcome a = jn_outcome b"

end
