(* ===== verification/Run_Index.thy ===== *)
theory Run_Index
  imports Index_Records
begin

section \<open>The active run index\<close>

text \<open>
  The operations of \<^verbatim>\<open>ActiveRunIndex\<close> (\<^verbatim>\<open>src/auto_code/run_index.py\<close>): a repository is
  reserved for a preparation, the reservation becomes an active run or the note that no
  ticket was found, and a finished run releases its repository.  An activation is written
  as a journal first, so that it can be completed after a crash.  The clock readings and
  the random texts of an operation are arguments.
\<close>

subsection \<open>Entries and journals\<close>

definition read_entry :: "index_env \<Rightarrow> string \<Rightarrow> index_entry option index_op" where
  "read_entry env repository = reading (\<lambda>w. load_entry env repository (iw_files w))"

definition read_journal :: "index_env \<Rightarrow> string \<Rightarrow> journal option index_op" where
  "read_journal env reservation = reading (\<lambda>w. load_journal env reservation (iw_files w))"

definition save_entry :: "string \<Rightarrow> index_entry \<Rightarrow> unit index_op" where
  "save_entry repository e = replace_json (index_path repository) (index_entry_json e)"

definition save_journal :: "string \<Rightarrow> journal \<Rightarrow> unit index_op" where
  "save_journal reservation j = replace_json (journal_path reservation) (journal_envelope j)"

definition remove_entry :: "string \<Rightarrow> unit index_op" where
  "remove_entry repository =
     bind_op (durable (\<lambda>fs. unlink_regular_file fs (index_path repository)))
       (\<lambda>found. require_op found Index_Conflict)"

definition complete_journal :: "string \<Rightarrow> journal \<Rightarrow> index_entry \<Rightarrow> active_run_record index_op" where
  "complete_journal reservation j e =
     (let completed = j\<lparr>jn_phase := Completed, jn_revision := Some (ie_revision e), jn_hash := Some (ie_hash e)\<rparr>
      in bind_op (save_journal reservation completed) (\<lambda>_. return_op (journal_result completed)))"

definition lookup :: "index_env \<Rightarrow> string \<Rightarrow> active_run_record option index_op" where
  "lookup env repository =
     bind_op (require_op (require_identifier repository) Invalid_Value) (\<lambda>_.
     bind_op (read_entry env repository) (\<lambda>entry.
       return_op (case entry of
           None \<Rightarrow> None
         | Some e \<Rightarrow> (case ie_record e of Activated _ _ _ _ _ _ \<Rightarrow> Some (active_result e) | _ \<Rightarrow> None))))"

subsection \<open>Reserving a repository\<close>

definition create_reservation ::
  "index_env \<Rightarrow> string \<Rightarrow> reservation_owner \<Rightarrow> datetime \<Rightarrow> string \<times> string \<Rightarrow> reservation index_op" where
  \<comment> \<open>the pair is the fresh reservation ID and the fresh challenge\<close>
  "create_reservation env repository owner issued fresh =
     (let expires = issued + 5 * 60 * 1000000;
          e = new_entry 1 (Reserved repository (fst fresh) (hash_json (JStr (snd fresh)))
                (ix_isoformat env issued) (ix_isoformat env expires) (ro_host owner) (ro_pid owner))
      in bind_op (require_op (expires \<le> max_datetime) Time_Overflow) (\<lambda>_.
         bind_op (save_entry repository e) (\<lambda>_.
           reading (\<lambda>_. reservation_of_entry env e (Some (snd fresh))))))"

definition same_host_owner_is_dead :: "index_env \<Rightarrow> string \<Rightarrow> int \<Rightarrow> index_error + bool" where
  \<comment> \<open>\<^verbatim>\<open>_local_host\<close> requires the host name to be an identifier\<close>
  "same_host_owner_is_dead env host pid =
     (if \<not> require_identifier (ix_host env) then Inl Invalid_Value
      else Inr (\<not> (host \<noteq> ix_host env \<or> pid = ix_pid env) \<and> ix_process_gone env pid))"

definition can_clear_stale_reservation ::
  "index_env \<Rightarrow> datetime \<Rightarrow> reservation \<Rightarrow> bool index_op" where
  "can_clear_stale_reservation env now rv =
     (if now < rv_expires_at rv then return_op False
      else bind_op (read_journal env (rv_reservation_id rv)) (\<lambda>journal.
        if journal \<noteq> None then return_op False
        else reading (\<lambda>_. same_host_owner_is_dead env (rv_owner_host rv) (rv_owner_pid rv))))"

definition complete_no_candidate_journal :: "index_env \<Rightarrow> index_entry \<Rightarrow> unit index_op" where
  \<comment> \<open>for an entry of the kind \<^verbatim>\<open>no_candidate\<close>\<close>
  "complete_no_candidate_journal env e =
     (let r = ie_record e in
      bind_op (read_journal env (rec_reservation r)) (\<lambda>journal.
        case journal of
          None \<Rightarrow> raise_op Index_Corrupt
        | Some j \<Rightarrow>
            if jn_outcome j \<noteq> Outcome_No_Candidate then raise_op Index_Corrupt
            else if \<not> same_intent j
                (j\<lparr>jn_reservation_id := rec_reservation r, jn_repository_id := rec_repository r,
                   jn_challenge_hash := rec_challenge r, jn_input_hash := rec_input r,
                   jn_run_id := None, jn_initial_hash := empty_state_hash, jn_initial_state := JNull,
                   jn_context := JNull, jn_context_hash := JNull\<rparr>)
            then raise_op Index_Corrupt
            else if jn_phase j = Prepared
            then bind_op (complete_journal (rec_reservation r) j e) (\<lambda>_. return_op ())
            else return_op ()))"

definition probe_or_reserve ::
  "index_env \<Rightarrow> string \<Rightarrow> reservation_owner \<Rightarrow> datetime \<times> datetime \<Rightarrow> string \<times> string
   \<Rightarrow> probe_result index_op" where
  \<comment> \<open>the two times are the clock when staleness is checked and when the reservation is issued\<close>
  "probe_or_reserve env repository owner clocks fresh =
     (let create = bind_op (create_reservation env repository owner (snd clocks) fresh)
                     (\<lambda>rv. return_op (Probe_Reserved rv)) in
      bind_op (require_op (require_identifier repository \<and> reservation_owner_ok owner) Invalid_Value) (\<lambda>_.
      bind_op (read_entry env repository) (\<lambda>entry.
        case entry of
          None \<Rightarrow> create
        | Some e \<Rightarrow>
            (case ie_record e of
               Activated _ _ _ _ _ _ \<Rightarrow> return_op (Probe_Active (active_result e))
             | Reserved _ _ _ _ _ _ _ \<Rightarrow>
                 bind_op (reading (\<lambda>_. reservation_of_entry env e None)) (\<lambda>rv.
                 bind_op (can_clear_stale_reservation env (fst clocks) rv) (\<lambda>stale.
                   if stale then bind_op (remove_entry repository) (\<lambda>_. create)
                   else return_op (Probe_Blocked rv)))
             | Unselected _ _ _ _ _ \<Rightarrow>
                 bind_op (complete_no_candidate_journal env e) (\<lambda>_.
                 bind_op (remove_entry repository) (\<lambda>_. create))))))"

definition reserve ::
  "index_env \<Rightarrow> string \<Rightarrow> datetime \<times> datetime \<Rightarrow> string \<times> string \<Rightarrow> reservation index_op" where
  "reserve env repository clocks fresh =
     bind_op (require_op (require_identifier (ix_host env)) Invalid_Value) (\<lambda>_.
     bind_op (probe_or_reserve env repository \<lparr>ro_host = ix_host env, ro_pid = ix_pid env\<rparr> clocks fresh)
       (\<lambda>result.
         case result of
           Probe_Active _ \<Rightarrow> raise_op Run_Exists
         | Probe_Blocked _ \<Rightarrow> raise_op Reservation_Exists
         | Probe_Reserved rv \<Rightarrow> return_op rv))"

definition activation_reservation ::
  "index_env \<Rightarrow> preparation_input_ref \<Rightarrow> string \<Rightarrow> reservation index_op" where
  "activation_reservation env reference challenge =
     bind_op (read_entry env (pi_repository_id reference)) (\<lambda>entry.
       case entry of
         None \<Rightarrow> raise_op Reservation_Mismatch
       | Some e \<Rightarrow>
           (case ie_record e of
              Reserved _ reservation challenge_hash _ _ _ _ \<Rightarrow>
                if reservation \<noteq> pi_reservation_id reference \<or> challenge_hash \<noteq> hash_json (JStr challenge)
                then raise_op Reservation_Mismatch
                else reading (\<lambda>_. reservation_of_entry env e (Some challenge))
            | _ \<Rightarrow> raise_op Reservation_Mismatch))"

subsection \<open>Preparation input and initial states\<close>

definition verify_preparation_input ::
  "index_env \<Rightarrow> preparation_input_ref \<Rightarrow> preparation_input index_op" where
  "verify_preparation_input env reference =
     (case ix_input_verifier env of
        None \<Rightarrow> raise_op State_Mismatch
      | Some verify \<Rightarrow>
          (case verify reference of
             None \<Rightarrow> raise_op State_Mismatch
           | Some (loaded, inp) \<Rightarrow>
               if loaded \<noteq> reference then raise_op State_Mismatch else return_op inp))"

definition review_state ::
  "string \<Rightarrow> string \<Rightarrow> string \<Rightarrow> int \<Rightarrow> string option \<times> string option \<Rightarrow> string option \<times> string option
   \<Rightarrow> run_state" where
  \<comment> \<open>a selected run in human review, with its repair and finalization keys\<close>
  "review_state rid ticket repository iterations repair final =
     (new_run_state rid ticket repository iterations)
       \<lparr>disposition := HUMAN_REVIEW,
        repair_activation_public_key := fst repair, repair_activation_public_key_hash := snd repair,
        finalization_public_key := fst final, finalization_public_key_hash := snd final\<rparr>"

definition require_initial_state :: "index_env \<Rightarrow> run_state \<Rightarrow> unit index_op" where
  \<comment> \<open>\<^verbatim>\<open>_validate_initial_state(state, require_preparation_binding=True)\<close>\<close>
  "require_initial_state env s =
     (if \<not> has_preparation_binding s then raise_op (Store_Raised (Rejected Initial_State_Invalid))
      else case model_validate (clean_of (ix_store env)) (initial_snapshot s) of
          Inl _ \<Rightarrow> raise_op Invalid_Value
        | Inr t \<Rightarrow> require_op (s = t) (Store_Raised (Rejected Initial_State_Invalid)))"

definition validate_preparation_initial_state ::
  "index_env \<Rightarrow> activation_request \<Rightarrow> run_state \<Rightarrow> unit index_op" where
  \<comment> \<open>\<^verbatim>\<open>_validate_preparation_initial_state\<close> of the request with this initial state\<close>
  "validate_preparation_initial_state env r s =
     (if \<not> has_preparation_binding s then
        bind_op (if disposition s \<noteq> HUMAN_REVIEW then require_initial_state env s else return_op ()) (\<lambda>_.
        bind_op (require_op (preparation_phase s = SELECTED \<and> ar_context r = None) State_Mismatch) (\<lambda>_.
          case model_validate (clean_of (ix_store env))
              (review_state (run_id s) (ticket_id s) (repository_id s) (max_crew_iterations s)
                (repair_activation_public_key s, repair_activation_public_key_hash s)
                (finalization_public_key s, finalization_public_key_hash s)) of
            Inl _ \<Rightarrow> raise_op Invalid_Value
          | Inr expected \<Rightarrow> require_op (s = expected) State_Mismatch))
      else
        bind_op (require_initial_state env s) (\<lambda>_.
        bind_op (require_op (preparation_input_ref s = Some (ar_reference r)
            \<and> preparation_input_hash s = Some (ar_input_hash r)) State_Mismatch) (\<lambda>_.
          require_op
            (case ar_context r of
               None \<Rightarrow> True
             | Some c \<Rightarrow>
                 pc_run_id c = run_id s \<and> pc_repository_id c = repository_id s
                 \<and> Some (pc_snapshot_hash c) = ticket_snapshot_hash s
                 \<and> Some (pc_input_hash c) = preparation_input_hash s
                 \<and> Some (pc_receipt_hash c) = compatibility_receipt_hash s)
            State_Mismatch)))"

definition assert_run_id_unused :: "index_env \<Rightarrow> string \<Rightarrow> string \<Rightarrow> unit index_op" where
  "assert_run_id_unused env rid repository =
     bind_op (reading (\<lambda>w.
       case bind_result (path_lstat (iw_files w) (run_binding_path rid)) (\<lambda>binding.
              bind_result (run_directory_exists (iw_files w) rid) (\<lambda>exists. Inr (binding, exists))) of
         Inl Bad_Argument \<Rightarrow> Inl Invalid_Value
       | Inl _ \<Rightarrow> Inl Index_Corrupt
       | Inr x \<Rightarrow> Inr x)) (\<lambda>(binding, exists).
     if binding \<noteq> None then raise_op Run_Id_Used
     else if \<not> exists then return_op ()
     else
       bind_op (open_store rid) (\<lambda>_.
       bind_op (store_reading (\<lambda>w. load_optional (store_of (ix_store env) w rid) False)) (\<lambda>current.
         case current of
           None \<Rightarrow> raise_op Run_Id_Used
         | Some g \<Rightarrow>
             if run_id (sg_state g) \<noteq> rid \<or> repository_id (sg_state g) \<noteq> repository
             then raise_op State_Mismatch else raise_op Run_Id_Used)))"

definition persist_initial_state ::
  "index_env \<Rightarrow> activation_request \<Rightarrow> journal \<Rightarrow> state_generation index_op" where
  "persist_initial_state env r j =
     (case (ar_run_id r, ar_initial_state r) of
        (Some rid, Some s) \<Rightarrow>
          bind_op (validate_preparation_initial_state env r s) (\<lambda>_.
          bind_op (open_store rid) (\<lambda>_.
          bind_op (store_reading (\<lambda>w. load_optional (store_of (ix_store env) w rid) True)) (\<lambda>current.
          bind_op
            (case current of
               None \<Rightarrow> swap_initial (ix_store env) rid s
             | Some g \<Rightarrow>
                 bind_op (validate_preparation_initial_state env r (sg_state g)) (\<lambda>_. return_op g)) (\<lambda>g.
          bind_op (require_op
            (sg_state_hash g = jn_initial_hash j \<and> sg_state g = s
             \<and> run_id (sg_state g) = rid \<and> repository_id (sg_state g) = ar_repository_id r) State_Mismatch)
            (\<lambda>_. return_op g)))))
      | _ \<Rightarrow> raise_op Assertion_Failed)"

definition persist_preparation_context ::
  "index_env \<Rightarrow> activation_request \<Rightarrow> journal \<Rightarrow> unit index_op" where
  "persist_preparation_context env r j =
     (case (ar_run_id r, ar_context r, ar_context_hash r) of
        (None, _, _) \<Rightarrow> raise_op Assertion_Failed
      | (Some rid, Some c, Some h) \<Rightarrow>
          (let payload = py_dump (ix_context env) c in
           bind_op (require_op (hash_json payload = h) State_Mismatch) (\<lambda>_.
           bind_op (require_op (same_value (jn_context j) payload \<and> jn_context_hash j = JStr h) State_Mismatch) (\<lambda>_.
           bind_op (durable (\<lambda>fs. ensure_directory fs ''runs'')) (\<lambda>_.
           bind_op (durable (\<lambda>fs. ensure_directory fs (run_directory rid))) (\<lambda>_.
           bind_op (publish_json (context_path rid) payload) (\<lambda>created.
             if created then return_op ()
             else bind_op (store_reading (\<lambda>w. read_json_file (iw_files w) (context_path rid))) (\<lambda>stored.
               require_op (same_value stored payload) State_Mismatch)))))))
      | _ \<Rightarrow> return_op ())"

definition verify_persisted_context :: "index_env \<Rightarrow> journal \<Rightarrow> unit index_op" where
  "verify_persisted_context env j =
     (if jn_context j = JNull \<and> jn_context_hash j = JNull then return_op ()
      else case (jn_context j, jn_context_hash j, jn_run_id j) of
          (JObj kvs, JStr h, Some rid) \<Rightarrow>
            reading (\<lambda>w.
              case (context_of env (JObj kvs), read_json_file (iw_files w) (context_path rid)) of
                (Some c, Inr stored) \<Rightarrow>
                  if hash_json (JObj kvs) = h \<and> pc_run_id c = rid \<and> same_value stored (JObj kvs)
                  then Inr () else Inl Index_Corrupt
              | _ \<Rightarrow> Inl Index_Corrupt)
        | _ \<Rightarrow> raise_op Index_Corrupt)"

definition run_binding_json :: "string \<Rightarrow> string \<Rightarrow> string \<Rightarrow> json" where
  "run_binding_json rid repository initial =
     JObj [(''run_id'', JStr rid), (''repository_id'', JStr repository),
           (''initial_generation_hash'', JStr initial)]"

definition write_run_binding :: "string \<Rightarrow> string \<Rightarrow> string \<Rightarrow> unit index_op" where
  "write_run_binding rid repository initial =
     (let binding = run_binding_json rid repository initial in
      bind_op (publish_json (run_binding_path rid) binding) (\<lambda>created.
        if created then return_op ()
        else reading (\<lambda>w.
          case read_json_file (iw_files w) (run_binding_path rid) of
            Inl _ \<Rightarrow> Inl Index_Corrupt
          | Inr existing \<Rightarrow> if same_value existing binding then Inr () else Inl Index_Corrupt)))"

subsection \<open>Activation\<close>

definition dump_state :: "index_env \<Rightarrow> run_state option \<Rightarrow> json" where
  "dump_state env s = (case s of None \<Rightarrow> JNull | Some t \<Rightarrow> se_dump (ix_store env) t)"

definition dump_context :: "index_env \<Rightarrow> preparation_context option \<Rightarrow> json" where
  "dump_context env c = (case c of None \<Rightarrow> JNull | Some d \<Rightarrow> py_dump (ix_context env) d)"

definition activation_intent :: "index_env \<Rightarrow> activation_request \<Rightarrow> journal" where
  \<comment> \<open>\<^verbatim>\<open>_activation_intent\<close> with the members \<^verbatim>\<open>_activate_locked\<close> adds to it\<close>
  "activation_intent env r =
     \<lparr>jn_reservation_id = ar_reservation_id r, jn_repository_id = ar_repository_id r,
      jn_expected_revision = ar_expected_revision r, jn_expected_hash = lower (ar_expected_hash r),
      jn_challenge_hash = lower (ar_challenge_hash r), jn_input_hash = lower (ar_input_hash r),
      jn_reference = py_dump (ix_reference env) (ar_reference r), jn_run_id = ar_run_id r,
      jn_initial_hash = (case ar_initial_hash r of None \<Rightarrow> empty_state_hash | Some h \<Rightarrow> lower h),
      jn_initial_state = dump_state env (ar_initial_state r),
      jn_context = dump_context env (ar_context r), jn_context_hash = json_opt (ar_context_hash r),
      jn_claim = JNull, jn_binding = JNull,
      jn_outcome = (if ar_run_id r \<noteq> None then Outcome_Active else Outcome_No_Candidate),
      jn_phase = Prepared, jn_revision = None, jn_hash = None\<rparr>"

definition reservation_holds :: "journal \<Rightarrow> index_entry \<Rightarrow> bool" where
  \<comment> \<open>a reservation entry still has the revision and hash the journal expects\<close>
  "reservation_holds j e \<longleftrightarrow>
     (case ie_record e of
        Reserved _ _ _ _ _ _ _ \<Rightarrow> ie_revision e = jn_expected_revision j \<and> ie_hash e = jn_expected_hash j
      | _ \<Rightarrow> True)"

definition settle_no_candidate :: "journal \<Rightarrow> index_entry option \<Rightarrow> active_run_record index_op" where
  "settle_no_candidate j entry =
     (let repository = jn_repository_id j; reservation = jn_reservation_id j in
      case entry of
        None \<Rightarrow> raise_op Index_Corrupt
      | Some e \<Rightarrow>
          (case ie_record e of
             Reserved _ held _ _ _ _ _ \<Rightarrow>
               if held \<noteq> reservation then raise_op Index_Corrupt
               else
                 (let e' = new_entry (ie_revision e + 1)
                        (Unselected repository reservation (jn_challenge_hash j) (jn_input_hash j)
                          empty_state_hash)
                  in bind_op (save_entry repository e') (\<lambda>_. complete_journal reservation j e'))
           | Unselected _ held _ _ _ \<Rightarrow>
               if held \<noteq> reservation then raise_op Index_Corrupt else complete_journal reservation j e
           | Activated _ _ _ _ _ _ \<Rightarrow> raise_op Index_Corrupt))"

definition settle_active ::
  "index_env \<Rightarrow> activation_request \<Rightarrow> journal \<Rightarrow> string \<Rightarrow> index_entry option \<Rightarrow> active_run_record index_op" where
  \<comment> \<open>the files of the run and its binding come first, the entry of the index last\<close>
  "settle_active env r j rid entry =
     (let repository = jn_repository_id j; reservation = jn_reservation_id j in
      bind_op (persist_preparation_context env r j) (\<lambda>_.
      bind_op (persist_initial_state env r j) (\<lambda>g.
      bind_op (write_run_binding rid repository (sg_state_hash g)) (\<lambda>_.
        case entry of
          None \<Rightarrow> raise_op Index_Corrupt
        | Some e \<Rightarrow>
            (case ie_record e of
               Reserved _ held _ _ _ _ _ \<Rightarrow>
                 if held \<noteq> reservation then raise_op Index_Corrupt
                 else
                   (let e' = new_entry (ie_revision e + 1)
                          (Activated repository reservation (jn_challenge_hash j) (jn_input_hash j) rid
                            (sg_state_hash g))
                    in bind_op (save_entry repository e') (\<lambda>_. complete_journal reservation j e'))
             | Activated _ held _ _ active initial \<Rightarrow>
                 if active \<noteq> rid \<or> held \<noteq> reservation \<or> initial \<noteq> sg_state_hash g
                 then raise_op Index_Corrupt else complete_journal reservation j e
             | Unselected _ _ _ _ _ \<Rightarrow> raise_op Index_Corrupt)))))"

definition complete_prepared_activation ::
  "index_env \<Rightarrow> activation_request \<Rightarrow> journal \<Rightarrow> active_run_record index_op" where
  \<comment> \<open>\<^verbatim>\<open>_complete_prepared_activation_locked\<close>\<close>
  "complete_prepared_activation env r j =
     bind_op (read_entry env (jn_repository_id j)) (\<lambda>entry.
     bind_op (require_op (opt_all (reservation_holds j) entry) Reservation_Mismatch) (\<lambda>_.
       case jn_outcome j of
         Outcome_No_Candidate \<Rightarrow> settle_no_candidate j entry
       | Outcome_Active \<Rightarrow>
           (case jn_run_id j of
              None \<Rightarrow> raise_op Assertion_Failed
            | Some rid \<Rightarrow> settle_active env r j rid entry)))"

definition replay_completed :: "index_env \<Rightarrow> journal \<Rightarrow> active_run_record index_op" where
  \<comment> \<open>a completed journal answers by itself, once the context of its run is verified\<close>
  "replay_completed env j =
     bind_op (if jn_outcome j = Outcome_Active then verify_persisted_context env j else return_op ())
       (\<lambda>_. return_op (journal_result j))"

definition activate_locked :: "index_env \<Rightarrow> activation_request \<Rightarrow> active_run_record index_op" where
  "activate_locked env r =
     (let intent = activation_intent env r; reservation = ar_reservation_id r in
      bind_op (read_journal env reservation) (\<lambda>journal.
        case journal of
          Some j \<Rightarrow>
            if \<not> same_intent j intent then raise_op Replay_Mismatch
            else if jn_phase j = Completed then replay_completed env j
            else complete_prepared_activation env r j
        | None \<Rightarrow>
            bind_op (read_entry env (ar_repository_id r)) (\<lambda>entry.
              case entry of
                None \<Rightarrow> raise_op Reservation_Mismatch
              | Some e \<Rightarrow>
                  (case ie_record e of
                     Reserved _ held challenge_hash _ _ _ _ \<Rightarrow>
                       if held \<noteq> reservation \<or> challenge_hash \<noteq> jn_challenge_hash intent
                          \<or> ie_revision e \<noteq> ar_expected_revision r \<or> ie_hash e \<noteq> ar_expected_hash r
                       then raise_op Reservation_Mismatch
                       else
                         bind_op
                           (case (ar_run_id r, ar_initial_state r) of
                              (None, _) \<Rightarrow> return_op ()
                            | (Some rid, None) \<Rightarrow> raise_op Assertion_Failed
                            | (Some rid, Some s) \<Rightarrow>
                                bind_op (assert_run_id_unused env rid (ar_repository_id r)) (\<lambda>_.
                                  validate_preparation_initial_state env r s)) (\<lambda>_.
                         bind_op (save_journal reservation intent) (\<lambda>_.
                           complete_prepared_activation env r intent))
                   | _ \<Rightarrow> raise_op Reservation_Mismatch))))"

definition activate_reservation :: "index_env \<Rightarrow> activation_request \<Rightarrow> active_run_record index_op" where
  "activate_reservation env r =
     bind_op (require_op
       (require_identifier (ar_repository_id r) \<and> require_identifier (ar_reservation_id r)
        \<and> is_sha256 (ar_challenge_hash r) \<and> is_sha256 (ar_input_hash r)
        \<and> \<not> ar_expected_revision r < 1 \<and> is_sha256 (ar_expected_hash r)
        \<and> opt_all require_identifier (ar_run_id r)) Invalid_Value) (\<lambda>_.
     bind_op (verify_preparation_input env (ar_reference r)) (\<lambda>_.
     bind_op (require_op
       (case ar_initial_hash r of None \<Rightarrow> True | Some h \<Rightarrow> is_sha256 h) Invalid_Value) (\<lambda>_.
       activate_locked env r)))"

definition request_from_journal :: "index_env \<Rightarrow> journal \<Rightarrow> activation_request option" where
  \<comment> \<open>\<^verbatim>\<open>_request_from_journal\<close>; \<open>None\<close> is \<^verbatim>\<open>ValidationError\<close>\<close>
  "request_from_journal env j = do {
     reference \<leftarrow> reference_of env (jn_reference j);
     state \<leftarrow> (if jn_initial_state j = JNull then Some None
               else map_option Some (se_parse (ix_store env) (jn_initial_state j)));
     context \<leftarrow> (if jn_context j = JNull then Some None
                 else map_option Some (context_of env (jn_context j)));
     context_hash \<leftarrow> (case jn_context_hash j of JNull \<Rightarrow> Some None | JStr h \<Rightarrow> Some (Some h) | _ \<Rightarrow> None);
     activation_request_checked (ix_store env) (ix_context env)
       \<lparr>ar_reservation_id = jn_reservation_id j, ar_repository_id = jn_repository_id j,
        ar_expected_revision = jn_expected_revision j, ar_expected_hash = jn_expected_hash j,
        ar_reference = reference, ar_run_id = jn_run_id j, ar_initial_state = state,
        ar_initial_hash = (if jn_run_id j \<noteq> None then Some (jn_initial_hash j) else None),
        ar_context = context, ar_context_hash = context_hash\<rparr>
   }"

definition claim_reference_ok :: "index_env \<Rightarrow> journal \<Rightarrow> preparation_input_ref \<Rightarrow> string \<Rightarrow> bool" where
  \<comment> \<open>\<^verbatim>\<open>_require_claim_reference\<close> does not raise\<close>
  "claim_reference_ok env j reference challenge \<longleftrightarrow>
     jn_repository_id j = pi_repository_id reference
     \<and> jn_challenge_hash j = hash_json (JStr challenge)
     \<and> jn_input_hash j = pi_input_hash reference
     \<and> same_value (jn_reference j) (py_dump (ix_reference env) reference)"

definition activation_result ::
  "index_env \<Rightarrow> preparation_input_ref \<Rightarrow> string \<Rightarrow> active_run_record option index_op" where
  "activation_result env reference challenge =
     bind_op (read_journal env (pi_reservation_id reference)) (\<lambda>journal.
       case journal of
         None \<Rightarrow> return_op None
       | Some j \<Rightarrow>
           if \<not> claim_reference_ok env j reference challenge then raise_op Replay_Mismatch
           else if jn_claim j \<noteq> JNull \<and> jn_phase j \<in> {Claimed, Preflight_Complete, Preflight_Failed}
           then return_op None
           else if jn_phase j \<noteq> Completed then
             (case request_from_journal env j of
                None \<Rightarrow> raise_op Invalid_Value
              | Some r \<Rightarrow> bind_op (complete_prepared_activation env r j) (\<lambda>x. return_op (Some x)))
           else bind_op (replay_completed env j) (\<lambda>x. return_op (Some x)))"

end
