(* ===== verification/Run_Claims.thy ===== *)
theory Run_Claims
  imports Run_Index
begin

section \<open>Claims of selected tickets and releases\<close>

text \<open>
  The rest of \<^verbatim>\<open>ActiveRunIndex\<close>: a selected ticket is claimed in the journal before the
  compatibility preflight, the claim is completed with the receipt of the preflight or
  handed to human review, and a finished run is released with a signed receipt.
\<close>

subsection \<open>Claims\<close>

definition same_snapshot :: "ticket_snapshot \<Rightarrow> ticket_snapshot \<Rightarrow> bool" where
  \<comment> \<open>equality of snapshots: mappings are compared without the order of their keys\<close>
  "same_snapshot a b \<longleftrightarrow>
     a\<lparr>sn_relations := [], sn_subtickets := [], sn_source_page_hashes := []\<rparr>
       = b\<lparr>sn_relations := [], sn_subtickets := [], sn_source_page_hashes := []\<rparr>
     \<and> same_value (JList (sn_relations a)) (JList (sn_relations b))
     \<and> same_value (JList (sn_subtickets a)) (JList (sn_subtickets b))
     \<and> set (sn_source_page_hashes a) = set (sn_source_page_hashes b)"

definition page_of :: "string \<Rightarrow> json list \<Rightarrow> json option" where
  \<comment> \<open>the first page whose \<^verbatim>\<open>id\<close> is the ticket\<close>
  "page_of ticket pages =
     find (\<lambda>page. case page of
         JObj kvs \<Rightarrow> (case map_of kvs ''id'' of Some (JStr v) \<Rightarrow> upper (strip v) = ticket | _ \<Rightarrow> False)
       | _ \<Rightarrow> False) pages"

definition selected_claim_trusted :: "index_env \<Rightarrow> selected_claim \<Rightarrow> preparation_input \<Rightarrow> bool" where
  \<comment> \<open>\<^verbatim>\<open>_validate_selected_claim\<close> does not raise\<close>
  "selected_claim_trusted env c p \<longleftrightarrow>
     (case (require_resolved (pp_assignee p), require_resolved (pp_milestone p)) of
        (Some assignee, Some milestone) \<Rightarrow>
          (case select_ticket (ix_iso env) (ix_bracketed env) (JList (pp_pages p)) assignee milestone of
             Inr (Some candidate) \<Rightarrow>
               cd_id candidate = sn_ticket_id (sc_snapshot c)
               \<and> (case page_of (cd_id candidate) (pp_pages p) of
                    Some (JObj raw) \<Rightarrow>
                      (case snapshot_from_untrusted (se_clock (ix_store env)) (ix_bracketed env) (JObj raw)
                          (sn_captured_at (sc_snapshot c)) True (pi_source_page_hashes (sc_reference c)) of
                         None \<Rightarrow> False
                       | Some snapshot \<Rightarrow>
                           same_snapshot snapshot (sc_snapshot c)
                           \<and> map_of raw ''state_id'' = Some (JStr (sc_original_state_id c))
                           \<and> map_of raw ''external_revision'' = Some (JStr (sc_original_revision c)))
                  | _ \<Rightarrow> False)
           | _ \<Rightarrow> False)
      | _ \<Rightarrow> False)"

definition dump_without :: "string \<Rightarrow> json \<Rightarrow> json" where
  "dump_without k v = (case v of JObj kvs \<Rightarrow> JObj (filter (\<lambda>kv. fst kv \<noteq> k) kvs) | _ \<Rightarrow> v)"

definition journal_claim_matches :: "index_env \<Rightarrow> journal \<Rightarrow> selected_claim \<Rightarrow> selected_claim \<Rightarrow> bool" where
  "journal_claim_matches env j requested persisted \<longleftrightarrow>
     same_value (dump_without ''ticket_snapshot'' (py_dump (ix_claim env) requested))
       (dump_without ''ticket_snapshot'' (py_dump (ix_claim env) persisted))
     \<and> jn_run_id j = Some (selected_run_id persisted)"

definition claimed_preflight_has_expired :: "index_env \<Rightarrow> datetime \<Rightarrow> journal \<Rightarrow> bool index_op" where
  "claimed_preflight_has_expired env now j =
     bind_op (read_entry env (jn_repository_id j)) (\<lambda>entry.
       case entry of
         None \<Rightarrow> raise_op Index_Corrupt
       | Some e \<Rightarrow>
           (case ie_record e of
              Reserved _ held _ _ _ _ _ \<Rightarrow>
                if held \<noteq> jn_reservation_id j \<or> ie_revision e \<noteq> jn_expected_revision j
                   \<or> ie_hash e \<noteq> jn_expected_hash j
                then raise_op Index_Corrupt
                else bind_op (reading (\<lambda>_. reservation_of_entry env e None)) (\<lambda>rv.
                  return_op (rv_expires_at rv \<le> now))
            | _ \<Rightarrow> raise_op Index_Corrupt))"

definition new_claim_journal :: "index_env \<Rightarrow> selected_claim \<Rightarrow> journal" where
  "new_claim_journal env c =
     \<lparr>jn_reservation_id = sc_reservation_id c, jn_repository_id = sc_repository_id c,
      jn_expected_revision = sc_expected_revision c, jn_expected_hash = sc_expected_hash c,
      jn_challenge_hash = pi_challenge_hash (sc_reference c), jn_input_hash = pi_input_hash (sc_reference c),
      jn_reference = py_dump (ix_reference env) (sc_reference c), jn_run_id = Some (selected_run_id c),
      jn_initial_hash = empty_state_hash, jn_initial_state = JNull, jn_context = JNull,
      jn_context_hash = JNull, jn_claim = py_dump (ix_claim env) c, jn_binding = JNull,
      jn_outcome = Outcome_Active, jn_phase = Claimed, jn_revision = None, jn_hash = None\<rparr>"

definition replay_claim ::
  "index_env \<Rightarrow> datetime \<Rightarrow> selected_claim \<Rightarrow> preparation_input \<Rightarrow> journal \<Rightarrow> selected_activation index_op" where
  \<comment> \<open>a claim that is in the journal already\<close>
  "replay_claim env now c p j =
     (case claim_of env (jn_claim j) of
        None \<Rightarrow> raise_op Index_Corrupt
      | Some persisted \<Rightarrow>
          if \<not> selected_claim_trusted env persisted p then raise_op Index_Corrupt
          else if \<not> journal_claim_matches env j c persisted then raise_op Replay_Mismatch
          else
            (let answer = (\<lambda>outcome. return_op \<lparr>sx_outcome = outcome, sx_repository_id = sc_repository_id c,
                                                 sx_run_id = selected_run_id persisted\<rparr>)
             in case jn_phase j of
                 Claimed \<Rightarrow>
                   bind_op (claimed_preflight_has_expired env now j) (\<lambda>expired.
                     if expired
                     then bind_op (save_journal (sc_reservation_id c) (j\<lparr>jn_phase := Preflight_Failed\<rparr>))
                            (\<lambda>_. answer Preflight_Failed_Outcome)
                     else answer Wait_For_Preflight)
               | Preflight_Failed \<Rightarrow> answer Preflight_Failed_Outcome
               | _ \<Rightarrow> answer Preflight_Done))"

definition claim_selected_activation ::
  "index_env \<Rightarrow> datetime \<Rightarrow> selected_claim \<Rightarrow> selected_activation index_op" where
  "claim_selected_activation env now c =
     bind_op (verify_preparation_input env (sc_reference c)) (\<lambda>p.
     bind_op (require_op (selected_claim_trusted env c p) State_Mismatch) (\<lambda>_.
     bind_op (read_journal env (sc_reservation_id c)) (\<lambda>journal.
       case journal of
         Some j \<Rightarrow> replay_claim env now c p j
       | None \<Rightarrow>
           bind_op (read_entry env (sc_repository_id c)) (\<lambda>entry.
             case entry of
               None \<Rightarrow> raise_op Reservation_Mismatch
             | Some e \<Rightarrow>
                 (case ie_record e of
                    Reserved _ held challenge_hash _ _ _ _ \<Rightarrow>
                      if held \<noteq> sc_reservation_id c \<or> challenge_hash \<noteq> pi_challenge_hash (sc_reference c)
                         \<or> ie_revision e \<noteq> sc_expected_revision c \<or> ie_hash e \<noteq> sc_expected_hash c
                      then raise_op Reservation_Mismatch
                      else
                        bind_op (assert_run_id_unused env (selected_run_id c) (sc_repository_id c)) (\<lambda>_.
                        bind_op (save_journal (sc_reservation_id c) (new_claim_journal env c)) (\<lambda>_.
                          return_op \<lparr>sx_outcome = Preflight_Required, sx_repository_id = sc_repository_id c,
                                     sx_run_id = selected_run_id c\<rparr>))
                  | _ \<Rightarrow> raise_op Reservation_Mismatch)))))"

definition load_claim_journal ::
  "index_env \<Rightarrow> preparation_input_ref \<Rightarrow> string \<Rightarrow> journal index_op" where
  \<comment> \<open>the journal of a claim, for its own reference and challenge\<close>
  "load_claim_journal env reference challenge =
     bind_op (read_journal env (pi_reservation_id reference)) (\<lambda>journal.
       case journal of
         None \<Rightarrow> raise_op Reservation_Mismatch
       | Some j \<Rightarrow>
           if jn_claim j = JNull then raise_op Reservation_Mismatch
           else if \<not> claim_reference_ok env j reference challenge then raise_op Replay_Mismatch
           else return_op j)"

definition record_claim_compatibility ::
  "index_env \<Rightarrow> preparation_input_ref \<Rightarrow> string \<Rightarrow> compatibility_binding \<Rightarrow> selected_activation index_op" where
  "record_claim_compatibility env reference challenge b =
     (let dumped = py_dump (ix_binding env) b in
      bind_op (load_claim_journal env reference challenge) (\<lambda>j.
        case jn_run_id j of
          None \<Rightarrow> raise_op Assertion_Failed
        | Some rid \<Rightarrow>
            (let answer = return_op \<lparr>sx_outcome = Preflight_Done,
                                     sx_repository_id = pi_repository_id reference, sx_run_id = rid\<rparr>
             in case jn_phase j of
                 Claimed \<Rightarrow>
                   bind_op (save_journal (pi_reservation_id reference)
                     (j\<lparr>jn_binding := dumped, jn_phase := Preflight_Complete\<rparr>)) (\<lambda>_. answer)
               | Preflight_Failed \<Rightarrow> raise_op Index_Corrupt
               | _ \<Rightarrow> if \<not> same_value (jn_binding j) dumped then raise_op Replay_Mismatch else answer)))"

subsection \<open>Completing a claim\<close>

definition validated_state :: "index_env \<Rightarrow> run_state \<Rightarrow> run_state option" where
  "validated_state env s =
     (case model_validate (clean_of (ix_store env)) s of Inl _ \<Rightarrow> None | Inr t \<Rightarrow> Some t)"

definition claim_keys :: "selected_claim \<Rightarrow> (string option \<times> string option) \<times> string option \<times> string option" where
  "claim_keys c =
     ((Some (sc_repair_key c), Some (sc_repair_key_hash c)), Some (sc_final_key c), Some (sc_final_key_hash c))"

definition request_of_claim ::
  "index_env \<Rightarrow> selected_claim \<Rightarrow> string \<Rightarrow> run_state \<Rightarrow> preparation_context option \<Rightarrow> activation_request option" where
  "request_of_claim env c rid s context =
     activation_request_checked (ix_store env) (ix_context env)
       \<lparr>ar_reservation_id = sc_reservation_id c, ar_repository_id = sc_repository_id c,
        ar_expected_revision = sc_expected_revision c, ar_expected_hash = sc_expected_hash c,
        ar_reference = sc_reference c, ar_run_id = Some rid, ar_initial_state = Some s,
        ar_initial_hash = Some (state_hash_of (ix_store env) s), ar_context = context,
        ar_context_hash = map_option (\<lambda>d. hash_json (py_dump (ix_context env) d)) context\<rparr>"

definition selected_claim_and_run :: "index_env \<Rightarrow> journal \<Rightarrow> (selected_claim \<times> string) option" where
  "selected_claim_and_run env j =
     Option.bind (claim_of env (jn_claim j)) (\<lambda>c.
       if jn_run_id j = Some (selected_run_id c) then Some (c, selected_run_id c) else None)"

definition request_from_selected_claim :: "index_env \<Rightarrow> journal \<Rightarrow> activation_request option" where
  \<comment> \<open>\<open>None\<close>: any exception becomes \<^verbatim>\<open>AuthoritativeIndexCorrupt\<close>\<close>
  "request_from_selected_claim env j = do {
     (c, rid) \<leftarrow> selected_claim_and_run env j;
     b \<leftarrow> binding_of env (jn_binding j);
     context \<leftarrow>
       (let d = \<lparr>pc_run_id = rid, pc_repository_id = sc_repository_id c, pc_snapshot = sc_snapshot c,
                 pc_snapshot_hash = sn_content_hash (sc_snapshot c),
                 pc_original_state_id = sc_original_state_id c,
                 pc_original_revision = sc_original_revision c, pc_reference = sc_reference c,
                 pc_input_hash = pi_input_hash (sc_reference c), pc_receipt_hash = cb_receipt_hash b,
                 pc_receipt_ref = cb_receipt_ref b, pc_runner_identity = cb_runner_identity b\<rparr>
        in if preparation_context_valid d then Some d else None);
     state \<leftarrow> validated_state env
       ((new_run_state rid (sn_ticket_id (sc_snapshot c)) (sc_repository_id c)
           (pi_max_crew_iterations (sc_reference c)))
         \<lparr>project_policy_hash := Some (cb_project_policy_hash b),
          preparation_input_ref := Some (sc_reference c),
          preparation_input_hash := Some (pi_input_hash (sc_reference c)),
          ticket_snapshot_hash := Some (sn_content_hash (sc_snapshot c)),
          compatibility_receipt_hash := Some (cb_receipt_hash b),
          compatibility_receipt_ref := Some (cb_receipt_ref b),
          runner_identity := Some (cb_runner_identity b),
          repair_activation_public_key := Some (sc_repair_key c),
          repair_activation_public_key_hash := Some (sc_repair_key_hash c),
          finalization_public_key := Some (sc_final_key c),
          finalization_public_key_hash := Some (sc_final_key_hash c)\<rparr>);
     request_of_claim env c rid state (Some context)
   }"

definition human_review_request_from_selected_claim :: "index_env \<Rightarrow> journal \<Rightarrow> activation_request option" where
  "human_review_request_from_selected_claim env j = do {
     (c, rid) \<leftarrow> selected_claim_and_run env j;
     state \<leftarrow> validated_state env
       (review_state rid (sn_ticket_id (sc_snapshot c)) (sc_repository_id c)
         (pi_max_crew_iterations (sc_reference c)) (fst (claim_keys c)) (snd (claim_keys c)));
     request_of_claim env c rid state None
   }"

definition prepared_journal :: "index_env \<Rightarrow> activation_request \<Rightarrow> journal \<Rightarrow> journal" where
  "prepared_journal env r j =
     j\<lparr>jn_initial_hash := (case ar_initial_hash r of None \<Rightarrow> empty_state_hash | Some h \<Rightarrow> h),
       jn_initial_state := dump_state env (ar_initial_state r),
       jn_context := dump_context env (ar_context r),
       jn_context_hash := json_opt (ar_context_hash r), jn_phase := Prepared\<rparr>"

definition publish_claim ::
  "index_env \<Rightarrow> string \<Rightarrow> activation_request option \<Rightarrow> journal \<Rightarrow> active_run_record index_op" where
  "publish_claim env reservation request j =
     (case request of
        None \<Rightarrow> raise_op Index_Corrupt
      | Some r \<Rightarrow>
          bind_op (save_journal reservation (prepared_journal env r j)) (\<lambda>_.
            complete_prepared_activation env r (prepared_journal env r j)))"

definition replay_completed_claim :: "index_env \<Rightarrow> journal \<Rightarrow> active_run_record index_op" where
  "replay_completed_claim env j =
     bind_op (verify_persisted_context env j) (\<lambda>_. return_op (journal_result j))"

definition complete_selected_activation ::
  "index_env \<Rightarrow> preparation_input_ref \<Rightarrow> string \<Rightarrow> active_run_record option index_op" where
  "complete_selected_activation env reference challenge =
     bind_op (load_claim_journal env reference challenge) (\<lambda>j.
       case jn_phase j of
         Claimed \<Rightarrow> return_op None
       | Completed \<Rightarrow> bind_op (replay_completed_claim env j) (\<lambda>x. return_op (Some x))
       | Preflight_Complete \<Rightarrow>
           bind_op (publish_claim env (pi_reservation_id reference) (request_from_selected_claim env j) j)
             (\<lambda>x. return_op (Some x))
       | _ \<Rightarrow> raise_op Index_Corrupt)"

definition complete_selected_activation_human_review ::
  "index_env \<Rightarrow> preparation_input_ref \<Rightarrow> string \<Rightarrow> active_run_record index_op" where
  "complete_selected_activation_human_review env reference challenge =
     (let publish = (\<lambda>j. publish_claim env (pi_reservation_id reference)
                           (human_review_request_from_selected_claim env j) j)
      in bind_op (load_claim_journal env reference challenge) (\<lambda>j.
        case jn_phase j of
          Completed \<Rightarrow> replay_completed_claim env j
        | Claimed \<Rightarrow>
            bind_op (save_journal (pi_reservation_id reference) (j\<lparr>jn_phase := Preflight_Failed\<rparr>))
              (\<lambda>_. publish (j\<lparr>jn_phase := Preflight_Failed\<rparr>))
        | Preflight_Failed \<Rightarrow> publish j
        | _ \<Rightarrow> raise_op Index_Corrupt))"

subsection \<open>Releases\<close>

definition release_receipt_json :: "index_release_receipt \<Rightarrow> json" where
  "release_receipt_json r =
     JObj [(''repository_id'', JStr (ir_repository_id r)), (''run_id'', JStr (ir_run_id r)),
           (''prior_revision'', JInt (ir_prior_revision r)), (''prior_hash'', JStr (ir_prior_hash r)),
           (''terminal_generation_hash'', JStr (ir_terminal_generation_hash r)),
           (''receipt_hash'', JStr (ir_receipt_hash r)), (''signature'', json_opt (ir_signature r))]"

definition release_receipt_of :: "json \<Rightarrow> index_release_receipt option" where
  \<comment> \<open>\<^verbatim>\<open>IndexReleaseReceipt.model_validate\<close>\<close>
  "release_receipt_of v =
     (case v of
        JObj kvs \<Rightarrow>
          (if \<not> known_fields kvs [''repository_id'', ''run_id'', ''prior_revision'', ''prior_hash'',
              ''terminal_generation_hash'', ''receipt_hash'', ''signature''] then None
           else do {
             repository \<leftarrow> text_field kvs ''repository_id'';
             rid \<leftarrow> text_field kvs ''run_id'';
             revision \<leftarrow> (case map_of kvs ''prior_revision'' of Some (JInt n) \<Rightarrow> Some n | _ \<Rightarrow> None);
             prior \<leftarrow> text_field kvs ''prior_hash'';
             terminal \<leftarrow> text_field kvs ''terminal_generation_hash'';
             h \<leftarrow> text_field kvs ''receipt_hash'';
             signature \<leftarrow> optional_text kvs ''signature'';
             let r = \<lparr>ir_repository_id = repository, ir_run_id = rid, ir_prior_revision = revision,
                      ir_prior_hash = lower prior, ir_terminal_generation_hash = lower terminal,
                      ir_receipt_hash = lower h, ir_signature = signature\<rparr>
             in if list_all sha256_pattern [prior, terminal, h] \<and> index_release_receipt_valid r
                then Some r else None
           })
      | _ \<Rightarrow> None)"

definition sign_release_receipt :: "index_env \<Rightarrow> run_state \<Rightarrow> index_release_receipt \<Rightarrow> index_release_receipt option" where
  "sign_release_receipt env s r =
     (case (finalization_public_key s, finalization_public_key_hash s) of
        (Some key, Some _) \<Rightarrow>
          (if ix_public_key env \<noteq> key then None
           else Some (with_signature r (ix_sign env (canonical_json_bytes (signing_payload r)))))
      | _ \<Rightarrow> None)"

definition release_ready :: "index_env \<Rightarrow> run_state \<Rightarrow> bool" where
  \<comment> \<open>done, or abandoned by a consumed authorization that verifies\<close>
  "release_ready env s \<longleftrightarrow>
     disposition s = DONE
     \<or> (disposition s = ABANDONED
        \<and> list_ex (\<lambda>a. is_trusted_authorization (ix_store env) a ABANDON) (human_authorizations s))"

definition release_locked ::
  "index_env \<Rightarrow> index_entry \<Rightarrow> string \<Rightarrow> string \<Rightarrow> string \<Rightarrow> index_release_receipt index_op" where
  \<comment> \<open>the part of \<^verbatim>\<open>release\<close> under the lock of the run state\<close>
  "release_locked env e repository rid terminal =
     bind_op (store_reading (\<lambda>w. load (store_of (ix_store env) w rid))) (\<lambda>g.
     bind_op (require_op (sg_state_hash g = terminal) Terminal_Mismatch) (\<lambda>_.
     bind_op (require_op (repository_id (sg_state g) = repository) Index_Corrupt) (\<lambda>_.
     bind_op (require_op (release_ready env (sg_state g)) Non_Terminal_Release) (\<lambda>_.
       (let unsigned = index_release_receipt_create repository rid (ie_revision e) (ie_hash e) terminal in
        bind_op (require_op (index_release_receipt_valid unsigned) Invalid_Value) (\<lambda>_.
          case sign_release_receipt env (sg_state g) unsigned of
            None \<Rightarrow> raise_op Index_Corrupt
          | Some receipt \<Rightarrow>
              bind_op (publish_json (release_path receipt) (release_receipt_json receipt)) (\<lambda>created.
              bind_op
                (if created then return_op ()
                 else bind_op (store_reading (\<lambda>w. read_json_file (iw_files w) (release_path receipt)))
                        (\<lambda>stored. require_op (same_value stored (release_receipt_json receipt)) Index_Corrupt))
                (\<lambda>_. bind_op (remove_entry repository) (\<lambda>_. return_op receipt)))))))))"

definition release ::
  "index_env \<Rightarrow> string \<Rightarrow> string \<Rightarrow> int \<Rightarrow> string \<Rightarrow> string \<Rightarrow> index_release_receipt index_op" where
  "release env repository rid expected_revision expected_hash terminal =
     bind_op (require_op
       (require_identifier repository \<and> require_identifier rid \<and> \<not> expected_revision < 1
        \<and> is_sha256 expected_hash \<and> is_sha256 terminal) Invalid_Value) (\<lambda>_.
     bind_op (read_entry env repository) (\<lambda>entry.
       case entry of
         None \<Rightarrow> raise_op Index_Conflict
       | Some e \<Rightarrow>
           (case ie_record e of
              Activated _ _ _ _ active _ \<Rightarrow>
                if active \<noteq> rid \<or> ie_revision e \<noteq> expected_revision \<or> ie_hash e \<noteq> lower expected_hash
                then raise_op Index_Conflict
                else bind_op (open_store rid) (\<lambda>_. release_locked env e repository rid (lower terminal))
            | _ \<Rightarrow> raise_op Index_Conflict)))"

definition release_signature_ok :: "index_env \<Rightarrow> run_state \<Rightarrow> index_release_receipt \<Rightarrow> bool" where
  "release_signature_ok env s r \<longleftrightarrow>
     (case (finalization_public_key s, finalization_public_key_hash s) of
        (Some key, Some key_hash) \<Rightarrow> receipt_signature_ok (se_ed25519 (ix_store env)) r key key_hash
      | _ \<Rightarrow> False)"

definition load_verified_release :: "index_env \<Rightarrow> index_release_receipt \<Rightarrow> index_release_receipt index_op" where
  "load_verified_release env receipt =
     bind_op (read_entry env (ir_repository_id receipt)) (\<lambda>entry.
     bind_op (require_op (entry = None) Index_Conflict) (\<lambda>_.
     bind_op (reading (\<lambda>w.
       case read_json_file (iw_files w) (release_path receipt) of
         Inl _ \<Rightarrow> Inl Index_Corrupt
       | Inr v \<Rightarrow> (case release_receipt_of v of None \<Rightarrow> Inl Index_Corrupt | Some r \<Rightarrow> Inr r))) (\<lambda>stored.
     bind_op (require_op (receipt_matches stored receipt) Index_Corrupt) (\<lambda>_.
     bind_op (open_store (ir_run_id receipt)) (\<lambda>_.
     bind_op (store_reading (\<lambda>w. load (store_of (ix_store env) w (ir_run_id receipt)))) (\<lambda>g.
     bind_op (require_op
       (sg_state_hash g = ir_terminal_generation_hash receipt
        \<and> repository_id (sg_state g) = ir_repository_id receipt
        \<and> disposition (sg_state g) \<in> {DONE, ABANDONED}) Terminal_Mismatch) (\<lambda>_.
     bind_op (require_op (release_signature_ok env (sg_state g) stored) Index_Corrupt) (\<lambda>_.
       return_op stored))))))))"

definition verify_release :: "index_env \<Rightarrow> index_release_receipt \<Rightarrow> unit index_op" where
  "verify_release env receipt = bind_op (load_verified_release env receipt) (\<lambda>_. return_op ())"

end
