(* ===== verification/Index_Laws.thy ===== *)
theory Index_Laws
  imports Run_Claims Crash_Recovery
begin

section \<open>Laws of the run index\<close>

text \<open>
  What an entry that was written reads back as, which files each operation leaves alone,
  and the ownership of a run: while a repository has an active run, the write-once binding
  of that run names the repository, so no other repository can have the same run.
\<close>

subsection \<open>Entries read back\<close>

lemma index_record_json_object: "\<exists>kvs. index_record_json r = JObj kvs \<and> distinct (map fst kvs)"
  by (cases r) auto

lemma index_record_json_wf [simp]: "json_wf (index_record_json r)"
  by (cases r) auto

lemma index_entry_json_wf [simp]: "json_wf (index_entry_json e)"
  by (simp add: index_entry_json_def)

lemma record_members_canonical:
  assumes r: "index_record_json r = JObj kvs" and c: "canonical_value (JObj kvs) = JObj kvs'"
  shows "record_members kvs' = Some r"
proof -
  have d: "distinct (map fst kvs)"
    using index_record_json_object [of r] r by auto
  note m = map_of_canonical [OF d c]
  note simps = record_members_def text_fields_def text_field_def
  show ?thesis
  proof (cases r)
    case (Reserved rp rv ch issued expires host pid)
    then have k: "kvs = [(''kind'', JStr ''reservation''), (''repository_id'', JStr rp),
           (''reservation_id'', JStr rv), (''challenge_hash'', JStr ch),
           (''issued_at'', JStr issued), (''expires_at'', JStr expires),
           (''owner_host'', JStr host), (''owner_pid'', JInt pid)]"
      using r by simp
    have e: "exact_fields kvs' [''kind'', ''repository_id'', ''reservation_id'', ''challenge_hash'',
        ''issued_at'', ''expires_at'', ''owner_host'', ''owner_pid'']"
      unfolding exact_fields_canonical [OF c] by (simp add: exact_fields_def k)
    have v: "map_of kvs' ''kind'' = Some (JStr ''reservation'')" "map_of kvs' ''repository_id'' = Some (JStr rp)"
      "map_of kvs' ''reservation_id'' = Some (JStr rv)" "map_of kvs' ''challenge_hash'' = Some (JStr ch)"
      "map_of kvs' ''issued_at'' = Some (JStr issued)" "map_of kvs' ''expires_at'' = Some (JStr expires)"
      "map_of kvs' ''owner_host'' = Some (JStr host)" "map_of kvs' ''owner_pid'' = Some (JInt pid)"
      unfolding m by (simp_all add: k)
    show ?thesis
      by (simp add: Reserved simps e v)
  next
    case (Unselected rp rv ch inp initial)
    then have k: "kvs = [(''kind'', JStr ''no_candidate''), (''repository_id'', JStr rp),
           (''reservation_id'', JStr rv), (''challenge_hash'', JStr ch),
           (''preparation_input_hash'', JStr inp), (''initial_generation_hash'', JStr initial)]"
      using r by simp
    have e: "exact_fields kvs' [''kind'', ''repository_id'', ''reservation_id'', ''challenge_hash'',
        ''preparation_input_hash'', ''initial_generation_hash'']"
      unfolding exact_fields_canonical [OF c] by (simp add: exact_fields_def k)
    have v: "map_of kvs' ''kind'' = Some (JStr ''no_candidate'')" "map_of kvs' ''repository_id'' = Some (JStr rp)"
      "map_of kvs' ''reservation_id'' = Some (JStr rv)" "map_of kvs' ''challenge_hash'' = Some (JStr ch)"
      "map_of kvs' ''preparation_input_hash'' = Some (JStr inp)"
      "map_of kvs' ''initial_generation_hash'' = Some (JStr initial)"
      unfolding m by (simp_all add: k)
    show ?thesis
      by (simp add: Unselected simps e v)
  next
    case (Activated rp rv ch inp rid initial)
    then have k: "kvs = [(''kind'', JStr ''active''), (''repository_id'', JStr rp),
           (''reservation_id'', JStr rv), (''challenge_hash'', JStr ch),
           (''preparation_input_hash'', JStr inp), (''run_id'', JStr rid),
           (''initial_generation_hash'', JStr initial)]"
      using r by simp
    have e: "exact_fields kvs' [''kind'', ''repository_id'', ''reservation_id'', ''challenge_hash'',
        ''preparation_input_hash'', ''run_id'', ''initial_generation_hash'']"
      unfolding exact_fields_canonical [OF c] by (simp add: exact_fields_def k)
    have v: "map_of kvs' ''kind'' = Some (JStr ''active'')" "map_of kvs' ''repository_id'' = Some (JStr rp)"
      "map_of kvs' ''reservation_id'' = Some (JStr rv)" "map_of kvs' ''challenge_hash'' = Some (JStr ch)"
      "map_of kvs' ''preparation_input_hash'' = Some (JStr inp)" "map_of kvs' ''run_id'' = Some (JStr rid)"
      "map_of kvs' ''initial_generation_hash'' = Some (JStr initial)"
      unfolding m by (simp_all add: k)
    show ?thesis
      by (simp add: Activated simps e v)
  qed
qed

definition entry_fits :: "iso_parser \<Rightarrow> index_entry \<Rightarrow> string \<Rightarrow> bool" where
  "entry_fits iso_text e repository \<longleftrightarrow>
     1 \<le> ie_revision e \<and> ie_hash e = hash_json (index_record_json (ie_record e))
     \<and> record_texts_ok (ie_record e) repository \<and> timestamps_ok iso_text (ie_record e) = Inr ()"

lemma index_entry_reads_back:
  "index_entry_of iso_text repository (canonical_value (index_entry_json e)) = Inr e' \<longleftrightarrow>
     e' = e \<and> entry_fits iso_text e repository"
proof -
  obtain kvs where kvs: "index_entry_json e = JObj kvs"
    by (simp add: index_entry_json_def)
  obtain kvs' where c: "canonical_value (JObj kvs) = JObj kvs'"
    using canonical_object_shape by blast
  obtain r where r: "index_record_json (ie_record e) = JObj r"
    using index_record_json_object by blast
  obtain r' where r': "canonical_value (JObj r) = JObj r'"
    using canonical_object_shape by blast
  have k: "kvs = [(''revision'', JInt (ie_revision e)), (''index_hash'', JStr (ie_hash e)), (''record'', JObj r)]"
    using kvs by (simp add: index_entry_json_def r)
  have d: "distinct (map fst kvs)"
    by (simp add: k)
  have x: "exact_fields kvs' [''revision'', ''index_hash'', ''record'']"
    unfolding exact_fields_canonical [OF c] by (simp add: exact_fields_def k)
  have v: "map_of kvs' ''revision'' = Some (JInt (ie_revision e))"
    "map_of kvs' ''index_hash'' = Some (JStr (ie_hash e))" "map_of kvs' ''record'' = Some (JObj r')"
    unfolding map_of_canonical [OF d c] by (simp_all add: k r')
  have h: "hash_json (JObj r') = hash_json (index_record_json (ie_record e))"
    by (metis r r' hash_json_value)
  have good: "ie_hash e = hash_json (index_record_json (ie_record e)) \<Longrightarrow> is_sha256 (ie_hash e) \<and> lower (ie_hash e) = ie_hash e"
    using hash_is_sha256 by simp
  show ?thesis
    unfolding kvs c
    using good record_members_canonical [OF r r']
    by (cases e; cases "timestamps_ok iso_text (ie_record e)")
      (auto simp: index_entry_of_def entry_members_def index_record_of_def x v h entry_fits_def)
qed

lemma load_entry_Some:
  "load_entry env repository fs = Inr (Some e) \<longleftrightarrow>
     (\<exists>raw v. fs (index_path repository) = Some (Regular raw) \<and> read_canonical_json raw = Some v
       \<and> index_entry_of (ix_iso env) repository v = Inr e)"
  by (auto simp: load_entry_def path_lstat_def read_json_file_def corrupt_unless_overflow_def
      split: option.splits entry.splits sum.splits index_error.splits)

lemma load_entry_written:
  assumes "fs (index_path repository) = Some (Regular (canonical_json_bytes (index_entry_json e)))"
  shows "load_entry env repository fs = Inr (Some e') \<longleftrightarrow> e' = e \<and> entry_fits (ix_iso env) e repository"
  by (simp add: load_entry_Some assms read_canonical_write index_entry_reads_back)

lemma load_entry_cong:
  "fs (index_path repository) = fs' (index_path repository) \<Longrightarrow> ix_iso env = ix_iso env' \<Longrightarrow>
   load_entry env repository fs = load_entry env' repository fs'"
  using read_json_file_cong [of fs "index_path repository" fs']
  by (simp add: load_entry_def path_lstat_def cong: option.case_cong sum.case_cong)

lemma load_entry_absent: "fs (index_path repository) = None \<Longrightarrow> load_entry env repository fs = Inr None"
  by (simp add: load_entry_def path_lstat_def)

lemma index_record_of_texts: "index_record_of iso_text kvs repository = Inr r \<Longrightarrow> record_texts_ok r repository"
  by (cases "record_members kvs") (auto simp: index_record_of_def split: if_splits)

lemma index_entry_of_texts:
  "index_entry_of iso_text repository v = Inr e \<Longrightarrow> record_texts_ok (ie_record e) repository"
  by (auto simp: index_entry_of_def dest!: index_record_of_texts
      split: json.split_asm if_split_asm option.split_asm prod.split_asm)

lemma load_entry_texts:
  "load_entry env repository fs = Inr (Some e) \<Longrightarrow> record_texts_ok (ie_record e) repository"
  by (auto simp: load_entry_Some intro: index_entry_of_texts)

subsection \<open>Paths\<close>

definition index_file :: "string \<Rightarrow> bool" where
  "index_file path \<longleftrightarrow> (\<exists>repository. path = index_path repository)"

definition binding_file :: "string \<Rightarrow> bool" where
  "binding_file path \<longleftrightarrow> (\<exists>rid. path = run_binding_path rid)"

lemma index_path_file [simp]: "index_file (index_path repository)"
  by (auto simp: index_file_def)

lemma binding_path_file [simp]: "binding_file (run_binding_path rid)"
  by (auto simp: binding_file_def)

lemma other_paths [simp]:
  "\<not> index_file (journal_path x)" "\<not> binding_file (journal_path x)"
  "\<not> index_file (release_path r)" "\<not> binding_file (release_path r)"
  "\<not> index_file (''runs/'' @ x)" "\<not> binding_file (''runs/'' @ x)"
  "\<not> index_file ''runs''" "\<not> binding_file ''runs''"
  "\<not> index_file (run_binding_path rid)" "\<not> binding_file (index_path repository)"
  by (auto simp: index_file_def binding_file_def index_path_def journal_path_def release_path_def
      run_binding_path_def)

lemma run_paths [simp]:
  "\<not> index_file (run_directory rid)" "\<not> binding_file (run_directory rid)"
  "\<not> index_file (run_directory rid @ x)" "\<not> binding_file (run_directory rid @ x)"
  "\<not> index_file (context_path rid)" "\<not> binding_file (context_path rid)"
  by (auto simp: index_file_def binding_file_def index_path_def run_binding_path_def
      run_directory_def context_path_def)

lemma binding_path_not_index [simp]: "run_binding_path rid \<noteq> index_path repository"
  by (metis index_path_file other_paths(9))

subsection \<open>Ownership of runs\<close>

definition bound_to :: "file_tree \<Rightarrow> string \<Rightarrow> string \<Rightarrow> string \<Rightarrow> bool" where
  "bound_to fs rid repository initial \<longleftrightarrow>
     fs (run_binding_path rid) = Some (Regular (canonical_json_bytes (run_binding_json rid repository initial)))"

definition entry_owned :: "file_tree \<Rightarrow> index_entry \<Rightarrow> bool" where
  "entry_owned fs e \<longleftrightarrow>
     (case ie_record e of Activated repository _ _ _ rid initial \<Rightarrow> bound_to fs rid repository initial | _ \<Rightarrow> True)"

definition runs_owned :: "index_env \<Rightarrow> index_world \<Rightarrow> bool" where
  "runs_owned env w \<longleftrightarrow>
     (\<forall>repository e. load_entry env repository (iw_files w) = Inr (Some e) \<longrightarrow> entry_owned (iw_files w) e)"

definition index_kept :: "file_tree \<Rightarrow> file_tree \<Rightarrow> bool" where
  \<comment> \<open>the entries are the same, and no binding that exists changes\<close>
  "index_kept fs fs' \<longleftrightarrow>
     (\<forall>path. index_file path \<longrightarrow> fs' path = fs path)
     \<and> (\<forall>path. binding_file path \<and> fs path \<noteq> None \<longrightarrow> fs' path = fs path)"

lemma entry_owned_mono: "entry_owned fs e \<Longrightarrow> index_kept fs fs' \<Longrightarrow> entry_owned fs' e"
  by (auto simp: entry_owned_def bound_to_def index_kept_def split: index_record.splits)

lemma runs_owned_kept:
  assumes "runs_owned env w" and "index_kept (iw_files w) (iw_files w')"
  shows "runs_owned env w'"
proof -
  have "load_entry env repository (iw_files w') = load_entry env repository (iw_files w)" for repository
    using assms(2) by (intro load_entry_cong) (simp_all add: index_kept_def)
  with assms show ?thesis
    by (auto simp: runs_owned_def intro: entry_owned_mono)
qed

lemma index_kept_update:
  "\<not> index_file path \<Longrightarrow> \<not> binding_file path \<or> fs path = None \<Longrightarrow> index_kept fs (fs(path := x))"
  by (auto simp: index_kept_def)

lemma index_kept_refl [simp]: "index_kept fs fs"
  by (simp add: index_kept_def)

lemma keeps_owned_durable:
  assumes "\<And>fs x fs'. f fs = Inr (x, fs') \<Longrightarrow> index_kept fs fs'"
  shows "keeps_op (runs_owned env) (durable f)"
  unfolding keeps_op_def
proof (intro allI impI)
  fix w assume "runs_owned env w"
  then show "runs_owned env (snd (durable f w))"
    using assms by (cases rule: durable_cases [of f w]) (auto intro: runs_owned_kept)
qed

lemma keeps_owned_publish [op_rules]: "\<not> index_file path \<Longrightarrow> keeps_op (runs_owned env) (publish_json path v)"
  unfolding publish_json_def
  by (rule keeps_owned_durable) (auto simp: write_new_json_Inr index_kept_update split: if_splits)

lemma keeps_owned_replace:
  "\<not> index_file path \<Longrightarrow> \<not> binding_file path \<Longrightarrow> keeps_op (runs_owned env) (replace_json path v)"
  unfolding replace_json_def
  by (rule keeps_owned_durable) (auto simp: atomic_replace_json_Inr index_kept_update)

lemma ensure_directory_Inr:
  "ensure_directory fs path = Inr (x, fs') \<longleftrightarrow>
     fs path = None \<and> fs' = fs(path \<mapsto> Directory) \<or> fs path = Some Directory \<and> fs' = fs"
  by (auto simp: ensure_directory_def split: option.splits entry.splits)

lemma keeps_owned_directory [op_rules]:
  "\<not> index_file path \<Longrightarrow> keeps_op (runs_owned env) (durable (\<lambda>fs. ensure_directory fs path))"
  by (rule keeps_owned_durable) (auto simp: ensure_directory_Inr index_kept_update)

lemma unlink_regular_file_Inr:
  "unlink_regular_file fs path = Inr (x, fs') \<longleftrightarrow>
     (if x then (\<exists>raw. fs path = Some (Regular raw)) \<and> fs' = fs(path := None) else fs path = None \<and> fs' = fs)"
  by (auto simp: unlink_regular_file_def bind_result_Inr path_lstat_Inr split: option.splits entry.splits)

lemma keeps_owned_store_writing:
  assumes "\<And>st x st'. f st = Inr (x, st') \<Longrightarrow> index_kept (rs_files st) (rs_files st')"
  shows "keeps_op (runs_owned env) (store_writing f senv rid)"
  unfolding keeps_op_def
proof (intro allI impI)
  fix w assume w: "runs_owned env w"
  show "runs_owned env (snd (store_writing f senv rid w))"
  proof (cases rule: store_writing_cases [of f senv rid w])
    case (Written x st)
    then have "index_kept (iw_files w) (rs_files st)"
      using assms by (force simp: store_of_def)
    with w Written show ?thesis by (auto intro: runs_owned_kept)
  qed (use w in simp)
qed

lemma cas_prepare_kept: "cas_prepare st r h s = Inr (g, st') \<Longrightarrow> index_kept (rs_files st) (rs_files st')"
proof -
  assume p: "cas_prepare st r h s = Inr (g, st')"
  have "\<not> index_file (generation_path st (sg_revision g) (sg_state_hash g))"
    "\<not> binding_file (generation_path st (sg_revision g) (sg_state_hash g))"
    using generation_path_runs [of st] by (metis other_paths(5), metis other_paths(6))
  then show ?thesis
    using prepare_frame(2) [OF p] unfolding index_kept_def by metis
qed

lemma move_pointer_kept: "move_pointer st g = Inr st' \<Longrightarrow> index_kept (rs_files st) (rs_files st')"
proof -
  assume p: "move_pointer st g = Inr st'"
  have "\<not> index_file (current_path (rs_run_id st))" "\<not> binding_file (current_path (rs_run_id st))"
    using current_path_runs [of "rs_run_id st"] by (metis other_paths(5), metis other_paths(6))
  then show ?thesis
    using p by (auto simp: move_pointer_Inr intro: index_kept_update)
qed

lemma keeps_owned_swap [op_rules]: "keeps_op (runs_owned env) (swap_initial senv rid s)"
  unfolding swap_initial_def
  by (intro op_rules keeps_owned_store_writing)
    (auto intro: cas_prepare_kept move_pointer_kept)

lemma keeps_owned_open [op_rules]: "keeps_op (runs_owned env) (open_store rid)"
  unfolding open_store_def by (intro op_rules) simp_all

lemma keeps_owned_save_journal [op_rules]: "keeps_op (runs_owned env) (save_journal x j)"
  unfolding save_journal_def by (rule keeps_owned_replace) simp_all

lemma keeps_owned_complete_journal [op_rules]: "keeps_op (runs_owned env) (complete_journal x j e)"
  unfolding complete_journal_def Let_def by (intro op_rules)

lemma keeps_owned_read [op_rules]:
  "keeps_op P (read_entry env r)" "keeps_op P (read_journal env x)"
  unfolding read_entry_def read_journal_def by (intro op_rules)+

lemma runs_owned_entry:
  \<comment> \<open>one entry changes: it is gone, or what it says is owned\<close>
  assumes w: "runs_owned env w"
    and other: "\<And>path. path \<noteq> index_path repository \<Longrightarrow> iw_files w' path = iw_files w path"
    and here: "iw_files w' (index_path repository) = None
      \<or> (\<exists>e. iw_files w' (index_path repository) = Some (Regular (canonical_json_bytes (index_entry_json e)))
            \<and> entry_owned (iw_files w) e)"
  shows "runs_owned env w'"
  unfolding runs_owned_def
proof (intro allI impI)
  fix r e assume e: "load_entry env r (iw_files w') = Inr (Some e)"
  have kept: "entry_owned (iw_files w) d \<Longrightarrow> entry_owned (iw_files w') d" for d
    using other [OF binding_path_not_index] by (auto simp: entry_owned_def bound_to_def split: index_record.splits)
  show "entry_owned (iw_files w') e"
  proof (cases "index_path r = index_path repository")
    case True
    from here show ?thesis
    proof (elim disjE exE conjE)
      assume "iw_files w' (index_path repository) = None"
      with e True show ?thesis by (simp add: load_entry_absent)
    next
      fix d
      assume d: "iw_files w' (index_path repository) = Some (Regular (canonical_json_bytes (index_entry_json d)))"
        "entry_owned (iw_files w) d"
      with e True have "e = d" by (simp add: load_entry_written)
      with d kept show ?thesis by simp
    qed
  next
    case False
    then have "load_entry env r (iw_files w') = load_entry env r (iw_files w)"
      by (intro load_entry_cong other) simp_all
    with e w kept show ?thesis by (simp add: runs_owned_def)
  qed
qed

lemma keeps_owned_remove [op_rules]: "keeps_op (runs_owned env) (remove_entry repository)"
proof -
  have "keeps_op (runs_owned env) (durable (\<lambda>fs. unlink_regular_file fs (index_path repository)))"
    unfolding keeps_op_def
  proof (intro allI impI)
    fix w assume w: "runs_owned env w"
    let ?m = "durable (\<lambda>fs. unlink_regular_file fs (index_path repository))"
    show "runs_owned env (snd (?m w))"
    proof (cases rule: durable_cases [of "\<lambda>fs. unlink_regular_file fs (index_path repository)" w])
      case (Written x fs)
      with w show ?thesis
        by (auto simp: unlink_regular_file_Inr split: if_splits intro: runs_owned_entry [OF w, of repository])
    qed (use w in simp)
  qed
  then show ?thesis unfolding remove_entry_def by (intro op_rules)
qed

lemma save_entry_owned:
  assumes "runs_owned env w" and "entry_owned (iw_files w) e"
  shows "runs_owned env (snd (save_entry repository e w))"
  unfolding save_entry_def replace_json_def
proof (cases rule: durable_cases [of "\<lambda>fs. map_sum id (Pair ()) (atomic_replace_json fs (index_path repository) (index_entry_json e))" w])
  case (Written x fs)
  with assms show "runs_owned env (snd (durable (\<lambda>fs. map_sum id (Pair ())
      (atomic_replace_json fs (index_path repository) (index_entry_json e))) w))"
    by (auto simp: atomic_replace_json_Inr intro: runs_owned_entry [OF assms(1), of repository])
qed (use assms in simp)

lemma keeps_owned_save_entry [op_rules]:
  "(\<And>fs. entry_owned fs e) \<Longrightarrow> keeps_op (runs_owned env) (save_entry repository e)"
  by (simp add: keeps_op_def save_entry_owned)

lemma entry_owned_simps [simp]:
  "entry_owned fs (new_entry n (Reserved a b c d e f g))"
  "entry_owned fs (new_entry n (Unselected a b c d e'))"
  "entry_owned fs (new_entry n (Activated a b c d rid h)) = bound_to fs rid a h"
  by (simp_all add: entry_owned_def new_entry_def)

lemma keeps_op_record [op_rules]:
  "(\<And>a b c d e f g. r = Reserved a b c d e f g \<Longrightarrow> keeps_op P (m1 a b c d e f g)) \<Longrightarrow>
   (\<And>a b c d e. r = Unselected a b c d e \<Longrightarrow> keeps_op P (m2 a b c d e)) \<Longrightarrow>
   (\<And>a b c d e f. r = Activated a b c d e f \<Longrightarrow> keeps_op P (m3 a b c d e f)) \<Longrightarrow>
   keeps_op P (case r of Reserved a b c d e f g \<Rightarrow> m1 a b c d e f g | Unselected a b c d e \<Rightarrow> m2 a b c d e
     | Activated a b c d e f \<Rightarrow> m3 a b c d e f)"
  by (cases r) auto

lemma keeps_owned_create [op_rules]: "keeps_op (runs_owned env) (create_reservation env' repository owner t fresh)"
  unfolding create_reservation_def Let_def by (intro op_rules) simp_all

lemma keeps_owned_clear [op_rules]: "keeps_op P (can_clear_stale_reservation env now rv)"
  unfolding can_clear_stale_reservation_def by (intro op_rules)

lemma keeps_owned_no_candidate [op_rules]: "keeps_op (runs_owned env) (complete_no_candidate_journal env' e)"
  unfolding complete_no_candidate_journal_def Let_def by (intro op_rules)

lemma probe_owned [op_rules]: "keeps_op (runs_owned env) (probe_or_reserve env' repository owner clocks fresh)"
  unfolding probe_or_reserve_def Let_def by (intro op_rules)

lemma keeps_op_probe [op_rules]:
  "(\<And>a. r = Probe_Active a \<Longrightarrow> keeps_op P (f a)) \<Longrightarrow> (\<And>a. r = Probe_Blocked a \<Longrightarrow> keeps_op P (g a)) \<Longrightarrow>
   (\<And>a. r = Probe_Reserved a \<Longrightarrow> keeps_op P (h a)) \<Longrightarrow>
   keeps_op P (case r of Probe_Active a \<Rightarrow> f a | Probe_Blocked a \<Rightarrow> g a | Probe_Reserved a \<Rightarrow> h a)"
  by (cases r) auto

lemma reserve_owned [op_rules]: "keeps_op (runs_owned env) (reserve env' repository clocks fresh)"
  unfolding reserve_def by (intro op_rules)

lemma keeps_op_initial [op_rules]: "keeps_op P (require_initial_state env s)"
  unfolding require_initial_state_def by (intro op_rules)

lemma keeps_op_validate_initial [op_rules]: "keeps_op P (validate_preparation_initial_state env r s)"
  unfolding validate_preparation_initial_state_def by (intro op_rules)

lemma keeps_owned_unused [op_rules]: "keeps_op (runs_owned env) (assert_run_id_unused env' rid repository)"
  unfolding assert_run_id_unused_def by (intro op_rules)

lemma keeps_owned_persist_state [op_rules]: "keeps_op (runs_owned env) (persist_initial_state env' r j)"
  unfolding persist_initial_state_def by (intro op_rules)

lemma keeps_owned_persist_context [op_rules]: "keeps_op (runs_owned env) (persist_preparation_context env' r j)"
  unfolding persist_preparation_context_def Let_def by (intro op_rules) simp_all

lemma keeps_op_verify_context [op_rules]: "keeps_op P (verify_persisted_context env j)"
  unfolding verify_persisted_context_def
  by (auto intro!: op_rules split: json.split option.split)

lemma keeps_op_verify_input [op_rules]: "keeps_op P (verify_preparation_input env p)"
  unfolding verify_preparation_input_def by (intro op_rules)

lemma keeps_op_outcome [op_rules]:
  "(r = Outcome_Active \<Longrightarrow> keeps_op P m) \<Longrightarrow> (r = Outcome_No_Candidate \<Longrightarrow> keeps_op P n) \<Longrightarrow>
   keeps_op P (case r of Outcome_Active \<Rightarrow> m | Outcome_No_Candidate \<Rightarrow> n)"
  by (cases r) auto

lemma keeps_op_phase [op_rules]:
  "keeps_op P m1 \<Longrightarrow> keeps_op P m2 \<Longrightarrow> keeps_op P m3 \<Longrightarrow> keeps_op P m4 \<Longrightarrow> keeps_op P m5 \<Longrightarrow>
   keeps_op P (case r of Claimed \<Rightarrow> m1 | Preflight_Failed \<Rightarrow> m2 | Preflight_Complete \<Rightarrow> m3
     | Prepared \<Rightarrow> m4 | Completed \<Rightarrow> m5)"
  by (cases r) auto

lemma keeps_owned_settle_none [op_rules]: "keeps_op (runs_owned env) (settle_no_candidate j entry)"
  unfolding settle_no_candidate_def Let_def by (intro op_rules) simp_all

lemma canonical_bytes_same: "same_value v w \<Longrightarrow> canonical_json_bytes v = canonical_json_bytes w"
  by (metis same_value_def canonical_text_value)

lemma write_run_binding_binds:
  assumes "write_run_binding rid repository initial w = (Inr x, w')"
  shows "bound_to (iw_files w') rid repository initial"
proof -
  obtain created w1 where p: "publish_json (run_binding_path rid) (run_binding_json rid repository initial) w
      = (Inr created, w1)"
    and rest: "(if created then return_op () else reading (\<lambda>w.
          case read_json_file (iw_files w) (run_binding_path rid) of
            Inl _ \<Rightarrow> Inl Index_Corrupt
          | Inr existing \<Rightarrow> if same_value existing (run_binding_json rid repository initial)
              then Inr () else Inl Index_Corrupt)) w1 = (Inr x, w')"
    using assms by (auto simp: write_run_binding_def Let_def bind_op_Inr)
  show ?thesis
  proof (cases created)
    case True
    with p rest show ?thesis
      by (auto simp: publish_json_def durable_Inr write_new_json_Inr bound_to_def)
  next
    case False
    with rest have "w' = w1" and
      "(case read_json_file (iw_files w1) (run_binding_path rid) of Inl _ \<Rightarrow> Inl Index_Corrupt
        | Inr existing \<Rightarrow> if same_value existing (run_binding_json rid repository initial)
            then Inr () else Inl Index_Corrupt) = Inr x"
      by auto
    then obtain v where v: "read_json_file (iw_files w') (run_binding_path rid) = Inr v"
      "same_value v (run_binding_json rid repository initial)"
      by (auto split: sum.splits if_splits)
    then obtain raw where "iw_files w' (run_binding_path rid) = Some (Regular raw)" "read_canonical_json raw = Some v"
      by (auto simp: read_json_file_Inr)
    then show ?thesis
      using v(2) canonical_bytes_same read_canonical_Some by (metis bound_to_def)
  qed
qed

lemma keeps_owned_binding [op_rules]: "keeps_op (runs_owned env) (write_run_binding rid repository initial)"
  unfolding write_run_binding_def Let_def by (intro op_rules) simp_all

lemma keeps_owned_settle_active [op_rules]: "keeps_op (runs_owned env) (settle_active env' r j rid entry)"
proof -
  have tail: "runs_owned env (snd (bind_op (save_entry repository e)
      (\<lambda>_. complete_journal reservation j e) w))"
    if "runs_owned env w" "entry_owned (iw_files w) e" for repository e reservation w
  proof -
    have "runs_owned env (snd (save_entry repository e w))"
      using that by (rule save_entry_owned)
    then show ?thesis
      using keeps_owned_complete_journal [of env reservation j e]
      by (auto simp: bind_op_def keeps_op_def split: prod.splits sum.splits)
  qed
  have "keeps_op (runs_owned env)
     (bind_op (write_run_binding rid (jn_repository_id j) (sg_state_hash g)) (\<lambda>_.
        case entry of
          None \<Rightarrow> raise_op Index_Corrupt
        | Some e \<Rightarrow>
            (case ie_record e of
               Reserved _ held _ _ _ _ _ \<Rightarrow>
                 if held \<noteq> jn_reservation_id j then raise_op Index_Corrupt
                 else
                   (let e' = new_entry (ie_revision e + 1)
                          (Activated (jn_repository_id j) (jn_reservation_id j) (jn_challenge_hash j)
                            (jn_input_hash j) rid (sg_state_hash g))
                    in bind_op (save_entry (jn_repository_id j) e')
                         (\<lambda>_. complete_journal (jn_reservation_id j) j e'))
             | Activated _ held _ _ active initial \<Rightarrow>
                 if active \<noteq> rid \<or> held \<noteq> jn_reservation_id j \<or> initial \<noteq> sg_state_hash g
                 then raise_op Index_Corrupt else complete_journal (jn_reservation_id j) j e
             | Unselected _ _ _ _ _ \<Rightarrow> raise_op Index_Corrupt)))" (is "keeps_op _ (bind_op ?m ?f)") for g
    unfolding keeps_op_def
  proof (intro allI impI)
    fix w assume w: "runs_owned env w"
    obtain x w' where m: "?m w = (x, w')" by fastforce
    have w': "runs_owned env w'"
      using keeps_owned_binding [of env rid "jn_repository_id j" "sg_state_hash g"] w m
      by (auto simp: keeps_op_def)
    show "runs_owned env (snd (bind_op ?m ?f w))"
    proof (cases x)
      case (Inl e)
      with m w' show ?thesis by (simp add: bind_op_def)
    next
      case (Inr u)
      then have b: "bound_to (iw_files w') rid (jn_repository_id j) (sg_state_hash g)"
        using m write_run_binding_binds by blast
      have "runs_owned env (snd (?f u w'))"
        using w' keeps_owned_complete_journal [of env "jn_reservation_id j" j]
        by (auto simp: raise_op_def keeps_op_def b Let_def intro: tail split: option.split index_record.split)
      with m Inr show ?thesis by (simp add: bind_op_def)
    qed
  qed
  note publish = this
  show ?thesis
    unfolding settle_active_def Let_def
    by (rule keeps_op_bind, rule keeps_owned_persist_context, rule keeps_op_bind,
        rule keeps_owned_persist_state, rule publish [unfolded Let_def])
qed

lemma keeps_owned_complete [op_rules]: "keeps_op (runs_owned env) (complete_prepared_activation env' r j)"
  unfolding complete_prepared_activation_def by (intro op_rules)

lemma keeps_op_replay [op_rules]: "keeps_op P (replay_completed env j)" "keeps_op P (replay_completed_claim env j)"
  unfolding replay_completed_def replay_completed_claim_def by (intro op_rules)+

lemma activate_owned: "keeps_op (runs_owned env) (activate_reservation env' r)"
  unfolding activate_reservation_def activate_locked_def Let_def
  by (auto intro!: op_rules split: option.split)

lemma activation_result_owned: "keeps_op (runs_owned env) (activation_result env' reference challenge)"
  unfolding activation_result_def by (intro op_rules)

lemma keeps_op_expired [op_rules]: "keeps_op P (claimed_preflight_has_expired env now j)"
  unfolding claimed_preflight_has_expired_def by (intro op_rules)

lemma claim_owned: "keeps_op (runs_owned env) (claim_selected_activation env' now c)"
  unfolding claim_selected_activation_def replay_claim_def Let_def by (intro op_rules)

lemma keeps_op_load_claim [op_rules]: "keeps_op P (load_claim_journal env reference challenge)"
  unfolding load_claim_journal_def by (intro op_rules)

lemma record_compatibility_owned: "keeps_op (runs_owned env) (record_claim_compatibility env' reference challenge b)"
  unfolding record_claim_compatibility_def Let_def by (intro op_rules)

lemma keeps_owned_publish_claim [op_rules]: "keeps_op (runs_owned env) (publish_claim env' reservation request j)"
  unfolding publish_claim_def by (intro op_rules)

lemma complete_claim_owned: "keeps_op (runs_owned env) (complete_selected_activation env' reference challenge)"
  unfolding complete_selected_activation_def by (intro op_rules)

lemma complete_review_owned:
  "keeps_op (runs_owned env) (complete_selected_activation_human_review env' reference challenge)"
  unfolding complete_selected_activation_human_review_def Let_def by (intro op_rules)

lemma release_owned: "keeps_op (runs_owned env) (release env' repository rid revision h terminal)"
  unfolding release_def release_locked_def Let_def by (intro op_rules) simp_all

lemma verified_release_owned: "keeps_op (runs_owned env) (load_verified_release env' receipt)"
  unfolding load_verified_release_def by (intro op_rules)

subsection \<open>Worlds that can be reached\<close>

inductive index_step :: "iso_parser \<Rightarrow> index_world \<Rightarrow> index_world \<Rightarrow> bool" for iso_text where
  Probe: "ix_iso env = iso_text \<Longrightarrow>
     index_step iso_text w (snd (probe_or_reserve env repository owner clocks fresh w))"
| Activate: "ix_iso env = iso_text \<Longrightarrow> index_step iso_text w (snd (activate_reservation env r w))"
| Resume_Activation: "ix_iso env = iso_text \<Longrightarrow>
     index_step iso_text w (snd (activation_result env reference challenge w))"
| Claim: "ix_iso env = iso_text \<Longrightarrow> index_step iso_text w (snd (claim_selected_activation env now c w))"
| Record_Compatibility: "ix_iso env = iso_text \<Longrightarrow>
     index_step iso_text w (snd (record_claim_compatibility env reference challenge b w))"
| Complete_Claim: "ix_iso env = iso_text \<Longrightarrow>
     index_step iso_text w (snd (complete_selected_activation env reference challenge w))"
| Complete_Review: "ix_iso env = iso_text \<Longrightarrow>
     index_step iso_text w (snd (complete_selected_activation_human_review env reference challenge w))"
| Release: "ix_iso env = iso_text \<Longrightarrow>
     index_step iso_text w (snd (release env repository rid revision h terminal w))"
| Verify: "ix_iso env = iso_text \<Longrightarrow> index_step iso_text w (snd (load_verified_release env receipt w))"
| Elsewhere: "index_kept (iw_files w) (iw_files w') \<Longrightarrow> index_step iso_text w w'"
    \<comment> \<open>the stores of the runs, the other components, and a new process with its own limit of writes\<close>

inductive index_reachable :: "iso_parser \<Rightarrow> index_world \<Rightarrow> index_world \<Rightarrow> bool" for iso_text w0 where
  Start: "index_reachable iso_text w0 w0"
| Step: "index_reachable iso_text w0 w \<Longrightarrow> index_step iso_text w w' \<Longrightarrow> index_reachable iso_text w0 w'"

lemma step_owned: "index_step iso_text w w' \<Longrightarrow> runs_owned env w \<Longrightarrow> runs_owned env w'"
  by (induction rule: index_step.induct)
    (auto intro: keeps_opD probe_owned activate_owned activation_result_owned claim_owned
      record_compatibility_owned complete_claim_owned complete_review_owned release_owned
      verified_release_owned runs_owned_kept)

lemma reachable_owned: "index_reachable iso_text w0 w \<Longrightarrow> runs_owned env w0 \<Longrightarrow> runs_owned env w"
  by (induction rule: index_reachable.induct) (auto intro: step_owned)

definition no_entries :: "index_world \<Rightarrow> bool" where
  "no_entries w \<longleftrightarrow> (\<forall>repository. iw_files w (index_path repository) = None)"

lemma no_entries_owned: "no_entries w \<Longrightarrow> runs_owned env w"
  by (simp add: no_entries_def runs_owned_def load_entry_absent)

lemma canonical_bytes_injective:
  "json_wf v \<Longrightarrow> json_wf w \<Longrightarrow> canonical_json_bytes v = canonical_json_bytes w \<Longrightarrow> same_value v w"
  by (metis option.inject read_canonical_write same_value_def)

lemma run_binding_json_wf [simp]: "json_wf (run_binding_json rid repository initial)"
  by (simp add: run_binding_json_def)

lemma same_binding:
  assumes "canonical_json_bytes (run_binding_json rid r h) = canonical_json_bytes (run_binding_json rid' r' h')"
  shows "rid' = rid \<and> r' = r \<and> h' = h"
proof -
  obtain kvs kvs' where k: "run_binding_json rid r h = JObj kvs" "run_binding_json rid' r' h' = JObj kvs'"
    by (simp add: run_binding_json_def)
  have "same_value (run_binding_json rid r h) (run_binding_json rid' r' h')"
    by (rule canonical_bytes_injective [OF _ _ assms]) simp_all
  then obtain x where c: "canonical_value (JObj kvs) = JObj x" "canonical_value (JObj kvs') = JObj x"
    using canonical_object_shape [of kvs] k by (auto simp: same_value_def)
  have "distinct (map fst kvs)" "distinct (map fst kvs')"
    using k by (auto simp: run_binding_json_def)
  then have "map_option canonical_value (map_of kvs key) = map_option canonical_value (map_of kvs' key)" for key
    by (metis c map_of_canonical)
  from this [of "''run_id''"] this [of "''repository_id''"] this [of "''initial_generation_hash''"]
  show ?thesis
    using k by (auto simp: run_binding_json_def)
qed

lemma lookup_entry:
  assumes "fst (lookup env repository w) = Inr (Some a)"
  obtains e reservation challenge inp rid initial where
    "load_entry env repository (iw_files w) = Inr (Some e)"
    "ie_record e = Activated repository reservation challenge inp rid initial" "a = active_result e"
proof -
  obtain e where e: "load_entry env repository (iw_files w) = Inr (Some e)" "a = active_result e"
    "\<exists>x1 x2 x3 x4 x5 x6. ie_record e = Activated x1 x2 x3 x4 x5 x6"
    using assms
    by (auto simp: lookup_def bind_op_def read_entry_def reading_def require_op_def return_op_def raise_op_def
        split: if_splits sum.splits option.splits index_record.splits)
  from e(3) load_entry_texts [OF e(1)] e(1,2) show thesis
    by (auto simp: record_texts_ok_def intro: that)
qed

theorem owned_by_one:
  assumes "runs_owned env w"
    and "fst (lookup env repository w) = Inr (Some a)" "fst (lookup env repository' w) = Inr (Some a')"
    and "ax_run_id a = ax_run_id a'"
  shows "repository = repository'"
proof -
  obtain e r1 c1 i1 rid h where e: "load_entry env repository (iw_files w) = Inr (Some e)"
    "ie_record e = Activated repository r1 c1 i1 rid h" "a = active_result e"
    using lookup_entry [OF assms(2)] by metis
  obtain e' r2 c2 i2 rid' h' where e': "load_entry env repository' (iw_files w) = Inr (Some e')"
    "ie_record e' = Activated repository' r2 c2 i2 rid' h'" "a' = active_result e'"
    using lookup_entry [OF assms(3)] by metis
  have "rid = rid'"
    using assms(4) e e' by (simp add: active_result_def)
  moreover have "entry_owned (iw_files w) e" "entry_owned (iw_files w) e'"
    using assms(1) e(1) e'(1) by (auto simp: runs_owned_def)
  then have "bound_to (iw_files w) rid repository h" "bound_to (iw_files w) rid' repository' h'"
    using e(2) e'(2) by (simp_all add: entry_owned_def)
  ultimately have "canonical_json_bytes (run_binding_json rid repository h)
      = canonical_json_bytes (run_binding_json rid repository' h')"
    by (simp add: bound_to_def)
  then show ?thesis
    using same_binding by blast
qed

end
