(* ===== verification/Index_Recovery.thy ===== *)
theory Index_Recovery
  imports Index_Laws
begin

section \<open>Activation survives crashes\<close>

text \<open>
  An activation writes up to nine files.  Wherever the process dies, repeating the request
  completes it with the result it would have had.  The proof is a logic of triples with a
  condition for crashes: \<open>crash_triple P m Q C\<close> says that from a disk where \<open>P\<close> holds the
  operation either returns with \<open>Q\<close>, or the process dies on a disk where \<open>C\<close> holds; it
  raises nothing else, and a process without a limit of writes does return.
\<close>

subsection \<open>Triples with a crash condition\<close>

type_synonym index_disk = "file_tree \<times> (string \<Rightarrow> string list)"

definition disk_of :: "index_world \<Rightarrow> index_disk" where
  "disk_of w = (iw_files w, iw_names w)"

definition crash_triple ::
  "(index_disk \<Rightarrow> bool) \<Rightarrow> 'a index_op \<Rightarrow> ('a \<Rightarrow> index_disk \<Rightarrow> bool) \<Rightarrow> (index_disk \<Rightarrow> bool) \<Rightarrow> bool" where
  "crash_triple P m Q C \<longleftrightarrow>
     (\<forall>w. P (disk_of w) \<longrightarrow>
       (case m w of
          (Inr x, w') \<Rightarrow> Q x (disk_of w') \<and> (iw_writes w = None \<longrightarrow> iw_writes w' = None)
        | (Inl e, w') \<Rightarrow> e = Process_Stopped \<and> iw_writes w \<noteq> None \<and> C (disk_of w')))"

lemma crash_tripleI:
  assumes "\<And>w x w'. P (disk_of w) \<Longrightarrow> m w = (Inr x, w') \<Longrightarrow>
      Q x (disk_of w') \<and> (iw_writes w = None \<longrightarrow> iw_writes w' = None)"
    and "\<And>w e w'. P (disk_of w) \<Longrightarrow> m w = (Inl e, w') \<Longrightarrow>
      e = Process_Stopped \<and> iw_writes w \<noteq> None \<and> C (disk_of w')"
  shows "crash_triple P m Q C"
  unfolding crash_triple_def
proof (intro allI impI)
  fix w assume "P (disk_of w)"
  moreover obtain r w' where m: "m w = (r, w')" by fastforce
  ultimately show "case m w of
      (Inr x, w') \<Rightarrow> Q x (disk_of w') \<and> (iw_writes w = None \<longrightarrow> iw_writes w' = None)
    | (Inl e, w') \<Rightarrow> e = Process_Stopped \<and> iw_writes w \<noteq> None \<and> C (disk_of w')"
    using assms(1) [of w _ w'] assms(2) [of w _ w'] by (cases r) simp_all
qed

lemma crash_tripleD:
  assumes "crash_triple P m Q C" and "P (disk_of w)"
  shows "m w = (Inr x, w') \<Longrightarrow> Q x (disk_of w') \<and> (iw_writes w = None \<longrightarrow> iw_writes w' = None)"
    and "m w = (Inl e, w') \<Longrightarrow> e = Process_Stopped \<and> iw_writes w \<noteq> None \<and> C (disk_of w')"
  using assms by (simp_all add: crash_triple_def) (drule spec [of _ w], simp)+

lemma bind_op_cases:
  assumes "bind_op m f w = (r, w'')"
  obtains (First) e where "m w = (Inl e, w'')" "r = Inl e"
    | (Second) x w' where "m w = (Inr x, w')" "f x w' = (r, w'')"
  using assms by (auto simp: bind_op_def split: prod.splits sum.splits)

lemma crash_return: "(\<And>d. P d \<Longrightarrow> Q x d) \<Longrightarrow> crash_triple P (return_op x) Q C"
  by (simp add: crash_triple_def return_op_def)

lemma crash_bind:
  assumes m: "crash_triple P m R C" and f: "\<And>x. crash_triple (R x) (f x) Q C"
  shows "crash_triple P (bind_op m f) Q C"
proof (rule crash_tripleI)
  fix w y w'' assume w: "P (disk_of w)" and b: "bind_op m f w = (Inr y, w'')"
  from b obtain x w' where x: "m w = (Inr x, w')" "f x w' = (Inr y, w'')"
    by (auto simp: bind_op_Inr)
  show "Q y (disk_of w'') \<and> (iw_writes w = None \<longrightarrow> iw_writes w'' = None)"
    using crash_tripleD(1) [OF m w x(1)] crash_tripleD(1) [OF f _ x(2)] by blast
next
  fix w e w'' assume w: "P (disk_of w)" and "bind_op m f w = (Inl e, w'')"
  from this(2) show "e = Process_Stopped \<and> iw_writes w \<noteq> None \<and> C (disk_of w'')"
  proof (cases rule: bind_op_cases)
    case (First e')
    then show ?thesis using crash_tripleD(2) [OF m w First(1)] by simp
  next
    case (Second x w')
    have "R x (disk_of w')" "iw_writes w = None \<longrightarrow> iw_writes w' = None"
      using crash_tripleD(1) [OF m w Second(1)] by blast+
    with Second(2) show ?thesis using crash_tripleD(2) [OF f, of x w' e w''] by blast
  qed
qed

lemma crash_weaken:
  assumes "crash_triple P m Q C" and "\<And>d. P' d \<Longrightarrow> P d" and "\<And>x d. Q x d \<Longrightarrow> Q' x d" and "\<And>d. C d \<Longrightarrow> C' d"
  shows "crash_triple P' m Q' C'"
proof (rule crash_tripleI)
  fix w x w' assume "P' (disk_of w)" and m: "m w = (Inr x, w')"
  then show "Q' x (disk_of w') \<and> (iw_writes w = None \<longrightarrow> iw_writes w' = None)"
    using crash_tripleD(1) [OF assms(1) _ m] assms(2,3) by blast
next
  fix w e w' assume "P' (disk_of w)" and m: "m w = (Inl e, w')"
  then show "e = Process_Stopped \<and> iw_writes w \<noteq> None \<and> C' (disk_of w')"
    using crash_tripleD(2) [OF assms(1) _ m] assms(2,4) by blast
qed

lemma crash_require: "(\<And>d. P d \<Longrightarrow> ok) \<Longrightarrow> crash_triple P (require_op ok e) (\<lambda>_. P) C"
  by (auto simp: crash_triple_def require_op_def return_op_def)

lemma crash_reading:
  assumes "\<And>w. P (disk_of w) \<Longrightarrow> \<exists>x. f w = Inr x \<and> Q x (disk_of w)"
  shows "crash_triple P (reading f) Q C"
  using assms by (fastforce simp: crash_triple_def reading_def)

lemma crash_store_reading:
  assumes "\<And>w. P (disk_of w) \<Longrightarrow> \<exists>x. f w = Inr x \<and> Q x (disk_of w)"
  shows "crash_triple P (store_reading f) Q C"
  unfolding store_reading_def using assms by (intro crash_reading) fastforce

lemma crash_durable:
  assumes "\<And>fs ns. P (fs, ns) \<Longrightarrow> C (fs, ns) \<and> (\<exists>x fs'. f fs = Inr (x, fs') \<and> Q x (fs', ns))"
  shows "crash_triple P (durable f) Q C"
  unfolding crash_triple_def
proof (intro allI impI)
  fix w assume "P (disk_of w)"
  then obtain x fs' where "C (disk_of w)" "f (iw_files w) = Inr (x, fs')" "Q x (fs', iw_names w)"
    using assms unfolding disk_of_def by blast
  then show "case durable f w of
      (Inr x, w') \<Rightarrow> Q x (disk_of w') \<and> (iw_writes w = None \<longrightarrow> iw_writes w' = None)
    | (Inl e, w') \<Rightarrow> e = Process_Stopped \<and> iw_writes w \<noteq> None \<and> C (disk_of w')"
    by (auto simp: durable_def disk_of_def spend_def)
qed

lemma crash_store_writing:
  assumes "\<And>w. P (disk_of w) \<Longrightarrow> C (disk_of w) \<and>
    (\<exists>x st. f (store_of env w rid) = Inr (x, st) \<and> Q x (rs_files st, (iw_names w)(rid := rs_names st)))"
  shows "crash_triple P (store_writing f env rid) Q C"
  unfolding crash_triple_def
proof (intro allI impI)
  fix w assume "P (disk_of w)"
  then obtain x st where "C (disk_of w)" "f (store_of env w rid) = Inr (x, st)"
      "Q x (rs_files st, (iw_names w)(rid := rs_names st))"
    using assms by blast
  then show "case store_writing f env rid w of
      (Inr x, w') \<Rightarrow> Q x (disk_of w') \<and> (iw_writes w = None \<longrightarrow> iw_writes w' = None)
    | (Inl e, w') \<Rightarrow> e = Process_Stopped \<and> iw_writes w \<noteq> None \<and> C (disk_of w')"
    by (auto simp: store_writing_def disk_of_def spend_def)
qed

lemma crash_cases:
  assumes "\<And>d. P d \<Longrightarrow> P1 d \<or> P2 d" and "crash_triple P1 m Q C" and "crash_triple P2 m Q C"
  shows "crash_triple P m Q C"
proof (rule crash_tripleI)
  fix w x w' assume "P (disk_of w)" "m w = (Inr x, w')"
  then show "Q x (disk_of w') \<and> (iw_writes w = None \<longrightarrow> iw_writes w' = None)"
    using assms(1) crash_tripleD(1) [OF assms(2)] crash_tripleD(1) [OF assms(3)] by metis
next
  fix w e w' assume "P (disk_of w)" "m w = (Inl e, w')"
  then show "e = Process_Stopped \<and> iw_writes w \<noteq> None \<and> C (disk_of w')"
    using assms(1) crash_tripleD(2) [OF assms(2)] crash_tripleD(2) [OF assms(3)] by metis
qed

subsection \<open>Journals read back\<close>

definition canonical_journal :: "journal \<Rightarrow> journal" where
  \<comment> \<open>what a journal is after it was written and loaded: the keys of its JSON members are sorted\<close>
  "canonical_journal j =
     j\<lparr>jn_reference := canonical_value (jn_reference j), jn_initial_state := canonical_value (jn_initial_state j),
       jn_context := canonical_value (jn_context j), jn_context_hash := canonical_value (jn_context_hash j),
       jn_claim := canonical_value (jn_claim j), jn_binding := canonical_value (jn_binding j)\<rparr>"

lemma canonical_journal_idem [simp]: "canonical_journal (canonical_journal j) = canonical_journal j"
  by (simp add: canonical_journal_def)

definition journal_wf :: "journal \<Rightarrow> bool" where
  "journal_wf j \<longleftrightarrow>
     list_all json_wf [jn_reference j, jn_initial_state j, jn_context j, jn_context_hash j, jn_claim j, jn_binding j]"

lemma journal_phase_back [simp]: "journal_phase_of (journal_phase_value p) = Some p"
  by (cases p) (simp_all add: journal_phase_of_def)

lemma activation_outcome_back [simp]: "activation_outcome_of (activation_outcome_value p) = Some p"
  by (cases p) (simp_all add: activation_outcome_of_def)

lemma optional_text_back: "map_of kvs k = Some (json_opt v) \<Longrightarrow> optional_text kvs k = Some v"
  by (cases v) (simp_all add: optional_text_def json_opt_def)

lemma revision_back: "revision_member (Some (json_int_opt v)) = Some v"
  by (cases v) (simp_all add: revision_member_def json_int_opt_def)

lemma canonical_json_opt [simp]:
  "canonical_value (json_opt v) = json_opt v" "canonical_value (json_int_opt n) = json_int_opt n"
  "json_wf (json_opt v)" "json_wf (json_int_opt n)"
  by (cases v; cases n; simp add: json_opt_def json_int_opt_def)+

lemma journal_json_wf: "journal_wf j \<Longrightarrow> json_wf (journal_json j)"
  by (simp add: journal_wf_def journal_json_def)

lemma journal_members_back:
  assumes "journal_json j = JObj kvs" and c: "canonical_value (JObj kvs) = JObj kvs'"
  shows "journal_members kvs' = Some (canonical_journal j)" "exact_fields kvs' journal_fields"
proof -
  have k: "kvs = (case journal_json j of JObj x \<Rightarrow> x)"
    using assms(1) by simp
  have d: "distinct (map fst kvs)"
    unfolding k by (simp add: journal_json_def)
  have m: "map_of kvs' ''reservation_id'' = Some (JStr (jn_reservation_id j))"
    "map_of kvs' ''repository_id'' = Some (JStr (jn_repository_id j))"
    "map_of kvs' ''expected_index_revision'' = Some (JInt (jn_expected_revision j))"
    "map_of kvs' ''expected_index_hash'' = Some (JStr (jn_expected_hash j))"
    "map_of kvs' ''challenge_hash'' = Some (JStr (jn_challenge_hash j))"
    "map_of kvs' ''preparation_input_hash'' = Some (JStr (jn_input_hash j))"
    "map_of kvs' ''preparation_input_ref'' = Some (canonical_value (jn_reference j))"
    "map_of kvs' ''run_id'' = Some (json_opt (jn_run_id j))"
    "map_of kvs' ''initial_generation_hash'' = Some (JStr (jn_initial_hash j))"
    "map_of kvs' ''initial_state'' = Some (canonical_value (jn_initial_state j))"
    "map_of kvs' ''preparation_context_payload'' = Some (canonical_value (jn_context j))"
    "map_of kvs' ''preparation_context_hash'' = Some (canonical_value (jn_context_hash j))"
    "map_of kvs' ''selection_claim'' = Some (canonical_value (jn_claim j))"
    "map_of kvs' ''compatibility_binding'' = Some (canonical_value (jn_binding j))"
    "map_of kvs' ''outcome'' = Some (JStr (activation_outcome_value (jn_outcome j)))"
    "map_of kvs' ''phase'' = Some (JStr (journal_phase_value (jn_phase j)))"
    "map_of kvs' ''index_revision'' = Some (json_int_opt (jn_revision j))"
    "map_of kvs' ''index_hash'' = Some (json_opt (jn_hash j))"
    unfolding map_of_canonical [OF d c] k by (simp_all add: journal_json_def)
  show "journal_members kvs' = Some (canonical_journal j)"
    by (simp add: journal_members_def text_field_def m optional_text_back revision_back canonical_journal_def)
  show "exact_fields kvs' journal_fields"
    unfolding exact_fields_canonical [OF c] k by (simp add: journal_json_def journal_fields_def exact_fields_def)
qed

lemma same_object_bytes:
  assumes "map (\<lambda>kv. (fst kv, canonical_value (snd kv))) kvs = map (\<lambda>kv. (fst kv, canonical_value (snd kv))) kvs'"
  shows "canonical_value (JObj kvs) = canonical_value (JObj kvs')"
  using assms by (simp add: canonical_value.simps(2))

lemma canonical_journal_value: "canonical_value (journal_json (canonical_journal j)) = canonical_value (journal_json j)"
  unfolding journal_json_def by (rule same_object_bytes) (simp add: canonical_journal_def)

lemma journal_hash_canonical: "hash_json (journal_json (canonical_journal j)) = hash_json (journal_json j)"
  by (metis canonical_journal_value hash_json_value)

lemma journal_bytes_canonical:
  "canonical_json_bytes (journal_envelope (canonical_journal j)) = canonical_json_bytes (journal_envelope j)"
proof -
  have "canonical_value (journal_envelope (canonical_journal j)) = canonical_value (journal_envelope j)"
    unfolding journal_envelope_def journal_hash_canonical
    by (rule same_object_bytes) (simp add: canonical_journal_value)
  then show ?thesis by (metis canonical_text_value)
qed

lemma journal_bytes_same:
  "canonical_journal j = canonical_journal j' \<Longrightarrow>
   canonical_json_bytes (journal_envelope j) = canonical_json_bytes (journal_envelope j')"
  by (metis journal_bytes_canonical)

lemma load_journal_written:
  assumes "fs (journal_path reservation) = Some (Regular (canonical_json_bytes (journal_envelope j)))"
    and "journal_wf j" "jn_reservation_id j = reservation" "journal_ok env (canonical_journal j)"
  shows "load_journal env reservation fs = Inr (Some (canonical_journal j))"
proof -
  obtain members where m: "journal_json j = JObj members"
    by (simp add: journal_json_def)
  obtain members' where m': "canonical_value (JObj members) = JObj members'"
    using canonical_object_shape by blast
  obtain kvs where k: "journal_envelope j = JObj kvs" by (simp add: journal_envelope_def)
  obtain kvs' where c: "canonical_value (JObj kvs) = JObj kvs'" using canonical_object_shape by blast
  have kv: "kvs = [(''journal_hash'', JStr (hash_json (journal_json j))), (''journal'', JObj members)]"
    using k by (simp add: journal_envelope_def m)
  have d: "distinct (map fst kvs)" by (simp add: kv)
  have v: "map_of kvs' ''journal_hash'' = Some (JStr (hash_json (journal_json j)))"
    "map_of kvs' ''journal'' = Some (JObj members')"
    unfolding map_of_canonical [OF d c] by (simp_all add: kv m')
  have x: "exact_fields kvs' [''journal_hash'', ''journal'']"
    unfolding exact_fields_canonical [OF c] by (simp add: exact_fields_def kv)
  have h: "hash_json (JObj members') = hash_json (journal_json j)"
    by (metis m m' hash_json_value)
  have wf: "json_wf (journal_envelope j)"
    using journal_json_wf [OF assms(2)] by (simp add: journal_envelope_def)
  have of: "journal_of env reservation (JObj kvs') = Some (canonical_journal j)"
    using assms(3,4) journal_members_back [OF m m']
    by (simp add: journal_of_def x v text_field_def h hash_is_sha256 canonical_journal_def)
  show ?thesis
    using assms(1) read_canonical_write [OF wf] of
    by (simp add: load_journal_def path_lstat_def read_json_file_def k c)
qed

end
