(* ===== verification/Activation_Recovery.thy ===== *)
theory Activation_Recovery
  imports Index_Recovery
begin

section \<open>The stages of an activation\<close>

text \<open>
  What the disk holds while an activation is under way: its journal, the context of the run,
  the first generation, the pointer to it, the binding of the run, the active entry, and the
  completed journal, in this order.  Each operation of the activation is a triple from a
  stage to a later one; every stage is one from which the whole request succeeds.
\<close>

definition activation_valid :: "index_env \<Rightarrow> activation_request \<Rightarrow> run_state \<Rightarrow> bool" where
  \<comment> \<open>a request whose parts are valid and whose dumps read back, for a trusted input\<close>
  "activation_valid env r s \<longleftrightarrow>
     activation_request_checked (ix_store env) (ix_context env) r = Some r
     \<and> require_identifier (ar_repository_id r) \<and> require_identifier (ar_reservation_id r)
     \<and> ar_run_id r = Some (run_id s) \<and> ar_initial_state r = Some s
     \<and> preparation_input_ref_valid (ar_reference r)
     \<and> (case ix_input_verifier env of
          None \<Rightarrow> False
        | Some verify \<Rightarrow> (case verify (ar_reference r) of None \<Rightarrow> False | Some v \<Rightarrow> fst v = ar_reference r))
     \<and> json_wf (py_dump (ix_reference env) (ar_reference r))
     \<and> reference_of env (canonical_value (py_dump (ix_reference env) (ar_reference r))) = Some (ar_reference r)
     \<and> (case ar_context r of
          None \<Rightarrow> True
        | Some c \<Rightarrow>
            (case py_dump (ix_context env) c of JObj _ \<Rightarrow> True | _ \<Rightarrow> False)
            \<and> json_wf (py_dump (ix_context env) c)
            \<and> context_of env (canonical_value (py_dump (ix_context env) c)) = Some c
            \<and> ar_context_hash r = Some (hash_json (py_dump (ix_context env) c)))
     \<and> run_inv (clean_of (ix_store env)) s \<and> dump_ok (ix_store env) s
     \<and> persisted_ok (se_dump (ix_store env) s) \<and> identifiers_ok s \<and> initial_state_ok (ix_store env) s
     \<and> validate_preparation_initial_state env r s = return_op ()"

definition first_generation :: "index_env \<Rightarrow> run_state \<Rightarrow> state_generation" where
  "first_generation env s = create_generation (ix_store env) 1 s"

definition entry_of_activation :: "index_env \<Rightarrow> activation_request \<Rightarrow> run_state \<Rightarrow> index_entry \<Rightarrow> index_entry" where
  "entry_of_activation env r s e =
     new_entry (ie_revision e + 1)
       (Activated (ar_repository_id r) (ar_reservation_id r) (lower (ar_challenge_hash r))
         (lower (ar_input_hash r)) (run_id s) (sg_state_hash (first_generation env s)))"

definition result_of_activation :: "index_env \<Rightarrow> activation_request \<Rightarrow> run_state \<Rightarrow> index_entry \<Rightarrow> active_run_record" where
  "result_of_activation env r s e = active_result (entry_of_activation env r s e)"

subsection \<open>Parts of the disk\<close>

definition run_directories :: "string \<Rightarrow> string set" where
  "run_directories rid = {''runs'', run_directory rid, run_directory rid @ ''/generations''}"

definition directories_free :: "string \<Rightarrow> index_disk \<Rightarrow> bool" where
  "directories_free rid d \<longleftrightarrow> (\<forall>p \<in> run_directories rid. fst d p = None \<or> fst d p = Some Directory)"

definition context_bytes :: "index_env \<Rightarrow> preparation_context \<Rightarrow> entry" where
  "context_bytes env c = Regular (canonical_json_bytes (py_dump (ix_context env) c))"

definition context_there :: "index_env \<Rightarrow> activation_request \<Rightarrow> string \<Rightarrow> index_disk \<Rightarrow> bool" where
  "context_there env r rid d \<longleftrightarrow>
     (case ar_context r of None \<Rightarrow> True | Some c \<Rightarrow> fst d (context_path rid) = Some (context_bytes env c))"

definition context_free :: "index_env \<Rightarrow> activation_request \<Rightarrow> string \<Rightarrow> index_disk \<Rightarrow> bool" where
  "context_free env r rid d \<longleftrightarrow> fst d (context_path rid) = None \<or> context_there env r rid d"

definition store_on :: "index_env \<Rightarrow> string \<Rightarrow> index_disk \<Rightarrow> run_store" where
  "store_on env rid d =
     \<lparr>rs_env = (ix_store env)\<lparr>se_authority := None\<rparr>, rs_run_id = rid, rs_files = fst d, rs_names = snd d rid\<rparr>"

lemma store_of_disk: "store_of (ix_store env) w rid = store_on env rid (disk_of w)"
  by (simp add: store_of_def store_on_def disk_of_def)

definition first_name :: "index_env \<Rightarrow> run_state \<Rightarrow> string" where
  "first_name env s = generation_name 1 (sg_state_hash (first_generation env s))"

definition first_path :: "index_env \<Rightarrow> run_state \<Rightarrow> string" where
  "first_path env s = generations_dir (run_id s) @ first_name env s"

definition generation_there :: "index_env \<Rightarrow> run_state \<Rightarrow> index_disk \<Rightarrow> bool" where
  "generation_there env s d \<longleftrightarrow>
     snd d (run_id s) = [first_name env s]
     \<and> fst d (first_path env s) = Some (Regular (canonical_json_bytes (envelope (ix_store env) (first_generation env s))))
     \<and> (\<forall>name. name \<noteq> first_name env s \<longrightarrow> fst d (generations_dir (run_id s) @ name) = None)"

definition generation_free :: "run_state \<Rightarrow> index_disk \<Rightarrow> bool" where
  "generation_free s d \<longleftrightarrow>
     snd d (run_id s) = [] \<and> (\<forall>name. fst d (generations_dir (run_id s) @ name) = None)"

definition pointer_there :: "index_env \<Rightarrow> run_state \<Rightarrow> index_disk \<Rightarrow> bool" where
  "pointer_there env s d \<longleftrightarrow>
     fst d (current_path (run_id s)) = Some (Regular (canonical_json_bytes (pointer_json (first_generation env s))))"

definition binding_there :: "index_env \<Rightarrow> activation_request \<Rightarrow> run_state \<Rightarrow> index_disk \<Rightarrow> bool" where
  "binding_there env r s d \<longleftrightarrow>
     bound_to (fst d) (run_id s) (ar_repository_id r) (sg_state_hash (first_generation env s))"

definition journal_there :: "activation_request \<Rightarrow> journal \<Rightarrow> index_disk \<Rightarrow> bool" where
  "journal_there r j d \<longleftrightarrow>
     fst d (journal_path (ar_reservation_id r)) = Some (Regular (canonical_json_bytes (journal_envelope j)))"

definition entry_there :: "index_env \<Rightarrow> activation_request \<Rightarrow> index_entry \<Rightarrow> index_disk \<Rightarrow> bool" where
  "entry_there env r e d \<longleftrightarrow> load_entry env (ar_repository_id r) (fst d) = Inr (Some e)"

definition completed_journal :: "index_entry \<Rightarrow> journal \<Rightarrow> journal" where
  "completed_journal e j =
     j\<lparr>jn_phase := Completed, jn_revision := Some (ie_revision e), jn_hash := Some (ie_hash e)\<rparr>"

subsection \<open>Stages\<close>

definition at_start :: "index_env \<Rightarrow> activation_request \<Rightarrow> run_state \<Rightarrow> index_entry \<Rightarrow> index_disk \<Rightarrow> bool" where
  \<comment> \<open>the repository is reserved for this request, and the run does not exist\<close>
  "at_start env r s e d \<longleftrightarrow>
     entry_there env r e d
     \<and> (case ie_record e of
          Reserved _ held challenge_hash _ _ _ _ \<Rightarrow>
            held = ar_reservation_id r \<and> challenge_hash = lower (ar_challenge_hash r)
        | _ \<Rightarrow> False)
     \<and> ie_revision e = ar_expected_revision r \<and> ie_hash e = ar_expected_hash r
     \<and> fst d (journal_path (ar_reservation_id r)) = None
     \<and> fst d (run_binding_path (run_id s)) = None
     \<and> directories_free (run_id s) d \<and> fst d (run_directory (run_id s)) = None
     \<and> fst d (context_path (run_id s)) = None \<and> fst d (current_path (run_id s)) = None
     \<and> generation_free s d"

definition at_journal :: "index_env \<Rightarrow> activation_request \<Rightarrow> run_state \<Rightarrow> index_entry \<Rightarrow> index_disk \<Rightarrow> bool" where
  "at_journal env r s e d \<longleftrightarrow>
     entry_there env r e d \<and> journal_there r (activation_intent env r) d
     \<and> fst d (run_binding_path (run_id s)) = None
     \<and> directories_free (run_id s) d \<and> context_free env r (run_id s) d
     \<and> fst d (current_path (run_id s)) = None
     \<and> (generation_free s d \<or> generation_there env s d)"

definition at_pointer :: "index_env \<Rightarrow> activation_request \<Rightarrow> run_state \<Rightarrow> index_entry \<Rightarrow> index_disk \<Rightarrow> bool" where
  "at_pointer env r s e d \<longleftrightarrow>
     entry_there env r e d \<and> journal_there r (activation_intent env r) d
     \<and> (fst d (run_binding_path (run_id s)) = None \<or> binding_there env r s d)
     \<and> directories_free (run_id s) d \<and> context_there env r (run_id s) d
     \<and> pointer_there env s d \<and> generation_there env s d"

definition at_active :: "index_env \<Rightarrow> activation_request \<Rightarrow> run_state \<Rightarrow> index_entry \<Rightarrow> index_disk \<Rightarrow> bool" where
  "at_active env r s e d \<longleftrightarrow>
     entry_there env r (entry_of_activation env r s e) d \<and> journal_there r (activation_intent env r) d
     \<and> binding_there env r s d
     \<and> directories_free (run_id s) d \<and> context_there env r (run_id s) d
     \<and> pointer_there env s d \<and> generation_there env s d"

definition at_end :: "index_env \<Rightarrow> activation_request \<Rightarrow> run_state \<Rightarrow> index_entry \<Rightarrow> index_disk \<Rightarrow> bool" where
  "at_end env r s e d \<longleftrightarrow>
     entry_there env r (entry_of_activation env r s e) d
     \<and> journal_there r (completed_journal (entry_of_activation env r s e) (activation_intent env r)) d
     \<and> binding_there env r s d
     \<and> directories_free (run_id s) d \<and> context_there env r (run_id s) d
     \<and> pointer_there env s d \<and> generation_there env s d"

definition under_way :: "index_env \<Rightarrow> activation_request \<Rightarrow> run_state \<Rightarrow> index_entry \<Rightarrow> index_disk \<Rightarrow> bool" where
  \<comment> \<open>any disk a crash can leave\<close>
  "under_way env r s e d \<longleftrightarrow>
     at_start env r s e d \<or> at_journal env r s e d \<or> at_pointer env r s e d \<or> at_active env r s e d
     \<or> at_end env r s e d"

subsection \<open>Paths of an activation\<close>

lemma run_paths_apart [simp]:
  "index_path a \<noteq> journal_path b" "index_path a \<noteq> ''runs/'' @ x" "index_path a \<noteq> ''runs''"
  "journal_path b \<noteq> run_binding_path c" "journal_path b \<noteq> ''runs/'' @ x" "journal_path b \<noteq> ''runs''"
  "run_binding_path c \<noteq> ''runs/'' @ x" "run_binding_path c \<noteq> ''runs''"
  by (simp_all add: index_path_def journal_path_def run_binding_path_def)

lemmas run_paths_apart_sym [simp] = run_paths_apart [THEN not_sym]

lemmas run_path_defs = run_directory_def context_path_def current_path_def generations_dir_def

subsection \<open>The context and the directories\<close>

lemma directory_triple:
  assumes "\<And>fs ns. P (fs, ns) \<Longrightarrow> fs path = None \<or> fs path = Some Directory"
    and "\<And>fs ns. P (fs, ns) \<Longrightarrow> fs path = None \<Longrightarrow> P (fs(path \<mapsto> Directory), ns)"
  shows "crash_triple P (durable (\<lambda>fs. ensure_directory fs path)) (\<lambda>_. P) P"
proof (rule crash_durable, rule conjI)
  fix fs ns assume p: "P (fs, ns)"
  then show "\<exists>x fs'. ensure_directory fs path = Inr (x, fs') \<and> P (fs', ns)"
    using assms(1) [OF p] assms(2) [OF p] unfolding ensure_directory_Inr by blast
qed

lemma canonical_text: "canonical_value v = JStr h \<Longrightarrow> v = JStr h"
  by (cases v) (simp_all add: canonical_value.simps(2))

lemma canonical_journal_members:
  assumes "canonical_journal j = canonical_journal j'"
  shows "same_value (jn_context j) (jn_context j')" "canonical_value (jn_context_hash j) = canonical_value (jn_context_hash j')"
    "jn_reservation_id j = jn_reservation_id j'" "jn_repository_id j = jn_repository_id j'"
    "jn_expected_revision j = jn_expected_revision j'" "jn_expected_hash j = jn_expected_hash j'"
    "jn_challenge_hash j = jn_challenge_hash j'" "jn_input_hash j = jn_input_hash j'"
    "jn_run_id j = jn_run_id j'" "jn_initial_hash j = jn_initial_hash j'" "jn_outcome j = jn_outcome j'"
    "jn_phase j = jn_phase j'"
  using assms by (cases j; cases j'; simp add: canonical_journal_def same_value_def)+

lemma valid_context:
  assumes "activation_valid env r s" and "ar_context r = Some c"
  shows "json_wf (py_dump (ix_context env) c)" "\<exists>kvs. py_dump (ix_context env) c = JObj kvs"
    "context_of env (canonical_value (py_dump (ix_context env) c)) = Some c"
    "ar_context_hash r = Some (hash_json (py_dump (ix_context env) c))"
  using assms by (auto simp: activation_valid_def split: json.splits)

lemma context_reads_back:
  assumes "fs (context_path rid) = Some (context_bytes env c)" and "json_wf (py_dump (ix_context env) c)"
  shows "read_json_file fs (context_path rid) = Inr (canonical_value (py_dump (ix_context env) c))"
  using assms by (simp add: read_json_file_Inr context_bytes_def read_canonical_write)

lemma persist_context_triple:
  assumes v: "activation_valid env r s"
    and j: "canonical_journal j = canonical_journal (activation_intent env r)"
    and free: "\<And>d. P d \<Longrightarrow> directories_free (run_id s) d \<and> context_free env r (run_id s) d"
    and dir: "\<And>fs ns path. P (fs, ns) \<Longrightarrow> path \<in> run_directories (run_id s) \<Longrightarrow> fs path = None \<Longrightarrow>
        P (fs(path \<mapsto> Directory), ns)"
    and ctx: "\<And>fs ns c. P (fs, ns) \<Longrightarrow> ar_context r = Some c \<Longrightarrow> fs (context_path (run_id s)) = None \<Longrightarrow>
        P (fs(context_path (run_id s) \<mapsto> context_bytes env c), ns)"
  shows "crash_triple P (persist_preparation_context env r j)
    (\<lambda>_ d. P d \<and> context_there env r (run_id s) d) P"
proof (cases "ar_context r")
  case None
  have "ar_run_id r = Some (run_id s)" using v by (simp add: activation_valid_def)
  with None show ?thesis
    by (simp add: persist_preparation_context_def crash_return context_there_def)
next
  case (Some c)
  let ?p = "py_dump (ix_context env) c" and ?path = "context_path (run_id s)"
  note c = valid_context [OF v Some]
  have run: "ar_run_id r = Some (run_id s)" using v by (simp add: activation_valid_def)
  have same: "same_value (jn_context j) ?p"
    using canonical_journal_members(1) [OF j] by (simp add: activation_intent_def dump_context_def Some)
  have hash: "jn_context_hash j = JStr (hash_json ?p)"
    using canonical_journal_members(2) [OF j] canonical_text
    by (simp add: activation_intent_def c(4) json_opt_def)
  have dirs: "crash_triple P (durable (\<lambda>fs. ensure_directory fs path)) (\<lambda>_. P) P"
    if "path \<in> run_directories (run_id s)" for path
    by (rule directory_triple) (use that free dir in \<open>fastforce simp: directories_free_def\<close>)+
  have publish: "crash_triple P (publish_json ?path ?p) (\<lambda>_ d. P d \<and> context_there env r (run_id s) d) P"
    unfolding publish_json_def
  proof (rule crash_durable, rule conjI)
    fix fs ns assume p: "P (fs, ns)"
    show "\<exists>x fs'. write_new_json fs ?path ?p = Inr (x, fs') \<and> P (fs', ns) \<and> context_there env r (run_id s) (fs', ns)"
    proof (cases "fs ?path")
      case None
      with p ctx [OF p Some None] show ?thesis
        by (auto simp: write_new_json_Inr context_there_def Some context_bytes_def)
    next
      case found: (Some x)
      with free [OF p] have "x = context_bytes env c" by (simp add: context_free_def context_there_def Some)
      with found p show ?thesis
        by (intro exI [of _ False]) (auto simp: write_new_json_Inr context_there_def Some context_bytes_def)
    qed
  qed
  have check: "crash_triple (\<lambda>d. P d \<and> context_there env r (run_id s) d)
      (if created then return_op ()
       else bind_op (store_reading (\<lambda>w. read_json_file (iw_files w) ?path))
              (\<lambda>stored. require_op (same_value stored ?p) State_Mismatch))
      (\<lambda>_ d. P d \<and> context_there env r (run_id s) d) P" for created
  proof (cases created)
    case False
    have read: "crash_triple (\<lambda>d. P d \<and> context_there env r (run_id s) d)
        (store_reading (\<lambda>w. read_json_file (iw_files w) ?path))
        (\<lambda>x d. x = canonical_value ?p \<and> P d \<and> context_there env r (run_id s) d) P"
      by (rule crash_store_reading)
        (simp add: context_there_def Some disk_of_def context_reads_back [OF _ c(1)])
    have "crash_triple (\<lambda>d. x = canonical_value ?p \<and> P d \<and> context_there env r (run_id s) d)
        (require_op (same_value x ?p) State_Mismatch) (\<lambda>_ d. P d \<and> context_there env r (run_id s) d) P" for x
      by (rule crash_weaken [OF crash_require [where P = "\<lambda>d. x = canonical_value ?p \<and> P d
          \<and> context_there env r (run_id s) d"]]) (simp_all add: same_value_def)
    with False show ?thesis by (simp add: crash_bind [OF read])
  qed (simp add: crash_return)
  show ?thesis
    unfolding persist_preparation_context_def Let_def run Some c(4)
    by (simp add: same hash)
      (intro crash_bind [OF dirs] crash_bind [OF publish] check; simp add: run_directories_def)
qed

subsection \<open>The first generation\<close>

lemma valid_state:
  assumes "activation_valid env r s"
  shows "run_inv (clean_of (ix_store env)) s" "dump_ok (ix_store env) s" "persisted_ok (se_dump (ix_store env) s)"
    "identifiers_ok s" "initial_state_ok (ix_store env) s" "validate_preparation_initial_state env r s = return_op ()"
    "ar_run_id r = Some (run_id s)" "ar_initial_state r = Some s" "repository_id s = ar_repository_id r"
    "require_identifier (run_id s)"
  using assms
  by (auto simp: activation_valid_def activation_request_checked_def identifiers_ok_def
      split: if_splits option.splits)

lemma store_on_env [simp]:
  "rs_env (store_on env rid d) = (ix_store env)\<lparr>se_authority := None\<rparr>" "rs_run_id (store_on env rid d) = rid"
  "rs_files (store_on env rid d) = fst d" "rs_names (store_on env rid d) = snd d rid"
  by (simp_all add: store_on_def)

lemma clean_of_authority [simp]: "clean_of (env\<lparr>se_authority := x\<rparr>) = clean_of env"
  by (simp add: fun_eq_iff clean_of_def)

lemma authority_irrelevant [simp]:
  "dump_ok (env\<lparr>se_authority := x\<rparr>) = dump_ok env"
  "initial_state_ok (env\<lparr>se_authority := x\<rparr>) = initial_state_ok env"
  "state_hash_of (env\<lparr>se_authority := x\<rparr>) = state_hash_of env"
  "create_generation (env\<lparr>se_authority := x\<rparr>) = create_generation env"
  "envelope (env\<lparr>se_authority := x\<rparr>) = envelope env"
  by (simp_all add: fun_eq_iff dump_ok_def initial_state_ok_def state_hash_of_def
      create_generation_def envelope_def)

lemma first_generation_simps [simp]:
  "sg_revision (first_generation env s) = 1" "sg_state (first_generation env s) = s"
  "sg_state_hash (first_generation env s) = state_hash_of (ix_store env) s"
  by (simp_all add: first_generation_def create_generation_def)

lemma first_generation_path:
  "generation_path (store_on env (run_id s) d) 1 (state_hash_of (ix_store env) s) = first_path env s"
  by (simp add: generation_path_def first_path_def first_name_def hash_is_sha256(2) state_hash_of_def)

lemma first_generation_loads:
  assumes v: "activation_valid env r s" and g: "generation_there env s d"
  shows "load_generation (store_on env (run_id s) d) 1 (state_hash_of (ix_store env) s) = Inr (first_generation env s)"
proof -
  have "sound_generation (store_on env (run_id s) d) (first_generation env s)"
    using valid_state [OF v] by (simp add: sound_generation_def)
  from load_written [OF this] g show ?thesis
    by (simp add: first_generation_path generation_there_def)
qed

lemma first_name_simps:
  "\<not> temporary_name (first_name env s)"
  "generation_of_name (first_name env s) = Some (1, state_hash_of (ix_store env) s)"
proof -
  show "\<not> temporary_name (first_name env s)"
    unfolding first_name_def by (rule generation_name_not_temporary) simp
  show "generation_of_name (first_name env s) = Some (1, state_hash_of (ix_store env) s)"
    unfolding first_name_def using generation_name_back [of 1 "state_hash_of (ix_store env) s"]
    by (simp add: hash_is_sha256 state_hash_of_def hash_json_digest)
qed

lemma first_records:
  "generation_free s d \<Longrightarrow> generation_records (store_on env (run_id s) d) = Inr []"
  "generation_there env s d \<Longrightarrow>
     generation_records (store_on env (run_id s) d) = Inr [(1, state_hash_of (ix_store env) s)]"
  by (simp_all add: generation_records_def generation_free_def generation_there_def first_name_simps first_path_def)

lemma no_pointer: "fst d (current_path rid) = None \<Longrightarrow> pointed_generation (store_on env rid d) = Inr None"
  by (simp add: pointed_generation_def path_lstat_def)

lemma pointer_loads:
  assumes v: "activation_valid env r s" and g: "generation_there env s d" and p: "pointer_there env s d"
  shows "load_optional (store_on env (run_id s) d) True = Inr (Some (first_generation env s))"
proof -
  have "pointed_generation (store_on env (run_id s) d) = Inr (Some (first_generation env s))"
    using p first_generation_loads [OF v g]
    by (intro load_pointer) (simp_all add: pointer_there_def hash_is_sha256 state_hash_of_def)
  then show ?thesis by (simp add: load_optional_def)
qed

lemma first_prepared:
  assumes v: "activation_valid env r s" and d: "generation_free s d \<or> generation_there env s d"
    and p: "fst d (current_path (run_id s)) = None" and b: "fst d (run_binding_path (run_id s)) = None"
  obtains st where "cas_prepare (store_on env (run_id s) d) 0 empty_state_hash s = Inr (first_generation env s, st)"
    "rs_names st = [first_name env s]"
    "rs_files st = (fst d)(first_path env s \<mapsto>
       Regular (canonical_json_bytes (envelope (ix_store env) (first_generation env s))))"
    "rs_run_id st = run_id s"
proof -
  let ?st = "store_on env (run_id s) d" and ?g = "first_generation env s"
  note s = valid_state [OF v]
  have l: "load_optional ?st True = Inr None"
    using d no_pointer [OF p] first_records(1) [of s d env] first_records(2) [of env s d]
    by (auto simp: load_optional_def)
  have view: "sv_env (view_of ?st) = (ix_store env)\<lparr>se_authority := None\<rparr>" "sv_run_id (view_of ?st) = run_id s"
    "sv_binding (view_of ?st) = Inr None"
    using b by (simp_all add: view_of_def load_repository_binding_def path_lstat_def)
  have t: "validate_transition (view_of ?st) None s = Inr s"
    using s(1,3,4,5)
    by (simp add: validate_transition_def view run_inv_def follow_state_def entry_checks_def)
  have g: "create_generation (rs_env ?st) (0 + 1) s = ?g"
    by (simp add: first_generation_def)
  from d show thesis
  proof (elim disjE)
    assume free: "generation_free s d"
    have w: "write_new_json (fst d) (first_path env s) x =
        Inr (True, (fst d)(first_path env s \<mapsto> Regular (canonical_json_bytes x)))" for x
      using free by (simp add: write_new_json_Inr generation_free_def first_path_def)
    show thesis
      using l t g first_records(1) [OF free, of env] free w
      by - (rule that, (simp add: cas_prepare_def store_result_def Let_def expected_current_def recoverable_def
          empty_state_hash_def hash_is_sha256 first_generation_path generation_free_def first_name_def)+)
  next
    assume there: "generation_there env s d"
    have w: "write_new_json (fst d) (first_path env s) x = Inr (False, fst d)" for x
      using there by (simp add: write_new_json_Inr generation_there_def)
    have same: "(fst d)(first_path env s \<mapsto>
        Regular (canonical_json_bytes (envelope (ix_store env) (first_generation env s)))) = fst d"
      using there by (simp add: generation_there_def fun_upd_idem)
    show thesis
      using l t g first_records(2) [OF there] there w first_generation_loads [OF v there]
      by - (rule that, (simp add: cas_prepare_def store_result_def Let_def expected_current_def recoverable_def
          empty_state_hash_def hash_is_sha256 first_generation_path generation_there_def same)+)
  qed
qed

subsection \<open>Writes that a stage does not notice\<close>

lemma load_entry_update [simp]:
  "path \<noteq> index_path repository \<Longrightarrow> load_entry env repository (fs(path := x)) = load_entry env repository fs"
  by (rule load_entry_cong) simp_all

lemmas disk_part_defs =
  entry_there_def journal_there_def directories_free_def context_free_def context_there_def pointer_there_def
  generation_there_def generation_free_def binding_there_def bound_to_def run_directories_def first_path_def

lemma run_path_ends [simp]:
  "context_path rid \<noteq> index_path a" "context_path rid \<noteq> journal_path b" "context_path rid \<noteq> run_binding_path c"
  "current_path rid \<noteq> index_path a" "current_path rid \<noteq> journal_path b" "current_path rid \<noteq> run_binding_path c"
  "generations_dir rid @ n \<noteq> index_path a" "generations_dir rid @ n \<noteq> journal_path b"
  "generations_dir rid @ n \<noteq> run_binding_path c"
  "context_path rid \<noteq> current_path rid" "current_path rid \<noteq> context_path rid"
  "generations_dir rid @ n \<noteq> context_path rid" "generations_dir rid @ n \<noteq> current_path rid"
  "context_path rid \<noteq> generations_dir rid @ n" "current_path rid \<noteq> generations_dir rid @ n"
  by (simp_all add: run_path_defs index_path_def journal_path_def run_binding_path_def)

lemmas run_path_ends_sym [simp] = run_path_ends [THEN not_sym]

lemma directory_ends [simp]:
  assumes "path \<in> run_directories rid"
  shows "path \<noteq> index_path a" "path \<noteq> journal_path b" "path \<noteq> run_binding_path c"
    "path \<noteq> context_path rid" "path \<noteq> current_path rid" "path \<noteq> generations_dir rid @ n"
    "index_path a \<noteq> path" "journal_path b \<noteq> path" "run_binding_path c \<noteq> path"
    "context_path rid \<noteq> path" "current_path rid \<noteq> path" "generations_dir rid @ n \<noteq> path"
  using assms
  by (auto simp: run_directories_def run_path_defs index_path_def journal_path_def run_binding_path_def)

lemma directories_free_update:
  "directories_free rid (fs, ns) \<Longrightarrow> path \<in> run_directories rid \<Longrightarrow> directories_free rid (fs(path \<mapsto> Directory), ns)"
  "directories_free rid (fs, ns) \<Longrightarrow> path \<notin> run_directories rid \<Longrightarrow> directories_free rid (fs(path := x), ns')"
  by (auto simp: directories_free_def)

lemma parts_at_directory:
  assumes "path \<in> run_directories (run_id s)"
  shows "entry_there env r e (fs(path \<mapsto> Directory), ns) = entry_there env r e (fs, ns)"
    "journal_there r j (fs(path \<mapsto> Directory), ns) = journal_there r j (fs, ns)"
    "context_free env r (run_id s) (fs(path \<mapsto> Directory), ns) = context_free env r (run_id s) (fs, ns)"
    "context_there env r (run_id s) (fs(path \<mapsto> Directory), ns) = context_there env r (run_id s) (fs, ns)"
    "pointer_there env s (fs(path \<mapsto> Directory), ns) = pointer_there env s (fs, ns)"
    "binding_there env r s (fs(path \<mapsto> Directory), ns) = binding_there env r s (fs, ns)"
    "generation_there env s (fs(path \<mapsto> Directory), ns) = generation_there env s (fs, ns)"
    "generation_free s (fs(path \<mapsto> Directory), ns) = generation_free s (fs, ns)"
  using directory_ends [OF assms]
  by (simp_all add: entry_there_def journal_there_def context_free_def context_there_def pointer_there_def
      generation_there_def generation_free_def binding_there_def bound_to_def first_path_def
      split: option.split)

lemma stages_at_directory:
  assumes "path \<in> run_directories (run_id s)"
  shows "at_journal env r s e (fs, ns) \<Longrightarrow> at_journal env r s e (fs(path \<mapsto> Directory), ns)"
    "at_pointer env r s e (fs, ns) \<Longrightarrow> at_pointer env r s e (fs(path \<mapsto> Directory), ns)"
    "at_active env r s e (fs, ns) \<Longrightarrow> at_active env r s e (fs(path \<mapsto> Directory), ns)"
  using directory_ends [OF assms] directories_free_update(1) [OF _ assms]
  by (auto simp: at_journal_def at_pointer_def at_active_def parts_at_directory [OF assms])

lemma stages_at_context:
  assumes "fs (context_path (run_id s)) = None" and "ar_context r = Some c"
  shows "at_journal env r s e (fs, ns) \<Longrightarrow>
      at_journal env r s e (fs(context_path (run_id s) \<mapsto> context_bytes env c), ns)"
    "\<not> at_pointer env r s e (fs, ns)" "\<not> at_active env r s e (fs, ns)"
proof -
  have "context_path (run_id s) \<notin> run_directories (run_id s)"
    using directory_ends(4) by blast
  then show "at_journal env r s e (fs, ns) \<Longrightarrow>
      at_journal env r s e (fs(context_path (run_id s) \<mapsto> context_bytes env c), ns)"
    using assms
    by (auto simp: at_journal_def directories_free_update entry_there_def journal_there_def context_free_def
        context_there_def generation_there_def generation_free_def first_path_def)
  show "\<not> at_pointer env r s e (fs, ns)" "\<not> at_active env r s e (fs, ns)"
    using assms by (simp_all add: at_pointer_def at_active_def context_there_def)
qed

subsection \<open>The steps of an activation\<close>

lemma open_store_triple:
  assumes "require_identifier rid"
    and "\<And>d. P d \<Longrightarrow> directories_free rid d"
    and "\<And>fs ns path. P (fs, ns) \<Longrightarrow> path \<in> run_directories rid \<Longrightarrow> P (fs(path \<mapsto> Directory), ns)"
  shows "crash_triple P (open_store rid) (\<lambda>_. P) P"
proof -
  have dirs: "crash_triple P (durable (\<lambda>fs. ensure_directory fs path)) (\<lambda>_. P) P"
    if "path \<in> run_directories rid" for path
    by (rule directory_triple) (use that assms(2,3) in \<open>fastforce simp: directories_free_def\<close>)+
  show ?thesis
    unfolding open_store_def
    by (simp add: assms(1)) (intro crash_bind [OF dirs] dirs; simp add: run_directories_def)
qed

lemma context_of_journal:
  assumes "activation_valid env r s" and "canonical_journal j = canonical_journal (activation_intent env r)"
  shows "crash_triple (at_journal env r s e) (persist_preparation_context env r j)
      (\<lambda>_ d. at_journal env r s e d \<and> context_there env r (run_id s) d) (at_journal env r s e)"
    "crash_triple (at_pointer env r s e) (persist_preparation_context env r j) (\<lambda>_. at_pointer env r s e)
      (at_pointer env r s e)"
    "crash_triple (at_active env r s e) (persist_preparation_context env r j) (\<lambda>_. at_active env r s e)
      (at_active env r s e)"
proof -
  show "crash_triple (at_journal env r s e) (persist_preparation_context env r j)
      (\<lambda>_ d. at_journal env r s e d \<and> context_there env r (run_id s) d) (at_journal env r s e)"
    by (rule persist_context_triple [OF assms])
      (simp_all add: stages_at_directory stages_at_context, simp add: at_journal_def)
  have pointer: "crash_triple (at_pointer env r s e) (persist_preparation_context env r j)
      (\<lambda>_ d. at_pointer env r s e d \<and> context_there env r (run_id s) d) (at_pointer env r s e)"
    by (rule persist_context_triple [OF assms])
      (simp_all add: stages_at_directory stages_at_context, simp add: at_pointer_def context_free_def)
  show "crash_triple (at_pointer env r s e) (persist_preparation_context env r j) (\<lambda>_. at_pointer env r s e)
      (at_pointer env r s e)"
    by (rule crash_weaken [OF pointer]) simp_all
  have active: "crash_triple (at_active env r s e) (persist_preparation_context env r j)
      (\<lambda>_ d. at_active env r s e d \<and> context_there env r (run_id s) d) (at_active env r s e)"
    by (rule persist_context_triple [OF assms])
      (simp_all add: stages_at_directory stages_at_context, simp add: at_active_def context_free_def)
  show "crash_triple (at_active env r s e) (persist_preparation_context env r j) (\<lambda>_. at_active env r s e)
      (at_active env r s e)"
    by (rule crash_weaken [OF active]) simp_all
qed

lemma journal_hash_of_state:
  assumes "activation_valid env r s" and "canonical_journal j = canonical_journal (activation_intent env r)"
  shows "jn_initial_hash j = state_hash_of (ix_store env) s"
  using assms(1) canonical_journal_members(10) [OF assms(2)]
  by (auto simp: activation_valid_def activation_request_checked_def activation_intent_def
      split: if_splits option.splits)

lemma stored_state_triple:
  \<comment> \<open>where the pointer is there the state is only checked\<close>
  assumes v: "activation_valid env r s"
    and j: "canonical_journal j = canonical_journal (activation_intent env r)"
    and P: "\<And>d. P d \<Longrightarrow> directories_free (run_id s) d \<and> pointer_there env s d \<and> generation_there env s d"
    and dir: "\<And>fs ns path. P (fs, ns) \<Longrightarrow> path \<in> run_directories (run_id s) \<Longrightarrow> P (fs(path \<mapsto> Directory), ns)"
  shows "crash_triple P (persist_initial_state env r j) (\<lambda>g d. g = first_generation env s \<and> P d) P"
proof -
  note s = valid_state [OF v]
  have load: "crash_triple P (store_reading (\<lambda>w. load_optional (store_of (ix_store env) w (run_id s)) True))
      (\<lambda>x d. x = Some (first_generation env s) \<and> P d) P"
    by (rule crash_store_reading) (use pointer_loads [OF v] P in \<open>simp add: store_of_disk\<close>)
  have check: "crash_triple (\<lambda>d. x = Some (first_generation env s) \<and> P d)
      (bind_op
        (case x of
           None \<Rightarrow> swap_initial (ix_store env) (run_id s) s
         | Some g \<Rightarrow> bind_op (validate_preparation_initial_state env r (sg_state g)) (\<lambda>_. return_op g)) (\<lambda>g.
       bind_op (require_op
         (sg_state_hash g = jn_initial_hash j \<and> sg_state g = s
          \<and> run_id (sg_state g) = run_id s \<and> repository_id (sg_state g) = ar_repository_id r) State_Mismatch)
         (\<lambda>_. return_op g)))
      (\<lambda>g d. g = first_generation env s \<and> P d) P" for x
  proof (cases "x = Some (first_generation env s)")
    case True
    then show ?thesis
      by (simp add: s journal_hash_of_state [OF v j] crash_return)
  qed (simp add: crash_triple_def)
  show ?thesis
    unfolding persist_initial_state_def
    by (simp add: s) (intro crash_bind [OF open_store_triple] crash_bind [OF load] check; use P dir s in simp)
qed

lemma generation_written:
  assumes v: "activation_valid env r s" and d: "at_journal env r s e (fs, ns)" "context_there env r (run_id s) (fs, ns)"
  shows "at_journal env r s e (fs(first_path env s \<mapsto>
      Regular (canonical_json_bytes (envelope (ix_store env) (first_generation env s)))), ns(run_id s := [first_name env s]))
    \<and> context_there env r (run_id s) (fs(first_path env s \<mapsto>
      Regular (canonical_json_bytes (envelope (ix_store env) (first_generation env s)))), ns(run_id s := [first_name env s]))
    \<and> generation_there env s (fs(first_path env s \<mapsto>
      Regular (canonical_json_bytes (envelope (ix_store env) (first_generation env s)))), ns(run_id s := [first_name env s]))"
proof -
  have p: "first_path env s \<notin> run_directories (run_id s)"
    unfolding first_path_def using directory_ends(6) by blast
  have g: "generation_there env s (fs(first_path env s \<mapsto>
      Regular (canonical_json_bytes (envelope (ix_store env) (first_generation env s)))), ns(run_id s := [first_name env s]))"
    using d(1) by (auto simp: at_journal_def generation_there_def generation_free_def first_path_def)
  with d p show ?thesis
    by (auto simp: at_journal_def directories_free_update entry_there_def journal_there_def context_free_def
        context_there_def first_path_def split: option.splits)
qed

lemma pointer_written:
  assumes "at_journal env r s e (fs, ns)" "context_there env r (run_id s) (fs, ns)" "generation_there env s (fs, ns)"
  shows "at_pointer env r s e (fs(current_path (run_id s) \<mapsto>
      Regular (canonical_json_bytes (pointer_json (first_generation env s)))), ns)"
proof -
  have "current_path (run_id s) \<notin> run_directories (run_id s)"
    using directory_ends(5) by blast
  with assms show ?thesis
    by (auto simp: at_journal_def at_pointer_def directories_free_update entry_there_def journal_there_def
        context_there_def generation_there_def pointer_there_def first_path_def split: option.splits)
qed

lemma new_state_triple:
  assumes v: "activation_valid env r s"
    and j: "canonical_journal j = canonical_journal (activation_intent env r)"
  shows "crash_triple (\<lambda>d. at_journal env r s e d \<and> context_there env r (run_id s) d) (persist_initial_state env r j)
    (\<lambda>g d. g = first_generation env s \<and> at_pointer env r s e d) (at_journal env r s e)"
proof -
  let ?P = "\<lambda>d. at_journal env r s e d \<and> context_there env r (run_id s) d" and ?g = "first_generation env s"
  note s = valid_state [OF v]
  have open_it: "crash_triple ?P (open_store (run_id s)) (\<lambda>_. ?P) (at_journal env r s e)"
  proof (rule crash_weaken [OF open_store_triple [of _ ?P]])
    show "require_identifier (run_id s)" by (rule s)
    show "directories_free (run_id s) d" if "?P d" for d
      using that by (simp add: at_journal_def)
    show "?P (fs(path \<mapsto> Directory), ns)" if "?P (fs, ns)" "path \<in> run_directories (run_id s)" for fs ns path
      using that by (simp add: stages_at_directory parts_at_directory)
  qed simp_all
  have load: "crash_triple ?P (store_reading (\<lambda>w. load_optional (store_of (ix_store env) w (run_id s)) True))
      (\<lambda>x d. x = None \<and> ?P d) (at_journal env r s e)"
  proof (rule crash_store_reading)
    fix w assume p: "?P (disk_of w)"
    then have "fst (disk_of w) (current_path (run_id s)) = None"
      "generation_free s (disk_of w) \<or> generation_there env s (disk_of w)"
      by (simp_all add: at_journal_def)
    then have "load_optional (store_on env (run_id s) (disk_of w)) True = Inr None"
      using no_pointer first_records(1) [of s "disk_of w" env] first_records(2) [of env s "disk_of w"]
      by (auto simp: load_optional_def)
    with p show "\<exists>x. load_optional (store_of (ix_store env) w (run_id s)) True = Inr x \<and> x = None \<and> ?P (disk_of w)"
      by (simp add: store_of_disk)
  qed
  have prepare: "crash_triple ?P (store_writing (\<lambda>st. cas_prepare st 0 empty_state_hash s) (ix_store env) (run_id s))
      (\<lambda>g d. g = ?g \<and> ?P d \<and> generation_there env s d) (at_journal env r s e)"
  proof (rule crash_store_writing)
    fix w assume p: "?P (disk_of w)"
    then have "generation_free s (disk_of w) \<or> generation_there env s (disk_of w)"
      "fst (disk_of w) (current_path (run_id s)) = None" "fst (disk_of w) (run_binding_path (run_id s)) = None"
      by (simp_all add: at_journal_def)
    from first_prepared [OF v this] obtain st where st:
      "cas_prepare (store_on env (run_id s) (disk_of w)) 0 empty_state_hash s = Inr (?g, st)"
      "rs_names st = [first_name env s]"
      "rs_files st = (fst (disk_of w))(first_path env s \<mapsto>
         Regular (canonical_json_bytes (envelope (ix_store env) ?g)))" "rs_run_id st = run_id s" .
    show "at_journal env r s e (disk_of w) \<and>
        (\<exists>x st. cas_prepare (store_of (ix_store env) w (run_id s)) 0 empty_state_hash s = Inr (x, st) \<and>
           x = ?g \<and> ?P (rs_files st, (iw_names w)(run_id s := rs_names st)) \<and>
           generation_there env s (rs_files st, (iw_names w)(run_id s := rs_names st)))"
      using p generation_written [OF v, of e "iw_files w" "iw_names w"] st
      by (auto simp: store_of_disk) (auto simp: disk_of_def)
  qed
  have move: "crash_triple (\<lambda>d. g = ?g \<and> ?P d \<and> generation_there env s d)
      (store_writing (\<lambda>st. map_sum id (Pair ()) (move_pointer st g)) (ix_store env) (run_id s))
      (\<lambda>_ d. g = ?g \<and> at_pointer env r s e d) (at_journal env r s e)" for g
  proof (rule crash_store_writing)
    fix w assume p: "g = ?g \<and> ?P (disk_of w) \<and> generation_there env s (disk_of w)"
    have "move_pointer (store_on env (run_id s) (disk_of w)) g
        = Inr (store_on env (run_id s) (disk_of w)\<lparr>rs_files := (fst (disk_of w))(current_path (run_id s) \<mapsto>
            Regular (canonical_json_bytes (pointer_json g)))\<rparr>)"
      using p by (simp add: move_pointer_Inr at_journal_def)
    with p show "at_journal env r s e (disk_of w) \<and>
        (\<exists>x st. map_sum id (Pair ()) (move_pointer (store_of (ix_store env) w (run_id s)) g) = Inr (x, st) \<and>
           g = ?g \<and> at_pointer env r s e (rs_files st, (iw_names w)(run_id s := rs_names st)))"
      using pointer_written [of env r s e "iw_files w" "iw_names w"]
      by (auto simp: store_of_disk) (auto simp: disk_of_def)
  qed
  have swap: "crash_triple ?P (swap_initial (ix_store env) (run_id s) s)
      (\<lambda>g d. g = ?g \<and> at_pointer env r s e d) (at_journal env r s e)"
    unfolding swap_initial_def
    by (rule crash_bind [OF prepare], rule crash_bind [OF move], rule crash_return) simp
  have check: "crash_triple (\<lambda>d. x = None \<and> ?P d)
      (bind_op
        (case x of
           None \<Rightarrow> swap_initial (ix_store env) (run_id s) s
         | Some g \<Rightarrow> bind_op (validate_preparation_initial_state env r (sg_state g)) (\<lambda>_. return_op g)) (\<lambda>g.
       bind_op (require_op
         (sg_state_hash g = jn_initial_hash j \<and> sg_state g = s
          \<and> run_id (sg_state g) = run_id s \<and> repository_id (sg_state g) = ar_repository_id r) State_Mismatch)
         (\<lambda>_. return_op g)))
      (\<lambda>g d. g = ?g \<and> at_pointer env r s e d) (at_journal env r s e)" for x
  proof (cases x)
    case None
    have "crash_triple (\<lambda>d. g = ?g \<and> at_pointer env r s e d)
        (bind_op (require_op
           (sg_state_hash g = jn_initial_hash j \<and> sg_state g = s
            \<and> run_id (sg_state g) = run_id s \<and> repository_id (sg_state g) = ar_repository_id r) State_Mismatch)
           (\<lambda>_. return_op g)) (\<lambda>g d. g = ?g \<and> at_pointer env r s e d) (at_journal env r s e)" for g
      by (cases "g = ?g") (simp_all add: s journal_hash_of_state [OF v j] crash_return, simp add: crash_triple_def)
    with None show ?thesis
      by (simp add: crash_bind [OF swap])
  qed (simp add: crash_triple_def)
  show ?thesis
    unfolding persist_initial_state_def
    by (simp add: s) (rule crash_bind [OF open_it], rule crash_bind [OF load], rule check)
qed

lemma binding_reads_back:
  "fs (run_binding_path rid) = Some (Regular (canonical_json_bytes (run_binding_json rid repository h))) \<Longrightarrow>
   read_json_file fs (run_binding_path rid) = Inr (canonical_value (run_binding_json rid repository h))"
  by (simp add: read_json_file_Inr read_canonical_write)

lemma binding_triple:
  assumes free: "\<And>fs ns. P (fs, ns) \<Longrightarrow> fs (run_binding_path (run_id s)) = None \<or> binding_there env r s (fs, ns)"
    and new: "\<And>fs ns. P (fs, ns) \<Longrightarrow> binding_there env r s (fs(run_binding_path (run_id s) \<mapsto>
        Regular (canonical_json_bytes (run_binding_json (run_id s) (ar_repository_id r)
          (state_hash_of (ix_store env) s)))), ns) \<Longrightarrow> fs (run_binding_path (run_id s)) = None \<Longrightarrow>
        P (fs(run_binding_path (run_id s) \<mapsto> Regular (canonical_json_bytes
          (run_binding_json (run_id s) (ar_repository_id r) (state_hash_of (ix_store env) s)))), ns)"
  shows "crash_triple P (write_run_binding (run_id s) (ar_repository_id r) (state_hash_of (ix_store env) s))
    (\<lambda>_ d. P d \<and> binding_there env r s d) P"
proof -
  let ?path = "run_binding_path (run_id s)"
  let ?b = "run_binding_json (run_id s) (ar_repository_id r) (state_hash_of (ix_store env) s)"
  have publish: "crash_triple P (publish_json ?path ?b) (\<lambda>_ d. P d \<and> binding_there env r s d) P"
    unfolding publish_json_def
  proof (rule crash_durable, rule conjI)
    fix fs ns assume p: "P (fs, ns)"
    show "\<exists>x fs'. write_new_json fs ?path ?b = Inr (x, fs') \<and> P (fs', ns) \<and> binding_there env r s (fs', ns)"
      using free [OF p] new [OF p] p
      by (cases "fs ?path") (auto simp: write_new_json_Inr binding_there_def bound_to_def)
  qed
  have check: "crash_triple (\<lambda>d. P d \<and> binding_there env r s d)
      (if created then return_op () else reading (\<lambda>w.
          case read_json_file (iw_files w) ?path of
            Inl _ \<Rightarrow> Inl Index_Corrupt
          | Inr existing \<Rightarrow> if same_value existing ?b then Inr () else Inl Index_Corrupt))
      (\<lambda>_ d. P d \<and> binding_there env r s d) P" for created
  proof (cases created)
    case False
    have "crash_triple (\<lambda>d. P d \<and> binding_there env r s d) (reading (\<lambda>w.
          case read_json_file (iw_files w) ?path of
            Inl _ \<Rightarrow> Inl Index_Corrupt
          | Inr existing \<Rightarrow> if same_value existing ?b then Inr () else Inl Index_Corrupt))
      (\<lambda>_ d. P d \<and> binding_there env r s d) P"
      by (rule crash_reading)
        (auto simp: binding_there_def bound_to_def disk_of_def binding_reads_back same_value_def)
    with False show ?thesis by simp
  qed (simp add: crash_return)
  show ?thesis
    unfolding write_run_binding_def Let_def by (rule crash_bind [OF publish check])
qed

lemma binding_of_stage:
  "crash_triple (at_pointer env r s e)
     (write_run_binding (run_id s) (ar_repository_id r) (state_hash_of (ix_store env) s))
     (\<lambda>_ d. at_pointer env r s e d \<and> binding_there env r s d) (at_pointer env r s e)"
  "crash_triple (at_active env r s e)
     (write_run_binding (run_id s) (ar_repository_id r) (state_hash_of (ix_store env) s))
     (\<lambda>_. at_active env r s e) (at_active env r s e)"
proof -
  have "run_binding_path (run_id s) \<notin> run_directories (run_id s)"
    using directory_ends(3) by blast
  then show "crash_triple (at_pointer env r s e)
     (write_run_binding (run_id s) (ar_repository_id r) (state_hash_of (ix_store env) s))
     (\<lambda>_ d. at_pointer env r s e d \<and> binding_there env r s d) (at_pointer env r s e)"
    by (intro binding_triple)
      (auto simp: at_pointer_def directories_free_update entry_there_def journal_there_def
        context_there_def generation_there_def pointer_there_def first_path_def split: option.splits)
  have "crash_triple (at_active env r s e)
     (write_run_binding (run_id s) (ar_repository_id r) (state_hash_of (ix_store env) s))
     (\<lambda>_ d. at_active env r s e d \<and> binding_there env r s d) (at_active env r s e)"
    by (intro binding_triple) (auto simp: at_active_def binding_there_def bound_to_def)
  then show "crash_triple (at_active env r s e)
     (write_run_binding (run_id s) (ar_repository_id r) (state_hash_of (ix_store env) s))
     (\<lambda>_. at_active env r s e) (at_active env r s e)"
    by (rule crash_weaken) simp_all
qed

lemma valid_digests:
  assumes "activation_valid env r s"
  shows "require_identifier (ar_repository_id r)" "require_identifier (ar_reservation_id r)"
    "is_sha256 (ar_challenge_hash r)" "is_sha256 (ar_input_hash r)"
    "lower (ar_challenge_hash r) = ar_challenge_hash r" "lower (ar_input_hash r) = ar_input_hash r"
    "is_sha256 (ar_expected_hash r)" "lower (ar_expected_hash r) = ar_expected_hash r"
    "1 \<le> ar_expected_revision r" "pi_repository_id (ar_reference r) = ar_repository_id r"
    "pi_reservation_id (ar_reference r) = ar_reservation_id r"
proof -
  have v: "preparation_input_ref_valid (ar_reference r)" "require_identifier (ar_repository_id r)"
    "require_identifier (ar_reservation_id r)"
    "activation_request_checked (ix_store env) (ix_context env) r = Some r"
    using assms by (simp_all add: activation_valid_def)
  then show "require_identifier (ar_repository_id r)" "require_identifier (ar_reservation_id r)" by simp_all
  show "is_sha256 (ar_challenge_hash r)" "is_sha256 (ar_input_hash r)"
    "lower (ar_challenge_hash r) = ar_challenge_hash r" "lower (ar_input_hash r) = ar_input_hash r"
    using v(1) by (simp_all add: preparation_input_ref_valid_def lower_sha256_def ar_challenge_hash_def
        ar_input_hash_def is_sha256_def)
  have "r\<lparr>ar_expected_hash := lower (ar_expected_hash r)\<rparr> = r" "sha256_pattern (ar_expected_hash r)"
    "1 \<le> ar_expected_revision r" "pi_repository_id (ar_reference r) = ar_repository_id r"
    "pi_reservation_id (ar_reference r) = ar_reservation_id r"
    using v(4) by (auto simp: activation_request_checked_def split: if_splits)
  then show "is_sha256 (ar_expected_hash r)" "lower (ar_expected_hash r) = ar_expected_hash r"
    "1 \<le> ar_expected_revision r" "pi_repository_id (ar_reference r) = ar_repository_id r"
    "pi_reservation_id (ar_reference r) = ar_reservation_id r"
    by (auto simp: is_sha256_def) (cases r, simp)
qed

lemma activation_entry_fits:
  assumes v: "activation_valid env r s" and "1 \<le> ie_revision e"
  shows "entry_fits (ix_iso env) (entry_of_activation env r s e) (ar_repository_id r)"
  using valid_digests [OF v] valid_state [OF v] assms(2)
  by (simp add: entry_fits_def entry_of_activation_def new_entry_def record_texts_ok_def timestamps_ok_def
      hash_is_sha256 state_hash_of_def)

lemma entry_triple:
  assumes v: "activation_valid env r s" and "1 \<le> ie_revision e"
  shows "crash_triple (\<lambda>d. at_pointer env r s e d \<and> binding_there env r s d)
    (save_entry (ar_repository_id r) (entry_of_activation env r s e)) (\<lambda>_. at_active env r s e) (at_pointer env r s e)"
  unfolding save_entry_def replace_json_def
proof (rule crash_durable, rule conjI)
  fix fs ns assume p: "at_pointer env r s e (fs, ns) \<and> binding_there env r s (fs, ns)"
  let ?path = "index_path (ar_repository_id r)" and ?e = "entry_of_activation env r s e"
  let ?fs = "fs(?path \<mapsto> Regular (canonical_json_bytes (index_entry_json ?e)))"
  from p show "at_pointer env r s e (fs, ns)" by simp
  have "\<exists>raw. fs ?path = Some (Regular raw)"
    using p by (auto simp: at_pointer_def entry_there_def load_entry_Some)
  then have "atomic_replace_json fs ?path (index_entry_json ?e) = Inr ?fs"
    by (auto simp: atomic_replace_json_Inr)
  moreover have "entry_there env r ?e (?fs, ns)"
    using activation_entry_fits [OF assms] by (simp add: entry_there_def load_entry_written)
  moreover have "?path \<notin> run_directories (run_id s)"
    using directory_ends(1) by blast
  ultimately show "\<exists>x fs'. map_sum id (Pair ()) (atomic_replace_json fs ?path (index_entry_json ?e)) = Inr (x, fs')
      \<and> at_active env r s e (fs', ns)"
    using p by (auto simp: at_pointer_def at_active_def directories_free_update journal_there_def
        context_there_def generation_there_def pointer_there_def binding_there_def bound_to_def first_path_def
        split: option.splits)
qed

lemma journal_result_completed:
  assumes v: "activation_valid env r s" and j: "canonical_journal j = canonical_journal (activation_intent env r)"
  shows "journal_result (completed_journal (entry_of_activation env r s e) j) = result_of_activation env r s e"
  using canonical_journal_members [OF j] valid_state [OF v] journal_hash_of_state [OF v j]
  by (simp add: journal_result_def completed_journal_def result_of_activation_def active_result_def
      entry_of_activation_def new_entry_def activation_intent_def)

lemma completion_triple:
  assumes v: "activation_valid env r s" and j: "canonical_journal j = canonical_journal (activation_intent env r)"
  shows "crash_triple (at_active env r s e)
    (complete_journal (ar_reservation_id r) j (entry_of_activation env r s e))
    (\<lambda>x d. x = result_of_activation env r s e \<and> at_end env r s e d) (at_active env r s e)"
proof -
  let ?j = "completed_journal (entry_of_activation env r s e) j" and ?path = "journal_path (ar_reservation_id r)"
  have bytes: "canonical_json_bytes (journal_envelope ?j)
      = canonical_json_bytes (journal_envelope (completed_journal (entry_of_activation env r s e) (activation_intent env r)))"
    by (rule journal_bytes_same)
      (use j in \<open>cases j; cases "activation_intent env r"; simp add: canonical_journal_def completed_journal_def\<close>)
  have save: "crash_triple (at_active env r s e) (save_journal (ar_reservation_id r) ?j)
      (\<lambda>_. at_end env r s e) (at_active env r s e)"
    unfolding save_journal_def replace_json_def
  proof (rule crash_durable, rule conjI)
    fix fs ns assume p: "at_active env r s e (fs, ns)"
    let ?fs = "fs(?path \<mapsto> Regular (canonical_json_bytes (journal_envelope ?j)))"
    have "atomic_replace_json fs ?path (journal_envelope ?j) = Inr ?fs"
      using p by (simp add: atomic_replace_json_Inr at_active_def journal_there_def)
    moreover have "?path \<notin> run_directories (run_id s)"
      using directory_ends(2) by blast
    ultimately show "\<exists>x fs'. map_sum id (Pair ()) (atomic_replace_json fs ?path (journal_envelope ?j)) = Inr (x, fs')
        \<and> at_end env r s e (fs', ns)"
      using p by (auto simp: at_end_def at_active_def directories_free_update journal_there_def entry_there_def
          context_there_def generation_there_def pointer_there_def binding_there_def bound_to_def first_path_def bytes
          split: option.splits)
  qed
  show ?thesis
    unfolding complete_journal_def Let_def completed_journal_def [symmetric]
    by (rule crash_bind [OF save], rule crash_return) (simp add: journal_result_completed [OF v j])
qed

subsection \<open>The whole activation\<close>

lemma under_way_stages:
  "at_journal env r s e d \<Longrightarrow> under_way env r s e d" "at_pointer env r s e d \<Longrightarrow> under_way env r s e d"
  "at_active env r s e d \<Longrightarrow> under_way env r s e d" "at_end env r s e d \<Longrightarrow> under_way env r s e d"
  "at_start env r s e d \<Longrightarrow> under_way env r s e d"
  by (simp_all add: under_way_def)

definition reserved_for :: "activation_request \<Rightarrow> index_entry \<Rightarrow> bool" where
  "reserved_for r e \<longleftrightarrow>
     1 \<le> ie_revision e \<and> ie_revision e = ar_expected_revision r \<and> ie_hash e = ar_expected_hash r
     \<and> (case ie_record e of
          Reserved _ held challenge_hash _ _ _ _ \<Rightarrow>
            held = ar_reservation_id r \<and> challenge_hash = lower (ar_challenge_hash r)
        | _ \<Rightarrow> False)"

lemma activation_journal:
  assumes v: "activation_valid env r s" and j: "canonical_journal j = canonical_journal (activation_intent env r)"
  shows "jn_repository_id j = ar_repository_id r" "jn_reservation_id j = ar_reservation_id r"
    "jn_challenge_hash j = lower (ar_challenge_hash r)" "jn_input_hash j = lower (ar_input_hash r)"
    "jn_outcome j = Outcome_Active" "jn_run_id j = Some (run_id s)" "jn_expected_revision j = ar_expected_revision r"
    "jn_expected_hash j = ar_expected_hash r" "jn_phase j = Prepared"
  using canonical_journal_members [OF j] valid_state [OF v] valid_digests [OF v]
  by (simp_all add: activation_intent_def)

lemma settle_reserved:
  assumes v: "activation_valid env r s" and j: "canonical_journal j = canonical_journal (activation_intent env r)"
    and e: "reserved_for r e"
  shows "crash_triple (at_journal env r s e) (settle_active env r j (run_id s) (Some e))
      (\<lambda>x d. x = result_of_activation env r s e \<and> at_end env r s e d) (under_way env r s e)"
    "crash_triple (at_pointer env r s e) (settle_active env r j (run_id s) (Some e))
      (\<lambda>x d. x = result_of_activation env r s e \<and> at_end env r s e d) (under_way env r s e)"
proof -
  let ?Q = "\<lambda>x d. x = result_of_activation env r s e \<and> at_end env r s e d"
  note m = activation_journal [OF v j]
  have rev: "1 \<le> ie_revision e" using e by (simp add: reserved_for_def)
  obtain a b c x y z where rec: "ie_record e = Reserved a (ar_reservation_id r) b c x y z"
    using e by (auto simp: reserved_for_def split: index_record.splits)
  have tail: "crash_triple (\<lambda>d. g = first_generation env s \<and> at_pointer env r s e d)
      (bind_op (write_run_binding (run_id s) (ar_repository_id r) (sg_state_hash g)) (\<lambda>_.
         let e' = new_entry (ie_revision e + 1)
                    (Activated (ar_repository_id r) (ar_reservation_id r) (jn_challenge_hash j) (jn_input_hash j)
                      (run_id s) (sg_state_hash g))
         in bind_op (save_entry (ar_repository_id r) e') (\<lambda>_. complete_journal (ar_reservation_id r) j e')))
      ?Q (under_way env r s e)" for g
  proof (cases "g = first_generation env s")
    case True
    have "crash_triple (at_pointer env r s e)
      (bind_op (write_run_binding (run_id s) (ar_repository_id r) (state_hash_of (ix_store env) s)) (\<lambda>_.
         bind_op (save_entry (ar_repository_id r) (entry_of_activation env r s e))
           (\<lambda>_. complete_journal (ar_reservation_id r) j (entry_of_activation env r s e)))) ?Q (under_way env r s e)"
      by (rule crash_bind [OF crash_weaken [OF binding_of_stage(1)]],
          assumption, assumption, erule under_way_stages,
          rule crash_bind [OF crash_weaken [OF entry_triple [OF v rev]]],
          assumption, assumption, erule under_way_stages,
          rule crash_weaken [OF completion_triple [OF v j]], assumption, assumption, erule under_way_stages)
    with True show ?thesis by (simp add: m Let_def entry_of_activation_def)
  qed (simp add: crash_triple_def)
  have rest: "crash_triple (\<lambda>d. g = first_generation env s \<and> at_pointer env r s e d)
      (bind_op (write_run_binding (run_id s) (ar_repository_id r) (sg_state_hash g)) (\<lambda>_.
         case Some e of
          None \<Rightarrow> raise_op Index_Corrupt
        | Some e \<Rightarrow>
            (case ie_record e of
               Reserved _ held _ _ _ _ _ \<Rightarrow>
                 if held \<noteq> ar_reservation_id r then raise_op Index_Corrupt
                 else
                   (let e' = new_entry (ie_revision e + 1)
                          (Activated (ar_repository_id r) (ar_reservation_id r) (jn_challenge_hash j) (jn_input_hash j)
                            (run_id s) (sg_state_hash g))
                    in bind_op (save_entry (ar_repository_id r) e') (\<lambda>_. complete_journal (ar_reservation_id r) j e'))
             | Activated _ held _ _ active initial \<Rightarrow>
                 if active \<noteq> run_id s \<or> held \<noteq> ar_reservation_id r \<or> initial \<noteq> sg_state_hash g
                 then raise_op Index_Corrupt else complete_journal (ar_reservation_id r) j e
             | Unselected _ _ _ _ _ \<Rightarrow> raise_op Index_Corrupt))) ?Q (under_way env r s e)" for g
    using tail [of g] by (simp add: rec)
  show "crash_triple (at_journal env r s e) (settle_active env r j (run_id s) (Some e)) ?Q (under_way env r s e)"
    unfolding settle_active_def Let_def m(1,2)
    by (rule crash_bind [OF crash_weaken [OF context_of_journal(1) [OF v j]]],
        assumption, assumption, erule under_way_stages,
        rule crash_bind [OF crash_weaken [OF new_state_triple [OF v j]]],
        assumption, assumption, erule under_way_stages, rule rest [unfolded Let_def])
  have stored: "crash_triple (at_pointer env r s e) (persist_initial_state env r j)
      (\<lambda>g d. g = first_generation env s \<and> at_pointer env r s e d) (at_pointer env r s e)"
    by (rule stored_state_triple [OF v j]) (simp add: at_pointer_def, erule stages_at_directory(2) [rotated])
  show "crash_triple (at_pointer env r s e) (settle_active env r j (run_id s) (Some e)) ?Q (under_way env r s e)"
    unfolding settle_active_def Let_def m(1,2)
    by (rule crash_bind [OF crash_weaken [OF context_of_journal(2) [OF v j]]],
        assumption, assumption, erule under_way_stages,
        rule crash_bind [OF crash_weaken [OF stored]],
        assumption, assumption, erule under_way_stages, rule rest [unfolded Let_def])
qed

lemma settle_activated:
  assumes v: "activation_valid env r s" and j: "canonical_journal j = canonical_journal (activation_intent env r)"
  shows "crash_triple (at_active env r s e)
      (settle_active env r j (run_id s) (Some (entry_of_activation env r s e)))
      (\<lambda>x d. x = result_of_activation env r s e \<and> at_end env r s e d) (under_way env r s e)"
proof -
  let ?Q = "\<lambda>x d. x = result_of_activation env r s e \<and> at_end env r s e d"
  let ?e = "entry_of_activation env r s e"
  note m = activation_journal [OF v j]
  have rec: "ie_record ?e = Activated (ar_repository_id r) (ar_reservation_id r) (lower (ar_challenge_hash r))
      (lower (ar_input_hash r)) (run_id s) (state_hash_of (ix_store env) s)"
    by (simp add: entry_of_activation_def new_entry_def)
  have stored: "crash_triple (at_active env r s e) (persist_initial_state env r j)
      (\<lambda>g d. g = first_generation env s \<and> at_active env r s e d) (at_active env r s e)"
    by (rule stored_state_triple [OF v j]) (simp add: at_active_def, erule stages_at_directory(3) [rotated])
  have rest: "crash_triple (\<lambda>d. g = first_generation env s \<and> at_active env r s e d)
      (bind_op (write_run_binding (run_id s) (ar_repository_id r) (sg_state_hash g)) (\<lambda>_.
         if run_id s \<noteq> run_id s \<or> ar_reservation_id r \<noteq> ar_reservation_id r
            \<or> state_hash_of (ix_store env) s \<noteq> sg_state_hash g
         then raise_op Index_Corrupt else complete_journal (ar_reservation_id r) j ?e)) ?Q (under_way env r s e)" for g
  proof (cases "g = first_generation env s")
    case True
    have "crash_triple (at_active env r s e)
      (bind_op (write_run_binding (run_id s) (ar_repository_id r) (state_hash_of (ix_store env) s)) (\<lambda>_.
         complete_journal (ar_reservation_id r) j ?e)) ?Q (under_way env r s e)"
      by (rule crash_bind [OF crash_weaken [OF binding_of_stage(2)]],
          assumption, assumption, erule under_way_stages,
          rule crash_weaken [OF completion_triple [OF v j]], assumption, assumption, erule under_way_stages)
    with True show ?thesis by simp
  qed (simp add: crash_triple_def)
  show ?thesis
    unfolding settle_active_def Let_def m(1,2)
    by (rule crash_bind [OF crash_weaken [OF context_of_journal(3) [OF v j]]],
        assumption, assumption, erule under_way_stages,
        rule crash_bind [OF crash_weaken [OF stored]],
        assumption, assumption, erule under_way_stages)
      (use rest in \<open>simp add: rec del: first_generation_simps\<close>)
qed

lemma complete_triple:
  assumes v: "activation_valid env r s" and j: "canonical_journal j = canonical_journal (activation_intent env r)"
    and e: "reserved_for r e"
  shows "crash_triple (\<lambda>d. at_journal env r s e d \<or> at_pointer env r s e d \<or> at_active env r s e d)
      (complete_prepared_activation env r j)
      (\<lambda>x d. x = result_of_activation env r s e \<and> at_end env r s e d) (under_way env r s e)"
proof -
  let ?Q = "\<lambda>x d. x = result_of_activation env r s e \<and> at_end env r s e d"
  note m = activation_journal [OF v j]
  have holds: "reservation_holds j e" "reservation_holds j (entry_of_activation env r s e)"
    using e m by (auto simp: reservation_holds_def reserved_for_def entry_of_activation_def new_entry_def
        split: index_record.splits)
  have part: "crash_triple P (complete_prepared_activation env r j) ?Q (under_way env r s e)"
    if P: "\<And>d. P d \<Longrightarrow> entry_there env r x d" and h: "reservation_holds j x"
      and s: "crash_triple P (settle_active env r j (run_id s) (Some x)) ?Q (under_way env r s e)" for P x
  proof -
    have read: "crash_triple P (read_entry env (ar_repository_id r)) (\<lambda>y d. y = Some x \<and> P d) (under_way env r s e)"
      unfolding read_entry_def
    proof (rule crash_reading)
      fix w assume "P (disk_of w)"
      with P [OF this] show "\<exists>y. load_entry env (ar_repository_id r) (iw_files w) = Inr y \<and> y = Some x \<and> P (disk_of w)"
        by (simp add: entry_there_def disk_of_def)
    qed
    have "crash_triple (\<lambda>d. y = Some x \<and> P d)
        (bind_op (require_op (opt_all (reservation_holds j) y) Reservation_Mismatch)
          (\<lambda>_. settle_active env r j (run_id s) y)) ?Q (under_way env r s e)" for y
      using s h by (cases "y = Some x") (simp, simp add: crash_triple_def)
    then show ?thesis
      unfolding complete_prepared_activation_def m by (simp add: crash_bind [OF read])
  qed
  have journal: "crash_triple (at_journal env r s e) (complete_prepared_activation env r j) ?Q (under_way env r s e)"
    by (rule part [OF _ holds(1) settle_reserved(1) [OF v j e]]) (simp add: at_journal_def)
  have pointer: "crash_triple (at_pointer env r s e) (complete_prepared_activation env r j) ?Q (under_way env r s e)"
    by (rule part [OF _ holds(1) settle_reserved(2) [OF v j e]]) (simp add: at_pointer_def)
  have active: "crash_triple (at_active env r s e) (complete_prepared_activation env r j) ?Q (under_way env r s e)"
    by (rule part [OF _ holds(2) settle_activated [OF v j]]) (simp add: at_active_def)
  have "crash_triple (\<lambda>d. at_journal env r s e d \<or> at_pointer env r s e d)
      (complete_prepared_activation env r j) ?Q (under_way env r s e)"
    by (rule crash_cases [OF _ journal pointer])
  then show ?thesis
    by (rule crash_cases [OF _ _ active, rotated]) blast
qed

subsection \<open>The journal reads back\<close>

lemma reference_back:
  assumes "activation_valid env r s"
  shows "json_wf (py_dump (ix_reference env) (ar_reference r))"
    "reference_of env (canonical_value (py_dump (ix_reference env) (ar_reference r))) = Some (ar_reference r)"
  using assms by (simp_all add: activation_valid_def)

lemma state_back:
  assumes "activation_valid env r s"
  shows "json_wf (se_dump (ix_store env) s)" "se_parse (ix_store env) (canonical_value (se_dump (ix_store env) s)) = Some s"
    "\<exists>kvs. se_dump (ix_store env) s = JObj kvs"
  using valid_state(2) [OF assms] by (simp_all add: dump_ok_def)

lemma valid_context_fits:
  assumes "activation_valid env r s" and "ar_context r = Some c"
  shows "context_fits_state c r s"
  using assms valid_state(7,8) [OF assms(1)]
  by (auto simp: activation_valid_def activation_request_checked_def split: if_splits option.splits)

lemma no_context_hash:
  assumes "activation_valid env r s" and "ar_context r = None"
  shows "ar_context_hash r = None"
  using assms valid_state(7,8) [OF assms(1)]
  by (auto simp: activation_valid_def activation_request_checked_def split: if_splits option.splits)

lemma intent_wf: "activation_valid env r s \<Longrightarrow> journal_wf (activation_intent env r)"
  using reference_back(1) state_back(1) valid_context(1) valid_state(8)
  by (auto simp: journal_wf_def activation_intent_def dump_state_def dump_context_def split: option.splits)

lemma canonical_null [simp]: "canonical_value v = JNull \<longleftrightarrow> v = JNull"
  by (cases v) (simp_all add: canonical_value.simps(2))

lemma intent_published:
  assumes v: "activation_valid env r s"
  shows "run_published env (ar_reference r) (canonical_journal (activation_intent env r))"
proof -
  note s = valid_state [OF v]
  have h: "jn_initial_hash (activation_intent env r) = state_hash_of (ix_store env) s"
    by (rule journal_hash_of_state [OF v refl])
  show ?thesis
  proof (cases "ar_context r")
    case None
    with no_context_hash [OF v None] s h state_back [OF v] show ?thesis
      by (simp add: run_published_def canonical_journal_def activation_intent_def dump_state_def dump_context_def
          json_opt_def)
  next
    case (Some c)
    note c = valid_context [OF v Some] valid_context_fits [OF v Some]
    have "py_dump (ix_context env) c \<noteq> JNull" using c(2) by auto
    with c s h state_back [OF v] Some show ?thesis
      by (simp add: run_published_def canonical_journal_def activation_intent_def dump_state_def dump_context_def
          json_opt_def context_fits_state_def)
  qed
qed

lemma intent_ok:
  assumes v: "activation_valid env r s"
  shows "journal_ok env (canonical_journal (activation_intent env r))"
proof -
  have p: "pi_challenge_hash (ar_reference r) = ar_challenge_hash r" "pi_input_hash (ar_reference r) = ar_input_hash r"
    by (simp_all add: ar_challenge_hash_def ar_input_hash_def)
  show ?thesis
    using valid_digests [OF v] reference_back [OF v] intent_published [OF v] journal_hash_of_state [OF v refl] p
    by (simp add: journal_ok_def activation_journal [OF v refl] canonical_journal_def hash_is_sha256 state_hash_of_def)
      (simp add: activation_intent_def)
qed

lemma run_published_frame:
  assumes "jn_outcome j = jn_outcome j'" "jn_run_id j = jn_run_id j'" "jn_initial_state j = jn_initial_state j'"
    "jn_repository_id j = jn_repository_id j'" "jn_initial_hash j = jn_initial_hash j'"
    "jn_context j = jn_context j'" "jn_context_hash j = jn_context_hash j'"
  shows "run_published env reference j = run_published env reference j'"
  unfolding run_published_def assms ..

end
