(* ===== verification/Activation_Replay.thy ===== *)
theory Activation_Replay
  imports Activation_Recovery
begin

section \<open>An activation that is interrupted and repeated\<close>

text \<open>
  \<^verbatim>\<open>activate_reservation\<close> from any stage of its own activation: it returns the active record
  of the run, or the process dies on a disk that is a stage again.  By induction, however
  often the process dies, the attempt that is not interrupted returns that record.
\<close>

subsection \<open>The first attempt\<close>

lemma reserved_shape:
  assumes "reserved_for r e"
  obtains repository issued expires host pid where
    "ie_record e = Reserved repository (ar_reservation_id r) (lower (ar_challenge_hash r)) issued expires host pid"
    "ie_revision e = ar_expected_revision r" "ie_hash e = ar_expected_hash r"
  using assms by (auto simp: reserved_for_def split: index_record.splits)

lemma start_unused:
  assumes v: "activation_valid env r s"
  shows "crash_triple (at_start env r s e) (assert_run_id_unused env (run_id s) repository)
    (\<lambda>_. at_start env r s e) C"
proof -
  have "crash_triple (at_start env r s e) (reading (\<lambda>w.
       case bind_result (path_lstat (iw_files w) (run_binding_path (run_id s))) (\<lambda>binding.
              bind_result (run_directory_exists (iw_files w) (run_id s)) (\<lambda>exists. Inr (binding, exists))) of
         Inl Bad_Argument \<Rightarrow> Inl Invalid_Value
       | Inl _ \<Rightarrow> Inl Index_Corrupt
       | Inr x \<Rightarrow> Inr x))
     (\<lambda>x d. x = (None, False) \<and> at_start env r s e d) C"
    by (rule crash_reading)
      (use valid_state(10) [OF v] in \<open>auto simp: at_start_def disk_of_def path_lstat_def run_directory_exists_def
        directories_free_def run_directories_def\<close>)
  then show ?thesis
    unfolding assert_run_id_unused_def
  proof (rule crash_bind)
    fix x :: "entry option \<times> bool"
    show "crash_triple (\<lambda>d. x = (None, False) \<and> at_start env r s e d)
      (case x of (binding, exists) \<Rightarrow>
         if binding \<noteq> None then raise_op Run_Id_Used
         else if \<not> exists then return_op ()
         else
           bind_op (open_store (run_id s)) (\<lambda>_.
           bind_op (store_reading (\<lambda>w. load_optional (store_of (ix_store env) w (run_id s)) False)) (\<lambda>current.
             case current of
               None \<Rightarrow> raise_op Run_Id_Used
             | Some g \<Rightarrow>
                 if run_id (sg_state g) \<noteq> run_id s \<or> repository_id (sg_state g) \<noteq> repository
                 then raise_op State_Mismatch else raise_op Run_Id_Used)))
      (\<lambda>_. at_start env r s e) C"
      by (cases "x = (None, False)") (simp add: crash_return, simp add: crash_triple_def)
  qed
qed

lemma journal_saved:
  "crash_triple (at_start env r s e) (save_journal (ar_reservation_id r) (activation_intent env r))
     (\<lambda>_. at_journal env r s e) (at_start env r s e)"
  unfolding save_journal_def replace_json_def
proof (rule crash_durable, rule conjI)
  fix fs ns assume p: "at_start env r s e (fs, ns)"
  let ?path = "journal_path (ar_reservation_id r)" and ?v = "journal_envelope (activation_intent env r)"
  have "atomic_replace_json fs ?path ?v = Inr (fs(?path \<mapsto> Regular (canonical_json_bytes ?v)))"
    using p by (simp add: atomic_replace_json_Inr at_start_def)
  moreover have "?path \<notin> run_directories (run_id s)"
    using directory_ends(2) by blast
  ultimately show "\<exists>x fs'. map_sum id (Pair ()) (atomic_replace_json fs ?path ?v) = Inr (x, fs')
      \<and> at_journal env r s e (fs', ns)"
    using p by (auto simp: at_start_def at_journal_def directories_free_update journal_there_def entry_there_def
        context_free_def generation_free_def)
qed

lemma read_reserved:
  "crash_triple (at_start env r s e) (read_entry env (ar_repository_id r))
     (\<lambda>x d. x = Some e \<and> at_start env r s e d) C"
  unfolding read_entry_def by (rule crash_reading) (auto simp: at_start_def entry_there_def disk_of_def)

lemma no_journal_yet:
  "crash_triple (at_start env r s e) (read_journal env (ar_reservation_id r))
     (\<lambda>x d. x = None \<and> at_start env r s e d) C"
  unfolding read_journal_def
  by (rule crash_reading) (auto simp: at_start_def disk_of_def load_journal_def path_lstat_def)

lemma crash_known:
  assumes "crash_triple P (m x) Q C"
  shows "crash_triple (\<lambda>d. y = x \<and> P d) (m y) Q C"
  using assms by (cases "y = x") (simp, simp add: crash_triple_def)

lemma first_attempt:
  assumes v: "activation_valid env r s" and e: "reserved_for r e"
  shows "crash_triple (at_start env r s e) (activate_locked env r)
    (\<lambda>x d. x = result_of_activation env r s e \<and> at_end env r s e d) (under_way env r s e)"
proof -
  let ?Q = "\<lambda>x d. x = result_of_activation env r s e \<and> at_end env r s e d"
  let ?intent = "activation_intent env r"
  note s = valid_state [OF v]
  obtain repository issued expires host pid where rec:
      "ie_record e = Reserved repository (ar_reservation_id r) (lower (ar_challenge_hash r)) issued expires host pid"
    and rev: "ie_revision e = ar_expected_revision r" "ie_hash e = ar_expected_hash r"
    by (rule reserved_shape [OF e])
  have save: "crash_triple (at_start env r s e)
      (bind_op (save_journal (ar_reservation_id r) ?intent) (\<lambda>_. complete_prepared_activation env r ?intent))
      ?Q (under_way env r s e)"
    by (rule crash_bind [OF crash_weaken [OF journal_saved]], assumption, assumption, erule under_way_stages,
        rule crash_weaken [OF complete_triple [OF v refl e]]) simp_all
  have unused: "crash_triple (at_start env r s e)
      (bind_op (bind_op (assert_run_id_unused env (run_id s) (ar_repository_id r))
          (\<lambda>_. validate_preparation_initial_state env r s)) (\<lambda>_.
       bind_op (save_journal (ar_reservation_id r) ?intent) (\<lambda>_. complete_prepared_activation env r ?intent)))
      ?Q (under_way env r s e)"
    unfolding s(6) bind_op_simps
    by (rule crash_bind [OF crash_bind [OF start_unused [OF v] crash_return]], assumption, rule save)
  show ?thesis
    unfolding activate_locked_def Let_def
    by (rule crash_bind [OF no_journal_yet], rule crash_known, simp,
        rule crash_bind [OF read_reserved], rule crash_known)
      (use unused in \<open>simp add: rec rev s activation_journal [OF v refl] del: bind_op_simps\<close>)
qed

subsection \<open>The next attempts\<close>

abbreviation journal_stage :: "index_env \<Rightarrow> activation_request \<Rightarrow> run_state \<Rightarrow> index_entry \<Rightarrow> index_disk \<Rightarrow> bool" where
  "journal_stage env r s e d \<equiv> at_journal env r s e d \<or> at_pointer env r s e d \<or> at_active env r s e d"

lemma same_intent_canonical: "same_intent (canonical_journal j) j"
  by (simp add: same_intent_def canonical_journal_def same_value_def)

lemma intent_loads:
  assumes v: "activation_valid env r s" and d: "journal_there r (activation_intent env r) d"
  shows "load_journal env (ar_reservation_id r) (fst d) = Inr (Some (canonical_journal (activation_intent env r)))"
  using d activation_journal(2) [OF v refl]
  by (intro load_journal_written) (simp_all add: journal_there_def intent_wf [OF v] intent_ok [OF v])

lemma next_attempt:
  assumes v: "activation_valid env r s" and e: "reserved_for r e"
  shows "crash_triple (journal_stage env r s e) (activate_locked env r)
    (\<lambda>x d. x = result_of_activation env r s e \<and> at_end env r s e d) (under_way env r s e)"
proof -
  let ?Q = "\<lambda>x d. x = result_of_activation env r s e \<and> at_end env r s e d"
  let ?j = "canonical_journal (activation_intent env r)"
  have read: "crash_triple (journal_stage env r s e) (read_journal env (ar_reservation_id r))
      (\<lambda>x d. x = Some ?j \<and> journal_stage env r s e d) (under_way env r s e)"
    unfolding read_journal_def
  proof (rule crash_reading)
    fix w assume d: "journal_stage env r s e (disk_of w)"
    then have "journal_there r (activation_intent env r) (disk_of w)"
      by (auto simp: at_journal_def at_pointer_def at_active_def)
    from intent_loads [OF v this] d
    show "\<exists>x. load_journal env (ar_reservation_id r) (iw_files w) = Inr x \<and> x = Some ?j
        \<and> journal_stage env r s e (disk_of w)"
      by (simp add: disk_of_def)
  qed
  have j: "canonical_journal ?j = canonical_journal (activation_intent env r)" by simp
  have "crash_triple (journal_stage env r s e) (complete_prepared_activation env r ?j) ?Q (under_way env r s e)"
    by (rule complete_triple [OF v j e])
  then show ?thesis
    unfolding activate_locked_def Let_def
    by (intro crash_bind [OF read] crash_known)
      (simp add: same_intent_canonical activation_journal(9) [OF v j])
qed

lemma hash_is_lower: "lower_sha256 (hash_json v)"
  by (simp add: lower_sha256_def hash_is_sha256 is_sha256_def [symmetric])

lemma completed_ok:
  assumes v: "activation_valid env r s" and n: "1 \<le> ie_revision e"
  shows "journal_ok env (canonical_journal (completed_journal (entry_of_activation env r s e) (activation_intent env r)))"
proof -
  let ?c = "canonical_journal (completed_journal (entry_of_activation env r s e) (activation_intent env r))"
  have "run_published env (ar_reference r) ?c = run_published env (ar_reference r) (canonical_journal (activation_intent env r))"
    by (rule run_published_frame) (simp_all add: canonical_journal_def completed_journal_def)
  with intent_published [OF v] have "run_published env (ar_reference r) ?c" by simp
  moreover have p: "pi_challenge_hash (ar_reference r) = ar_challenge_hash r" "pi_input_hash (ar_reference r) = ar_input_hash r"
    by (simp_all add: ar_challenge_hash_def ar_input_hash_def)
  ultimately show ?thesis
    using valid_digests [OF v] reference_back [OF v] journal_hash_of_state [OF v refl] n
    by (simp add: journal_ok_def activation_journal [OF v refl] canonical_journal_def completed_journal_def
        hash_is_sha256 state_hash_of_def entry_of_activation_def new_entry_def)
      (simp add: activation_intent_def hash_is_lower)
qed

lemma completed_loads:
  assumes v: "activation_valid env r s" and n: "1 \<le> ie_revision e"
    and d: "journal_there r (completed_journal (entry_of_activation env r s e) (activation_intent env r)) d"
  shows "load_journal env (ar_reservation_id r) (fst d)
    = Inr (Some (canonical_journal (completed_journal (entry_of_activation env r s e) (activation_intent env r))))"
  using d activation_journal(2) [OF v refl] intent_wf [OF v]
  by (intro load_journal_written completed_ok [OF v n])
    (simp_all add: journal_there_def completed_journal_def journal_wf_def)

lemma context_verified:
  assumes v: "activation_valid env r s" and j: "jn_context j = canonical_value (dump_context env (ar_context r))"
    "jn_context_hash j = json_opt (ar_context_hash r)" "jn_run_id j = Some (run_id s)"
  shows "crash_triple (at_end env r s e) (verify_persisted_context env j) (\<lambda>_. at_end env r s e) C"
proof (cases "ar_context r")
  case None
  with j no_context_hash [OF v None] show ?thesis
    by (simp add: verify_persisted_context_def dump_context_def json_opt_def crash_return)
next
  case (Some c)
  note c = valid_context [OF v Some] valid_context_fits [OF v Some] valid_state(7) [OF v]
  let ?p = "py_dump (ix_context env) c"
  obtain kvs where k: "canonical_value ?p = JObj kvs"
    using c(2) canonical_object_shape by metis
  have h: "hash_json (JObj kvs) = hash_json ?p"
    by (metis k hash_json_value)
  have "pc_run_id c = run_id s" using c by (simp add: context_fits_state_def)
  then show ?thesis
    unfolding verify_persisted_context_def j dump_context_def Some c(4)
    by (simp add: json_opt_def k, intro crash_reading)
      (use context_reads_back [OF _ c(1)] c(3) in \<open>simp add: k h at_end_def context_there_def Some disk_of_def same_value_def\<close>)
qed

lemma last_attempt:
  assumes v: "activation_valid env r s" and n: "1 \<le> ie_revision e"
  shows "crash_triple (at_end env r s e) (activate_locked env r)
    (\<lambda>x d. x = result_of_activation env r s e \<and> at_end env r s e d) (under_way env r s e)"
proof -
  let ?Q = "\<lambda>x d. x = result_of_activation env r s e \<and> at_end env r s e d"
  let ?c = "completed_journal (entry_of_activation env r s e) (activation_intent env r)"
  let ?j = "canonical_journal ?c"
  have read: "crash_triple (at_end env r s e) (read_journal env (ar_reservation_id r))
      (\<lambda>x d. x = Some ?j \<and> at_end env r s e d) (under_way env r s e)"
    unfolding read_journal_def
  proof (rule crash_reading)
    fix w assume d: "at_end env r s e (disk_of w)"
    then have "journal_there r ?c (disk_of w)" by (simp add: at_end_def)
    from completed_loads [OF v n this] d
    show "\<exists>x. load_journal env (ar_reservation_id r) (iw_files w) = Inr x \<and> x = Some ?j \<and> at_end env r s e (disk_of w)"
      by (simp add: disk_of_def)
  qed
  have f: "jn_context ?j = canonical_value (dump_context env (ar_context r))"
    "jn_context_hash ?j = json_opt (ar_context_hash r)" "jn_run_id ?j = Some (run_id s)"
    "jn_phase ?j = Completed" "same_intent ?j (activation_intent env r)"
    using valid_state(7) [OF v]
    by (simp_all add: canonical_journal_def completed_journal_def activation_intent_def same_intent_def same_value_def)
  have result: "journal_result ?j = result_of_activation env r s e"
    unfolding journal_result_completed [OF v refl, symmetric] by (simp add: journal_result_def canonical_journal_def)
  have replay: "crash_triple (at_end env r s e) (replay_completed env ?j) ?Q (under_way env r s e)"
    unfolding replay_completed_def result
    by (rule crash_bind [where R = "\<lambda>_. at_end env r s e"], rule crash_weaken [where Q = "\<lambda>_. at_end env r s e"
          and C = "under_way env r s e" and P = "at_end env r s e"])
      (auto intro: context_verified [OF v f(1-3)] crash_return)
  then show ?thesis
    unfolding activate_locked_def Let_def
    by (intro crash_bind [OF read] crash_known) (simp add: f)
qed

lemma locked_attempt:
  assumes v: "activation_valid env r s" and e: "reserved_for r e"
  shows "crash_triple (under_way env r s e) (activate_locked env r)
    (\<lambda>x d. x = result_of_activation env r s e \<and> at_end env r s e d) (under_way env r s e)"
proof -
  have n: "1 \<le> ie_revision e" using e by (simp add: reserved_for_def)
  have "crash_triple (\<lambda>d. at_start env r s e d \<or> journal_stage env r s e d) (activate_locked env r)
    (\<lambda>x d. x = result_of_activation env r s e \<and> at_end env r s e d) (under_way env r s e)"
    by (rule crash_cases [OF _ first_attempt [OF v e] next_attempt [OF v e]])
  then show ?thesis
    by (rule crash_cases [OF _ _ last_attempt [OF v n], rotated]) (auto simp: under_way_def)
qed

lemma input_verified:
  assumes "activation_valid env r s"
  obtains y where "verify_preparation_input env (ar_reference r) = return_op y"
  using assms by (auto simp: activation_valid_def verify_preparation_input_def split: option.splits)

lemma initial_hash_digest:
  assumes "activation_valid env r s"
  shows "case ar_initial_hash r of None \<Rightarrow> True | Some h \<Rightarrow> is_sha256 h"
  using assms
  by (auto simp: activation_valid_def activation_request_checked_def is_sha256_def split: if_splits option.splits)

lemma attempt_triple:
  assumes v: "activation_valid env r s" and e: "reserved_for r e"
  shows "crash_triple (under_way env r s e) (activate_reservation env r)
    (\<lambda>x d. x = result_of_activation env r s e \<and> at_end env r s e d) (under_way env r s e)"
proof -
  obtain y where y: "verify_preparation_input env (ar_reference r) = return_op y"
    by (rule input_verified [OF v])
  note d = valid_digests [OF v] valid_state [OF v] initial_hash_digest [OF v]
  have "activate_reservation env r = activate_locked env r"
    unfolding activate_reservation_def using d by (simp add: y)
  with locked_attempt [OF v e] show ?thesis by simp
qed

subsection \<open>Any number of interruptions\<close>

primrec interrupted_attempts :: "index_env \<Rightarrow> activation_request \<Rightarrow> nat list \<Rightarrow> index_world \<Rightarrow> index_world" where
  \<comment> \<open>each process asks for the activation and dies after so many writes, or is done\<close>
  "interrupted_attempts env r [] w = w"
| "interrupted_attempts env r (n # ns) w =
     interrupted_attempts env r ns (snd (activate_reservation env r (w\<lparr>iw_writes := Some n\<rparr>)))"

lemma disk_of_writes [simp]: "disk_of (w\<lparr>iw_writes := n\<rparr>) = disk_of w"
  by (simp add: disk_of_def)

lemma interruptions_stay_under_way:
  assumes v: "activation_valid env r s" and e: "reserved_for r e" and w: "under_way env r s e (disk_of w)"
  shows "under_way env r s e (disk_of (interrupted_attempts env r ns w))"
  using w
proof (induction ns arbitrary: w)
  case (Cons n ns)
  let ?w = "w\<lparr>iw_writes := Some n\<rparr>"
  have p: "under_way env r s e (disk_of ?w)" using Cons.prems by simp
  note t = crash_tripleD [OF attempt_triple [OF v e] p]
  have "under_way env r s e (disk_of (snd (activate_reservation env r ?w)))"
  proof (cases "activate_reservation env r ?w")
    case (Pair x w')
    then show ?thesis
      using t(1) [of "projr x" w'] t(2) [of "projl x" w'] by (cases x) (auto simp: under_way_def)
  qed
  from Cons.IH [OF this] show ?case by simp
qed simp

lemma entry_of_activation_kind: "ie_record (entry_of_activation env r s e) =
    Activated (ar_repository_id r) (ar_reservation_id r) (lower (ar_challenge_hash r)) (lower (ar_input_hash r))
      (run_id s) (state_hash_of (ix_store env) s)"
  by (simp add: entry_of_activation_def new_entry_def)

theorem activation_completes:
  assumes v: "activation_valid env r s" and e: "reserved_for r e" and w: "at_start env r s e (disk_of w)"
  obtains w' where
    "activate_reservation env r ((interrupted_attempts env r ns w)\<lparr>iw_writes := None\<rparr>)
      = (Inr (result_of_activation env r s e), w')"
    "lookup env (ar_repository_id r) w' = (Inr (Some (result_of_activation env r s e)), w')"
proof -
  let ?w = "(interrupted_attempts env r ns w)\<lparr>iw_writes := None\<rparr>"
  have p: "under_way env r s e (disk_of ?w)"
    using interruptions_stay_under_way [OF v e under_way_stages(5) [OF w]] by simp
  obtain x w' where x: "activate_reservation env r ?w = (x, w')" by fastforce
  from crash_tripleD [OF attempt_triple [OF v e] p] x
  have r: "x = Inr (result_of_activation env r s e)" and d: "at_end env r s e (disk_of w')"
    by (cases x; simp)+
  have "load_entry env (ar_repository_id r) (iw_files w') = Inr (Some (entry_of_activation env r s e))"
    using d by (simp add: at_end_def entry_there_def disk_of_def)
  then have "lookup env (ar_repository_id r) w' = (Inr (Some (result_of_activation env r s e)), w')"
    using valid_digests(1) [OF v]
    by (simp add: lookup_def bind_op_def read_entry_def reading_def return_op_def entry_of_activation_kind
        result_of_activation_def)
  with x r that show ?thesis by blast
qed

end
