(* ===== verification/Sample_Index.thy ===== *)
theory Sample_Index
  imports Activation_Replay Sample_Gateway
begin

section \<open>A run index with one run\<close>

text \<open>
  The concrete world of the properties of the run index: an empty index, the reservation of
  a repository in it, and a request that activates the reservation as a run in human
  review.  A time is written as a text of that length, a preparation reference as its number.
\<close>

definition sample_input :: preparation_input where
  "sample_input =
     \<lparr>pp_repository_id = ''p1'', pp_max_crew_iterations = 2,
      pp_assignee = \<lparr>is_status = RESOLVED, is_resolved_id = Some ''a1'', is_candidate_ids = []\<rparr>,
      pp_milestone = \<lparr>is_status = RESOLVED, is_resolved_id = Some ''m1'', is_candidate_ids = []\<rparr>,
      pp_pages = [], pp_page_hashes = [], pp_workflow_states = [(''s1'', ''Todo'')],
      pp_attestation = \<lparr>pa_bridge_identity = ''b1'', pa_mcp_server_identity = ''m1'', pa_tool_call_id = ''t1'',
        pa_captured_at = 1\<rparr>\<rparr>"

definition sample_reference_dump :: "preparation_input_ref \<Rightarrow> json" where
  "sample_reference_dump p = JObj [(''number'', JInt (int (to_nat p)))]"

definition sample_reference_parse :: "json \<Rightarrow> preparation_input_ref option" where
  "sample_reference_parse v = (case v of JObj [(_, JInt n)] \<Rightarrow> Some (from_nat (nat n)) | _ \<Rightarrow> None)"

definition sample_index_env :: index_env where
  "sample_index_env =
     \<lparr>ix_store = sample_env, ix_bracketed = (\<lambda>_. False), ix_iso = (\<lambda>t. Some (int (length t), Some 0)),
      ix_isoformat = (\<lambda>t. replicate (nat t) CHR ''x''),
      ix_reference = \<lparr>py_dump = sample_reference_dump, py_parse = sample_reference_parse\<rparr>,
      ix_claim = \<lparr>py_dump = (\<lambda>_. JNull), py_parse = (\<lambda>_. None)\<rparr>,
      ix_context = \<lparr>py_dump = (\<lambda>_. JNull), py_parse = (\<lambda>_. None)\<rparr>,
      ix_binding = \<lparr>py_dump = (\<lambda>_. JNull), py_parse = (\<lambda>_. None)\<rparr>,
      ix_input_verifier = Some (\<lambda>p. Some (p, sample_input)), ix_host = ''h1'', ix_pid = 1,
      ix_process_gone = (\<lambda>_. False), ix_public_key = [], ix_sign = (\<lambda>_. [])\<rparr>"

definition sample_reference :: preparation_input_ref where
  "sample_reference =
     \<lparr>pi_input_id = sample_uuid, pi_relative_path = ''trusted-mcp/preparation/i1'', pi_repository_id = ''p1'',
      pi_reservation_id = ''v1'', pi_challenge_hash = hash_json (JStr ''c1''), pi_input_hash = sample_digest,
      pi_query_hash = sample_digest, pi_payload_hash = sample_digest, pi_result_hash = sample_digest,
      pi_source_page_hashes = [], pi_pagination_complete = True, pi_max_crew_iterations = 2,
      pi_bridge_identity = ''b1'', pi_mcp_server_identity = ''m1'', pi_tool_call_id = ''t1'', pi_captured_at = 1,
      pi_observations = [], pi_bridge_signature = Some sample_digest\<rparr>"

definition sample_reserved :: index_entry where
  "sample_reserved =
     new_entry 1 (Reserved ''p1'' ''v1'' (hash_json (JStr ''c1'')) [] (replicate (nat 300000000) CHR ''x'') ''h1'' 1)"

definition sample_activation :: activation_request where
  "sample_activation =
     \<lparr>ar_reservation_id = ''v1'', ar_repository_id = ''p1'', ar_expected_revision = 1,
      ar_expected_hash = ie_hash sample_reserved, ar_reference = sample_reference, ar_run_id = Some ''r1'',
      ar_initial_state = Some sample_review, ar_initial_hash = Some (state_hash_of sample_env sample_review),
      ar_context = None, ar_context_hash = None\<rparr>"

definition empty_index :: index_world where
  "empty_index = \<lparr>iw_files = (\<lambda>_. None), iw_names = (\<lambda>_. []), iw_writes = None\<rparr>"

definition reserved_index :: index_world where
  "reserved_index =
     empty_index\<lparr>iw_files := [index_path ''p1'' \<mapsto> Regular (canonical_json_bytes (index_entry_json sample_reserved))]\<rparr>"

lemma sample_index_fields [simp]:
  "ix_store sample_index_env = sample_env" "ix_iso sample_index_env = (\<lambda>t. Some (int (length t), Some 0))"
  "ix_isoformat sample_index_env = (\<lambda>t. replicate (nat t) CHR ''x'')"
  "ix_reference sample_index_env = \<lparr>py_dump = sample_reference_dump, py_parse = sample_reference_parse\<rparr>"
  "ix_input_verifier sample_index_env = Some (\<lambda>p. Some (p, sample_input))"
  "ix_host sample_index_env = ''h1''" "ix_pid sample_index_env = 1"
  by (simp_all add: sample_index_env_def)

lemma index_identifiers [simp]:
  "require_identifier ''v1''" "require_identifier ''h1''" "require_identifier ''p1''" "require_identifier ''p2''"
  by code_simp+

lemma sample_fits: "entry_fits (ix_iso sample_index_env) sample_reserved ''p1''"
  by (simp add: entry_fits_def sample_reserved_def new_entry_def record_texts_ok_def timestamps_ok_def
      reservation_timestamp_def max_datetime_def hash_is_sha256)

lemma sample_probe:
  "probe_or_reserve sample_index_env ''p1'' \<lparr>ro_host = ''h1'', ro_pid = 1\<rparr> (0, 0) (''v1'', ''c1'') empty_index
   = (Inr (Probe_Reserved \<lparr>rv_repository_id = ''p1'', rv_reservation_id = ''v1'',
        rv_challenge_hash = hash_json (JStr ''c1''), rv_revision = 1, rv_hash = ie_hash sample_reserved,
        rv_issued_at = 0, rv_expires_at = 300000000, rv_owner_host = ''h1'', rv_owner_pid = 1,
        rv_challenge = Some ''c1''\<rparr>), reserved_index)"
  by (simp add: probe_or_reserve_def Let_def bind_op_def require_op_def return_op_def read_entry_def reading_def
      load_entry_absent empty_index_def reservation_owner_ok_def create_reservation_def save_entry_def
      replace_json_def durable_def atomic_replace_json_def path_lstat_def spend_def reserved_index_def
      reservation_of_entry_def reservation_timestamp_def max_datetime_def sample_reserved_def new_entry_def)

subsection \<open>The request is valid\<close>

lemma sample_reference_back:
  "json_wf (sample_reference_dump p)" "sample_reference_parse (canonical_value (sample_reference_dump p)) = Some p"
  by (simp_all add: sample_reference_dump_def sample_reference_parse_def canonical_value.simps(2))

lemma sample_reference_texts:
  "reference_id ''v1''" "reference_id ''b1''" "reference_id ''m1''" "reference_id ''t1''"
  "safe_text ''v1''" "safe_text ''b1''" "safe_text ''m1''" "safe_text ''t1''"
  "evidence_path ''trusted-mcp/preparation/i1''"
proof -
  show "reference_id ''v1''" "reference_id ''b1''" "reference_id ''m1''" "reference_id ''t1''"
    "evidence_path ''trusted-mcp/preparation/i1''" by code_simp+
  show "safe_text ''v1''" "safe_text ''b1''" "safe_text ''m1''" "safe_text ''t1''"
    by (rule plain_safe(1), simp add: plain_simps)+
qed

lemma sample_reference_valid: "preparation_input_ref_valid sample_reference"
proof -
  have "fullmatch (Rep (Cls is_lower_hex) 64 0) sample_digest"
    by (simp add: exact_class_iff) (simp add: sample_digest_def list_all_iff is_lower_hex_def)
  then show ?thesis
    by (simp add: preparation_input_ref_valid_def sample_reference_def sample_reference_texts sample_texts
        digest_map_valid_def starts_with_def lower_sha256_def)
qed

lemma sample_activation_valid: "activation_valid sample_index_env sample_activation sample_review"
proof -
  have initial: "initial_snapshot sample_review = sample_review"
    by (simp add: initial_snapshot_def Let_def sample_review_def sample_start_def new_run_state_def
        has_preparation_binding_def)
  have review: "review_state ''r1'' ''T1'' ''p1'' 2 (None, None) (None, None) = sample_review"
    by (simp add: review_state_def sample_review_def sample_start_def new_run_state_def)
  have f: "run_id sample_review = ''r1''" "ticket_id sample_review = ''T1''" "repository_id sample_review = ''p1''"
    "max_crew_iterations sample_review = 2" "disposition sample_review = HUMAN_REVIEW"
    "preparation_phase sample_review = SELECTED" "\<not> has_preparation_binding sample_review"
    "repair_activation_public_key sample_review = None" "repair_activation_public_key_hash sample_review = None"
    "finalization_public_key sample_review = None" "finalization_public_key_hash sample_review = None"
    by (simp_all add: sample_review_def sample_start_def new_run_state_def has_preparation_binding_def)
  have ok: "model_validate (\<lambda>_. True) sample_review = Inr sample_review"
    using review_inv by (simp add: run_inv_def)
  have "activation_request_checked sample_env (ix_context sample_index_env) sample_activation = Some sample_activation"
    by (simp add: activation_request_checked_def sample_activation_def sample_reference_def f sample_reserved_def
        new_entry_def state_hash_of_def)
  moreover have "validate_preparation_initial_state sample_index_env sample_activation sample_review = return_op ()"
    by (simp add: validate_preparation_initial_state_def f sample_activation_def review ok)
  moreover have "initial_state_ok sample_env sample_review"
    by (simp add: initial_state_ok_def initial ok)
  moreover have "identifiers_ok sample_review"
    using sample_identifiers by (simp add: identifiers_ok_def f)
  moreover have "dump_ok sample_env sample_review"
    using sample_faithful by (simp add: faithful_def)
  moreover have "sample_activation\<lparr>ar_expected_revision := 1\<rparr> = sample_activation"
    by (simp add: sample_activation_def)
  ultimately show ?thesis
    using sample_reference_valid sample_reference_back
    by (simp add: activation_valid_def reference_of_def f) (simp add: sample_activation_def f)
qed

lemma sample_reserved_for: "reserved_for sample_activation sample_reserved"
  by (simp add: reserved_for_def sample_activation_def sample_reserved_def new_entry_def ar_challenge_hash_def
      sample_reference_def)

lemma sample_at_start:
  "at_start sample_index_env sample_activation sample_review sample_reserved (disk_of reserved_index)"
proof -
  have id: "run_id sample_review = ''r1''" "ar_repository_id sample_activation = ''p1''"
    by (simp_all add: sample_review_def sample_start_def new_run_state_def sample_activation_def)
  have "load_entry sample_index_env ''p1'' (iw_files reserved_index) = Inr (Some sample_reserved)"
    using sample_fits by (subst load_entry_written) (simp_all add: reserved_index_def)
  then show ?thesis
    using sample_reserved_for
    by (simp add: at_start_def disk_of_def entry_there_def id reserved_for_def reserved_index_def empty_index_def
        directories_free_def run_directories_def generation_free_def split: index_record.splits)
       (auto simp: run_path_defs index_path_def)
qed

end
