(* ===== verification/Index_Guarantees.thy ===== *)
theory Index_Guarantees
  imports Sample_Index
begin

section \<open>Guarantees of the run index\<close>

text \<open>
  A run belongs to one repository in every world the operations of the index reach, and an
  activation that is interrupted any number of times is completed by the next request.
\<close>

text \<open>C40: in a run index that started without entries, whatever operations followed and
  wherever processes died in them, the repositories whose active run is the run of one
  repository are exactly that repository.\<close>

theorem run_has_one_repository:
  assumes "no_entries w0" and "index_reachable (ix_iso env) w0 w"
    and "fst (lookup env repository w) = Inr (Some a)"
  shows "{p. \<exists>b. fst (lookup env p w) = Inr (Some b) \<and> ax_run_id b = ax_run_id a} = {repository}"
proof -
  have "runs_owned env w"
    using reachable_owned [OF assms(2)] no_entries_owned [OF assms(1)] by metis
  then have "p = repository" if "fst (lookup env p w) = Inr (Some b)" "ax_run_id b = ax_run_id a" for p b
    by (rule owned_by_one [OF _ that(1) assms(3) that(2)])
  with assms(3) show ?thesis by blast
qed

text \<open>C33: a request that activates its reservation is interrupted any number of times, after
  any number of writes each time; the attempt that is not interrupted then returns the active
  record of the run, with the revision that follows the reservation's and the hash of the
  first generation, and the repository has this run.\<close>

theorem activation_survives_crashes:
  assumes "activation_valid env r s" and "reserved_for r e" and "at_start env r s e (disk_of w)"
  shows "\<exists>w'. activate_reservation env r ((interrupted_attempts env r limits w)\<lparr>iw_writes := None\<rparr>)
      = (Inr (result_of_activation env r s e), w')
    \<and> lookup env (ar_repository_id r) w' = (Inr (Some (result_of_activation env r s e)), w')"
  using activation_completes [OF assms] by metis

definition sample_result :: active_run_record where
  "sample_result = result_of_activation sample_index_env sample_activation sample_review sample_reserved"

theorem activation_survives_crashes_applied:
  "fst (activate_reservation sample_index_env sample_activation
     ((interrupted_attempts sample_index_env sample_activation [3, 0, 2] reserved_index)\<lparr>iw_writes := None\<rparr>))
   = Inr sample_result \<and> ax_run_id sample_result = Some ''r1''"
proof -
  have "ax_run_id sample_result = Some ''r1''"
    by (simp add: sample_result_def result_of_activation_def active_result_def entry_of_activation_kind)
      (simp add: sample_review_def sample_start_def new_run_state_def)
  with activation_survives_crashes [OF sample_activation_valid sample_reserved_for sample_at_start, of "[3, 0, 2]"]
  show ?thesis by (auto simp: sample_result_def)
qed

definition active_index :: index_world where
  "active_index = snd (activate_reservation sample_index_env sample_activation reserved_index)"

lemma active_index_lookup: "fst (lookup sample_index_env ''p1'' active_index) = Inr (Some sample_result)"
  "ax_run_id sample_result = Some ''r1''"
proof -
  have w: "reserved_index\<lparr>iw_writes := None\<rparr> = reserved_index" by (simp add: reserved_index_def empty_index_def)
  have p: "ar_repository_id sample_activation = ''p1''" by (simp add: sample_activation_def)
  obtain w' where "activate_reservation sample_index_env sample_activation reserved_index = (Inr sample_result, w')"
    "lookup sample_index_env ''p1'' w' = (Inr (Some sample_result), w')"
    using activation_completes [OF sample_activation_valid sample_reserved_for sample_at_start, of "[]"]
    unfolding interrupted_attempts.simps w p sample_result_def by blast
  then show "fst (lookup sample_index_env ''p1'' active_index) = Inr (Some sample_result)"
    by (simp add: active_index_def)
  show "ax_run_id sample_result = Some ''r1''"
    by (simp add: sample_result_def result_of_activation_def active_result_def entry_of_activation_kind)
      (simp add: sample_review_def sample_start_def new_run_state_def)
qed

lemma active_index_reached: "index_reachable (ix_iso sample_index_env) empty_index active_index"
proof -
  let ?probe = "probe_or_reserve sample_index_env ''p1'' \<lparr>ro_host = ''h1'', ro_pid = 1\<rparr> (0, 0) (''v1'', ''c1'')"
  have "index_reachable (ix_iso sample_index_env) empty_index (snd (?probe empty_index))"
    by (rule Step [OF Start Probe]) simp
  then have "index_reachable (ix_iso sample_index_env) empty_index reserved_index"
    by (simp only: sample_probe snd_conv)
  then show ?thesis
    unfolding active_index_def by (rule Step [OF _ Activate]) simp
qed

theorem run_has_one_repository_applied:
  "{p. \<exists>b. fst (lookup sample_index_env p active_index) = Inr (Some b) \<and> ax_run_id b = Some ''r1''} = {''p1''}"
proof -
  have "no_entries empty_index" by (simp add: no_entries_def empty_index_def)
  from run_has_one_repository [OF this active_index_reached active_index_lookup(1)] show ?thesis
    by (simp add: active_index_lookup(2))
qed

subsection \<open>A claim whose publication was interrupted\<close>

text \<open>
  \<^verbatim>\<open>complete_selected_activation\<close> does not finish a claim whose journal is already prepared,
  which is what a crash right after the journal leaves; \<^verbatim>\<open>activation_result\<close> does.
\<close>

lemma prepared_claim_is_refused:
  assumes "load_journal env (pi_reservation_id reference) (iw_files w) = Inr (Some j)"
    and "jn_claim j \<noteq> JNull" "claim_reference_ok env j reference challenge" "jn_phase j = Prepared"
  shows "complete_selected_activation env reference challenge w = (Inl Index_Corrupt, w)"
  using assms
  by (simp add: complete_selected_activation_def load_claim_journal_def read_journal_def reading_def bind_op_def
      return_op_def raise_op_def)

lemma prepared_claim_is_finished:
  assumes "load_journal env (pi_reservation_id reference) (iw_files w) = Inr (Some j)"
    and "claim_reference_ok env j reference challenge" "jn_phase j = Prepared" "request_from_journal env j = Some r"
    and "complete_prepared_activation env r j w = (Inr a, w')"
  shows "activation_result env reference challenge w = (Inr (Some a), w')"
  using assms
  by (simp add: activation_result_def read_journal_def reading_def bind_op_def return_op_def raise_op_def)

end
