(* ===== verification/Git_Host.thy ===== *)
theory Git_Host
  imports Git_Text Operations
begin

section \<open>The host of the Git guard\<close>

text \<open>
  What \<^verbatim>\<open>GitGuard\<close> (\<^verbatim>\<open>src/auto_code/git.py\<close>) acts on: the executor of Git commands, which is a
  parameter that answers an argument array and moves a world of its own, and the files of the
  working tree, which the guard reads itself.  An operation of the guard is an operation on
  that world and on the three attributes of the guard that change.
\<close>

subsection \<open>Text of Git's answers\<close>

definition line_break :: "char \<Rightarrow> bool" where
  "line_break c \<longleftrightarrow> (of_char c :: nat) \<in> {10, 11, 12, 13, 28, 29, 30}"

function line_texts :: "string \<Rightarrow> string \<Rightarrow> string list" where
  "line_texts acc s =
     (case s of
        [] \<Rightarrow> (if acc = [] then [] else [rev acc])
      | c # rest \<Rightarrow>
          if line_break c
          then rev acc # line_texts []
                 (if c = CHR 0x0D \<and> starts_with [CHR 0x0A] rest then tl rest else rest)
          else line_texts (c # acc) rest)"
  by pat_completeness auto
termination by (relation "measure (\<lambda>(acc, s). length s)") auto

declare line_texts.simps [simp del]

definition splitlines :: "string \<Rightarrow> string list" where
  "splitlines s = line_texts [] s"

primrec split_max :: "nat \<Rightarrow> string \<Rightarrow> string list" where
  \<comment> \<open>\<^verbatim>\<open>split(maxsplit=n)\<close> at white space\<close>
  "split_max 0 s = (let t = dropWhile is_space s in if t = [] then [] else [t])"
| "split_max (Suc n) s =
     (let t = dropWhile is_space s in
      if t = [] then []
      else takeWhile (\<lambda>c. \<not> is_space c) t # split_max n (dropWhile (\<lambda>c. \<not> is_space c) t))"

subsection \<open>The working tree\<close>

datatype worktree_entry =
    Link string               \<comment> \<open>a symbolic link and its target\<close>
  | Plain bool string         \<comment> \<open>a regular file: an executable bit is set, the bytes\<close>
  | Special                   \<comment> \<open>anything else\<close>

datatype walk_node =
    Walk_Directory string "walk_node list"
  | Walk_Link string          \<comment> \<open>a symbolic link to a directory\<close>
  | Walk_File string

record 'w git_host =
  gh_run :: "string list \<Rightarrow> bool \<Rightarrow> 'w \<Rightarrow> (git_error + int \<times> string option) \<times> 'w"
    \<comment> \<open>the arguments, and whether the output is redacted; \<open>None\<close> is output that cannot be read\<close>
  gh_lstat :: "'w \<Rightarrow> string \<Rightarrow> worktree_entry option"
  gh_walk :: "'w \<Rightarrow> walk_node list"
  gh_stat :: "'w \<Rightarrow> string \<Rightarrow> (string \<times> int \<times> int) option"
    \<comment> \<open>\<^verbatim>\<open>realpath\<close>, device and inode of a path\<close>

definition bytes_hash :: "string \<Rightarrow> string" where
  "bytes_hash s = hexdigest (encode_ascii s)"

definition worktree_mode :: "worktree_entry option \<Rightarrow> git_error + string" where
  "worktree_mode e =
     (case e of
        Some (Link _) \<Rightarrow> Inr ''120000''
      | Some (Plain executable _) \<Rightarrow> Inr (if executable then ''100755'' else ''100644'')
      | _ \<Rightarrow> Inl Worktree_Unreadable)"

definition worktree_is_binary :: "worktree_entry option \<Rightarrow> git_error + bool" where
  "worktree_is_binary e =
     (case e of
        Some (Link _) \<Rightarrow> Inr False
      | Some (Plain _ content) \<Rightarrow> Inr (nul \<in> set (take 8192 content))
      | _ \<Rightarrow> Inl Worktree_Unreadable)"

definition read_worktree_bytes :: "worktree_entry option \<Rightarrow> git_error + string" where
  "read_worktree_bytes e =
     (case e of
        Some (Link target) \<Rightarrow> Inr target
      | Some (Plain _ content) \<Rightarrow> Inr content
      | _ \<Rightarrow> Inl Worktree_Unreadable)"

definition max_repair_files :: nat where "max_repair_files = 10000"
definition max_repair_file_bytes :: nat where "max_repair_file_bytes = 16 * 1024 * 1024"
definition max_repair_total_bytes :: nat where "max_repair_total_bytes = 256 * 1024 * 1024"

definition bounded_worktree_hash :: "worktree_entry option \<Rightarrow> int \<Rightarrow> git_error + string \<times> int" where
  \<comment> \<open>of a file that does not change while it is read\<close>
  "bounded_worktree_hash e remaining =
     bind_result (read_worktree_bytes e) (\<lambda>content.
       let size = int (length content) in
       if int max_repair_file_bytes < size \<or> remaining < size then Inl Repair_Limit
       else Inr (bytes_hash content, size))"

subsection \<open>The production executor\<close>

record 'w process_git =
  pg_executable :: string
  pg_environment :: "(string \<times> string) list"
  pg_process :: "string list \<Rightarrow> (string \<times> string) list \<Rightarrow> bool \<Rightarrow> 'w \<Rightarrow> (git_error + int \<times> string option) \<times> 'w"
    \<comment> \<open>\<^verbatim>\<open>run_with_trusted_output\<close> in the sandbox: argv, environment, redaction\<close>

definition safe_git_options :: "string list" where
  "safe_git_options = [''-c'', ''core.hooksPath=/dev/null'', ''-c'', ''core.fsmonitor=false'']"

definition safe_git_environment :: "(string \<times> string) list" where
  "safe_git_environment =
     [(''GIT_CONFIG_GLOBAL'', ''/dev/null''), (''GIT_CONFIG_SYSTEM'', ''/dev/null''),
      (''GIT_CONFIG_NOSYSTEM'', ''1''), (''GIT_TERMINAL_PROMPT'', ''0'')]"

definition process_git_run ::
  "'w process_git \<Rightarrow> string list \<Rightarrow> bool \<Rightarrow> 'w \<Rightarrow> (git_error + int \<times> string option) \<times> 'w" where
  \<comment> \<open>\<^verbatim>\<open>ProcessGitExecutor.run\<close> and \<^verbatim>\<open>read_stdout\<close>\<close>
  "process_git_run p argv redact w =
     (if list_ex (\<lambda>(name, _). name \<in> fst ` set safe_git_environment) (pg_environment p)
      then (Inl Executor_Unavailable, w)
      else case argv of
          [] \<Rightarrow> (Inl Executor_Unavailable, w)
        | command # _ \<Rightarrow>
            if starts_with ''-'' command then (Inl Executor_Unavailable, w)
            else pg_process p (pg_executable p # safe_git_options @ argv)
                   (pg_environment p @ safe_git_environment) redact w)"

subsection \<open>The guard\<close>

record 'w git_setup =
  gs_host :: "'w git_host option"
  gs_repository :: string
  gs_remote :: string
  gs_base_branch :: "string option"
  gs_protected :: "string list"
  gs_excluded :: "string list"

record remote_snapshot =
  rm_fingerprint :: string
  rm_default_branch :: string
  rm_base_sha :: string

definition remote_snapshot_valid :: "remote_snapshot \<Rightarrow> bool" where
  "remote_snapshot_valid r \<longleftrightarrow>
     fullmatch (Rep (Cls is_lower_hex) 64 0) (rm_fingerprint r) \<and> branch_name_ok (rm_default_branch r)
     \<and> git_sha_ok (rm_base_sha r)"

record 'w git_guard =
  gd_world :: 'w
  gd_ticket_branch :: "string option"
  gd_approved_commit :: "string option"
  gd_prepared_remote :: "remote_snapshot option"

type_synonym ('w, 'a) git_op = "(git_error, 'w git_guard, 'a) operation"

definition git_setup_of ::
  "'w git_host option \<Rightarrow> string \<Rightarrow> string \<Rightarrow> string option \<Rightarrow> string list \<Rightarrow> string list
   \<Rightarrow> git_error + 'w git_setup" where
  \<comment> \<open>\<^verbatim>\<open>GitGuard.__init__\<close>, for an absolute directory\<close>
  "git_setup_of host repository remote base protected excluded =
     (if \<not> safe_remote remote then Inl Remote_Invalid
      else if \<not> opt_all branch_name_ok base then Inl Branch_Invalid
      else
        bind_result (policy_paths protected) (\<lambda>protected.
        bind_result (policy_paths excluded) (\<lambda>excluded.
          Inr \<lparr>gs_host = host, gs_repository = repository, gs_remote = remote, gs_base_branch = base,
               gs_protected = protected, gs_excluded = excluded\<rparr>)))"

definition new_guard :: "'w \<Rightarrow> 'w git_guard" where
  "new_guard w =
     \<lparr>gd_world = w, gd_ticket_branch = None, gd_approved_commit = None, gd_prepared_remote = None\<rparr>"

record sandbox_policy =
  sb_project_root :: string
  sb_environment_allowlist :: "string list"
  sb_writable_roots :: "string list"

definition setup_of_project_config ::
  "(string \<Rightarrow> string option) \<Rightarrow> string \<Rightarrow> project_config \<Rightarrow> 'w process_git \<Rightarrow> sandbox_policy \<Rightarrow>
   'w git_host \<Rightarrow> git_error + 'w git_setup" where
  \<comment> \<open>\<^verbatim>\<open>GitGuard.from_project_config\<close>; the first argument is \<^verbatim>\<open>realpath(strict=True)\<close>, the
      host runs the commands of the executor\<close>
  "setup_of_project_config realpath repository config executor sandbox host =
     (case realpath repository of
        None \<Rightarrow> Inl Sandbox_Mismatch
      | Some project_root \<Rightarrow>
          (case those (map (\<lambda>root. realpath (project_root @ ''/'' @ root)) (pj_writable_roots config)) of
             None \<Rightarrow> Inl Sandbox_Mismatch
           | Some roots \<Rightarrow>
               (if sb_project_root sandbox \<noteq> project_root then Inl Sandbox_Mismatch
                else if set (sb_environment_allowlist sandbox) \<noteq> set (pj_environment_allowlist config)
                then Inl Sandbox_Mismatch
                else if list_ex (\<lambda>(name, _). name \<notin> set (pj_environment_allowlist config)) (pg_environment executor)
                then Inl Sandbox_Mismatch
                else if set (sb_writable_roots sandbox) \<noteq> set roots then Inl Sandbox_Mismatch
                else git_setup_of (Some (host\<lparr>gh_run := process_git_run executor\<rparr>)) repository
                       (gp_remote (pj_git config)) (gp_base_branch (pj_git config))
                       (pj_protected_paths config) (pj_commit_excluded_paths config))))"

subsection \<open>Running a command\<close>

definition git_run :: "'w git_setup \<Rightarrow> string list \<Rightarrow> bool \<Rightarrow> bool \<Rightarrow> ('w, int \<times> string option) git_op" where
  \<comment> \<open>\<^verbatim>\<open>_run\<close>: a failure may be allowed, the output may be redacted\<close>
  "git_run env argv allow_failure redact g =
     (case gs_host env of
        None \<Rightarrow> (Inl Executor_Unavailable, g)
      | Some host \<Rightarrow>
          (case gh_run host argv redact (gd_world g) of
             (Inl e, w) \<Rightarrow> (Inl e, g\<lparr>gd_world := w\<rparr>)
           | (Inr (code, output), w) \<Rightarrow>
               (if code \<noteq> 0 \<and> \<not> allow_failure then Inl (Command_Failed code) else Inr (code, output),
                g\<lparr>gd_world := w\<rparr>)))"

definition git_output :: "'w git_setup \<Rightarrow> string list \<Rightarrow> bool \<Rightarrow> ('w, string) git_op" where
  \<comment> \<open>\<^verbatim>\<open>_stdout(_run(...))\<close>\<close>
  "git_output env argv redact =
     bind_op (git_run env argv False redact) (\<lambda>(_, output).
       case output of None \<Rightarrow> raise_op Output_Unreadable | Some text \<Rightarrow> return_op text)"

definition git_succeeds :: "'w git_setup \<Rightarrow> string list \<Rightarrow> ('w, bool) git_op" where
  \<comment> \<open>\<^verbatim>\<open>_run(..., allow_failure=True).returncode == 0\<close>\<close>
  "git_succeeds env argv = bind_op (git_run env argv True False) (\<lambda>(code, _). return_op (code = 0))"

definition lstat_entry :: "'w git_setup \<Rightarrow> string \<Rightarrow> ('w, worktree_entry option) git_op" where
  "lstat_entry env path =
     reading (\<lambda>g. Inr (case gs_host env of None \<Rightarrow> None | Some host \<Rightarrow> gh_lstat host (gd_world g) path))"

end
