(* ===== verification/Git_Guard.thy ===== *)
theory Git_Guard
  imports Git_Host
begin

section \<open>The Git guard\<close>

text \<open>
  The operations of \<^verbatim>\<open>GitGuard\<close>: the preflight, the ticket name, the manifest of the
  working tree, the commit of a reviewed manifest and its push, each the sequence of Git
  commands and checks of the source.
\<close>

subsection \<open>Questions to Git\<close>

definition rev_parse :: "'w git_setup \<Rightarrow> string \<Rightarrow> ('w, string) git_op" where
  "rev_parse env reference =
     bind_op (git_output env [''rev-parse'', ''--verify'', reference] False) (\<lambda>output.
       result_op (validate_sha (lower (strip output))))"

definition commit_of :: "string \<Rightarrow> string" where
  \<comment> \<open>the object name of the commit a reference stands for\<close>
  "commit_of reference = reference @ [CHR ''^'', CHR ''{''] @ ''commit}''"

definition verify_baseline :: "'w git_setup \<Rightarrow> string \<Rightarrow> ('w, string) git_op" where
  "verify_baseline env sha =
     bind_op (result_op (validate_sha sha)) (\<lambda>_. rev_parse env (commit_of sha))"

definition current_branch :: "'w git_setup \<Rightarrow> ('w, string) git_op" where
  "current_branch env =
     bind_op (git_output env [''symbolic-ref'', ''--quiet'', ''--short'', ''HEAD''] False) (\<lambda>output.
       let name = strip output in
       bind_op (require_op (branch_name_ok name) Branch_Invalid) (\<lambda>_. return_op name))"

definition branch_exists :: "'w git_setup \<Rightarrow> string \<Rightarrow> ('w, bool) git_op" where
  "branch_exists env name =
     bind_op (require_op (branch_name_ok name) Branch_Invalid) (\<lambda>_.
       git_succeeds env [''show-ref'', ''--verify'', ''--quiet'', ''refs/heads/'' @ name])"

definition remote_fingerprint :: "'w git_setup \<Rightarrow> ('w, string) git_op" where
  "remote_fingerprint env =
     bind_op (git_output env [''remote'', ''get-url'', gs_remote env] True) (\<lambda>output.
       case splitlines output of
         [url] \<Rightarrow> if url = [] then raise_op Remote_Invalid else return_op (bytes_hash url)
       | _ \<Rightarrow> raise_op Remote_Invalid)"

definition symref_branch :: "string \<Rightarrow> string option" where
  \<comment> \<open>the branch a line of \<^verbatim>\<open>ls-remote --symref\<close> names\<close>
  "symref_branch line =
     (let prefix = ''ref: refs/heads/''; suffix = CHR 0x09 # ''HEAD'' in
      if starts_with prefix line \<and> ends_with suffix line
      then Some (drop (length prefix) (take (length line - length suffix) line)) else None)"

definition discover_remote_default_branch :: "'w git_setup \<Rightarrow> ('w, string) git_op" where
  "discover_remote_default_branch env =
     bind_op (git_output env [''ls-remote'', ''--symref'', gs_remote env, ''HEAD''] True) (\<lambda>output.
       case List.map_filter symref_branch (splitlines output) of
         [name] \<Rightarrow>
           bind_op (require_op (branch_name_ok name) Branch_Invalid) (\<lambda>_. return_op name)
       | _ \<Rightarrow> raise_op Remote_Invalid)"

definition remote_heads :: "'w git_setup \<Rightarrow> string \<Rightarrow> ('w, string list) git_op" where
  "remote_heads env reference =
     bind_op (git_output env [''ls-remote'', ''--heads'', gs_remote env, reference] True)
       (\<lambda>output. return_op (splitlines output))"

definition current_remote :: "'w git_setup \<Rightarrow> ('w, remote_snapshot) git_op" where
  "current_remote env =
     bind_op (remote_fingerprint env) (\<lambda>fingerprint.
     bind_op (case gs_base_branch env of
                Some base \<Rightarrow> if base = [] then discover_remote_default_branch env else return_op base
              | None \<Rightarrow> discover_remote_default_branch env) (\<lambda>name.
     let reference = ''refs/heads/'' @ name in
     bind_op (remote_heads env reference) (\<lambda>lines.
       case lines of
         [line] \<Rightarrow>
           (case cut_at (CHR 0x09) line of
              None \<Rightarrow> raise_op Remote_Invalid
            | Some (sha, returned) \<Rightarrow>
                if returned \<noteq> reference then raise_op Remote_Invalid
                else bind_op (result_op (validate_sha sha)) (\<lambda>sha.
                  let snapshot = \<lparr>rm_fingerprint = fingerprint, rm_default_branch = name, rm_base_sha = sha\<rparr>
                  in bind_op (require_op (remote_snapshot_valid snapshot) Remote_Invalid)
                       (\<lambda>_. return_op snapshot)))
       | _ \<Rightarrow> raise_op Remote_Invalid)))"

definition check_role :: "'w git_setup \<Rightarrow> string \<Rightarrow> ('w, unit) git_op" where
  "check_role env path = result_op (check_path_role (gs_protected env) (gs_excluded env) path)"

definition preflight :: "'w git_setup \<Rightarrow> ('w, unit) git_op" where
  "preflight env =
     bind_op (git_output env [''rev-parse'', ''--is-inside-work-tree''] False) (\<lambda>inside.
     bind_op (require_op (strip inside = ''true'') Not_Worktree) (\<lambda>_.
     bind_op (git_output env [''status'', ''--porcelain=v1'', ''-z'', ''--untracked-files=all''] False) (\<lambda>status.
     bind_op (result_op (parse_status status)) (\<lambda>entries.
     bind_op (map_op (check_role env) (concat (map snd entries))) (\<lambda>_.
     bind_op (require_op (entries = []) Dirty_Worktree) (\<lambda>_.
     bind_op (remote_fingerprint env) (\<lambda>_. return_op ())))))))"

definition repository_identity :: "'w git_setup \<Rightarrow> ('w, string) git_op" where
  "repository_identity env =
     bind_op (git_output env [''rev-parse'', ''--git-common-dir''] False) (\<lambda>output.
       let common = strip output;
           path = (if path_absolute common then common else gs_repository env @ ''/'' @ common)
       in bind_op (require_op (common \<noteq> []) Identity_Unavailable) (\<lambda>_.
          reading (\<lambda>g.
            case Option.bind (gs_host env) (\<lambda>host. gh_stat host (gd_world g) path) of
              None \<Rightarrow> Inl Identity_Unavailable
            | Some (location, dev, ino) \<Rightarrow>
                Inr (bytes_hash (location @ '':'' @ show_int dev @ '':'' @ show_int ino)))))"

subsection \<open>The ticket branch\<close>

definition fetch :: "'w git_setup \<Rightarrow> ('w, unit) git_op" where
  "fetch env = bind_op (git_run env [''fetch'', gs_remote env] False True) (\<lambda>_. return_op ())"

definition branch_binding_checks :: "branch_binding \<Rightarrow> git_error + unit" where
  \<comment> \<open>\<^verbatim>\<open>BranchBinding.__post_init__\<close>\<close>
  "branch_binding_checks b =
     map_sum id (\<lambda>_. ()) (checked
       [(\<not> ticket_text (bb_ticket_id b) \<or> bb_checkpoint_lineage b = [], Branch_Reuse),
        (\<not> branch_name_ok (bb_branch b), Branch_Invalid),
        (\<not> starts_with (bb_ticket_id b @ ''-'') (bb_branch b), Branch_Reuse),
        (\<not> git_sha_ok (bb_base_sha b), Sha_Invalid),
        (\<not> fullmatch (Rep (Cls is_lower_hex) 64 0) (bb_repository_identity b), Branch_Reuse),
        (\<not> fullmatch (Rep (Cls is_lower_hex) 64 0) (bb_remote_fingerprint b), Branch_Reuse),
        (\<not> branch_name_ok (bb_default_branch b), Branch_Invalid)] b)"

definition base_reference :: "'w git_setup \<Rightarrow> remote_snapshot \<Rightarrow> string" where
  "base_reference env snapshot = gs_remote env @ ''/'' @ rm_default_branch snapshot"

definition fetched_base :: "'w git_setup \<Rightarrow> ('w, remote_snapshot) git_op" where
  \<comment> \<open>the remote base, which the fetched reference must be at\<close>
  "fetched_base env =
     bind_op (fetch env) (\<lambda>_.
     bind_op (current_remote env) (\<lambda>snapshot.
     bind_op (rev_parse env (commit_of (base_reference env snapshot))) (\<lambda>sha.
     bind_op (require_op (sha = rm_base_sha snapshot) Base_Moved) (\<lambda>_. return_op snapshot))))"

definition switched_to :: "string \<Rightarrow> remote_snapshot \<Rightarrow> ('w, string) git_op" where
  \<comment> \<open>the guard now works on this branch\<close>
  "switched_to name snapshot g =
     (Inr name, g\<lparr>gd_ticket_branch := Some name, gd_prepared_remote := Some snapshot\<rparr>)"

definition binding_matches_remote :: "branch_binding \<Rightarrow> remote_snapshot \<Rightarrow> bool" where
  "binding_matches_remote b snapshot \<longleftrightarrow>
     bb_remote_fingerprint b = rm_fingerprint snapshot \<and> bb_default_branch b = rm_default_branch snapshot
     \<and> lower (bb_base_sha b) = rm_base_sha snapshot"

definition reconcile_branch :: "'w git_setup \<Rightarrow> branch_binding \<Rightarrow> string \<Rightarrow> ('w, string) git_op" where
  "reconcile_branch env b lineage =
     bind_op (require_op (lineage \<noteq> [] \<and> bb_checkpoint_lineage b = lineage) Branch_Reuse) (\<lambda>_.
     bind_op (repository_identity env) (\<lambda>identity.
     bind_op (require_op (bb_repository_identity b = identity) Branch_Reuse) (\<lambda>_.
     bind_op (preflight env) (\<lambda>_.
     bind_op (fetch env) (\<lambda>_.
     bind_op (current_remote env) (\<lambda>snapshot.
     bind_op (require_op (binding_matches_remote b snapshot) Branch_Reuse) (\<lambda>_.
     bind_op (rev_parse env (commit_of (base_reference env snapshot))) (\<lambda>local.
     bind_op (require_op (local = rm_base_sha snapshot) Branch_Reuse) (\<lambda>_.
     bind_op (branch_exists env (bb_branch b)) (\<lambda>exists.
     bind_op (require_op exists Branch_Reuse) (\<lambda>_.
     bind_op (git_succeeds env [''merge-base'', ''--is-ancestor'', bb_base_sha b, ''refs/heads/'' @ bb_branch b])
       (\<lambda>ancestor.
     bind_op (require_op ancestor Branch_Reuse) (\<lambda>_.
     bind_op (git_run env [''switch'', bb_branch b] False False) (\<lambda>_.
       switched_to (bb_branch b) snapshot))))))))))))))"

definition create_ticket_branch ::
  "'w git_setup \<Rightarrow> string \<Rightarrow> string \<Rightarrow> branch_binding option \<Rightarrow> string option \<Rightarrow> ('w, string) git_op" where
  "create_ticket_branch env ticket title reuse lineage =
     bind_op (result_op (ticket_branch_name ticket title)) (\<lambda>name.
     bind_op (preflight env) (\<lambda>_.
     bind_op (fetched_base env) (\<lambda>snapshot.
     bind_op (branch_exists env name) (\<lambda>exists.
       if exists then
         (case (reuse, lineage) of
            (Some b, Some l) \<Rightarrow>
              if bb_branch b \<noteq> name \<or> bb_ticket_id b \<noteq> ticket then raise_op Branch_Reuse
              else reconcile_branch env b l
          | _ \<Rightarrow> raise_op Branch_Reuse)
       else
         bind_op (git_run env [''switch'', ''-c'', name, base_reference env snapshot] False False)
           (\<lambda>_. switched_to name snapshot)))))"

definition prepare_ticket_branch ::
  "'w git_setup \<Rightarrow> string \<Rightarrow> string \<Rightarrow> string \<Rightarrow> ('w, branch_binding) git_op" where
  "prepare_ticket_branch env ticket title lineage =
     bind_op (result_op (ticket_branch_name ticket title)) (\<lambda>name.
     bind_op (preflight env) (\<lambda>_.
     bind_op (fetched_base env) (\<lambda>snapshot.
     bind_op (\<lambda>g. (Inr (), g\<lparr>gd_prepared_remote := Some snapshot\<rparr>)) (\<lambda>_.
     bind_op (repository_identity env) (\<lambda>identity.
       let b = \<lparr>bb_ticket_id = ticket, bb_branch = name, bb_base_sha = rm_base_sha snapshot,
                bb_repository_identity = identity, bb_remote_fingerprint = rm_fingerprint snapshot,
                bb_default_branch = rm_default_branch snapshot, bb_checkpoint_lineage = lineage\<rparr>
       in bind_op (result_op (branch_binding_checks b)) (\<lambda>_. return_op b))))))"

definition create_bound_ticket_branch :: "'w git_setup \<Rightarrow> branch_binding \<Rightarrow> ('w, string) git_op" where
  "create_bound_ticket_branch env b =
     bind_op (repository_identity env) (\<lambda>identity.
     bind_op (require_op (bb_repository_identity b = identity) Branch_Reuse) (\<lambda>_.
     bind_op (preflight env) (\<lambda>_.
     bind_op (fetch env) (\<lambda>_.
     bind_op (current_remote env) (\<lambda>snapshot.
     bind_op (require_op (binding_matches_remote b snapshot) Branch_Reuse) (\<lambda>_.
     bind_op (rev_parse env (commit_of (base_reference env snapshot))) (\<lambda>sha.
     bind_op (require_op (sha = rm_base_sha snapshot) Branch_Reuse) (\<lambda>_.
     bind_op (branch_exists env (bb_branch b)) (\<lambda>exists.
       if exists then reconcile_branch env b (bb_checkpoint_lineage b)
       else
         bind_op (git_run env [''switch'', ''-c'', bb_branch b, bb_base_sha b] False False)
           (\<lambda>_. switched_to (bb_branch b) snapshot))))))))))"

end
