(* ===== verification/Git_Commit.thy ===== *)
theory Git_Commit
  imports Git_Guard
begin

section \<open>Manifest, commit and push\<close>

text \<open>
  The second half of \<^verbatim>\<open>GitGuard\<close>: what has changed in the working tree since the baseline,
  the commit of exactly that manifest with the checks before and after it, the push of the
  approved commit, and the reconciliation of a commit or push that may already exist.
\<close>

subsection \<open>The changes of the working tree\<close>

definition raw_diff :: "'w git_setup \<Rightarrow> string \<Rightarrow> string option \<Rightarrow> ('w, raw_diff_entry list) git_op" where
  "raw_diff env baseline target =
     bind_op (git_output env
         ([''diff'', ''--raw'', ''-z'', ''--no-abbrev'', ''--find-renames'', baseline]
          @ (case target of None \<Rightarrow> [] | Some t \<Rightarrow> [t]) @ [''--'']) False)
       (\<lambda>output. result_op (parse_raw_diff output))"

definition binary_paths :: "'w git_setup \<Rightarrow> string \<Rightarrow> ('w, string list) git_op" where
  "binary_paths env baseline =
     bind_op (git_output env [''diff'', ''--numstat'', ''-z'', ''--no-renames'', baseline, ''--''] False)
       (\<lambda>output. result_op (parse_binary_numstat output))"

definition nul_paths :: "string \<Rightarrow> git_error + string list" where
  \<comment> \<open>the paths of a NUL-separated output, each validated\<close>
  "nul_paths output =
     (let paths = filter (\<lambda>p. p \<noteq> []) (split_on nul output) in
      if list_all git_path_ok paths then Inr paths else Inl Path_Invalid)"

definition untracked_paths :: "'w git_setup \<Rightarrow> ('w, string list) git_op" where
  "untracked_paths env =
     bind_op (git_output env [''ls-files'', ''--others'', ''--exclude-standard'', ''-z''] False) (\<lambda>output.
     bind_op (result_op (nul_paths output)) (\<lambda>paths.
     bind_op (require_op (no_dups paths) Duplicate_Untracked) (\<lambda>_. return_op paths)))"

definition hash_worktree_object :: "'w git_setup \<Rightarrow> string \<Rightarrow> ('w, string) git_op" where
  "hash_worktree_object env path =
     bind_op (git_output env [''hash-object'', ''--no-filters'', ''--'', path] False) (\<lambda>output.
       result_op (validate_sha (lower (strip output))))"

definition index_changed_paths :: "'w git_setup \<Rightarrow> string \<Rightarrow> ('w, string set) git_op" where
  "index_changed_paths env baseline =
     bind_op (git_output env
         [''diff'', ''--cached'', ''--name-only'', ''--no-renames'', ''-z'', baseline, ''--''] False) (\<lambda>output.
     bind_op (result_op (nul_paths output)) (\<lambda>paths. return_op (set paths)))"

definition manifest_file :: "git_manifest_file \<Rightarrow> ('w, git_manifest_file) git_op" where
  \<comment> \<open>\<^verbatim>\<open>GitManifestFile(...)\<close> with its checks\<close>
  "manifest_file f = bind_op (require_op (git_manifest_file_valid f) Manifest_Invalid) (\<lambda>_. return_op f)"

definition none_if_zero :: "string \<Rightarrow> string option" where
  "none_if_zero v = (if set v = {CHR ''0''} then None else Some v)"

definition deletion :: "git_manifest_file \<Rightarrow> bool" where
  "deletion f \<longleftrightarrow> starts_with ''D'' (gf_status f)"

definition tracked_file ::
  "'w git_setup \<Rightarrow> string list \<Rightarrow> raw_diff_entry \<Rightarrow> ('w, git_manifest_file) git_op" where
  "tracked_file env binaries raw =
     bind_op (check_role env (rd_path raw)) (\<lambda>_.
     bind_op (case rd_old_path raw of None \<Rightarrow> return_op () | Some p \<Rightarrow> check_role env p) (\<lambda>_.
     bind_op (if starts_with ''D'' (rd_status raw) then return_op None
              else bind_op (hash_worktree_object env (rd_path raw)) (\<lambda>h. return_op (Some h))) (\<lambda>object_id.
       manifest_file
         \<lparr>gf_path = rd_path raw, gf_status = rd_status raw, gf_old_path = rd_old_path raw,
          gf_old_mode = rd_old_mode raw, gf_new_mode = rd_new_mode raw,
          gf_old_object_id = none_if_zero (rd_old_object_id raw), gf_object_id = object_id,
          gf_binary = rd_path raw \<in> set binaries, gf_untracked = False\<rparr>)))"

definition deleted_by_object :: "git_manifest_file list \<Rightarrow> string \<rightharpoonup> nat" where
  \<comment> \<open>the last deletion of each object\<close>
  "deleted_by_object files =
     map_of (rev (concat (map (\<lambda>(i, f).
       case gf_old_object_id f of
         Some h \<Rightarrow> if deletion f then [(h, i)] else []
       | None \<Rightarrow> []) (zip [0..<length files] files))))"

record untracked_file =
  uf_path :: string
  uf_object_id :: string
  uf_mode :: string
  uf_binary :: bool

record matching =
  \<comment> \<open>the variables of the loop over the untracked paths\<close>
  mt_files :: "git_manifest_file list"
  mt_deleted :: "string \<rightharpoonup> nat"
  mt_unmatched :: "untracked_file list"

definition moved_file :: "git_manifest_file \<Rightarrow> string \<Rightarrow> string \<Rightarrow> string \<Rightarrow> bool \<Rightarrow> git_manifest_file" where
  "moved_file deleted path mode object_id binary =
     \<lparr>gf_path = path, gf_status = ''R100'', gf_old_path = Some (gf_path deleted),
      gf_old_mode = gf_old_mode deleted, gf_new_mode = mode, gf_old_object_id = gf_old_object_id deleted,
      gf_object_id = Some object_id, gf_binary = binary, gf_untracked = False\<rparr>"

definition match_untracked :: "'w git_setup \<Rightarrow> string \<Rightarrow> matching \<Rightarrow> ('w, matching) git_op" where
  \<comment> \<open>an untracked file with the object of a deleted one is that file, moved\<close>
  "match_untracked env path m =
     bind_op (check_role env path) (\<lambda>_.
     bind_op (hash_worktree_object env path) (\<lambda>object_id.
     bind_op (lstat_entry env path) (\<lambda>e.
     bind_op (result_op (worktree_mode e)) (\<lambda>mode.
     bind_op (result_op (worktree_is_binary e)) (\<lambda>binary.
       case mt_deleted m object_id of
         Some i \<Rightarrow>
           bind_op (manifest_file (moved_file (mt_files m ! i) path mode object_id binary)) (\<lambda>f.
             return_op (m\<lparr>mt_files := (mt_files m)[i := f], mt_deleted := (mt_deleted m)(object_id := None)\<rparr>))
       | None \<Rightarrow>
           return_op (m\<lparr>mt_unmatched := mt_unmatched m @
             [\<lparr>uf_path = path, uf_object_id = object_id, uf_mode = mode, uf_binary = binary\<rparr>]\<rparr>))))))"

definition added_file :: "untracked_file \<Rightarrow> git_manifest_file" where
  "added_file u =
     \<lparr>gf_path = uf_path u, gf_status = ''A'', gf_old_path = None, gf_old_mode = ''000000'',
      gf_new_mode = uf_mode u, gf_old_object_id = None, gf_object_id = Some (uf_object_id u),
      gf_binary = uf_binary u, gf_untracked = True\<rparr>"

definition add_untracked ::
  "string list \<Rightarrow> string list \<Rightarrow> untracked_file \<Rightarrow> git_manifest_file list
   \<Rightarrow> ('w, git_manifest_file list) git_op" where
  \<comment> \<open>the authorized paths, the paths tracked already\<close>
  "add_untracked authorized tracked u files =
     (if uf_path u \<notin> set authorized then raise_op Untracked_Unauthorized
      else if uf_path u \<in> set tracked then return_op files
      else bind_op (manifest_file (added_file u)) (\<lambda>f. return_op (files @ [f])))"

definition manifest_inputs :: "string \<Rightarrow> git_manifest_file list \<Rightarrow> git_error + git_manifest" where
  \<comment> \<open>\<^verbatim>\<open>GitManifestInputs(...)\<close> of files that are valid themselves\<close>
  "manifest_inputs baseline files =
     (if \<not> git_sha_ok baseline then Inl Sha_Invalid
      else if \<not> no_dups (map gf_path files) then Inl Manifest_Duplicates
      else Inr \<lparr>gm_baseline_sha = baseline, gm_files = files\<rparr>)"

definition collect_manifest_inputs :: "'w git_setup \<Rightarrow> string \<Rightarrow> string list \<Rightarrow> ('w, git_manifest) git_op" where
  "collect_manifest_inputs env sha authorized =
     bind_op (verify_baseline env sha) (\<lambda>baseline.
     bind_op (require_op (list_all git_path_ok authorized) Path_Invalid) (\<lambda>_.
     bind_op (raw_diff env baseline None) (\<lambda>raws.
     bind_op (binary_paths env baseline) (\<lambda>binaries.
     bind_op (map_op (tracked_file env binaries) raws) (\<lambda>files.
     bind_op (untracked_paths env) (\<lambda>paths.
     bind_op (fold_op (match_untracked env) paths
         \<lparr>mt_files = files, mt_deleted = deleted_by_object files, mt_unmatched = []\<rparr>) (\<lambda>m.
     bind_op (fold_op (add_untracked authorized (map gf_path (mt_files m))) (mt_unmatched m) (mt_files m))
       (\<lambda>files. result_op (manifest_inputs sha (sort_key gf_path files))))))))))"

subsection \<open>The source of a repair\<close>

record repair_source_file =
  rf_file :: git_manifest_file
  rf_content_sha256 :: "string option"

definition repair_source_file_json :: "repair_source_file \<Rightarrow> json" where
  "repair_source_file_json r =
     (let f = rf_file r in
      JObj [(''path'', JStr (gf_path f)), (''status'', JStr (gf_status f)), (''old_path'', json_opt (gf_old_path f)),
            (''old_object_id'', json_opt (gf_old_object_id f)), (''object_id'', json_opt (gf_object_id f)),
            (''mode'', JStr (gf_new_mode f)), (''binary'', JBool (gf_binary f)),
            (''untracked'', JBool (gf_untracked f)), (''content_sha256'', json_opt (rf_content_sha256 r))])"

record repair_workspace_file =
  rw_path :: string
  rw_kind :: string
  rw_mode :: string
  rw_binary :: bool
  rw_content_sha256 :: string

definition repair_workspace_file_json :: "repair_workspace_file \<Rightarrow> json" where
  "repair_workspace_file_json r =
     JObj [(''path'', JStr (rw_path r)), (''kind'', JStr (rw_kind r)), (''mode'', JStr (rw_mode r)),
           (''binary'', JBool (rw_binary r)), (''content_sha256'', JStr (rw_content_sha256 r))]"

record repair_source_manifest =
  rs_baseline_sha :: string
  rs_source_files :: "repair_source_file list"
  rs_workspace_files :: "repair_workspace_file list"

definition repair_content_hash :: "repair_source_manifest \<Rightarrow> string" where
  "repair_content_hash m =
     hash_json (JObj
       [(''baseline_sha'', JStr (rs_baseline_sha m)),
        (''files'', JList (map repair_source_file_json (rs_source_files m))),
        (''workspace_files'', JList (map repair_workspace_file_json (rs_workspace_files m)))])"

fun node_name :: "walk_node \<Rightarrow> string" where
  "node_name (Walk_Directory n _) = n"
| "node_name (Walk_Link n) = n"
| "node_name (Walk_File n) = n"

fun walk_files :: "string \<Rightarrow> walk_node list \<Rightarrow> string list"
  and walk_below :: "string \<Rightarrow> walk_node \<Rightarrow> string list" where
  \<comment> \<open>\<^verbatim>\<open>os.walk\<close>: the files of a directory, then its links to directories, then the files below it\<close>
  "walk_files base nodes =
     concat (map (\<lambda>n. case n of Walk_File name \<Rightarrow> [base @ name] | _ \<Rightarrow> []) nodes)
     @ concat (map (\<lambda>n. case n of Walk_Link name \<Rightarrow> [base @ name] | _ \<Rightarrow> []) nodes)
     @ concat (map (walk_below base) nodes)"
| "walk_below base (Walk_Directory name nodes) = walk_files (base @ name @ ''/'') nodes"
| "walk_below base (Walk_Link name) = []"
| "walk_below base (Walk_File name) = []"

definition workspace_paths :: "walk_node list \<Rightarrow> string list" where
  \<comment> \<open>an entry \<^verbatim>\<open>.git\<close> of the repository itself is left out\<close>
  "workspace_paths nodes = walk_files [] (filter (\<lambda>n. node_name n \<noteq> ''.git'') nodes)"

definition entry_kind :: "worktree_entry option \<Rightarrow> git_error + string" where
  "entry_kind e =
     (case e of
        Some (Link _) \<Rightarrow> Inr ''symlink''
      | Some (Plain _ _) \<Rightarrow> Inr ''file''
      | _ \<Rightarrow> Inl Worktree_Unreadable)"

definition workspace_file ::
  "'w git_setup \<Rightarrow> string list \<Rightarrow> string \<Rightarrow> repair_workspace_file list \<times> int
   \<Rightarrow> ('w, repair_workspace_file list \<times> int) git_op" where
  \<comment> \<open>the body of the loop: the files so far and their bytes\<close>
  "workspace_file env controls path acc =
     (case acc of (entries, used) \<Rightarrow>
        bind_op (require_op (length entries < max_repair_files) Repair_Limit) (\<lambda>_.
        if path \<in> set controls then return_op acc
        else
          bind_op (lstat_entry env path) (\<lambda>e.
          bind_op (result_op (entry_kind e)) (\<lambda>kind.
          bind_op (result_op (bounded_worktree_hash e (int max_repair_total_bytes - used))) (\<lambda>(content_hash, size).
          bind_op (result_op (validate_git_path path)) (\<lambda>path.
          bind_op (result_op (worktree_mode e)) (\<lambda>mode.
          bind_op (result_op (worktree_is_binary e)) (\<lambda>binary.
            return_op (entries @ [\<lparr>rw_path = path, rw_kind = kind, rw_mode = mode, rw_binary = binary,
              rw_content_sha256 = content_hash\<rparr>], used + size)))))))))"

definition repair_workspace_files :: "'w git_setup \<Rightarrow> string list \<Rightarrow> ('w, repair_workspace_file list) git_op" where
  "repair_workspace_files env controls =
     bind_op (reading (\<lambda>g. Inr (case gs_host env of None \<Rightarrow> [] | Some host \<Rightarrow> gh_walk host (gd_world g)))) (\<lambda>nodes.
     bind_op (fold_op (workspace_file env controls) (workspace_paths nodes) ([], 0)) (\<lambda>(entries, _).
       let result = sort_key rw_path entries in
       bind_op (require_op (no_dups (map rw_path result)) Manifest_Duplicates) (\<lambda>_. return_op result)))"

definition capture_source_file :: "'w git_setup \<Rightarrow> git_manifest_file \<Rightarrow> ('w, repair_source_file) git_op" where
  "capture_source_file env f =
     bind_op (if deletion f then return_op None
              else bind_op (lstat_entry env (gf_path f)) (\<lambda>e.
                   bind_op (result_op (bounded_worktree_hash e (int max_repair_total_bytes)))
                     (\<lambda>(h, _). return_op (Some h)))) (\<lambda>h.
       return_op \<lparr>rf_file = f, rf_content_sha256 = h\<rparr>)"

definition collect_repair_source_manifest ::
  "'w git_setup \<Rightarrow> string \<Rightarrow> string list \<Rightarrow> string list \<Rightarrow> ('w, repair_source_manifest) git_op" where
  "collect_repair_source_manifest env baseline planned_paths control_paths =
     bind_op (require_op (list_all git_path_ok planned_paths \<and> list_all git_path_ok control_paths) Path_Invalid) (\<lambda>_.
     let planned = sort planned_paths; controls = sort control_paths in
     bind_op (require_op (planned \<noteq> [] \<and> no_dups planned) Manifest_Mismatch) (\<lambda>_.
     bind_op (require_op (no_dups controls \<and> set planned \<inter> set controls = {}) Manifest_Mismatch) (\<lambda>_.
     bind_op (collect_manifest_inputs env baseline (planned @ controls)) (\<lambda>m.
     let entries = filter (\<lambda>f. gf_path f \<notin> set controls) (gm_files m) in
     bind_op (require_op (set (map gf_path entries) = set planned) Manifest_Mismatch) (\<lambda>_.
     bind_op (map_op (capture_source_file env) entries) (\<lambda>files.
     bind_op (repair_workspace_files env controls) (\<lambda>workspace.
       return_op \<lparr>rs_baseline_sha = gm_baseline_sha m, rs_source_files = files,
                  rs_workspace_files = workspace\<rparr>)))))))"

definition lock_entry :: "'w git_setup \<Rightarrow> string \<Rightarrow> ('w, json) git_op" where
  "lock_entry env name =
     bind_op (lstat_entry env name) (\<lambda>e.
       case e of
         None \<Rightarrow> return_op (JObj [(''path'', JStr name), (''present'', JBool False)])
       | Some (Plain executable content) \<Rightarrow>
           return_op (JObj [(''path'', JStr name), (''present'', JBool True),
             (''mode'', JStr (if executable then ''100755'' else ''100644'')),
             (''content_sha256'', JStr (bytes_hash content))])
       | Some _ \<Rightarrow> raise_op Worktree_Unreadable)"

definition dependency_lock_hash :: "'w git_setup \<Rightarrow> ('w, string) git_op" where
  "dependency_lock_hash env =
     bind_op (map_op (lock_entry env) [''pyproject.toml'', ''poetry.lock'', ''uv.lock'', ''requirements.txt''])
       (\<lambda>entries. return_op (hash_json (JList entries)))"

subsection \<open>Commit\<close>

definition tree_line_matches :: "git_manifest_file \<Rightarrow> string \<Rightarrow> bool" where
  \<comment> \<open>a line of \<^verbatim>\<open>ls-tree\<close>: mode, type and object, a tab, the path\<close>
  "tree_line_matches f line \<longleftrightarrow>
     (case cut_at (CHR 0x09) line of
        None \<Rightarrow> False
      | Some (mode_and_object, path) \<Rightarrow>
          (case split_max 2 mode_and_object of
             [mode, _, object_id] \<Rightarrow>
               path = gf_path f \<and> mode = gf_new_mode f \<and> Some (lower object_id) = gf_object_id f
           | _ \<Rightarrow> False))"

definition verify_tree_entry :: "'w git_setup \<Rightarrow> string \<Rightarrow> git_manifest_file \<Rightarrow> ('w, unit) git_op" where
  "verify_tree_entry env commit f =
     bind_op (git_output env [''ls-tree'', commit, ''--'', gf_path f] False) (\<lambda>output.
       require_op (if deletion f then output = [] else tree_line_matches f (strip output)) Manifest_Mismatch)"

definition diff_renames :: "raw_diff_entry list \<Rightarrow> (string \<times> string) list" where
  "diff_renames entries =
     concat (map (\<lambda>e. case rd_old_path e of
                    Some old \<Rightarrow> if starts_with ''R'' (rd_status e) then [(old, rd_path e)] else []
                  | None \<Rightarrow> []) entries)"

definition verify_commit :: "'w git_setup \<Rightarrow> git_manifest \<Rightarrow> string \<Rightarrow> ('w, unit) git_op" where
  "verify_commit env m commit =
     bind_op (rev_parse env (commit @ ''^'')) (\<lambda>parent.
     bind_op (require_op (parent = gm_baseline_sha m) Manifest_Mismatch) (\<lambda>_.
     bind_op (index_changed_paths env commit) (\<lambda>staged.
     bind_op (require_op (staged = {}) Manifest_Mismatch) (\<lambda>_.
     bind_op (git_output env
         [''diff-tree'', ''--no-commit-id'', ''--name-only'', ''--no-renames'', ''-r'', ''-z'', commit] False) (\<lambda>output.
     bind_op (result_op (nul_paths output)) (\<lambda>committed.
     bind_op (require_op (set committed = manifest_stage_paths m) Manifest_Mismatch) (\<lambda>_.
     bind_op (map_op (verify_tree_entry env commit) (gm_files m)) (\<lambda>_.
     bind_op (raw_diff env (gm_baseline_sha m) (Some commit)) (\<lambda>entries.
       require_op (set (diff_renames entries) = set (manifest_renames m)) Manifest_Mismatch)))))))))"

definition commit_message_ok :: "string \<Rightarrow> bool" where
  "commit_message_ok message \<longleftrightarrow> strip message \<noteq> [] \<and> length message \<le> 4096 \<and> nul \<notin> set message"

definition guard_reading :: "('w git_guard \<Rightarrow> 'a) \<Rightarrow> ('w, 'a) git_op" where
  "guard_reading f = reading (\<lambda>g. Inr (f g))"

definition approve_commit :: "string \<Rightarrow> ('w, string) git_op" where
  "approve_commit commit g = (Inr commit, g\<lparr>gd_approved_commit := Some commit\<rparr>)"

definition on_ticket_branch :: "'w git_setup \<Rightarrow> git_error \<Rightarrow> ('w, unit) git_op" where
  \<comment> \<open>there is a ticket branch, and it is checked out\<close>
  "on_ticket_branch env e =
     bind_op (guard_reading gd_ticket_branch) (\<lambda>expected.
     bind_op (require_op (expected \<noteq> None) e) (\<lambda>_.
     bind_op (current_branch env) (\<lambda>current. require_op (expected = Some current) e)))"

definition stage_paths :: "git_manifest \<Rightarrow> string list" where
  \<comment> \<open>\<^verbatim>\<open>sorted(_manifest_stage_paths(manifest))\<close>\<close>
  "stage_paths m = sort (remdups (map gf_path (gm_files m) @ map fst (manifest_renames m)))"

definition stage_manifest :: "'w git_setup \<Rightarrow> git_manifest \<Rightarrow> ('w, unit) git_op" where
  \<comment> \<open>the index is made to hold the manifest and nothing else\<close>
  "stage_manifest env m =
     bind_op (index_changed_paths env (gm_baseline_sha m)) (\<lambda>staged.
     bind_op (require_op (staged \<subseteq> manifest_stage_paths m) Manifest_Mismatch) (\<lambda>_.
     bind_op (git_run env ([''update-index'', ''--add'', ''--remove'', ''--''] @ stage_paths m) False False) (\<lambda>_.
     bind_op (index_changed_paths env (gm_baseline_sha m)) (\<lambda>staged.
     bind_op (require_op (staged = manifest_stage_paths m) Manifest_Mismatch) (\<lambda>_.
     bind_op (git_succeeds env ([''diff'', ''--quiet'', ''--''] @ stage_paths m)) (\<lambda>same.
       require_op same Manifest_Mismatch))))))"

definition commit_manifest :: "'w git_setup \<Rightarrow> git_manifest \<Rightarrow> string \<Rightarrow> ('w, string) git_op" where
  "commit_manifest env m message =
     bind_op (require_op (gm_files m \<noteq> []) Manifest_Mismatch) (\<lambda>_.
     bind_op (require_op (commit_message_ok message) Manifest_Mismatch) (\<lambda>_.
     bind_op (on_ticket_branch env Manifest_Mismatch) (\<lambda>_.
     bind_op (rev_parse env ''HEAD'') (\<lambda>head.
     bind_op (require_op (head = gm_baseline_sha m) Manifest_Mismatch) (\<lambda>_.
     bind_op (collect_manifest_inputs env (gm_baseline_sha m) (authorized_untracked_paths m)) (\<lambda>current.
     bind_op (require_op (current = m) Manifest_Mismatch) (\<lambda>_.
     bind_op (stage_manifest env m) (\<lambda>_.
     bind_op (git_run env [''commit'', ''--no-verify'', ''-m'', message] False False) (\<lambda>_.
     bind_op (rev_parse env ''HEAD'') (\<lambda>commit.
     bind_op (verify_commit env m commit) (\<lambda>_.
       approve_commit commit)))))))))))"

definition commit_product_manifest ::
  "'w git_setup \<Rightarrow> product_change_manifest \<Rightarrow> string \<Rightarrow> ('w, string) git_op" where
  "commit_product_manifest env m message =
     bind_op (result_op (product_manifest_inputs m)) (\<lambda>inputs. commit_manifest env inputs message)"

subsection \<open>Push\<close>

definition branch_reference :: "string \<Rightarrow> string" where
  "branch_reference name = ''refs/heads/'' @ name"

definition remote_head :: "string list \<Rightarrow> git_error + string option" where
  \<comment> \<open>the object of the only line; a line of white space is an \<^verbatim>\<open>IndexError\<close>\<close>
  "remote_head lines =
     (case lines of
        [line] \<Rightarrow> (case split_max 1 line of [] \<Rightarrow> Inl Output_Index_Error | sha # _ \<Rightarrow> Inr (Some (lower sha)))
      | _ \<Rightarrow> Inr None)"

definition push :: "'w git_setup \<Rightarrow> ('w, string) git_op" where
  "push env =
     bind_op (guard_reading (\<lambda>g. (gd_ticket_branch g, gd_approved_commit g, gd_prepared_remote g))) (\<lambda>st.
       case st of
         (Some ticket, Some approved, Some prepared) \<Rightarrow>
           bind_op (current_branch env) (\<lambda>current.
           bind_op (require_op (current = ticket) Push_Unauthorized) (\<lambda>_.
           bind_op (rev_parse env ''HEAD'') (\<lambda>head.
           bind_op (require_op (head = approved) Push_Unauthorized) (\<lambda>_.
           bind_op (current_remote env) (\<lambda>snapshot.
           bind_op (require_op (snapshot = prepared) Push_Unauthorized) (\<lambda>_.
           let reference = branch_reference ticket in
           bind_op (git_run env [''push'', ''--porcelain'', ''--set-upstream'', gs_remote env,
               reference @ '':'' @ reference] False True) (\<lambda>_.
           bind_op (remote_heads env reference) (\<lambda>lines.
           bind_op (result_op (remote_head lines)) (\<lambda>remote.
           bind_op (require_op (remote = Some approved) Push_Unauthorized) (\<lambda>_.
             return_op approved))))))))))
       | _ \<Rightarrow> raise_op Push_Unauthorized)"

definition push_product_commit :: "'w git_setup \<Rightarrow> string \<Rightarrow> ('w, string) git_op" where
  "push_product_commit env commit =
     bind_op (require_op (git_sha_ok commit) Sha_Invalid) (\<lambda>_.
     bind_op (guard_reading gd_approved_commit) (\<lambda>approved.
     bind_op (require_op (approved = Some commit) Push_Unauthorized) (\<lambda>_. push env)))"

subsection \<open>Finalization and reconciliation\<close>

definition refresh_finalization :: "'w git_setup \<Rightarrow> string \<Rightarrow> string \<Rightarrow> ('w, bool) git_op" where
  "refresh_finalization env name baseline =
     bind_op (require_op (branch_name_ok name) Branch_Invalid) (\<lambda>_.
     bind_op (require_op (git_sha_ok baseline) Sha_Invalid) (\<lambda>_.
     bind_op (git_run env [''fetch'', ''--no-tags'', gs_remote env] False True) (\<lambda>_.
     bind_op (current_remote env) (\<lambda>snapshot.
       if rm_base_sha snapshot \<noteq> baseline then return_op False
       else bind_op (current_branch env) (\<lambda>current.
         if current \<noteq> name then return_op False
         else bind_op (switched_to name snapshot) (\<lambda>_. return_op True))))))"

definition catch_mismatch :: "('w, 'a) git_op \<Rightarrow> ('w, 'a option) git_op" where
  \<comment> \<open>\<^verbatim>\<open>except ManifestMismatchError\<close>\<close>
  "catch_mismatch m g =
     (case m g of
        (Inl Manifest_Mismatch, g') \<Rightarrow> (Inr None, g')
      | (Inl e, g') \<Rightarrow> (Inl e, g')
      | (Inr x, g') \<Rightarrow> (Inr (Some x), g'))"

definition reconcile_product_commit ::
  "'w git_setup \<Rightarrow> product_change_manifest \<Rightarrow> string option \<Rightarrow> ('w, string option) git_op" where
  "reconcile_product_commit env m commit =
     bind_op (result_op (product_manifest_inputs m)) (\<lambda>inputs.
     bind_op (case commit of None \<Rightarrow> rev_parse env ''HEAD'' | Some sha \<Rightarrow> result_op (validate_sha sha)) (\<lambda>candidate.
     bind_op (rev_parse env ''HEAD'') (\<lambda>head.
       if head \<noteq> candidate then return_op None
       else bind_op (catch_mismatch (verify_commit env inputs candidate)) (\<lambda>verified.
         case verified of
           None \<Rightarrow> return_op None
         | Some _ \<Rightarrow> bind_op (approve_commit candidate) (\<lambda>c. return_op (Some c))))))"

definition reconcile_product_push :: "'w git_setup \<Rightarrow> string \<Rightarrow> string \<Rightarrow> ('w, string option) git_op" where
  "reconcile_product_push env name commit =
     bind_op (require_op (branch_name_ok name) Branch_Invalid) (\<lambda>_.
     bind_op (require_op (git_sha_ok commit) Sha_Invalid) (\<lambda>_.
     bind_op (remote_heads env (branch_reference name)) (\<lambda>lines.
     bind_op (result_op (remote_head lines)) (\<lambda>remote.
       return_op (if remote = Some commit then Some commit else None)))))"

end
