(* ===== verification/Git_Laws.thy ===== *)
theory Git_Laws
  imports Git_Commit
begin

section \<open>Laws of the Git guard\<close>

text \<open>
  Which commands the guard can run at all, what it reads when reading changes nothing, and
  what a successful collection, verification and commit say about the answers of Git.
\<close>

subsection \<open>The commands of the guard\<close>

definition read_command :: "string list \<Rightarrow> bool" where
  \<comment> \<open>commands that only report, with the options the guard gives them\<close>
  "read_command argv \<longleftrightarrow>
     (case argv of
        [] \<Rightarrow> False
      | c # args \<Rightarrow>
          c \<in> {''rev-parse'', ''status'', ''show-ref'', ''ls-remote'', ''symbolic-ref'', ''merge-base'',
               ''diff'', ''ls-files'', ''diff-tree'', ''ls-tree''}
          \<or> c = ''remote'' \<and> take 1 args = [''get-url'']
          \<or> c = ''hash-object'' \<and> take 2 args = [''--no-filters'', ''--''])"

definition not_an_option :: "string \<Rightarrow> bool" where
  "not_an_option s \<longleftrightarrow> s \<noteq> [] \<and> \<not> starts_with ''-'' s"

inductive permitted_command :: "string \<Rightarrow> string list \<Rightarrow> bool" for remote where
  Read: "read_command argv \<Longrightarrow> permitted_command remote argv"
| Fetch: "permitted_command remote [''fetch'', remote]"
| Fetch_Untagged: "permitted_command remote [''fetch'', ''--no-tags'', remote]"
| Switch: "not_an_option name \<Longrightarrow> permitted_command remote [''switch'', name]"
| Create: "not_an_option name \<Longrightarrow> not_an_option start \<Longrightarrow>
     permitted_command remote [''switch'', ''-c'', name, start]"
| Stage: "permitted_command remote ([''update-index'', ''--add'', ''--remove'', ''--''] @ paths)"
| Commit: "permitted_command remote [''commit'', ''--no-verify'', ''-m'', message]"
| Push: "branch_name_ok name \<Longrightarrow> permitted_command remote [''push'', ''--porcelain'', ''--set-upstream'', remote,
     branch_reference name @ '':'' @ branch_reference name]"

abbreviation on_world :: "('w \<Rightarrow> bool) \<Rightarrow> 'w git_guard \<Rightarrow> bool" where
  "on_world P \<equiv> \<lambda>g. P (gd_world g)"

lemma keeps_op_case_pair [op_rules]:
  "(\<And>a b. keeps_op P (f a b)) \<Longrightarrow> keeps_op P (case x of (a, b) \<Rightarrow> f a b)"
  by (cases x) simp

lemma worktree_entry_keeps [op_rules]: "keeps_op P (lstat_entry env path)"
  unfolding lstat_entry_def by (rule keeps_op_reading)

lemma guard_reading_keeps [op_rules]: "keeps_op P (guard_reading f)"
  unfolding guard_reading_def by (rule keeps_op_reading)

lemma manifest_file_keeps [op_rules]: "keeps_op P (manifest_file f)"
  unfolding manifest_file_def by (intro op_rules)

lemma check_role_keeps [op_rules]: "keeps_op P (check_role env path)"
  unfolding check_role_def by (rule keeps_op_result)

lemma switched_keeps [op_rules]: "keeps_op (on_world P) (switched_to name snapshot)"
  by (simp add: keeps_op_def switched_to_def)

lemma approve_keeps [op_rules]: "keeps_op (on_world P) (approve_commit commit)"
  by (simp add: keeps_op_def approve_commit_def)

lemma catch_keeps: "keeps_op P m \<Longrightarrow> keeps_op P (catch_mismatch m)"
  unfolding keeps_op_def catch_mismatch_def by (fastforce split: prod.splits sum.splits git_error.splits)

lemma reads [intro]: "read_command (c # args) \<Longrightarrow> permitted_command remote (c # args)"
  by (rule permitted_command.Read)

lemma read_command_simps [simp]:
  "read_command (''rev-parse'' # a)" "read_command (''status'' # a)" "read_command (''show-ref'' # a)"
  "read_command (''ls-remote'' # a)" "read_command (''symbolic-ref'' # a)" "read_command (''merge-base'' # a)"
  "read_command (''diff'' # a)" "read_command (''ls-files'' # a)" "read_command (''diff-tree'' # a)"
  "read_command (''ls-tree'' # a)" "read_command (''remote'' # ''get-url'' # a)"
  "read_command (''hash-object'' # ''--no-filters'' # ''--'' # a)"
  by (simp_all add: read_command_def)

lemma branch_not_option: "branch_name_ok name \<Longrightarrow> not_an_option name"
  by (simp add: branch_name_ok_def not_an_option_def)

lemma sha_not_option: "git_sha_ok sha \<Longrightarrow> not_an_option sha"
proof -
  assume "git_sha_ok sha"
  then obtain p b where "matches (Rep (Cls is_lower_hex) 40 0) (None, lower sha) p"
    by (auto simp: git_sha_ok_def lower_git_sha_def fullmatch_iff elim: matches.cases)
  moreover have "\<exists>d s'. lower sha = d # s' \<and> is_lower_hex d"
    if "matches (Rep (Cls is_lower_hex) (Suc n) 0) (None, lower sha) p" for n
    using that by (rule Rep_Suc_cases) (auto simp: matches_simps)
  from this [of 39] calculation obtain d s' where "lower sha = d # s'" "is_lower_hex d"
    by auto
  then show ?thesis
    by (cases sha) (auto simp: not_an_option_def lower_def starts_with_def is_lower_hex_def is_digit_def
        to_lower_char_def is_upper_def split: if_splits)
qed

lemma keeps_require: "(ok \<Longrightarrow> keeps_op P (f ())) \<Longrightarrow> keeps_op P (bind_op (require_op ok e) f)"
  by (cases ok) (simp_all add: keeps_op_raise)

lemma remote_not_option: "safe_remote r \<Longrightarrow> not_an_option r"
proof -
  assume "safe_remote r"
  then obtain p where "matches (Cls is_alnum) (None, r) p"
    by (auto simp: safe_remote_def fullmatch_iff elim: matches.cases)
  then show ?thesis
    by (cases r) (auto simp: matches_simps not_an_option_def starts_with_def is_alnum_def is_upper_def
        is_lower_def is_digit_def)
qed

lemma snapshot_returns: "returns_op (current_remote env) remote_snapshot_valid"
  unfolding current_remote_def Let_def
  by (rule returns_op_bind, rule returns_op_bind, rule returns_op_bind)
    (auto intro!: return_rules split: list.split option.split prod.split)

lemma lower_idem: "lower (lower s) = lower s"
  by (simp add: lower_def)

lemma base_not_option: "safe_remote (gs_remote env) \<Longrightarrow> not_an_option (base_reference env s)"
  using remote_not_option [of "gs_remote env"]
  by (cases "gs_remote env") (auto simp: base_reference_def not_an_option_def starts_with_def)

subsection \<open>What the executor promises to the guard\<close>

locale git_reads =
  fixes env :: "'w git_setup" and Q :: "'w git_guard \<Rightarrow> bool"
  assumes kept_read: "read_command argv \<Longrightarrow> keeps_op Q (git_run env argv allow redact)"
begin

lemma keeps_output [op_rules]: "read_command argv \<Longrightarrow> keeps_op Q (git_output env argv redact)"
  unfolding git_output_def by (intro op_rules kept_read)

lemma keeps_succeeds [op_rules]: "read_command argv \<Longrightarrow> keeps_op Q (git_succeeds env argv)"
  unfolding git_succeeds_def by (intro op_rules kept_read)

lemma keeps_rev_parse [op_rules]: "keeps_op Q (rev_parse env r)"
  unfolding rev_parse_def by (intro op_rules) simp

lemma keeps_baseline [op_rules]: "keeps_op Q (verify_baseline env sha)"
  unfolding verify_baseline_def by (intro op_rules)

lemma keeps_current [op_rules]: "keeps_op Q (current_branch env)"
  unfolding current_branch_def Let_def by (intro op_rules) simp

lemma keeps_fingerprint [op_rules]: "keeps_op Q (remote_fingerprint env)"
  unfolding remote_fingerprint_def by (intro op_rules) (auto intro!: op_rules split: list.split)

lemma keeps_discover [op_rules]: "keeps_op Q (discover_remote_default_branch env)"
  unfolding discover_remote_default_branch_def by (intro op_rules) (auto intro!: op_rules split: list.split)

lemma keeps_heads [op_rules]: "keeps_op Q (remote_heads env r)"
  unfolding remote_heads_def by (intro op_rules) simp

lemma keeps_snapshot [op_rules]: "keeps_op Q (current_remote env)"
  unfolding current_remote_def Let_def
  by (intro op_rules) (auto intro!: op_rules split: list.split option.split prod.split)

lemma keeps_preflight [op_rules]: "keeps_op Q (preflight env)"
  unfolding preflight_def by (intro op_rules) simp_all

lemma keeps_identity [op_rules]: "keeps_op Q (repository_identity env)"
  unfolding repository_identity_def Let_def by (intro op_rules) simp

lemma keeps_exists:
  "(\<And>x. branch_name_ok name \<Longrightarrow> keeps_op Q (f x)) \<Longrightarrow>
   keeps_op Q (bind_op (branch_exists env name) f)"
  unfolding branch_exists_def bind_op_assoc
  by (intro keeps_require op_rules) (simp_all add: keeps_succeeds)

lemma keeps_current_branch:
  "(\<And>name. branch_name_ok name \<Longrightarrow> keeps_op Q (f name)) \<Longrightarrow> keeps_op Q (bind_op (current_branch env) f)"
proof (rule keeps_op_bind_returns [OF _ keeps_current])
  show "returns_op (current_branch env) branch_name_ok"
    unfolding current_branch_def Let_def by (intro returns_op_bind return_rules)
qed

lemma keeps_base_snapshot:
  "(\<And>s. remote_snapshot_valid s \<Longrightarrow> keeps_op Q (f s)) \<Longrightarrow>
   keeps_op Q (bind_op (current_remote env) f)"
  by (rule keeps_op_bind_returns [OF snapshot_returns keeps_snapshot])

lemma keeps_untracked [op_rules]: "keeps_op Q (untracked_paths env)"
  unfolding untracked_paths_def by (intro op_rules) simp

lemma keeps_hash_object [op_rules]: "keeps_op Q (hash_worktree_object env path)"
  unfolding hash_worktree_object_def by (intro op_rules) simp

lemma keeps_raw [op_rules]: "keeps_op Q (raw_diff env baseline target)"
  unfolding raw_diff_def by (intro op_rules) simp

lemma keeps_binary [op_rules]: "keeps_op Q (binary_paths env baseline)"
  unfolding binary_paths_def by (intro op_rules) simp

lemma keeps_index [op_rules]: "keeps_op Q (index_changed_paths env baseline)"
  unfolding index_changed_paths_def by (intro op_rules) simp

lemma keeps_tracked [op_rules]: "keeps_op Q (tracked_file env binaries raw)"
  unfolding tracked_file_def by (intro op_rules)

lemma keeps_match [op_rules]: "keeps_op Q (match_untracked env path m)"
  unfolding match_untracked_def by (intro op_rules)

lemma keeps_add [op_rules]: "keeps_op R (add_untracked authorized tracked u files)"
  unfolding add_untracked_def by (intro op_rules)

lemma keeps_collect [op_rules]: "keeps_op Q (collect_manifest_inputs env sha authorized)"
  unfolding collect_manifest_inputs_def by (intro op_rules)

lemma keeps_workspace_file [op_rules]: "keeps_op R (workspace_file env controls path acc)"
  unfolding workspace_file_def by (intro op_rules)

lemma keeps_repair_source [op_rules]:
  "keeps_op Q (collect_repair_source_manifest env baseline planned controls)"
  unfolding collect_repair_source_manifest_def Let_def capture_source_file_def repair_workspace_files_def
  by (intro op_rules)

lemma keeps_lock [op_rules]: "keeps_op Q (dependency_lock_hash env)"
  unfolding dependency_lock_hash_def lock_entry_def
  by (intro op_rules) (auto intro!: op_rules split: option.split worktree_entry.split)

lemma keeps_verify_commit [op_rules]: "keeps_op Q (verify_commit env m commit)"
  unfolding verify_commit_def verify_tree_entry_def by (intro op_rules) simp_all

lemma keeps_reconcile_push [op_rules]: "keeps_op Q (reconcile_product_push env name commit)"
  unfolding reconcile_product_push_def by (intro op_rules)

end

locale git_commands = git_reads env "on_world P" for env :: "'w git_setup" and P :: "'w \<Rightarrow> bool" +
  assumes kept: "permitted_command (gs_remote env) argv \<Longrightarrow> keeps_op (on_world P) (git_run env argv allow redact)"
begin

lemmas keeps_run [op_rules] = kept

lemma keeps_fetch [op_rules]: "keeps_op (on_world P) (fetch env)"
  unfolding fetch_def by (intro op_rules permitted_command.Fetch)

lemma keeps_fetched [op_rules]: "keeps_op (on_world P) (fetched_base env)"
  unfolding fetched_base_def by (intro op_rules)

lemma keeps_reconcile_branch [op_rules]: "keeps_op (on_world P) (reconcile_branch env b lineage)"
  unfolding reconcile_branch_def
  by (intro keeps_exists op_rules permitted_command.Switch branch_not_option) simp_all

lemma keeps_create [op_rules]:
  assumes "safe_remote (gs_remote env)"
  shows "keeps_op (on_world P) (create_ticket_branch env ticket title reuse lineage)"
  unfolding create_ticket_branch_def
  by (intro keeps_exists op_rules permitted_command.Create)
    (auto intro: branch_not_option base_not_option [OF assms])

lemma keeps_prepare [op_rules]: "keeps_op (on_world P) (prepare_ticket_branch env ticket title lineage)"
proof -
  have "keeps_op (on_world P) (\<lambda>g. (Inr (), g\<lparr>gd_prepared_remote := x\<rparr>))" for x
    by (simp add: keeps_op_def)
  then show ?thesis
    unfolding prepare_ticket_branch_def Let_def by (intro op_rules)
qed

lemma keeps_create_bound [op_rules]: "keeps_op (on_world P) (create_bound_ticket_branch env b)"
proof -
  have "not_an_option (bb_base_sha b)" if "remote_snapshot_valid s" "binding_matches_remote b s" for s
  proof -
    have "git_sha_ok (bb_base_sha b)"
      using that by (simp add: remote_snapshot_valid_def binding_matches_remote_def git_sha_ok_def)
        (metis lower_idem)
    then show ?thesis by (rule sha_not_option)
  qed
  then show ?thesis
    unfolding create_bound_ticket_branch_def
    by (intro keeps_base_snapshot keeps_require keeps_exists op_rules permitted_command.Create)
      (auto intro: branch_not_option)
qed

lemma keeps_stage [op_rules]: "keeps_op (on_world P) (stage_manifest env m)"
  unfolding stage_manifest_def by (intro op_rules permitted_command.Stage) simp

lemma keeps_commit [op_rules]: "keeps_op (on_world P) (commit_manifest env m message)"
  unfolding commit_manifest_def on_ticket_branch_def by (intro op_rules permitted_command.Commit)

lemma keeps_product_commit [op_rules]: "keeps_op (on_world P) (commit_product_manifest env m message)"
  unfolding commit_product_manifest_def by (intro op_rules)

lemma keeps_push [op_rules]: "keeps_op (on_world P) (push env)"
  unfolding push_def Let_def
  by (intro keeps_current_branch keeps_require op_rules permitted_command.Push) simp

lemma keeps_product_push [op_rules]: "keeps_op (on_world P) (push_product_commit env commit)"
  unfolding push_product_commit_def by (intro op_rules)

lemma keeps_refresh [op_rules]: "keeps_op (on_world P) (refresh_finalization env name baseline)"
  unfolding refresh_finalization_def by (intro op_rules permitted_command.Fetch_Untagged)

lemma keeps_reconcile_commit [op_rules]: "keeps_op (on_world P) (reconcile_product_commit env m commit)"
  unfolding reconcile_product_commit_def by (intro op_rules catch_keeps)

end

end
