(* ===== verification/Git_History.thy ===== *)
theory Git_History
  imports Git_Laws
begin

section \<open>Sessions of the Git guard\<close>

text \<open>
  The states a guard reaches by any sequence of its operations, whether they return or raise.
  A setup is \<open>logged\<close> when its world also records the argument arrays of the commands.
\<close>

inductive guard_step ::
  "'w git_setup \<Rightarrow> ('w \<Rightarrow> 'w \<Rightarrow> bool) \<Rightarrow> 'w git_guard \<Rightarrow> 'w git_guard \<Rightarrow> bool" for env others g where
  Preflight: "guard_step env others g (snd (preflight env g))"
| Identity: "guard_step env others g (snd (repository_identity env g))"
| Create_Branch: "guard_step env others g (snd (create_ticket_branch env ticket title reuse lineage g))"
| Prepare_Branch: "guard_step env others g (snd (prepare_ticket_branch env ticket title lineage' g))"
| Create_Bound: "guard_step env others g (snd (create_bound_ticket_branch env b g))"
| Reconcile_Branch: "guard_step env others g (snd (reconcile_branch env b lineage' g))"
| Collect: "guard_step env others g (snd (collect_manifest_inputs env baseline authorized g))"
| Collect_Repair: "guard_step env others g (snd (collect_repair_source_manifest env baseline planned controls g))"
| Lock_Hash: "guard_step env others g (snd (dependency_lock_hash env g))"
| Commit_Manifest: "guard_step env others g (snd (commit_manifest env m message g))"
| Commit_Product: "guard_step env others g (snd (commit_product_manifest env product message g))"
| Push_Branch: "guard_step env others g (snd (push env g))"
| Push_Product: "guard_step env others g (snd (push_product_commit env commit g))"
| Refresh: "guard_step env others g (snd (refresh_finalization env name baseline g))"
| Reconcile_Commit: "guard_step env others g (snd (reconcile_product_commit env product candidate g))"
| Reconcile_Push: "guard_step env others g (snd (reconcile_product_push env name commit g))"
| Elsewhere: "others (gd_world g) w \<Longrightarrow> guard_step env others g (g\<lparr>gd_world := w\<rparr>)"
    \<comment> \<open>other programs change the repository or the working tree\<close>

inductive guard_reachable ::
  "'w git_setup \<Rightarrow> ('w \<Rightarrow> 'w \<Rightarrow> bool) \<Rightarrow> 'w \<Rightarrow> 'w git_guard \<Rightarrow> bool" for env others w where
  New: "guard_reachable env others w (new_guard w)"
| Next: "guard_reachable env others w g \<Longrightarrow> guard_step env others g g' \<Longrightarrow> guard_reachable env others w g'"

subsection \<open>The log of the commands\<close>

type_synonym 'w logged = "string list list \<times> 'w"

definition logged_host :: "'w git_host \<Rightarrow> 'w logged git_host" where
  "logged_host host =
     \<lparr>gh_run = (\<lambda>argv redact (log, w). case gh_run host argv redact w of (r, w') \<Rightarrow> (r, log @ [argv], w')),
      gh_lstat = (\<lambda>(_, w). gh_lstat host w), gh_walk = (\<lambda>(_, w). gh_walk host w),
      gh_stat = (\<lambda>(_, w). gh_stat host w)\<rparr>"

definition logged :: "'w git_setup \<Rightarrow> 'w logged git_setup" where
  "logged env =
     \<lparr>gs_host = map_option logged_host (gs_host env), gs_repository = gs_repository env,
      gs_remote = gs_remote env, gs_base_branch = gs_base_branch env, gs_protected = gs_protected env,
      gs_excluded = gs_excluded env\<rparr>"

lemma logged_fields [simp]: "gs_remote (logged env) = gs_remote env"
  by (simp add: logged_def)

definition permitted_log :: "string \<Rightarrow> 'w logged \<Rightarrow> bool" where
  "permitted_log remote w \<longleftrightarrow> list_all (permitted_command remote) (fst w)"

lemma logged_run_keeps:
  assumes "permitted_command (gs_remote env) argv"
  shows "keeps_op (on_world (permitted_log (gs_remote env))) (git_run (logged env) argv allow redact)"
  unfolding keeps_op_def
proof (intro allI impI)
  fix g :: "'a logged git_guard" assume g: "permitted_log (gs_remote env) (gd_world g)"
  show "permitted_log (gs_remote env) (gd_world (snd (git_run (logged env) argv allow redact g)))"
  proof (cases "gs_host env")
    case None
    then show ?thesis using g by (simp add: git_run_def logged_def)
  next
    case (Some host)
    obtain log w where w: "gd_world g = (log, w)" by fastforce
    obtain r w' where "gh_run host argv redact w = (r, w')" by fastforce
    with Some w g assms show ?thesis
      by (simp add: git_run_def logged_def logged_host_def permitted_log_def split: sum.split prod.split)
  qed
qed

interpretation log_reads: git_reads "logged env" "on_world (permitted_log (gs_remote env))" for env
  by unfold_locales (rule logged_run_keeps [OF permitted_command.Read])

interpretation log: git_commands "logged env" "permitted_log (gs_remote env)" for env
  by unfold_locales (simp add: logged_run_keeps)

lemma permitted_log_frame: "permitted_log remote a \<Longrightarrow> fst b = fst a \<Longrightarrow> permitted_log remote b"
  by (simp add: permitted_log_def)

lemma logged_step:
  assumes "guard_step (logged env) (\<lambda>a b. fst b = fst a) g g'" and "safe_remote (gs_remote env)"
    and w: "permitted_log (gs_remote env) (gd_world g)"
  shows "permitted_log (gs_remote env) (gd_world g')"
proof -
  have kept: "permitted_log (gs_remote env) (gd_world (snd (m g)))"
    if "keeps_op (on_world (permitted_log (gs_remote env))) m" for m :: "('a logged, 'b) git_op"
    using that w by (simp add: keeps_op_def)
  from assms(1) show ?thesis
    by (cases rule: guard_step.cases)
      (use assms(2) w in \<open>auto intro: permitted_log_frame intro!: kept log_reads.keeps_preflight
        log_reads.keeps_identity log.keeps_create log.keeps_prepare log.keeps_create_bound
        log.keeps_reconcile_branch log_reads.keeps_collect log_reads.keeps_repair_source log_reads.keeps_lock
        log.keeps_commit log.keeps_product_commit log.keeps_push log.keeps_product_push log.keeps_refresh
        log.keeps_reconcile_commit log_reads.keeps_reconcile_push\<close>)
qed

lemma logged_session:
  assumes "guard_reachable (logged env) (\<lambda>a b. fst b = fst a) ([], w) g" and "safe_remote (gs_remote env)"
  shows "permitted_log (gs_remote env) (gd_world g)"
  using assms(1)
proof (induction rule: guard_reachable.induct)
  case New
  then show ?case by (simp add: new_guard_def permitted_log_def)
next
  case (Next g g')
  from logged_step [OF Next.hyps(2) assms(2) Next.IH] show ?case .
qed

subsection \<open>Reading changes nothing\<close>

definition read_only :: "'w git_setup \<Rightarrow> bool" where
  \<comment> \<open>commands that only report leave the world as it is\<close>
  "read_only env \<longleftrightarrow>
     (\<forall>host argv redact w. gs_host env = Some host \<and> read_command argv \<longrightarrow> snd (gh_run host argv redact w) = w)"

lemma quiet_run:
  assumes "read_only env" and "read_command argv"
  shows "keeps_op (\<lambda>g. g = g0) (git_run env argv allow redact)"
proof (cases "gs_host env")
  case None
  then show ?thesis by (simp add: keeps_op_def git_run_def)
next
  case (Some host)
  with assms have "snd (gh_run host argv redact (gd_world g0)) = gd_world g0"
    by (simp add: read_only_def)
  with Some show ?thesis
    by (auto simp: keeps_op_def git_run_def split: prod.split sum.split)
qed

lemma quiet_reads: "read_only env \<Longrightarrow> git_reads env (\<lambda>g. g = g0)"
  by unfold_locales (rule quiet_run)

lemma quietD: "(\<And>g0. keeps_op (\<lambda>g. g = g0) m) \<Longrightarrow> m g = (x, g') \<Longrightarrow> g' = g"
  unfolding keeps_op_def by (metis snd_conv)

definition answer :: "'w git_setup \<Rightarrow> string list \<Rightarrow> bool \<Rightarrow> 'w \<Rightarrow> string option" where
  \<comment> \<open>what a command that succeeds prints in this world\<close>
  "answer env argv redact w =
     (case gs_host env of
        None \<Rightarrow> None
      | Some host \<Rightarrow>
          (case fst (gh_run host argv redact w) of
             Inr (code, output) \<Rightarrow> if code = 0 then output else None
           | Inl _ \<Rightarrow> None))"

lemma output_answer:
  assumes "read_only env" and "read_command argv"
  shows "git_output env argv redact g = (Inr t, g') \<longleftrightarrow> answer env argv redact (gd_world g) = Some t \<and> g' = g"
proof (cases "gs_host env")
  case None
  then show ?thesis by (simp add: git_output_def git_run_def bind_op_def answer_def)
next
  case (Some host)
  obtain r w where run: "gh_run host argv redact (gd_world g) = (r, w)" by fastforce
  with assms Some have w: "w = gd_world g" by (metis read_only_def snd_conv)
  from Some run w show ?thesis
    by (auto simp: git_output_def git_run_def bind_op_def answer_def return_op_def raise_op_def
        split: sum.split option.split)
qed

definition object_at :: "'w git_setup \<Rightarrow> string \<Rightarrow> 'w \<Rightarrow> string option" where
  \<comment> \<open>the object a name stands for\<close>
  "object_at env reference w =
     Option.bind (answer env [''rev-parse'', ''--verify'', reference] False w) (\<lambda>t.
       if git_sha_ok (lower (strip t)) then Some (lower (strip t)) else None)"

lemma rev_parse_answer:
  assumes "read_only env"
  shows "rev_parse env r g = (Inr c, g') \<longleftrightarrow> object_at env r (gd_world g) = Some c \<and> g' = g"
  by (auto simp: rev_parse_def bind_op_Inr output_answer [OF assms] object_at_def validate_sha_def lower_idem
      bind_eq_Some_conv split: if_splits)

lemma map_op_Inr:
  assumes "\<And>x g y g'. f x g = (Inr y, g') \<longleftrightarrow> R x y g \<and> g' = g"
  shows "map_op f xs g = (Inr ys, g') \<longleftrightarrow> list_all2 (\<lambda>x y. R x y g) xs ys \<and> g' = g"
proof (induction xs arbitrary: ys)
  case (Cons x xs)
  show ?case by (cases ys) (auto simp: bind_op_Inr assms Cons.IH)
qed auto

definition printed_paths :: "'w git_setup \<Rightarrow> string list \<Rightarrow> 'w \<Rightarrow> string set option" where
  \<comment> \<open>the paths a command lists\<close>
  "printed_paths env argv w =
     Option.bind (answer env argv False w) (\<lambda>t. case nul_paths t of Inl _ \<Rightarrow> None | Inr ps \<Rightarrow> Some (set ps))"

definition tree_holds :: "'w git_setup \<Rightarrow> string \<Rightarrow> 'w \<Rightarrow> git_manifest_file \<Rightarrow> bool" where
  \<comment> \<open>the commit has the file with the mode and object of the manifest, or not at all\<close>
  "tree_holds env commit w f \<longleftrightarrow>
     (case answer env [''ls-tree'', commit, ''--'', gf_path f] False w of
        None \<Rightarrow> False
      | Some line \<Rightarrow> if deletion f then line = [] else tree_line_matches f (strip line))"

definition renames_between :: "'w git_setup \<Rightarrow> string \<Rightarrow> string \<Rightarrow> 'w \<Rightarrow> (string \<times> string) set option" where
  "renames_between env baseline commit w =
     Option.bind (answer env
         [''diff'', ''--raw'', ''-z'', ''--no-abbrev'', ''--find-renames'', baseline, commit, ''--''] False w)
       (\<lambda>t. case parse_raw_diff t of Inl _ \<Rightarrow> None | Inr es \<Rightarrow> Some (set (diff_renames es)))"

definition commit_holds :: "'w git_setup \<Rightarrow> git_manifest \<Rightarrow> string \<Rightarrow> 'w \<Rightarrow> bool" where
  \<comment> \<open>the commit is the manifest on its baseline, and nothing is left staged\<close>
  "commit_holds env m commit w \<longleftrightarrow>
     object_at env (commit @ ''^'') w = Some (gm_baseline_sha m)
     \<and> printed_paths env [''diff'', ''--cached'', ''--name-only'', ''--no-renames'', ''-z'', commit, ''--''] w = Some {}
     \<and> printed_paths env [''diff-tree'', ''--no-commit-id'', ''--name-only'', ''--no-renames'', ''-r'', ''-z'', commit] w
         = Some (manifest_stage_paths m)
     \<and> list_all (tree_holds env commit w) (gm_files m)
     \<and> renames_between env (gm_baseline_sha m) commit w = Some (set (manifest_renames m))"

lemma printed_paths_Some:
  "printed_paths env argv w = Some S \<longleftrightarrow>
     (\<exists>t ps. answer env argv False w = Some t \<and> nul_paths t = Inr ps \<and> S = set ps)"
proof (cases "answer env argv False w")
  case (Some t)
  then show ?thesis by (cases "nul_paths t") (auto simp: printed_paths_def)
qed (simp add: printed_paths_def)

lemma renames_between_Some:
  "renames_between env baseline commit w = Some S \<longleftrightarrow>
     (\<exists>t es. answer env [''diff'', ''--raw'', ''-z'', ''--no-abbrev'', ''--find-renames'', baseline, commit, ''--''] False w
        = Some t \<and> parse_raw_diff t = Inr es \<and> S = set (diff_renames es))"
  (is "_ \<longleftrightarrow> (\<exists>t es. ?a = Some t \<and> _ t es)")
proof (cases ?a)
  case (Some t)
  then show ?thesis by (cases "parse_raw_diff t") (auto simp: renames_between_def)
qed (simp add: renames_between_def)

lemma index_answer:
  assumes "read_only env"
  shows "index_changed_paths env baseline g = (Inr ps, g') \<longleftrightarrow>
    printed_paths env [''diff'', ''--cached'', ''--name-only'', ''--no-renames'', ''-z'', baseline, ''--''] (gd_world g)
      = Some ps \<and> g' = g"
  by (auto simp: index_changed_paths_def bind_op_Inr output_answer [OF assms] printed_paths_Some)

lemma tree_entry_answer:
  assumes "read_only env"
  shows "verify_tree_entry env commit f g = (Inr u, g') \<longleftrightarrow> tree_holds env commit (gd_world g) f \<and> g' = g"
  by (auto simp: verify_tree_entry_def bind_op_Inr output_answer [OF assms] tree_holds_def split: option.splits)

lemma raw_answer:
  assumes "read_only env"
  shows "raw_diff env baseline (Some commit) g = (Inr es, g') \<longleftrightarrow>
    (\<exists>t. answer env [''diff'', ''--raw'', ''-z'', ''--no-abbrev'', ''--find-renames'', baseline, commit, ''--''] False
        (gd_world g) = Some t \<and> parse_raw_diff t = Inr es) \<and> g' = g"
  by (auto simp: raw_diff_def bind_op_Inr output_answer [OF assms])

lemma list_all2_units: "(\<exists>us :: unit list. list_all2 (\<lambda>x y. R x) xs us) \<longleftrightarrow> list_all R xs"
proof
  assume "list_all R xs"
  then have "list_all2 (\<lambda>x (y :: unit). R x) xs (map (\<lambda>_. ()) xs)"
    by (simp add: list_all2_map2 list_all2_same list_all_iff)
  then show "\<exists>us :: unit list. list_all2 (\<lambda>x y. R x) xs us" by blast
qed (auto simp: list_all_length list_all2_conv_all_nth)

lemma verify_commit_answer:
  assumes ro: "read_only env"
  shows "verify_commit env m commit g = (Inr u, g') \<longleftrightarrow> commit_holds env m commit (gd_world g) \<and> g' = g"
proof -
  note m = map_op_Inr [where f = "verify_tree_entry env commit" and R = "\<lambda>f _ g. tree_holds env commit (gd_world g) f",
      OF tree_entry_answer [OF ro]]
  show ?thesis
    by (auto simp: verify_commit_def bind_op_Inr rev_parse_answer [OF ro] index_answer [OF ro] output_answer [OF ro]
        raw_answer [OF ro] m commit_holds_def printed_paths_Some renames_between_Some
        list_all2_units [symmetric])
qed

end
