(* ===== verification/Git_Review.thy ===== *)
theory Git_Review
  imports Git_History
begin

section \<open>What is committed and pushed\<close>

text \<open>
  The approved commit of a guard is always one that was verified against a manifest; a commit
  that was made holds its manifest; a collected manifest names only permitted paths.
\<close>

subsection \<open>The approved commit\<close>

definition verified_commit :: "'w git_setup \<Rightarrow> string \<Rightarrow> bool" where
  "verified_commit env c \<longleftrightarrow> (\<exists>m g g'. verify_commit env m c g = (Inr (), g'))"

definition approval_verified :: "'w git_setup \<Rightarrow> 'w git_guard \<Rightarrow> bool" where
  "approval_verified env g \<longleftrightarrow> (\<forall>c. gd_approved_commit g = Some c \<longrightarrow> verified_commit env c)"

lemma run_approved: "approval_verified env' (snd (git_run env argv allow redact g)) = approval_verified env' g"
  by (simp add: git_run_def approval_verified_def split: option.split sum.split prod.split)

lemma run_keeps_approval [op_rules]: "keeps_op (approval_verified env') (git_run env argv allow redact)"
  by (simp add: keeps_op_def run_approved)

interpretation approval: git_reads env "approval_verified env'" for env env'
  by unfold_locales (rule run_keeps_approval)

lemmas approval_reads [op_rules] =
  approval.keeps_output approval.keeps_succeeds approval.keeps_rev_parse approval.keeps_baseline
  approval.keeps_current approval.keeps_snapshot approval.keeps_preflight approval.keeps_identity
  approval.keeps_index approval.keeps_collect approval.keeps_verify_commit

lemma approval_exists [op_rules]: "keeps_op (approval_verified env') (branch_exists env name)"
  unfolding branch_exists_def by (intro op_rules) simp_all

lemma approval_switched [op_rules]: "keeps_op (approval_verified env') (switched_to name snapshot)"
  by (simp add: keeps_op_def switched_to_def approval_verified_def)

lemma approval_heads [op_rules]: "keeps_op (approval_verified env') (remote_heads env r)"
  by (rule approval.keeps_heads)

lemma approval_fetch [op_rules]: "keeps_op (approval_verified env') (fetch env)"
  unfolding fetch_def by (intro op_rules)

lemma approval_reconcile_branch [op_rules]: "keeps_op (approval_verified env') (reconcile_branch env b lineage')"
  unfolding reconcile_branch_def by (intro op_rules) simp_all

lemma approval_create [op_rules]:
  "keeps_op (approval_verified env') (create_ticket_branch env ticket title reuse lineage')"
  unfolding create_ticket_branch_def fetched_base_def by (intro op_rules)

lemma approval_prepare [op_rules]:
  "keeps_op (approval_verified env') (prepare_ticket_branch env ticket title lineage')"
proof -
  have "keeps_op (approval_verified env') (\<lambda>g. (Inr (), g\<lparr>gd_prepared_remote := x\<rparr>))" for x
    by (simp add: keeps_op_def approval_verified_def)
  then show ?thesis
    unfolding prepare_ticket_branch_def fetched_base_def Let_def by (intro op_rules)
qed

lemma approval_create_bound [op_rules]: "keeps_op (approval_verified env') (create_bound_ticket_branch env b)"
  unfolding create_bound_ticket_branch_def by (intro op_rules)

lemma approval_stage [op_rules]: "keeps_op (approval_verified env') (stage_manifest env m)"
  unfolding stage_manifest_def by (intro op_rules) simp

lemma approval_refresh [op_rules]: "keeps_op (approval_verified env') (refresh_finalization env name baseline)"
  unfolding refresh_finalization_def by (intro op_rules)

lemma approval_push [op_rules]: "keeps_op (approval_verified env') (push env)"
  unfolding push_def Let_def by (intro op_rules)

lemma approval_product_push [op_rules]: "keeps_op (approval_verified env') (push_product_commit env commit)"
  unfolding push_product_commit_def by (intro op_rules)

lemma verify_then_approve [op_rules]:
  "keeps_op (approval_verified env) (bind_op (verify_commit env m commit) (\<lambda>_. approve_commit commit))"
proof (rule keeps_op_bind_returns [where Q = "\<lambda>_. verified_commit env commit"])
  show "returns_op (verify_commit env m commit) (\<lambda>_. verified_commit env commit)"
    by (auto simp: returns_op_def verified_commit_def)
  show "keeps_op (approval_verified env) (verify_commit env m commit)" by (rule approval.keeps_verify_commit)
qed (simp add: keeps_op_def approve_commit_def approval_verified_def)

lemma approval_commit [op_rules]: "keeps_op (approval_verified env) (commit_manifest env m message)"
  unfolding commit_manifest_def on_ticket_branch_def by (intro verify_then_approve op_rules)

lemma approval_product_commit [op_rules]: "keeps_op (approval_verified env) (commit_product_manifest env m message)"
  unfolding commit_product_manifest_def by (intro op_rules)

lemma catch_returns: "returns_op m (\<lambda>_. R) \<Longrightarrow> returns_op (catch_mismatch m) (\<lambda>x. x \<noteq> None \<longrightarrow> R)"
  unfolding returns_op_def catch_mismatch_def by (fastforce split: prod.splits sum.splits git_error.splits)

lemma approval_reconcile_commit [op_rules]:
  "keeps_op (approval_verified env) (reconcile_product_commit env m candidate)"
proof -
  have step: "keeps_op (approval_verified env) (bind_op (catch_mismatch (verify_commit env inputs c))
      (\<lambda>verified. case verified of None \<Rightarrow> return_op None
         | Some _ \<Rightarrow> bind_op (approve_commit c) (\<lambda>c. return_op (Some c))))" for inputs c
  proof (rule keeps_op_bind_returns [where Q = "\<lambda>x. x \<noteq> None \<longrightarrow> verified_commit env c"])
    show "returns_op (catch_mismatch (verify_commit env inputs c)) (\<lambda>x. x \<noteq> None \<longrightarrow> verified_commit env c)"
      by (rule catch_returns) (auto simp: returns_op_def verified_commit_def)
    show "keeps_op (approval_verified env) (catch_mismatch (verify_commit env inputs c))"
      by (intro catch_keeps op_rules)
  next
    fix x :: "unit option" assume "x \<noteq> None \<longrightarrow> verified_commit env c"
    then show "keeps_op (approval_verified env) (case x of None \<Rightarrow> return_op None
         | Some _ \<Rightarrow> bind_op (approve_commit c) (\<lambda>c. return_op (Some c)))"
      by (cases x) (auto simp: keeps_op_def approve_commit_def approval_verified_def bind_op_def return_op_def)
  qed
  show ?thesis unfolding reconcile_product_commit_def by (intro step op_rules)
qed

lemma approval_step: "guard_step env others g g' \<Longrightarrow> approval_verified env g \<Longrightarrow> approval_verified env g'"
proof (induction rule: guard_step.induct)
  case (Elsewhere w)
  then show ?case by (simp add: approval_verified_def)
qed (auto intro: keeps_opD op_rules approval.keeps_repair_source approval.keeps_lock approval.keeps_reconcile_push)

lemma approved_was_verified:
  "guard_reachable env others w g \<Longrightarrow> gd_approved_commit g = Some c \<Longrightarrow> verified_commit env c"
proof -
  have "approval_verified env g" if "guard_reachable env others w g"
    using that
  proof (induction rule: guard_reachable.induct)
    case New
    then show ?case by (simp add: approval_verified_def new_guard_def)
  qed (rule approval_step)
  then show "guard_reachable env others w g \<Longrightarrow> gd_approved_commit g = Some c \<Longrightarrow> verified_commit env c"
    by (simp add: approval_verified_def)
qed

subsection \<open>The commit\<close>

definition reviewed_commit :: "'w git_setup \<Rightarrow> git_manifest \<Rightarrow> string \<Rightarrow> 'w git_guard \<Rightarrow> 'w git_guard \<Rightarrow> bool" where
  \<comment> \<open>the working tree was the manifest, and now the branch is at a commit of it\<close>
  "reviewed_commit env m c g g' \<longleftrightarrow>
     object_at env ''HEAD'' (gd_world g) = Some (gm_baseline_sha m)
     \<and> fst (collect_manifest_inputs env (gm_baseline_sha m) (authorized_untracked_paths m) g) = Inr m
     \<and> object_at env ''HEAD'' (gd_world g') = Some c \<and> commit_holds env m c (gd_world g')
     \<and> gd_approved_commit g' = Some c \<and> gd_ticket_branch g' = gd_ticket_branch g
     \<and> gd_prepared_remote g' = gd_prepared_remote g"

lemma run_frame:
  "git_run env argv allow redact g = (r, g') \<Longrightarrow>
     gd_ticket_branch g' = gd_ticket_branch g \<and> gd_prepared_remote g' = gd_prepared_remote g"
  by (auto simp: git_run_def split: option.splits sum.splits prod.splits)

lemma stage_frame:
  assumes "read_only env" and "stage_manifest env m g = (Inr u, g')"
  shows "gd_ticket_branch g' = gd_ticket_branch g \<and> gd_prepared_remote g' = gd_prepared_remote g"
proof -
  have quiet: "index_changed_paths env b h = (Inr x, h') \<Longrightarrow> h' = h"
    "git_succeeds env (''diff'' # a) h = (Inr y, h') \<Longrightarrow> h' = h" for b h x h' y a
    by (auto dest!: quietD [rotated] intro!: git_reads.keeps_index git_reads.keeps_succeeds quiet_reads assms(1))
  obtain a b where "git_run env ([''update-index'', ''--add'', ''--remove'', ''--''] @ stage_paths m) False False g
      = (Inr (a, b), g')"
    using assms(2) by (auto simp: stage_manifest_def bind_op_Inr dest!: quiet)
  then show ?thesis using run_frame by blast
qed

lemma commit_reviewed:
  assumes ro: "read_only env" and "commit_manifest env m message g = (Inr c, g')"
  shows "reviewed_commit env m c g g'"
proof -
  have quiet: "current_branch env h = (Inr x, h') \<Longrightarrow> h' = h" for h h' x
    by (auto dest!: quietD [rotated] intro!: git_reads.keeps_current quiet_reads ro)
  have collected: "collect_manifest_inputs env b a h = (Inr y, h') \<longleftrightarrow>
      h' = h \<and> fst (collect_manifest_inputs env b a h) = Inr y" for h h' b a y
  proof -
    have "h'' = h" if "collect_manifest_inputs env b a h = (z, h'')" for z h''
      using that by (rule quietD [rotated]) (intro git_reads.keeps_collect quiet_reads ro)
    then show ?thesis by (cases "collect_manifest_inputs env b a h") auto
  qed
  obtain h1 h2 a b where g: "object_at env ''HEAD'' (gd_world g) = Some (gm_baseline_sha m)"
      "fst (collect_manifest_inputs env (gm_baseline_sha m) (authorized_untracked_paths m) g) = Inr m"
    and s: "stage_manifest env m g = (Inr (), h1)"
    and r: "git_run env [''commit'', ''--no-verify'', ''-m'', message] False False h1 = (Inr (a, b), h2)"
    and h: "object_at env ''HEAD'' (gd_world h2) = Some c" "commit_holds env m c (gd_world h2)"
      "g' = h2\<lparr>gd_approved_commit := Some c\<rparr>"
    using assms(2)
    by (auto simp: commit_manifest_def on_ticket_branch_def collected guard_reading_def bind_op_Inr rev_parse_answer [OF ro]
        verify_commit_answer [OF ro] approve_commit_def dest!: quiet)
  from stage_frame [OF ro s] run_frame [OF r] h(3) g h(1,2) show ?thesis
    by (auto simp: reviewed_commit_def approve_commit_def)
qed

subsection \<open>What is collected\<close>

definition permitted_path :: "'w git_setup \<Rightarrow> string \<Rightarrow> bool" where
  "permitted_path env path \<longleftrightarrow> check_path_role (gs_protected env) (gs_excluded env) path = Inr ()"

definition collected_file :: "'w git_setup \<Rightarrow> string list \<Rightarrow> git_manifest_file \<Rightarrow> bool" where
  \<comment> \<open>a valid entry of permitted paths, authorized when it is untracked\<close>
  "collected_file env authorized f \<longleftrightarrow>
     git_manifest_file_valid f \<and> permitted_path env (gf_path f) \<and> opt_all (permitted_path env) (gf_old_path f)
     \<and> (gf_untracked f \<longrightarrow> gf_path f \<in> set authorized)"

lemma returns_role:
  "(permitted_path env path \<Longrightarrow> returns_op (f ()) Q) \<Longrightarrow> returns_op (bind_op (check_role env path) f) Q"
  unfolding check_role_def by (rule returns_op_bind_result) (auto simp: permitted_path_def)

lemma returns_manifest_file: "(git_manifest_file_valid f \<Longrightarrow> Q f) \<Longrightarrow> returns_op (manifest_file f) Q"
  unfolding manifest_file_def by (rule returns_op_require) (rule returns_op_return)

lemma returns_manifest_file_bind:
  "(git_manifest_file_valid f \<Longrightarrow> returns_op (g f) Q) \<Longrightarrow> returns_op (bind_op (manifest_file f) g) Q"
  unfolding manifest_file_def bind_op_assoc by (rule returns_op_require) simp

lemma tracked_collected: "returns_op (tracked_file env binaries raw) (collected_file env authorized)"
  unfolding tracked_file_def
proof (rule returns_role)
  assume path: "permitted_path env (rd_path raw)"
  show "returns_op (bind_op (case rd_old_path raw of None \<Rightarrow> return_op () | Some p \<Rightarrow> check_role env p) (\<lambda>_.
     bind_op (if starts_with ''D'' (rd_status raw) then return_op None
              else bind_op (hash_worktree_object env (rd_path raw)) (\<lambda>h. return_op (Some h))) (\<lambda>object_id.
       manifest_file
         \<lparr>gf_path = rd_path raw, gf_status = rd_status raw, gf_old_path = rd_old_path raw,
          gf_old_mode = rd_old_mode raw, gf_new_mode = rd_new_mode raw,
          gf_old_object_id = none_if_zero (rd_old_object_id raw), gf_object_id = object_id,
          gf_binary = rd_path raw \<in> set binaries, gf_untracked = False\<rparr>))) (collected_file env authorized)"
    (is "returns_op (bind_op ?old _) _")
  proof (rule returns_op_bind_known)
    show "returns_op ?old (\<lambda>_. opt_all (permitted_path env) (rd_old_path raw))"
      by (cases "rd_old_path raw") (auto simp: returns_op_def check_role_def permitted_path_def)
  qed (rule returns_op_bind, rule returns_manifest_file, simp add: collected_file_def path)
qed

definition collecting :: "'w git_setup \<Rightarrow> string list \<Rightarrow> matching \<Rightarrow> bool" where
  "collecting env authorized m \<longleftrightarrow>
     list_all (collected_file env authorized) (mt_files m)
     \<and> list_all (\<lambda>u. permitted_path env (uf_path u)) (mt_unmatched m)"

lemma moved_collected:
  assumes "list_all (collected_file env authorized) files" and "permitted_path env path"
    and "git_manifest_file_valid (moved_file (files ! i) path mode h binary)"
  shows "list_all (collected_file env authorized) (files[i := moved_file (files ! i) path mode h binary])"
proof (cases "i < length files")
  case True
  with assms(1) have "permitted_path env (gf_path (files ! i))"
    by (auto simp: list_all_length collected_file_def)
  with assms(2,3) have "collected_file env authorized (moved_file (files ! i) path mode h binary)"
    by (simp add: collected_file_def moved_file_def)
  with assms(1) True show ?thesis
    by (simp add: list_all_length nth_list_update)
next
  case False
  with assms(1) show ?thesis by (simp add: list_update_beyond)
qed

lemma match_collecting:
  assumes "collecting env authorized m"
  shows "returns_op (match_untracked env path m) (collecting env authorized)"
  unfolding match_untracked_def
  by (rule returns_role, (rule returns_op_bind)+, rule returns_op_option)
    (use assms in \<open>auto intro!: returns_manifest_file_bind return_rules moved_collected simp: collecting_def\<close>)

lemma add_collected:
  assumes "permitted_path env (uf_path u)" and "list_all (collected_file env authorized) files"
  shows "returns_op (add_untracked authorized tracked u files) (list_all (collected_file env authorized))"
  unfolding add_untracked_def
  by (intro returns_manifest_file_bind return_rules)
    (use assms in \<open>auto simp: collected_file_def added_file_def\<close>)

lemma add_all_collected:
  "list_all (\<lambda>u. permitted_path env (uf_path u)) us \<Longrightarrow> list_all (collected_file env authorized) files \<Longrightarrow>
   returns_op (fold_op (add_untracked authorized tracked) us files) (list_all (collected_file env authorized))"
proof (induction us arbitrary: files)
  case (Cons u us)
  then show ?case
    by (auto intro!: returns_op_bind_known [OF add_collected])
qed (simp add: returns_op_return)

lemma inputs_collected:
  assumes "list_all (collected_file env authorized) files"
    and "manifest_inputs baseline (sort_key gf_path files) = Inr m"
  shows "git_manifest_valid m \<and> sorted (map gf_path (gm_files m)) \<and> list_all (collected_file env authorized) (gm_files m)"
  using assms by (auto simp: manifest_inputs_def git_manifest_valid_def list_all_iff collected_file_def split: if_splits)

lemma collect_collected:
  "returns_op (collect_manifest_inputs env sha authorized) (\<lambda>m. git_manifest_valid m
     \<and> sorted (map gf_path (gm_files m)) \<and> list_all (collected_file env authorized) (gm_files m))"
  unfolding collect_manifest_inputs_def
proof (rule returns_op_bind, rule returns_op_require, rule returns_op_bind, rule returns_op_bind,
    rule returns_op_bind_known [OF returns_op_map [OF tracked_collected]], rule returns_op_bind)
  fix baseline files paths
  assume files: "list_all (collected_file env authorized) files"
  have m: "returns_op (fold_op (match_untracked env) paths
      \<lparr>mt_files = files, mt_deleted = deleted_by_object files, mt_unmatched = []\<rparr>) (collecting env authorized)"
    by (rule returns_op_fold) (use files in \<open>auto intro: match_collecting simp: collecting_def\<close>)
  show "returns_op (bind_op (fold_op (match_untracked env) paths
      \<lparr>mt_files = files, mt_deleted = deleted_by_object files, mt_unmatched = []\<rparr>) (\<lambda>m.
     bind_op (fold_op (add_untracked authorized (map gf_path (mt_files m))) (mt_unmatched m) (mt_files m))
       (\<lambda>files. result_op (manifest_inputs sha (sort_key gf_path files)))))
    (\<lambda>m. git_manifest_valid m
     \<and> sorted (map gf_path (gm_files m)) \<and> list_all (collected_file env authorized) (gm_files m))"
    by (rule returns_op_bind_known [OF m], rule returns_op_bind_known [OF add_all_collected])
      (auto simp: collecting_def intro!: returns_op_result dest: inputs_collected)
qed

end
