(* ===== verification/Sample_Git.thy ===== *)
theory Sample_Git
  imports Git_Review
begin

section \<open>A repository with one change\<close>

text \<open>
  A scripted host: the working tree changes one file of the baseline, its world counts the
  stages of a commit (nothing staged, staged, committed, pushed), and every command is
  answered for that stage.
\<close>

definition sample_baseline :: string where "sample_baseline = replicate 40 (CHR ''b'')"
definition sample_commit :: string where "sample_commit = replicate 40 (CHR ''c'')"
definition sample_blob :: string where "sample_blob = replicate 40 (CHR ''d'')"
definition sample_old_blob :: string where "sample_old_blob = replicate 40 (CHR ''e'')"
definition no_object :: string where "no_object = replicate 40 (CHR ''0'')"

definition sample_raw_diff :: "string \<Rightarrow> string" where
  "sample_raw_diff object_id =
     '':100644 100644 '' @ sample_old_blob @ '' '' @ object_id @ '' M'' @ [nul] @ ''src/a'' @ [nul]"

definition sample_head :: "string \<Rightarrow> string \<Rightarrow> string" where
  \<comment> \<open>a line of \<^verbatim>\<open>ls-remote\<close>\<close>
  "sample_head sha name = sha @ [CHR 0x09] @ ''refs/heads/'' @ name @ [CHR 0x0A]"

definition sample_answer :: "string list \<Rightarrow> nat \<Rightarrow> string" where
  "sample_answer argv w =
     (case argv of
        [] \<Rightarrow> []
      | c # args \<Rightarrow>
          if c = ''remote'' then ''u''
          else if c = ''ls-remote'' then
            (if last args = ''refs/heads/main'' then sample_head sample_baseline ''main''
             else if 3 \<le> w then sample_head sample_commit ''T-1-fix'' else [])
          else if c = ''symbolic-ref'' then ''T-1-fix''
          else if c = ''rev-parse'' then
            (if last args = ''HEAD'' \<and> 2 \<le> w then sample_commit else sample_baseline)
          else if c = ''hash-object'' then sample_blob
          else if c = ''diff-tree'' then ''src/a'' @ [nul]
          else if c = ''ls-tree'' then
            ''100644 blob '' @ sample_blob @ [CHR 0x09] @ ''src/a''
          else if c = ''diff'' then
            (if hd args = ''--raw'' then
               sample_raw_diff (if length args = 7 then sample_blob else no_object)
             else if hd args = ''--numstat'' then ''1'' @ [CHR 0x09] @ ''1'' @ [CHR 0x09] @ ''src/a'' @ [nul]
             else if hd args = ''--cached'' \<and> w = 1 then ''src/a'' @ [nul]
             else [])
          else [])"

definition sample_world_after :: "string list \<Rightarrow> nat \<Rightarrow> nat" where
  "sample_world_after argv w =
     (case argv of
        [] \<Rightarrow> w
      | c # _ \<Rightarrow>
          if c = ''update-index'' then 1 else if c = ''commit'' then 2 else if c = ''push'' then 3 else w)"

definition sample_host :: "nat git_host" where
  "sample_host =
     \<lparr>gh_run = (\<lambda>argv redact w. (Inr (0, Some (sample_answer argv w)), sample_world_after argv w)),
      gh_lstat = (\<lambda>w path. Some (Plain False ''new'')), gh_walk = (\<lambda>w. []), gh_stat = (\<lambda>w path. None)\<rparr>"

definition sample_git :: "nat git_setup" where
  "sample_git =
     \<lparr>gs_host = Some sample_host, gs_repository = ''/repo'', gs_remote = ''origin'',
      gs_base_branch = Some ''main'', gs_protected = [''ops''], gs_excluded = [''secrets'']\<rparr>"

definition sample_change :: git_manifest_file where
  "sample_change =
     \<lparr>gf_path = ''src/a'', gf_status = ''M'', gf_old_path = None, gf_old_mode = ''100644'',
      gf_new_mode = ''100644'', gf_old_object_id = Some sample_old_blob, gf_object_id = Some sample_blob,
      gf_binary = False, gf_untracked = False\<rparr>"

definition sample_manifest :: git_manifest where
  "sample_manifest = \<lparr>gm_baseline_sha = sample_baseline, gm_files = [sample_change]\<rparr>"

lemma sample_objects [simp]:
  "git_sha_ok sample_baseline" "lower (strip sample_baseline) = sample_baseline"
  "lower sample_baseline = sample_baseline"
  "git_sha_ok sample_commit" "lower (strip sample_commit) = sample_commit" "lower sample_commit = sample_commit"
  "git_sha_ok sample_blob" "lower (strip sample_blob) = sample_blob"
  "lower sample_blob = sample_blob"
  by code_simp+

lemma sample_lines [simplified, simp]:
  "splitlines (sample_head sample_baseline ''main'') = [sample_baseline @ [CHR 0x09] @ ''refs/heads/main'']"
  "splitlines (sample_head sample_commit ''T-1-fix'') = [sample_commit @ [CHR 0x09] @ ''refs/heads/T-1-fix'']"
  "splitlines ''u'' = [''u'']"
  "cut_at (CHR 0x09) (sample_baseline @ [CHR 0x09] @ ''refs/heads/main'') = Some (sample_baseline, ''refs/heads/main'')"
  "remote_head [sample_commit @ [CHR 0x09] @ ''refs/heads/T-1-fix''] = Inr (Some sample_commit)"
  "branch_name_ok ''T-1-fix''" "branch_name_ok ''main''" "strip ''T-1-fix'' = ''T-1-fix''"
  by code_simp+

lemma sample_diffs [simplified, simp]:
  "parse_raw_diff (sample_raw_diff no_object) =
     Inr [\<lparr>rd_old_mode = ''100644'', rd_new_mode = ''100644'', rd_old_object_id = sample_old_blob,
           rd_new_object_id = no_object, rd_status = ''M'', rd_old_path = None, rd_path = ''src/a''\<rparr>]"
  "parse_raw_diff (sample_raw_diff sample_blob) =
     Inr [\<lparr>rd_old_mode = ''100644'', rd_new_mode = ''100644'', rd_old_object_id = sample_old_blob,
           rd_new_object_id = sample_blob, rd_status = ''M'', rd_old_path = None, rd_path = ''src/a''\<rparr>]"
  "parse_binary_numstat (''1'' @ [CHR 0x09] @ ''1'' @ [CHR 0x09] @ ''src/a'' @ [nul]) = Inr []"
  "nul_paths (''src/a'' @ [nul]) = Inr [''src/a'']" "nul_paths [] = Inr []"
  by code_simp+

lemma sample_file [simp]:
  "git_manifest_file_valid sample_change" "none_if_zero sample_old_blob = Some sample_old_blob"
  "\<not> deletion sample_change" "\<not> starts_with ''D'' ''M''" "gf_path sample_change = ''src/a''"
  "\<not> gf_untracked sample_change" "gf_old_path sample_change = None"
  "check_path_role [''ops''] [''secrets''] ''src/a'' = Inr ()"
  by code_simp+

lemma sample_tree [simplified, simp]:
  "tree_line_matches sample_change (strip (''100644 blob '' @ sample_blob @ [CHR 0x09] @ ''src/a''))"
  by code_simp

subsection \<open>The commands on the sample\<close>

lemma sample_run [simp]:
  "git_run sample_git argv allow redact g =
     (Inr (0, Some (sample_answer argv (gd_world g))), g\<lparr>gd_world := sample_world_after argv (gd_world g)\<rparr>)"
  by (simp add: git_run_def sample_git_def sample_host_def)

lemma sample_output [simp]:
  "git_output sample_git argv redact g =
     (Inr (sample_answer argv (gd_world g)), g\<lparr>gd_world := sample_world_after argv (gd_world g)\<rparr>)"
  by (simp add: git_output_def bind_op_def return_op_def)

lemma sample_succeeds [simp]:
  "git_succeeds sample_git argv g = (Inr True, g\<lparr>gd_world := sample_world_after argv (gd_world g)\<rparr>)"
  by (simp add: git_succeeds_def bind_op_def return_op_def)

lemma sample_world_simps [simp]:
  "sample_world_after (''update-index'' # a) w = 1" "sample_world_after (''commit'' # a) w = 2"
  "sample_world_after (''push'' # a) w = 3" "sample_world_after (''fetch'' # a) w = w"
  by (simp_all add: sample_world_after_def)

lemma sample_quiet: "read_command argv \<Longrightarrow> sample_world_after argv w = w"
  by (auto simp: read_command_def sample_world_after_def split: list.splits)

lemma sample_read_only: "read_only sample_git"
  by (auto simp: read_only_def sample_git_def sample_host_def sample_quiet)

lemma sample_host_fields [simp]:
  "gs_remote sample_git = ''origin''" "gs_base_branch sample_git = Some ''main''"
  "gs_protected sample_git = [''ops'']" "gs_excluded sample_git = [''secrets'']"
  by (simp_all add: sample_git_def)

lemma sample_quiet_simps [simp]:
  "sample_world_after (''rev-parse'' # a) w = w" "sample_world_after (''remote'' # a) w = w"
  "sample_world_after (''ls-remote'' # a) w = w" "sample_world_after (''symbolic-ref'' # a) w = w"
  "sample_world_after (''diff'' # a) w = w" "sample_world_after (''ls-files'' # a) w = w"
  "sample_world_after (''hash-object'' # a) w = w" "sample_world_after (''diff-tree'' # a) w = w"
  "sample_world_after (''ls-tree'' # a) w = w"
  by (simp_all add: sample_world_after_def)

definition sample_snapshot :: remote_snapshot where
  "sample_snapshot =
     \<lparr>rm_fingerprint = bytes_hash ''u'', rm_default_branch = ''main'', rm_base_sha = sample_baseline\<rparr>"

lemma fingerprint_ok: "fullmatch (Rep (Cls is_lower_hex) 64 0) (bytes_hash s)"
  using hexdigest_digest [of "encode_ascii s"] by (simp add: exact_class_iff bytes_hash_def is_digest_def)

lemmas sample_steps = bind_op_def return_op_def require_op_def result_op_def reading_def sample_answer_def Let_def validate_sha_def

lemma sample_current_remote [simp]: "current_remote sample_git g = (Inr sample_snapshot, g)"
  by (simp add: current_remote_def remote_fingerprint_def remote_heads_def sample_steps
      sample_snapshot_def remote_snapshot_valid_def fingerprint_ok)

lemma sample_branch [simp]: "current_branch sample_git g = (Inr ''T-1-fix'', g)"
  by (simp add: current_branch_def sample_steps)

lemma sample_rev_parse [simp]:
  "rev_parse sample_git r g = (Inr (if r = ''HEAD'' \<and> 2 \<le> gd_world g then sample_commit else sample_baseline), g)"
  by (simp add: rev_parse_def sample_steps)

lemma sample_refreshed:
  "refresh_finalization sample_git ''T-1-fix'' sample_baseline (new_guard 0) =
     (Inr True, \<lparr>gd_world = 0, gd_ticket_branch = Some ''T-1-fix'', gd_approved_commit = None,
                 gd_prepared_remote = Some sample_snapshot\<rparr>)"
  by (simp add: refresh_finalization_def sample_steps sample_snapshot_def switched_to_def new_guard_def)

subsection \<open>From the working tree to the remote\<close>

lemma sample_tracked [simp]:
  "tracked_file sample_git [] \<lparr>rd_old_mode = ''100644'', rd_new_mode = ''100644'', rd_old_object_id = sample_old_blob,
     rd_new_object_id = no_object, rd_status = ''M'', rd_old_path = None, rd_path = ''src/a''\<rparr> g = (Inr sample_change, g)"
  by (simp add: tracked_file_def check_role_def hash_worktree_object_def manifest_file_def sample_steps
      sample_change_def [symmetric])

lemma sample_collected [simp]:
  "gd_world g = 0 \<Longrightarrow> collect_manifest_inputs sample_git sample_baseline [] g = (Inr sample_manifest, g)"
  by (simp add: collect_manifest_inputs_def verify_baseline_def raw_diff_def binary_paths_def untracked_paths_def
      deleted_by_object_def manifest_inputs_def sample_manifest_def sample_steps)

definition sample_guard :: "nat \<Rightarrow> string option \<Rightarrow> nat git_guard" where
  \<comment> \<open>the guard after \<^verbatim>\<open>refresh_finalization\<close>, at a stage of the commit\<close>
  "sample_guard w approved =
     \<lparr>gd_world = w, gd_ticket_branch = Some ''T-1-fix'', gd_approved_commit = approved,
      gd_prepared_remote = Some sample_snapshot\<rparr>"

lemma sample_stage_paths [simp]: "stage_paths sample_manifest = [''src/a'']" "manifest_stage_paths sample_manifest = {''src/a''}"
    "manifest_renames sample_manifest = []"
    "gm_files sample_manifest = [sample_change]" "gm_baseline_sha sample_manifest = sample_baseline"
    "authorized_untracked_paths sample_manifest = []"
  by (simp_all add: stage_paths_def manifest_stage_paths_def manifest_renames_def authorized_untracked_paths_def
      sample_manifest_def)

lemma sample_guard_fields [simp]:
  "gd_world (sample_guard w a) = w" "gd_ticket_branch (sample_guard w a) = Some ''T-1-fix''"
  "sample_guard w a\<lparr>gd_world := w'\<rparr> = sample_guard w' a" "gd_approved_commit (sample_guard w a) = a"
  "sample_guard w a\<lparr>gd_approved_commit := a'\<rparr> = sample_guard w a'"
  "gd_prepared_remote (sample_guard w a) = Some sample_snapshot"
  by (simp_all add: sample_guard_def)

lemma sample_staged [simp]: "stage_manifest sample_git sample_manifest (sample_guard 0 a) = (Inr (), sample_guard 1 a)"
  by (simp add: stage_manifest_def index_changed_paths_def sample_steps)

lemma sample_verifies [simp]:
  "verify_commit sample_git sample_manifest sample_commit (sample_guard 2 a) = (Inr (), sample_guard 2 a)"
  by (simp add: verify_commit_def index_changed_paths_def verify_tree_entry_def raw_diff_def diff_renames_def sample_steps)

lemma sample_committed:
  "commit_manifest sample_git sample_manifest ''T-1: fix'' (sample_guard 0 None) =
     (Inr sample_commit, sample_guard 2 (Some sample_commit))"
proof -
  have "commit_message_ok ''T-1: fix''" by code_simp
  then show ?thesis
    by (simp add: commit_manifest_def on_ticket_branch_def guard_reading_def approve_commit_def sample_steps)
qed

lemma sample_pushed:
  "push sample_git (sample_guard 2 (Some sample_commit)) = (Inr sample_commit, sample_guard 3 (Some sample_commit))"
  by (simp add: push_def guard_reading_def remote_heads_def branch_reference_def sample_steps)

end
