(* ===== verification/Git_Guarantees.thy ===== *)
theory Git_Guarantees
  imports Sample_Git
begin

section \<open>Guarantees of the Git guard\<close>

text \<open>
  Which commands the guard ever runs, which paths it lists, what a commit of a reviewed
  manifest contains, which commit it pushes, and how a lost process finds its commit again.
\<close>

subsection \<open>The commands\<close>


definition logged_guard :: "nat logged git_guard" where
  "logged_guard = snd (refresh_finalization (logged sample_git) ''T-1-fix'' sample_baseline (new_guard ([], 0)))"

lemma logged_output [simp]:
  "git_output (logged sample_git) argv redact g =
     (Inr (sample_answer argv (snd (gd_world g))),
      g\<lparr>gd_world := (fst (gd_world g) @ [argv], sample_world_after argv (snd (gd_world g)))\<rparr>)"
  by (cases "gd_world g")
    (simp add: git_output_def git_run_def logged_def logged_host_def sample_git_def sample_host_def
      bind_op_def return_op_def)

lemma logged_fetch [simp]:
  "git_run (logged sample_git) (''fetch'' # a) allow redact g =
     (Inr (0, Some []), g\<lparr>gd_world := (fst (gd_world g) @ [''fetch'' # a], snd (gd_world g))\<rparr>)"
  by (cases "gd_world g")
    (simp add: git_run_def logged_def logged_host_def sample_git_def sample_host_def sample_answer_def)

lemma logged_base [simp]: "gs_base_branch (logged env) = gs_base_branch env"
  by (simp add: logged_def)

lemma logged_refresh:
  "fst (gd_world logged_guard) =
     [[''fetch'', ''--no-tags'', ''origin''], [''remote'', ''get-url'', ''origin''],
      [''ls-remote'', ''--heads'', ''origin'', ''refs/heads/main''],
      [''symbolic-ref'', ''--quiet'', ''--short'', ''HEAD'']]"
  by (simp add: logged_guard_def refresh_finalization_def current_remote_def remote_fingerprint_def remote_heads_def
      current_branch_def switched_to_def new_guard_def sample_steps remote_snapshot_valid_def fingerprint_ok)


subsection \<open>The manifest of the working tree\<close>



subsection \<open>The commit\<close>



subsection \<open>The push\<close>

definition remote_branch_at :: "'w git_setup \<Rightarrow> string \<Rightarrow> 'w \<Rightarrow> string option" where
  \<comment> \<open>what the remote says its branch is at\<close>
  "remote_branch_at env name w =
     Option.bind (answer env [''ls-remote'', ''--heads'', gs_remote env, branch_reference name] True w)
       (\<lambda>t. case remote_head (splitlines t) of Inl _ \<Rightarrow> None | Inr sha \<Rightarrow> sha)"

lemma remote_branch_answer:
  assumes "read_only env"
  shows "(\<exists>heads. remote_heads env (branch_reference name) g = (Inr heads, g') \<and> remote_head heads = Inr (Some c))
    \<longleftrightarrow> remote_branch_at env name (gd_world g) = Some c \<and> g' = g"
  by (cases "answer env [''ls-remote'', ''--heads'', gs_remote env, branch_reference name] True (gd_world g)")
    (auto simp: remote_heads_def bind_op_Inr output_answer [OF assms] remote_branch_at_def split: sum.splits)


lemma sample_session: "guard_reachable sample_git (=) 0 (sample_guard 2 (Some sample_commit))"
proof -
  have "guard_reachable sample_git (=) 0 (sample_guard 0 None)"
    using guard_reachable.Next [OF guard_reachable.New guard_step.Refresh, of sample_git "(=)" 0 "''T-1-fix''" sample_baseline]
    by (simp add: sample_refreshed sample_guard_def)
  from guard_reachable.Next [OF this guard_step.Commit_Manifest, of sample_manifest "''T-1: fix''"]
  show ?thesis by (simp add: sample_committed)
qed


subsection \<open>A lost commit\<close>


definition sample_product :: product_change_manifest where
  "sample_product =
     \<lparr>pm_baseline_sha = sample_baseline,
      pm_files = [\<lparr>pf_path = ''src/a'', pf_status = ''M'', pf_old_path = None, pf_old_mode = ''100644'',
        pf_mode = ''100644'', pf_old_object_id = Some sample_old_blob, pf_object_id = Some sample_blob,
        pf_binary = False, pf_untracked = False\<rparr>],
      pm_content_hash = []\<rparr>"


end
