(* ===== verification/Finalizer.thy ===== *)
theory Finalizer
  imports Linear_Gateway Supervisor Manifests Tickets Run_Claims Operations
begin

section \<open>The finalizer\<close>

text \<open>
  \<^verbatim>\<open>_Finalizer\<close> of \<^verbatim>\<open>src/auto_code/finalizer.py\<close>: it takes an approved run through the commit, the
  push, the completion of its ticket and the release of its slot in the run index, each as an
  effect that is intended, performed and recorded in the run state.  The Git guard and the run
  index are objects that the code only looks up methods of, so they are records of operations
  on a world outside; the clock and the identifiers that are drawn are functions of a tick.
\<close>

subsection \<open>The reviewed artifacts\<close>

record approval_artifacts =
  fa_snapshot :: ticket_snapshot
  fa_original_state_id :: string
  fa_original_revision :: string
  fa_policy :: project_config
  fa_requirements :: requirements_package
  fa_outline :: change_outline_unit
  fa_artifact_hashes :: "(string \<times> string) list"
  fa_task_definition :: task_definition_manifest
  fa_task_status :: task_status_manifest
  fa_product :: product_change_manifest
  fa_build :: build_identity
  fa_verification :: verification_record
  fa_browser :: browser_record
  fa_review_manifest :: review_manifest_unit
  fa_review_result :: review_result

definition review_result_json :: "review_result \<Rightarrow> json" where
  "review_result_json v =
     JObj [schema_member, (''approved'', JBool (rv_approved v)),
           (''review_manifest_hash'', JStr (rv_review_manifest_hash v)),
           (''failure_class'', json_opt (map_option failure_class_value (rv_failure_class v))),
           (''failure_source'', json_opt (map_option failure_source_value (rv_failure_source v))),
           (''finding_kind'', json_opt (map_option finding_kind_value (rv_finding_kind v))),
           (''owner_stage'', json_opt (map_option stage_value (rv_owner_stage v))),
           (''cited_ids'', JList (map JStr (rv_cited_ids v))),
           (''blocking_findings'', JList (map JStr (rv_blocking_findings v))),
           (''evidence'', JList (map evidence_json (rv_evidence v))),
           (''next_action'', JStr (rv_next_action v))]"

subsection \<open>The published preparation context\<close>

definition prepared_context_valid :: "preparation_context \<Rightarrow> bool" where
  \<comment> \<open>\<^verbatim>\<open>PreparationContext.__post_init__\<close> of \<^verbatim>\<open>prepare.py\<close>, for parts that are valid themselves\<close>
  "prepared_context_valid c \<longleftrightarrow>
     require_identifier (pc_run_id c) \<and> require_identifier (pc_repository_id c)
     \<and> require_identifier (pc_original_state_id c) \<and> safe_text (pc_original_revision c)
     \<and> sn_content_hash (pc_snapshot c) = pc_snapshot_hash c
     \<and> pi_input_hash (pc_reference c) = pc_input_hash c
     \<and> pi_repository_id (pc_reference c) = pc_repository_id c
     \<and> launcher_receipt (pc_receipt_hash c) (pc_receipt_ref c)"

definition prepared_context_of :: "index_env \<Rightarrow> json \<Rightarrow> preparation_context option" where
  \<comment> \<open>\<^verbatim>\<open>from_canonical_payload\<close>: the payload is the dump of the context it gives\<close>
  "prepared_context_of env v =
     Option.bind (py_parse (ix_context env) v) (\<lambda>c.
     Option.bind (validate_snapshot (se_clock (ix_store env)) (ix_bracketed env) (pc_snapshot c)) (\<lambda>snapshot.
       let d = c\<lparr>pc_snapshot := snapshot\<rparr>; dump = py_dump (ix_context env) d in
       if preparation_input_ref_valid (pc_reference d) \<and> evidence_ref_valid (pc_receipt_ref d)
          \<and> runner_identity_valid (pc_runner_identity d) \<and> prepared_context_valid d
          \<and> persisted_ok dump \<and> same_value dump v
       then Some d else None))"

definition load_prepared_context :: "index_env \<Rightarrow> file_tree \<Rightarrow> string \<Rightarrow> preparation_context option" where
  \<comment> \<open>\<^verbatim>\<open>PreparationContextAuthority.load_verified\<close>\<close>
  "load_prepared_context env fs rid =
     (if \<not> require_identifier rid then None
      else case read_json_file fs (context_path rid) of
          Inl _ \<Rightarrow> None
        | Inr v \<Rightarrow>
            Option.bind (prepared_context_of env v) (\<lambda>c. if pc_run_id c = rid then Some c else None))"

subsection \<open>The world and the capabilities\<close>

datatype finalizer_error =
    Finalization_Error
  | Fz_Store cas_error
  | Fz_Gateway gateway_error
  | Fz_Contract contract_error
  | Fz_Git git_error
  | Fz_Index index_error
  | Fz_Result supervisor_error
  | Fz_Projection
  | Ledger_Index_Error

record 'x git_capability =
  gc_refresh :: "string \<Rightarrow> string \<Rightarrow> (git_error, 'x, bool) operation"
    \<comment> \<open>whether the object it returned is \<^verbatim>\<open>True\<close>\<close>
  gc_commit :: "product_change_manifest \<Rightarrow> string \<Rightarrow> (git_error, 'x, string option) operation"
    \<comment> \<open>\<open>None\<close> is a result that is no text\<close>
  gc_push :: "string option \<Rightarrow> (git_error, 'x, string option) operation"
  gc_reconcile_commit :: "product_change_manifest \<Rightarrow> string option \<Rightarrow> (git_error, 'x, string option) operation"
  gc_reconcile_push :: "string option \<Rightarrow> string option \<Rightarrow> (git_error, 'x, string option) operation"

record 'x index_capability =
  \<comment> \<open>the index reads the store of the run, which is not part of the world outside\<close>
  xc_lookup :: "string \<Rightarrow> (index_error, 'x, active_run_record option) operation"
  xc_release :: "run_store \<Rightarrow> string \<Rightarrow> string \<Rightarrow> int option \<Rightarrow> string option \<Rightarrow> string
                 \<Rightarrow> (index_error, 'x, index_release_receipt) operation"
  xc_verify :: "run_store \<Rightarrow> index_release_receipt \<Rightarrow> (index_error, 'x, unit) operation"
  xc_load :: "run_store \<Rightarrow> index_release_receipt \<Rightarrow> (index_error, 'x, index_release_receipt) operation"

record 'x finalizer =
  \<comment> \<open>\<^verbatim>\<open>_FinalizerDependencies\<close> without the gateway\<close>
  fd_index_env :: index_env
  fd_git :: "'x git_capability"
  fd_index :: "'x index_capability"
  fd_policy :: project_config
  fd_artifacts :: approval_artifacts
  fd_now :: "nat \<Rightarrow> datetime"
  fd_hex :: "nat \<Rightarrow> string"                    \<comment> \<open>\<^verbatim>\<open>uuid.uuid4().hex\<close>\<close>
  fd_request_ids :: "nat \<Rightarrow> string \<times> string"

record 'x finalizer_world =
  fz_gateway :: linear_gateway      \<comment> \<open>with the run state store\<close>
  fz_outside :: 'x
  fz_ticks :: nat

type_synonym ('x, 'a) fz_op = "(finalizer_error, 'x finalizer_world, 'a) operation"

abbreviation fz_store :: "'x finalizer_world \<Rightarrow> run_store" where
  "fz_store w \<equiv> lg_store (fz_gateway w)"

definition outside :: "('e \<Rightarrow> finalizer_error) \<Rightarrow> ('e, 'x, 'a) operation \<Rightarrow> ('x, 'a) fz_op" where
  "outside err m w = (case m (fz_outside w) of (r, x) \<Rightarrow> (map_sum err id r, w\<lparr>fz_outside := x\<rparr>))"

definition with_store :: "(run_store \<Rightarrow> ('x, 'a) fz_op) \<Rightarrow> ('x, 'a) fz_op" where
  "with_store f w = f (fz_store w) w"

definition tick :: "('x, nat) fz_op" where
  "tick w = (Inr (fz_ticks w), w\<lparr>fz_ticks := Suc (fz_ticks w)\<rparr>)"

definition attempt :: "('x, 'a) fz_op \<Rightarrow> ('x, 'a option) fz_op" where
  \<comment> \<open>\<^verbatim>\<open>try: ... except Exception\<close>: what was changed before the exception stays changed\<close>
  "attempt m w = (case m w of (Inl _, w') \<Rightarrow> (Inr None, w') | (Inr x, w') \<Rightarrow> (Inr (Some x), w'))"

definition or_else :: "('x, 'a) fz_op \<Rightarrow> ('x, 'a) fz_op \<Rightarrow> ('x, 'a) fz_op" where
  "or_else m handler = bind_op (attempt m) (\<lambda>r. case r of None \<Rightarrow> handler | Some x \<Rightarrow> return_op x)"

definition copy_state :: "(run_state \<Rightarrow> run_state) \<Rightarrow> run_state \<Rightarrow> ('x, run_state) fz_op" where
  \<comment> \<open>\<^verbatim>\<open>state.model_copy(update=...)\<close>\<close>
  "copy_state u s =
     with_store (\<lambda>st. result_op (map_sum Fz_Contract id (model_copy (clean_of (rs_env st)) u s)))"

definition swap_state :: "state_generation \<Rightarrow> run_state \<Rightarrow> ('x, state_generation) fz_op" where
  "swap_state g s w =
     (case compare_and_swap (fz_store w) (sg_revision g) (sg_state_hash g) s of
        Inl e \<Rightarrow> (Inl (Fz_Store e), w)
      | Inr (g', st) \<Rightarrow> (Inr g', w\<lparr>fz_gateway := (fz_gateway w)\<lparr>lg_store := st\<rparr>\<rparr>))"

definition update_state :: "state_generation \<Rightarrow> (run_state \<Rightarrow> run_state) \<Rightarrow> ('x, state_generation) fz_op" where
  "update_state g u = bind_op (copy_state u (sg_state g)) (swap_state g)"

subsection \<open>The approval\<close>

definition context_matches :: "approval_artifacts \<Rightarrow> run_state \<Rightarrow> preparation_context \<Rightarrow> bool" where
  "context_matches a s c \<longleftrightarrow>
     pc_snapshot c = fa_snapshot a \<and> Some (pc_snapshot_hash c) = ticket_snapshot_hash s
     \<and> pc_original_state_id c = fa_original_state_id a \<and> pc_original_revision c = fa_original_revision a"

definition review_bindings :: "'x finalizer \<Rightarrow> run_state \<Rightarrow> bool" where
  \<comment> \<open>what the reviewed manifest, the artifacts and the state agree on\<close>
  "review_bindings env s \<longleftrightarrow>
     (let a = fd_artifacts env; review = fa_review_manifest a in
      finalization_eligible s \<and> \<not> iteration_open s \<and> rv_approved (fa_review_result a)
      \<and> review_manifest s = Some (review_manifest_hash review)
      \<and> review_result s = Some (hash_json (review_result_json (fa_review_result a)))
      \<and> rv_review_manifest_hash (fa_review_result a) = review_manifest_hash review
      \<and> policy_hash (fa_policy a) = policy_hash (fd_policy env)
      \<and> rm_project_policy_hash review = policy_hash (fd_policy env)
      \<and> rm_baseline_sha review = pm_baseline_sha (fa_product a)
      \<and> rm_requirements_package_hash review = hash_json (requirements_package_json (fa_requirements a))
      \<and> rm_change_outline_hash review = hash_json (change_outline_json (fa_outline a))
      \<and> set (rm_artifact_hashes review) = set (fa_artifact_hashes a)
      \<and> rm_task_definition_hash review = tdm_definition_hash (fa_task_definition a)
      \<and> rm_task_status_hash review = hash_json (task_status_manifest_json (fa_task_status a))
      \<and> rm_product_manifest_hash review = pm_content_hash (fa_product a)
      \<and> rm_build_identity_hash review = hash_json (build_identity_json (fa_build a))
      \<and> rm_verification_result_hash review = hash_json (verification_record_json (fa_verification a))
      \<and> rm_browser_result_hash review = hash_json (browser_record_json (fa_browser a))
      \<and> requirements_package s = Some (rm_requirements_package_hash review)
      \<and> change_outline s = Some (rm_change_outline_hash review)
      \<and> product_change_manifest_hash s = Some (rm_product_manifest_hash review)
      \<and> build_identity s = Some (rm_build_identity_hash review)
      \<and> verification_result s = Some (rm_verification_result_hash review)
      \<and> browser_result s = Some (rm_browser_result_hash review)
      \<and> task_definition_manifest s = Some (fa_task_definition a)
      \<and> task_status_manifest s = Some (fa_task_status a)
      \<and> list_all (\<lambda>t. ts_status t = CHECKED) (tsm_statuses (fa_task_status a)))"

definition evidence_holds :: "'x finalizer \<Rightarrow> run_state \<Rightarrow> bool" where
  \<comment> \<open>the build identity, the verification and browser results, the checkpoint of the reviewer\<close>
  "evidence_holds env s \<longleftrightarrow>
     (let a = fd_artifacts env; build = fa_build a in
      bi_baseline_sha build = pm_baseline_sha (fa_product a)
      \<and> bi_product_manifest_hash build = pm_content_hash (fa_product a)
      \<and> bi_project_policy_hash build = policy_hash (fd_policy env)
      \<and> verification_record_valid (Some build) (fa_verification a) \<and> vr_passed (fa_verification a)
      \<and> browser_record_valid (Some (Some (co_browser_e2e_decision (fa_outline a)), Some build)) (fa_browser a)
      \<and> (case checkpoints s REVIEWER of
            None \<Rightarrow> False
          | Some c \<Rightarrow> Some (ck_output_manifest_hash c) = review_result s))"

definition approval_holds :: "'x finalizer \<Rightarrow> file_tree \<Rightarrow> run_state \<Rightarrow> bool" where
  "approval_holds env fs s \<longleftrightarrow>
     sn_ticket_id (fa_snapshot (fd_artifacts env)) = ticket_id s
     \<and> (has_preparation_binding s \<longrightarrow>
          (case load_prepared_context (fd_index_env env) fs (run_id s) of
             None \<Rightarrow> False
           | Some c \<Rightarrow> context_matches (fd_artifacts env) s c))
     \<and> review_bindings env s \<and> evidence_holds env s"

definition verify_approval :: "'x finalizer \<Rightarrow> run_state \<Rightarrow> ('x, unit) fz_op" where
  "verify_approval env s =
     with_store (\<lambda>st. require_op (approval_holds env (rs_files st) s) Finalization_Error)"

definition projection_hash :: "'x finalizer \<Rightarrow> finalizer_error + string" where
  \<comment> \<open>\<^verbatim>\<open>_projection_hash\<close> of the reviewed snapshot\<close>
  "projection_hash env =
     (case constraint_projection (ix_bracketed (fd_index_env env)) (fa_snapshot (fd_artifacts env)) of
        None \<Rightarrow> Inl Fz_Projection
      | Some p \<Rightarrow>
          Inr (hash_json (JObj (projection_payload p @ [(''content_hash'', JStr (tp_content_hash p))]))))"

subsection \<open>The position of the repository\<close>

definition reconcile_commit_op :: "'x finalizer \<Rightarrow> string option \<Rightarrow> ('x, string option) fz_op" where
  "reconcile_commit_op env commit =
     outside Fz_Git (gc_reconcile_commit (fd_git env) (fa_product (fd_artifacts env)) commit)"

definition reconcile_push_op :: "'x finalizer \<Rightarrow> string option \<Rightarrow> string option \<Rightarrow> ('x, string option) fz_op" where
  "reconcile_push_op env name commit = outside Fz_Git (gc_reconcile_push (fd_git env) name commit)"

definition verify_git_position :: "'x finalizer \<Rightarrow> run_state \<Rightarrow> ('x, unit) fz_op" where
  "verify_git_position env s =
     (case branch s of
        None \<Rightarrow> raise_op Finalization_Error
      | Some name \<Rightarrow>
          if name = [] then raise_op Finalization_Error
          else
            bind_op (outside Fz_Git
              (gc_refresh (fd_git env) name (pm_baseline_sha (fa_product (fd_artifacts env))))) (\<lambda>ok.
            bind_op (require_op ok Finalization_Error) (\<lambda>_.
            bind_op (if commit_sha s = None then return_op ()
                     else bind_op (reconcile_commit_op env (commit_sha s)) (\<lambda>c.
                       require_op (c = commit_sha s) Finalization_Error)) (\<lambda>_.
              if pushed_sha s = None then return_op ()
              else bind_op (reconcile_push_op env (branch s) (pushed_sha s)) (\<lambda>p.
                require_op (p = pushed_sha s) Finalization_Error)))))"

subsection \<open>Effects on the repository\<close>

datatype local_effect = Commit_Effect | Push_Effect

primrec effect_name :: "local_effect \<Rightarrow> string" where
  "effect_name Commit_Effect = ''commit''"
| "effect_name Push_Effect = ''push''"

definition reconciling :: "string \<Rightarrow> string" where
  "reconciling operation = ''reconcile_'' @ operation"

definition local_intention :: "string \<Rightarrow> string \<Rightarrow> string \<Rightarrow> intention_payload" where
  "local_intention effect_id operation target =
     \<lparr>ip_operation = operation, ip_target = target,
      ip_request_hash = hash_json (JObj [(''effect_id'', JStr effect_id), (''operation'', JStr operation),
        (''target'', JStr target)])\<rparr>"

definition append_events :: "effect_event list \<Rightarrow> run_state \<Rightarrow> run_state" where
  "append_events es s = s\<lparr>effect_ledger := effect_ledger s @ es\<rparr>"

definition intend :: "'x finalizer \<Rightarrow> state_generation \<Rightarrow> string \<Rightarrow> string \<Rightarrow> ('x, state_generation \<times> string) fz_op" where
  "intend env g operation target =
     bind_op tick (\<lambda>n.
     bind_op tick (\<lambda>m.
     let effect_id = operation @ ''-'' @ fd_hex env n;
         e = Effect_Intention effect_id (next_sequence (effect_ledger (sg_state g))) (fd_now env m)
               (local_intention effect_id operation target)
     in bind_op (require_op (effect_event_valid e) (Fz_Contract Invalid_Field)) (\<lambda>_.
        bind_op (update_state g (append_events [e])) (\<lambda>g'. return_op (g', effect_id)))))"

definition result_events :: "string \<Rightarrow> int \<Rightarrow> datetime \<Rightarrow> effect_outcome \<Rightarrow> string option \<Rightarrow> effect_event list" where
  "result_events effect_id n now outcome revision =
     [Effect_Invocation effect_id n now \<lparr>iv_wait_seconds = 0\<rparr>,
      Effect_Observation effect_id (n + 1) now
        \<lparr>op_outcome = outcome, op_external_revision = revision, op_evidence_refs = []\<rparr>,
      Effect_Reconciliation effect_id (n + 2) now
        \<lparr>rp_outcome = outcome, rp_evidence_refs = [],
         rp_receipt_hash = Some (hash_json (JObj [(''effect_id'', JStr effect_id),
           (''outcome'', JStr (outcome_value outcome)), (''revision'', json_opt revision)]))\<rparr>]"

definition record_local_result ::
  "'x finalizer \<Rightarrow> state_generation \<Rightarrow> string \<Rightarrow> effect_outcome \<Rightarrow> string option \<Rightarrow> (run_state \<Rightarrow> run_state)
   \<Rightarrow> ('x, state_generation) fz_op" where
  "record_local_result env g effect_id outcome revision updates =
     bind_op (require_op (effect_ledger (sg_state g) \<noteq> []) Ledger_Index_Error) (\<lambda>_.
     bind_op tick (\<lambda>m.
     let es = result_events effect_id (next_sequence (effect_ledger (sg_state g))) (fd_now env m) outcome revision
     in bind_op (require_op (list_all effect_event_valid es) (Fz_Contract Invalid_Field)) (\<lambda>_.
        update_state g (\<lambda>s. append_events es (updates s)))))"

primrec set_result :: "local_effect \<Rightarrow> string \<Rightarrow> run_state \<Rightarrow> run_state" where
  "set_result Commit_Effect sha s = s\<lparr>commit_sha := Some sha\<rparr>"
| "set_result Push_Effect sha s = s\<lparr>pushed_sha := Some sha\<rparr>"

definition observe_local_effect ::
  "'x finalizer \<Rightarrow> state_generation \<Rightarrow> string \<Rightarrow> local_effect \<Rightarrow> ('x, state_generation) fz_op" where
  "observe_local_effect env g effect_id kind =
     bind_op (case kind of
         Commit_Effect \<Rightarrow> reconcile_commit_op env (commit_sha (sg_state g))
       | Push_Effect \<Rightarrow> reconcile_push_op env (branch (sg_state g)) (commit_sha (sg_state g))) (\<lambda>observed.
       case observed of
         None \<Rightarrow> record_local_result env g effect_id UNKNOWN None id
       | Some sha \<Rightarrow>
           if kind = Commit_Effect \<or> observed = commit_sha (sg_state g)
           then record_local_result env g effect_id SUCCESS observed (set_result kind sha)
           else record_local_result env g effect_id UNKNOWN None id)"

definition effects_of :: "string \<Rightarrow> (string \<times> effect_event) list \<Rightarrow> string list" where
  "effects_of operation intentions =
     concat (map (\<lambda>(x, e). case e of
       Effect_Intention _ _ _ p \<Rightarrow> if ip_operation p = operation then [x] else [] | _ \<Rightarrow> []) intentions)"

definition reconciled_before ::
  "(string \<times> effect_event) list \<Rightarrow> (string \<Rightarrow> effect_phase option) \<Rightarrow> string \<Rightarrow> string \<Rightarrow> bool" where
  \<comment> \<open>a reconciliation of this effect was recorded already\<close>
  "reconciled_before intentions phases operation effect_id \<longleftrightarrow>
     list_ex (\<lambda>(x, e). case e of
       Effect_Intention _ _ _ p \<Rightarrow>
         ip_operation p = reconciling operation \<and> ip_target p = effect_id \<and> phases x = Some Phase_Reconciled
     | _ \<Rightarrow> False) intentions"

definition reconcile_local_effect ::
  "'x finalizer \<Rightarrow> state_generation \<Rightarrow> local_effect \<Rightarrow> ('x, state_generation option) fz_op" where
  \<comment> \<open>\<open>None\<close> is the generation itself: there is nothing to reconcile\<close>
  "reconcile_local_effect env g kind =
     bind_op (result_op (map_sum Fz_Contract id (validate_effect_ledger (sg_state g)))) (\<lambda>(intentions, phases).
       let effects = effects_of (effect_name kind) intentions in
       if effects = [] then return_op None
       else if phases (last effects) \<noteq> Some Phase_Reconciled then
         bind_op (observe_local_effect env g (last effects) kind) (\<lambda>g'. return_op (Some g'))
       else if reconciled_before intentions phases (effect_name kind) (last effects) then return_op None
       else
         bind_op (intend env g (reconciling (effect_name kind)) (last effects)) (\<lambda>(g', x).
         bind_op (observe_local_effect env g' x kind) (\<lambda>g''. return_op (Some g''))))"

definition invoke_commit :: "'x finalizer \<Rightarrow> state_generation \<Rightarrow> ('x, state_generation) fz_op" where
  "invoke_commit env g =
     (let a = fd_artifacts env in
      bind_op (intend env g ''commit'' (ticket_id (sg_state g))) (\<lambda>(g', x).
        or_else
          (bind_op (outside Fz_Git (gc_commit (fd_git env) (fa_product a)
               (ticket_id (sg_state g) @ '': '' @ sn_title (fa_snapshot a)))) (\<lambda>commit.
           case commit of
             None \<Rightarrow> raise_op Finalization_Error
           | Some sha \<Rightarrow>
               bind_op (require_op (length sha \<in> {40, 64}) Finalization_Error) (\<lambda>_.
                 record_local_result env g' x SUCCESS (Some sha) (set_result Commit_Effect sha))))
          (record_local_result env g' x FAILURE None id)))"

definition invoke_push :: "'x finalizer \<Rightarrow> state_generation \<Rightarrow> ('x, state_generation) fz_op" where
  "invoke_push env g =
     bind_op (intend env g ''push'' (ticket_id (sg_state g))) (\<lambda>(g', x).
       or_else
         (bind_op (outside Fz_Git (gc_push (fd_git env) (commit_sha (sg_state g)))) (\<lambda>pushed.
          bind_op (require_op (pushed = commit_sha (sg_state g)) Finalization_Error) (\<lambda>_.
            record_local_result env g' x SUCCESS pushed (\<lambda>s. s\<lparr>pushed_sha := pushed\<rparr>))))
         (record_local_result env g' x FAILURE None id))"

definition attempts :: "run_state \<Rightarrow> string \<Rightarrow> nat" where
  \<comment> \<open>\<^verbatim>\<open>_attempts\<close>\<close>
  "attempts s operation =
     length (filter (\<lambda>e. case e of Effect_Intention _ _ _ p \<Rightarrow> ip_operation p = operation | _ \<Rightarrow> False)
       (effect_ledger s))"

subsection \<open>Results and failures\<close>

definition finalization_failure :: "finding_kind \<Rightarrow> failure_record" where
  "finalization_failure kind =
     \<lparr>fr_class = ORCHESTRATION, fr_source = FS_FINALIZATION, fr_finding = kind,
      fr_owner_stage = None, fr_cited_ids = [], fr_evidence_refs = [], fr_observed_revision = None\<rparr>"

definition failed_update :: "run_state \<Rightarrow> run_state" where
  \<comment> \<open>\<^verbatim>\<open>_failed_state\<close>\<close>
  "failed_update s =
     s\<lparr>disposition := HUMAN_REVIEW,
       failure_history := failure_history s @ [finalization_failure ARTIFACT_MISMATCH]\<rparr>"

definition step_outcome :: "step_kind \<Rightarrow> state_generation \<Rightarrow> failure_record option \<Rightarrow> ('x, step_result) fz_op" where
  \<comment> \<open>\<^verbatim>\<open>_result\<close>\<close>
  "step_outcome kind g failure = result_op (map_sum Fz_Result id (make_result kind g None failure []))"

definition action_outcome :: "state_generation \<Rightarrow> mcp_request \<Rightarrow> ('x, step_result) fz_op" where
  "action_outcome g action = result_op (map_sum Fz_Result id (mcp_result g action))"

definition store_failure :: "state_generation \<Rightarrow> ('x, step_result) fz_op" where
  "store_failure g =
     bind_op (update_state g failed_update) (\<lambda>p.
       step_outcome STEP_HUMAN_REVIEW p (Some (last (failure_history (sg_state p)))))"

subsection \<open>The release of the run index\<close>

definition index_lookup :: "'x finalizer \<Rightarrow> run_state \<Rightarrow> ('x, active_run_record option) fz_op" where
  "index_lookup env s = outside Fz_Index (xc_lookup (fd_index env) (repository_id s))"

definition binding_of_active :: "run_state \<Rightarrow> active_run_record \<Rightarrow> index_release_binding option" where
  \<comment> \<open>\<^verbatim>\<open>IndexReleaseBinding(...)\<close> of an active entry\<close>
  "binding_of_active s active =
     (case (ax_revision active, ax_hash active) of
        (Some revision, Some h) \<Rightarrow>
          let b = \<lparr>ib_repository_id = repository_id s, ib_run_id = run_id s, ib_prior_revision = revision,
                   ib_prior_hash = lower h\<rparr>
          in if index_release_binding_valid b then Some b else None
      | _ \<Rightarrow> None)"

definition mark_released :: "state_generation \<Rightarrow> index_release_receipt \<Rightarrow> ('x, state_generation) fz_op" where
  "mark_released g receipt =
     update_state g (\<lambda>s. s\<lparr>finalization_index_released := True,
       finalization_index_release_receipt := Some receipt\<rparr>)"

definition reconcile_released_index :: "'x finalizer \<Rightarrow> state_generation \<Rightarrow> ('x, state_generation) fz_op" where
  "reconcile_released_index env g =
     (case finalization_index_release_binding (sg_state g) of
        None \<Rightarrow> raise_op Finalization_Error
      | Some b \<Rightarrow>
          let expected = receipt_for b (sg_state_hash g) in
          bind_op (require_op (disposition (sg_state g) = DONE) Finalization_Error) (\<lambda>_.
          bind_op (with_store (\<lambda>st. outside Fz_Index (xc_load (fd_index env) st expected))) (\<lambda>receipt.
          bind_op (require_op (receipt_matches receipt expected) Finalization_Error) (\<lambda>_.
            mark_released g receipt))))"

definition release_active_run :: "'x finalizer \<Rightarrow> state_generation \<Rightarrow> ('x, state_generation) fz_op" where
  "release_active_run env g =
     (let s = sg_state g in
      bind_op (index_lookup env s) (\<lambda>active.
        case active of
          None \<Rightarrow> reconcile_released_index env g
        | Some a \<Rightarrow>
            if ax_run_id a \<noteq> Some (run_id s) then raise_op Finalization_Error
            else case finalization_index_release_binding s of
                None \<Rightarrow> raise_op Finalization_Error
              | Some b \<Rightarrow>
                  if binding_of_active s a \<noteq> Some b then raise_op Finalization_Error
                  else
                    bind_op (attempt (with_store (\<lambda>st. outside Fz_Index
                      (xc_release (fd_index env) st (repository_id s) (run_id s) (ax_revision a) (ax_hash a)
                        (sg_state_hash g))))) (\<lambda>receipt.
                      case receipt of
                        None \<Rightarrow>
                          bind_op (index_lookup env s) (\<lambda>again.
                            if again \<noteq> None then raise_op Finalization_Error
                            else reconcile_released_index env g)
                      | Some r \<Rightarrow>
                          if \<not> receipt_matches r (receipt_for b (sg_state_hash g)) then raise_op Finalization_Error
                          else
                            bind_op (with_store (\<lambda>st. outside Fz_Index (xc_verify (fd_index env) st r)))
                              (\<lambda>_. mark_released g r))))"

definition active_release_binding :: "'x finalizer \<Rightarrow> run_state \<Rightarrow> ('x, index_release_binding) fz_op" where
  "active_release_binding env s =
     bind_op (index_lookup env s) (\<lambda>active.
       case active of
         None \<Rightarrow> raise_op Finalization_Error
       | Some a \<Rightarrow>
           if ax_run_id a \<noteq> Some (run_id s) then raise_op Finalization_Error
           else case binding_of_active s a of
               None \<Rightarrow> raise_op Finalization_Error
             | Some b \<Rightarrow> return_op b)"

definition final_gated_result :: "'x finalizer \<Rightarrow> state_generation \<Rightarrow> ('x, step_result) fz_op" where
  "final_gated_result env g =
     (let s = sg_state g in
      if disposition s = DONE then
        if finalization_index_released s then step_outcome STEP_DONE g None
        else bind_op (attempt (release_active_run env g)) (\<lambda>r.
          case r of None \<Rightarrow> store_failure g | Some g' \<Rightarrow> step_outcome STEP_DONE g' None)
      else
        step_outcome STEP_HUMAN_REVIEW g
          (Some (if failure_history s \<noteq> [] then last (failure_history s) else finalization_failure INVALID_ROUTING)))"

definition final_human_review :: "'x finalizer \<Rightarrow> state_generation \<Rightarrow> ('x, step_result) fz_op" where
  "final_human_review env g =
     (if disposition (sg_state g) = HUMAN_REVIEW then final_gated_result env g else store_failure g)"

definition final_pending_result :: "'x finalizer \<Rightarrow> state_generation \<Rightarrow> ('x, step_result) fz_op" where
  "final_pending_result env g =
     bind_op (reading (\<lambda>w. map_sum Fz_Gateway id (replay_pending (fz_gateway w) g))) (\<lambda>action.
       case action of None \<Rightarrow> final_human_review env g | Some r \<Rightarrow> action_outcome g r)"

subsection \<open>Requests to the bridge\<close>

definition persist_request :: "'x finalizer \<Rightarrow> state_generation \<Rightarrow> mcp_request \<Rightarrow> ('x, state_generation) fz_op" where
  "persist_request env g r =
     bind_op tick (\<lambda>m w.
       case persist_pending (fz_gateway w) g r (fd_now env m) None of
         Inl e \<Rightarrow> (Inl (Fz_Gateway e), w)
       | Inr (g', gw) \<Rightarrow> (Inr g', w\<lparr>fz_gateway := gw\<rparr>))"

definition request_step ::
  "'x finalizer \<Rightarrow> state_generation \<Rightarrow> (linear_gateway \<Rightarrow> string \<times> string \<Rightarrow> gateway_error + mcp_request)
   \<Rightarrow> ('x, step_result) fz_op" where
  \<comment> \<open>the request is made, persisted and returned as the action of the step\<close>
  "request_step env g build =
     bind_op tick (\<lambda>n.
     bind_op (reading (\<lambda>w. map_sum Fz_Gateway id (build (fz_gateway w) (fd_request_ids env n)))) (\<lambda>r.
     bind_op (persist_request env g r) (\<lambda>g'. action_outcome g' r)))"

definition request_projection_step :: "'x finalizer \<Rightarrow> state_generation \<Rightarrow> ('x, step_result) fz_op" where
  "request_projection_step env g =
     (let a = fd_artifacts env in
      request_step env g (\<lambda>gw ids. request_ticket_projection gw g ids (ticket_id (sg_state g))
        (Some (fa_original_revision a)) (Some (fa_original_state_id a))))"

definition request_completion_step :: "'x finalizer \<Rightarrow> state_generation \<Rightarrow> ('x, step_result) fz_op" where
  "request_completion_step env g =
     (let a = fd_artifacts env; s = sg_state g in
      request_step env g (\<lambda>gw ids. request_action gw g ids ''compare_and_complete_ticket'' ''ticket'' (ticket_id s)
        (Some (fa_original_revision a))
        [(''ticket_id'', JStr (ticket_id s)), (''state_id'', json_opt (lp_completed_state_id (pj_linear (fa_policy a))))]))"

subsection \<open>One round of the loop\<close>

definition may_invoke :: "'x finalizer \<Rightarrow> run_state \<Rightarrow> string \<Rightarrow> bool" where
  "may_invoke env s operation \<longleftrightarrow>
     int (attempts s operation) < fp_max_invocations_per_effect (pj_finalization (fa_policy (fd_artifacts env)))"

datatype round_result = Returned step_result | Again state_generation

definition finished :: "('x, step_result) fz_op \<Rightarrow> ('x, round_result) fz_op" where
  "finished m = bind_op m (\<lambda>r. return_op (Returned r))"

primrec effect_result :: "local_effect \<Rightarrow> run_state \<Rightarrow> string option" where
  "effect_result Commit_Effect s = commit_sha s"
| "effect_result Push_Effect s = pushed_sha s"

primrec invoke_effect :: "'x finalizer \<Rightarrow> local_effect \<Rightarrow> state_generation \<Rightarrow> ('x, state_generation) fz_op" where
  "invoke_effect env Commit_Effect g = invoke_commit env g"
| "invoke_effect env Push_Effect g = invoke_push env g"

definition local_round :: "'x finalizer \<Rightarrow> local_effect \<Rightarrow> state_generation \<Rightarrow> ('x, round_result) fz_op" where
  \<comment> \<open>the branches of the loop for a missing commit and a missing push\<close>
  "local_round env kind g =
     bind_op (reconcile_local_effect env g kind) (\<lambda>r.
       case r of
         Some g' \<Rightarrow> return_op (Again g')
       | None \<Rightarrow>
           if \<not> may_invoke env (sg_state g) (effect_name kind) then finished (final_human_review env g)
           else bind_op (invoke_effect env kind g) (\<lambda>g'.
             if effect_result kind (sg_state g') = None then finished (step_outcome STEP_READY_TO_FINALIZE g' None)
             else return_op (Again g')))"

definition evidence_of :: "run_state \<Rightarrow> finalization_evidence option" where
  \<comment> \<open>\<^verbatim>\<open>FinalizationEvidence(...)\<close>\<close>
  "evidence_of s =
     (case (prefinalization_ticket_projection s, commit_sha s, pushed_sha s, linear_done_receipt s) of
        (Some projection, Some commit, Some pushed, Some receipt) \<Rightarrow>
          let e = \<lparr>fe_prefinalization_ticket_projection = projection, fe_commit_sha = commit,
                   fe_pushed_sha = pushed, fe_linear_done_receipt = receipt\<rparr>
          in if finalization_evidence_valid e then Some e else None
      | _ \<Rightarrow> None)"

definition done_update :: "finalization_evidence \<Rightarrow> index_release_binding \<Rightarrow> run_state \<Rightarrow> run_state" where
  "done_update e b s =
     s\<lparr>disposition := DONE, finalization := Some ''approved-finalization'',
       finalization_evidence := Some e, finalization_index_release_binding := Some b\<rparr>"

definition verified_position :: "'x finalizer \<Rightarrow> run_state \<Rightarrow> ('x, unit) fz_op" where
  \<comment> \<open>both checks before the run is done\<close>
  "verified_position env s = bind_op (verify_approval env s) (\<lambda>_. verify_git_position env s)"

definition complete_run :: "'x finalizer \<Rightarrow> state_generation \<Rightarrow> ('x, step_result) fz_op" where
  "complete_run env g =
     (let s = sg_state g in
      bind_op (attempt (verified_position env s)) (\<lambda>ok.
        case ok of
          None \<Rightarrow> final_human_review env g
        | Some _ \<Rightarrow>
            case evidence_of s of
              None \<Rightarrow> raise_op (Fz_Contract Invalid_Field)
            | Some e \<Rightarrow>
                bind_op (attempt (active_release_binding env s)) (\<lambda>binding.
                  case binding of
                    None \<Rightarrow> final_human_review env g
                  | Some b \<Rightarrow>
                      bind_op (update_state g (done_update e b)) (\<lambda>d.
                      bind_op (attempt (release_active_run env d)) (\<lambda>released.
                        case released of
                          None \<Rightarrow> final_human_review env d
                        | Some g' \<Rightarrow> step_outcome STEP_DONE g' None)))))"

definition approved_round :: "'x finalizer \<Rightarrow> state_generation \<Rightarrow> ('x, round_result) fz_op" where
  \<comment> \<open>the rest of the loop once the approval was verified\<close>
  "approved_round env g =
     (let s = sg_state g in
      case prefinalization_ticket_projection s of
        None \<Rightarrow> finished (request_projection_step env g)
      | Some p \<Rightarrow>
          bind_op (result_op (projection_hash env)) (\<lambda>h.
            if p \<noteq> h then finished (final_human_review env g)
            else bind_op (attempt (verify_git_position env s)) (\<lambda>ok.
              case ok of
                None \<Rightarrow> finished (final_human_review env g)
              | Some _ \<Rightarrow>
                  if commit_sha s = None then local_round env Commit_Effect g
                  else if pushed_sha s = None then local_round env Push_Effect g
                  else if linear_done_receipt s = None then
                    (if \<not> may_invoke env s ''compare_and_complete_ticket'' then finished (final_human_review env g)
                     else finished (request_completion_step env g))
                  else finished (complete_run env g))))"

definition must_wait :: "'x finalizer \<Rightarrow> run_state \<Rightarrow> ('x, bool) fz_op" where
  "must_wait env s =
     (case finalization_next_eligible_at s of
        None \<Rightarrow> return_op False
      | Some eligible \<Rightarrow> bind_op tick (\<lambda>m. return_op (fd_now env m < eligible)))"

definition finalizer_round :: "'x finalizer \<Rightarrow> state_generation \<Rightarrow> ('x, round_result) fz_op" where
  "finalizer_round env g =
     (let s = sg_state g in
      if disposition s = WAITING_MCP then finished (final_pending_result env g)
      else if disposition s \<noteq> ACTIVE then finished (final_gated_result env g)
      else bind_op (must_wait env s) (\<lambda>early.
        if early then finished (step_outcome STEP_READY_TO_FINALIZE g None)
        else bind_op (attempt (verify_approval env s)) (\<lambda>ok.
          case ok of
            None \<Rightarrow> finished (final_human_review env g)
          | Some _ \<Rightarrow> approved_round env g)))"

subsection \<open>Advancing\<close>

fun advance_rounds :: "nat \<Rightarrow> 'x finalizer \<Rightarrow> state_generation \<Rightarrow> ('x, step_result option) fz_op" where
  \<comment> \<open>the \<^verbatim>\<open>while True\<close> loop; \<open>None\<close> when the number of rounds is used up\<close>
  "advance_rounds 0 env g = return_op None"
| "advance_rounds (Suc n) env g =
     bind_op (finalizer_round env g) (\<lambda>r.
       case r of Returned x \<Rightarrow> return_op (Some x) | Again g' \<Rightarrow> advance_rounds n env g')"

definition require_generation :: "state_generation \<Rightarrow> ('x, unit) fz_op" where
  "require_generation g =
     with_store (\<lambda>st.
       if run_id (sg_state g) \<noteq> rs_run_id st then raise_op Finalization_Error
       else bind_op (result_op (map_sum (\<lambda>e. Fz_Store (Store e)) id (load st))) (\<lambda>current.
         require_op (current = g) (Fz_Store (Store Cas_Conflict))))"

definition advance :: "nat \<Rightarrow> 'x finalizer \<Rightarrow> state_generation \<Rightarrow> ('x, step_result option) fz_op" where
  "advance n env g = bind_op (require_generation g) (\<lambda>_. advance_rounds n env g)"

subsection \<open>Accepting a receipt\<close>

fun decimal_value :: "nat \<Rightarrow> string \<Rightarrow> nat option" where
  "decimal_value n [] = Some n"
| "decimal_value n (c # cs) =
     (if is_digit c then decimal_value (10 * n + (of_char c - 48)) cs else None)"

definition decimal_digits :: "string \<Rightarrow> nat option" where
  \<comment> \<open>\<^verbatim>\<open>[0-9]+\<close>\<close>
  "decimal_digits s = (if s = [] then None else decimal_value 0 s)"

definition decimal_seconds :: "string \<Rightarrow> seconds option" where
  \<comment> \<open>\<^verbatim>\<open>[0-9]+(\.[0-9]+)?\<close> and the number it is\<close>
  "decimal_seconds s =
     (case cut_at (CHR ''.'') s of
        None \<Rightarrow> map_option of_nat (decimal_digits s)
      | Some (whole, fraction) \<Rightarrow>
          (case (decimal_digits whole, decimal_digits fraction) of
             (Some a, Some b) \<Rightarrow> Some (of_nat a + of_nat b / 10 ^ length fraction)
           | _ \<Rightarrow> None))"

definition retry_after :: "string \<Rightarrow> seconds option" where
  "retry_after observation =
     (let s = lower (strip observation); prefix = ''retry-after='' in
      if starts_with prefix s then decimal_seconds (drop (length prefix) s) else None)"

definition retry_after_seconds :: "trusted_receipt \<Rightarrow> seconds" where
  "retry_after_seconds r =
     (case List.map_filter retry_after (tr_observations r) of [] \<Rightarrow> 0 | x # _ \<Rightarrow> x)"

definition microseconds :: "seconds \<Rightarrow> int" where
  \<comment> \<open>\<^verbatim>\<open>timedelta(seconds=...)\<close>: to the nearest microsecond, half to even\<close>
  "microseconds x =
     (let q = x * 1000000; n = \<lfloor>q\<rfloor>; d = q - of_int n in
      if d < 1 / 2 then n else if 1 / 2 < d then n + 1 else if even n then n else n + 1)"

definition receipt_update ::
  "'x finalizer \<Rightarrow> store_env \<Rightarrow> pending_request \<Rightarrow> seconds \<Rightarrow> trusted_receipt state_update" where
  \<comment> \<open>the closure \<^verbatim>\<open>update\<close>; \<open>None\<close> when it raises\<close>
  "receipt_update env senv pending wait s r =
     (let a = fd_artifacts env;
          copy = (\<lambda>u. case model_copy (clean_of senv) u s of Inl _ \<Rightarrow> None | Inr t \<Rightarrow> Some t);
          success = tr_outcome r = SUCCESS
      in
      if pr_operation pending = ''query_ticket_projection'' then
        if \<not> success \<or> tr_external_revision r \<noteq> Some (fa_original_revision a)
           \<or> tr_observed_state_id r \<noteq> Some (fa_original_state_id a)
        then copy failed_update
        else
          (case projection_hash env of
             Inl _ \<Rightarrow> None
           | Inr h \<Rightarrow>
               if tr_result_hash r \<noteq> h then copy failed_update
               else copy (\<lambda>s. s\<lparr>prefinalization_ticket_projection := Some (tr_result_hash r)\<rparr>))
      else if pr_operation pending = ''compare_and_complete_ticket'' \<and> success then
        if tr_observed_state_id r \<noteq> lp_completed_state_id (pj_linear (fa_policy a)) then copy failed_update
        else copy (\<lambda>s. s\<lparr>linear_done_receipt :=
          Some (receipt_content_hash (se_clock senv) r)\<rparr>)
      else if \<not> success \<and> wait \<noteq> 0 then
        let waited = finalization_retry_wait_seconds s + wait in
        if of_int (fp_total_retry_wait_seconds (pj_finalization (fa_policy a))) < waited then copy failed_update
        else copy (\<lambda>s. s\<lparr>finalization_retry_wait_seconds := waited,
          finalization_next_eligible_at := Some (tr_observed_at r + microseconds wait)\<rparr>)
      else Some s)"

definition consume_op ::
  "state_generation \<Rightarrow> trusted_receipt \<Rightarrow> trusted_receipt state_update option \<Rightarrow> seconds
   \<Rightarrow> ('x, state_generation) fz_op" where
  "consume_op g r update wait w =
     (case consume_receipt (fz_gateway w) g r update wait of
        Inl e \<Rightarrow> (Inl (Fz_Gateway e), w)
      | Inr (g', gw) \<Rightarrow> (Inr g', w\<lparr>fz_gateway := gw\<rparr>))"

definition accept_trusted_receipt ::
  "'x finalizer \<Rightarrow> state_generation \<Rightarrow> trusted_receipt \<Rightarrow> ('x, state_generation) fz_op" where
  "accept_trusted_receipt env g r =
     bind_op (require_generation g) (\<lambda>_.
       case pending_external_request (sg_state g) of
         None \<Rightarrow> consume_op g r None 0
       | Some pending \<Rightarrow>
           bind_op (verify_approval env (sg_state g)) (\<lambda>_.
             with_store (\<lambda>st.
               let wait = retry_after_seconds r in
               consume_op g r (Some (receipt_update env (rs_env st) pending wait)) wait)))"

end
