(* ===== verification/Finalizer_Laws.thy ===== *)
theory Finalizer_Laws
  imports Finalizer Supervisor_Laws
begin

section \<open>Laws of the finalizer\<close>

text \<open>
  What one round of the finalizer does to the run state, why the loop ends, and the abstract
  moves that every change of the run is one of.
\<close>

subsection \<open>Updates of the state\<close>

lemma swap_state_Inr:
  assumes "swap_state g s w = (Inr g', w')" and "run_inv (clean_of (rs_env (fz_store w))) s"
  shows "sg_state g' = s" "fz_outside w' = fz_outside w" "fz_ticks w' = fz_ticks w"
    "compare_and_swap (fz_store w) (sg_revision g) (sg_state_hash g) s = Inr (g', fz_store w')"
proof -
  from assms(1) obtain st where c: "compare_and_swap (fz_store w) (sg_revision g) (sg_state_hash g) s = Inr (g', st)"
      and w: "w' = w\<lparr>fz_gateway := (fz_gateway w)\<lparr>lg_store := st\<rparr>\<rparr>"
    by (auto simp: swap_state_def split: sum.splits)
  then obtain st1 where "cas_prepare (fz_store w) (sg_revision g) (sg_state_hash g) s = Inr (g', st1)"
    by (auto simp: compare_and_swap_Inr)
  then obtain current t where t: "validate_transition (view_of (fz_store w)) current s = Inr t"
      "g' = create_generation (rs_env (fz_store w)) (sg_revision g + 1) t"
    using cas_prepare_Inr by metis
  have "t = s" using validate_transition_any(1) [OF t(1)] assms(2) by (simp add: view_of_def)
  with t c w show "sg_state g' = s" "fz_outside w' = fz_outside w" "fz_ticks w' = fz_ticks w"
    "compare_and_swap (fz_store w) (sg_revision g) (sg_state_hash g) s = Inr (g', fz_store w')"
    by (simp_all add: create_generation_def)
qed

lemma with_store_Inr [simp]: "with_store f w = (Inr x, w') \<longleftrightarrow> f (fz_store w) w = (Inr x, w')"
  by (simp add: with_store_def)

lemma tick_Inr [simp]: "tick w = (Inr n, w') \<longleftrightarrow> n = fz_ticks w \<and> w' = w\<lparr>fz_ticks := Suc (fz_ticks w)\<rparr>"
  by (auto simp: tick_def)

lemma attempt_Inr:
  "attempt m w = (Inr r, w') \<longleftrightarrow>
     (\<exists>x. m w = (Inr x, w') \<and> r = Some x) \<or> (\<exists>e. m w = (Inl e, w') \<and> r = None)"
  by (auto simp: attempt_def split: prod.splits sum.splits)

lemma or_else_Inr:
  "or_else m h w = (Inr x, w') \<longleftrightarrow> m w = (Inr x, w') \<or> (\<exists>e w1. m w = (Inl e, w1) \<and> h w1 = (Inr x, w'))"
  by (auto simp: or_else_def bind_op_Inr attempt_Inr)

lemma copy_state_Inr:
  "copy_state u s w = (Inr t, w') \<longleftrightarrow> model_copy (clean_of (rs_env (fz_store w))) u s = Inr t \<and> w' = w"
  by (auto simp: copy_state_def)

lemma update_state_Inr:
  assumes "update_state g u w = (Inr g', w')"
  shows "sg_state g' = normalize (u (sg_state g))" "run_inv (clean_of (rs_env (fz_store w))) (sg_state g')"
    "fz_outside w' = fz_outside w"
    "compare_and_swap (fz_store w) (sg_revision g) (sg_state_hash g) (sg_state g') = Inr (g', fz_store w')"
proof -
  from assms obtain t where t: "model_copy (clean_of (rs_env (fz_store w))) u (sg_state g) = Inr t"
      "swap_state g t w = (Inr g', w')"
    by (auto simp: update_state_def bind_op_Inr copy_state_Inr)
  note i = model_copy_inv [OF t(1)] and s = swap_state_Inr [OF t(2) model_copy_inv [OF t(1)]]
  from i s copied_state [OF t(1)] show "sg_state g' = normalize (u (sg_state g))"
    "run_inv (clean_of (rs_env (fz_store w))) (sg_state g')" "fz_outside w' = fz_outside w"
    "compare_and_swap (fz_store w) (sg_revision g) (sg_state_hash g) (sg_state g') = Inr (g', fz_store w')"
    by simp_all
qed

lemma normal_fields [simp]:
  "effect_ledger (normalize s) = effect_ledger s" "commit_sha (normalize s) = commit_sha s"
  "pushed_sha (normalize s) = pushed_sha s" "disposition (normalize s) = disposition s"
  "branch (normalize s) = branch s" "linear_done_receipt (normalize s) = linear_done_receipt s"
  by (simp_all add: normalize_def)

lemma append_events_fields [simp]:
  "effect_ledger (append_events es s) = effect_ledger s @ es" "commit_sha (append_events es s) = commit_sha s"
  "pushed_sha (append_events es s) = pushed_sha s" "disposition (append_events es s) = disposition s"
  "branch (append_events es s) = branch s"
  by (simp_all add: append_events_def)

lemma set_result_fields [simp]:
  "effect_ledger (set_result k c s) = effect_ledger s" "effect_result k (set_result k c s) = Some c"
  "disposition (set_result k c s) = disposition s" "branch (set_result k c s) = branch s"
  by (cases k; simp)+

lemma record_Inr:
  assumes "record_local_result env g x outcome revision u w = (Inr g', w')"
  shows "\<exists>n now. sg_state g' = normalize (append_events (result_events x n now outcome revision) (u (sg_state g)))"
  using assms by (auto simp: record_local_result_def Let_def bind_op_Inr dest!: update_state_Inr(1))

lemma intend_Inr:
  assumes "intend env g operation target w = (Inr (g', x), w')"
  shows "\<exists>n now. sg_state g' = normalize (append_events
    [Effect_Intention x n now (local_intention x operation target)] (sg_state g))"
  using assms by (auto simp: intend_def Let_def bind_op_Inr dest!: update_state_Inr(1))

subsection \<open>The loop ends\<close>

definition intends :: "string \<Rightarrow> effect_event \<Rightarrow> bool" where
  "intends operation e \<longleftrightarrow>
     (case e of Effect_Intention _ _ _ p \<Rightarrow> ip_operation p = operation | _ \<Rightarrow> False)"

definition effects_in :: "string \<Rightarrow> effect_event list \<Rightarrow> string list" where
  "effects_in operation es = map event_effect_id (filter (intends operation) es)"

definition ledger_phase :: "effect_event list \<Rightarrow> string \<Rightarrow> effect_phase option" where
  "ledger_phase es x = phase_of_trace (trace_of x es)"

definition reconciled_in :: "string \<Rightarrow> string \<Rightarrow> effect_event list \<Rightarrow> bool" where
  "reconciled_in operation x es \<longleftrightarrow>
     (\<exists>y n now p. Effect_Intention y n now p \<in> set es \<and> ip_operation p = reconciling operation
        \<and> ip_target p = x \<and> ledger_phase es y = Some Phase_Reconciled)"

definition open_work :: "local_effect \<Rightarrow> run_state \<Rightarrow> nat" where
  \<comment> \<open>how many rounds reconcile what was intended before\<close>
  "open_work kind s =
     (let es = effect_ledger s; xs = effects_in (effect_name kind) es in
      if xs = [] then 0
      else if ledger_phase es (last xs) \<noteq> Some Phase_Reconciled then 2
      else if reconciled_in (effect_name kind) (last xs) es then 0 else 1)"

definition rounds_left :: "run_state \<Rightarrow> nat" where
  "rounds_left s =
     (if commit_sha s = None then 5 + open_work Commit_Effect s
      else if pushed_sha s = None then 2 + open_work Push_Effect s else 1)"

lemma open_work_bound: "open_work kind s \<le> 2"
  by (simp add: open_work_def Let_def)

lemma rounds_left_bound: "rounds_left s \<le> 7"
  using open_work_bound [of Commit_Effect s] open_work_bound [of Push_Effect s] by (simp add: rounds_left_def)

lemma result_events_intend [simp]: "filter (intends operation) (result_events x n now outcome revision) = []"
  by (simp add: result_events_def intends_def)

lemma effects_in_results [simp]:
  "effects_in operation (es @ result_events x n now outcome revision) = effects_in operation es"
  by (simp add: effects_in_def)

lemma phase_after_results:
  "ledger_phase (es @ result_events x n now outcome revision) y =
     (if y = x then Some Phase_Reconciled else ledger_phase es y)"
  by (simp add: ledger_phase_def trace_of_def phase_of_trace_def result_events_def)

lemma phase_after_intention:
  "ledger_phase (es @ [Effect_Intention x n now p]) y = (if y = x then Some Phase_Ready else ledger_phase es y)"
  by (simp add: ledger_phase_def trace_of_def phase_of_trace_def)

lemma reconciling_differs: "reconciling operation \<noteq> operation"
  by (simp add: reconciling_def)

lemma effects_of_map:
  "effects_of operation (map (\<lambda>e. (event_effect_id e, e)) es) = effects_in operation es"
  by (induction es) (auto simp: effects_of_def effects_in_def intends_def split: effect_event.splits)

lemma reconciled_before_map:
  "reconciled_before (map (\<lambda>e. (event_effect_id e, e)) (filter (\<lambda>e. kind_of e = K_Intention) es)) phases operation x
   \<longleftrightarrow> (\<exists>y n now p. Effect_Intention y n now p \<in> set es \<and> ip_operation p = reconciling operation
        \<and> ip_target p = x \<and> phases y = Some Phase_Reconciled)"
proof (induction es)
  case (Cons e es)
  then show ?case by (cases e) (auto simp: reconciled_before_def)
qed (simp add: reconciled_before_def)

lemma effects_of_ledger:
  assumes "validate_effect_ledger s = Inr (intentions, phases)"
  shows "effects_of operation intentions = effects_in operation (effect_ledger s)"
    and "phases = ledger_phase (effect_ledger s)"
    and "reconciled_before intentions phases operation x = reconciled_in operation x (effect_ledger s)"
proof -
  let ?es = "effect_ledger s"
  note v = validate_effect_ledger_Inr [OF assms]
  show p: "phases = ledger_phase ?es" by (simp add: v(2) ledger_phase_def fun_eq_iff)
  have "effects_in operation (filter (\<lambda>e. kind_of e = K_Intention) es) = effects_in operation es" for es
    by (induction es) (auto simp: effects_in_def intends_def split: effect_event.splits)
  then show "effects_of operation intentions = effects_in operation ?es"
    by (simp add: v(3) effects_of_map)
  show "reconciled_before intentions phases operation x = reconciled_in operation x ?es"
    unfolding p reconciled_in_def v(3) by (rule reconciled_before_map)
qed

subsection \<open>What Git showed\<close>

primrec git_showed :: "'x finalizer \<Rightarrow> local_effect \<Rightarrow> run_state \<Rightarrow> string \<Rightarrow> bool" where
  \<comment> \<open>a result that the Git capability returned for this state\<close>
  "git_showed env Commit_Effect s c \<longleftrightarrow>
     (\<exists>message x x'. gc_commit (fd_git env) (fa_product (fd_artifacts env)) message x = (Inr (Some c), x'))
     \<or> (\<exists>x x'. gc_reconcile_commit (fd_git env) (fa_product (fd_artifacts env)) (commit_sha s) x = (Inr (Some c), x'))"
| "git_showed env Push_Effect s c \<longleftrightarrow>
     commit_sha s = Some c
     \<and> ((\<exists>x x'. gc_push (fd_git env) (Some c) x = (Inr (Some c), x'))
        \<or> (\<exists>x x'. gc_reconcile_push (fd_git env) (branch s) (Some c) x = (Inr (Some c), x')))"

lemma outside_Inr:
  "outside err m w = (Inr r, w') \<longleftrightarrow>
     (\<exists>x. m (fz_outside w) = (Inr r, x) \<and> w' = w\<lparr>fz_outside := x\<rparr>)"
  by (auto simp: outside_def map_sum_def split: prod.splits sum.splits)

definition recorded_state :: "'x finalizer \<Rightarrow> local_effect \<Rightarrow> string \<Rightarrow> run_state \<Rightarrow> run_state \<Rightarrow> bool" where
  \<comment> \<open>the result of an effect was recorded, and its object when Git showed one\<close>
  "recorded_state env kind x s t \<longleftrightarrow>
     (\<exists>n now outcome revision u.
        t = normalize (append_events (result_events x n now outcome revision) (u s))
        \<and> (u = id \<or> (\<exists>c. u = set_result kind c \<and> git_showed env kind s c)))"

lemma record_recorded:
  assumes "record_local_result env g x outcome revision u w = (Inr g', w')"
    and "u = id \<or> (\<exists>c. u = set_result kind c \<and> git_showed env kind (sg_state g) c)"
  shows "recorded_state env kind x (sg_state g) (sg_state g')"
  using record_Inr [OF assms(1)] assms(2) unfolding recorded_state_def by blast

lemmas record_none = record_recorded [where u = id, simplified]
lemmas record_set = record_recorded [where u = "set_result kind c" for kind c, OF _ disjI2, OF _ exI, OF _ conjI, OF _ refl]

lemma observe_recorded:
  assumes "observe_local_effect env g x kind w = (Inr g', w')"
  shows "recorded_state env kind x (sg_state g) (sg_state g')"
proof -
  obtain observed w1 where o: "(case kind of
         Commit_Effect \<Rightarrow> reconcile_commit_op env (commit_sha (sg_state g))
       | Push_Effect \<Rightarrow> reconcile_push_op env (branch (sg_state g)) (commit_sha (sg_state g))) w = (Inr observed, w1)"
    and r: "(case observed of
         None \<Rightarrow> record_local_result env g x UNKNOWN None id
       | Some sha \<Rightarrow>
           if kind = Commit_Effect \<or> observed = commit_sha (sg_state g)
           then record_local_result env g x SUCCESS observed (set_result kind sha)
           else record_local_result env g x UNKNOWN None id) w1 = (Inr g', w')"
    using assms unfolding observe_local_effect_def bind_op_Inr by blast
  show ?thesis
  proof (cases "\<exists>sha. observed = Some sha \<and> (kind = Commit_Effect \<or> observed = commit_sha (sg_state g))")
    case True
    then obtain sha where sha: "observed = Some sha" "kind = Commit_Effect \<or> observed = commit_sha (sg_state g)"
      by blast
    have "git_showed env kind (sg_state g) sha"
      using o sha by (cases kind) (auto simp: reconcile_commit_op_def reconcile_push_op_def outside_Inr)
    with r sha show ?thesis
      by (intro record_recorded [of env g x SUCCESS observed "set_result kind sha"]) auto
  next
    case False
    then have "record_local_result env g x UNKNOWN None id w1 = (Inr g', w')"
      using r by (auto split: option.splits if_splits)
    then show ?thesis by (rule record_recorded) simp
  qed
qed

definition intended_state :: "string \<Rightarrow> string \<Rightarrow> string \<Rightarrow> run_state \<Rightarrow> run_state \<Rightarrow> bool" where
  "intended_state x operation target s t \<longleftrightarrow>
     (\<exists>n now. t = normalize (append_events [Effect_Intention x n now (local_intention x operation target)] s))"

lemma intend_intended:
  "intend env g operation target w = (Inr (g', x), w') \<Longrightarrow> intended_state x operation target (sg_state g) (sg_state g')"
  unfolding intended_state_def by (rule intend_Inr)

lemma reconcile_cases:
  assumes "reconcile_local_effect env g kind w = (Inr (Some g'), w')"
  shows "(\<exists>x. effects_in (effect_name kind) (effect_ledger (sg_state g)) \<noteq> []
      \<and> x = last (effects_in (effect_name kind) (effect_ledger (sg_state g)))
      \<and> ((ledger_phase (effect_ledger (sg_state g)) x \<noteq> Some Phase_Reconciled
           \<and> recorded_state env kind x (sg_state g) (sg_state g'))
         \<or> (ledger_phase (effect_ledger (sg_state g)) x = Some Phase_Reconciled
            \<and> \<not> reconciled_in (effect_name kind) x (effect_ledger (sg_state g))
            \<and> (\<exists>y t. intended_state y (reconciling (effect_name kind)) x (sg_state g) t
                 \<and> recorded_state env kind y t (sg_state g')))))"
proof -
  from assms obtain intentions phases where v: "validate_effect_ledger (sg_state g) = Inr (intentions, phases)"
    by (auto simp: reconcile_local_effect_def bind_op_Inr)
  note e = effects_of_ledger [OF v]
  show ?thesis
    using assms
    by (auto simp: reconcile_local_effect_def bind_op_Inr v e(1,2) e(3) [unfolded e(2)] Let_def split: if_splits
        dest!: observe_recorded intend_intended)
qed

lemma recorded_results:
  assumes "recorded_state env kind x s t"
  shows "ledger_phase (effect_ledger t) y = (if y = x then Some Phase_Reconciled else ledger_phase (effect_ledger s) y)"
    and "effects_in operation (effect_ledger t) = effects_in operation (effect_ledger s)"
    and "effect_result kind t = None \<Longrightarrow> commit_sha t = commit_sha s \<and> pushed_sha t = pushed_sha s"
  using assms unfolding recorded_state_def
  by (cases kind; auto simp: phase_after_results)+

lemma reconciled_in_extend:
  assumes "reconciled_in operation x es" and "\<And>y. ledger_phase es y = Some Phase_Reconciled \<Longrightarrow>
    ledger_phase (es @ ds) y = Some Phase_Reconciled"
  shows "reconciled_in operation x (es @ ds)"
  using assms unfolding reconciled_in_def by fastforce

lemma recorded_ledger:
  "recorded_state env kind x s t \<Longrightarrow> \<exists>n now outcome revision. effect_ledger t =
     effect_ledger s @ result_events x n now outcome revision"
  unfolding recorded_state_def by force

lemma open_work_recorded:
  assumes "recorded_state env kind x s t" and "x = last (effects_in (effect_name kind) (effect_ledger s))"
  shows "open_work kind t \<le> 1"
  using recorded_results(1,2) [OF assms(1)] assms(2) by (simp add: open_work_def Let_def)

lemma open_work_reconciled:
  assumes i: "intended_state y (reconciling (effect_name kind)) x s t" and r: "recorded_state env kind y t u"
    and x: "x = last (effects_in (effect_name kind) (effect_ledger s))"
      "ledger_phase (effect_ledger s) x = Some Phase_Reconciled"
  shows "open_work kind u = 0"
proof -
  from i obtain n now where t: "effect_ledger t = effect_ledger s
      @ [Effect_Intention y n now (local_intention y (reconciling (effect_name kind)) x)]" (is "_ = _ @ [?e]")
    unfolding intended_state_def by auto
  from recorded_ledger [OF r] obtain n' now' outcome revision where
    u: "effect_ledger u = effect_ledger t @ result_events y n' now' outcome revision" by blast
  have e: "effects_in (effect_name kind) (effect_ledger u) = effects_in (effect_name kind) (effect_ledger s)"
    using recorded_results(2) [OF r] reconciling_differs
    by (simp add: t effects_in_def intends_def local_intention_def)
  have x': "ledger_phase (effect_ledger u) x = Some Phase_Reconciled"
    using recorded_results(1) [OF r] x(2) by (simp add: t phase_after_intention)
  have "?e \<in> set (effect_ledger u)" "ledger_phase (effect_ledger u) y = Some Phase_Reconciled"
    using recorded_results(1) [OF r] by (simp_all add: t u)
  then have "reconciled_in (effect_name kind) x (effect_ledger u)"
    unfolding reconciled_in_def by (intro exI [of _ y] exI [of _ n] exI [of _ now]) (force simp: local_intention_def)
  with e x' x(1) show ?thesis by (simp add: open_work_def Let_def)
qed

lemma intended_results:
  "intended_state y operation x s t \<Longrightarrow> commit_sha t = commit_sha s \<and> pushed_sha t = pushed_sha s"
  unfolding intended_state_def by auto

lemma reconcile_less:
  assumes "reconcile_local_effect env g kind w = (Inr (Some g'), w')" and "effect_result kind (sg_state g') = None"
  shows "open_work kind (sg_state g') < open_work kind (sg_state g)
    \<and> commit_sha (sg_state g') = commit_sha (sg_state g) \<and> pushed_sha (sg_state g') = pushed_sha (sg_state g)"
proof -
  let ?s = "sg_state g" and ?t = "sg_state g'"
  obtain x where x: "effects_in (effect_name kind) (effect_ledger ?s) \<noteq> []"
      "x = last (effects_in (effect_name kind) (effect_ledger ?s))"
    and c: "(ledger_phase (effect_ledger ?s) x \<noteq> Some Phase_Reconciled \<and> recorded_state env kind x ?s ?t)
         \<or> (ledger_phase (effect_ledger ?s) x = Some Phase_Reconciled
            \<and> \<not> reconciled_in (effect_name kind) x (effect_ledger ?s)
            \<and> (\<exists>y t. intended_state y (reconciling (effect_name kind)) x ?s t \<and> recorded_state env kind y t ?t))"
    using reconcile_cases [OF assms(1)] by blast
  from c show ?thesis
  proof (elim disjE conjE exE)
    assume p: "ledger_phase (effect_ledger ?s) x \<noteq> Some Phase_Reconciled" and r: "recorded_state env kind x ?s ?t"
    have "open_work kind ?s = 2" using x p by (simp add: open_work_def Let_def)
    with open_work_recorded [OF r x(2)] recorded_results(3) [OF r assms(2)] show ?thesis by simp
  next
    fix y t
    assume p: "ledger_phase (effect_ledger ?s) x = Some Phase_Reconciled"
      "\<not> reconciled_in (effect_name kind) x (effect_ledger ?s)"
      and i: "intended_state y (reconciling (effect_name kind)) x ?s t" and r: "recorded_state env kind y t ?t"
    have "open_work kind ?s = 1" using x p by (simp add: open_work_def Let_def)
    with open_work_reconciled [OF i r x(2) p(1)] recorded_results(3) [OF r assms(2)] intended_results [OF i]
    show ?thesis by simp
  qed
qed

subsection \<open>Invoking\<close>

lemma invoke_commit_states:
  assumes "invoke_commit env g w = (Inr g', w')"
  shows "\<exists>x t. intended_state x ''commit'' (ticket_id (sg_state g)) (sg_state g) t
    \<and> recorded_state env Commit_Effect x t (sg_state g')"
proof -
  obtain g1 x w1 where i: "intend env g ''commit'' (ticket_id (sg_state g)) w = (Inr (g1, x), w1)"
    using assms by (auto simp: invoke_commit_def Let_def bind_op_Inr)
  have "recorded_state env Commit_Effect x (sg_state g1) (sg_state g')"
    using assms
    by (auto simp: invoke_commit_def Let_def bind_op_Inr or_else_Inr i outside_Inr split: option.splits
        elim!: record_none record_set) blast+
  with intend_intended [OF i] show ?thesis by blast
qed

lemma set_pushed: "(\<lambda>s. s\<lparr>pushed_sha := Some c\<rparr>) = set_result Push_Effect c"
  by (simp add: fun_eq_iff)

lemma invoke_push_states:
  assumes "invoke_push env g w = (Inr g', w')" and "commit_sha (sg_state g) = Some c"
  shows "\<exists>x t. intended_state x ''push'' (ticket_id (sg_state g)) (sg_state g) t
    \<and> recorded_state env Push_Effect x t (sg_state g')"
proof -
  obtain g1 x w1 where i: "intend env g ''push'' (ticket_id (sg_state g)) w = (Inr (g1, x), w1)"
    using assms by (auto simp: invoke_push_def Let_def bind_op_Inr)
  have c: "commit_sha (sg_state g1) = Some c"
    using intended_results [OF intend_intended [OF i]] assms(2) by simp
  have "recorded_state env Push_Effect x (sg_state g1) (sg_state g')"
    using assms c
    by (auto simp: invoke_push_def Let_def bind_op_Inr or_else_Inr i outside_Inr set_pushed split: option.splits
        elim!: record_none record_set) blast+
  with intend_intended [OF i] show ?thesis by blast
qed

subsection \<open>A round\<close>

lemma finished_Inr: "finished m w = (Inr r, w') \<longleftrightarrow> (\<exists>x. r = Returned x \<and> m w = (Inr x, w'))"
  by (auto simp: finished_def bind_op_Inr)

definition invoked_state :: "'x finalizer \<Rightarrow> local_effect \<Rightarrow> run_state \<Rightarrow> run_state \<Rightarrow> bool" where
  \<comment> \<open>the effect was intended and its result recorded\<close>
  "invoked_state env kind s u \<longleftrightarrow>
     (\<exists>x t. intended_state x (effect_name kind) (ticket_id s) s t \<and> recorded_state env kind x t u)"

lemma invoke_invoked:
  assumes "invoke_effect env kind g w = (Inr g', w')" and "kind = Push_Effect \<Longrightarrow> commit_sha (sg_state g) \<noteq> None"
  shows "invoked_state env kind (sg_state g) (sg_state g')"
  using assms by (cases kind) (auto simp: invoked_state_def dest!: invoke_commit_states invoke_push_states)

lemma invoked_commit: "invoked_state env Push_Effect s u \<Longrightarrow> commit_sha u = commit_sha s"
  unfolding invoked_state_def recorded_state_def intended_state_def by auto

definition reconciled_state :: "'x finalizer \<Rightarrow> local_effect \<Rightarrow> run_state \<Rightarrow> run_state \<Rightarrow> bool" where
  \<comment> \<open>an effect that was intended before was observed\<close>
  "reconciled_state env kind s u \<longleftrightarrow>
     (\<exists>x. recorded_state env kind x s u)
     \<or> (\<exists>x y t. intended_state y (reconciling (effect_name kind)) x s t \<and> recorded_state env kind y t u)"

lemma reconcile_reconciled:
  "reconcile_local_effect env g kind w = (Inr (Some g'), w') \<Longrightarrow> reconciled_state env kind (sg_state g) (sg_state g')"
  unfolding reconciled_state_def using reconcile_cases by blast

lemma reconciled_commit: "reconciled_state env Push_Effect s u \<Longrightarrow> commit_sha u = commit_sha s"
  unfolding reconciled_state_def recorded_state_def intended_state_def by auto

lemma again_cases:
  assumes "finalizer_round env g w = (Inr (Again g'), w')"
  obtains kind w1 where "effect_result kind (sg_state g) = None"
    "kind = Commit_Effect \<or> commit_sha (sg_state g) \<noteq> None"
    "reconcile_local_effect env g kind w1 = (Inr (Some g'), w')"
  | kind w1 where "effect_result kind (sg_state g) = None"
    "kind = Commit_Effect \<or> commit_sha (sg_state g) \<noteq> None" "may_invoke env (sg_state g) (effect_name kind)"
    "invoke_effect env kind g w1 = (Inr g', w')" "effect_result kind (sg_state g') \<noteq> None"
proof -
  obtain kind w1 where k: "local_round env kind g w1 = (Inr (Again g'), w')"
      "effect_result kind (sg_state g) = None" "kind = Commit_Effect \<or> commit_sha (sg_state g) \<noteq> None"
    using assms
    by (auto simp: finalizer_round_def approved_round_def Let_def bind_op_Inr finished_Inr
        split: if_splits option.splits)
  from k(1) show thesis
    by (auto simp: local_round_def bind_op_Inr finished_Inr split: option.splits if_splits intro: that [OF k(2,3)])
qed

lemma round_less:
  assumes "finalizer_round env g w = (Inr (Again g'), w')"
  shows "rounds_left (sg_state g') < rounds_left (sg_state g)"
  using assms
proof (cases rule: again_cases)
  case (1 kind w1)
  show ?thesis
  proof (cases "effect_result kind (sg_state g') = None")
    case True
    with reconcile_less [OF 1(3)] 1(1,2) show ?thesis
      by (cases kind) (auto simp: rounds_left_def)
  next
    case False
    with 1(1,2) reconciled_commit [of env "sg_state g" "sg_state g'"] reconcile_reconciled [OF 1(3)]
      open_work_bound [of Push_Effect "sg_state g'"] show ?thesis
      by (cases kind) (auto simp: rounds_left_def)
  qed
next
  case (2 kind w1)
  with invoked_commit [of env "sg_state g" "sg_state g'"] invoke_invoked [OF 2(4)]
    open_work_bound [of Push_Effect "sg_state g'"] show ?thesis
    by (cases kind) (auto simp: rounds_left_def)
qed

lemma rounds_enough: "rounds_left (sg_state g) \<le> n \<Longrightarrow> advance_rounds n env g w \<noteq> (Inr None, w')"
proof (induction n arbitrary: g w)
  case 0
  then show ?case by (simp add: rounds_left_def split: if_splits)
next
  case (Suc n)
  have "advance_rounds n env g' w1 \<noteq> (Inr None, w')" if "finalizer_round env g w = (Inr (Again g'), w1)" for g' w1
    using round_less [OF that] Suc.prems by (intro Suc.IH) simp
  then show ?case by (auto simp: bind_op_Inr split: round_result.splits)
qed

end
