(* ===== verification/Finalizer_Moves.thy ===== *)
theory Finalizer_Moves
  imports Finalizer_Laws Gateway_Laws
begin

section \<open>The moves of a finalization\<close>

text \<open>
  The abstract specification of the finalizer: one relation on run states, with a rule per
  durable step of a finalization and what allows it, and what every sequence of moves keeps.
  The gateway is the one the finalizer started with: its environment and its authority stay.
\<close>

subsection \<open>What allows a move\<close>

definition position_verified :: "'x finalizer \<Rightarrow> run_state \<Rightarrow> bool" where
  \<comment> \<open>both checks were passed for this state\<close>
  "position_verified env s \<longleftrightarrow> (\<exists>w w'. verified_position env s w = (Inr (), w'))"

definition request_allowed :: "'x finalizer \<Rightarrow> run_state \<Rightarrow> string \<Rightarrow> bool" where
  "request_allowed env s operation \<longleftrightarrow>
     disposition s = ACTIVE
     \<and> (operation = ''query_ticket_projection'' \<and> prefinalization_ticket_projection s = None
        \<or> operation = ''compare_and_complete_ticket'' \<and> may_invoke env s operation
          \<and> linear_done_receipt s = None \<and> commit_sha s \<noteq> None \<and> pushed_sha s \<noteq> None)"

definition trusted_answer :: "linear_gateway \<Rightarrow> run_state \<Rightarrow> pending_request \<Rightarrow> trusted_receipt \<Rightarrow> bool" where
  \<comment> \<open>an authenticated receipt for the request the run waits for\<close>
  "trusted_answer gw s p r \<longleftrightarrow>
     pending_external_request s = Some p \<and> receipt_matches_pending r p (run_id s)
     \<and> signature_matches (se_clock (gateway_env gw)) (lg_authority gw) r"

definition ticket_was_completed :: "'x finalizer \<Rightarrow> trusted_receipt \<Rightarrow> bool" where
  \<comment> \<open>the receipt of a completion that reached the state of the policy\<close>
  "ticket_was_completed env r \<longleftrightarrow>
     tr_operation r = ''compare_and_complete_ticket'' \<and> tr_outcome r = SUCCESS
     \<and> tr_observed_state_id r = lp_completed_state_id (pj_linear (fa_policy (fd_artifacts env)))"

definition ticket_was_unchanged :: "'x finalizer \<Rightarrow> trusted_receipt \<Rightarrow> bool" where
  \<comment> \<open>the receipt of a query that found the ticket as it was reviewed\<close>
  "ticket_was_unchanged env r \<longleftrightarrow>
     tr_operation r = ''query_ticket_projection'' \<and> tr_outcome r = SUCCESS
     \<and> tr_external_revision r = Some (fa_original_revision (fd_artifacts env))
     \<and> tr_observed_state_id r = Some (fa_original_state_id (fd_artifacts env))
     \<and> projection_hash env = Inr (tr_result_hash r)"

abbreviation retry_wait_limit :: "'x finalizer \<Rightarrow> seconds" where
  "retry_wait_limit env \<equiv> of_int (fp_total_retry_wait_seconds (pj_finalization (fa_policy (fd_artifacts env))))"

abbreviation invocation_limit :: "'x finalizer \<Rightarrow> int" where
  "invocation_limit env \<equiv> fp_max_invocations_per_effect (pj_finalization (fa_policy (fd_artifacts env)))"

inductive answer_update :: "'x finalizer \<Rightarrow> linear_gateway \<Rightarrow> trusted_receipt \<Rightarrow> run_state \<Rightarrow> run_state \<Rightarrow> bool"
  for env gw r s where
  Kept: "answer_update env gw r s s"
| Refused: "answer_update env gw r s (normalize (failed_update s))"
| Unchanged: "ticket_was_unchanged env r \<Longrightarrow>
     answer_update env gw r s (normalize (s\<lparr>prefinalization_ticket_projection := Some (tr_result_hash r)\<rparr>))"
| Ticket_Done: "ticket_was_completed env r \<Longrightarrow>
     answer_update env gw r s
       (normalize (s\<lparr>linear_done_receipt := Some (receipt_content_hash (se_clock (gateway_env gw)) r)\<rparr>))"
| Retry: "tr_outcome r \<noteq> SUCCESS \<Longrightarrow> waited \<le> retry_wait_limit env \<Longrightarrow>
     answer_update env gw r s
       (normalize (s\<lparr>finalization_retry_wait_seconds := waited, finalization_next_eligible_at := Some t\<rparr>))"

subsection \<open>The moves\<close>

inductive final_move :: "'x finalizer \<Rightarrow> linear_gateway \<Rightarrow> run_state \<Rightarrow> run_state \<Rightarrow> bool" for env gw s where
  Intended: "effect_result kind s = None \<Longrightarrow> kind = Commit_Effect \<or> commit_sha s \<noteq> None \<Longrightarrow>
     may_invoke env s (effect_name kind) \<Longrightarrow> intended_state x (effect_name kind) target s t \<Longrightarrow>
     final_move env gw s t"
| Reconciling: "effect_result kind s = None \<Longrightarrow> kind = Commit_Effect \<or> commit_sha s \<noteq> None \<Longrightarrow>
     intended_state x (reconciling (effect_name kind)) target s t \<Longrightarrow> final_move env gw s t"
| Recorded: "effect_result kind s = None \<Longrightarrow> kind = Commit_Effect \<or> commit_sha s \<noteq> None \<Longrightarrow>
     recorded_state env kind x s t \<Longrightarrow> final_move env gw s t"
| Failed: "final_move env gw s (normalize (failed_update s))"
| Requested: "request_allowed env s (mr_operation r) \<Longrightarrow>
     final_move env gw s (normalize (s\<lparr>disposition := WAITING_MCP,
       effect_ledger := effect_ledger s @ [intention_of_request r n now],
       pending_external_request := Some (pending_of_request r)\<rparr>))"
| Answered: "trusted_answer gw s p r \<Longrightarrow>
     answer_update env gw r (normalize (answered (gateway_env gw) s r wait)) t \<Longrightarrow> final_move env gw s t"
| Completed: "disposition s = ACTIVE \<Longrightarrow> position_verified env s \<Longrightarrow> evidence_of s = Some e \<Longrightarrow>
     projection_hash env = Inr (fe_prefinalization_ticket_projection e) \<Longrightarrow> final_move env gw s (normalize (done_update e b s))"
| Released: "disposition s = DONE \<Longrightarrow>
     final_move env gw s (normalize (s\<lparr>finalization_index_released := True,
       finalization_index_release_receipt := Some receipt\<rparr>))"

abbreviation moves :: "'x finalizer \<Rightarrow> linear_gateway \<Rightarrow> run_state \<Rightarrow> run_state \<Rightarrow> bool" where
  "moves env gw \<equiv> (final_move env gw)\<^sup>*\<^sup>*"

subsection \<open>What moves keep\<close>

lemma attempts_append: "attempts t operation = attempts s operation + length (filter (intends operation) es)"
  if "effect_ledger t = effect_ledger s @ es"
proof -
  have a: "attempts u operation = length (filter (intends operation) (effect_ledger u))" for u
    unfolding attempts_def by (rule arg_cong [where f = "\<lambda>f. length (filter f _)"])
      (auto simp: intends_def fun_eq_iff split: effect_event.splits)
  show ?thesis by (simp add: a that)
qed

lemma answered_ledger_grows:
  "effect_ledger (answered senv s r wait) = effect_ledger s @ answer_events (se_clock senv)
     (the (pending_external_request s)) (next_sequence (effect_ledger s)) r wait"
  by (simp add: answered_def)

lemma answers_intend [simp]: "filter (intends operation) (answer_events ck p n r wait) = []"
  by (simp add: answer_events_def intends_def)

lemma answer_update_ledger: "answer_update env gw r s t \<Longrightarrow> effect_ledger t = effect_ledger s"
  by (cases rule: answer_update.cases) (auto simp: failed_update_def)

definition is_effect :: "string \<Rightarrow> bool" where
  "is_effect operation \<longleftrightarrow> operation \<in> {''commit'', ''push'', ''compare_and_complete_ticket''}"

lemma reconciling_no_effect: "is_effect operation \<Longrightarrow> reconciling name \<noteq> operation"
  by (auto simp: is_effect_def reconciling_def)

lemma move_attempts:
  assumes "final_move env gw s t" and o: "is_effect operation"
  shows "attempts t operation = attempts s operation
    \<or> (attempts t operation = Suc (attempts s operation) \<and> may_invoke env s operation)"
  using assms(1)
proof (cases rule: final_move.cases)
  case (Intended kind x target)
  then obtain n now where "effect_ledger t = effect_ledger s
      @ [Effect_Intention x n now (local_intention x (effect_name kind) target)]"
    by (auto simp: intended_state_def)
  from attempts_append [OF this, of operation] Intended(3) show ?thesis
    by (simp add: intends_def local_intention_def split: if_splits)
next
  case (Reconciling kind x target)
  then obtain n now where "effect_ledger t = effect_ledger s
      @ [Effect_Intention x n now (local_intention x (reconciling (effect_name kind)) target)]"
    by (auto simp: intended_state_def)
  from attempts_append [OF this, of operation] reconciling_no_effect [OF o] show ?thesis
    by (simp add: intends_def local_intention_def)
next
  case (Recorded kind x)
  from recorded_ledger [OF Recorded(3)] attempts_append show ?thesis by fastforce
next
  case (Requested r n now)
  then have "effect_ledger t = effect_ledger s @ [intention_of_request r n now]" by simp
  from attempts_append [OF this, of operation] Requested(2) o show ?thesis
    by (auto simp: intends_def intention_of_request_def request_allowed_def is_effect_def)
next
  case (Answered p r wait)
  from answer_update_ledger [OF Answered(2)] have "effect_ledger t = effect_ledger s
      @ answer_events (se_clock (gateway_env gw)) (the (pending_external_request s))
          (next_sequence (effect_ledger s)) r wait"
    by (simp add: answered_ledger_grows)
  from attempts_append [OF this, of operation] show ?thesis by simp
qed (auto simp: attempts_def failed_update_def done_update_def)

lemma moves_attempts:
  assumes "moves env gw s t" and "is_effect operation" and "int (attempts s operation) \<le> invocation_limit env"
  shows "int (attempts t operation) \<le> invocation_limit env"
  using assms(1,3)
proof (induction rule: rtranclp_induct)
  case (step t u)
  then show ?case using move_attempts [OF step(2) assms(2)] by (auto simp: may_invoke_def)
qed simp

end
