(* ===== verification/Finalizer_Steps.thy ===== *)
theory Finalizer_Steps
  imports Finalizer_Moves
begin

section \<open>Every step of the finalizer is a move\<close>

text \<open>
  The refinement of the moves by the operations: the judgement \<open>post_op (on_track \<dots>)\<close> says of
  an operation that, whatever it returns or raises, the store still holds a run that moves lead
  to from the run at the start.  One lemma per operation, in the order of the code.
\<close>

definition on_track :: "'x finalizer \<Rightarrow> linear_gateway \<Rightarrow> run_state \<Rightarrow> 'x finalizer_world \<Rightarrow> bool" where
  "on_track env gw s0 w \<longleftrightarrow>
     listing_ok (fz_store w) \<and> faithful (gateway_env gw)
     \<and> gateway_env (fz_gateway w) = gateway_env gw \<and> lg_authority (fz_gateway w) = lg_authority gw
     \<and> (\<exists>p. load (fz_store w) = Inr p \<and> moves env gw s0 (sg_state p))"

abbreviation reached :: "'x finalizer \<Rightarrow> linear_gateway \<Rightarrow> run_state \<Rightarrow> state_generation \<Rightarrow> bool" where
  "reached env gw s0 g \<equiv> moves env gw s0 (sg_state g)"

subsection \<open>Swapping and the operations around it\<close>

lemma on_track_frame: "fz_gateway w' = fz_gateway w \<Longrightarrow> on_track env gw s0 w \<Longrightarrow> on_track env gw s0 w'"
  by (simp add: on_track_def)

lemma swapped_on_track:
  assumes "on_track env gw s0 w" and "run_inv (clean_of (rs_env (fz_store w))) s"
    and "compare_and_swap (fz_store w) r h s = Inr (g', st)" and "moves env gw s0 s"
    and "fz_gateway w' = (fz_gateway w)\<lparr>lg_store := st\<rparr>"
  shows "on_track env gw s0 w' \<and> sg_state g' = s"
proof -
  have "dump_ok (rs_env (fz_store w)) s" 
    using assms(1,2) unfolding on_track_def faithful_def by metis
  from swapped_loads [OF _ assms(3,2) this] assms show ?thesis
    by (auto simp: on_track_def same_rest_def)
qed

lemma swap_state_gateway:
  "swap_state g s w = (Inr g', w') \<Longrightarrow> fz_gateway w' = (fz_gateway w)\<lparr>lg_store := fz_store w'\<rparr>"
  unfolding swap_state_def
  by (cases "compare_and_swap (fz_store w) (sg_revision g) (sg_state_hash g) s") (auto split: prod.split_asm)

lemma update_post:
  assumes "reached env gw s0 g" and "final_move env gw (sg_state g) (normalize (u (sg_state g)))"
  shows "post_op (on_track env gw s0) (update_state g u)
    (\<lambda>g'. reached env gw s0 g' \<and> sg_state g' = normalize (u (sg_state g)))"
  unfolding post_op_def
proof (intro allI impI, elim conjE)
  fix w r w'
  assume w: "on_track env gw s0 w" and m: "update_state g u w = (r, w')"
  have moved: "moves env gw s0 (normalize (u (sg_state g)))"
    using assms by (rule rtranclp.rtrancl_into_rtrancl)
  show "on_track env gw s0 w'
    \<and> (\<forall>x. r = Inr x \<longrightarrow> reached env gw s0 x \<and> sg_state x = normalize (u (sg_state g)))"
  proof (cases r)
    case (Inl e)
    then have "w' = w"
      using m by (auto simp: update_state_def bind_op_def copy_state_def with_store_def result_op_def reading_def
          swap_state_def split: sum.splits prod.splits)
    with w Inl show ?thesis by simp
  next
    case (Inr g')
    with m have m': "update_state g u w = (Inr g', w')" by simp
    then have gw: "fz_gateway w' = (fz_gateway w)\<lparr>lg_store := fz_store w'\<rparr>"
      by (auto simp: update_state_def bind_op_Inr copy_state_Inr dest!: swap_state_gateway)
    note i = update_state_Inr [OF m']
    have "on_track env gw s0 w' \<and> sg_state g' = normalize (u (sg_state g))"
      using swapped_on_track [OF w i(2) i(4) _ gw] moved i(1) by simp
    with moved Inr show ?thesis by simp
  qed
qed

lemma outside_keeps [op_rules]: "keeps_op (on_track env gw s0) (outside err m)"
  unfolding keeps_op_def outside_def by (auto intro: on_track_frame split: prod.splits)

lemma tick_keeps [op_rules]: "keeps_op (on_track env gw s0) tick"
  unfolding keeps_op_def tick_def by (auto intro: on_track_frame)

lemma with_store_keeps [op_rules]: "(\<And>st. keeps_op P (f st)) \<Longrightarrow> keeps_op P (with_store f)"
  unfolding keeps_op_def with_store_def by blast

lemma post_op_ran: "keeps_op P m \<Longrightarrow> post_op P m (\<lambda>x. \<exists>w w'. m w = (Inr x, w'))"
  unfolding post_op_def keeps_op_def by (metis snd_conv)

lemma post_op_kept: "keeps_op P m \<Longrightarrow> post_op P m (\<lambda>_. True)"
  unfolding post_op_def keeps_op_def by (metis snd_conv)

lemma post_op_after: "keeps_op P m \<Longrightarrow> (\<And>x. post_op P (f x) Q) \<Longrightarrow> post_op P (bind_op m f) Q"
  by (rule post_op_bind [OF post_op_kept])

lemmas tick_post [post_rules] = post_op_after [OF tick_keeps]

lemma attempt_post:
  "post_op P m Q \<Longrightarrow> post_op P (attempt m) (\<lambda>r. \<forall>x. r = Some x \<longrightarrow> Q x)"
  unfolding post_op_def
proof (intro allI impI, elim conjE)
  fix w r w'
  assume m: "\<forall>w r w'. P w \<and> m w = (r, w') \<longrightarrow> P w' \<and> (\<forall>x. r = Inr x \<longrightarrow> Q x)"
    and w: "P w" "attempt m w = (r, w')"
  obtain q w1 where q: "m w = (q, w1)" by fastforce
  with m w(1) have "P w1" "\<And>x. q = Inr x \<Longrightarrow> Q x" by blast+
  with q w(2) show "P w' \<and> (\<forall>x. r = Inr x \<longrightarrow> (\<forall>y. x = Some y \<longrightarrow> Q y))"
    by (cases q) (auto simp: attempt_def)
qed

lemma attempt_cases:
  assumes "post_op P m Q" and "post_op P n R" and "\<And>x. Q x \<Longrightarrow> post_op P (f x) R"
  shows "post_op P (bind_op (attempt m) (\<lambda>r. case r of None \<Rightarrow> n | Some x \<Rightarrow> f x)) R"
  by (rule post_op_bind [OF attempt_post [OF assms(1)]]) (auto intro: post_op_option assms(2,3))

lemma or_else_post: "post_op P m Q \<Longrightarrow> post_op P h Q \<Longrightarrow> post_op P (or_else m h) Q"
  unfolding or_else_def by (rule attempt_cases [where Q = Q]) (simp_all add: post_op_return)

lemma verify_approval_keeps [op_rules]: "keeps_op P (verify_approval env s)"
  unfolding verify_approval_def by (intro op_rules)

lemma verify_git_position_keeps [op_rules]: "keeps_op (on_track env gw s0) (verify_git_position env s)"
  unfolding verify_git_position_def reconcile_commit_op_def reconcile_push_op_def by (intro op_rules)

lemma verified_position_keeps [op_rules]: "keeps_op (on_track env gw s0) (verified_position env s)"
  unfolding verified_position_def by (intro op_rules)

lemma index_lookup_keeps [op_rules]: "keeps_op (on_track env gw s0) (index_lookup env s)"
  unfolding index_lookup_def by (intro op_rules)

lemma active_release_binding_keeps [op_rules]: "keeps_op (on_track env gw s0) (active_release_binding env s)"
  unfolding active_release_binding_def by (intro op_rules)

lemma step_outcome_keeps [op_rules]: "keeps_op P (step_outcome kind g failure)"
  unfolding step_outcome_def by (intro op_rules)

lemma action_outcome_keeps [op_rules]: "keeps_op P (action_outcome g r)"
  unfolding action_outcome_def by (intro op_rules)

subsection \<open>Effects on the repository\<close>

definition work_open :: "local_effect \<Rightarrow> run_state \<Rightarrow> bool" where
  \<comment> \<open>the effect is the next one and has no result yet\<close>
  "work_open kind s \<longleftrightarrow> effect_result kind s = None \<and> (kind = Commit_Effect \<or> commit_sha s \<noteq> None)"

lemma work_open_intended: "intended_state x operation target s t \<Longrightarrow> work_open kind s \<Longrightarrow> work_open kind t"
  using intended_results [of x operation target s t] by (cases kind) (simp_all add: work_open_def)

lemma intend_post:
  assumes "reached env gw s0 g"
    and "\<And>x t. intended_state x operation target (sg_state g) t \<Longrightarrow> final_move env gw (sg_state g) t"
  shows "post_op (on_track env gw s0) (intend env g operation target)
    (\<lambda>r. case r of (g', x) \<Rightarrow> reached env gw s0 g' \<and> intended_state x operation target (sg_state g) (sg_state g'))"
proof -
  have move: "final_move env gw (sg_state g)
      (normalize (append_events [Effect_Intention x n now (local_intention x operation target)] (sg_state g)))"
    for x n now by (rule assms(2)) (auto simp: intended_state_def)
  note update = post_op_bind [OF update_post [where u = "append_events [e]" for e, OF assms(1)]]
  show ?thesis
    unfolding intend_def Let_def by (intro post_rules update move) (auto simp: intended_state_def)
qed

lemma record_post:
  assumes "reached env gw s0 g" and "work_open kind (sg_state g)"
    and "u = id \<or> (\<exists>c. u = set_result kind c \<and> git_showed env kind (sg_state g) c)"
  shows "post_op (on_track env gw s0) (record_local_result env g x outcome revision u) (reached env gw s0)"
proof -
  have "recorded_state env kind x (sg_state g)
      (normalize (append_events (result_events x n now outcome revision) (u (sg_state g))))" for n now
    unfolding recorded_state_def using assms(3) by blast
  then have "final_move env gw (sg_state g)
      (normalize (append_events (result_events x n now outcome revision) (u (sg_state g))))" for n now
    using assms(2) unfolding work_open_def by (metis final_move.Recorded)
  then show ?thesis
    unfolding record_local_result_def Let_def
    by (intro post_rules post_op_mono [OF update_post [OF assms(1)]]) auto
qed

lemma outside_post:
  "post_op (on_track env gw s0) (outside err m) (\<lambda>r. \<exists>x x'. m x = (Inr r, x'))"
  by (rule post_op_mono [OF post_op_ran [OF outside_keeps]]) (auto simp: outside_Inr)

lemma observe_post:
  assumes "reached env gw s0 g" and "work_open kind (sg_state g)"
  shows "post_op (on_track env gw s0) (observe_local_effect env g x kind) (reached env gw s0)"
proof (cases kind)
  case Commit_Effect
  show ?thesis
    unfolding observe_local_effect_def Commit_Effect local_effect.case reconcile_commit_op_def
    by (intro post_op_bind [OF outside_post] post_rules record_post [OF assms(1)])
      (use assms(2) Commit_Effect in auto)
next
  case Push_Effect
  show ?thesis
    unfolding observe_local_effect_def Push_Effect local_effect.case reconcile_push_op_def
    by (intro post_op_bind [OF outside_post] post_rules record_post [OF assms(1), of Push_Effect])
      (use assms(2) Push_Effect in \<open>auto simp: work_open_def\<close>)
qed

lemma reconcile_post:
  assumes "reached env gw s0 g" and "work_open kind (sg_state g)"
  shows "post_op (on_track env gw s0) (reconcile_local_effect env g kind)
    (\<lambda>r. \<forall>g'. r = Some g' \<longrightarrow> reached env gw s0 g')"
proof -
  have i: "post_op (on_track env gw s0) (intend env g (reconciling (effect_name kind)) target)
    (\<lambda>r. case r of (g', x) \<Rightarrow> reached env gw s0 g' \<and> work_open kind (sg_state g'))" for target
    by (rule post_op_mono [OF intend_post [OF assms(1)]])
      (use assms(2) in \<open>auto simp: work_open_def intro: final_move.Reconciling dest: work_open_intended [unfolded work_open_def]\<close>)
  show ?thesis
    unfolding reconcile_local_effect_def Let_def
    by (intro post_op_after [OF keeps_op_result] post_op_pair post_rules post_op_bind [OF observe_post]
        post_op_bind [OF i]) (use assms in auto)
qed

lemma intend_effect_post:
  assumes "reached env gw s0 g" and "work_open kind (sg_state g)" and "may_invoke env (sg_state g) (effect_name kind)"
  shows "post_op (on_track env gw s0) (intend env g (effect_name kind) target)
    (\<lambda>r. case r of (g', x) \<Rightarrow> reached env gw s0 g' \<and> work_open kind (sg_state g')
       \<and> commit_sha (sg_state g') = commit_sha (sg_state g))"
  by (rule post_op_mono [OF intend_post [OF assms(1)]])
    (use assms(2,3) in \<open>auto simp: work_open_def intro: final_move.Intended dest: intended_results
       work_open_intended [unfolded work_open_def]\<close>)

lemma invoke_post:
  assumes "reached env gw s0 g" and "work_open kind (sg_state g)" and "may_invoke env (sg_state g) (effect_name kind)"
  shows "post_op (on_track env gw s0) (invoke_effect env kind g) (reached env gw s0)"
proof (cases kind)
  case Commit_Effect
  note i = intend_effect_post [OF assms [unfolded Commit_Effect], unfolded effect_name.simps]
  show ?thesis
    unfolding Commit_Effect invoke_effect.simps invoke_commit_def Let_def
    by (intro post_op_bind [OF i] post_op_pair or_else_post post_op_bind [OF outside_post] post_rules
        record_post [of _ _ _ _ Commit_Effect]) auto
next
  case Push_Effect
  note i = intend_effect_post [OF assms [unfolded Push_Effect], unfolded effect_name.simps]
  obtain c where "commit_sha (sg_state g) = Some c" using assms(2) Push_Effect by (auto simp: work_open_def)
  then show ?thesis
    unfolding Push_Effect invoke_effect.simps invoke_push_def Let_def
    by (intro post_op_bind [OF i] post_op_pair or_else_post post_op_bind [OF outside_post] post_rules
        record_post [of _ _ _ _ Push_Effect]) (auto simp: set_pushed work_open_def)
qed

subsection \<open>Results and the release of the run index\<close>

lemma store_failure_post:
  "reached env gw s0 g \<Longrightarrow> post_op (on_track env gw s0) (store_failure g) (\<lambda>_. True)"
  unfolding store_failure_def
  by (intro post_op_bind [OF update_post] final_move.Failed post_op_kept op_rules)

lemma mark_released_post:
  "reached env gw s0 g \<Longrightarrow> disposition (sg_state g) = DONE \<Longrightarrow>
   post_op (on_track env gw s0) (mark_released g receipt) (\<lambda>_. True)"
  unfolding mark_released_def by (intro post_op_mono [OF update_post] final_move.Released) simp_all

lemma reconcile_released_post:
  "reached env gw s0 g \<Longrightarrow> post_op (on_track env gw s0) (reconcile_released_index env g) (\<lambda>_. True)"
  unfolding reconcile_released_index_def Let_def
  by (intro post_rules post_op_after [OF with_store_keeps [OF outside_keeps]] mark_released_post)

lemma release_post:
  "reached env gw s0 g \<Longrightarrow> disposition (sg_state g) = DONE \<Longrightarrow>
   post_op (on_track env gw s0) (release_active_run env g) (\<lambda>_. True)"
  unfolding release_active_run_def Let_def
  by (intro post_op_after [OF index_lookup_keeps] post_rules reconcile_released_post
      post_op_after [OF with_store_keeps [OF outside_keeps]] mark_released_post
      attempt_cases [OF post_op_kept [OF with_store_keeps [OF outside_keeps]]])

lemma gated_post:
  "reached env gw s0 g \<Longrightarrow> post_op (on_track env gw s0) (final_gated_result env g) (\<lambda>_. True)"
  unfolding final_gated_result_def Let_def
  by (intro post_rules attempt_cases [OF release_post] store_failure_post post_op_kept op_rules)

lemma human_review_post:
  "reached env gw s0 g \<Longrightarrow> post_op (on_track env gw s0) (final_human_review env g) (\<lambda>_. True)"
  unfolding final_human_review_def by (intro post_rules gated_post store_failure_post)

lemma pending_post:
  "reached env gw s0 g \<Longrightarrow> post_op (on_track env gw s0) (final_pending_result env g) (\<lambda>_. True)"
  unfolding final_pending_result_def
  by (intro post_op_after [OF keeps_op_reading] post_rules human_review_post post_op_kept action_outcome_keeps)

lemma evidence_projection:
  "evidence_of s = Some e \<Longrightarrow> prefinalization_ticket_projection s = Some (fe_prefinalization_ticket_projection e)"
  by (auto simp: evidence_of_def Let_def split: option.splits if_splits)

lemma complete_run_post:
  assumes "reached env gw s0 g" and "disposition (sg_state g) = ACTIVE"
    and "prefinalization_ticket_projection (sg_state g) = Some h" and "projection_hash env = Inr h"
  shows "post_op (on_track env gw s0) (complete_run env g) (\<lambda>_. True)"
proof -
  have p: "post_op (on_track env gw s0) (verified_position env (sg_state g)) (\<lambda>_. position_verified env (sg_state g))"
    unfolding position_verified_def by (rule post_op_mono [OF post_op_ran [OF verified_position_keeps]]) simp
  note d = post_op_bind [OF update_post [where u = "done_update e b" for e b, OF assms(1)]]
  show ?thesis
    unfolding complete_run_def Let_def
    by (intro attempt_cases [OF p] post_rules attempt_cases [OF post_op_kept [OF active_release_binding_keeps]] d
        attempt_cases [OF release_post] final_move.Completed human_review_post post_op_kept step_outcome_keeps)
      (use assms in \<open>auto simp: done_update_def dest: evidence_projection\<close>)
qed

subsection \<open>Requests\<close>

lemma request_operation:
  assumes "request_action gw g ids operation entity target revision arguments = Inr r"
  shows "mr_operation r = operation"
  using assms
  by (auto simp: request_action_def mcp_request_create_def Let_def mcp_request_normal_def
      dest!: checked_request(1) split: if_splits)

lemma settled_on_track:
  \<comment> \<open>a swap, or the generation that won the race\<close>
  assumes "on_track env gw s0 w" and "run_inv (clean_of (gateway_env (fz_gateway w))) t" and "moves env gw s0 t"
    and "swap_or_settle (fz_gateway w) g t settled = Inr (g', gw')"
  shows "on_track env gw s0 (w\<lparr>fz_gateway := gw'\<rparr>) \<and> reached env gw s0 g'"
proof (cases rule: disjE [OF swap_or_settle_cases [OF assms(4)]])
  case 1
  then obtain st where st: "compare_and_swap (fz_store w) (sg_revision g) (sg_state_hash g) t = Inr (g', st)"
      "gw' = (fz_gateway w)\<lparr>lg_store := st\<rparr>" by blast
  from swapped_on_track [OF assms(1,2) st(1) assms(3), of "w\<lparr>fz_gateway := gw'\<rparr>"] st(2) assms(3)
  show ?thesis by simp
next
  case 2
  with assms(1) show ?thesis by (auto simp: on_track_def)
qed

lemma persist_post:
  assumes "reached env gw s0 g" and "request_allowed env (sg_state g) (mr_operation r)"
  shows "post_op (on_track env gw s0) (persist_request env g r) (reached env gw s0)"
proof -
  have swapped: "on_track env gw s0 (w\<lparr>fz_gateway := gw'\<rparr>) \<and> reached env gw s0 g'"
    if w: "on_track env gw s0 w" and p: "persist_pending (fz_gateway w) g r now None = Inr (g', gw')" for w now g' gw'
  proof (cases "pending_external_request (sg_state g)")
    case None
    show ?thesis
    proof (rule persist_parts [OF p None])
      fix snapshot s t
      assume a: "mcp_request_validate (clean_of (gateway_env (fz_gateway w))) r = Inr snapshot"
        "apply_update None s r = Inr t"
        and s: "model_copy (clean_of (gateway_env (fz_gateway w)))
          (\<lambda>s. s\<lparr>disposition := WAITING_MCP,
              effect_ledger := effect_ledger s
                @ [intention_of_request snapshot (next_sequence (effect_ledger (sg_state g))) now],
              pending_external_request := Some (pending_of_request snapshot)\<rparr>) (sg_state g) = Inr s"
        and c: "swap_or_settle (fz_gateway w) g t (\<lambda>current.
           opt_all (\<lambda>p. pending_matches p snapshot) (pending_external_request (sg_state current))
           \<and> pending_external_request (sg_state current) \<noteq> None) = Inr (g', gw')"
      have o: "mr_operation snapshot = mr_operation r"
        using checked_request(1) [OF a(1)] by (simp add: mcp_request_normal_def)
      have "final_move env gw (sg_state g) s"
        unfolding copied_normal [OF s] by (rule final_move.Requested) (simp add: o assms(2))
      then have "moves env gw s0 t" "run_inv (clean_of (gateway_env (fz_gateway w))) t"
        using assms(1) model_copy_inv [OF s] a(2)
        by (auto simp: apply_update_def intro: rtranclp.rtrancl_into_rtrancl)
      from settled_on_track [OF w this(2,1) c] show ?thesis .
    qed
  next
    case (Some q)
    with p have "g' = g" "gw' = fz_gateway w"
      by (auto simp: persist_pending_def bind_result_Inr split: if_splits)
    with w assms(1) show ?thesis by simp
  qed
  show ?thesis
    unfolding persist_request_def
  proof (rule tick_post)
    fix m
    show "post_op (on_track env gw s0) (\<lambda>w. case persist_pending (fz_gateway w) g r (fd_now env m) None of
         Inl e \<Rightarrow> (Inl (Fz_Gateway e), w) | Inr (g', gw) \<Rightarrow> (Inr g', w\<lparr>fz_gateway := gw\<rparr>))
       (reached env gw s0)"
      unfolding post_op_def
    proof (intro allI impI, elim conjE)
      fix w x w'
      assume w: "on_track env gw s0 w"
        and m: "(case persist_pending (fz_gateway w) g r (fd_now env m) None of
         Inl e \<Rightarrow> (Inl (Fz_Gateway e), w) | Inr (g', gw) \<Rightarrow> (Inr g', w\<lparr>fz_gateway := gw\<rparr>)) = (x, w')"
      show "on_track env gw s0 w' \<and> (\<forall>g'. x = Inr g' \<longrightarrow> reached env gw s0 g')"
      proof (cases "persist_pending (fz_gateway w) g r (fd_now env m) None")
        case (Inr q)
        then obtain g' gw' where q: "persist_pending (fz_gateway w) g r (fd_now env m) None = Inr (g', gw')"
          by (cases q) simp
        with swapped [OF w q] m show ?thesis by auto
      qed (use m w in auto)
    qed
  qed
qed

lemma request_step_post:
  assumes "reached env gw s0 g"
    and "\<And>gw' ids r. build gw' ids = Inr r \<Longrightarrow> request_allowed env (sg_state g) (mr_operation r)"
  shows "post_op (on_track env gw s0) (request_step env g build) (\<lambda>_. True)"
proof -
  have r: "post_op P (reading (\<lambda>w. map_sum Fz_Gateway id (build (fz_gateway w) ids)))
      (\<lambda>r. request_allowed env (sg_state g) (mr_operation r))" for P ids
    by (rule post_op_reading) (use assms(2) in auto)
  show ?thesis
    unfolding request_step_def
    by (intro tick_post post_op_bind [OF r] post_op_bind [OF persist_post [OF assms(1)]] post_op_kept action_outcome_keeps)
qed

subsection \<open>Rounds\<close>

lemma finished_post:
  "post_op P m Q \<Longrightarrow> post_op P (finished m) (\<lambda>r. \<forall>g'. r = Again g' \<longrightarrow> R g')"
  unfolding finished_def by (rule post_op_bind, assumption) (simp add: post_op_return)

lemma local_round_post:
  assumes "reached env gw s0 g" and "work_open kind (sg_state g)"
  shows "post_op (on_track env gw s0) (local_round env kind g) (\<lambda>r. \<forall>g'. r = Again g' \<longrightarrow> reached env gw s0 g')"
  unfolding local_round_def
  by (intro post_op_bind [OF reconcile_post [OF assms]] post_rules post_op_bind [OF invoke_post [OF assms]]
      finished_post [OF human_review_post [OF assms(1)]] finished_post [OF post_op_kept [OF step_outcome_keeps]]) auto

lemma approved_round_post:
  assumes "reached env gw s0 g" and "disposition (sg_state g) = ACTIVE"
  shows "post_op (on_track env gw s0) (approved_round env g) (\<lambda>r. \<forall>g'. r = Again g' \<longrightarrow> reached env gw s0 g')"
proof -
  have projection: "post_op (on_track env gw s0) (request_projection_step env g) (\<lambda>_. True)"
    if "prefinalization_ticket_projection (sg_state g) = None"
    unfolding request_projection_step_def Let_def request_ticket_projection_def
    by (rule request_step_post [OF assms(1)]) (use that assms(2) in \<open>auto simp: request_allowed_def dest!: request_operation\<close>)
  have completion: "post_op (on_track env gw s0) (request_completion_step env g) (\<lambda>_. True)"
    if "may_invoke env (sg_state g) ''compare_and_complete_ticket''" "linear_done_receipt (sg_state g) = None"
      "commit_sha (sg_state g) \<noteq> None" "pushed_sha (sg_state g) \<noteq> None"
    unfolding request_completion_step_def Let_def
    by (rule request_step_post [OF assms(1)]) (use that assms(2) in \<open>auto simp: request_allowed_def dest!: request_operation\<close>)
  have hash: "post_op P (result_op (projection_hash env)) (\<lambda>h. projection_hash env = Inr h)" for P
    by (rule post_op_result)
  note finish = finished_post [where Q = "\<lambda>_. True"]
  show ?thesis
    unfolding approved_round_def Let_def
    by (intro post_rules finish projection completion post_op_bind [OF hash] human_review_post
        attempt_cases [OF post_op_kept [OF verify_git_position_keeps]] local_round_post complete_run_post)
      (use assms in \<open>auto simp: work_open_def\<close>)
qed

lemma must_wait_keeps [op_rules]: "keeps_op (on_track env gw s0) (must_wait env s)"
  unfolding must_wait_def by (intro op_rules)

lemma round_post:
  assumes "reached env gw s0 g"
  shows "post_op (on_track env gw s0) (finalizer_round env g) (\<lambda>r. \<forall>g'. r = Again g' \<longrightarrow> reached env gw s0 g')"
proof -
  note finish = finished_post [where Q = "\<lambda>_. True"]
  show ?thesis
    unfolding finalizer_round_def Let_def
    by (intro post_rules finish pending_post gated_post human_review_post post_op_after [OF must_wait_keeps]
        post_op_kept [OF step_outcome_keeps] approved_round_post attempt_cases [OF post_op_kept [OF verify_approval_keeps]])
      (use assms in auto)
qed

lemma post_op_round:
  "(\<And>x. r = Returned x \<Longrightarrow> post_op P (f x) Q) \<Longrightarrow> (\<And>g. r = Again g \<Longrightarrow> post_op P (h g) Q) \<Longrightarrow>
   post_op P (case r of Returned x \<Rightarrow> f x | Again g \<Rightarrow> h g) Q"
  by (cases r) auto

lemma rounds_post: "reached env gw s0 g \<Longrightarrow> post_op (on_track env gw s0) (advance_rounds n env g) (\<lambda>_. True)"
proof (induction n arbitrary: g)
  case 0
  show ?case by (simp add: post_op_return)
next
  case (Suc n)
  then show ?case
    unfolding advance_rounds.simps
    by (intro post_op_bind [OF round_post] post_op_round post_op_return) auto
qed

lemma require_generation_Inr:
  "require_generation g w = (Inr (), w') \<longleftrightarrow>
     w' = w \<and> run_id (sg_state g) = rs_run_id (fz_store w) \<and> load (fz_store w) = Inr g"
  by (auto simp: require_generation_def bind_op_Inr map_sum_Inr split: if_splits)

lemma require_generation_keeps [op_rules]: "keeps_op P (require_generation g)"
  unfolding require_generation_def by (intro op_rules)

lemma require_generation_post:
  "post_op (on_track env gw s0) (require_generation g) (\<lambda>_. reached env gw s0 g)"
proof -
  have "post_op (on_track env gw s0) (require_generation g)
      (\<lambda>_. \<exists>w w'. on_track env gw s0 w \<and> require_generation g w = (Inr (), w'))"
    unfolding post_op_def using keeps_opD [OF require_generation_keeps] by (metis old.unit.exhaust snd_conv)
  then show ?thesis
    by (rule post_op_mono) (auto simp: require_generation_Inr on_track_def)
qed

lemma advance_post: "post_op (on_track env gw s0) (advance n env g) (\<lambda>_. True)"
  unfolding advance_def by (intro post_op_bind [OF require_generation_post] rounds_post)

subsection \<open>Receipts\<close>

lemma receipt_update_Some:
  assumes "receipt_update env (gateway_env gw) p wait s r = Some t" and "tr_operation r = pr_operation p"
    and "run_inv (clean_of (gateway_env gw)) s"
  shows "answer_update env gw r s t \<and> run_inv (clean_of (gateway_env gw)) t"
proof -
  have copied: "t = normalize (u s) \<and> run_inv (clean_of (gateway_env gw)) t"
    if "model_copy (clean_of (gateway_env gw)) u s = Inr t" for u
    using copied_normal [OF that] model_copy_inv [OF that] by simp
  from assms show ?thesis
    unfolding receipt_update_def Let_def
    by (auto split: if_splits sum.splits dest!: copied simp: ticket_was_unchanged_def ticket_was_completed_def
        intro: answer_update.intros)
qed

lemma consumed_on_track:
  assumes w: "on_track env gw s0 w"
    and c: "consume_receipt (fz_gateway w) g r update wait = Inr (g', gw')"
    and u: "update = None \<or> (\<exists>p. pending_external_request (sg_state g) = Some p
      \<and> update = Some (receipt_update env (rs_env (fz_store w)) p wait))"
  shows "on_track env gw s0 (w\<lparr>fz_gateway := gw'\<rparr>) \<and> reached env gw s0 g'"
  using c
proof (cases rule: consume_parts)
  case recorded
  with w show ?thesis by (auto simp: on_track_def)
next
  case (swapped p s t)
  have senv: "gateway_env (fz_gateway w) = gateway_env gw" "lg_authority (fz_gateway w) = lg_authority gw"
    and g: "reached env gw s0 g"
    using w swapped(3) by (simp_all add: on_track_def)
  have trusted: "trusted_answer gw (sg_state g) p r"
    using swapped(4,5) load_trusted_Some(3) [OF swapped(1)] senv by (simp add: trusted_answer_def)
  note s = copied_normal [OF swapped(6)] model_copy_inv [OF swapped(6)]
  have "answer_update env gw r s t \<and> run_inv (clean_of (gateway_env gw)) t"
  proof (cases update)
    case None
    with swapped(7) s(2) senv show ?thesis by (auto simp: apply_update_def intro: answer_update.Kept)
  next
    case (Some f)
    then have f: "f = receipt_update env (gateway_env gw) p wait" using u swapped(4) senv by auto
    have "f s r = Some t" using swapped(7) Some by (auto simp: apply_update_def split: option.splits if_splits)
    with f s(2) senv swapped(5) show ?thesis
      by (intro receipt_update_Some) (auto simp: receipt_matches_pending_def)
  qed
  then have t: "final_move env gw (sg_state g) t" "run_inv (clean_of (gateway_env (fz_gateway w))) t"
    using final_move.Answered [OF trusted] senv s(1) by auto
  with settled_on_track [OF w t(2) _ swapped(8)] g show ?thesis by (simp add: rtranclp.rtrancl_into_rtrancl)
qed

lemma consume_post:
  assumes "\<And>w. on_track env gw s0 w \<Longrightarrow> update = None \<or> (\<exists>p. pending_external_request (sg_state g) = Some p
      \<and> update = Some (receipt_update env (rs_env (fz_store w)) p wait))"
  shows "post_op (on_track env gw s0) (consume_op g r update wait) (reached env gw s0)"
  unfolding post_op_def
proof (intro allI impI, elim conjE)
  fix w x w'
  assume w: "on_track env gw s0 w" and m: "consume_op g r update wait w = (x, w')"
  show "on_track env gw s0 w' \<and> (\<forall>g'. x = Inr g' \<longrightarrow> reached env gw s0 g')"
  proof (cases "consume_receipt (fz_gateway w) g r update wait")
    case (Inr q)
    then obtain g' gw' where q: "consume_receipt (fz_gateway w) g r update wait = Inr (g', gw')" by (cases q) simp
    with consumed_on_track [OF w q assms [OF w]] m show ?thesis by (auto simp: consume_op_def)
  qed (use m w in \<open>auto simp: consume_op_def\<close>)
qed

lemma with_store_post:
  assumes "\<And>st. rs_env st = gateway_env gw \<Longrightarrow> post_op (on_track env gw s0) (f st) Q"
  shows "post_op (on_track env gw s0) (with_store f) Q"
  using assms unfolding post_op_def with_store_def on_track_def by blast

lemma accept_post: "post_op (on_track env gw s0) (accept_trusted_receipt env g r) (reached env gw s0)"
  unfolding accept_trusted_receipt_def Let_def
  by (intro post_op_bind [OF require_generation_post] post_rules consume_post with_store_post
      post_op_after [OF verify_approval_keeps]) (auto simp: on_track_def)

subsection \<open>The refinement\<close>

lemma starts_on_track:
  assumes "listing_ok (fz_store w)" and "faithful (rs_env (fz_store w))" and "load (fz_store w) = Inr p"
  shows "on_track env (fz_gateway w) (sg_state p) w"
  using assms by (simp add: on_track_def)

lemma track_refines:
  assumes "post_op (on_track env (fz_gateway w) (sg_state p)) m Q"
    and "listing_ok (fz_store w)" and "faithful (rs_env (fz_store w))" and "load (fz_store w) = Inr p"
    and "m w = (r, w')"
  shows "\<exists>q. load (fz_store w') = Inr q \<and> moves env (fz_gateway w) (sg_state p) (sg_state q)"
  using post_opD [OF assms(1) starts_on_track [OF assms(2-4)] assms(5)] by (simp add: on_track_def)

lemmas advance_refines = track_refines [OF advance_post]
lemmas accept_refines = track_refines [OF accept_post]

end
