(* ===== verification/Finalizer_History.thy ===== *)
theory Finalizer_History
  imports Finalizer_Steps Git_History
begin

section \<open>A finalization from its start\<close>

text \<open>
  Every sequence of calls of the finalizer on one run, with whatever the rest of the world does
  in between, follows the moves; and what the moves keep: the budgets of the effects, where the
  recorded results come from, and what holds of a run that became DONE.  The Git guard is put in
  the place of the capability.
\<close>

subsection \<open>Calls of the finalizer\<close>

definition same_run :: "'x finalizer_world \<Rightarrow> 'x finalizer_world \<Rightarrow> bool" where
  \<comment> \<open>the rest of the world may change, the stored run and the gateway stay\<close>
  "same_run w v \<longleftrightarrow>
     load (fz_store v) = load (fz_store w) \<and> listing_ok (fz_store v)
     \<and> gateway_env (fz_gateway v) = gateway_env (fz_gateway w)
     \<and> lg_authority (fz_gateway v) = lg_authority (fz_gateway w)"

inductive finalization :: "'x finalizer \<Rightarrow> 'x finalizer_world \<Rightarrow> 'x finalizer_world \<Rightarrow> bool" for env w where
  Start: "finalization env w w"
| Advance: "finalization env w v \<Longrightarrow> advance n env g v = (r, v') \<Longrightarrow> finalization env w v'"
| Accept: "finalization env w v \<Longrightarrow> accept_trusted_receipt env g receipt v = (r', v') \<Longrightarrow> finalization env w v'"
| Elsewhere: "finalization env w v \<Longrightarrow> same_run v v' \<Longrightarrow> finalization env w v'"

lemma finalization_on_track:
  assumes "finalization env w v" and "on_track env gw s0 w"
  shows "on_track env gw s0 v"
  using assms(1)
proof (induction rule: finalization.induct)
  case (Advance v n g r v')
  with post_opD [OF advance_post] show ?case by blast
next
  case (Accept v g receipt r' v')
  with post_opD [OF accept_post] show ?case by blast
next
  case (Elsewhere v v')
  then show ?case by (auto simp: same_run_def on_track_def)
qed (rule assms(2))

lemma finalization_moves:
  assumes "finalization env w v" and "listing_ok (fz_store w)" "faithful (rs_env (fz_store w))"
    and "load (fz_store w) = Inr p"
  shows "\<exists>q. load (fz_store v) = Inr q \<and> moves env (fz_gateway w) (sg_state p) (sg_state q)"
  using finalization_on_track [OF assms(1) starts_on_track [OF assms(2-4)]] by (simp add: on_track_def)

subsection \<open>What the results are\<close>

lemma waiting_kept:
  "answer_update env gw r s t \<Longrightarrow> finalization_retry_wait_seconds s \<le> retry_wait_limit env \<Longrightarrow>
   finalization_retry_wait_seconds t \<le> retry_wait_limit env"
  by (cases rule: answer_update.cases) (auto simp: failed_update_def normalize_def)

lemma wait_fields [simp]:
  "finalization_retry_wait_seconds (normalize s) = finalization_retry_wait_seconds s"
  "finalization_retry_wait_seconds (append_events es s) = finalization_retry_wait_seconds s"
  "finalization_retry_wait_seconds (answered senv s r wait) = finalization_retry_wait_seconds s"
  "linear_done_receipt (answered senv s r wait) = linear_done_receipt s"
  "linear_done_receipt (append_events es s) = linear_done_receipt s"
  "commit_sha (answered senv s r wait) = commit_sha s" "pushed_sha (answered senv s r wait) = pushed_sha s"
  "finalization_evidence (answered senv s r wait) = finalization_evidence s"
  "finalization_evidence (normalize s) = finalization_evidence s"
  "finalization_evidence (append_events es s) = finalization_evidence s"
  "disposition (answered senv s r wait) = ACTIVE"
  by (simp_all add: normalize_def append_events_def answered_def)

lemma set_result_frame [simp]:
  "finalization_retry_wait_seconds (set_result k c s) = finalization_retry_wait_seconds s"
  "linear_done_receipt (set_result k c s) = linear_done_receipt s"
  "finalization_evidence (set_result k c s) = finalization_evidence s"
  by (cases k; simp)+

lemma final_move_wait:
  assumes "final_move env gw s t" and "finalization_retry_wait_seconds s \<le> retry_wait_limit env"
  shows "finalization_retry_wait_seconds t \<le> retry_wait_limit env"
  using assms
  by (cases rule: final_move.cases)
    (auto simp: intended_state_def recorded_state_def failed_update_def done_update_def dest!: waiting_kept)

lemma branch_fields [simp]:
  "branch (answered senv s r wait) = branch s" "branch (failed_update s) = branch s"
  by (simp_all add: answered_def failed_update_def)

lemma answer_update_branch: "answer_update env gw r s t \<Longrightarrow> branch t = branch s"
  by (cases rule: answer_update.cases) auto

lemma moves_branch: "moves env gw s t \<Longrightarrow> branch t = branch s"
proof (induction rule: rtranclp_induct)
  case (step t u)
  from step(2) have "branch u = branch t"
    by (cases rule: final_move.cases)
      (auto simp: intended_state_def recorded_state_def done_update_def dest!: answer_update_branch)
  with step(3) show ?case by simp
qed simp

definition limits_kept :: "'x finalizer \<Rightarrow> run_state \<Rightarrow> bool" where
  "limits_kept env s \<longleftrightarrow>
     list_all (\<lambda>operation. int (attempts s operation) \<le> invocation_limit env)
       [''commit'', ''push'', ''compare_and_complete_ticket'']
     \<and> finalization_retry_wait_seconds s \<le> retry_wait_limit env"

lemma moves_limits:
  assumes "moves env gw s t" and "limits_kept env s"
  shows "limits_kept env t"
proof -
  have "finalization_retry_wait_seconds t \<le> retry_wait_limit env"
    using assms(1)
  proof (induction rule: rtranclp_induct)
    case base
    from assms(2) show ?case by (simp add: limits_kept_def)
  next
    case (step t u)
    with final_move_wait show ?case by blast
  qed
  with moves_attempts [OF assms(1)] assms(2) show ?thesis by (simp add: limits_kept_def is_effect_def)
qed

definition receipt_backed :: "'x finalizer \<Rightarrow> linear_gateway \<Rightarrow> run_state \<Rightarrow> run_state \<Rightarrow> bool" where
  \<comment> \<open>the receipt was recorded before, or it is a signed receipt of the completed ticket\<close>
  "receipt_backed env gw s t \<longleftrightarrow>
     linear_done_receipt t = linear_done_receipt s
     \<or> (\<exists>r. linear_done_receipt t = Some (receipt_content_hash (se_clock (gateway_env gw)) r)
          \<and> signature_matches (se_clock (gateway_env gw)) (lg_authority gw) r \<and> ticket_was_completed env r)"

lemma final_move_receipt: "final_move env gw s t \<Longrightarrow> receipt_backed env gw s t"
proof (induction rule: final_move.induct)
  case (Answered p r wait t)
  from Answered(2,1) show ?case
    by (cases rule: answer_update.cases) (auto simp: receipt_backed_def trusted_answer_def failed_update_def normalize_def)
qed (auto simp: receipt_backed_def intended_state_def recorded_state_def failed_update_def done_update_def)

lemma moves_receipt: "moves env gw s t \<Longrightarrow> receipt_backed env gw s t"
proof (induction rule: rtranclp_induct)
  case (step t u)
  with final_move_receipt [OF step(2)] show ?case by (auto simp: receipt_backed_def)
qed (simp add: receipt_backed_def)

subsection \<open>How a run becomes DONE\<close>

definition completed_from :: "'x finalizer \<Rightarrow> run_state \<Rightarrow> run_state \<Rightarrow> bool" where
  \<comment> \<open>the run became DONE in this state, with both checks passed and this evidence\<close>
  "completed_from env u t \<longleftrightarrow>
     disposition u = ACTIVE \<and> position_verified env u
     \<and> (\<exists>e. evidence_of u = Some e \<and> finalization_evidence t = Some e
          \<and> projection_hash env = Inr (fe_prefinalization_ticket_projection e))"

lemma move_done:
  assumes "final_move env gw s t" and "disposition t = DONE"
  shows "(disposition s = DONE \<and> finalization_evidence t = finalization_evidence s) \<or> completed_from env s t"
  using assms
proof (cases rule: final_move.cases)
  case (Answered p r wait)
  from Answered(2) assms(2) show ?thesis
    by (cases rule: answer_update.cases) (auto simp: failed_update_def)
qed (use assms(2) in \<open>auto simp: completed_from_def intended_state_def recorded_state_def failed_update_def done_update_def\<close>)

lemma moves_done:
  assumes "moves env gw s t" and "disposition t = DONE" and "disposition s \<noteq> DONE"
  shows "\<exists>u. moves env gw s u \<and> completed_from env u t"
  using assms
proof (induction rule: rtranclp_induct)
  case (step t u)
  from move_done [OF step(2) step(4)] show ?case
  proof
    assume d: "disposition t = DONE \<and> finalization_evidence u = finalization_evidence t"
    with step(3,5) obtain v where "moves env gw s v" "completed_from env v t" by blast
    with d have "moves env gw s v \<and> completed_from env v u" by (simp add: completed_from_def)
    then show ?thesis ..
  next
    assume "completed_from env t u"
    with step(1) show ?thesis by blast
  qed
qed simp

subsection \<open>What the checks say\<close>

lemma evidence_fields:
  assumes "evidence_of s = Some e"
  shows "commit_sha s = Some (fe_commit_sha e)" "pushed_sha s = Some (fe_pushed_sha e)"
    "linear_done_receipt s = Some (fe_linear_done_receipt e)"
  using assms by (auto simp: evidence_of_def Let_def split: option.splits if_splits)

definition git_confirms :: "'x finalizer \<Rightarrow> run_state \<Rightarrow> bool" where
  \<comment> \<open>the Git capability confirmed the branch, the commit and the push of this state\<close>
  "git_confirms env s \<longleftrightarrow>
     (\<exists>name x x'. branch s = Some name
        \<and> gc_refresh (fd_git env) name (pm_baseline_sha (fa_product (fd_artifacts env))) x = (Inr True, x'))
     \<and> (\<forall>c \<in> set_option (commit_sha s).
          \<exists>x x'. gc_reconcile_commit (fd_git env) (fa_product (fd_artifacts env)) (Some c) x = (Inr (Some c), x'))
     \<and> (\<forall>c \<in> set_option (pushed_sha s).
          \<exists>x x'. gc_reconcile_push (fd_git env) (branch s) (Some c) x = (Inr (Some c), x'))"

lemma position_confirmed:
  assumes "position_verified env s"
  shows "(\<exists>fs. approval_holds env fs s) \<and> git_confirms env s"
proof -
  from assms obtain w w1 w2 where v: "verify_approval env s w = (Inr (), w1)" "verify_git_position env s w1 = (Inr (), w2)"
    by (auto simp: position_verified_def verified_position_def bind_op_Inr)
  have "approval_holds env (rs_files (fz_store w)) s" using v(1) by (simp add: verify_approval_def)
  moreover have "git_confirms env s"
    using v(2)
    by (auto simp: verify_git_position_def git_confirms_def bind_op_Inr outside_Inr reconcile_commit_op_def
        reconcile_push_op_def split: option.splits if_splits) (metis Option.option.set_sel)+
  ultimately show ?thesis by blast
qed

subsection \<open>The Git guard as the capability\<close>

definition guard_capability :: "'w git_setup \<Rightarrow> 'w git_guard git_capability" where
  \<comment> \<open>the methods \<^verbatim>\<open>_call\<close> looks up; a missing argument fails the validation of the method\<close>
  "guard_capability setup =
     \<lparr>gc_refresh = refresh_finalization setup,
      gc_commit = (\<lambda>m message. bind_op (commit_product_manifest setup m message) (\<lambda>c. return_op (Some c))),
      gc_push = (\<lambda>commit. case commit of
          None \<Rightarrow> raise_op Sha_Invalid
        | Some c \<Rightarrow> bind_op (push_product_commit setup c) (\<lambda>p. return_op (Some p))),
      gc_reconcile_commit = reconcile_product_commit setup,
      gc_reconcile_push = (\<lambda>name commit. case (name, commit) of
          (Some b, Some c) \<Rightarrow> reconcile_product_push setup b c
        | (None, _) \<Rightarrow> raise_op Branch_Invalid
        | (Some _, None) \<Rightarrow> raise_op Sha_Invalid)\<rparr>"

lemma guard_commit_reviewed:
  assumes "read_only setup" and "gc_reconcile_commit (guard_capability setup) product (Some c) g = (Inr (Some c), g')"
  shows "\<exists>m. product_manifest_inputs product = Inr m \<and> commit_holds setup m c (gd_world g)
    \<and> object_at setup ''HEAD'' (gd_world g) = Some c"
  using assms(2)
  by (auto simp: guard_capability_def reconcile_product_commit_def bind_op_Inr rev_parse_answer [OF assms(1)]
      catch_mismatch_def verify_commit_answer [OF assms(1)] approve_commit_def
      split: if_splits option.splits prod.splits sum.splits git_error.splits)

end
