(* ===== verification/Sample_Finalizer.thy ===== *)
theory Sample_Finalizer
  imports Finalizer_History Git_Guarantees Unit_Guarantees Sample_Index Supervisor_Guarantees
begin

section \<open>A concrete finalization\<close>

text \<open>
  An approved run of the sample repository whose commit and push are made and whose ticket is
  completed: one call of \<^verbatim>\<open>advance\<close> checks everything again, makes the run DONE and releases its
  repository.  The Git capability is the Git guard of the sample repository.
\<close>

subsection \<open>The reviewed artifacts\<close>

definition final_product :: product_change_manifest where
  "final_product = sample_product\<lparr>pm_content_hash := hash_json (JStr ''product'')\<rparr>"

definition final_definitions :: task_definition_manifest where
  "final_definitions = \<lparr>tdm_definition_hash = canonical_task_definition_hash [], tdm_tasks = []\<rparr>"

definition final_statuses :: task_status_manifest where
  "final_statuses = \<lparr>tsm_definition_hash = canonical_task_definition_hash [], tsm_statuses = []\<rparr>"

definition final_build :: build_identity where
  "final_build =
     \<lparr>bi_baseline_sha = sample_baseline, bi_product_manifest_hash = pm_content_hash final_product,
      bi_project_policy_hash = policy_hash sample_policy, bi_command_hashes = [],
      bi_runtime_hash = hash_json JNull\<rparr>"

definition final_verification :: verification_record where
  "final_verification =
     \<lparr>vr_build_identity_hash = hash_json (build_identity_json final_build), vr_checks = [], vr_passed = True,
      vr_empty_authorized = True\<rparr>"

definition final_manifest :: review_manifest_unit where
  "final_manifest =
     \<lparr>rm_baseline_sha = sample_baseline,
      rm_requirements_package_hash = hash_json (requirements_package_json sample_requirements),
      rm_change_outline_hash = hash_json (change_outline_json sample_outline),
      rm_artifact_hashes = sample_artifacts,
      rm_task_definition_hash = tdm_definition_hash final_definitions,
      rm_task_status_hash = hash_json (task_status_manifest_json final_statuses),
      rm_product_manifest_hash = pm_content_hash final_product,
      rm_build_identity_hash = hash_json (build_identity_json final_build),
      rm_project_policy_hash = policy_hash sample_policy,
      rm_verification_result_hash = hash_json (verification_record_json final_verification),
      rm_browser_result_hash = hash_json (browser_record_json (sample_skipped final_build))\<rparr>"

definition final_result :: review_result where
  "final_result =
     \<lparr>rv_approved = True, rv_review_manifest_hash = review_manifest_hash final_manifest,
      rv_failure_class = None, rv_failure_source = None, rv_finding_kind = None, rv_owner_stage = None,
      rv_cited_ids = [], rv_blocking_findings = [], rv_evidence = [sample_evidence], rv_next_action = ''finalize''\<rparr>"

definition final_snapshot :: ticket_snapshot where
  "final_snapshot =
     \<lparr>sn_ticket_id = ''T1'', sn_title = ''t'', sn_description = [], sn_criteria = [], sn_comments = [],
      sn_labels = [], sn_relations = [], sn_subtickets = [], sn_attachments = [], sn_workspace_id = None,
      sn_team_id = None, sn_captured_at = 1, sn_pagination_complete = True, sn_source_page_hashes = [],
      sn_content_hash = hash_json JNull\<rparr>"

definition final_artifacts :: approval_artifacts where
  "final_artifacts =
     \<lparr>fa_snapshot = final_snapshot, fa_original_state_id = ''s1'', fa_original_revision = ''v1'',
      fa_policy = sample_policy, fa_requirements = sample_requirements, fa_outline = sample_outline,
      fa_artifact_hashes = sample_artifacts, fa_task_definition = final_definitions,
      fa_task_status = final_statuses, fa_product = final_product, fa_build = final_build,
      fa_verification = final_verification, fa_browser = sample_skipped final_build,
      fa_review_manifest = final_manifest, fa_review_result = final_result\<rparr>"

definition final_projection :: string where
  "final_projection =
     (case constraint_projection (\<lambda>_. False) final_snapshot of
        None \<Rightarrow> []
      | Some p \<Rightarrow> hash_json (JObj (projection_payload p @ [(''content_hash'', JStr (tp_content_hash p))])))"

subsection \<open>The run\<close>

definition final_key :: string where "final_key = replicate 64 (CHR ''a'')"

definition final_key_bytes :: bytes where "final_key_bytes = replicate 32 170"

definition final_start :: run_state where
  "final_start =
     sample_start\<lparr>finalization_public_key := Some final_key,
       finalization_public_key_hash := Some (hexdigest final_key_bytes)\<rparr>"

definition final_defined :: run_state where
  "final_defined = final_start\<lparr>task_definition_manifest := Some final_definitions\<rparr>"

definition final_checkpoint :: checkpoint where
  "final_checkpoint =
     \<lparr>ck_id = None, ck_stage = REVIEWER, ck_contract_hash = sample_digest, ck_input_hashes = [],
      ck_output_manifest_hash = hash_json (review_result_json final_result), ck_validator = ''v'',
      ck_validator_version = ''v'', ck_validation_receipt_hash = sample_digest, ck_evidence = []\<rparr>"

definition final_ready :: run_state where
  "final_ready =
     final_defined\<lparr>branch := Some ''T-1-fix'', task_status_manifest := Some final_statuses,
       requirements_package := Some (rm_requirements_package_hash final_manifest),
       change_outline := Some (rm_change_outline_hash final_manifest),
       stage_outputs := [\<lparr>so_stage = REVIEWER, so_content_hash = hash_json (review_result_json final_result)\<rparr>],
       checkpoints := (\<lambda>_. None)(REVIEWER \<mapsto> final_checkpoint),
       product_change_manifest := Some ''p1'',
       product_change_manifest_hash := Some (rm_product_manifest_hash final_manifest),
       build_identity := Some (rm_build_identity_hash final_manifest),
       verification_result := Some (rm_verification_result_hash final_manifest),
       browser_result := Some (rm_browser_result_hash final_manifest),
       review_manifest := Some (review_manifest_hash final_manifest),
       review_result := Some (hash_json (review_result_json final_result)), finalization_eligible := True,
       prefinalization_ticket_projection := Some final_projection,
       commit_sha := Some sample_commit, pushed_sha := Some sample_commit, linear_done_receipt := Some ''d1''\<rparr>"

definition final_binding :: index_release_binding where
  "final_binding =
     \<lparr>ib_repository_id = ''p1'', ib_run_id = ''r1'', ib_prior_revision = 1, ib_prior_hash = sample_digest\<rparr>"

definition final_evidence :: finalization_evidence where
  "final_evidence =
     \<lparr>fe_prefinalization_ticket_projection = final_projection, fe_commit_sha = sample_commit,
      fe_pushed_sha = sample_commit, fe_linear_done_receipt = ''d1''\<rparr>"

definition final_done :: run_state where
  "final_done = done_update final_evidence final_binding final_ready"

lemma final_key_ok [simp]:
  "sha256_pattern final_key" "fromhex final_key = Some final_key_bytes" "lower final_key = final_key"
  unfolding final_key_def final_key_bytes_def by code_simp+

lemma final_hash_ok [simp]:
  "sha256_pattern (hexdigest bs)" "lower (hexdigest bs) = hexdigest bs"
  using hexdigest_digest [of bs] is_digest_lower
  by (auto simp: sha256_pattern_iff is_digest_def is_hex_def list_all_iff)

lemma final_texts [simp]:
  "reference_id sample_commit" "safe_text sample_commit" "reference_id ''d1''" "safe_text ''d1''"
  "safe_identifier ''v''" "reference_id ''v''" "safe_text ''v''"
  by ((unfold sample_commit_def)?, code_simp)+

lemma final_start_fields:
  "run_id final_start = ''r1''" "ticket_id final_start = ''T1''" "repository_id final_start = ''p1''"
  by (simp_all add: final_start_def sample_start_def new_run_state_def)

lemma final_start_inv [simp]: "run_inv (\<lambda>_. True) final_start"
  by (simp add: state_check_defs final_start_def sample_start_def new_run_state_def)

lemma final_projection_hash:
  "\<exists>p. constraint_projection (\<lambda>_. False) final_snapshot = Some p
    \<and> final_projection = hash_json (JObj (projection_payload p @ [(''content_hash'', JStr (tp_content_hash p))]))"
proof -
  have "sha256_pattern (replicate 64 CHR ''0'')" by code_simp
  then have "constraint_projection (\<lambda>_. False) final_snapshot \<noteq> None"
    by (simp add: constraint_projection_def final_snapshot_def clean_records_def validate_projection_def
        projection_hash_ok_def projection_payload_def hash_is_sha256)
  then show ?thesis by (auto simp: final_projection_def)
qed

lemma upto_cls_intro:
  "list_all f s \<Longrightarrow> length s \<le> n \<Longrightarrow> \<exists>c. matches (Rep (Cls f) 0 n) (b, s) (c, [])"
proof (induction s arbitrary: b n)
  case Nil
  then show ?case by (auto intro: matches.intros)
next
  case (Cons d s)
  then obtain m where n: "n = Suc m" "length s \<le> m" by (cases n) auto
  with Cons obtain c where "matches (Rep (Cls f) 0 m) (Some d, s) (c, [])" by fastforce
  with Cons.prems n show ?case by (auto intro: matches.Rep_may matches.Cls)
qed

lemma digest_reference: "is_digest s \<Longrightarrow> reference_id s"
proof -
  assume s: "is_digest s"
  then obtain d t where t: "s = d # t" "length t = 63" "list_all is_lower_hex s"
    by (cases s) (auto simp: is_digest_def)
  have hex: "is_alnum d" "list_all ident_char t"
    using t by (auto simp: list_all_iff is_alnum_def ident_char_def is_lower_hex_def is_lower_def is_digit_def)
  obtain c where "matches (Rep (Cls ident_char) 0 254) (Some d, t) (c, [])"
    using upto_cls_intro [OF hex(2), of 254] t(2) by auto
  with hex(1) have "matches safe_reference_segment (None, s) (c, [])"
    unfolding t(1) safe_reference_segment_def by (blast intro: matches.intros)
  then have "safe_reference_path s"
    unfolding safe_reference_path_def fullmatch_iff by (blast intro: matches.intros)
  with t show ?thesis by (simp add: reference_id_def)
qed

lemma final_projection_text [simp]: "reference_id final_projection" "safe_text final_projection"
proof -
  obtain v where v: "final_projection = hash_json v" using final_projection_hash by auto
  show "safe_text final_projection" using digest_safe by (simp add: v)
  show "reference_id final_projection" using digest_reference by (simp add: v)
qed

lemmas final_state_defs = final_start_def sample_start_def new_run_state_def final_defined_def final_ready_def
  final_checkpoint_def final_definitions_def final_statuses_def

lemma final_manifests_valid [simp]:
  "task_definition_manifest_valid final_definitions" "task_status_manifest_valid final_statuses"
  by (simp_all add: task_definition_manifest_valid_def task_status_manifest_valid_def final_definitions_def
      final_statuses_def no_dups_def canonical_task_definition_hash_def)

lemma final_defined_inv [simp]: "run_inv (\<lambda>_. True) final_defined"
  using final_manifests_valid(1) by (simp add: state_check_defs final_start_def sample_start_def new_run_state_def final_defined_def)

lemma final_checkpoint_valid [simp]: "checkpoint_valid final_checkpoint"
  by (simp add: checkpoint_valid_def final_checkpoint_def digest_map_valid_def)

lemma final_manifest_hashes [simp]:
  "sha256_pattern (rm_product_manifest_hash final_manifest)"
  "lower (rm_product_manifest_hash final_manifest) = rm_product_manifest_hash final_manifest"
  by (simp_all add: final_manifest_def final_product_def hash_is_sha256)

lemma final_ready_inv [simp]: "run_inv (\<lambda>_. True) final_ready"
  using final_manifests_valid final_checkpoint_valid
  by (simp add: state_check_defs final_start_def sample_start_def new_run_state_def final_defined_def final_ready_def
      hash_is_sha256)
    (simp add: final_definitions_def final_statuses_def final_checkpoint_def)

lemma final_fields [simp]:
  "run_id final_ready = ''r1''" "ticket_id final_ready = ''T1''" "repository_id final_ready = ''p1''"
  "disposition final_ready = ACTIVE" "branch final_ready = Some ''T-1-fix''"
  "commit_sha final_ready = Some sample_commit" "pushed_sha final_ready = Some sample_commit"
  "linear_done_receipt final_ready = Some ''d1''"
  "prefinalization_ticket_projection final_ready = Some final_projection"
  "finalization_next_eligible_at final_ready = None" "effect_ledger final_ready = []"
  "finalization_retry_wait_seconds final_ready = 0"
  by (simp_all add: final_start_def sample_start_def new_run_state_def final_defined_def final_ready_def)

lemma final_binding_valid [simp]: "index_release_binding_valid final_binding"
  by (simp add: final_binding_def index_release_binding_valid_def sample_snapshot_ids lower_sha256_def)

lemma final_done_fields [simp]:
  "disposition final_done = DONE" "run_id final_done = ''r1''" "ticket_id final_done = ''T1''"
  "repository_id final_done = ''p1''" "finalization_index_released final_done = False"
  "finalization_index_release_binding final_done = Some final_binding"
  "finalization_index_release_receipt final_done = None"
  "finalization_evidence final_done = Some final_evidence"
  "finalization_public_key final_done = Some final_key"
  "finalization_public_key_hash final_done = Some (hexdigest final_key_bytes)"
  "pending_external_request final_done = None" "effect_ledger final_done = []"
  by (simp_all add: final_done_def done_update_def final_start_def sample_start_def new_run_state_def
      final_defined_def final_ready_def)

lemma final_evidence_valid [simp]: "finalization_evidence_valid final_evidence"
  by (simp add: final_evidence_def finalization_evidence_valid_def)

lemma done_update_inv:
  assumes "run_inv clean s" and "pending_external_request s = None" and "finalization_evidence_valid e"
    and "index_release_binding_valid b" and r: "finalization_index_release_receipt s = None"
      "\<not> finalization_index_released s"
  shows "run_inv clean (done_update e b s)"
proof -
  let ?t = "done_update e b s"
  have "task_checks ?t = task_checks s" by (rule task_checks_cong) (simp_all add: done_update_def)
  moreover have "binding_checks ?t = binding_checks s" "trust_checks ?t = trust_checks s"
      "iteration_checks ?t = iteration_checks s" "checkpoint_checks ?t = checkpoint_checks s"
      "release_checks ?t = release_checks s"
    using r by (simp_all add: binding_checks_def trust_checks_def release_checks_def iteration_checks_def
        checkpoint_checks_def has_preparation_binding_def authorized_iteration_limit_def done_update_def)
  ultimately have "state_checks ?t = state_checks s" by (simp add: state_checks_def)
  then show ?thesis
    using assms
    by (simp add: run_inv_parts)
      (simp add: fields_ok_def nested_ok_def digest_fields_def normalize_fixed_iff normal_fields_def
        done_update_def pending_ok_def)
qed

lemma final_done_inv [simp]: "run_inv (\<lambda>_. True) final_done"
  unfolding final_done_def
  by (rule done_update_inv) (simp_all, simp_all add: final_start_def sample_start_def new_run_state_def
      final_defined_def final_ready_def)

abbreviation released_update :: "index_release_receipt \<Rightarrow> run_state \<Rightarrow> run_state" where
  "released_update r s \<equiv> s\<lparr>finalization_index_released := True, finalization_index_release_receipt := Some r\<rparr>"

lemma released_update_inv:
  assumes "run_inv clean s" and "pending_external_request s = None" and "index_release_receipt_valid r"
    and r: "finalization_index_release_binding s = Some (receipt_binding r)" "ir_signature r \<noteq> None"
      "finalization_index_release_receipt s = None" "\<not> finalization_index_released s"
  shows "run_inv clean (released_update r s)"
proof -
  let ?t = "released_update r s"
  have "task_checks ?t = task_checks s" by (rule task_checks_cong) simp_all
  moreover have "binding_checks ?t = binding_checks s" "trust_checks ?t = trust_checks s"
      "iteration_checks ?t = iteration_checks s" "checkpoint_checks ?t = checkpoint_checks s"
      "release_checks ?t = release_checks s"
    using r by (simp_all add: binding_checks_def trust_checks_def release_checks_def iteration_checks_def
        checkpoint_checks_def has_preparation_binding_def authorized_iteration_limit_def)
  ultimately have "state_checks ?t = state_checks s" by (simp add: state_checks_def)
  then show ?thesis
    using assms
    by (simp add: run_inv_parts)
      (simp add: fields_ok_def nested_ok_def digest_fields_def normalize_fixed_iff normal_fields_def pending_ok_def)
qed

subsection \<open>The stored generations\<close>

definition final_signature :: string where "final_signature = replicate 128 (CHR ''a'')"

definition final_signature_bytes :: bytes where "final_signature_bytes = replicate 64 170"

definition final_receipt :: "string \<Rightarrow> index_release_receipt" where
  "final_receipt terminal = (receipt_for final_binding terminal)\<lparr>ir_signature := Some final_signature\<rparr>"

definition final_generation :: "int \<Rightarrow> run_state \<Rightarrow> state_generation" where
  "final_generation n s = create_generation sample_env n s"

definition final_store1 :: run_store where
  "final_store1 = stored sample_store 0 empty_state_hash final_start"

definition final_store2 :: run_store where
  "final_store2 = stored final_store1 1 (sg_state_hash (final_generation 1 final_start)) final_defined"

definition final_store3 :: run_store where
  "final_store3 = stored final_store2 2 (sg_state_hash (final_generation 2 final_defined)) final_ready"

definition final_store4 :: run_store where
  "final_store4 = stored final_store3 3 (sg_state_hash (final_generation 3 final_ready)) final_done"

definition final_released :: run_state where
  "final_released = released_update (final_receipt (state_hash_of sample_env final_done)) final_done"

definition final_store5 :: run_store where
  "final_store5 = stored final_store4 4 (sg_state_hash (final_generation 4 final_done)) final_released"

lemma final_generation_fields [simp]:
  "sg_state (final_generation n s) = s" "sg_revision (final_generation n s) = n"
  "sg_state_hash (final_generation n s) = state_hash_of sample_env s"
  by (simp_all add: final_generation_def create_generation_def)

lemma final_signature_ok [simp]:
  "fullmatch (Rep (Cls is_lower_hex) 128 0) final_signature" "fromhex final_signature = Some final_signature_bytes"
proof -
  show "fullmatch (Rep (Cls is_lower_hex) 128 0) final_signature"
    by (simp add: exact_class_iff is_lower_hex_def final_signature_def list_all_iff)
  show "fromhex final_signature = Some final_signature_bytes"
    unfolding final_signature_def final_signature_bytes_def by code_simp
qed

lemma lower_sha256_hash [simp]: "lower_sha256 (hash_json v)"
  using hash_json_digest [of v]
  by (auto simp: lower_sha256_def sha256_pattern_iff is_digest_def is_hex_def list_all_iff)

lemma final_receipt_valid [simp]:
  "index_release_receipt_valid (final_receipt (state_hash_of sample_env s))"
  "receipt_binding (final_receipt (state_hash_of sample_env s)) = final_binding"
  "ir_signature (final_receipt (state_hash_of sample_env s)) = Some final_signature"
  "receipt_matches (final_receipt (state_hash_of sample_env s)) (receipt_for final_binding (state_hash_of sample_env s))"
proof -
  have "lower_sha256 (state_hash_of sample_env s)" by (simp add: state_hash_of_def)
  then have "index_release_receipt_valid (receipt_for final_binding (state_hash_of sample_env s))"
    by (rule receipt_for_valid [OF final_binding_valid])
  then show "index_release_receipt_valid (final_receipt (state_hash_of sample_env s))"
    by (simp add: final_receipt_def index_release_receipt_valid_def receipt_payload_def)
  show "receipt_binding (final_receipt (state_hash_of sample_env s)) = final_binding"
    using receipt_for_binding [of final_binding] by (simp add: final_receipt_def receipt_binding_def)
qed (simp_all add: final_receipt_def receipt_matches_def receipt_payload_def)

lemma final_released_inv [simp]: "run_inv (\<lambda>_. True) final_released"
  unfolding final_released_def by (rule released_update_inv) simp_all

lemma final_accepted:
  assumes "sample_view view"
  shows "validate_transition view None final_start = Inr final_start"
    "validate_transition view (Some (final_generation 1 final_start)) final_defined = Inr final_defined"
    "validate_transition view (Some (final_generation 2 final_defined)) final_ready = Inr final_ready"
    "validate_transition view (Some (final_generation 3 final_ready)) final_done = Inr final_done"
proof -
  have "initial_snapshot final_start = final_start"
    by (simp add: initial_snapshot_def Let_def final_start_def sample_start_def new_run_state_def
        has_preparation_binding_def)
  then have "initial_state_ok (sv_env view) final_start"
    using final_start_inv assms by (simp add: initial_state_ok_def run_inv_def sample_view_def)
  then show "validate_transition view None final_start = Inr final_start"
    by (intro accepted_sample [OF assms])
      (simp_all add: follow_state_def checked_no_error final_start_fields)
  show "validate_transition view (Some (final_generation 1 final_start)) final_defined = Inr final_defined"
    by (rule sample_follow [OF assms final_defined_inv])
      (simp_all add: transition_check_defs final_defined_def final_start_def sample_start_def new_run_state_def
        dependent_state_clear_def list_ex_iff)
  show "validate_transition view (Some (final_generation 2 final_defined)) final_ready = Inr final_ready"
    by (rule sample_follow [OF assms final_ready_inv])
      (simp_all add: transition_check_defs final_defined_def final_start_def sample_start_def new_run_state_def
        final_ready_def list_ex_iff final_statuses_def)
  show "validate_transition view (Some (final_generation 3 final_ready)) final_done = Inr final_done"
    by (rule sample_follow [OF assms final_done_inv])
      (simp_all add: transition_check_defs done_checks_def final_done_def done_update_def final_defined_def final_start_def
        sample_start_def new_run_state_def final_ready_def list_ex_iff final_statuses_def final_evidence_def final_binding_def)
qed

lemma final_released_accepted:
  assumes v: "sample_view view" and env: "se_ed25519 (sv_env view) = (\<lambda>_ _ _. True)"
  shows "validate_transition view (Some (final_generation 4 final_done)) final_released = Inr final_released"
proof (rule accepted_sample [OF v final_released_inv])
  let ?p = "final_generation 4 final_done"
  have f: "pending_external_request final_released = None" "effect_ledger final_released = []"
    by (simp_all add: final_released_def)
  have pre: "no_error (pending_lifecycle_checks view ?p final_released @ immutable_checks (sg_state ?p) final_released)"
    by (simp add: pending_lifecycle_checks_def new_pending_checks_def f immutable_checks_def Let_def)
      (simp add: final_released_def has_preparation_binding_def is_prefix_def)
  have signed: "receipt_signature_ok (se_ed25519 (sv_env view))
      (final_receipt (state_hash_of sample_env final_done)) final_key (hexdigest final_key_bytes)"
    by (simp add: receipt_signature_ok_def env)
  have "model_copy (clean_of (sv_env view))
      (released_update (final_receipt (state_hash_of sample_env final_done))) final_done = Inr final_released"
    using v final_released_inv by (simp add: model_copy_def run_inv_def sample_view_def final_released_def)
  then have "exact_release_marker view ?p final_released = Inr True"
    using signed by (simp add: exact_release_marker_def Let_def) (simp add: final_released_def)
  then have "terminal_transition view ?p final_released = Inr final_released"
    by (simp add: terminal_transition_def Let_def)
  then show "follow_state view (Some ?p) final_released = Inr final_released"
    using pre by (simp add: follow_state_def checked_def no_error_def f)
qed (simp_all add: final_released_def)

lemma final_stored:
  "sample_like final_store3" "load final_store3 = Inr (final_generation 3 final_ready)"
  "compare_and_swap final_store3 3 (state_hash_of sample_env final_ready) final_done
     = Inr (final_generation 4 final_done, final_store4)"
  "sample_like final_store4" "load final_store4 = Inr (final_generation 4 final_done)"
proof -
  have s1: "sample_like final_store1" "load final_store1 = Inr (final_generation 1 final_start)"
    using sample_stored [OF sample_store_empty, of 0 empty_state_hash final_start] final_accepted(1)
    by (simp_all add: current_digest_def final_store1_def final_generation_def)
  have s2: "sample_like final_store2" "load final_store2 = Inr (final_generation 2 final_defined)"
    using sample_stored [OF s1(1) load_current(1) [OF s1(2)] _ final_defined_inv final_accepted(2)]
    by (simp_all add: current_digest_def final_store2_def final_generation_def create_generation_def)
  show s3: "sample_like final_store3" "load final_store3 = Inr (final_generation 3 final_ready)"
    using sample_stored [OF s2(1) load_current(1) [OF s2(2)] _ final_ready_inv final_accepted(3)]
    by (simp_all add: current_digest_def final_store3_def final_generation_def create_generation_def)
  show "compare_and_swap final_store3 3 (state_hash_of sample_env final_ready) final_done
     = Inr (final_generation 4 final_done, final_store4)"
    "sample_like final_store4" "load final_store4 = Inr (final_generation 4 final_done)"
    using sample_stored [OF s3(1) load_current(1) [OF s3(2)] _ final_done_inv final_accepted(4)]
    by (simp_all add: current_digest_def final_store4_def final_generation_def create_generation_def)
qed

lemma final_released_stored:
  "compare_and_swap final_store4 4 (state_hash_of sample_env final_done) final_released
     = Inr (final_generation 5 final_released, final_store5)"
  "load final_store5 = Inr (final_generation 5 final_released)"
proof -
  note st = final_stored(4,5)
  have env: "rs_env final_store4 = sample_env" "listing_ok final_store4" "sample_view (view_of final_store4)"
      "se_ed25519 (sv_env (view_of final_store4)) = (\<lambda>_ _ _. True)"
    using st(1) sample_like_view [OF st(1)] by (simp_all add: sample_like_def view_of_def) (simp add: sample_env_def)
  obtain st' where c: "compare_and_swap final_store4 4 (state_hash_of sample_env final_done) final_released
      = Inr (final_generation 5 final_released, st')"
    using swap_succeeds [OF env(2) load_current(1) [OF st(2)] _ final_released_accepted [OF env(3,4)]] env(1)
    by (auto simp: current_digest_def final_generation_def create_generation_def)
  then have e: "final_store5 = st'" by (simp add: final_store5_def stored_def)
  have "dump_ok (rs_env final_store4) final_released" "run_inv (clean_of (rs_env final_store4)) final_released"
    using sample_faithful final_released_inv env(1) by (simp_all add: faithful_def)
  with swapped_loads [OF env(2) c] c e
  show "compare_and_swap final_store4 4 (state_hash_of sample_env final_done) final_released
     = Inr (final_generation 5 final_released, final_store5)"
    "load final_store5 = Inr (final_generation 5 final_released)" by simp_all
qed

subsection \<open>The finalizer\<close>

definition final_active :: active_run_record where
  "final_active =
     \<lparr>ax_outcome = Outcome_Active, ax_repository_id = ''p1'', ax_run_id = Some ''r1'', ax_revision = Some 1,
      ax_hash = Some sample_digest, ax_initial_hash = sample_digest\<rparr>"

definition final_index :: "nat git_guard index_capability" where
  \<comment> \<open>an index whose active entry is the run, and that signs the release\<close>
  "final_index =
     \<lparr>xc_lookup = (\<lambda>_. return_op (Some final_active)),
      xc_release = (\<lambda>_ _ _ _ _ terminal. return_op (final_receipt terminal)),
      xc_verify = (\<lambda>_ _. return_op ()), xc_load = (\<lambda>_ _. raise_op Index_Conflict)\<rparr>"

definition final_env :: "nat git_guard finalizer" where
  "final_env =
     \<lparr>fd_index_env = sample_index_env, fd_git = guard_capability sample_git, fd_index = final_index,
      fd_policy = sample_policy, fd_artifacts = final_artifacts, fd_now = (\<lambda>n. int n),
      fd_hex = (\<lambda>_. []), fd_request_ids = (\<lambda>_. ([], []))\<rparr>"

definition final_gateway :: linear_gateway where
  "final_gateway = \<lparr>lg_store = final_store3, lg_authority = sample_authority\<rparr>"

definition final_world :: "nat git_guard finalizer_world" where
  \<comment> \<open>the commit is made and pushed, and a new process has a guard that remembers nothing\<close>
  "final_world = \<lparr>fz_gateway = final_gateway, fz_outside = new_guard 3, fz_ticks = 0\<rparr>"

lemma final_env_fields [simp]:
  "fd_git final_env = guard_capability sample_git" "fd_index final_env = final_index"
  "fd_policy final_env = sample_policy" "fd_artifacts final_env = final_artifacts"
  "fa_product final_artifacts = final_product" "fa_policy final_artifacts = sample_policy"
  "pm_baseline_sha final_product = sample_baseline" "fa_snapshot final_artifacts = final_snapshot"
  "fd_index_env final_env = sample_index_env"
  by (simp_all add: final_env_def final_artifacts_def final_product_def sample_product_def)

lemma final_approved: "approval_holds final_env fs final_ready"
proof -
  have bindings: "review_bindings final_env final_ready"
    by (simp add: review_bindings_def Let_def)
      (simp add: final_artifacts_def final_ready_def final_defined_def final_start_def sample_start_def new_run_state_def
        final_result_def final_manifest_def final_product_def final_statuses_def final_definitions_def sample_product_def)
  have evidence: "evidence_holds final_env final_ready"
    by (simp add: evidence_holds_def Let_def)
      (simp add: final_artifacts_def final_ready_def final_checkpoint_def final_build_def final_product_def
        final_verification_def verification_record_valid_def verification_checks_def sized_def sample_product_def
        browser_record_valid_def sample_skipped_def sample_outline_def tester_checks_def observation_checks_def
        bounded_text_def sample_evidence_valid trimmed_def, code_simp)
  show ?thesis
    using bindings evidence
    by (simp add: approval_holds_def final_snapshot_def)
      (simp add: final_ready_def final_defined_def final_start_def sample_start_def new_run_state_def has_preparation_binding_def)
qed

lemma final_projected [simp]: "projection_hash final_env = Inr final_projection"
proof -
  have "ix_bracketed sample_index_env = (\<lambda>_. False)" by (simp add: sample_index_env_def)
  with final_projection_hash show ?thesis by (auto simp: projection_hash_def)
qed

definition final_guard :: "nat git_guard" where
  "final_guard = sample_guard 3 (Some sample_commit)"

lemma final_verifies: "verify_commit sample_git sample_manifest sample_commit (sample_guard 3 a) = (Inr (), sample_guard 3 a)"
  by (simp add: verify_commit_def index_changed_paths_def verify_tree_entry_def raw_diff_def diff_renames_def sample_steps)

lemma final_inputs: "product_manifest_inputs final_product = Inr sample_manifest"
  by (simp add: product_manifest_inputs_def final_product_def sample_product_def git_manifest_valid_def
      Sample_Git.sample_change_def [symmetric] sample_manifest_def)

lemma final_git:
  "refresh_finalization sample_git ''T-1-fix'' sample_baseline (new_guard 3) = (Inr True, sample_guard 3 None)"
  "refresh_finalization sample_git ''T-1-fix'' sample_baseline final_guard = (Inr True, final_guard)"
  "reconcile_product_commit sample_git final_product (Some sample_commit) (sample_guard 3 a) =
     (Inr (Some sample_commit), final_guard)"
  "reconcile_product_push sample_git ''T-1-fix'' sample_commit final_guard = (Inr (Some sample_commit), final_guard)"
proof -
  have n: "branch_name_ok ''T-1-fix''" by code_simp
  show "refresh_finalization sample_git ''T-1-fix'' sample_baseline (new_guard 3) = (Inr True, sample_guard 3 None)"
    by (simp add: refresh_finalization_def sample_steps sample_snapshot_def switched_to_def new_guard_def sample_guard_def)
  show "refresh_finalization sample_git ''T-1-fix'' sample_baseline final_guard = (Inr True, final_guard)"
    by (simp add: final_guard_def refresh_finalization_def sample_steps sample_snapshot_def switched_to_def sample_guard_def)
  show "reconcile_product_commit sample_git final_product (Some sample_commit) (sample_guard 3 a) =
     (Inr (Some sample_commit), final_guard)"
    by (simp add: reconcile_product_commit_def final_inputs sample_steps final_verifies catch_mismatch_def
        approve_commit_def final_guard_def)
  show "reconcile_product_push sample_git ''T-1-fix'' sample_commit final_guard = (Inr (Some sample_commit), final_guard)"
    using n by (simp add: reconcile_product_push_def final_guard_def remote_heads_def branch_reference_def sample_steps)
qed

subsection \<open>One call of advance\<close>

lemma final_position:
  assumes "fz_outside w = new_guard 3 \<or> fz_outside w = final_guard"
  shows "verify_git_position final_env final_ready w = (Inr (), w\<lparr>fz_outside := final_guard\<rparr>)"
proof -
  obtain a where "outside Fz_Git (refresh_finalization sample_git ''T-1-fix'' sample_baseline) w
      = (Inr True, w\<lparr>fz_outside := sample_guard 3 a\<rparr>)"
    using assms final_git(1,2) by (auto simp: outside_def final_guard_def)
  moreover have "outside Fz_Git (reconcile_product_commit sample_git final_product (Some sample_commit))
      (w\<lparr>fz_outside := sample_guard 3 a\<rparr>) = (Inr (Some sample_commit), w\<lparr>fz_outside := final_guard\<rparr>)"
    "outside Fz_Git (reconcile_product_push sample_git ''T-1-fix'' sample_commit) (w\<lparr>fz_outside := final_guard\<rparr>)
      = (Inr (Some sample_commit), w\<lparr>fz_outside := final_guard\<rparr>)"
    by (simp_all add: outside_def final_git)
  ultimately show ?thesis
    by (simp add: verify_git_position_def guard_capability_def reconcile_commit_op_def reconcile_push_op_def
        bind_op_def return_op_def)
qed

lemma final_approval: "verify_approval final_env final_ready w = (Inr (), w)"
  using final_approved by (simp add: verify_approval_def with_store_def return_op_def)

lemma final_evidence_of: "evidence_of final_ready = Some final_evidence"
  using final_evidence_valid by (simp add: evidence_of_def Let_def final_evidence_def)

lemma final_lookup: "index_lookup final_env s w = (Inr (Some final_active), w)"
  by (simp add: index_lookup_def final_index_def outside_def return_op_def)

lemma final_active_binding: "run_id s = ''r1'' \<Longrightarrow> repository_id s = ''p1'' \<Longrightarrow> binding_of_active s final_active = Some final_binding"
  using final_binding_valid by (simp add: binding_of_active_def final_active_def final_binding_def Let_def)

definition world_at :: "run_store \<Rightarrow> nat git_guard \<Rightarrow> nat git_guard finalizer_world" where
  "world_at st g = \<lparr>fz_gateway = final_gateway\<lparr>lg_store := st\<rparr>, fz_outside = g, fz_ticks = 0\<rparr>"

lemma world_at_fields [simp]:
  "fz_store (world_at st g) = st" "fz_outside (world_at st g) = g"
  "(world_at st g)\<lparr>fz_outside := h\<rparr> = world_at st h"
  "(world_at st g)\<lparr>fz_gateway := (fz_gateway (world_at st g))\<lparr>lg_store := st'\<rparr>\<rparr> = world_at st' g"
  by (simp_all add: world_at_def)

lemma final_store_envs: "rs_env final_store3 = sample_env" "rs_env final_store4 = sample_env" "rs_run_id final_store3 = ''r1''"
  using final_stored(1,4) by (simp_all add: sample_like_def)

lemma final_to_done:
  "update_state (final_generation 3 final_ready) (done_update final_evidence final_binding) (world_at final_store3 g)
     = (Inr (final_generation 4 final_done), world_at final_store4 g)"
proof -
  have "model_copy (clean_of (rs_env final_store3)) (done_update final_evidence final_binding) final_ready = Inr final_done"
    using final_done_inv by (simp add: model_copy_def run_inv_def final_store_envs final_done_def)
  then show ?thesis
    using final_stored(3)
    by (simp add: update_state_def copy_state_def with_store_def swap_state_def bind_op_def result_op_def reading_def)
qed

lemma final_to_released:
  "mark_released (final_generation 4 final_done) (final_receipt (state_hash_of sample_env final_done)) (world_at final_store4 g)
     = (Inr (final_generation 5 final_released), world_at final_store5 g)"
proof -
  have "model_copy (clean_of (rs_env final_store4)) (released_update (final_receipt (state_hash_of sample_env final_done)))
      final_done = Inr final_released"
    using final_released_inv by (simp add: model_copy_def run_inv_def final_store_envs final_released_def)
  then show ?thesis
    using final_released_stored(1)
    by (simp add: mark_released_def update_state_def copy_state_def with_store_def swap_state_def bind_op_def
        result_op_def reading_def)
qed

lemma final_release:
  "release_active_run final_env (final_generation 4 final_done) (world_at final_store4 g)
     = (Inr (final_generation 5 final_released), world_at final_store5 g)"
proof -
  have ids: "ax_run_id final_active = Some ''r1''" by (simp add: final_active_def)
  have release: "attempt (with_store (\<lambda>st. outside Fz_Index (xc_release final_index st r i v h t))) (world_at st g)
      = (Inr (Some (final_receipt t)), world_at st g)"
    "with_store (\<lambda>st. outside Fz_Index (xc_verify final_index st q)) (world_at st g) = (Inr (), world_at st g)"
    for r i v h t st q
    by (simp_all add: final_index_def attempt_def with_store_def outside_def return_op_def)
  show ?thesis
    by (simp add: release_active_run_def Let_def bind_op_def final_lookup ids final_active_binding release
        final_to_released)
qed

definition final_step :: step_result where
  "final_step =
     \<lparr>sr_kind = STEP_DONE, sr_run_id = ''r1'', sr_state_revision = 5,
      sr_state_hash = state_hash_of sample_env final_released, sr_request_id = None, sr_stage = None,
      sr_action = None, sr_failure = None, sr_evidence = []\<rparr>"

lemma final_step_made: "step_outcome STEP_DONE (final_generation 5 final_released) None w = (Inr final_step, w)"
proof -
  have "run_id final_released = ''r1''" by (simp add: final_released_def)
  moreover have "step_result_valid final_step"
    by (simp add: final_step_def step_result_valid_def step_shape_ok_def digest_pattern sample_run_reference)
  ultimately show ?thesis
    by (simp add: step_outcome_def make_result_def Let_def result_op_def reading_def final_step_def)
qed

lemma final_completes:
  "complete_run final_env (final_generation 3 final_ready) (world_at final_store3 final_guard)
     = (Inr final_step, world_at final_store5 final_guard)"
proof -
  have v: "verified_position final_env final_ready (world_at final_store3 final_guard)
      = (Inr (), world_at final_store3 final_guard)"
    by (simp add: verified_position_def bind_op_def final_approval final_position)
  have b: "active_release_binding final_env final_ready w = (Inr final_binding, w)" for w
    by (simp add: active_release_binding_def bind_op_def final_lookup final_active_binding return_op_def)
      (simp add: final_active_def)
  show ?thesis
    by (simp add: complete_run_def Let_def bind_op_def attempt_def v b final_release
        final_evidence_of final_to_done final_step_made)
qed

lemma final_round:
  "finalizer_round final_env (final_generation 3 final_ready) (world_at final_store3 (new_guard 3))
     = (Inr (Returned final_step), world_at final_store5 final_guard)"
proof -
  have p: "verify_git_position final_env final_ready (world_at final_store3 (new_guard 3))
      = (Inr (), world_at final_store3 final_guard)"
    by (simp add: final_position)
  show ?thesis
    by (simp add: finalizer_round_def approved_round_def Let_def must_wait_def bind_op_def return_op_def
        attempt_def final_approval p result_op_def reading_def finished_def final_completes)
qed

lemma final_world_fields [simp]:
  "final_world = world_at final_store3 (new_guard 3)" "fz_gateway (world_at final_store3 g) = final_gateway"
  "lg_store final_gateway = final_store3"
  by (simp_all add: final_world_def world_at_def final_gateway_def)

lemma final_advance:
  "advance 7 final_env (final_generation 3 final_ready) final_world
     = (Inr (Some final_step), world_at final_store5 final_guard)"
proof -
  have "require_generation (final_generation 3 final_ready) (world_at final_store3 (new_guard 3))
      = (Inr (), world_at final_store3 (new_guard 3))"
    using final_stored(2) final_store_envs by (simp add: require_generation_Inr)
  then show ?thesis
    using final_round by (simp add: advance_def bind_op_def return_op_def numeral_eq_Suc)
qed

lemma final_finalization: "finalization final_env final_world (world_at final_store5 final_guard)"
  by (rule finalization.Advance [OF finalization.Start final_advance])

lemma final_start_world:
  "listing_ok (fz_store final_world)" "faithful (rs_env (fz_store final_world))"
  "load (fz_store final_world) = Inr (final_generation 3 final_ready)"
  "load (fz_store (world_at final_store5 final_guard)) = Inr (final_generation 5 final_released)"
  using final_stored(1,2) final_released_stored(2) sample_faithful final_store_envs by (simp_all add: sample_like_def)

end
