(* ===== verification/Finalizer_Guarantees.thy ===== *)
theory Finalizer_Guarantees
  imports Sample_Finalizer
begin

section \<open>Guarantees of the finalizer\<close>

subsection \<open>The loop returns\<close>

lemma advance_rounds_more:
  "fst (advance_rounds n env g w) \<noteq> Inr None \<Longrightarrow> advance_rounds (n + k) env g w = advance_rounds n env g w"
proof (induction n arbitrary: g w)
  case 0
  then show ?case by (simp add: return_op_def)
next
  case (Suc n)
  obtain r w1 where r: "finalizer_round env g w = (r, w1)" by fastforce
  show ?case
  proof (cases "\<exists>g'. r = Inr (Again g')")
    case True
    with r Suc show ?thesis by (auto simp: bind_op_def)
  next
    case False
    with r show ?thesis by (cases r) (auto simp: bind_op_def return_op_def split: round_result.split)
  qed
qed

text \<open>C12: \<^verbatim>\<open>advance\<close> always returns or raises: from any generation, in any world, its \<^verbatim>\<open>while True\<close> loop
  ends within seven rounds, and more rounds change nothing.\<close>
theorem advance_returns:
  "fst (advance 7 env g w) \<noteq> Inr None \<and> advance (7 + k) env g w = advance 7 env g w"
proof -
  have r: "fst (advance_rounds 7 env g w') \<noteq> Inr None" for w'
    using rounds_enough [OF rounds_left_bound] by (metis prod.collapse)
  obtain q w1 where q: "require_generation g w = (q, w1)" by fastforce
  show ?thesis
    using r advance_rounds_more [OF r] q by (cases q) (auto simp: advance_def bind_op_def)
qed

subsection \<open>Refinement\<close>

text \<open>C17: The finalizer implements its moves: whatever calls of \<^verbatim>\<open>advance\<close> and
  \<^verbatim>\<open>accept_trusted_receipt\<close> are made on a stored run, with whatever generations and receipts,
  whether they return or raise, and whatever else happens in between, the run that is stored
  afterwards is one that a chain of moves leads to.\<close>
theorem finalization_follows_moves:
  assumes "finalization env w v" and "listing_ok (fz_store w)" "faithful (rs_env (fz_store w))"
    and "load (fz_store w) = Inr p"
  shows "\<exists>q. load (fz_store v) = Inr q \<and> moves env (fz_gateway w) (sg_state p) (sg_state q)"
  by (rule finalization_moves [OF assms])

lemma finalization_follows_moves_applied:
  "moves final_env final_gateway final_ready final_released"
  using finalization_follows_moves [OF final_finalization final_start_world(1-3)] final_start_world(4) by simp



subsection \<open>A run that is DONE\<close>

text \<open>C29: A finalization makes a run DONE only from a state in which the approval held and Git
  confirmed branch, commit and push; its evidence is what that state had recorded, with the
  projection of the reviewed snapshot, and with a receipt for the ticket that was recorded before
  or is signed by the bridge and reports the completed state.\<close>
theorem done_run_was_verified:
  assumes "finalization env w v" and "listing_ok (fz_store w)" "faithful (rs_env (fz_store w))"
    and "load (fz_store w) = Inr p" and "load (fz_store v) = Inr q"
    and "disposition (sg_state p) \<noteq> DONE" and "disposition (sg_state q) = DONE"
  shows "\<exists>u e. moves env (fz_gateway w) (sg_state p) u
    \<and> finalization_evidence (sg_state q) = Some e \<and> evidence_of u = Some e
    \<and> (\<exists>fs. approval_holds env fs u) \<and> git_confirms env u
    \<and> projection_hash env = Inr (fe_prefinalization_ticket_projection e)
    \<and> receipt_backed env (fz_gateway w) (sg_state p) u"
proof -
  have "moves env (fz_gateway w) (sg_state p) (sg_state q)"
    using finalization_moves [OF assms(1-4)] assms(5) by simp
  from moves_done [OF this assms(7,6)] obtain u
    where u: "moves env (fz_gateway w) (sg_state p) u" "completed_from env u (sg_state q)" by blast
  with position_confirmed [of env u] moves_receipt [OF u(1)] show ?thesis
    by (auto simp: completed_from_def)
qed

lemma final_released_fields [simp]:
  "disposition final_released = DONE" "finalization_evidence final_released = Some final_evidence"
  by (simp_all add: final_released_def)

lemma done_run_was_verified_applied:
  "\<exists>u. moves final_env final_gateway final_ready u \<and> evidence_of u = Some final_evidence
     \<and> git_confirms final_env u \<and> projection_hash final_env = Inr final_projection"
  using done_run_was_verified [OF final_finalization final_start_world] by auto

lemma guard_push_seen:
  assumes "read_only setup"
    and "gc_reconcile_push (guard_capability setup) (Some name) (Some c) g = (Inr (Some c), g')"
  shows "remote_branch_at setup name (gd_world g) = Some c"
proof -
  have "\<exists>heads h. remote_heads setup (branch_reference name) g = (Inr heads, h) \<and> remote_head heads = Inr (Some c)"
    using assms(2) by (auto simp: guard_capability_def reconcile_product_push_def bind_op_Inr split: if_splits)
  then show ?thesis using remote_branch_answer [OF assms(1)] by metis
qed



end
