(* ===== verification/Spec2Isabelle.thy ===== *)
theory Spec2Isabelle
  imports Store_Guarantees Supervisor_Guarantees Transition_Guarantees Component_Guarantees Unit_Guarantees Ticket_Laws
    Gateway_Guarantees Index_Guarantees Git_Guarantees Finalizer_Guarantees
begin

text \<open>
  \<^bold>\<open>auto-code: the verification development.\<close>

  auto-code drives a ticket through a fixed pipeline of stages (analyst, architect,
  programmer, verification, tester, reviewer) that are executed by models and tools.  What
  it must never get wrong is the bookkeeping around them: which stage may run, what a run
  may become next, which external effects happened, which human decision allowed what, and
  that all of it survives crashes and concurrent writers.  This development models that
  core, under \<^verbatim>\<open>src/src/auto_code/\<close>, and proves it correct.

  \<^bold>\<open>The parts and how they interact.\<close>

  \<^item> A \<^emph>\<open>run state\<close> (\<^verbatim>\<open>contracts.py\<close>) is one immutable record with everything known about a
    run.  \<open>Contracts\<close> holds the models it is made of, \<open>Run_State\<close> the record itself,
    \<open>Run_Contract\<close> its validators in the order the code runs them (\<open>model_validate\<close>,
    \<open>model_copy\<close>), \<open>Effect_Ledger\<close> the validator of the log of external effects with an
    abstract specification of the histories it accepts.  \<open>Regex\<close> and \<open>Contract_Text\<close> are the
    text patterns, run by a matcher that is proved equal to a relational semantics.
  \<^item> \<open>Hashing\<close> (\<^verbatim>\<open>hashing.py\<close>) is SHA-256, HMAC and canonical JSON, \<open>Json_Reader\<close> the strict
    reader of \<^verbatim>\<open>state.py\<close> and its round trip, \<open>Durable_Files\<close> the write-once and replacing
    file operations of \<^verbatim>\<open>state.py\<close> as atomic steps on a file tree.
  \<^item> \<open>Router\<close>, \<open>Router_Laws\<close> (\<^verbatim>\<open>router.py\<close>): the dependency graph of the stages, the next
    stage, invalidation, and what a failure leads to.
  \<^item> \<open>Checkpoints\<close> (\<^verbatim>\<open>checkpoint.py\<close>): the registry of settled stages.
  \<^item> \<open>Activation\<close> (\<^verbatim>\<open>runner.py\<close>): the values that bind a run to a runner release, and which
    checkpoints survive a change of the runner.
  \<^item> \<open>Receipts\<close>, \<open>Receipt_Laws\<close> (\<^verbatim>\<open>contracts.py\<close>, \<^verbatim>\<open>state.py\<close>): receipts signed by the bridge.
  \<^item> \<open>State_Transition\<close>, \<open>Transition_Laws\<close> (\<^verbatim>\<open>state.py\<close>, \<^verbatim>\<open>_validate_transition\<close>): whether
    one run state may follow another.  Every rule is a list of conditions and errors in the
    order of the code.
  \<^item> \<open>State_Store\<close>, \<open>Store_Laws\<close>, \<open>Store_Progress\<close>, \<open>Crash_Recovery\<close>, \<open>Run_History\<close>
    (\<^verbatim>\<open>state.py\<close>, \<^verbatim>\<open>RunStateStore\<close>): generation files, the pointer file, loading and
    compare-and-swap; its abstract specification is a history of accepted transitions.
  \<^item> \<open>Supervisor\<close>, \<open>Supervisor_Laws\<close> (\<^verbatim>\<open>supervisor.py\<close>): one step of the run: pick a stage,
    execute it, issue and store its checkpoint, or route its failure.
  \<^item> \<open>Units\<close> (\<^verbatim>\<open>contracts.py\<close>): the contracts of what the stages exchange.
  \<^item> \<open>Url\<close>, \<open>Project_Policy\<close>, \<open>Policy_Laws\<close> (\<^verbatim>\<open>project_config.py\<close>): the policy of a project,
    its hash, and the expansion of launcher tokens.  \<open>Url\<close> is \<^verbatim>\<open>urlsplit\<close> of the Python
    library.
  \<^item> \<open>Git_Text\<close> (\<^verbatim>\<open>git.py\<close>): the values Git is given and the parsers of what it prints.
    \<open>Git_Host\<close>, \<open>Git_Guard\<close> and \<open>Git_Commit\<close> are the class \<^verbatim>\<open>GitGuard\<close> on top of them: an
    executor that answers argument arrays and moves a world of its own; the preflight, the
    remote and the ticket branch; the manifest of the working tree, its commit, the
    verification and push of the commit, and their reconciliation.  \<open>Git_Laws\<close> states what
    the executor may do as two locales, for reading commands and for all commands, and
    carries every operation through them; \<open>Git_History\<close> holds the states a guard reaches,
    with a log of the commands, and what a guard reads when reading changes nothing;
    \<open>Git_Review\<close> follows the approved commit, the commit of a manifest and its collection.
  \<^item> \<open>Manifests\<close> (\<^verbatim>\<open>manifests.py\<close>, \<^verbatim>\<open>verification.py\<close>): the product manifest, the build
    identity, the run of the verification commands, and the review manifest.
  \<^item> \<open>Tickets\<close>, \<open>Ticket_Laws\<close> (\<^verbatim>\<open>contracts.py\<close>): the sanitizer of untrusted text, the
    snapshot of a ticket with its content hash, and what a projection shows of it.
  \<^item> \<open>Ticket_Selection\<close> (\<^verbatim>\<open>linear.py\<close>): which ticket of a response a run takes.
    \<open>Linear_Gateway\<close>, \<open>Gateway_Laws\<close>: a request for an external effect becomes the pending
    request of the run state, a signed receipt its recorded answer, both by one swap of the
    store; \<open>Sample_Gateway\<close> is a request with its answer.
  \<^item> \<open>Preparation\<close> (\<^verbatim>\<open>contracts.py\<close>): the contracts of the preparation of a repository.
  \<^item> \<open>Operations\<close>: the operations on a state that may raise, which the run index and the Git
    guard are written in, with the rules that walk a property through them.
  \<^item> \<open>Index_World\<close>, \<open>Index_Records\<close>, \<open>Run_Index\<close>, \<open>Run_Claims\<close>, \<open>Index_Laws\<close>
    (\<^verbatim>\<open>run_index.py\<close>): the index of the runs of all repositories.  \<open>Index_World\<close> is the state:
    the files, the stores of the runs, and a number of writes that are still possible, so
    that a process that dies after any write is a run with a smaller number; its operations
    are sequences of reads, writes and refusals.  \<open>Index_Records\<close> are the entries, journals,
    claims and bindings as they are written and read; \<open>Run_Index\<close> reserves a slot of a
    repository and activates it as a run; \<open>Run_Claims\<close> binds terminal runs to the slot and
    releases it; \<open>Index_Laws\<close> proves that a run has one repository in every world the
    operations reach, crashes included.  \<open>Index_Recovery\<close> is a logic of triples with a crash
    condition for these operations; with it \<open>Activation_Recovery\<close> and \<open>Activation_Replay\<close>
    follow an activation through the stages its nine writes leave on the disk, from each of
    which the repeated request succeeds.

  \<^item> \<open>Finalizer\<close> (\<^verbatim>\<open>finalizer.py\<close>, with the published context of \<^verbatim>\<open>prepare.py\<close>): it takes an
    approved run through commit, push, completion of the ticket and release of its slot.  The
    Git guard and the run index are records of operations on a world outside, as the code looks
    up their methods by name; the run is in the store of the gateway.  \<open>Finalizer_Laws\<close> shows
    that every round of the loop leaves less to do, so that seven rounds are enough.
    \<open>Finalizer_Moves\<close> is the abstract specification, one relation on run states with a rule per
    durable step, and what every chain of moves keeps; \<open>Finalizer_Steps\<close> proves with the
    judgement \<open>post_op\<close> of \<open>Operations\<close> that every operation makes only such moves;
    \<open>Finalizer_History\<close> follows whole finalizations, with the rest of the world in between, and
    puts the Git guard in the place of the capability; \<open>Sample_Finalizer\<close> is an approved run
    that one call of \<^verbatim>\<open>advance\<close> makes DONE and releases.

  \<^bold>\<open>Where the properties are.\<close>  \<open>Store_Guarantees\<close>: refinement of the store to a history,
  growth of a run, iteration budget, life cycle, exactness of compare-and-swap, round trip,
  exclusion of concurrent writers, recovery from a crash.  \<open>Supervisor_Guarantees\<close>: what a
  step can do.  \<open>Transition_Guarantees\<close>: waiting runs, human review, iterations, terminal
  states, pending requests, checked tasks.  \<open>Component_Guarantees\<close>: router, ledger,
  checkpoints, JSON files, receipts.  \<open>Unit_Guarantees\<close>: policy, Git, manifests,
  verification.  \<open>Ticket_Laws\<close>: tickets.  \<open>Gateway_Guarantees\<close>: selection, requests and
  receipts.  \<open>Index_Guarantees\<close>: the run index.  \<open>Git_Guarantees\<close>: the commands of the guard,
  the manifest it collects, what it commits and pushes.  \<open>Finalizer_Guarantees\<close>: the loop of the
  finalizer ends, it follows its moves, keeps the limits of the policy, and what is true of a run
  it made DONE.  \<open>Sample_World\<close>, \<open>Sample_Receipts\<close>,
  \<open>Sample_Index\<close>, \<open>Sample_Git\<close>, \<open>Sample_Finalizer\<close>, \<open>Countable_State\<close> and \<open>Digest_Text\<close> hold the concrete states the properties are applied to.  The interfaces between the
  components are locales: of durable files in \<open>Durable_Files\<close>, of the checkpoint authority in
  \<open>Checkpoints\<close>, of a versioned store in \<open>Run_History\<close> and of the executor of Git in \<open>Git_Laws\<close>, each interpreted on the model of the component that provides it.

  \<^bold>\<open>Conventions.\<close>  Times are integers, durations rationals, text is ASCII.  A raised
  exception is the left side of a sum, in the order of the checks.  Mappings of digests are
  association lists, ordered by key where the code sorts them.  Recursions whose argument
  does not shrink structurally have a measure, so every function of the model is total.  Fuel
  is used in the matcher of repetitions, where a repetition must consume a character as in
  Python's \<^verbatim>\<open>re\<close>, and for the \<^verbatim>\<open>while True\<close> loop of the finalizer, where seven rounds are proved
  to be enough.

  \<^bold>\<open>Parameters.\<close>  The dump and validation of a run state by pydantic (with its documented
  round trip as the hypothesis \<open>faithful\<close>, which \<open>sample_env\<close> satisfies), Ed25519, the text
  sanitizer the store is given, the text of a time and its reader, the verifier of human authorizations, the
  executor of a stage, the runner of processes, the executor of Git commands with the
  \<^verbatim>\<open>lstat\<close>, \<^verbatim>\<open>walk\<close> and \<^verbatim>\<open>stat\<close> of the working tree, the YAML reader and the check of bracketed
  hosts are arguments of the definitions.  The finalizer takes its clock and the identifiers it
  draws as functions of a tick.

  \<^bold>\<open>Not modelled.\<close>  Process control (\<^verbatim>\<open>process.py\<close>, \<^verbatim>\<open>launcher.py\<close>), the calls of models,
  browsers and HTTP services (\<^verbatim>\<open>crew.py\<close>, \<^verbatim>\<open>browser.py\<close>, \<^verbatim>\<open>model_*.py\<close>, \<^verbatim>\<open>catalog_preflight.py\<close>),
  the command line, and the parts of the program that compose the modelled ones for a whole
  session (\<^verbatim>\<open>prepare.py\<close>, \<^verbatim>\<open>repair.py\<close>, \<^verbatim>\<open>finalization_service.py\<close>,
  \<^verbatim>\<open>openspec.py\<close>, \<^verbatim>\<open>mcp_bridge.py\<close>).  File descriptors, \<^verbatim>\<open>fsync\<close> and locks are the atomicity of
  the file operations, and a file of the working tree does not change while it is hashed.
\<close>

end
